(* ===== verification/Prelude.thy ===== *)
theory Prelude
  imports Main "HOL-Library.List_Lexorder" "HOL-Library.Char_ord" "HOL-Library.Product_Lexorder"
    "HOL-Library.AList"
begin

text \<open>
  What the components share: the collections of hints the proofs of the library draw on, the
  JavaScript idioms the sources use everywhere (\<open>rows.at(0)\<close>, \<open>Set\<close> deduplication,
  string helpers on ASCII), and generic facts about lists.
  A JavaScript string is a list of characters; the code points above 127 never matter to
  the parts modelled here (ids, tokens, e-mail addresses, header values).
\<close>

named_theorems run_simps
  \<open>inversion equations: what it means for a program to end in a given exit\<close>

named_theorems sql_defs
  \<open>the definitions of the SQL statements of the repositories\<close>

named_theorems wf_intros
  \<open>the statements of the repositories keep the integrity constraints of the schema\<close>

type_synonym id = string
type_synonym millis = int

section \<open>Rows\<close>

text \<open>\<open>rows.at(0)\<close>: the first element, or \<open>undefined\<close>.\<close>

definition at0 :: "'a list \<Rightarrow> 'a option" where
  "at0 xs = (case xs of [] \<Rightarrow> None | x # _ \<Rightarrow> Some x)"

lemma at0_Nil [simp]: "at0 [] = None"
  by (simp add: at0_def)

lemma at0_Cons [simp]: "at0 (x # xs) = Some x"
  by (simp add: at0_def)

lemma at0_None_iff [simp]: "at0 xs = None \<longleftrightarrow> xs = []"
  by (simp add: at0_def split: list.splits)

lemma at0_SomeD: "at0 xs = Some x \<Longrightarrow> x \<in> set xs"
  by (auto simp: at0_def split: list.splits)

lemma at0_filter_SomeD: "at0 (filter P xs) = Some x \<Longrightarrow> x \<in> set xs \<and> P x"
  by (auto dest: at0_SomeD)

lemma at0_filter_None_iff: "at0 (filter P xs) = None \<longleftrightarrow> (\<forall>x\<in>set xs. \<not> P x)"
  by (auto simp: filter_empty_conv)

text \<open>An \<open>UPDATE \<dots> SET \<dots> WHERE\<close> on a table: the rows that match are rewritten in place.\<close>

definition updateWhere :: "('a \<Rightarrow> bool) \<Rightarrow> ('a \<Rightarrow> 'a) \<Rightarrow> 'a list \<Rightarrow> 'a list" where
  "updateWhere P f xs = map (\<lambda>x. if P x then f x else x) xs"

lemma in_updateWhere:
  "y \<in> set (updateWhere P f xs) \<longleftrightarrow> (\<exists>x\<in>set xs. y = (if P x then f x else x))"
  by (auto simp: updateWhere_def)

lemma updateWhere_Nil [simp]: "updateWhere P f [] = []"
  by (simp add: updateWhere_def)

lemma updateWhere_Cons [simp]:
  "updateWhere P f (x # xs) = (if P x then f x else x) # updateWhere P f xs"
  by (simp add: updateWhere_def)

lemma length_updateWhere [simp]: "length (updateWhere P f xs) = length xs"
  by (simp add: updateWhere_def)

lemma map_key_updateWhere:
  "(\<And>x. P x \<Longrightarrow> k (f x) = k x) \<Longrightarrow> map k (updateWhere P f xs) = map k xs"
  by (auto simp: updateWhere_def)

lemma updateWhere_idle: "(\<And>x. x \<in> set xs \<Longrightarrow> \<not> P x) \<Longrightarrow> updateWhere P f xs = xs"
  by (induction xs) auto

lemma filter_updateWhere_same:
  "(\<And>x. P x \<Longrightarrow> Q (f x) = Q x) \<Longrightarrow>
    filter Q (updateWhere P f xs) = updateWhere P f (filter Q xs)"
  by (induction xs) auto

lemma filter_updateWhere_untouched:
  "(\<And>x. P x \<Longrightarrow> Q (f x) = Q x) \<Longrightarrow> (\<And>x. Q x \<Longrightarrow> \<not> P x) \<Longrightarrow>
    filter Q (updateWhere P f xs) = filter Q xs"
  by (induction xs) auto

lemma distinct_map_filterI: "distinct (map k xs) \<Longrightarrow> distinct (map k (filter P xs))"
  by (induction xs) auto

lemma distinct_map_unique:
  "distinct (map k xs) \<Longrightarrow> x \<in> set xs \<Longrightarrow> y \<in> set xs \<Longrightarrow> k x = k y \<Longrightarrow> x = y"
  by (auto simp: distinct_map inj_on_def)

lemma filter_key_single:
  "distinct (map k xs) \<Longrightarrow> x \<in> set xs \<Longrightarrow> filter (\<lambda>y. k y = k x) xs = [x]"
proof (induction xs)
  case (Cons a xs)
  show ?case
  proof (cases "a = x")
    case True
    with Cons.prems(1) have "filter (\<lambda>y. k y = k x) xs = []"
      by (auto simp: filter_empty_conv) (metis image_eqI)
    with True show ?thesis by simp
  next
    case False
    with Cons.prems have "k a \<noteq> k x" by auto
    with False Cons show ?thesis by simp
  qed
qed simp

lemma length_filter_ge_2:
  "distinct (map k xs) \<Longrightarrow> x \<in> set xs \<Longrightarrow> P x \<Longrightarrow> length (filter P xs) \<noteq> 1 \<Longrightarrow>
    \<exists>y\<in>set xs. P y \<and> k y \<noteq> k x"
proof (rule ccontr)
  assume d: "distinct (map k xs)" and x: "x \<in> set xs" "P x"
    and n: "length (filter P xs) \<noteq> 1" and none: "\<not> (\<exists>y\<in>set xs. P y \<and> k y \<noteq> k x)"
  have all: "\<And>y. y \<in> set (filter P xs) \<Longrightarrow> y = x"
  proof -
    fix y assume "y \<in> set (filter P xs)"
    with none have "y \<in> set xs" "k y = k x" by auto
    with distinct_map_unique[OF d] x show "y = x" by blast
  qed
  have "distinct (filter P xs)" using d by (simp add: distinct_map)
  moreover have "x \<in> set (filter P xs)" using x by simp
  then have "set (filter P xs) = {x}" using all by blast
  ultimately have "length (filter P xs) = 1"
    using distinct_card[of "filter P xs"] by simp
  with n show False by simp
qed

lemma length_filter_eq_1_unique:
  assumes "length (filter P xs) = 1" "x \<in> set xs" "P x" "y \<in> set xs" "P y"
  shows "x = y"
proof -
  from assms(1) obtain z where z: "filter P xs = [z]"
    by (metis One_nat_def length_0_conv length_Suc_conv)
  have "x \<in> set (filter P xs)" "y \<in> set (filter P xs)" using assms(2-) by auto
  then show ?thesis unfolding z by simp
qed

lemma length_filter_pos_iff: "0 < length (filter P xs) \<longleftrightarrow> (\<exists>x\<in>set xs. P x)"
  by (auto simp: filter_empty_conv)

text \<open>\<open>[...new Set(xs)]\<close>: the distinct elements, in order of first occurrence.\<close>

fun dedupe :: "'a list \<Rightarrow> 'a list" where
  "dedupe [] = []"
| "dedupe (x # xs) = x # filter (\<lambda>y. y \<noteq> x) (dedupe xs)"

lemma set_dedupe [simp]: "set (dedupe xs) = set xs"
  by (induction xs) auto

lemma distinct_dedupe [simp]: "distinct (dedupe xs)"
  by (induction xs) auto

section \<open>Strings\<close>

text \<open>\<open>toLowerCase\<close> (and SQL \<open>lower\<close>) on the ASCII letters.\<close>

definition lowerChar :: "char \<Rightarrow> char" where
  "lowerChar c =
    (let n = of_char c :: nat in if 65 \<le> n \<and> n \<le> 90 then char_of (n + 32) else c)"

definition toLowerCase :: "string \<Rightarrow> string" where
  "toLowerCase s = map lowerChar s"

lemma lowerChar_idem [simp]: "lowerChar (lowerChar c) = lowerChar c"
  by (auto simp: lowerChar_def Let_def)

lemma toLowerCase_idem [simp]: "toLowerCase (toLowerCase s) = toLowerCase s"
  by (simp add: toLowerCase_def)

text \<open>The whitespace \<open>String.prototype.trim\<close> removes, within ASCII and the no-break space.\<close>

definition isSpace :: "char \<Rightarrow> bool" where
  "isSpace c \<longleftrightarrow> (of_char c :: nat) \<in> {9, 10, 11, 12, 13, 32, 160}"

definition trim :: "string \<Rightarrow> string" where
  "trim s = rev (dropWhile isSpace (rev (dropWhile isSpace s)))"

definition startsWith :: "string \<Rightarrow> string \<Rightarrow> bool" where
  "startsWith s p \<longleftrightarrow> take (length p) s = p"

definition endsWith :: "string \<Rightarrow> string \<Rightarrow> bool" where
  "endsWith s p \<longleftrightarrow> startsWith (rev s) (rev p)"

lemma startsWith_iff: "startsWith s p \<longleftrightarrow> (\<exists>t. s = p @ t)"
  by (auto simp: startsWith_def) (metis append_take_drop_id)

lemma startsWith_append [simp]: "startsWith (p @ t) p"
  by (simp add: startsWith_def)

text \<open>\<open>s.split(sep)\<close> for a separator of one character.\<close>

fun splitOn :: "char \<Rightarrow> string \<Rightarrow> string list" where
  "splitOn c [] = [[]]"
| "splitOn c (x # xs) =
    (if x = c then [] # splitOn c xs
     else case splitOn c xs of [] \<Rightarrow> [[x]] | y # ys \<Rightarrow> (x # y) # ys)"

lemma splitOn_not_Nil [simp]: "splitOn c s \<noteq> []"
  by (induction s) (auto split: list.splits)

lemma splitOn_no_sep: "c \<notin> set s \<Longrightarrow> splitOn c s = [s]"
  by (induction s) auto

lemma splitOn_append: "splitOn c (s @ c # t) = splitOn c s @ splitOn c t"
  by (induction s) (auto split: list.splits)

lemma splitOn_parts_free: "p \<in> set (splitOn c s) \<Longrightarrow> c \<notin> set p"
  by (induction s arbitrary: p) (auto split: list.splits if_splits)

section \<open>Numbers as strings\<close>

text \<open>\<open>String(n)\<close> for a natural number, and \<open>Number(s)\<close> for a string of digits.\<close>

definition digitChar :: "nat \<Rightarrow> char" where
  "digitChar n = char_of (48 + n)"

definition isDigit :: "char \<Rightarrow> bool" where
  "isDigit c \<longleftrightarrow> 48 \<le> (of_char c :: nat) \<and> (of_char c :: nat) \<le> 57"

definition digitValue :: "char \<Rightarrow> nat" where
  "digitValue c = of_char c - 48"

fun showNat :: "nat \<Rightarrow> string" where
  "showNat n = (if n < 10 then [digitChar n] else showNat (n div 10) @ [digitChar (n mod 10)])"

declare showNat.simps [simp del]

definition readDigits :: "string \<Rightarrow> nat" where
  "readDigits s = foldl (\<lambda>acc c. 10 * acc + digitValue c) 0 s"

definition parseNat :: "string \<Rightarrow> nat option" where
  "parseNat s = (if s \<noteq> [] \<and> list_all isDigit s then Some (readDigits s) else None)"

lemma digitChar_props:
  assumes "n < 10" shows "isDigit (digitChar n)" "digitValue (digitChar n) = n"
  using assms by (simp_all add: isDigit_def digitChar_def digitValue_def)

lemma readDigits_snoc: "readDigits (s @ [c]) = 10 * readDigits s + digitValue c"
  by (simp add: readDigits_def)

lemma showNat_digits: "list_all isDigit (showNat n) \<and> showNat n \<noteq> []"
proof (induction n rule: showNat.induct)
  case (1 n)
  then show ?case
    by (subst (1 2) showNat.simps) (auto simp: digitChar_props list_all_iff)
qed

lemma readDigits_showNat: "readDigits (showNat n) = n"
proof (induction n rule: showNat.induct)
  case (1 n)
  show ?case
  proof (cases "n < 10")
    case True
    then show ?thesis by (simp add: showNat.simps[of n] readDigits_def digitChar_props)
  next
    case False
    with 1 show ?thesis
      by (simp add: showNat.simps[of n] readDigits_snoc digitChar_props)
  qed
qed

lemma parseNat_showNat [simp]: "parseNat (showNat n) = Some n"
  using showNat_digits[of n] by (simp add: parseNat_def readDigits_showNat)

lemma showNat_inj: "showNat m = showNat n \<Longrightarrow> m = n"
  by (metis readDigits_showNat)

text \<open>\<open>s.padStart(n, c)\<close>.\<close>

definition padStart :: "nat \<Rightarrow> char \<Rightarrow> string \<Rightarrow> string" where
  "padStart n c s = replicate (n - length s) c @ s"

end
