(* ===== verification/Enums.thy ===== *)
theory Enums
  imports Prelude
begin

text \<open>
  The closed vocabularies of \<open>db/enums.ts\<close> and \<open>db/schema.ts\<close>, and the role policy of
  \<open>src/membership/policy.ts\<close>. A role is always one of three values (a CHECK constraint of the
  schema), ordered by \<open>ROLE_LEVEL\<close>; the order is made an instance of the library's
  \<open>linorder\<close>, so that \<open>isAtLeast\<close> is its comparison.
\<close>

datatype role = OWNER | ADMIN | MEMBER

datatype org_code = PERSONAL | CORPORATE

datatype activation_status = ACTIVE | DELETED

datatype invitation_status = PENDING | ACCEPTED | REVOKED

definition ROLES :: "role list" where
  "ROLES = [OWNER, ADMIN, MEMBER]"

definition ORG_CODES :: "org_code list" where
  "ORG_CODES = [PERSONAL, CORPORATE]"

fun ROLE_LEVEL :: "role \<Rightarrow> nat" where
  "ROLE_LEVEL MEMBER = 0"
| "ROLE_LEVEL ADMIN = 1"
| "ROLE_LEVEL OWNER = 2"

lemma ROLE_LEVEL_inj: "ROLE_LEVEL a = ROLE_LEVEL b \<Longrightarrow> a = b"
  by (cases a; cases b) auto

instantiation role :: linorder
begin

definition less_eq_role :: "role \<Rightarrow> role \<Rightarrow> bool" where
  "less_eq_role a b \<longleftrightarrow> ROLE_LEVEL a \<le> ROLE_LEVEL b"

definition less_role :: "role \<Rightarrow> role \<Rightarrow> bool" where
  "less_role a b \<longleftrightarrow> ROLE_LEVEL a < ROLE_LEVEL b"

instance
  by standard (auto simp: less_eq_role_def less_role_def intro: ROLE_LEVEL_inj)

end

definition isAtLeast :: "role \<Rightarrow> role \<Rightarrow> bool" where
  "isAtLeast role minRole \<longleftrightarrow> ROLE_LEVEL role \<ge> ROLE_LEVEL minRole"

definition canChangeRole :: "role \<Rightarrow> role \<Rightarrow> role \<Rightarrow> bool" where
  "canChangeRole actorRole beforeRole nextRole =
    (let touchesOwner = (beforeRole = OWNER \<or> nextRole = OWNER)
     in if touchesOwner then actorRole = OWNER else True)"

definition canInviteRole :: "role \<Rightarrow> role \<Rightarrow> bool" where
  "canInviteRole actorRole invitedRole =
    (if invitedRole = OWNER then actorRole = OWNER else True)"

definition canAttemptRemoval :: "role \<Rightarrow> bool \<Rightarrow> bool" where
  "canAttemptRemoval actorRole isSelf \<longleftrightarrow> isSelf \<or> isAtLeast actorRole ADMIN"

definition canRemoveTarget :: "role \<Rightarrow> bool \<Rightarrow> role \<Rightarrow> bool" where
  "canRemoveTarget actorRole isSelf targetRole \<longleftrightarrow>
    \<not> (targetRole = OWNER \<and> \<not> isSelf \<and> actorRole \<noteq> OWNER)"

datatype inviter_seen = Demoted role | Missing

datatype inviter_verdict = Accept | Reject inviter_seen

definition verifyInviter :: "role option \<Rightarrow> inviter_verdict" where
  "verifyInviter found =
    (case found of
       None \<Rightarrow> Reject Missing
     | Some r \<Rightarrow> if r = OWNER then Accept else Reject (Demoted r))"

lemma isAtLeast_le: "isAtLeast r m \<longleftrightarrow> m \<le> r"
  by (simp add: isAtLeast_def less_eq_role_def)

lemma isAtLeast_OWNER [simp]: "isAtLeast r OWNER \<longleftrightarrow> r = OWNER"
  by (cases r) (auto simp: isAtLeast_def)

lemma isAtLeast_ADMIN [simp]: "isAtLeast r ADMIN \<longleftrightarrow> r \<noteq> MEMBER"
  by (cases r) (auto simp: isAtLeast_def)

lemma isAtLeast_MEMBER [simp]: "isAtLeast r MEMBER"
  by (cases r) (auto simp: isAtLeast_def)

lemma verifyInviter_Accept_iff: "verifyInviter found = Accept \<longleftrightarrow> found = Some OWNER"
  by (auto simp: verifyInviter_def split: option.splits)

lemma verifyInviter_never_demotes_owner: "verifyInviter found \<noteq> Reject (Demoted OWNER)"
  by (auto simp: verifyInviter_def split: option.splits)

end
