(* ===== verification/Failures.thy ===== *)
theory Failures
  imports Enums
begin

text \<open>
  The failures of the program: the tagged errors of \<open>src/failures.ts\<close>, \<open>src/errors.ts\<close>,
  \<open>src/service-key.ts\<close> and of the \<open>errors.ts\<close> of each domain, with the \<open>httpApiStatus\<close> annotation
  that makes a failure visible to the client. A boundary error (database, better-auth,
  TTL store, mail) carries a cause that the model leaves out: nothing branches on it.
\<close>

datatype failure =
    Unauthorized | Forbidden | NotFound | InvalidArgument | RateLimited
  | LastOwner | AlreadyOwner
  | AlreadyExists
  | NotFoundOrNotPending | EmailMismatch | ExpiredOrUsed
  | InvalidCode | Locked | ChallengeExpired | AlreadyEnabled | EnrollmentChanged | NotEnabled
  | MfaNotFound
  | ServiceKeyRejected | ServiceKeyMisconfigured
  | DoubleAccept | InviterNotOwner inviter_seen
  | SessionRejected
  | AttemptBudgetExhausted | AttemptBudgetUnavailable
  | UnmappedPrimaryAuthRoute
  | DbError | AuthApiError | TtlStoreError | EmailError

text \<open>
  \<open>httpApiStatus\<close>, the annotation of the failures declared with \<open>Schema.TaggedError\<close>;
  the failures declared with \<open>Data.TaggedError\<close> have none.
\<close>

fun httpApiStatus :: "failure \<Rightarrow> nat option" where
  "httpApiStatus Unauthorized = Some 401"
| "httpApiStatus Forbidden = Some 403"
| "httpApiStatus NotFound = Some 404"
| "httpApiStatus InvalidArgument = Some 400"
| "httpApiStatus RateLimited = Some 429"
| "httpApiStatus LastOwner = Some 409"
| "httpApiStatus AlreadyOwner = Some 400"
| "httpApiStatus AlreadyExists = Some 409"
| "httpApiStatus NotFoundOrNotPending = Some 404"
| "httpApiStatus EmailMismatch = Some 403"
| "httpApiStatus ExpiredOrUsed = Some 410"
| "httpApiStatus InvalidCode = Some 400"
| "httpApiStatus Locked = Some 429"
| "httpApiStatus ChallengeExpired = Some 401"
| "httpApiStatus AlreadyEnabled = Some 409"
| "httpApiStatus EnrollmentChanged = Some 409"
| "httpApiStatus NotEnabled = Some 409"
| "httpApiStatus MfaNotFound = Some 404"
| "httpApiStatus ServiceKeyRejected = Some 401"
| "httpApiStatus ServiceKeyMisconfigured = Some 503"
| "httpApiStatus _ = None"

definition isBoundaryError :: "failure \<Rightarrow> bool" where
  "isBoundaryError e \<longleftrightarrow> e = DbError \<or> e = AuthApiError \<or> e = TtlStoreError \<or> e = EmailError"

text \<open>
  Why an effect ended without a value: a typed failure, or a defect (a thrown exception, a
  rejected promise that the code declared unable to fail, an explicit \<open>Effect.die\<close>).
\<close>

datatype defect =
    BoundaryDefect failure
  | DecryptFailed
  | KeyRingRejected
  | UnknownKeyVersion
  | CountNotNumeric
  | ThrownError string

datatype reason = Fail failure | Die defect | Interrupt

type_synonym 'a exit = "reason + 'a"

lemma boundary_not_client_facing: "isBoundaryError e \<Longrightarrow> httpApiStatus e = None"
  by (auto simp: isBoundaryError_def)

lemma isBoundaryError_simps [simp]:
  "isBoundaryError DbError" "isBoundaryError AuthApiError"
  "isBoundaryError TtlStoreError" "isBoundaryError EmailError"
  "\<not> isBoundaryError NotFound" "\<not> isBoundaryError Forbidden" "\<not> isBoundaryError Unauthorized"
  by (simp_all add: isBoundaryError_def)

end
