(* ===== verification/Schema.thy ===== *)
theory Schema
  imports Failures
begin

text \<open>
  The tables of \<open>db/schema.ts\<close> the program's own code reads and writes, one record per row type,
  and the audit entries of \<open>db/repositories/audit-log.ts\<close> (the \<open>payload\<close> column, a tagged union).
  A table is the list of its rows; a timestamp is the number of milliseconds since the epoch.
  The tables \<open>session\<close>, \<open>account\<close> and \<open>verification\<close> are better-auth's own and are never touched by
  the program itself.
\<close>

section \<open>Rows\<close>

record company =
  co_id :: id
  co_name :: string
  co_orgCode :: org_code
  co_activationStatus :: activation_status
  co_deletedAt :: "millis option"
  co_createdAt :: millis
  co_updatedAt :: millis

record user =
  us_id :: id
  us_name :: string
  us_email :: string
  us_emailVerified :: bool
  us_image :: "string option"
  us_revision :: nat
  us_lastUsedCompanyId :: "id option"
  us_createdAt :: millis
  us_updatedAt :: millis

record mfaTotp =
  mt_userId :: id
  mt_enrollmentId :: id
  mt_secretCiphertext :: string
  mt_secretIv :: string
  mt_keyVersion :: nat
  mt_verifiedAt :: "millis option"
  mt_lastUsedTimestep :: int
  mt_createdAt :: millis

record mfaRecoveryCode =
  rc_id :: id
  rc_userId :: id
  rc_codeCiphertext :: string
  rc_codeIv :: string
  rc_keyVersion :: nat
  rc_usedAt :: "millis option"

record membership =
  mb_id :: id
  mb_userId :: id
  mb_companyId :: id
  mb_role :: role
  mb_joinedAt :: millis
  mb_createdAt :: millis
  mb_updatedAt :: millis

record invitation =
  iv_id :: id
  iv_companyId :: id
  iv_email :: string
  iv_role :: role
  iv_token :: string
  iv_expiresAt :: millis
  iv_status :: invitation_status
  iv_acceptedAt :: "millis option"
  iv_revokedAt :: "millis option"
  iv_usedAt :: "millis option"
  iv_invitedByUserId :: id
  iv_createdAt :: millis

section \<open>Audit entries\<close>

datatype reject_reason = Double_accept | Inviter_not_owner_or_missing

datatype sign_in_method = Magic_link | Github

datatype audit_event =
    Sign_in sign_in_method string string
  | Mfa_enabled "string option" string
  | Mfa_disabled "string option" string
  | Account_delete
  | Company_created (cc_company_id: id) (cc_name: string) (cc_org_code: org_code)
      (cc_created_by_user_id: id)
  | Company_updated (cu_company_id: id) (cu_before: "string \<times> org_code") (cu_after: "string \<times> org_code")
  | Company_deleted (cd_company_id: id) (cd_name_at_deletion: string) (cd_deleted_by_user_id: id)
  | Invitation_sent (is_invitation_id: id) (is_company_id: id) (is_invited_email: string)
      (is_role: role) (is_invited_by_user_id: id)
  | Invitation_accepted (ia_invitation_id: id) (ia_company_id: id) (ia_accepted_by_user_id: id)
      (ia_role: role)
  | Invitation_revoked (ir_invitation_id: id) (ir_company_id: id) (ir_revoked_by_user_id: id)
  | Invitation_accept_rejected (ij_invitation_id: id) (ij_company_id: id) (ij_invited_by_user_id: id)
      (ij_attempted_role: role) (ij_inviter: "inviter_seen option") (ij_reason: reject_reason)
  | Membership_removed (mr_company_id: id) (mr_removed_user_id: id) (mr_removed_by_user_id: id)
      (mr_role_at_removal: role) (mr_was_self: bool)
  | Role_changed (rg_company_id: id) (rg_target_user_id: id) (rg_before_role: role)
      (rg_after_role: role) (rg_changed_by_user_id: id)
  | Ownership_transferred (ot_company_id: id) (ot_from_user_id: id) (ot_to_user_id: id)
  | Company_switched (cs_from_company_id: "id option") (cs_to_company_id: id)

record audit_log_entry =
  ae_userId :: id
  ae_event :: audit_event

record auditLog =
  al_id :: id
  al_entry :: audit_log_entry
  al_createdAt :: millis

section \<open>The database\<close>

record database =
  d_company :: "company list"
  d_user :: "user list"
  d_mfaTotp :: "mfaTotp list"
  d_mfaRecoveryCode :: "mfaRecoveryCode list"
  d_auditLog :: "auditLog list"
  d_membership :: "membership list"
  d_invitation :: "invitation list"

definition companyIds :: "database \<Rightarrow> id set" where
  "companyIds d = co_id ` set (d_company d)"

definition userIds :: "database \<Rightarrow> id set" where
  "userIds d = us_id ` set (d_user d)"

definition isActiveCompany :: "database \<Rightarrow> id \<Rightarrow> bool" where
  "isActiveCompany d c \<longleftrightarrow> (\<exists>r\<in>set (d_company d). co_id r = c \<and> co_activationStatus r = ACTIVE)"

definition membershipKey :: "membership \<Rightarrow> id \<times> id" where
  "membershipKey m = (mb_userId m, mb_companyId m)"

text \<open>
  The constraints of the schema: primary keys, unique indexes and foreign keys. Postgres
  enforces them on every statement; \<open>wf_db\<close> says that a database satisfies them.
\<close>

definition wf_keys :: "database \<Rightarrow> bool" where
  "wf_keys d \<longleftrightarrow>
    distinct (map co_id (d_company d)) \<and>
    distinct (map us_id (d_user d)) \<and>
    distinct (map us_email (d_user d)) \<and>
    distinct (map mt_userId (d_mfaTotp d)) \<and>
    distinct (map rc_id (d_mfaRecoveryCode d)) \<and>
    distinct (map al_id (d_auditLog d)) \<and>
    distinct (map mb_id (d_membership d)) \<and>
    distinct (map membershipKey (d_membership d)) \<and>
    distinct (map iv_id (d_invitation d)) \<and>
    distinct (map iv_token (d_invitation d))"

definition wf_refs :: "database \<Rightarrow> bool" where
  "wf_refs d \<longleftrightarrow>
    (\<forall>u\<in>set (d_user d). \<forall>c. us_lastUsedCompanyId u = Some c \<longrightarrow> c \<in> companyIds d) \<and>
    (\<forall>t\<in>set (d_mfaTotp d). mt_userId t \<in> userIds d) \<and>
    (\<forall>r\<in>set (d_mfaRecoveryCode d). rc_userId r \<in> userIds d) \<and>
    (\<forall>m\<in>set (d_membership d). mb_userId m \<in> userIds d \<and> mb_companyId m \<in> companyIds d) \<and>
    (\<forall>i\<in>set (d_invitation d). iv_companyId i \<in> companyIds d \<and> iv_invitedByUserId i \<in> userIds d)"

definition wf_db :: "database \<Rightarrow> bool" where
  "wf_db d \<longleftrightarrow> wf_keys d \<and> wf_refs d"

lemma wf_db_membership_unique:
  "wf_db d \<Longrightarrow> m \<in> set (d_membership d) \<Longrightarrow> m' \<in> set (d_membership d) \<Longrightarrow>
    mb_userId m = mb_userId m' \<Longrightarrow> mb_companyId m = mb_companyId m' \<Longrightarrow> m = m'"
  by (rule distinct_map_unique[where k = membershipKey and xs = "d_membership d"])
    (auto simp: wf_db_def wf_keys_def membershipKey_def)

lemma wf_db_user_unique:
  "wf_db d \<Longrightarrow> u \<in> set (d_user d) \<Longrightarrow> u' \<in> set (d_user d) \<Longrightarrow> us_id u = us_id u' \<Longrightarrow> u = u'"
  by (rule distinct_map_unique[where k = us_id and xs = "d_user d"])
    (auto simp: wf_db_def wf_keys_def)

lemma wf_db_company_unique:
  "wf_db d \<Longrightarrow> c \<in> set (d_company d) \<Longrightarrow> c' \<in> set (d_company d) \<Longrightarrow> co_id c = co_id c' \<Longrightarrow> c = c'"
  by (rule distinct_map_unique[where k = co_id and xs = "d_company d"])
    (auto simp: wf_db_def wf_keys_def)

definition emptyDb :: database where
  "emptyDb = \<lparr>d_company = [], d_user = [], d_mfaTotp = [], d_mfaRecoveryCode = [], d_auditLog = [],
    d_membership = [], d_invitation = []\<rparr>"

lemma wf_emptyDb [simp]: "wf_db emptyDb"
  by (simp add: emptyDb_def wf_db_def wf_keys_def wf_refs_def)

end
