(* ===== verification/World.thy ===== *)
theory World
  imports Schema
begin

text \<open>
  The effects of the program. An \<open>Effect\<close> of the source is a function from the world it runs in to
  its exit (a value, a typed failure or a defect) and the world it leaves. The world holds the
  database, the key-value objects of the TTL store, the clock, the state of better-auth (a type
  parameter \<open>'x\<close>: that library is not part of the repository), streams of random values,
  the after-commit hooks and the locks of the open transaction, the jobs handed to the background,
  and what was reported to Sentry.

  Every call to the database or the TTL store consults a stream of faults: the call can be lost,
  or it can be applied and its answer lost (\<open>tryDb\<close>, \<open>tryTtlStore\<close>). The theorems hold for every stream.
\<close>

section \<open>The world\<close>

datatype fault = NoFault | Lost | AppliedButLost

record entry =
  en_value :: string
  en_expiresAt :: "millis option"

text \<open>The storage of one Durable Object: the entry under its only key and the alarm.\<close>

record kv_object =
  ob_entry :: "entry option"
  ob_alarm :: "millis option"

datatype account_deletion_flow = Flow_account_delete | Flow_company_delete | Flow_member_remove | Flow_sweep

datatype hook = DeleteSessionsOf id account_deletion_flow

datatype lock =
    AdvisoryUser id
  | OwnerRowsOfCompany id
  | OwnerRowsOfUserCompanies id
  | MembershipShare id id
  | UserNoKeyUpdate id
  | UserRows "id list"

type_synonym headers = "(string \<times> string) list"

datatype job =
    SignInMagicLinkJob string string
  | SendWelcomeJob string string
  | SendMfaEnabledJob string
  | SendMfaDisabledJob string
  | AuditBestEffortJob audit_log_entry

record 'x world =
  w_db :: database
  w_kv :: "(string \<times> kv_object) list"
  w_auth :: 'x
  w_clock :: millis
  w_drawn :: nat
  w_uuid :: "nat \<Rightarrow> string"
  w_nanoid :: "nat \<Rightarrow> nat \<Rightarrow> string"
  w_bytes :: "nat \<Rightarrow> nat \<Rightarrow> nat list"
  w_dbCalls :: nat
  w_dbFaults :: "nat \<Rightarrow> fault"
  w_kvCalls :: nat
  w_kvFaults :: "nat \<Rightarrow> fault"
  w_hooks :: "hook list"
  w_locks :: "lock list"
  w_background :: "job list"
  w_sentry :: "string list"

type_synonym ('a, 'x) eff = "'x world \<Rightarrow> 'a exit \<times> 'x world"

section \<open>Programs\<close>

definition succeed :: "'a \<Rightarrow> ('a, 'x) eff" where
  "succeed a = (\<lambda>w. (Inr a, w))"

definition failWith :: "failure \<Rightarrow> ('a, 'x) eff" where
  "failWith e = (\<lambda>w. (Inl (Fail e), w))"

definition dieWith :: "defect \<Rightarrow> ('a, 'x) eff" where
  "dieWith d = (\<lambda>w. (Inl (Die d), w))"

definition andThen :: "('a, 'x) eff \<Rightarrow> ('a \<Rightarrow> ('b, 'x) eff) \<Rightarrow> ('b, 'x) eff" where
  "andThen m f = (\<lambda>w. case m w of (Inl r, w') \<Rightarrow> (Inl r, w') | (Inr a, w') \<Rightarrow> f a w')"

abbreviation andDo :: "('a, 'x) eff \<Rightarrow> ('b, 'x) eff \<Rightarrow> ('b, 'x) eff" where
  "andDo m n \<equiv> andThen m (\<lambda>_. n)"

definition mapEff :: "('a \<Rightarrow> 'b) \<Rightarrow> ('a, 'x) eff \<Rightarrow> ('b, 'x) eff" where
  "mapEff f m = andThen m (\<lambda>a. succeed (f a))"

definition catchIf :: "(failure \<Rightarrow> bool) \<Rightarrow> (failure \<Rightarrow> ('a, 'x) eff) \<Rightarrow> ('a, 'x) eff \<Rightarrow> ('a, 'x) eff" where
  "catchIf P h m = (\<lambda>w. case m w of
     (Inl (Fail e), w') \<Rightarrow> (if P e then h e w' else (Inl (Fail e), w'))
   | other \<Rightarrow> other)"

fun forEachDiscard :: "('a \<Rightarrow> ('b, 'x) eff) \<Rightarrow> 'a list \<Rightarrow> (unit, 'x) eff" where
  "forEachDiscard f [] = succeed ()"
| "forEachDiscard f (x # xs) = andDo (f x) (forEachDiscard f xs)"

fun filterEff :: "('a \<Rightarrow> (bool, 'x) eff) \<Rightarrow> 'a list \<Rightarrow> ('a list, 'x) eff" where
  "filterEff f [] = succeed []"
| "filterEff f (x # xs) =
    andThen (f x) (\<lambda>keep. andThen (filterEff f xs) (\<lambda>ys. succeed (if keep then x # ys else ys)))"

definition currentTimeMillis :: "(millis, 'x) eff" where
  "currentTimeMillis = (\<lambda>w. (Inr (w_clock w), w))"

definition orNotFound :: "('a option, 'x) eff \<Rightarrow> ('a, 'x) eff" where
  "orNotFound m = andThen m (\<lambda>found. case found of None \<Rightarrow> failWith NotFound | Some a \<Rightarrow> succeed a)"

definition captureCause :: "string \<Rightarrow> (unit, 'x) eff" where
  "captureCause component = (\<lambda>w. (Inr (), w\<lparr>w_sentry := w_sentry w @ [component]\<rparr>))"

definition captureCauseAs :: "'a \<Rightarrow> string \<Rightarrow> ('a, 'x) eff" where
  "captureCauseAs value component = mapEff (\<lambda>_. value) (captureCause component)"

text \<open>\<open>Background.run\<close> forks the effect; it is recorded, and runs as a step of its own.\<close>

definition runBackground :: "job \<Rightarrow> (unit, 'x) eff" where
  "runBackground j = (\<lambda>w. (Inr (), w\<lparr>w_background := w_background w @ [j]\<rparr>))"

section \<open>Random values\<close>

definition randomUUID :: "(string, 'x) eff" where
  "randomUUID = (\<lambda>w. (Inr (w_uuid w (w_drawn w)), w\<lparr>w_drawn := Suc (w_drawn w)\<rparr>))"

definition nanoid :: "nat \<Rightarrow> (string, 'x) eff" where
  "nanoid n = (\<lambda>w. (Inr (w_nanoid w (w_drawn w) n), w\<lparr>w_drawn := Suc (w_drawn w)\<rparr>))"

definition getRandomValues :: "nat \<Rightarrow> (nat list, 'x) eff" where
  "getRandomValues n = (\<lambda>w. (Inr (w_bytes w (w_drawn w) n), w\<lparr>w_drawn := Suc (w_drawn w)\<rparr>))"

section \<open>The database\<close>

text \<open>
  A statement sees the time and the database, and answers with a value and the database it
  leaves, or \<open>None\<close> when a constraint of the schema rejects it.
\<close>

type_synonym 'a sql = "millis \<Rightarrow> database \<Rightarrow> ('a \<times> database) option"

definition tryDb :: "'a sql \<Rightarrow> ('a, 'x) eff" where
  "tryDb stmt = (\<lambda>w.
     let w' = w\<lparr>w_dbCalls := Suc (w_dbCalls w)\<rparr>
     in case w_dbFaults w (w_dbCalls w) of
          Lost \<Rightarrow> (Inl (Fail DbError), w')
        | fault \<Rightarrow>
            (case stmt (w_clock w) (w_db w) of
               None \<Rightarrow> (Inl (Fail DbError), w')
             | Some (a, d) \<Rightarrow>
                 (if fault = NoFault then (Inr a, w'\<lparr>w_db := d\<rparr>)
                  else (Inl (Fail DbError), w'\<lparr>w_db := d\<rparr>))))"

text \<open>A \<open>SELECT\<close>: it answers from the database and leaves it.\<close>

definition select :: "(database \<Rightarrow> 'a) \<Rightarrow> 'a sql" where
  "select q = (\<lambda>now d. Some (q d, d))"

text \<open>A \<open>SELECT \<dots> FOR \<dots>\<close>, or an advisory lock: the lock is held until the transaction ends.\<close>

definition selectFor :: "lock \<Rightarrow> (database \<Rightarrow> 'a) \<Rightarrow> ('a, 'x) eff" where
  "selectFor l q = andThen (tryDb (select q)) (\<lambda>a w. (Inr a, w\<lparr>w_locks := w_locks w @ [l]\<rparr>))"

definition lockDb :: "lock \<Rightarrow> (unit, 'x) eff" where
  "lockDb l = selectFor l (\<lambda>_. ())"

definition afterCommit :: "hook \<Rightarrow> (unit, 'x) eff" where
  "afterCommit h = (\<lambda>w. (Inr (), w\<lparr>w_hooks := w_hooks w @ [h]\<rparr>))"

text \<open>
  \<open>Transaction.run\<close>: the callback runs with a hook list of its own. When it ends in a failure or a
  defect the transaction is rolled back and the exit is passed on; when it succeeds the
  transaction commits, and only then the registered hooks run, in order.
  \<open>BEGIN\<close>, \<open>COMMIT\<close> and \<open>ROLLBACK\<close> are calls that can fail like any other; a connection lost before
  \<open>COMMIT\<close> was applied rolls back.
\<close>

definition runTx :: "(hook \<Rightarrow> (unit, 'x) eff) \<Rightarrow> ('a, 'x) eff \<Rightarrow> ('a, 'x) eff" where
  "runTx runHook f = (\<lambda>w.
     let w0 = w\<lparr>w_dbCalls := Suc (w_dbCalls w), w_hooks := [], w_locks := []\<rparr>
     in if w_dbFaults w (w_dbCalls w) \<noteq> NoFault
        then (Inl (Fail DbError), w\<lparr>w_dbCalls := Suc (w_dbCalls w)\<rparr>)
        else (case f w0 of
            (exit, w1) \<Rightarrow>
              (let end = w_dbFaults w1 (w_dbCalls w1);
                   closed = w1\<lparr>w_dbCalls := Suc (w_dbCalls w1), w_hooks := w_hooks w, w_locks := w_locks w\<rparr>
               in case exit of
                    Inl r \<Rightarrow> (Inl (if end = NoFault then r else Fail DbError), closed\<lparr>w_db := w_db w\<rparr>)
                  | Inr a \<Rightarrow>
                      (case end of
                         Lost \<Rightarrow> (Inl (Fail DbError), closed\<lparr>w_db := w_db w\<rparr>)
                       | AppliedButLost \<Rightarrow> (Inl (Fail DbError), closed)
                       | NoFault \<Rightarrow>
                           andDo (forEachDiscard runHook (w_hooks w1)) (succeed a) closed))))"

section \<open>What it means for a program to end in a given exit\<close>

lemma succeed_runs [run_simps]:
  "succeed a w = (Inr b, w') \<longleftrightarrow> a = b \<and> w' = w"
  "succeed a w = (Inl r, w') \<longleftrightarrow> False"
  by (auto simp: succeed_def)

lemma failWith_runs [run_simps]:
  "failWith e w = (Inr b, w') \<longleftrightarrow> False"
  "failWith e w = (Inl r, w') \<longleftrightarrow> r = Fail e \<and> w' = w"
  by (auto simp: failWith_def)

lemma dieWith_runs [run_simps]:
  "dieWith d w = (Inr b, w') \<longleftrightarrow> False"
  "dieWith d w = (Inl r, w') \<longleftrightarrow> r = Die d \<and> w' = w"
  by (auto simp: dieWith_def)

lemma andThen_runs [run_simps]:
  "andThen m f w = (Inr b, w') \<longleftrightarrow> (\<exists>a w1. m w = (Inr a, w1) \<and> f a w1 = (Inr b, w'))"
  "andThen m f w = (Inl r, w') \<longleftrightarrow>
    m w = (Inl r, w') \<or> (\<exists>a w1. m w = (Inr a, w1) \<and> f a w1 = (Inl r, w'))"
  by (auto simp: andThen_def split: prod.splits sum.splits)

lemma mapEff_runs [run_simps]:
  "mapEff f m w = (Inr b, w') \<longleftrightarrow> (\<exists>a. m w = (Inr a, w') \<and> b = f a)"
  "mapEff f m w = (Inl r, w') \<longleftrightarrow> m w = (Inl r, w')"
  by (auto simp: mapEff_def run_simps)

lemma orNotFound_runs [run_simps]:
  "orNotFound m w = (Inr b, w') \<longleftrightarrow> m w = (Inr (Some b), w')"
  "orNotFound m w = (Inl r, w') \<longleftrightarrow> m w = (Inl r, w') \<or> (m w = (Inr None, w') \<and> r = Fail NotFound)"
  by (auto simp: orNotFound_def run_simps split: option.splits)

lemma currentTimeMillis_runs [run_simps]:
  "currentTimeMillis w = (Inr b, w') \<longleftrightarrow> b = w_clock w \<and> w' = w"
  "currentTimeMillis w = (Inl r, w') \<longleftrightarrow> False"
  by (auto simp: currentTimeMillis_def)

lemma captureCause_runs [run_simps]:
  "captureCause t w = (Inr b, w') \<longleftrightarrow> w' = w\<lparr>w_sentry := w_sentry w @ [t]\<rparr>"
  "captureCause t w = (Inl r, w') \<longleftrightarrow> False"
  by (auto simp: captureCause_def)

lemma captureCauseAs_runs [run_simps]:
  "captureCauseAs v t w = (Inr b, w') \<longleftrightarrow> b = v \<and> w' = w\<lparr>w_sentry := w_sentry w @ [t]\<rparr>"
  "captureCauseAs v t w = (Inl r, w') \<longleftrightarrow> False"
  by (auto simp: captureCauseAs_def run_simps)

lemma runBackground_runs [run_simps]:
  "runBackground j w = (Inr b, w') \<longleftrightarrow> w' = w\<lparr>w_background := w_background w @ [j]\<rparr>"
  "runBackground j w = (Inl r, w') \<longleftrightarrow> False"
  by (auto simp: runBackground_def)

lemma afterCommit_runs [run_simps]:
  "afterCommit h w = (Inr b, w') \<longleftrightarrow> w' = w\<lparr>w_hooks := w_hooks w @ [h]\<rparr>"
  "afterCommit h w = (Inl r, w') \<longleftrightarrow> False"
  by (auto simp: afterCommit_def)

lemma random_runs [run_simps]:
  "randomUUID w = (Inr s, w') \<longleftrightarrow> s = w_uuid w (w_drawn w) \<and> w' = w\<lparr>w_drawn := Suc (w_drawn w)\<rparr>"
  "randomUUID w = (Inl r, w') \<longleftrightarrow> False"
  "nanoid n w = (Inr s, w') \<longleftrightarrow> s = w_nanoid w (w_drawn w) n \<and> w' = w\<lparr>w_drawn := Suc (w_drawn w)\<rparr>"
  "nanoid n w = (Inl r, w') \<longleftrightarrow> False"
  "getRandomValues n w = (Inr bs, w') \<longleftrightarrow>
    bs = w_bytes w (w_drawn w) n \<and> w' = w\<lparr>w_drawn := Suc (w_drawn w)\<rparr>"
  "getRandomValues n w = (Inl r, w') \<longleftrightarrow> False"
  by (auto simp: randomUUID_def nanoid_def getRandomValues_def)

lemma tryDb_runs:
  "tryDb stmt w = (Inr a, w') \<longleftrightarrow>
    w_dbFaults w (w_dbCalls w) = NoFault \<and>
    (\<exists>d. stmt (w_clock w) (w_db w) = Some (a, d) \<and>
      w' = w\<lparr>w_dbCalls := Suc (w_dbCalls w), w_db := d\<rparr>)"
  by (auto simp: tryDb_def Let_def split: fault.splits option.splits)

lemma select_runs [run_simps]:
  "tryDb (select q) w = (Inr a, w') \<longleftrightarrow>
    w_dbFaults w (w_dbCalls w) = NoFault \<and> a = q (w_db w) \<and>
    w' = w\<lparr>w_dbCalls := Suc (w_dbCalls w)\<rparr>"
  by (auto simp: tryDb_def select_def Let_def split: fault.splits)

lemma tryDb_fails: "tryDb stmt w = (Inl r, w') \<Longrightarrow> r = Fail DbError"
  by (auto simp: tryDb_def Let_def split: fault.splits option.splits if_splits)

lemma selectFor_runs [run_simps]:
  "selectFor l q w = (Inr a, w') \<longleftrightarrow>
    w_dbFaults w (w_dbCalls w) = NoFault \<and> a = q (w_db w) \<and>
    w' = w\<lparr>w_dbCalls := Suc (w_dbCalls w), w_locks := w_locks w @ [l]\<rparr>"
  by (auto simp: selectFor_def run_simps)

lemma lockDb_runs [run_simps]:
  "lockDb l w = (Inr b, w') \<longleftrightarrow>
    w_dbFaults w (w_dbCalls w) = NoFault \<and>
    w' = w\<lparr>w_dbCalls := Suc (w_dbCalls w), w_locks := w_locks w @ [l]\<rparr>"
  by (auto simp: lockDb_def run_simps)

lemma catchIf_runs [run_simps]:
  "catchIf P h m w = (Inr b, w') \<longleftrightarrow>
    m w = (Inr b, w') \<or> (\<exists>e w1. m w = (Inl (Fail e), w1) \<and> P e \<and> h e w1 = (Inr b, w'))"
  "catchIf P h m w = (Inl r, w') \<longleftrightarrow>
    (m w = (Inl r, w') \<and> (\<forall>e. r = Fail e \<longrightarrow> \<not> P e)) \<or>
    (\<exists>e w1. m w = (Inl (Fail e), w1) \<and> P e \<and> h e w1 = (Inl r, w'))"
  by (auto simp: catchIf_def split: prod.splits sum.splits reason.splits if_splits)

lemma forEachDiscard_runs [run_simps]:
  "forEachDiscard f [] w = (Inr b, w') \<longleftrightarrow> w' = w"
  "forEachDiscard f (x # xs) w = (Inr b, w') \<longleftrightarrow>
    (\<exists>a w1. f x w = (Inr a, w1) \<and> forEachDiscard f xs w1 = (Inr (), w'))"
  by (auto simp: run_simps)

declare forEachDiscard.simps [simp del] filterEff.simps [simp del]

lemma filterEff_runs [run_simps]:
  "filterEff f [] w = (Inr ys, w') \<longleftrightarrow> ys = [] \<and> w' = w"
  "filterEff f (x # xs) w = (Inr ys, w') \<longleftrightarrow>
    (\<exists>keep w1 zs. f x w = (Inr keep, w1) \<and> filterEff f xs w1 = (Inr zs, w') \<and>
      ys = (if keep then x # zs else zs))"
  by (auto simp: filterEff.simps run_simps)

section \<open>What a program leaves alone\<close>

text \<open>
  \<open>keeps v m\<close>: whatever its exit, \<open>m\<close> does not change the view \<open>v\<close> of the world.
  The rules are structural, so that a program is checked by its shape.
\<close>

named_theorems keeps_intros
  \<open>structural rules for the views of the world a program leaves alone\<close>

definition keeps :: "('x world \<Rightarrow> 'v) \<Rightarrow> ('a, 'x) eff \<Rightarrow> bool" where
  "keeps v m \<longleftrightarrow> (\<forall>w. v (snd (m w)) = v w)"

lemma keepsD: "keeps v m \<Longrightarrow> m w = (r, w') \<Longrightarrow> v w' = v w"
  by (auto simp: keeps_def dest: spec[of _ w])

lemma keeps_succeed [keeps_intros]: "keeps v (succeed a)"
  by (simp add: keeps_def succeed_def)

lemma keeps_failWith [keeps_intros]: "keeps v (failWith e)"
  by (simp add: keeps_def failWith_def)

lemma keeps_dieWith [keeps_intros]: "keeps v (dieWith e)"
  by (simp add: keeps_def dieWith_def)

lemma keeps_andThen [keeps_intros]:
  assumes "keeps v m" "\<And>a. keeps v (f a)" shows "keeps v (andThen m f)"
  unfolding keeps_def
proof
  fix w
  obtain r w1 where m: "m w = (r, w1)" by fastforce
  have "v w1 = v w" using assms(1) m by (rule keepsD)
  moreover have "v (snd (f a w1)) = v w1" for a using assms(2)[of a] by (simp add: keeps_def)
  ultimately show "v (snd (andThen m f w)) = v w"
    by (cases r) (simp_all add: andThen_def m)
qed

lemma keeps_mapEff [keeps_intros]: "keeps v m \<Longrightarrow> keeps v (mapEff f m)"
  unfolding mapEff_def by (intro keeps_intros)

lemma keeps_catchIf [keeps_intros]:
  assumes "keeps v m" "\<And>e. keeps v (h e)" shows "keeps v (catchIf P h m)"
  unfolding keeps_def
proof
  fix w
  obtain r w1 where m: "m w = (r, w1)" by fastforce
  have "v w1 = v w" using assms(1) m by (rule keepsD)
  moreover have "v (snd (h e w1)) = v w1" for e using assms(2)[of e] by (simp add: keeps_def)
  ultimately show "v (snd (catchIf P h m w)) = v w"
    by (auto simp: catchIf_def m split: sum.splits reason.splits)
qed

lemma keeps_orNotFound [keeps_intros]: "keeps v m \<Longrightarrow> keeps v (orNotFound m)"
  unfolding orNotFound_def
  by (rule keeps_andThen) (auto split: option.splits intro: keeps_intros)

lemma keeps_if [keeps_intros]: "keeps v m \<Longrightarrow> keeps v n \<Longrightarrow> keeps v (if b then m else n)"
  by simp

lemma keeps_option [keeps_intros]:
  "keeps v m \<Longrightarrow> (\<And>a. keeps v (f a)) \<Longrightarrow> keeps v (case x of None \<Rightarrow> m | Some a \<Rightarrow> f a)"
  by (cases x) auto

lemma keeps_currentTimeMillis [keeps_intros]: "keeps v currentTimeMillis"
  by (simp add: keeps_def currentTimeMillis_def)

lemma keeps_forEachDiscard [keeps_intros]:
  "(\<And>x. keeps v (f x)) \<Longrightarrow> keeps v (forEachDiscard f xs)"
  by (induction xs) (auto simp: forEachDiscard.simps intro: keeps_intros)

lemma keeps_filterEff [keeps_intros]:
  assumes "\<And>x. keeps v (f x)" shows "keeps v (filterEff f xs)"
  by (induction xs) (auto simp: filterEff.simps intro!: keeps_intros assms)

lemma keeps_db [keeps_intros]:
  "keeps w_db (captureCause t)" "keeps w_db (captureCauseAs a t)" "keeps w_db (runBackground j)"
  "keeps w_db (afterCommit h)" "keeps w_db randomUUID" "keeps w_db (nanoid n)"
  "keeps w_db (getRandomValues n)" "keeps w_db (lockDb l)" "keeps w_db (selectFor l q)"
  by (auto simp: keeps_def captureCause_def captureCauseAs_def runBackground_def afterCommit_def
      randomUUID_def nanoid_def getRandomValues_def lockDb_def selectFor_def select_def mapEff_def andThen_def succeed_def
      tryDb_def Let_def split: fault.splits sum.splits prod.splits)

text \<open>A statement that only reads.\<close>

definition readsOnly :: "'a sql \<Rightarrow> bool" where
  "readsOnly stmt \<longleftrightarrow> (\<forall>now d a d'. stmt now d = Some (a, d') \<longrightarrow> d' = d)"

lemma keeps_tryDb [keeps_intros]: "readsOnly stmt \<Longrightarrow> keeps w_db (tryDb stmt)"
  by (auto simp: keeps_def readsOnly_def tryDb_def Let_def split: fault.splits option.splits)

lemma readsOnly_select [keeps_intros]: "readsOnly (select q)"
  by (simp add: readsOnly_def select_def)

section \<open>Statements and invariants\<close>

text \<open>Every exit of a statement leaves an invariant of the database that the statement keeps.\<close>

definition sqlKeeps :: "(database \<Rightarrow> bool) \<Rightarrow> 'a sql \<Rightarrow> bool" where
  "sqlKeeps I stmt \<longleftrightarrow> (\<forall>now d a d'. I d \<longrightarrow> stmt now d = Some (a, d') \<longrightarrow> I d')"

definition preserves :: "(database \<Rightarrow> bool) \<Rightarrow> ('a, 'x) eff \<Rightarrow> bool" where
  "preserves I m \<longleftrightarrow> (\<forall>w. I (w_db w) \<longrightarrow> I (w_db (snd (m w))))"

named_theorems preserves_intros
  \<open>structural rules for the invariants of the database a program preserves\<close>

lemma preservesD: "preserves I m \<Longrightarrow> m w = (r, w') \<Longrightarrow> I (w_db w) \<Longrightarrow> I (w_db w')"
  by (auto simp: preserves_def dest: spec[of _ w])

lemma preserves_keeps: "keeps w_db m \<Longrightarrow> preserves I m"
  by (simp add: keeps_def preserves_def)

lemma preserves_tryDb [preserves_intros]: "sqlKeeps I stmt \<Longrightarrow> preserves I (tryDb stmt)"
  by (auto simp: preserves_def sqlKeeps_def tryDb_def Let_def split: fault.splits option.splits)

lemma sqlKeeps_select [preserves_intros]: "sqlKeeps I (select q)"
  by (simp add: sqlKeeps_def select_def)

lemma preserves_andThen [preserves_intros]:
  fixes m :: "('a, 'x) eff"
  assumes "preserves I m" "\<And>a. preserves I (f a)" shows "preserves I (andThen m f)"
  unfolding preserves_def
proof (intro allI impI)
  fix w :: "'x world" assume I: "I (w_db w)"
  obtain r w1 where m: "m w = (r, w1)" by fastforce
  then have I1: "I (w_db w1)" using assms(1) I preservesD by blast
  then have "I (w_db (snd (f a w1)))" for a using assms(2)[of a] by (simp add: preserves_def)
  with I1 show "I (w_db (snd (andThen m f w)))"
    by (cases r) (simp_all add: andThen_def m)
qed

lemma preserves_catchIf [preserves_intros]:
  fixes m :: "('a, 'x) eff"
  assumes "preserves I m" "\<And>e. preserves I (h e)" shows "preserves I (catchIf P h m)"
  unfolding preserves_def
proof (intro allI impI)
  fix w :: "'x world" assume I: "I (w_db w)"
  obtain r w1 where m: "m w = (r, w1)" by fastforce
  then have I1: "I (w_db w1)" using assms(1) I preservesD by blast
  then have "I (w_db (snd (h e w1)))" for e using assms(2)[of e] by (simp add: preserves_def)
  with I1 show "I (w_db (snd (catchIf P h m w)))"
    by (auto simp: catchIf_def m split: sum.splits reason.splits)
qed

lemma preserves_basic [preserves_intros]:
  "preserves I (succeed a)" "preserves I (failWith e)" "preserves I (dieWith d)"
  "preserves I currentTimeMillis" "preserves I (captureCause t)" "preserves I (captureCauseAs b t)"
  "preserves I (runBackground j)" "preserves I (afterCommit h)" "preserves I randomUUID"
  "preserves I (nanoid n)" "preserves I (getRandomValues n)" "preserves I (lockDb l)" "preserves I (selectFor l q)"
  by (rule preserves_keeps, rule keeps_intros)+

lemma preserves_mapEff [preserves_intros]: "preserves I m \<Longrightarrow> preserves I (mapEff f m)"
  unfolding mapEff_def by (intro preserves_intros)

lemma preserves_if [preserves_intros]:
  "preserves I m \<Longrightarrow> preserves I n \<Longrightarrow> preserves I (if b then m else n)"
  by simp

lemma preserves_option [preserves_intros]:
  "preserves I m \<Longrightarrow> (\<And>a. preserves I (f a)) \<Longrightarrow>
    preserves I (case x of None \<Rightarrow> m | Some a \<Rightarrow> f a)"
  by (cases x) auto

lemma preserves_orNotFound [preserves_intros]: "preserves I m \<Longrightarrow> preserves I (orNotFound m)"
  unfolding orNotFound_def by (intro preserves_intros)

lemma preserves_forEachDiscard [preserves_intros]:
  "(\<And>x. preserves I (f x)) \<Longrightarrow> preserves I (forEachDiscard f xs)"
  by (induction xs) (auto simp: forEachDiscard.simps intro: preserves_intros)

lemma preserves_filterEff [preserves_intros]:
  assumes "\<And>x. preserves I (f x)" shows "preserves I (filterEff f xs)"
  by (induction xs) (auto simp: filterEff.simps intro!: preserves_intros assms)

section \<open>Transactions\<close>

text \<open>The database after a transaction: as it was, or as the callback left it when it succeeded.\<close>

lemma runTx_db:
  assumes "runTx h f w = (r, w')" "\<And>k. keeps w_db (h k)"
  shows "w_db w' = w_db w \<or>
    (\<exists>a w1. f (w\<lparr>w_dbCalls := Suc (w_dbCalls w), w_hooks := [], w_locks := []\<rparr>) = (Inr a, w1) \<and>
      w_db w' = w_db w1)"
proof -
  have hooks: "keeps w_db (andDo (forEachDiscard h hs) (succeed a))" for hs and a :: 'a
    using assms(2) by (intro keeps_intros)
  from assms(1) show ?thesis
    unfolding runTx_def Let_def
    by (auto split: if_splits prod.splits sum.splits fault.splits dest: keepsD[OF hooks])
qed

lemma runTx_success:
  assumes "runTx h f w = (Inr a, w')" "\<And>k. keeps w_db (h k)"
  shows "\<exists>w1. f (w\<lparr>w_dbCalls := Suc (w_dbCalls w), w_hooks := [], w_locks := []\<rparr>) = (Inr a, w1) \<and>
      w_db w' = w_db w1"
proof -
  have hooks: "keeps w_db (andDo (forEachDiscard h hs) (succeed a))" for hs and a :: 'a
    using assms(2) by (intro keeps_intros)
  from assms(1) show ?thesis
    unfolding runTx_def Let_def
    by (auto split: if_splits prod.splits sum.splits fault.splits simp: run_simps
        dest!: keepsD[OF keeps_forEachDiscard[OF assms(2)]])
qed

lemma preserves_runTx:
  fixes f :: "('a, 'x) eff"
  assumes body: "\<And>w a w1. I (w_db w) \<Longrightarrow> f w = (Inr a, w1) \<Longrightarrow> I (w_db w1)"
    and hooks: "\<And>k. keeps w_db (h k)"
  shows "preserves I (runTx h f)"
  unfolding preserves_def
proof (intro allI impI)
  fix w :: "'x world" assume I: "I (w_db w)"
  obtain r w' where run: "runTx h f w = (r, w')" by fastforce
  let ?w0 = "w\<lparr>w_dbCalls := Suc (w_dbCalls w), w_hooks := [], w_locks := []\<rparr>"
  have "I (w_db ?w0)" using I by simp
  then have "I (w_db w')" using runTx_db[OF run hooks] I body by metis
  then show "I (w_db (snd (runTx h f w)))" by (simp add: run)
qed

lemma preserves_runTx_statementwise [preserves_intros]:
  "preserves I f \<Longrightarrow> (\<And>k. keeps w_db (h k)) \<Longrightarrow> preserves I (runTx h f)"
  by (rule preserves_runTx) (auto dest: preservesD)

section \<open>How a program can fail\<close>

text \<open>
  \<open>throws E m\<close>: \<open>m\<close> fails only with the failures of \<open>E\<close>, and never with a defect: the error channel
  of the effect's type, checked by the shape of the program.
\<close>

named_theorems throws_intros
  \<open>structural rules for the failures of a program\<close>

definition throws :: "failure set \<Rightarrow> ('a, 'x) eff \<Rightarrow> bool" where
  "throws E m \<longleftrightarrow> (\<forall>w r w'. m w = (Inl r, w') \<longrightarrow> r \<in> Fail ` E)"

lemma throwsD: "throws E m \<Longrightarrow> m w = (Inl r, w') \<Longrightarrow> \<exists>e\<in>E. r = Fail e"
  by (auto simp: throws_def)

lemma throws_mono: "throws E m \<Longrightarrow> E \<subseteq> E' \<Longrightarrow> throws E' m"
  unfolding throws_def by blast

lemma throws_basic [throws_intros]:
  "throws E (succeed a)" "throws E currentTimeMillis" "throws E (captureCause t)"
  "throws E (captureCauseAs b t)" "throws E (runBackground j)" "throws E (afterCommit h)"
  "throws E randomUUID" "throws E (nanoid n)" "throws E (getRandomValues n)"
  by (auto simp: throws_def run_simps)

lemma throws_failWith [throws_intros]: "e \<in> E \<Longrightarrow> throws E (failWith e)"
  by (auto simp: throws_def run_simps)

lemma throws_andThen [throws_intros]:
  "throws E m \<Longrightarrow> (\<And>a. throws E (f a)) \<Longrightarrow> throws E (andThen m f)"
  unfolding throws_def andThen_runs by blast

lemma throws_mapEff [throws_intros]: "throws E m \<Longrightarrow> throws E (mapEff f m)"
  by (auto simp: throws_def run_simps)

lemma throws_orNotFound [throws_intros]: "throws E m \<Longrightarrow> NotFound \<in> E \<Longrightarrow> throws E (orNotFound m)"
  by (auto simp: throws_def run_simps)

lemma throws_tryDb [throws_intros]: "DbError \<in> E \<Longrightarrow> throws E (tryDb s)"
  by (auto simp: throws_def dest: tryDb_fails)

lemma throws_selectFor [throws_intros]: "DbError \<in> E \<Longrightarrow> throws E (selectFor l q)"
  by (auto simp: throws_def selectFor_def run_simps dest: tryDb_fails)

lemma throws_lockDb [throws_intros]: "DbError \<in> E \<Longrightarrow> throws E (lockDb l)"
  unfolding lockDb_def by (rule throws_selectFor)

lemma throws_if [throws_intros]: "(b \<Longrightarrow> throws E m) \<Longrightarrow> (\<not> b \<Longrightarrow> throws E n) \<Longrightarrow> throws E (if b then m else n)"
  by simp

lemma throws_option [throws_intros]:
  "throws E m \<Longrightarrow> (\<And>a. throws E (f a)) \<Longrightarrow> throws E (case x of None \<Rightarrow> m | Some a \<Rightarrow> f a)"
  by (cases x) auto

lemma throws_forEachDiscard [throws_intros]:
  "(\<And>x. throws E (f x)) \<Longrightarrow> throws E (forEachDiscard f xs)"
  by (induction xs) (auto simp: forEachDiscard.simps intro: throws_intros)

lemma throws_filterEff [throws_intros]: "(\<And>x. throws E (f x)) \<Longrightarrow> throws E (filterEff f xs)"
  by (induction xs) (auto simp: filterEff.simps intro!: throws_intros)

lemma throws_catchIf:
  assumes "throws E' m" "\<And>e. e \<in> E' \<Longrightarrow> P e \<Longrightarrow> throws E (h e)" "\<And>e. e \<in> E' \<Longrightarrow> \<not> P e \<Longrightarrow> e \<in> E"
  shows "throws E (catchIf P h m)"
  using assms unfolding throws_def catchIf_runs by blast

lemma throws_runTx:
  fixes f :: "('a, 'x) eff"
  assumes f: "throws E f" and db: "DbError \<in> E" and hooks: "\<And>k. throws {} (h k)"
  shows "throws E (runTx h f)"
  unfolding throws_def
proof (intro allI impI)
  fix w r w' assume run: "runTx h f w = (Inl r, w')"
  have after: "throws {} (andDo (forEachDiscard h hs) (succeed a))" for hs and a :: 'a
    using hooks by (intro throws_intros)
  obtain x w1 where body: "f (w\<lparr>w_dbCalls := Suc (w_dbCalls w), w_hooks := [], w_locks := []\<rparr>) = (x, w1)"
    by fastforce
  show "r \<in> Fail ` E"
  proof (cases x)
    case (Inl r1)
    with f body have "r1 \<in> Fail ` E" by (auto simp: throws_def)
    with run body Inl db show ?thesis
      by (auto simp: runTx_def Let_def split: if_splits)
  next
    case (Inr a)
    with run body db show ?thesis
      by (auto simp: runTx_def Let_def split: if_splits fault.splits dest: throwsD[OF after])
  qed
qed

end
