(* ===== verification/MembershipRepo.thy ===== *)
theory MembershipRepo
  imports World
begin

text \<open>
  \<open>db/repositories/membership.ts\<close>: the statements on the table \<open>membership\<close>, its row and advisory
  locks, and the queries that join it with \<open>company\<close>.
\<close>

section \<open>Locks\<close>

definition generateMembershipId :: "(id, 'x) eff" where
  "generateMembershipId = mapEff (\<lambda>s. ''mbr_'' @ s) (nanoid 24)"

definition lockMembershipChangesOfUser :: "id \<Rightarrow> (unit, 'x) eff" where
  "lockMembershipChangesOfUser userId = lockDb (AdvisoryUser userId)"

definition lockOwnerMembershipsOfCompany :: "id \<Rightarrow> (unit, 'x) eff" where
  "lockOwnerMembershipsOfCompany companyId = lockDb (OwnerRowsOfCompany companyId)"

definition lockOwnerMembershipsOfUserCompanies :: "id \<Rightarrow> (unit, 'x) eff" where
  "lockOwnerMembershipsOfUserCompanies userId = lockDb (OwnerRowsOfUserCompanies userId)"

section \<open>Queries\<close>

text \<open>\<open>ORDER BY joined_at, id\<close>.\<close>

definition oldestJoinedFirst :: "membership \<Rightarrow> millis \<times> id" where
  "oldestJoinedFirst m = (mb_joinedAt m, mb_id m)"

record membershipWithCompany = membership +
  mb_companyName :: string
  mb_companyOrgCode :: org_code

text \<open>\<open>membership INNER JOIN company\<close>, restricted to one user and to active companies.\<close>

definition activeJoin :: "database \<Rightarrow> id \<Rightarrow> (membership \<times> company) list" where
  "activeJoin d userId = concat (map
     (\<lambda>m. map (Pair m)
        (filter (\<lambda>c. co_id c = mb_companyId m \<and> co_activationStatus c = ACTIVE) (d_company d)))
     (filter (\<lambda>m. mb_userId m = userId) (d_membership d)))"

definition findActiveMembershipsByUserId :: "id \<Rightarrow> (membershipWithCompany list, 'x) eff" where
  "findActiveMembershipsByUserId userId = tryDb (select (\<lambda>d.
     map (\<lambda>(m, c). membership.extend m \<lparr>mb_companyName = co_name c, mb_companyOrgCode = co_orgCode c\<rparr>)
       (sort_key (oldestJoinedFirst \<circ> fst) (activeJoin d userId))))"

definition countActiveMembershipsByUserId :: "id \<Rightarrow> (nat, 'x) eff" where
  "countActiveMembershipsByUserId userId = tryDb (select (\<lambda>d. length (activeJoin d userId)))"

record memberRow =
  mr_membershipId :: id
  mr_userId :: id
  mr_userName :: string
  mr_userEmail :: string
  mr_role :: role
  mr_joinedAt :: millis

definition findMembersByCompanyId :: "id \<Rightarrow> (memberRow list, 'x) eff" where
  "findMembersByCompanyId companyId = tryDb (select (\<lambda>d.
     concat (map
       (\<lambda>m. map (\<lambda>u. \<lparr>mr_membershipId = mb_id m, mr_userId = mb_userId m, mr_userName = us_name u,
                     mr_userEmail = us_email u, mr_role = mb_role m, mr_joinedAt = mb_joinedAt m\<rparr>)
          (filter (\<lambda>u. us_id u = mb_userId m) (d_user d)))
       (sort_key oldestJoinedFirst (filter (\<lambda>m. mb_companyId m = companyId) (d_membership d))))))"

definition findMemberUserIds :: "id \<Rightarrow> id list \<Rightarrow> (id list, 'x) eff" where
  "findMemberUserIds companyId uids =
     (if uids = [] then succeed []
      else tryDb (select (\<lambda>d. map mb_userId
        (filter (\<lambda>m. mb_companyId m = companyId \<and> mb_userId m \<in> set uids) (d_membership d)))))"

definition membershipOf :: "database \<Rightarrow> id \<Rightarrow> id \<Rightarrow> membership option" where
  "membershipOf d userId companyId =
     at0 (filter (\<lambda>m. mb_userId m = userId \<and> mb_companyId m = companyId) (d_membership d))"

definition findMembership :: "id \<Rightarrow> id \<Rightarrow> (membership option, 'x) eff" where
  "findMembership userId companyId = tryDb (select (\<lambda>d. membershipOf d userId companyId))"

definition lockMembershipForShare :: "id \<Rightarrow> id \<Rightarrow> (role option, 'x) eff" where
  "lockMembershipForShare userId companyId =
     selectFor (MembershipShare userId companyId)
       (\<lambda>d. map_option mb_role (membershipOf d userId companyId))"

definition ownersOf :: "database \<Rightarrow> id \<Rightarrow> membership list" where
  "ownersOf d companyId = filter (\<lambda>m. mb_companyId m = companyId \<and> mb_role m = OWNER) (d_membership d)"

definition countOwnerMemberships :: "id \<Rightarrow> (nat, 'x) eff" where
  "countOwnerMemberships companyId = tryDb (select (\<lambda>d. length (ownersOf d companyId)))"

definition blockingCompanies :: "database \<Rightarrow> id \<Rightarrow> id list" where
  "blockingCompanies d userId = concat (map
     (\<lambda>m. map co_id
        (filter (\<lambda>c. co_id c = mb_companyId m \<and> co_activationStatus c = ACTIVE \<and>
                    length (ownersOf d (mb_companyId m)) = 1) (d_company d)))
     (filter (\<lambda>m. mb_userId m = userId \<and> mb_role m = OWNER) (d_membership d)))"

definition findCompaniesBlockingUserDeletion :: "id \<Rightarrow> (id list, 'x) eff" where
  "findCompaniesBlockingUserDeletion userId = tryDb (select (\<lambda>d. blockingCompanies d userId))"

section \<open>Writes\<close>

definition insertMembershipSql :: "id \<Rightarrow> id \<Rightarrow> id \<Rightarrow> role \<Rightarrow> membership sql" where
  "insertMembershipSql i userId companyId role = (\<lambda>now d.
     if i \<in> mb_id ` set (d_membership d) \<or> (userId, companyId) \<in> membershipKey ` set (d_membership d)
        \<or> userId \<notin> userIds d \<or> companyId \<notin> companyIds d
     then None
     else (let row = \<lparr>mb_id = i, mb_userId = userId, mb_companyId = companyId, mb_role = role,
                      mb_joinedAt = now, mb_createdAt = now, mb_updatedAt = now\<rparr>
           in Some (row, d\<lparr>d_membership := d_membership d @ [row]\<rparr>)))"

definition insertMembership :: "id \<Rightarrow> id \<Rightarrow> id \<Rightarrow> role \<Rightarrow> (membership, 'x) eff" where
  "insertMembership i userId companyId role = tryDb (insertMembershipSql i userId companyId role)"

definition isMembershipOf :: "id \<Rightarrow> id \<Rightarrow> membership \<Rightarrow> bool" where
  "isMembershipOf userId companyId m \<longleftrightarrow> mb_userId m = userId \<and> mb_companyId m = companyId"

definition updateMembershipRoleSql :: "id \<Rightarrow> id \<Rightarrow> role \<Rightarrow> membership option sql" where
  "updateMembershipRoleSql userId companyId role = (\<lambda>now d.
     let upd = (\<lambda>m. m\<lparr>mb_role := role, mb_updatedAt := now\<rparr>)
     in Some (at0 (map upd (filter (isMembershipOf userId companyId) (d_membership d))),
              d\<lparr>d_membership := updateWhere (isMembershipOf userId companyId) upd (d_membership d)\<rparr>))"

definition updateMembershipRole :: "id \<Rightarrow> id \<Rightarrow> role \<Rightarrow> (membership option, 'x) eff" where
  "updateMembershipRole userId companyId role = tryDb (updateMembershipRoleSql userId companyId role)"

text \<open>\<open>DELETE FROM membership WHERE \<dots> RETURNING *\<close>.\<close>

definition deleteMembershipsWhere :: "(membership \<Rightarrow> bool) \<Rightarrow> membership list sql" where
  "deleteMembershipsWhere P = (\<lambda>now d.
     Some (filter P (d_membership d), d\<lparr>d_membership := filter (\<lambda>m. \<not> P m) (d_membership d)\<rparr>))"

definition deleteMembership :: "id \<Rightarrow> id \<Rightarrow> (membership option, 'x) eff" where
  "deleteMembership userId companyId =
     mapEff at0 (tryDb (deleteMembershipsWhere (isMembershipOf userId companyId)))"

definition removeMembershipsOfCompany :: "id \<Rightarrow> (membership list, 'x) eff" where
  "removeMembershipsOfCompany companyId = tryDb (deleteMembershipsWhere (\<lambda>m. mb_companyId m = companyId))"

section \<open>What the statements do\<close>

lemmas membershipRepo_defs [sql_defs] =
  insertMembershipSql_def updateMembershipRoleSql_def deleteMembershipsWhere_def

lemmas membership_locks = lockMembershipChangesOfUser_def lockOwnerMembershipsOfCompany_def
  lockOwnerMembershipsOfUserCompanies_def lockMembershipForShare_def

lemmas membership_queries = findActiveMembershipsByUserId_def countActiveMembershipsByUserId_def
  findMembersByCompanyId_def findMembership_def countOwnerMemberships_def
  findCompaniesBlockingUserDeletion_def

declare membership_locks [run_simps] membership_queries [run_simps]

lemma keeps_membership_queries [keeps_intros]:
  "keeps w_db (findActiveMembershipsByUserId u)" "keeps w_db (countActiveMembershipsByUserId u)"
  "keeps w_db (findMembersByCompanyId c)" "keeps w_db (findMemberUserIds c us)"
  "keeps w_db (findMembership u c)" "keeps w_db (lockMembershipForShare u c)"
  "keeps w_db (countOwnerMemberships c)" "keeps w_db (findCompaniesBlockingUserDeletion u)"
  "keeps w_db (lockMembershipChangesOfUser u)" "keeps w_db (lockOwnerMembershipsOfCompany c)"
  "keeps w_db (lockOwnerMembershipsOfUserCompanies u)" "keeps w_db generateMembershipId"
  unfolding membership_locks membership_queries findMemberUserIds_def generateMembershipId_def
  by (intro keeps_intros)+

lemmas preserves_membership_queries [preserves_intros] =
  keeps_membership_queries[THEN preserves_keeps]

lemma membershipOf_Some:
  "membershipOf d u c = Some m \<Longrightarrow> m \<in> set (d_membership d) \<and> mb_userId m = u \<and> mb_companyId m = c"
  by (auto simp: membershipOf_def dest: at0_filter_SomeD)

lemma membershipOf_None_iff:
  "membershipOf d u c = None \<longleftrightarrow> (\<forall>m\<in>set (d_membership d). \<not> isMembershipOf u c m)"
  by (auto simp: membershipOf_def filter_empty_conv isMembershipOf_def)

lemma membershipOf_eq_SomeI:
  assumes "wf_db d" "m \<in> set (d_membership d)"
  shows "membershipOf d (mb_userId m) (mb_companyId m) = Some m"
proof -
  from assms(2) have "membershipOf d (mb_userId m) (mb_companyId m) \<noteq> None"
    by (auto simp: membershipOf_None_iff isMembershipOf_def)
  then obtain m' where m': "membershipOf d (mb_userId m) (mb_companyId m) = Some m'" by blast
  from membershipOf_Some[OF this] have "m' = m"
    using wf_db_membership_unique[OF assms(1)] assms(2) by simp
  with m' show ?thesis by simp
qed

lemma in_ownersOf [simp]:
  "m \<in> set (ownersOf d c) \<longleftrightarrow> m \<in> set (d_membership d) \<and> mb_companyId m = c \<and> mb_role m = OWNER"
  by (auto simp: ownersOf_def)

lemma activeJoin_Nil_iff:
  "activeJoin d u = [] \<longleftrightarrow>
    (\<forall>m\<in>set (d_membership d). mb_userId m = u \<longrightarrow> \<not> isActiveCompany d (mb_companyId m))"
  by (auto simp: activeJoin_def isActiveCompany_def filter_empty_conv)

lemma in_activeJoin:
  "(m, c) \<in> set (activeJoin d u) \<longleftrightarrow> m \<in> set (d_membership d) \<and> mb_userId m = u \<and>
    c \<in> set (d_company d) \<and> co_id c = mb_companyId m \<and> co_activationStatus c = ACTIVE"
  by (auto simp: activeJoin_def)

text \<open>A user blocks its own deletion exactly where it is the only owner of an active company.\<close>

lemma blockingCompanies_Nil_iff:
  "blockingCompanies d u = [] \<longleftrightarrow>
    (\<forall>m\<in>set (d_membership d). mb_userId m = u \<longrightarrow> mb_role m = OWNER \<longrightarrow>
      isActiveCompany d (mb_companyId m) \<longrightarrow> length (ownersOf d (mb_companyId m)) \<noteq> 1)"
  by (auto simp: blockingCompanies_def isActiveCompany_def filter_empty_conv)

lemma insertMembership_runs [run_simps]:
  "insertMembership i u c r w = (Inr row, w') \<longleftrightarrow>
    w_dbFaults w (w_dbCalls w) = NoFault \<and>
    i \<notin> mb_id ` set (d_membership (w_db w)) \<and>
    (u, c) \<notin> membershipKey ` set (d_membership (w_db w)) \<and>
    u \<in> userIds (w_db w) \<and> c \<in> companyIds (w_db w) \<and>
    row = \<lparr>mb_id = i, mb_userId = u, mb_companyId = c, mb_role = r, mb_joinedAt = w_clock w,
           mb_createdAt = w_clock w, mb_updatedAt = w_clock w\<rparr> \<and>
    w' = w\<lparr>w_dbCalls := Suc (w_dbCalls w),
           w_db := w_db w\<lparr>d_membership := d_membership (w_db w) @ [row]\<rparr>\<rparr>"
  by (auto simp: insertMembership_def insertMembershipSql_def tryDb_runs Let_def)

lemma updateMembershipRole_runs [run_simps]:
  "updateMembershipRole u c r w = (Inr row, w') \<longleftrightarrow>
    w_dbFaults w (w_dbCalls w) = NoFault \<and>
    row = map_option (\<lambda>m. m\<lparr>mb_role := r, mb_updatedAt := w_clock w\<rparr>) (membershipOf (w_db w) u c) \<and>
    w' = w\<lparr>w_dbCalls := Suc (w_dbCalls w),
           w_db := w_db w\<lparr>d_membership := updateWhere (isMembershipOf u c)
             (\<lambda>m. m\<lparr>mb_role := r, mb_updatedAt := w_clock w\<rparr>) (d_membership (w_db w))\<rparr>\<rparr>"
  by (auto simp: updateMembershipRole_def updateMembershipRoleSql_def tryDb_runs Let_def
      membershipOf_def isMembershipOf_def[abs_def] at0_def split: list.splits)

lemma deleteMembership_runs [run_simps]:
  "deleteMembership u c w = (Inr row, w') \<longleftrightarrow>
    w_dbFaults w (w_dbCalls w) = NoFault \<and> row = membershipOf (w_db w) u c \<and>
    w' = w\<lparr>w_dbCalls := Suc (w_dbCalls w),
           w_db := w_db w\<lparr>d_membership := filter (\<lambda>m. \<not> isMembershipOf u c m) (d_membership (w_db w))\<rparr>\<rparr>"
  by (auto simp: deleteMembership_def deleteMembershipsWhere_def run_simps tryDb_runs membershipOf_def
      isMembershipOf_def[abs_def])

lemma removeMembershipsOfCompany_runs [run_simps]:
  "removeMembershipsOfCompany c w = (Inr rows, w') \<longleftrightarrow>
    w_dbFaults w (w_dbCalls w) = NoFault \<and>
    rows = filter (\<lambda>m. mb_companyId m = c) (d_membership (w_db w)) \<and>
    w' = w\<lparr>w_dbCalls := Suc (w_dbCalls w),
           w_db := w_db w\<lparr>d_membership := filter (\<lambda>m. mb_companyId m \<noteq> c) (d_membership (w_db w))\<rparr>\<rparr>"
  by (auto simp: removeMembershipsOfCompany_def deleteMembershipsWhere_def tryDb_runs)

section \<open>The constraints of the schema survive\<close>

lemma sqlKeeps_insertMembership [preserves_intros]:
  "sqlKeeps wf_db (insertMembershipSql i u c r)"
  by (auto simp: sqlKeeps_def insertMembershipSql_def Let_def wf_db_def wf_keys_def wf_refs_def
      companyIds_def userIds_def membershipKey_def split: if_splits)

lemma sqlKeeps_updateMembershipRole [preserves_intros]:
  "sqlKeeps wf_db (updateMembershipRoleSql u c r)"
proof -
  have keys: "map k (updateWhere P (\<lambda>m. m\<lparr>mb_role := r, mb_updatedAt := t\<rparr>) ms) = map k ms"
    if "k = mb_id \<or> k = mb_userId \<or> k = mb_companyId" for P t ms k
    by (rule map_key_updateWhere) (use that in auto)
  have pair: "map membershipKey (updateWhere P (\<lambda>m. m\<lparr>mb_role := r, mb_updatedAt := t\<rparr>) ms)
      = map membershipKey ms" for P t ms
    by (rule map_key_updateWhere) (simp add: membershipKey_def)
  show ?thesis
    by (auto simp: sqlKeeps_def updateMembershipRoleSql_def Let_def wf_db_def wf_keys_def wf_refs_def
        companyIds_def userIds_def keys pair in_updateWhere)
qed

lemma sqlKeeps_deleteMembershipsWhere [preserves_intros]:
  "sqlKeeps wf_db (deleteMembershipsWhere P)"
  by (auto simp: sqlKeeps_def deleteMembershipsWhere_def wf_db_def wf_keys_def wf_refs_def
      companyIds_def userIds_def intro: distinct_map_filterI)

lemma preserves_membershipRepo [preserves_intros]:
  "preserves wf_db (insertMembership i u c r)" "preserves wf_db (updateMembershipRole u c r)"
  "preserves wf_db (deleteMembership u c)" "preserves wf_db (removeMembershipsOfCompany c)"
  unfolding insertMembership_def updateMembershipRole_def deleteMembership_def
    removeMembershipsOfCompany_def
  by (intro preserves_intros)+

section \<open>Failures\<close>

lemma throws_membershipRepo [throws_intros]:
  assumes "DbError \<in> E"
  shows "throws E (findActiveMembershipsByUserId u)" "throws E (countActiveMembershipsByUserId u)"
    "throws E (findMembersByCompanyId c)" "throws E (findMemberUserIds c us)"
    "throws E (findMembership u c)" "throws E (lockMembershipForShare u c)"
    "throws E (countOwnerMemberships c)" "throws E (findCompaniesBlockingUserDeletion u)"
    "throws E (lockMembershipChangesOfUser u)" "throws E (lockOwnerMembershipsOfCompany c)"
    "throws E (lockOwnerMembershipsOfUserCompanies u)" "throws E generateMembershipId"
    "throws E (insertMembership i u c r)" "throws E (updateMembershipRole u c r)"
    "throws E (deleteMembership u c)" "throws E (removeMembershipsOfCompany c)"
  unfolding membership_locks membership_queries findMemberUserIds_def generateMembershipId_def
    insertMembership_def updateMembershipRole_def deleteMembership_def removeMembershipsOfCompany_def
  by (intro throws_intros assms)+

end
