(* ===== verification/UserRepo.thy ===== *)
theory UserRepo
  imports MembershipRepo
begin

text \<open>
  \<open>db/repositories/user.ts\<close>: the statements on the table \<open>user\<close>. Deleting a user cascades, by the
  foreign keys of the schema, to its memberships, its TOTP enrollment, its recovery codes and the
  invitations it sent. \<open>reassignLastUsedCompanyAfterLeaving\<close> moves the current company of the users
  that pointed at a company they left to the active company they joined first.
\<close>

definition findUserById :: "id \<Rightarrow> (user option, 'x) eff" where
  "findUserById i = tryDb (select (\<lambda>d. at0 (filter (\<lambda>u. us_id u = i) (d_user d))))"

definition findUserByEmail :: "string \<Rightarrow> (user option, 'x) eff" where
  "findUserByEmail email = tryDb (select (\<lambda>d. at0 (filter (\<lambda>u. us_email u = email) (d_user d))))"

definition dropUser :: "id \<Rightarrow> database \<Rightarrow> database" where
  "dropUser i d =
     d\<lparr>d_user := filter (\<lambda>u. us_id u \<noteq> i) (d_user d),
       d_membership := filter (\<lambda>m. mb_userId m \<noteq> i) (d_membership d),
       d_mfaTotp := filter (\<lambda>t. mt_userId t \<noteq> i) (d_mfaTotp d),
       d_mfaRecoveryCode := filter (\<lambda>r. rc_userId r \<noteq> i) (d_mfaRecoveryCode d),
       d_invitation := filter (\<lambda>v. iv_invitedByUserId v \<noteq> i) (d_invitation d)\<rparr>"

definition deleteUserSql :: "id \<Rightarrow> user option sql" where
  "deleteUserSql i = (\<lambda>now d. Some
     (at0 (filter (\<lambda>u. us_id u = i) (d_user d)),
      if i \<in> userIds d then dropUser i d else d))"

definition deleteUser :: "id \<Rightarrow> (user option, 'x) eff" where
  "deleteUser i = tryDb (deleteUserSql i)"

definition updateUserLastUsedCompanySql :: "id \<Rightarrow> id \<Rightarrow> unit sql" where
  "updateUserLastUsedCompanySql userId companyId = (\<lambda>now d.
     if userId \<in> userIds d \<and> companyId \<notin> companyIds d then None
     else Some ((), d\<lparr>d_user := updateWhere (\<lambda>u. us_id u = userId)
       (\<lambda>u. u\<lparr>us_lastUsedCompanyId := Some companyId, us_updatedAt := now\<rparr>) (d_user d)\<rparr>))"

definition updateUserLastUsedCompany :: "id \<Rightarrow> id \<Rightarrow> (unit, 'x) eff" where
  "updateUserLastUsedCompany userId companyId = tryDb (updateUserLastUsedCompanySql userId companyId)"

text \<open>The row's \<open>lastUsedCompanyId\<close>, under a lock that lets foreign keys be checked.\<close>

definition lockCurrentCompanyOf :: "id \<Rightarrow> (id option option, 'x) eff" where
  "lockCurrentCompanyOf userId = selectFor (UserNoKeyUpdate userId)
     (\<lambda>d. map_option us_lastUsedCompanyId (at0 (filter (\<lambda>u. us_id u = userId) (d_user d))))"

definition findAbandonedSignupUserIds :: "millis \<Rightarrow> (id list, 'x) eff" where
  "findAbandonedSignupUserIds olderThan = tryDb (select (\<lambda>d. map us_id
     (filter (\<lambda>u. us_createdAt u < olderThan \<and> activeJoin d (us_id u) = []) (d_user d))))"

definition lockUsers :: "id list \<Rightarrow> (unit, 'x) eff" where
  "lockUsers uids = lockDb (UserRows uids)"

text \<open>The scalar subquery: the company of the oldest membership of an active company.\<close>

definition oldestActiveCompanyOf :: "database \<Rightarrow> id \<Rightarrow> id option" where
  "oldestActiveCompanyOf d userId =
     map_option (mb_companyId \<circ> fst) (at0 (sort_key (oldestJoinedFirst \<circ> fst) (activeJoin d userId)))"

definition reassignLastUsedCompanySql :: "id \<Rightarrow> id list \<Rightarrow> unit sql" where
  "reassignLastUsedCompanySql companyId uids = (\<lambda>now d. Some ((),
     d\<lparr>d_user := updateWhere (\<lambda>u. us_id u \<in> set uids \<and> us_lastUsedCompanyId u = Some companyId)
       (\<lambda>u. u\<lparr>us_lastUsedCompanyId := oldestActiveCompanyOf d (us_id u), us_updatedAt := now\<rparr>)
       (d_user d)\<rparr>))"

definition reassignLastUsedCompanyAfterLeaving :: "id \<Rightarrow> id list \<Rightarrow> (unit, 'x) eff" where
  "reassignLastUsedCompanyAfterLeaving companyId uids =
     andDo (lockUsers uids) (tryDb (reassignLastUsedCompanySql companyId uids))"

section \<open>What the statements do\<close>

lemmas userRepo_defs [sql_defs] =
  deleteUserSql_def updateUserLastUsedCompanySql_def reassignLastUsedCompanySql_def

lemmas user_queries [run_simps] = findUserById_def findUserByEmail_def lockCurrentCompanyOf_def
  findAbandonedSignupUserIds_def lockUsers_def

lemma keeps_user_queries [keeps_intros]:
  "keeps w_db (findUserById i)" "keeps w_db (findUserByEmail e)" "keeps w_db (lockCurrentCompanyOf i)"
  "keeps w_db (findAbandonedSignupUserIds t)" "keeps w_db (lockUsers us)"
  unfolding user_queries by (intro keeps_intros)+

lemmas preserves_user_queries [preserves_intros] = keeps_user_queries[THEN preserves_keeps]

lemma dropUser_simps [simp]:
  "d_company (dropUser i d) = d_company d"
  "d_membership (dropUser i d) = filter (\<lambda>m. mb_userId m \<noteq> i) (d_membership d)"
  "d_user (dropUser i d) = filter (\<lambda>u. us_id u \<noteq> i) (d_user d)"
  "d_auditLog (dropUser i d) = d_auditLog d"
  "d_invitation (dropUser i d) = filter (\<lambda>v. iv_invitedByUserId v \<noteq> i) (d_invitation d)"
  "d_mfaTotp (dropUser i d) = filter (\<lambda>t. mt_userId t \<noteq> i) (d_mfaTotp d)"
  "d_mfaRecoveryCode (dropUser i d) = filter (\<lambda>r. rc_userId r \<noteq> i) (d_mfaRecoveryCode d)"
  by (simp_all add: dropUser_def)

lemma isActiveCompany_dropUser [simp]: "isActiveCompany (dropUser i d) c = isActiveCompany d c"
  by (simp add: isActiveCompany_def)

lemma companyIds_dropUser [simp]: "companyIds (dropUser i d) = companyIds d"
  by (simp add: companyIds_def)

lemma at0_user_None_iff: "at0 (filter (\<lambda>u. us_id u = i) (d_user d)) = None \<longleftrightarrow> i \<notin> userIds d"
  by (auto simp: userIds_def filter_empty_conv)

lemma deleteUser_runs [run_simps]:
  "deleteUser i w = (Inr row, w') \<longleftrightarrow>
    w_dbFaults w (w_dbCalls w) = NoFault \<and>
    row = at0 (filter (\<lambda>u. us_id u = i) (d_user (w_db w))) \<and>
    w' = w\<lparr>w_dbCalls := Suc (w_dbCalls w), w_db := (if i \<in> userIds (w_db w) then dropUser i (w_db w) else w_db w)\<rparr>"
  by (auto simp: deleteUser_def deleteUserSql_def tryDb_runs)

lemma updateUserLastUsedCompany_runs [run_simps]:
  "updateUserLastUsedCompany u c w = (Inr r, w') \<longleftrightarrow>
    w_dbFaults w (w_dbCalls w) = NoFault \<and>
    (u \<in> userIds (w_db w) \<longrightarrow> c \<in> companyIds (w_db w)) \<and>
    w' = w\<lparr>w_dbCalls := Suc (w_dbCalls w),
           w_db := w_db w\<lparr>d_user := updateWhere (\<lambda>x. us_id x = u)
             (\<lambda>x. x\<lparr>us_lastUsedCompanyId := Some c, us_updatedAt := w_clock w\<rparr>) (d_user (w_db w))\<rparr>\<rparr>"
  by (auto simp: updateUserLastUsedCompany_def updateUserLastUsedCompanySql_def tryDb_runs)

lemma reassign_runs [run_simps]:
  "reassignLastUsedCompanyAfterLeaving c us w = (Inr r, w') \<longleftrightarrow>
    w_dbFaults w (w_dbCalls w) = NoFault \<and> w_dbFaults w (Suc (w_dbCalls w)) = NoFault \<and>
    w' = w\<lparr>w_dbCalls := Suc (Suc (w_dbCalls w)), w_locks := w_locks w @ [UserRows us],
           w_db := snd (the (reassignLastUsedCompanySql c us (w_clock w) (w_db w)))\<rparr>"
  by (auto simp: reassignLastUsedCompanyAfterLeaving_def run_simps tryDb_runs reassignLastUsedCompanySql_def)

lemma oldestActiveCompanyOf_None_iff: "oldestActiveCompanyOf d u = None \<longleftrightarrow> activeJoin d u = []"
  by (auto simp: oldestActiveCompanyOf_def) (metis set_empty set_sort)

lemma sort_key_at0_least:
  assumes "at0 (sort_key k xs) = Some x"
  shows "x \<in> set xs \<and> (\<forall>y\<in>set xs. k x \<le> k y)"
proof -
  obtain ys where s: "sort_key k xs = x # ys"
    using assms by (cases "sort_key k xs") auto
  have "sorted (map k (sort_key k xs))" by simp
  then have "\<forall>y\<in>set (sort_key k xs). k x \<le> k y" by (auto simp: s)
  moreover have "x \<in> set (sort_key k xs)" by (simp add: s)
  ultimately show ?thesis by simp
qed

lemma oldestActiveCompanyOf_Some:
  assumes "oldestActiveCompanyOf d u = Some c"
  shows "\<exists>m\<in>set (d_membership d). mb_userId m = u \<and> mb_companyId m = c \<and> isActiveCompany d c \<and>
    (\<forall>m'\<in>set (d_membership d). mb_userId m' = u \<longrightarrow> isActiveCompany d (mb_companyId m') \<longrightarrow>
      oldestJoinedFirst m \<le> oldestJoinedFirst m')"
proof -
  from assms obtain m co where at: "at0 (sort_key (oldestJoinedFirst \<circ> fst) (activeJoin d u)) = Some (m, co)"
    and c: "c = mb_companyId m"
    by (auto simp: oldestActiveCompanyOf_def)
  from sort_key_at0_least[OF at] have m: "(m, co) \<in> set (activeJoin d u)"
    and least: "\<And>m' co'. (m', co') \<in> set (activeJoin d u) \<Longrightarrow> oldestJoinedFirst m \<le> oldestJoinedFirst m'"
    by auto
  have "oldestJoinedFirst m \<le> oldestJoinedFirst m'"
    if "m' \<in> set (d_membership d)" "mb_userId m' = u" "isActiveCompany d (mb_companyId m')" for m'
  proof -
    from that(3) obtain co' where "co' \<in> set (d_company d)" "co_id co' = mb_companyId m'"
      "co_activationStatus co' = ACTIVE"
      by (auto simp: isActiveCompany_def)
    with that show ?thesis by (intro least[of m' co']) (simp add: in_activeJoin)
  qed
  moreover have "m \<in> set (d_membership d) \<and> mb_userId m = u \<and> mb_companyId m = c \<and> isActiveCompany d c"
    using m by (auto simp: in_activeJoin isActiveCompany_def c)
  ultimately show ?thesis by blast
qed

section \<open>The constraints of the schema survive\<close>

lemma sqlKeeps_deleteUser [preserves_intros]: "sqlKeeps wf_db (deleteUserSql i)"
  by (auto simp: sqlKeeps_def deleteUserSql_def dropUser_def wf_db_def wf_keys_def wf_refs_def
      companyIds_def userIds_def intro: distinct_map_filterI split: if_splits)

lemma wf_db_updateUsers:
  assumes wf: "wf_db d"
    and keys: "\<And>u. us_id (f u) = us_id u \<and> us_email (f u) = us_email u"
    and cur: "\<And>u c. u \<in> set (d_user d) \<Longrightarrow> P u \<Longrightarrow> us_lastUsedCompanyId (f u) = Some c \<Longrightarrow>
      c \<in> companyIds d"
  shows "wf_db (d\<lparr>d_user := updateWhere P f (d_user d)\<rparr>)"
proof -
  have ids: "map us_id (updateWhere P f us) = map us_id us"
    and mails: "map us_email (updateWhere P f us) = map us_email us" for us
    using keys by (auto simp: updateWhere_def)
  have uids: "userIds (d\<lparr>d_user := updateWhere P f (d_user d)\<rparr>) = userIds d"
    using ids by (simp add: userIds_def flip: set_map)
  have cids: "companyIds (d\<lparr>d_user := updateWhere P f (d_user d)\<rparr>) = companyIds d"
    by (simp add: companyIds_def)
  have "c \<in> companyIds d"
    if "x \<in> set (updateWhere P f (d_user d))" "us_lastUsedCompanyId x = Some c" for x c
    using that wf cur by (auto simp: in_updateWhere wf_db_def wf_refs_def split: if_splits)
  with wf show ?thesis
    by (simp add: wf_db_def wf_keys_def wf_refs_def ids mails uids cids)
qed

lemma sqlKeeps_updateUsers:
  assumes "\<And>now d u. us_id (f now d u) = us_id u \<and> us_email (f now d u) = us_email u"
    and "\<And>now d u c. u \<in> set (d_user d) \<Longrightarrow> P d u \<Longrightarrow> G now d \<Longrightarrow>
      us_lastUsedCompanyId (f now d u) = Some c \<Longrightarrow> c \<in> companyIds d"
  shows "sqlKeeps wf_db (\<lambda>now d. if G now d
    then Some (a d, d\<lparr>d_user := updateWhere (P d) (f now d) (d_user d)\<rparr>) else None)"
  unfolding sqlKeeps_def
  by (auto split: if_splits intro!: wf_db_updateUsers assms(1)) (rule assms(2))

lemma sqlKeeps_updateUserLastUsedCompany [preserves_intros]:
  "sqlKeeps wf_db (updateUserLastUsedCompanySql u c)"
proof -
  have "updateUserLastUsedCompanySql u c = (\<lambda>now d. if u \<in> userIds d \<longrightarrow> c \<in> companyIds d
    then Some ((), d\<lparr>d_user := updateWhere (\<lambda>x. us_id x = u)
      (\<lambda>x. x\<lparr>us_lastUsedCompanyId := Some c, us_updatedAt := now\<rparr>) (d_user d)\<rparr>) else None)"
    by (auto simp: updateUserLastUsedCompanySql_def intro!: ext)
  then show ?thesis
    by (simp only:) (rule sqlKeeps_updateUsers, auto simp: userIds_def)
qed

lemma sqlKeeps_reassign [preserves_intros]: "sqlKeeps wf_db (reassignLastUsedCompanySql c us)"
proof -
  have member: "oldestActiveCompanyOf d u = Some c' \<Longrightarrow> c' \<in> companyIds d" for d u c'
    by (drule oldestActiveCompanyOf_Some) (force simp: isActiveCompany_def companyIds_def)
  have "reassignLastUsedCompanySql c us = (\<lambda>now d. if True
    then Some ((), d\<lparr>d_user := updateWhere (\<lambda>u. us_id u \<in> set us \<and> us_lastUsedCompanyId u = Some c)
      (\<lambda>u. u\<lparr>us_lastUsedCompanyId := oldestActiveCompanyOf d (us_id u), us_updatedAt := now\<rparr>)
      (d_user d)\<rparr>) else None)"
    by (auto simp: reassignLastUsedCompanySql_def intro!: ext)
  then show ?thesis
    by (simp only:) (rule sqlKeeps_updateUsers, auto intro: member)
qed

lemma preserves_userRepo [preserves_intros]:
  "preserves wf_db (deleteUser i)" "preserves wf_db (updateUserLastUsedCompany u c)"
  "preserves wf_db (reassignLastUsedCompanyAfterLeaving c us)"
  unfolding deleteUser_def updateUserLastUsedCompany_def reassignLastUsedCompanyAfterLeaving_def
  by (intro preserves_intros)+

section \<open>Failures\<close>

lemma throws_userRepo [throws_intros]:
  assumes "DbError \<in> E"
  shows "throws E (findUserById i)" "throws E (findUserByEmail e)" "throws E (lockCurrentCompanyOf i)"
    "throws E (findAbandonedSignupUserIds t)" "throws E (lockUsers us)" "throws E (deleteUser i)"
    "throws E (updateUserLastUsedCompany u c)" "throws E (reassignLastUsedCompanyAfterLeaving c us)"
  unfolding user_queries deleteUser_def updateUserLastUsedCompany_def reassignLastUsedCompanyAfterLeaving_def
  by (intro throws_intros assms)+

end
