(* ===== verification/AuditLogRepo.thy ===== *)
theory AuditLogRepo
  imports World
begin

text \<open>
  \<open>db/repositories/audit-log.ts\<close> and \<open>src/audit/append.ts\<close>: audit entries are only ever appended.
  \<open>appendAuditInTx\<close> is part of the transaction it describes; \<open>appendAuditBestEffort\<close> reports a lost entry
  and goes on.
\<close>

fun drawUUIDs :: "nat \<Rightarrow> (string list, 'x) eff" where
  "drawUUIDs 0 = succeed []"
| "drawUUIDs (Suc n) = andThen randomUUID (\<lambda>i. mapEff (Cons i) (drawUUIDs n))"

definition insertAuditLogsSql :: "(id \<times> audit_log_entry) list \<Rightarrow> unit sql" where
  "insertAuditLogsSql rows = (\<lambda>now d.
     if distinct (map fst rows) \<and> set (map fst rows) \<inter> al_id ` set (d_auditLog d) = {}
     then Some ((), d\<lparr>d_auditLog := d_auditLog d @
       map (\<lambda>(i, e). \<lparr>al_id = i, al_entry = e, al_createdAt = now\<rparr>) rows\<rparr>)
     else None)"

definition appendAuditLogs :: "audit_log_entry list \<Rightarrow> (unit, 'x) eff" where
  "appendAuditLogs entries =
     (if entries = [] then succeed ()
      else andThen (drawUUIDs (length entries)) (\<lambda>ids. tryDb (insertAuditLogsSql (zip ids entries))))"

definition appendAuditLog :: "audit_log_entry \<Rightarrow> (unit, 'x) eff" where
  "appendAuditLog entry = appendAuditLogs [entry]"

definition appendAuditInTx :: "audit_log_entry list \<Rightarrow> (unit, 'x) eff" where
  "appendAuditInTx entries = appendAuditLogs entries"

definition appendAuditBestEffort :: "audit_log_entry \<Rightarrow> (unit, 'x) eff" where
  "appendAuditBestEffort entry = catchIf (\<lambda>_. True) (\<lambda>_. captureCause ''audit-log'') (appendAuditLog entry)"

definition membershipRemovedEntry :: "id \<Rightarrow> id \<Rightarrow> id \<Rightarrow> role \<Rightarrow> audit_log_entry" where
  "membershipRemovedEntry actorUserId companyId userId role =
     \<lparr>ae_userId = actorUserId,
      ae_event = Membership_removed companyId userId actorUserId role (actorUserId = userId)\<rparr>"

definition invitationRevokedEntry :: "id \<Rightarrow> id \<Rightarrow> id \<Rightarrow> audit_log_entry" where
  "invitationRevokedEntry actorUserId invitationId companyId =
     \<lparr>ae_userId = actorUserId, ae_event = Invitation_revoked invitationId companyId actorUserId\<rparr>"

section \<open>What they do\<close>

text \<open>What was logged: the entries, in order.\<close>

definition logged :: "database \<Rightarrow> audit_log_entry list" where
  "logged d = map al_entry (d_auditLog d)"

lemma drawUUIDs_runs:
  "drawUUIDs n w = (Inr ids, w') \<longleftrightarrow>
    ids = map (w_uuid w) [w_drawn w ..< w_drawn w + n] \<and> w' = w\<lparr>w_drawn := w_drawn w + n\<rparr>"
proof (induction n arbitrary: w ids)
  case (Suc n)
  have "map (w_uuid w) [w_drawn w ..< w_drawn w + Suc n] =
      w_uuid w (w_drawn w) # map (w_uuid w) [Suc (w_drawn w) ..< Suc (w_drawn w + n)]"
    by (simp add: upt_conv_Cons del: upt_Suc)
  with Suc show ?case by (auto simp: run_simps)
qed (auto simp: run_simps)

lemma drawUUIDs_total: "fst (drawUUIDs n w) \<noteq> Inl r"
  by (induction n arbitrary: w r)
    (auto simp: andThen_def mapEff_def succeed_def randomUUID_def split: prod.splits sum.splits,
     metis fst_conv)

text \<open>The entries are appended, and nothing else of the database changes.\<close>

definition auditAppended :: "audit_log_entry list \<Rightarrow> database \<Rightarrow> database \<Rightarrow> bool" where
  "auditAppended entries d d' \<longleftrightarrow>
    logged d' = logged d @ entries \<and> d' = d\<lparr>d_auditLog := d_auditLog d'\<rparr>"

lemma auditAppended_tables:
  assumes "auditAppended entries d d'"
  shows "d_company d' = d_company d" "d_user d' = d_user d" "d_mfaTotp d' = d_mfaTotp d"
    "d_mfaRecoveryCode d' = d_mfaRecoveryCode d" "d_membership d' = d_membership d"
    "d_invitation d' = d_invitation d" "logged d' = logged d @ entries"
  using assms unfolding auditAppended_def
  by (metis database.select_convs database.surjective database.update_convs(5))+

lemma map_al_entry_zip:
  "length ids = length entries \<Longrightarrow>
    map al_entry (map (\<lambda>p. \<lparr>al_id = fst p, al_entry = snd p, al_createdAt = t\<rparr>) (zip ids entries)) = entries"
  by (induction rule: list_induct2) auto

lemma appendAuditLogs_db:
  assumes "appendAuditLogs entries w = (Inr u, w')"
  shows "auditAppended entries (w_db w) (w_db w')"
  using assms
  by (cases "entries = []")
    (auto simp: appendAuditLogs_def insertAuditLogsSql_def auditAppended_def logged_def run_simps
      drawUUIDs_runs tryDb_runs case_prod_unfold map_al_entry_zip simp del: map_map
      split: if_splits)

lemma appendAuditLogs_rest:
  assumes "appendAuditLogs entries w = (Inr u, w')"
  shows "w_hooks w' = w_hooks w \<and> w_clock w' = w_clock w \<and> w_locks w' = w_locks w"
  using assms
  by (auto simp: appendAuditLogs_def run_simps drawUUIDs_runs tryDb_runs split: if_splits)

lemma appendAuditInTx_db:
  "appendAuditInTx entries w = (Inr u, w') \<Longrightarrow> auditAppended entries (w_db w) (w_db w')"
  unfolding appendAuditInTx_def by (rule appendAuditLogs_db)

lemma appendAuditInTx_rest:
  "appendAuditInTx entries w = (Inr u, w') \<Longrightarrow>
    w_hooks w' = w_hooks w \<and> w_clock w' = w_clock w \<and> w_locks w' = w_locks w"
  unfolding appendAuditInTx_def by (rule appendAuditLogs_rest)

lemma appendAuditLogs_fails:
  "appendAuditLogs entries w = (Inl r, w') \<Longrightarrow> r = Fail DbError"
  using drawUUIDs_total[of "length entries" w r]
  by (auto simp: appendAuditLogs_def run_simps dest: tryDb_fails split: if_splits)

text \<open>A best-effort entry never fails, and never keeps the caller from going on.\<close>

lemma appendAuditBestEffort_total: "\<exists>w'. appendAuditBestEffort entry w = (Inr (), w')"
proof -
  obtain r w' where run: "appendAuditLog entry w = (r, w')" by fastforce
  then show ?thesis
    using appendAuditLogs_fails[of "[entry]" w]
    by (cases r) (auto simp: appendAuditBestEffort_def catchIf_def appendAuditLog_def captureCause_def)
qed

section \<open>The constraints of the schema survive\<close>

lemma keeps_drawUUIDs [keeps_intros]: "keeps w_db (drawUUIDs n)"
  by (induction n) (auto intro: keeps_intros)

lemma sqlKeeps_insertAuditLogs [preserves_intros]: "sqlKeeps wf_db (insertAuditLogsSql rows)"
  by (auto simp: sqlKeeps_def insertAuditLogsSql_def wf_db_def wf_keys_def wf_refs_def
      companyIds_def userIds_def comp_def case_prod_unfold split: if_splits)

lemma preserves_appendAuditLogs:
  "(\<And>rows. sqlKeeps I (insertAuditLogsSql rows)) \<Longrightarrow>
    preserves I (appendAuditLogs entries)"
  unfolding appendAuditLogs_def
  by (intro preserves_intros) (auto intro: preserves_keeps keeps_intros)

lemma preserves_audit [preserves_intros]:
  assumes "\<And>rows. sqlKeeps I (insertAuditLogsSql rows)"
  shows "preserves I (appendAuditLogs entries)" "preserves I (appendAuditInTx entries)"
    "preserves I (appendAuditBestEffort entry)"
  unfolding appendAuditInTx_def appendAuditBestEffort_def appendAuditLog_def
  by (intro preserves_intros preserves_appendAuditLogs assms)+

section \<open>Failures\<close>

lemma throws_drawUUIDs [throws_intros]: "throws E (drawUUIDs n)"
  by (induction n) (auto intro: throws_intros)

lemma throws_audit [throws_intros]:
  assumes "DbError \<in> E"
  shows "throws E (appendAuditLogs es)" "throws E (appendAuditInTx es)"
  unfolding appendAuditInTx_def appendAuditLogs_def
  by (intro throws_intros assms)+

lemma throws_appendAuditBestEffort [throws_intros]: "throws E (appendAuditBestEffort entry)"
proof -
  have "throws {DbError} (appendAuditLog entry)"
    unfolding appendAuditLog_def by (intro throws_intros) simp
  then show ?thesis
    unfolding appendAuditBestEffort_def by (rule throws_catchIf) (auto intro: throws_intros)
qed

end
