(* ===== verification/AuthApi.thy ===== *)
theory AuthApi
  imports UserRepo AuditLogRepo
begin

text \<open>
  \<open>src/auth-service.ts\<close>, \<open>src/auth-wiring.ts\<close>, \<open>src/session-check.ts\<close>,
  \<open>src/account/delete-sessions.ts\<close>: what the program asks of better-auth. The library itself is not part
  of the repository, so its endpoints are a parameter \<open>A :: 'x better_auth\<close> of everything that uses
  them: arbitrary functions on the world. \<open>auth_frame A\<close> is the documented behaviour the theorems rely
  on where they need it: reading, revoking and creating sessions does not write the tables the
  program owns.
\<close>

record auth_session_row =
  sr_id :: id
  sr_token :: string
  sr_expiresAt :: millis

record auth_session_user =
  su_id :: id
  su_revision :: "nat option"

record auth_session =
  as_session :: "auth_session_row option"
  as_user :: "auth_session_user option"

text \<open>The thrown error: an \<open>APIError\<close> with \<open>body.code = 'UNAUTHORIZED'\<close>, or anything else.\<close>

datatype auth_cause = CauseUnauthorized | CauseOther

type_synonym ('a, 'x) auth_call = "'x world \<Rightarrow> (auth_cause + 'a) \<times> 'x world"

record 'x better_auth =
  ba_getSession :: "headers \<Rightarrow> (auth_session option, 'x) auth_call"
  ba_deleteUserSessions :: "id \<Rightarrow> (unit, 'x) auth_call"
  ba_deleteSession :: "string \<Rightarrow> (unit, 'x) auth_call"
  ba_revokeOtherSessions :: "headers \<Rightarrow> (headers option, 'x) auth_call"
  ba_createSession :: "id \<Rightarrow> (string \<times> millis, 'x) auth_call"
  ba_createUser :: "string \<Rightarrow> string \<Rightarrow> (id \<times> string, 'x) auth_call"
  ba_signInMagicLink :: "string \<Rightarrow> string \<Rightarrow> (unit, 'x) auth_call"
  ba_signOut :: "headers \<Rightarrow> (headers, 'x) auth_call"
  ba_secret :: string
  ba_cookieName :: string
  ba_makeSignature :: "string \<Rightarrow> string \<Rightarrow> string"
  ba_serializeSetCookie :: "string \<Rightarrow> string \<Rightarrow> int \<Rightarrow> string"

definition tryAuthApi :: "('a, 'x) auth_call \<Rightarrow> ('a, 'x) eff" where
  "tryAuthApi call = (\<lambda>w. case call w of
     (Inl c, w') \<Rightarrow> (Inl (Fail AuthApiError), w')
   | (Inr a, w') \<Rightarrow> (Inr a, w'))"

definition getSession :: "'x better_auth \<Rightarrow> headers \<Rightarrow> (auth_session option, 'x) eff" where
  "getSession A h = tryAuthApi (ba_getSession A h)"

definition deleteUserSessions :: "'x better_auth \<Rightarrow> id \<Rightarrow> (unit, 'x) eff" where
  "deleteUserSessions A userId = tryAuthApi (ba_deleteUserSessions A userId)"

definition deleteSession :: "'x better_auth \<Rightarrow> string \<Rightarrow> (unit, 'x) eff" where
  "deleteSession A token = tryAuthApi (ba_deleteSession A token)"

definition isSessionRejection :: "auth_cause \<Rightarrow> bool" where
  "isSessionRejection c \<longleftrightarrow> c = CauseUnauthorized"

definition revokeOtherSessions :: "'x better_auth \<Rightarrow> headers \<Rightarrow> (headers, 'x) eff" where
  "revokeOtherSessions A h = (\<lambda>w. case ba_revokeOtherSessions A h w of
     (Inl c, w') \<Rightarrow> (Inl (Fail (if isSessionRejection c then SessionRejected else AuthApiError)), w')
   | (Inr revoked, w') \<Rightarrow> (Inr (case revoked of None \<Rightarrow> [] | Some hs \<Rightarrow> hs), w'))"

definition issueSession :: "'x better_auth \<Rightarrow> id \<Rightarrow> (headers, 'x) eff" where
  "issueSession A userId = andThen currentTimeMillis (\<lambda>now.
     andThen (tryAuthApi (ba_createSession A userId)) (\<lambda>(token, expiresAt).
       (let maxAge = (expiresAt - now) div 1000;
            signed = token @ ''.'' @ ba_makeSignature A token (ba_secret A)
        in succeed [(''set-cookie'', ba_serializeSetCookie A (ba_cookieName A) signed maxAge)])))"

definition createUser :: "'x better_auth \<Rightarrow> string \<Rightarrow> string \<Rightarrow> (id \<times> string, 'x) eff" where
  "createUser A email name = tryAuthApi (ba_createUser A email name)"

definition signInMagicLink :: "'x better_auth \<Rightarrow> string \<Rightarrow> string \<Rightarrow> (unit, 'x) eff" where
  "signInMagicLink A email callbackURL = tryAuthApi (ba_signInMagicLink A email callbackURL)"

definition signOut :: "'x better_auth \<Rightarrow> headers \<Rightarrow> (headers, 'x) eff" where
  "signOut A h = tryAuthApi (ba_signOut A h)"

section \<open>Sessions and users\<close>

datatype session_status = NoSession | UserDeleted | Active auth_session user

definition checkSession :: "'x better_auth \<Rightarrow> headers \<Rightarrow> (session_status, 'x) eff" where
  "checkSession A h = andThen (getSession A h) (\<lambda>session.
     case session of
       None \<Rightarrow> succeed NoSession
     | Some s \<Rightarrow>
         (case (as_session s, as_user s) of
            (Some _, Some u) \<Rightarrow>
              (if su_id u = [] then succeed NoSession
               else andThen (findUserById (su_id u)) (\<lambda>user.
                 succeed (case user of Some row \<Rightarrow> Active s row | None \<Rightarrow> UserDeleted)))
          | _ \<Rightarrow> succeed NoSession))"

definition deleteSessionsOf :: "'x better_auth \<Rightarrow> id \<Rightarrow> account_deletion_flow \<Rightarrow> (unit, 'x) eff" where
  "deleteSessionsOf A userId flow =
     catchIf (\<lambda>e. e = AuthApiError) (\<lambda>_. captureCause ''deleteAccount'') (deleteUserSessions A userId)"

text \<open>The only effect the program registers to run after a commit.\<close>

fun runHook :: "'x better_auth \<Rightarrow> hook \<Rightarrow> (unit, 'x) eff" where
  "runHook A (DeleteSessionsOf userId flow) = deleteSessionsOf A userId flow"

definition transaction :: "'x better_auth \<Rightarrow> ('a, 'x) eff \<Rightarrow> ('a, 'x) eff" where
  "transaction A f = runTx (runHook A) f"

section \<open>What is relied on\<close>

definition auth_frame :: "'x better_auth \<Rightarrow> bool" where
  "auth_frame A \<longleftrightarrow>
    (\<forall>h w. w_db (snd (ba_getSession A h w)) = w_db w) \<and>
    (\<forall>u w. w_db (snd (ba_deleteUserSessions A u w)) = w_db w) \<and>
    (\<forall>t w. w_db (snd (ba_deleteSession A t w)) = w_db w) \<and>
    (\<forall>h w. w_db (snd (ba_revokeOtherSessions A h w)) = w_db w) \<and>
    (\<forall>u w. w_db (snd (ba_createSession A u w)) = w_db w) \<and>
    (\<forall>h w. w_db (snd (ba_signOut A h w)) = w_db w)"

lemma tryAuthApi_runs [run_simps]:
  "tryAuthApi c w = (Inr a, w') \<longleftrightarrow> c w = (Inr a, w')"
  "tryAuthApi c w = (Inl r, w') \<longleftrightarrow> r = Fail AuthApiError \<and> (\<exists>e. c w = (Inl e, w'))"
  by (auto simp: tryAuthApi_def split: prod.splits sum.splits)

lemma keeps_tryAuthApi: "(\<And>w. v (snd (c w)) = v w) \<Longrightarrow> keeps v (tryAuthApi c)"
  unfolding keeps_def tryAuthApi_def
  by (auto split: prod.splits sum.splits) (metis snd_conv)+

lemma keeps_auth [keeps_intros]:
  assumes "auth_frame A"
  shows "keeps w_db (getSession A h)" "keeps w_db (deleteUserSessions A u)"
    "keeps w_db (deleteSession A t)" "keeps w_db (signOut A h)" "keeps w_db (issueSession A u)"
    "keeps w_db (revokeOtherSessions A h)"
proof -
  note frame = assms[unfolded auth_frame_def]
  show "keeps w_db (getSession A h)" "keeps w_db (deleteUserSessions A u)"
    "keeps w_db (deleteSession A t)" "keeps w_db (signOut A h)"
    unfolding getSession_def deleteUserSessions_def deleteSession_def signOut_def
    using frame by (auto intro: keeps_tryAuthApi)
  show "keeps w_db (issueSession A u)"
    unfolding issueSession_def using frame
    by (intro keeps_intros) (auto intro: keeps_tryAuthApi keeps_intros split: prod.splits simp: Let_def)
  show "keeps w_db (revokeOtherSessions A h)"
    unfolding keeps_def revokeOtherSessions_def using frame
    by (auto split: prod.splits sum.splits) (metis snd_conv)+
qed

lemma keeps_checkSession [keeps_intros]: "auth_frame A \<Longrightarrow> keeps w_db (checkSession A h)"
  unfolding checkSession_def
  by (intro keeps_intros) (auto intro!: keeps_intros split: option.splits prod.splits)

lemma keeps_runHook [keeps_intros]: "auth_frame A \<Longrightarrow> keeps w_db (runHook A k)"
  by (cases k) (auto simp: deleteSessionsOf_def intro: keeps_intros)

lemma transaction_success:
  assumes "transaction A f w = (Inr a, w')" "auth_frame A"
  shows "\<exists>w1. f (w\<lparr>w_dbCalls := Suc (w_dbCalls w), w_hooks := [], w_locks := []\<rparr>) = (Inr a, w1) \<and>
      w_db w' = w_db w1"
  using assms keeps_runHook unfolding transaction_def by (intro runTx_success) auto

lemma preserves_transaction:
  assumes "\<And>w a w1. I (w_db w) \<Longrightarrow> f w = (Inr a, w1) \<Longrightarrow> I (w_db w1)" "auth_frame A"
  shows "preserves I (transaction A f)"
  unfolding transaction_def using assms by (intro preserves_runTx) (auto intro: keeps_runHook)

lemma preserves_transaction_statementwise [preserves_intros]:
  "preserves I f \<Longrightarrow> auth_frame A \<Longrightarrow> preserves I (transaction A f)"
  by (rule preserves_transaction) (auto dest: preservesD)

text \<open>A session is active exactly when better-auth knows it and its user still has a row.\<close>

lemma checkSession_Active:
  assumes "checkSession A h w = (Inr (Active s row), w')"
  shows "\<exists>w1 u sr. getSession A h w = (Inr (Some s), w1) \<and> as_session s = Some sr \<and> as_user s = Some u \<and>
      su_id u \<noteq> [] \<and> us_id row = su_id u \<and> row \<in> set (d_user (w_db w1)) \<and> w_db w' = w_db w1"
proof -
  from assms obtain found w1 where g: "getSession A h w = (Inr found, w1)"
    and rest: "(case found of None \<Rightarrow> succeed NoSession
      | Some s \<Rightarrow> (case (as_session s, as_user s) of
          (Some _, Some u) \<Rightarrow> (if su_id u = [] then succeed NoSession
            else andThen (findUserById (su_id u)) (\<lambda>user.
              succeed (case user of Some row \<Rightarrow> Active s row | None \<Rightarrow> UserDeleted)))
        | _ \<Rightarrow> succeed NoSession)) w1 = (Inr (Active s row), w')"
    unfolding checkSession_def andThen_runs by blast
  from rest obtain s' where s': "found = Some s'" by (cases found) (simp_all add: run_simps)
  from rest obtain sr where sr: "as_session s' = Some sr"
    by (cases "as_session s'") (simp_all add: s' run_simps)
  from rest obtain u where u: "as_user s' = Some u"
    by (cases "as_user s'") (simp_all add: s' sr run_simps)
  from rest have ne: "su_id u \<noteq> []"
    by (cases "su_id u = []") (simp_all add: s' sr u run_simps)
  from rest obtain user where find: "findUserById (su_id u) w1 = (Inr user, w')"
    and res: "Active s row = (case user of Some row \<Rightarrow> Active s' row | None \<Rightarrow> UserDeleted)"
    by (auto simp: s' sr u ne andThen_runs succeed_runs)
  from res have "s' = s" "user = Some row" by (auto split: option.splits)
  moreover from find this have "row \<in> set (d_user (w_db w1)) \<and> us_id row = su_id u" "w_db w' = w_db w1"
    by (auto simp: run_simps dest: at0_filter_SomeD[OF sym])
  ultimately show ?thesis using g s' sr u ne by auto
qed

section \<open>Failures\<close>

lemma throws_tryAuthApi [throws_intros]: "AuthApiError \<in> E \<Longrightarrow> throws E (tryAuthApi c)"
  by (auto simp: throws_def run_simps)

lemma throws_auth [throws_intros]:
  assumes "AuthApiError \<in> E"
  shows "throws E (getSession A h)" "throws E (deleteUserSessions A u)" "throws E (deleteSession A t)"
    "throws E (signOut A h)" "throws E (createUser A e n)" "throws E (signInMagicLink A e cb)"
  unfolding getSession_def deleteUserSessions_def deleteSession_def signOut_def createUser_def
    signInMagicLink_def
  by (intro throws_intros assms)+

lemma throws_checkSession [throws_intros]:
  "AuthApiError \<in> E \<Longrightarrow> DbError \<in> E \<Longrightarrow> throws E (checkSession A h)"
  unfolding checkSession_def
  by (intro throws_intros) (auto intro!: throws_intros split: option.splits prod.splits)

lemma throws_runHook [throws_intros]: "throws E (runHook A k)"
proof (cases k)
  case (DeleteSessionsOf u flow)
  have "throws {AuthApiError} (deleteUserSessions A u)" by (intro throws_intros) simp
  then show ?thesis
    unfolding DeleteSessionsOf runHook.simps deleteSessionsOf_def
    by (rule throws_catchIf) (auto intro: throws_intros)
qed

lemma throws_transaction [throws_intros]: "throws E f \<Longrightarrow> DbError \<in> E \<Longrightarrow> throws E (transaction A f)"
  unfolding transaction_def by (rule throws_runTx) (simp_all add: throws_runHook)

end
