(* ===== verification/Account.thy ===== *)
theory Account
  imports AuthApi
begin

text \<open>
  \<open>src/account\<close>: deleting accounts. \<open>deleteAccount\<close> works inside a transaction and registers the removal
  of the user's sessions for after the commit. A user leaves on its own only when that leaves no
  active company without an owner; a user left without any active company is deleted
  (\<open>deleteAccountIfOrphaned\<close>), and abandoned sign-ups are swept.
\<close>

section \<open>Operations\<close>

definition deleteAccount :: "id \<Rightarrow> account_deletion_flow \<Rightarrow> (unit, 'x) eff" where
  "deleteAccount userId flow =
     andDo (orNotFound (deleteUser userId))
     (andDo (appendAuditInTx [\<lparr>ae_userId = userId, ae_event = Account_delete\<rparr>])
       (afterCommit (DeleteSessionsOf userId flow)))"

definition deleteAccountUnlessLastOwner :: "'x better_auth \<Rightarrow> id \<Rightarrow> (unit, 'x) eff" where
  "deleteAccountUnlessLastOwner A userId = transaction A
     (andDo (lockOwnerMembershipsOfUserCompanies userId)
     (andDo (lockMembershipChangesOfUser userId)
     (andThen (findCompaniesBlockingUserDeletion userId) (\<lambda>blocking.
       if length blocking > 0 then failWith LastOwner
       else deleteAccount userId Flow_account_delete))))"

datatype removal = Kept | Deleted

definition deleteAccountIfOrphaned :: "id \<Rightarrow> account_deletion_flow \<Rightarrow> (removal, 'x) eff" where
  "deleteAccountIfOrphaned userId flow =
     andDo (lockUsers [userId])
     (andThen (countActiveMembershipsByUserId userId) (\<lambda>n.
       if n > 0 then succeed Kept
       else catchIf (\<lambda>e. e = NotFound) (\<lambda>_. succeed Kept)
              (mapEff (\<lambda>_. Deleted) (deleteAccount userId flow))))"

record sweep_report =
  sw_executed :: bool
  sw_candidateCount :: nat
  sw_deletedUserIds :: "id list"

definition sweepAbandonedSignups :: "'x better_auth \<Rightarrow> millis \<Rightarrow> bool \<Rightarrow> (sweep_report, 'x) eff" where
  "sweepAbandonedSignups A olderThanMs execute =
     andThen currentTimeMillis (\<lambda>now.
     andThen (findAbandonedSignupUserIds (now - olderThanMs)) (\<lambda>candidates.
       if \<not> execute
       then succeed \<lparr>sw_executed = False, sw_candidateCount = length candidates,
                     sw_deletedUserIds = candidates\<rparr>
       else andThen
         (filterEff (\<lambda>userId. mapEff (\<lambda>r. r = Deleted)
            (transaction A (deleteAccountIfOrphaned userId Flow_sweep))) candidates)
         (\<lambda>deleted. succeed \<lparr>sw_executed = True, sw_candidateCount = length candidates,
                             sw_deletedUserIds = deleted\<rparr>)))"

section \<open>What they do to the database\<close>

definition accountDeleted :: "id \<Rightarrow> database \<Rightarrow> database \<Rightarrow> bool" where
  "accountDeleted u d d' \<longleftrightarrow> u \<in> userIds d \<and>
    auditAppended [\<lparr>ae_userId = u, ae_event = Account_delete\<rparr>] (dropUser u d) d'"

lemma deleteAccount_success:
  assumes "deleteAccount u flow w = (Inr r, w')"
  shows "accountDeleted u (w_db w) (w_db w')" "w_hooks w' = w_hooks w @ [DeleteSessionsOf u flow]"
    "w_clock w' = w_clock w"
proof -
  from assms obtain row w1 w2 where del: "deleteUser u w = (Inr (Some row), w1)"
    and audit: "appendAuditInTx [\<lparr>ae_userId = u, ae_event = Account_delete\<rparr>] w1 = (Inr (), w2)"
    and w': "w' = w2\<lparr>w_hooks := w_hooks w2 @ [DeleteSessionsOf u flow]\<rparr>"
    by (auto simp: deleteAccount_def andThen_runs orNotFound_runs afterCommit_runs)
  from del have u: "u \<in> userIds (w_db w)" and w1: "w_db w1 = dropUser u (w_db w)"
    "w_hooks w1 = w_hooks w" "w_clock w1 = w_clock w"
    by (auto simp: deleteUser_runs userIds_def dest: at0_filter_SomeD[OF sym])
  show "accountDeleted u (w_db w) (w_db w')"
    using u appendAuditInTx_db[OF audit] by (simp add: accountDeleted_def w1 w')
  show "w_hooks w' = w_hooks w @ [DeleteSessionsOf u flow]" "w_clock w' = w_clock w"
    using appendAuditInTx_rest[OF audit] by (simp_all add: w1 w')
qed

lemma deleteAccount_not_found:
  assumes "deleteAccount u flow w = (Inl (Fail NotFound), w')"
  shows "u \<notin> userIds (w_db w) \<and> w_db w' = w_db w \<and> w_clock w' = w_clock w"
proof -
  have "orNotFound (deleteUser u) w = (Inl (Fail NotFound), w')"
    using assms unfolding deleteAccount_def andThen_runs
    by (auto simp: appendAuditInTx_def afterCommit_runs dest: appendAuditLogs_fails)
  then have "deleteUser u w = (Inr None, w')"
    by (auto simp: orNotFound_runs deleteUser_def dest: tryDb_fails)
  then show ?thesis
    using at0_user_None_iff[of u "w_db w"] by (auto simp: deleteUser_runs)
qed

lemma deleteAccountIfOrphaned_success:
  assumes "deleteAccountIfOrphaned u flow w = (Inr r, w')"
  shows "r = Deleted \<Longrightarrow> activeJoin (w_db w) u = [] \<and> accountDeleted u (w_db w) (w_db w') \<and>
      w_hooks w' = w_hooks w @ [DeleteSessionsOf u flow]"
    and "r = Kept \<Longrightarrow> w_db w' = w_db w \<and> (u \<in> userIds (w_db w) \<longrightarrow> activeJoin (w_db w) u \<noteq> [])"
    and "w_clock w' = w_clock w"
proof -
  let ?n = "length (activeJoin (w_db w) u)"
  from assms obtain w2 where rest: "(if ?n > 0 then succeed Kept
       else catchIf (\<lambda>e. e = NotFound) (\<lambda>_. succeed Kept)
              (mapEff (\<lambda>_. Deleted) (deleteAccount u flow))) w2 = (Inr r, w')"
    and w2: "w_db w2 = w_db w" "w_hooks w2 = w_hooks w" "w_clock w2 = w_clock w"
    by (auto simp: deleteAccountIfOrphaned_def andThen_runs lockUsers_def lockDb_runs
        countActiveMembershipsByUserId_def select_runs)
  have *: "(r = Kept \<and> w' = w2 \<and> 0 < ?n) \<or>
    (r = Deleted \<and> ?n = 0 \<and> (\<exists>v. deleteAccount u flow w2 = (Inr v, w'))) \<or>
    (r = Kept \<and> ?n = 0 \<and> deleteAccount u flow w2 = (Inl (Fail NotFound), w'))"
    using rest by (cases "?n > 0")
      (auto simp: succeed_runs catchIf_runs mapEff_runs)
  show "r = Deleted \<Longrightarrow> activeJoin (w_db w) u = [] \<and> accountDeleted u (w_db w) (w_db w') \<and>
      w_hooks w' = w_hooks w @ [DeleteSessionsOf u flow]"
    using * deleteAccount_success[of u flow w2] by (auto simp: w2)
  show "r = Kept \<Longrightarrow> w_db w' = w_db w \<and> (u \<in> userIds (w_db w) \<longrightarrow> activeJoin (w_db w) u \<noteq> [])"
    using * deleteAccount_not_found[of u flow w2 w'] by (auto simp: w2)
  show "w_clock w' = w_clock w"
    using * deleteAccount_success(3)[of u flow w2] deleteAccount_not_found[of u flow w2 w'] by (auto simp: w2)
qed

lemma deleteAccountUnlessLastOwner_success:
  assumes "deleteAccountUnlessLastOwner A u w = (Inr r, w')" "auth_frame A"
  shows "blockingCompanies (w_db w) u = [] \<and> accountDeleted u (w_db w) (w_db w')"
proof -
  let ?w0 = "w\<lparr>w_dbCalls := Suc (w_dbCalls w), w_hooks := [], w_locks := []\<rparr>"
  from transaction_success[OF assms(1)[unfolded deleteAccountUnlessLastOwner_def] assms(2)]
  obtain w1 where body: "andDo (lockOwnerMembershipsOfUserCompanies u)
     (andDo (lockMembershipChangesOfUser u)
     (andThen (findCompaniesBlockingUserDeletion u) (\<lambda>blocking.
       if length blocking > 0 then failWith LastOwner
       else deleteAccount u Flow_account_delete))) ?w0 = (Inr r, w1)" and w1: "w_db w' = w_db w1"
    by blast
  from body obtain w2 where "deleteAccount u Flow_account_delete w2 = (Inr r, w1)"
    and "w_db w2 = w_db w" and "blockingCompanies (w_db w) u = []"
    by (auto simp: andThen_runs lockDb_runs lockOwnerMembershipsOfUserCompanies_def
        lockMembershipChangesOfUser_def findCompaniesBlockingUserDeletion_def select_runs failWith_runs
        split: if_splits)
  then show ?thesis using deleteAccount_success(1) w1 by metis
qed

section \<open>The constraints of the schema survive\<close>

lemma preserves_deleteAccount [preserves_intros]: "preserves wf_db (deleteAccount u flow)"
  unfolding deleteAccount_def by (intro preserves_intros)

lemma preserves_deleteAccountIfOrphaned [preserves_intros]:
  "preserves wf_db (deleteAccountIfOrphaned u flow)"
  unfolding deleteAccountIfOrphaned_def by (intro preserves_intros)

lemma preserves_account_ops [preserves_intros]:
  assumes "auth_frame A"
  shows "preserves wf_db (deleteAccountUnlessLastOwner A u)"
    "preserves wf_db (sweepAbandonedSignups A t e)"
  unfolding deleteAccountUnlessLastOwner_def sweepAbandonedSignups_def
  by (intro preserves_intros assms)+

section \<open>Failures\<close>

lemma throws_deleteAccount [throws_intros]:
  "DbError \<in> E \<Longrightarrow> NotFound \<in> E \<Longrightarrow> throws E (deleteAccount u flow)"
  unfolding deleteAccount_def by (intro throws_intros)

lemma throws_deleteAccountIfOrphaned [throws_intros]:
  assumes "DbError \<in> E" shows "throws E (deleteAccountIfOrphaned u flow)"
proof -
  have "throws {DbError, NotFound} (mapEff (\<lambda>_. Deleted) (deleteAccount u flow))"
    by (intro throws_intros) auto
  then have "throws E (catchIf (\<lambda>e. e = NotFound) (\<lambda>_. succeed Kept)
      (mapEff (\<lambda>_. Deleted) (deleteAccount u flow)))"
    by (rule throws_catchIf) (use assms in \<open>auto intro: throws_intros\<close>)
  then show ?thesis
    unfolding deleteAccountIfOrphaned_def by (intro throws_intros assms)
qed

lemma throws_account_ops [throws_intros]:
  "DbError \<in> E \<Longrightarrow> LastOwner \<in> E \<Longrightarrow> NotFound \<in> E \<Longrightarrow> throws E (deleteAccountUnlessLastOwner A u)"
  "DbError \<in> E \<Longrightarrow> throws E (sweepAbandonedSignups A t e)"
  unfolding deleteAccountUnlessLastOwner_def sweepAbandonedSignups_def
  by (intro throws_intros; assumption)+

end
