(* ===== verification/InvitationRepo.thy ===== *)
theory InvitationRepo
  imports World
begin

text \<open>
  \<open>db/repositories/invitation.ts\<close>: the statements on the table \<open>invitation\<close>. Every change of state
  is an \<open>UPDATE \<dots> WHERE status = 'PENDING'\<close>, so an invitation leaves PENDING once and for all.
\<close>

definition generateInvitationId :: "(id, 'x) eff" where
  "generateInvitationId = mapEff (\<lambda>s. ''inv_'' @ s) (nanoid 24)"

definition generateInvitationToken :: "(string, 'x) eff" where
  "generateInvitationToken = nanoid 32"

definition invitationStatusColumns :: "invitation_status \<Rightarrow> millis \<Rightarrow> invitation \<Rightarrow> invitation" where
  "invitationStatusColumns status now i = i\<lparr>
     iv_status := status,
     iv_acceptedAt := (if status = ACCEPTED then Some now else None),
     iv_revokedAt := (if status = REVOKED then Some now else None),
     iv_usedAt := (if status = PENDING then None else Some now)\<rparr>"

definition pendingAt :: "millis \<Rightarrow> invitation \<Rightarrow> bool" where
  "pendingAt now i \<longleftrightarrow> iv_status i = PENDING \<and> iv_expiresAt i > now"

definition findInvitationByToken :: "string \<Rightarrow> (invitation option, 'x) eff" where
  "findInvitationByToken token =
     tryDb (select (\<lambda>d. at0 (filter (\<lambda>i. iv_token i = token) (d_invitation d))))"

definition findInvitationById :: "id \<Rightarrow> (invitation option, 'x) eff" where
  "findInvitationById i = tryDb (select (\<lambda>d. at0 (filter (\<lambda>v. iv_id v = i) (d_invitation d))))"

definition findActivePendingInvitation :: "id \<Rightarrow> string \<Rightarrow> millis \<Rightarrow> (invitation option, 'x) eff" where
  "findActivePendingInvitation companyId email now = tryDb (select (\<lambda>d. at0 (filter
     (\<lambda>i. iv_companyId i = companyId \<and> toLowerCase (iv_email i) = toLowerCase email \<and> pendingAt now i)
     (d_invitation d))))"

definition listPendingInvitations :: "id \<Rightarrow> millis \<Rightarrow> (invitation list, 'x) eff" where
  "listPendingInvitations companyId now = tryDb (select (\<lambda>d. filter
     (\<lambda>i. iv_companyId i = companyId \<and> pendingAt now i) (d_invitation d)))"

record newInvitation =
  ni_id :: id
  ni_companyId :: id
  ni_email :: string
  ni_role :: role
  ni_token :: string
  ni_expiresAt :: millis
  ni_invitedByUserId :: id

definition insertInvitationSql :: "newInvitation \<Rightarrow> invitation sql" where
  "insertInvitationSql p = (\<lambda>now d.
     if ni_id p \<in> iv_id ` set (d_invitation d) \<or> ni_token p \<in> iv_token ` set (d_invitation d)
        \<or> ni_companyId p \<notin> companyIds d \<or> ni_invitedByUserId p \<notin> userIds d
     then None
     else (let row = \<lparr>iv_id = ni_id p, iv_companyId = ni_companyId p, iv_email = ni_email p,
                      iv_role = ni_role p, iv_token = ni_token p, iv_expiresAt = ni_expiresAt p,
                      iv_status = PENDING, iv_acceptedAt = None, iv_revokedAt = None, iv_usedAt = None,
                      iv_invitedByUserId = ni_invitedByUserId p, iv_createdAt = now\<rparr>
           in Some (row, d\<lparr>d_invitation := d_invitation d @ [row]\<rparr>)))"

definition insertInvitation :: "newInvitation \<Rightarrow> (invitation, 'x) eff" where
  "insertInvitation p = tryDb (insertInvitationSql p)"

text \<open>\<open>UPDATE invitation SET \<dots> WHERE P AND status = 'PENDING' RETURNING *\<close>.\<close>

definition settlePending :: "(invitation \<Rightarrow> bool) \<Rightarrow> invitation_status \<Rightarrow> invitation list sql" where
  "settlePending P status = (\<lambda>now d.
     let Q = (\<lambda>i. P i \<and> iv_status i = PENDING)
     in Some (map (invitationStatusColumns status now) (filter Q (d_invitation d)),
              d\<lparr>d_invitation := updateWhere Q (invitationStatusColumns status now) (d_invitation d)\<rparr>))"

definition markInvitationAccepted :: "id \<Rightarrow> (invitation option, 'x) eff" where
  "markInvitationAccepted i = mapEff at0 (tryDb (settlePending (\<lambda>v. iv_id v = i) ACCEPTED))"

definition markInvitationRevoked :: "id \<Rightarrow> id \<Rightarrow> (invitation option, 'x) eff" where
  "markInvitationRevoked i companyId =
     mapEff at0 (tryDb (settlePending (\<lambda>v. iv_id v = i \<and> iv_companyId v = companyId) REVOKED))"

definition revokePendingInvitationsOfCompany :: "id \<Rightarrow> (invitation list, 'x) eff" where
  "revokePendingInvitationsOfCompany companyId =
     tryDb (settlePending (\<lambda>v. iv_companyId v = companyId) REVOKED)"

section \<open>What the statements do\<close>

lemmas invitationRepo_defs [sql_defs] = insertInvitationSql_def settlePending_def

lemmas invitation_queries [run_simps] = findInvitationByToken_def findInvitationById_def
  findActivePendingInvitation_def listPendingInvitations_def

lemma keeps_invitation_queries [keeps_intros]:
  "keeps w_db (findInvitationByToken t)" "keeps w_db (findInvitationById i)"
  "keeps w_db (findActivePendingInvitation c e n)" "keeps w_db (listPendingInvitations c n)"
  "keeps w_db generateInvitationId" "keeps w_db generateInvitationToken"
  unfolding invitation_queries generateInvitationId_def generateInvitationToken_def
  by (intro keeps_intros)+

lemmas preserves_invitation_queries [preserves_intros] =
  keeps_invitation_queries[THEN preserves_keeps]

lemma invitationStatusColumns_simps [simp]:
  "iv_id (invitationStatusColumns s t i) = iv_id i"
  "iv_companyId (invitationStatusColumns s t i) = iv_companyId i"
  "iv_email (invitationStatusColumns s t i) = iv_email i"
  "iv_role (invitationStatusColumns s t i) = iv_role i"
  "iv_token (invitationStatusColumns s t i) = iv_token i"
  "iv_expiresAt (invitationStatusColumns s t i) = iv_expiresAt i"
  "iv_invitedByUserId (invitationStatusColumns s t i) = iv_invitedByUserId i"
  "iv_status (invitationStatusColumns s t i) = s"
  by (simp_all add: invitationStatusColumns_def)

text \<open>The three time stamps always agree with the status.\<close>

definition statusColumnsAgree :: "invitation \<Rightarrow> bool" where
  "statusColumnsAgree i \<longleftrightarrow>
    (iv_acceptedAt i \<noteq> None \<longleftrightarrow> iv_status i = ACCEPTED) \<and>
    (iv_revokedAt i \<noteq> None \<longleftrightarrow> iv_status i = REVOKED) \<and>
    (iv_usedAt i \<noteq> None \<longleftrightarrow> iv_status i \<noteq> PENDING)"

lemma statusColumnsAgree_columns [simp]: "statusColumnsAgree (invitationStatusColumns s t i)"
  by (cases s) (auto simp: statusColumnsAgree_def invitationStatusColumns_def)

lemma insertInvitation_runs [run_simps]:
  "insertInvitation p w = (Inr row, w') \<longleftrightarrow>
    w_dbFaults w (w_dbCalls w) = NoFault \<and>
    ni_id p \<notin> iv_id ` set (d_invitation (w_db w)) \<and>
    ni_token p \<notin> iv_token ` set (d_invitation (w_db w)) \<and>
    ni_companyId p \<in> companyIds (w_db w) \<and> ni_invitedByUserId p \<in> userIds (w_db w) \<and>
    row = \<lparr>iv_id = ni_id p, iv_companyId = ni_companyId p, iv_email = ni_email p,
           iv_role = ni_role p, iv_token = ni_token p, iv_expiresAt = ni_expiresAt p,
           iv_status = PENDING, iv_acceptedAt = None, iv_revokedAt = None, iv_usedAt = None,
           iv_invitedByUserId = ni_invitedByUserId p, iv_createdAt = w_clock w\<rparr> \<and>
    w' = w\<lparr>w_dbCalls := Suc (w_dbCalls w),
           w_db := w_db w\<lparr>d_invitation := d_invitation (w_db w) @ [row]\<rparr>\<rparr>"
  by (auto simp: insertInvitation_def insertInvitationSql_def tryDb_runs Let_def)

lemma settlePending_runs:
  "tryDb (settlePending P s) w = (Inr rows, w') \<longleftrightarrow>
    w_dbFaults w (w_dbCalls w) = NoFault \<and>
    rows = map (invitationStatusColumns s (w_clock w))
      (filter (\<lambda>i. P i \<and> iv_status i = PENDING) (d_invitation (w_db w))) \<and>
    w' = w\<lparr>w_dbCalls := Suc (w_dbCalls w),
           w_db := w_db w\<lparr>d_invitation := updateWhere (\<lambda>i. P i \<and> iv_status i = PENDING)
             (invitationStatusColumns s (w_clock w)) (d_invitation (w_db w))\<rparr>\<rparr>"
  by (auto simp: settlePending_def tryDb_runs Let_def)

lemma markInvitation_runs [run_simps]:
  "markInvitationAccepted i w = (Inr r, w') \<longleftrightarrow>
    (\<exists>rows. tryDb (settlePending (\<lambda>v. iv_id v = i) ACCEPTED) w = (Inr rows, w') \<and> r = at0 rows)"
  "markInvitationRevoked i c w = (Inr r, w') \<longleftrightarrow>
    (\<exists>rows. tryDb (settlePending (\<lambda>v. iv_id v = i \<and> iv_companyId v = c) REVOKED) w = (Inr rows, w') \<and>
      r = at0 rows)"
  "revokePendingInvitationsOfCompany c w = (Inr rs, w') \<longleftrightarrow>
    tryDb (settlePending (\<lambda>v. iv_companyId v = c) REVOKED) w = (Inr rs, w')"
  by (auto simp: markInvitationAccepted_def markInvitationRevoked_def
      revokePendingInvitationsOfCompany_def run_simps)

section \<open>The constraints of the schema survive\<close>

lemma sqlKeeps_insertInvitation [preserves_intros]: "sqlKeeps wf_db (insertInvitationSql p)"
  by (auto simp: sqlKeeps_def insertInvitationSql_def Let_def wf_db_def wf_keys_def wf_refs_def
      companyIds_def userIds_def split: if_splits)

lemma sqlKeeps_settlePending [preserves_intros]: "sqlKeeps wf_db (settlePending P s)"
proof -
  have keys: "map k (updateWhere Q (invitationStatusColumns s t) is) = map k is"
    if "k = iv_id \<or> k = iv_token" for Q t "is" k
    by (rule map_key_updateWhere) (use that in auto)
  show ?thesis
    by (auto simp: sqlKeeps_def settlePending_def Let_def wf_db_def wf_keys_def wf_refs_def
        companyIds_def userIds_def keys in_updateWhere)
qed

lemma preserves_invitationRepo [preserves_intros]:
  "preserves wf_db (insertInvitation p)" "preserves wf_db (markInvitationAccepted i)"
  "preserves wf_db (markInvitationRevoked i c)" "preserves wf_db (revokePendingInvitationsOfCompany c)"
  unfolding insertInvitation_def markInvitationAccepted_def markInvitationRevoked_def
    revokePendingInvitationsOfCompany_def
  by (intro preserves_intros)+

section \<open>Failures\<close>

lemma throws_invitationRepo [throws_intros]:
  assumes "DbError \<in> E"
  shows "throws E (findInvitationByToken t)" "throws E (findInvitationById i)"
    "throws E (findActivePendingInvitation c e n)" "throws E (listPendingInvitations c n)"
    "throws E generateInvitationId" "throws E generateInvitationToken" "throws E (insertInvitation p)"
    "throws E (markInvitationAccepted i)" "throws E (markInvitationRevoked i c)"
    "throws E (revokePendingInvitationsOfCompany c)"
  unfolding invitation_queries generateInvitationId_def generateInvitationToken_def insertInvitation_def
    markInvitationAccepted_def markInvitationRevoked_def revokePendingInvitationsOfCompany_def
  by (intro throws_intros assms)+

end
