(* ===== verification/Guards.thy ===== *)
theory Guards
  imports Account InvitationRepo
begin

text \<open>
  \<open>src/membership/guard\<close> and \<open>src/invitation/policy.ts\<close>: who may do what. Every handler first turns its
  request into a grant; the operations take only grants. \<open>requireActor\<close> fails closed: a session that
  cannot be checked counts as no session.
\<close>

section \<open>Grants\<close>

record actor =
  ac_id :: id
  ac_email :: string
  ac_lastUsedCompanyId :: "id option"

record verifiedMember =
  vm_actor :: actor
  vm_companyId :: id
  vm_role :: role

record roleChangeGrant =
  rg_actor :: actor
  rg_companyId :: id
  rg_targetUserId :: id
  rg_targetRole :: role
  rg_nextRole :: role

record removalGrant =
  rv_actor :: actor
  rv_companyId :: id
  rv_targetUserId :: id
  rv_targetRole :: role

record ownershipTransferGrant =
  og_actor :: actor
  og_companyId :: id
  og_toUserId :: id

record redirectTarget =
  rt_service_name :: string
  rt_redirect_url :: string

record inviteGrant =
  ig_actor :: actor
  ig_companyId :: id
  ig_email :: string
  ig_role :: role
  ig_redirectTarget :: "redirectTarget option"

record acceptGrant =
  ag_actor :: actor
  ag_invitation :: invitation

datatype invitationAcceptGrant = Proceed acceptGrant | Reused id

section \<open>Guards\<close>

definition failClosedAsUnauthorized :: "('a, 'x) eff" where
  "failClosedAsUnauthorized = andDo (captureCause ''membership-guard'') (failWith Unauthorized)"

definition requireActor :: "'x better_auth \<Rightarrow> headers \<Rightarrow> (actor, 'x) eff" where
  "requireActor A h =
     catchIf (\<lambda>e. e = AuthApiError \<or> e = DbError) (\<lambda>_. failClosedAsUnauthorized)
       (andThen (checkSession A h) (\<lambda>status.
          case status of
            Active s user \<Rightarrow> succeed \<lparr>ac_id = us_id user, ac_email = us_email user,
                                      ac_lastUsedCompanyId = us_lastUsedCompanyId user\<rparr>
          | _ \<Rightarrow> failWith Unauthorized))"

definition requireMembershipOf :: "actor \<Rightarrow> id \<Rightarrow> role \<Rightarrow> (verifiedMember, 'x) eff" where
  "requireMembershipOf actor companyId minRole =
     andThen (findMembership (ac_id actor) companyId) (\<lambda>membership.
       case membership of
         None \<Rightarrow> failWith Forbidden
       | Some m \<Rightarrow>
           (if \<not> isAtLeast (mb_role m) minRole then failWith Forbidden
            else succeed \<lparr>vm_actor = actor, vm_companyId = companyId, vm_role = mb_role m\<rparr>))"

definition requireTargetMembership :: "id \<Rightarrow> id \<Rightarrow> (membership, 'x) eff" where
  "requireTargetMembership userId companyId =
     andThen (findMembership userId companyId) (\<lambda>membership.
       case membership of None \<Rightarrow> failWith NotFound | Some m \<Rightarrow> succeed m)"

definition requireRoleChange :: "actor \<Rightarrow> id \<Rightarrow> id \<Rightarrow> role \<Rightarrow> (roleChangeGrant, 'x) eff" where
  "requireRoleChange actor companyId targetUserId nextRole =
     andThen (requireMembershipOf actor companyId ADMIN) (\<lambda>member.
     andThen (requireTargetMembership targetUserId companyId) (\<lambda>target.
       if \<not> canChangeRole (vm_role member) (mb_role target) nextRole then failWith Forbidden
       else succeed \<lparr>rg_actor = actor, rg_companyId = companyId, rg_targetUserId = targetUserId,
                     rg_targetRole = mb_role target, rg_nextRole = nextRole\<rparr>))"

definition requireRemoval :: "actor \<Rightarrow> id \<Rightarrow> id \<Rightarrow> (removalGrant, 'x) eff" where
  "requireRemoval actor companyId targetUserId =
     andThen (requireMembershipOf actor companyId MEMBER) (\<lambda>member.
       let isSelf = (ac_id actor = targetUserId)
       in if \<not> canAttemptRemoval (vm_role member) isSelf then failWith Forbidden
          else andThen (requireTargetMembership targetUserId companyId) (\<lambda>target.
            if \<not> canRemoveTarget (vm_role member) isSelf (mb_role target) then failWith Forbidden
            else succeed \<lparr>rv_actor = actor, rv_companyId = companyId, rv_targetUserId = targetUserId,
                          rv_targetRole = mb_role target\<rparr>))"

definition requireTransferOwnership :: "actor \<Rightarrow> id \<Rightarrow> id \<Rightarrow> (ownershipTransferGrant, 'x) eff" where
  "requireTransferOwnership actor companyId toUserId =
     (if toUserId = ac_id actor then failWith InvalidArgument
      else andDo (requireMembershipOf actor companyId OWNER)
        (andThen (requireTargetMembership toUserId companyId) (\<lambda>target.
          if mb_role target = OWNER then failWith AlreadyOwner
          else succeed \<lparr>og_actor = actor, og_companyId = companyId, og_toUserId = toUserId\<rparr>)))"

definition requireInvite ::
    "actor \<Rightarrow> id \<Rightarrow> string \<Rightarrow> role \<Rightarrow> redirectTarget option \<Rightarrow> (inviteGrant, 'x) eff" where
  "requireInvite actor companyId email role redirectTarget =
     andThen (requireMembershipOf actor companyId ADMIN) (\<lambda>member.
       if \<not> canInviteRole (vm_role member) role then failWith Forbidden
       else succeed \<lparr>ig_actor = actor, ig_companyId = companyId, ig_email = email, ig_role = role,
                     ig_redirectTarget = redirectTarget\<rparr>)"

definition isAcceptableAt :: "invitation \<Rightarrow> millis \<Rightarrow> bool" where
  "isAcceptableAt row nowMillis \<longleftrightarrow> iv_status row = PENDING \<and> iv_expiresAt row > nowMillis"

definition requireInvitationAccept :: "actor \<Rightarrow> string \<Rightarrow> (invitationAcceptGrant, 'x) eff" where
  "requireInvitationAccept actor token =
     andThen (findInvitationByToken token) (\<lambda>found.
       case found of
         None \<Rightarrow> failWith NotFound
       | Some invitation \<Rightarrow>
           (if toLowerCase (iv_email invitation) \<noteq> toLowerCase (ac_email actor) then failWith EmailMismatch
            else andThen (findMembership (ac_id actor) (iv_companyId invitation)) (\<lambda>existing.
              if existing \<noteq> None then succeed (Reused (iv_companyId invitation))
              else andThen currentTimeMillis (\<lambda>now.
                if \<not> isAcceptableAt invitation now then failWith ExpiredOrUsed
                else succeed (Proceed \<lparr>ag_actor = actor, ag_invitation = invitation\<rparr>)))))"

section \<open>What the guards check\<close>

lemma requireMembershipOf_success:
  "requireMembershipOf actor c minRole w = (Inr v, w') \<Longrightarrow>
    \<exists>m. membershipOf (w_db w) (ac_id actor) c = Some m \<and> isAtLeast (mb_role m) minRole \<and>
      v = \<lparr>vm_actor = actor, vm_companyId = c, vm_role = mb_role m\<rparr> \<and> w_db w' = w_db w"
  by (auto simp: requireMembershipOf_def run_simps split: option.splits if_splits)

lemma requireTargetMembership_success:
  "requireTargetMembership u c w = (Inr m, w') \<Longrightarrow>
    membershipOf (w_db w) u c = Some m \<and> w_db w' = w_db w"
  by (auto simp: requireTargetMembership_def run_simps split: option.splits)

lemma requireRoleChange_success:
  assumes "requireRoleChange actor c t next w = (Inr g, w')"
  shows "\<exists>am tm. membershipOf (w_db w) (ac_id actor) c = Some am \<and> mb_role am \<noteq> MEMBER \<and>
    membershipOf (w_db w) t c = Some tm \<and>
    ((mb_role tm = OWNER \<or> next = OWNER) \<longrightarrow> mb_role am = OWNER) \<and>
    g = \<lparr>rg_actor = actor, rg_companyId = c, rg_targetUserId = t, rg_targetRole = mb_role tm,
         rg_nextRole = next\<rparr>"
  using assms
  by (auto simp: requireRoleChange_def andThen_runs failWith_runs succeed_runs canChangeRole_def Let_def
      split: if_splits dest!: requireMembershipOf_success requireTargetMembership_success)

lemma requireRemoval_success:
  assumes "requireRemoval actor c t w = (Inr g, w')"
  shows "\<exists>am tm. membershipOf (w_db w) (ac_id actor) c = Some am \<and>
    membershipOf (w_db w) t c = Some tm \<and>
    (ac_id actor = t \<or> mb_role am = OWNER \<or> (mb_role am = ADMIN \<and> mb_role tm \<noteq> OWNER)) \<and>
    g = \<lparr>rv_actor = actor, rv_companyId = c, rv_targetUserId = t, rv_targetRole = mb_role tm\<rparr>"
  using assms
  by (auto simp: requireRemoval_def andThen_runs failWith_runs succeed_runs canAttemptRemoval_def
      canRemoveTarget_def Let_def split: if_splits
      dest!: requireMembershipOf_success requireTargetMembership_success) (metis role.exhaust)+

lemma requireTransferOwnership_success:
  assumes "requireTransferOwnership actor c t w = (Inr g, w')"
  shows "t \<noteq> ac_id actor \<and> (\<exists>am tm. membershipOf (w_db w) (ac_id actor) c = Some am \<and> mb_role am = OWNER \<and>
    membershipOf (w_db w) t c = Some tm \<and> mb_role tm \<noteq> OWNER) \<and>
    g = \<lparr>og_actor = actor, og_companyId = c, og_toUserId = t\<rparr>"
  using assms
  by (auto simp: requireTransferOwnership_def andThen_runs failWith_runs succeed_runs
      split: if_splits dest!: requireMembershipOf_success requireTargetMembership_success)

lemma requireInvite_success:
  assumes "requireInvite actor c email r rt w = (Inr g, w')"
  shows "\<exists>am. membershipOf (w_db w) (ac_id actor) c = Some am \<and> mb_role am \<noteq> MEMBER \<and>
    (r = OWNER \<longrightarrow> mb_role am = OWNER) \<and>
    g = \<lparr>ig_actor = actor, ig_companyId = c, ig_email = email, ig_role = r, ig_redirectTarget = rt\<rparr>"
  using assms
  by (auto simp: requireInvite_def andThen_runs failWith_runs succeed_runs canInviteRole_def
      split: if_splits dest!: requireMembershipOf_success)

lemma keeps_guards [keeps_intros]:
  "keeps w_db (requireMembershipOf a c r)" "keeps w_db (requireTargetMembership u c)"
  "keeps w_db (requireRoleChange a c t r)" "keeps w_db (requireRemoval a c t)"
  "keeps w_db (requireTransferOwnership a c t)" "keeps w_db (requireInvite a c e r rt)"
  "keeps w_db (requireInvitationAccept a tok)"
  unfolding requireRoleChange_def requireRemoval_def requireTransferOwnership_def requireInvite_def
    requireInvitationAccept_def requireMembershipOf_def requireTargetMembership_def Let_def
  by (intro keeps_intros)+

section \<open>Failures\<close>

lemma throws_guards [throws_intros]:
  assumes "DbError \<in> E" "Forbidden \<in> E"
  shows "throws E (requireMembershipOf a c r)"
    "NotFound \<in> E \<Longrightarrow> throws E (requireTargetMembership u c)"
    "NotFound \<in> E \<Longrightarrow> throws E (requireRoleChange a c t r)"
    "NotFound \<in> E \<Longrightarrow> throws E (requireRemoval a c t)"
    "NotFound \<in> E \<Longrightarrow> InvalidArgument \<in> E \<Longrightarrow> AlreadyOwner \<in> E \<Longrightarrow>
      throws E (requireTransferOwnership a c t)"
    "throws E (requireInvite a c e r rt)"
  unfolding requireRoleChange_def requireRemoval_def requireTransferOwnership_def requireInvite_def
    requireMembershipOf_def requireTargetMembership_def Let_def
  by (intro throws_intros assms; assumption)+

lemma throws_requireInvitationAccept [throws_intros]:
  "DbError \<in> E \<Longrightarrow> NotFound \<in> E \<Longrightarrow> EmailMismatch \<in> E \<Longrightarrow> ExpiredOrUsed \<in> E \<Longrightarrow>
    throws E (requireInvitationAccept a tok)"
  unfolding requireInvitationAccept_def by (intro throws_intros; assumption)

text \<open>Whatever goes wrong while the session is checked, the actor is told it is not signed in.\<close>

lemma throws_requireActor [throws_intros]:
  assumes "Unauthorized \<in> E" shows "throws E (requireActor A h)"
proof -
  have "throws {AuthApiError, DbError, Unauthorized}
      (andThen (checkSession A h) (\<lambda>status. case status of
            Active s user \<Rightarrow> succeed \<lparr>ac_id = us_id user, ac_email = us_email user,
                                      ac_lastUsedCompanyId = us_lastUsedCompanyId user\<rparr>
          | _ \<Rightarrow> failWith Unauthorized))"
    by (intro throws_intros) (auto intro: throws_intros split: session_status.splits)
  then show ?thesis
    unfolding requireActor_def failClosedAsUnauthorized_def
    by (rule throws_catchIf) (use assms in \<open>auto intro!: throws_intros\<close>)
qed

end
