(* ===== verification/CompanyRepo.thy ===== *)
theory CompanyRepo
  imports World
begin

text \<open>
  \<open>db/repositories/company.ts\<close>: the statements on the table \<open>company\<close>. A company is never removed
  from the table: \<open>softDeleteCompany\<close> moves it from ACTIVE to DELETED, once.
\<close>

definition generateCompanyId :: "(id, 'x) eff" where
  "generateCompanyId = mapEff (\<lambda>s. ''cmp_'' @ s) (nanoid 24)"

definition findCompanyById :: "id \<Rightarrow> (company option, 'x) eff" where
  "findCompanyById i = tryDb (select (\<lambda>d. at0 (filter (\<lambda>c. co_id c = i) (d_company d))))"

definition insertCompanySql :: "id \<Rightarrow> string \<Rightarrow> org_code \<Rightarrow> company sql" where
  "insertCompanySql i name orgCode = (\<lambda>now d.
     if i \<in> companyIds d then None
     else (let row = \<lparr>co_id = i, co_name = name, co_orgCode = orgCode, co_activationStatus = ACTIVE,
                      co_deletedAt = None, co_createdAt = now, co_updatedAt = now\<rparr>
           in Some (row, d\<lparr>d_company := d_company d @ [row]\<rparr>)))"

definition insertCompany :: "id \<Rightarrow> string \<Rightarrow> org_code \<Rightarrow> (company, 'x) eff" where
  "insertCompany i name orgCode = tryDb (insertCompanySql i name orgCode)"

text \<open>An \<open>UPDATE company \<dots> WHERE id = i AND activation_status = 'ACTIVE' RETURNING *\<close>.\<close>

definition updateActiveCompany ::
    "id \<Rightarrow> (millis \<Rightarrow> company \<Rightarrow> company) \<Rightarrow> company option sql" where
  "updateActiveCompany i upd = (\<lambda>now d.
     let P = (\<lambda>c. co_id c = i \<and> co_activationStatus c = ACTIVE)
     in Some (at0 (map (upd now) (filter P (d_company d))),
              d\<lparr>d_company := updateWhere P (upd now) (d_company d)\<rparr>))"

definition updateCompany :: "id \<Rightarrow> string \<Rightarrow> org_code \<Rightarrow> (company option, 'x) eff" where
  "updateCompany i name orgCode = tryDb (updateActiveCompany i
     (\<lambda>now c. c\<lparr>co_name := name, co_orgCode := orgCode, co_updatedAt := now\<rparr>))"

definition softDeleteCompany :: "id \<Rightarrow> (company option, 'x) eff" where
  "softDeleteCompany i = tryDb (updateActiveCompany i
     (\<lambda>now c. c\<lparr>co_activationStatus := DELETED, co_deletedAt := Some now, co_updatedAt := now\<rparr>))"

lemmas companyRepo_defs [sql_defs] =
  insertCompanySql_def updateActiveCompany_def

lemma findCompanyById_runs [run_simps]:
  "findCompanyById i w = (Inr r, w') \<longleftrightarrow>
    w_dbFaults w (w_dbCalls w) = NoFault \<and> w' = w\<lparr>w_dbCalls := Suc (w_dbCalls w)\<rparr> \<and>
    r = at0 (filter (\<lambda>c. co_id c = i) (d_company (w_db w)))"
  by (auto simp: findCompanyById_def run_simps)

lemma keeps_findCompanyById [keeps_intros]: "keeps w_db (findCompanyById i)"
  unfolding findCompanyById_def by (intro keeps_intros)

lemmas preserves_findCompanyById [preserves_intros] = keeps_findCompanyById[THEN preserves_keeps]

lemma throws_companyRepo [throws_intros]:
  assumes "DbError \<in> E"
  shows "throws E (findCompanyById i)" "throws E (insertCompany i n oc)"
    "throws E (updateCompany i n oc)" "throws E (softDeleteCompany i)" "throws E generateCompanyId"
  unfolding findCompanyById_def insertCompany_def updateCompany_def softDeleteCompany_def generateCompanyId_def
  by (intro throws_intros assms)+

lemma findCompanyById_active:
  assumes "wf_db d" "at0 (filter (\<lambda>c. co_id c = i) (d_company d)) = Some r"
  shows "isActiveCompany d i \<longleftrightarrow> co_activationStatus r = ACTIVE"
  using at0_filter_SomeD[OF assms(2)] wf_db_company_unique[OF assms(1)]
  by (auto simp: isActiveCompany_def)

lemma insertCompany_runs [run_simps]:
  "insertCompany i n oc w = (Inr r, w') \<longleftrightarrow>
    w_dbFaults w (w_dbCalls w) = NoFault \<and> i \<notin> companyIds (w_db w) \<and>
    r = \<lparr>co_id = i, co_name = n, co_orgCode = oc, co_activationStatus = ACTIVE,
         co_deletedAt = None, co_createdAt = w_clock w, co_updatedAt = w_clock w\<rparr> \<and>
    w' = w\<lparr>w_dbCalls := Suc (w_dbCalls w),
           w_db := w_db w\<lparr>d_company := d_company (w_db w) @ [r]\<rparr>\<rparr>"
  by (auto simp: insertCompany_def insertCompanySql_def tryDb_runs Let_def)

text \<open>Keys of the rewritten rows are untouched, so the constraints survive.\<close>

lemma sqlKeeps_updateActiveCompany [preserves_intros]:
  assumes "\<And>now c. co_id (upd now c) = co_id c"
  shows "sqlKeeps wf_db (updateActiveCompany i upd)"
proof -
  have keys: "map co_id (updateWhere P (upd now) cs) = map co_id cs" for P now cs
    by (rule map_key_updateWhere) (rule assms)
  have ids: "companyIds (d\<lparr>d_company := updateWhere P (upd now) (d_company d)\<rparr>) = companyIds d" for P now d
    by (simp add: companyIds_def keys flip: set_map)
  show ?thesis
    by (auto simp: sqlKeeps_def updateActiveCompany_def Let_def wf_db_def wf_keys_def wf_refs_def
        keys ids userIds_def)
qed

lemma sqlKeeps_insertCompany [preserves_intros]: "sqlKeeps wf_db (insertCompanySql i n oc)"
  by (auto simp: sqlKeeps_def insertCompanySql_def Let_def wf_db_def wf_keys_def wf_refs_def
      companyIds_def userIds_def split: if_splits)

lemma preserves_companyRepo [preserves_intros]:
  "preserves wf_db (insertCompany i n oc)" "preserves wf_db (updateCompany i n oc)"
  "preserves wf_db (softDeleteCompany i)"
  unfolding insertCompany_def updateCompany_def softDeleteCompany_def
  by (intro preserves_intros; simp)+

end
