(* ===== verification/Membership.thy ===== *)
theory Membership
  imports Guards CompanyRepo
begin

text \<open>
  \<open>src/membership\<close>: \<open>apply-change.ts\<close> (the only writers of the table \<open>membership\<close>), the operations on
  members and the current company. A change that can take an owner away runs in
  \<open>keepingAnOwner\<close>: it locks the owner rows of the company, makes its writes, and fails with
  \<open>LastOwner\<close> when no owner is left, which rolls the transaction back.
\<close>

section \<open>The current company\<close>

definition becomeCurrentOnJoin :: "id \<Rightarrow> id \<Rightarrow> (unit, 'x) eff" where
  "becomeCurrentOnJoin userId companyId = updateUserLastUsedCompany userId companyId"

definition reassignCurrentAfterLeaving :: "id \<Rightarrow> id list \<Rightarrow> (unit, 'x) eff" where
  "reassignCurrentAfterLeaving companyId uids = reassignLastUsedCompanyAfterLeaving companyId uids"

definition activeMembershipsOf :: "id \<Rightarrow> (membershipWithCompany list, 'x) eff" where
  "activeMembershipsOf userId = findActiveMembershipsByUserId userId"

definition currentRoleOf :: "user \<Rightarrow> (role option, 'x) eff" where
  "currentRoleOf u = (case us_lastUsedCompanyId u of
     None \<Rightarrow> succeed None
   | Some companyId \<Rightarrow> mapEff (map_option mb_role) (findMembership (us_id u) companyId))"

record currentCompanyMembers =
  cm_companyId :: id
  cm_callerRole :: role
  cm_members :: "memberRow list"

definition currentCompanyMembersOf :: "user \<Rightarrow> (currentCompanyMembers option, 'x) eff" where
  "currentCompanyMembersOf u = (case us_lastUsedCompanyId u of
     None \<Rightarrow> succeed None
   | Some companyId \<Rightarrow> andThen (findMembersByCompanyId companyId) (\<lambda>members.
       succeed (map_option (\<lambda>caller. \<lparr>cm_companyId = companyId, cm_callerRole = mr_role caller,
                                      cm_members = members\<rparr>)
                 (find (\<lambda>m. mr_userId m = us_id u) members))))"

definition switchCurrentCompany :: "'x better_auth \<Rightarrow> id \<Rightarrow> id \<Rightarrow> (id, 'x) eff" where
  "switchCurrentCompany A userId companyId =
     andDo (transaction A
       (andThen (lockMembershipForShare userId companyId) (\<lambda>targetMembership.
          if targetMembership = None then failWith Forbidden
          else andThen (lockCurrentCompanyOf userId) (\<lambda>current.
            let fromCompanyId = (case current of None \<Rightarrow> None | Some lastUsed \<Rightarrow> lastUsed)
            in if fromCompanyId = Some companyId then succeed ()
               else andDo (updateUserLastUsedCompany userId companyId)
                 (appendAuditInTx [\<lparr>ae_userId = userId,
                                   ae_event = Company_switched fromCompanyId companyId\<rparr>])))))
     (succeed companyId)"

section \<open>apply-change\<close>

definition keepingAnOwner :: "id \<Rightarrow> (membership option, 'x) eff list \<Rightarrow> (unit, 'x) eff" where
  "keepingAnOwner companyId writes =
     andDo (lockOwnerMembershipsOfCompany companyId)
     (andDo (forEachDiscard orNotFound writes)
     (andThen (countOwnerMemberships companyId) (\<lambda>n.
       if n < 1 then failWith LastOwner else succeed ())))"

definition applyRoleChange :: "id \<Rightarrow> id \<Rightarrow> role \<Rightarrow> (unit, 'x) eff" where
  "applyRoleChange targetUserId companyId nextRole =
     keepingAnOwner companyId [updateMembershipRole targetUserId companyId nextRole]"

definition applyJoin :: "id \<Rightarrow> id \<Rightarrow> id \<Rightarrow> role \<Rightarrow> (membership, 'x) eff" where
  "applyJoin i userId companyId role =
     andThen (andDo (lockMembershipChangesOfUser userId) (insertMembership i userId companyId role))
       (\<lambda>row. andDo (becomeCurrentOnJoin userId companyId) (succeed row))"

definition applyRemoval :: "id \<Rightarrow> id \<Rightarrow> (unit, 'x) eff" where
  "applyRemoval targetUserId companyId =
     andDo (keepingAnOwner companyId [deleteMembership targetUserId companyId])
       (reassignCurrentAfterLeaving companyId [targetUserId])"

definition applyCompanyRemoval :: "id \<Rightarrow> (membership list, 'x) eff" where
  "applyCompanyRemoval companyId =
     andThen (removeMembershipsOfCompany companyId) (\<lambda>removed.
       andDo (reassignCurrentAfterLeaving companyId (map mb_userId removed)) (succeed removed))"

definition applyTransfer :: "id \<Rightarrow> id \<Rightarrow> id \<Rightarrow> (unit, 'x) eff" where
  "applyTransfer actorUserId toUserId companyId =
     keepingAnOwner companyId
       [updateMembershipRole toUserId companyId OWNER, updateMembershipRole actorUserId companyId ADMIN]"

section \<open>Operations on members\<close>

definition changeRole :: "'x better_auth \<Rightarrow> roleChangeGrant \<Rightarrow> (unit, 'x) eff" where
  "changeRole A grant =
     (let targetUserId = rg_targetUserId grant; companyId = rg_companyId grant;
          nextRole = rg_nextRole grant; actorUserId = ac_id (rg_actor grant);
          beforeRole = rg_targetRole grant
      in if beforeRole = nextRole then succeed ()
         else transaction A
           (andDo (applyRoleChange targetUserId companyId nextRole)
             (appendAuditInTx [\<lparr>ae_userId = actorUserId,
                ae_event = Role_changed companyId targetUserId beforeRole nextRole actorUserId\<rparr>])))"

definition removeMember :: "'x better_auth \<Rightarrow> removalGrant \<Rightarrow> (bool, 'x) eff" where
  "removeMember A grant =
     (let targetUserId = rv_targetUserId grant; companyId = rv_companyId grant;
          targetRole = rv_targetRole grant; actorUserId = ac_id (rv_actor grant)
      in transaction A
        (andDo (applyRemoval targetUserId companyId)
        (andDo (appendAuditInTx [membershipRemovedEntry actorUserId companyId targetUserId targetRole])
        (andThen (deleteAccountIfOrphaned targetUserId Flow_member_remove) (\<lambda>removal.
          succeed (removal = Deleted))))))"

definition transferOwnership :: "'x better_auth \<Rightarrow> ownershipTransferGrant \<Rightarrow> (unit, 'x) eff" where
  "transferOwnership A grant =
     (let toUserId = og_toUserId grant; companyId = og_companyId grant; actorUserId = ac_id (og_actor grant)
      in transaction A
        (andDo (applyTransfer actorUserId toUserId companyId)
          (appendAuditInTx [\<lparr>ae_userId = actorUserId,
             ae_event = Ownership_transferred companyId actorUserId toUserId\<rparr>])))"

definition listMembers :: "verifiedMember \<Rightarrow> (memberRow list, 'x) eff" where
  "listMembers member = findMembersByCompanyId (vm_companyId member)"

section \<open>What they do to the database\<close>

definition setRole :: "id \<Rightarrow> id \<Rightarrow> role \<Rightarrow> millis \<Rightarrow> database \<Rightarrow> database" where
  "setRole u c r now d = d\<lparr>d_membership := updateWhere (isMembershipOf u c)
     (\<lambda>m. m\<lparr>mb_role := r, mb_updatedAt := now\<rparr>) (d_membership d)\<rparr>"

definition setCurrent :: "id \<Rightarrow> id \<Rightarrow> millis \<Rightarrow> database \<Rightarrow> database" where
  "setCurrent u c now d = d\<lparr>d_user := updateWhere (\<lambda>x. us_id x = u)
     (\<lambda>x. x\<lparr>us_lastUsedCompanyId := Some c, us_updatedAt := now\<rparr>) (d_user d)\<rparr>"

definition reassignCurrent :: "id \<Rightarrow> id list \<Rightarrow> millis \<Rightarrow> database \<Rightarrow> database" where
  "reassignCurrent c us now d = snd (the (reassignLastUsedCompanySql c us now d))"

definition leave :: "id \<Rightarrow> id \<Rightarrow> database \<Rightarrow> database" where
  "leave u c d = d\<lparr>d_membership := filter (\<lambda>m. \<not> isMembershipOf u c m) (d_membership d)\<rparr>"

text \<open>The part of the world a transaction's callback hands on besides the database.\<close>

definition sameRest :: "'x world \<Rightarrow> 'x world \<Rightarrow> bool" where
  "sameRest w w' \<longleftrightarrow> w_hooks w' = w_hooks w \<and> w_clock w' = w_clock w"

lemma sameRest_trans [trans]: "sameRest w w1 \<Longrightarrow> sameRest w1 w2 \<Longrightarrow> sameRest w w2"
  by (simp add: sameRest_def)

lemma updateMembershipRole_success:
  assumes "orNotFound (updateMembershipRole u c r) w = (Inr row, w')"
  shows "\<exists>m. membershipOf (w_db w) u c = Some m" "w_db w' = setRole u c r (w_clock w) (w_db w)"
    "sameRest w w'"
  using assms
  by (auto simp: orNotFound_runs updateMembershipRole_runs setRole_def sameRest_def dest!: sym[of "Some row"])

lemma deleteMembership_success:
  assumes "orNotFound (deleteMembership u c) w = (Inr row, w')"
  shows "membershipOf (w_db w) u c = Some row" "w_db w' = leave u c (w_db w)" "sameRest w w'"
  using assms by (auto simp: orNotFound_runs deleteMembership_runs leave_def sameRest_def)

lemma keepingAnOwner_success:
  assumes "keepingAnOwner c writes w = (Inr r, w')"
  shows "\<exists>w1 w2. forEachDiscard orNotFound writes w1 = (Inr (), w2) \<and>
    w_db w1 = w_db w \<and> sameRest w w1 \<and> OwnerRowsOfCompany c \<in> set (w_locks w1) \<and>
    w_db w' = w_db w2 \<and> sameRest w2 w' \<and> ownersOf (w_db w') c \<noteq> []"
proof -
  from assms obtain w1 w2 where lock: "lockOwnerMembershipsOfCompany c w = (Inr (), w1)"
    and writes: "forEachDiscard orNotFound writes w1 = (Inr (), w2)"
    and count: "andThen (countOwnerMemberships c) (\<lambda>n. if n < 1 then failWith LastOwner else succeed ()) w2
      = (Inr r, w')"
    unfolding keepingAnOwner_def andThen_runs by auto
  from lock have "w_db w1 = w_db w" "sameRest w w1" "OwnerRowsOfCompany c \<in> set (w_locks w1)"
    by (auto simp: lockOwnerMembershipsOfCompany_def lockDb_runs sameRest_def)
  moreover from count have "w_db w' = w_db w2" "sameRest w2 w'" "ownersOf (w_db w') c \<noteq> []"
    by (auto simp: andThen_runs countOwnerMemberships_def select_runs failWith_runs succeed_runs
        sameRest_def split: if_splits)
  ultimately show ?thesis using writes by blast
qed

lemma applyRoleChange_success:
  assumes "applyRoleChange u c r w = (Inr x, w')"
  shows "(\<exists>m. membershipOf (w_db w) u c = Some m) \<and> w_db w' = setRole u c r (w_clock w) (w_db w) \<and>
    sameRest w w' \<and> ownersOf (w_db w') c \<noteq> []"
proof -
  from keepingAnOwner_success[OF assms[unfolded applyRoleChange_def]]
  obtain w1 w2 row where "orNotFound (updateMembershipRole u c r) w1 = (Inr row, w2)"
    and s: "w_db w1 = w_db w" "sameRest w w1" "w_db w' = w_db w2" "sameRest w2 w'"
      "ownersOf (w_db w') c \<noteq> []"
    by (auto simp: forEachDiscard_runs)
  from updateMembershipRole_success[OF this(1)] s show ?thesis
    by (auto simp: sameRest_def)
qed

lemma applyTransfer_success:
  assumes "applyTransfer a u c w = (Inr x, w')"
  shows "(\<exists>m. membershipOf (w_db w) u c = Some m) \<and>
    w_db w' = setRole a c ADMIN (w_clock w) (setRole u c OWNER (w_clock w) (w_db w)) \<and>
    (\<exists>m. membershipOf (setRole u c OWNER (w_clock w) (w_db w)) a c = Some m) \<and>
    sameRest w w' \<and> ownersOf (w_db w') c \<noteq> []"
proof -
  from keepingAnOwner_success[OF assms[unfolded applyTransfer_def]]
  obtain w1 w2 w3 row row' where "orNotFound (updateMembershipRole u c OWNER) w1 = (Inr row, w2)"
    and "orNotFound (updateMembershipRole a c ADMIN) w2 = (Inr row', w3)"
    and s: "w_db w1 = w_db w" "sameRest w w1" "w_db w' = w_db w3" "sameRest w3 w'"
      "ownersOf (w_db w') c \<noteq> []"
    by (auto simp: forEachDiscard_runs)
  from updateMembershipRole_success[OF this(1)] updateMembershipRole_success[OF this(2)] s
  show ?thesis by (auto simp: sameRest_def)
qed

lemma applyRemoval_success:
  assumes "applyRemoval u c w = (Inr x, w')"
  shows "(\<exists>m. membershipOf (w_db w) u c = Some m) \<and>
    w_db w' = reassignCurrent c [u] (w_clock w) (leave u c (w_db w)) \<and>
    sameRest w w' \<and> ownersOf (leave u c (w_db w)) c \<noteq> []"
proof -
  from assms obtain w3 where keep: "keepingAnOwner c [deleteMembership u c] w = (Inr (), w3)"
    and re: "reassignLastUsedCompanyAfterLeaving c [u] w3 = (Inr x, w')"
    by (auto simp: applyRemoval_def andThen_runs reassignCurrentAfterLeaving_def)
  from keepingAnOwner_success[OF keep]
  obtain w1 w2 row where "orNotFound (deleteMembership u c) w1 = (Inr row, w2)"
    and s: "w_db w1 = w_db w" "sameRest w w1" "w_db w3 = w_db w2" "sameRest w2 w3"
      "ownersOf (w_db w3) c \<noteq> []"
    by (auto simp: forEachDiscard_runs)
  from deleteMembership_success[OF this(1)] s re show ?thesis
    by (auto simp: sameRest_def reassign_runs reassignCurrent_def)
qed

lemma applyCompanyRemoval_success:
  assumes "applyCompanyRemoval c w = (Inr removed, w')"
  shows "removed = filter (\<lambda>m. mb_companyId m = c) (d_membership (w_db w)) \<and>
    w_db w' = reassignCurrent c (map mb_userId removed) (w_clock w)
      ((w_db w)\<lparr>d_membership := filter (\<lambda>m. mb_companyId m \<noteq> c) (d_membership (w_db w))\<rparr>) \<and>
    sameRest w w'"
  using assms
  by (auto simp: applyCompanyRemoval_def reassignCurrentAfterLeaving_def andThen_runs succeed_runs
      removeMembershipsOfCompany_runs reassign_runs reassignCurrent_def sameRest_def)

lemma applyJoin_success:
  assumes "applyJoin i u c r w = (Inr row, w')"
  shows "i \<notin> mb_id ` set (d_membership (w_db w)) \<and>
    (u, c) \<notin> membershipKey ` set (d_membership (w_db w)) \<and>
    u \<in> userIds (w_db w) \<and> c \<in> companyIds (w_db w) \<and>
    row = \<lparr>mb_id = i, mb_userId = u, mb_companyId = c, mb_role = r, mb_joinedAt = w_clock w,
           mb_createdAt = w_clock w, mb_updatedAt = w_clock w\<rparr> \<and>
    w_db w' = setCurrent u c (w_clock w) ((w_db w)\<lparr>d_membership := d_membership (w_db w) @ [row]\<rparr>) \<and>
    sameRest w w'"
  using assms
  by (auto simp: applyJoin_def andThen_runs lockMembershipChangesOfUser_def lockDb_runs insertMembership_runs
      becomeCurrentOnJoin_def updateUserLastUsedCompany_runs succeed_runs setCurrent_def sameRest_def)

section \<open>The constraints of the schema survive\<close>

lemma preserves_writes [preserves_intros]:
  "(\<And>x. x \<in> set writes \<Longrightarrow> preserves I x) \<Longrightarrow> preserves I (forEachDiscard orNotFound writes)"
  by (induction writes) (auto simp: forEachDiscard.simps intro: preserves_intros)

lemma preserves_apply [preserves_intros]:
  "preserves wf_db (applyRoleChange u c r)" "preserves wf_db (applyJoin i u c r)"
  "preserves wf_db (applyRemoval u c)" "preserves wf_db (applyCompanyRemoval c)"
  "preserves wf_db (applyTransfer a u c)"
  unfolding applyRoleChange_def applyJoin_def applyRemoval_def applyCompanyRemoval_def applyTransfer_def
    keepingAnOwner_def becomeCurrentOnJoin_def reassignCurrentAfterLeaving_def
  by (intro preserves_intros; auto intro: preserves_intros)+

lemma preserves_audit_wf [preserves_intros]:
  "preserves wf_db (appendAuditLogs es)" "preserves wf_db (appendAuditInTx es)"
  "preserves wf_db (appendAuditBestEffort e)"
  by (intro preserves_intros)+

lemma preserves_membership_ops [preserves_intros]:
  assumes "auth_frame A"
  shows "preserves wf_db (switchCurrentCompany A u c)" "preserves wf_db (changeRole A g)"
    "preserves wf_db (removeMember A rg)" "preserves wf_db (transferOwnership A tg)"
  unfolding switchCurrentCompany_def changeRole_def removeMember_def transferOwnership_def Let_def
  by (intro preserves_intros assms)+

section \<open>Failures\<close>

lemma throws_writes [throws_intros]:
  "(\<And>x. x \<in> set writes \<Longrightarrow> throws E x) \<Longrightarrow> NotFound \<in> E \<Longrightarrow> throws E (forEachDiscard orNotFound writes)"
  by (induction writes) (auto simp: forEachDiscard.simps intro: throws_intros)

lemma throws_apply [throws_intros]:
  assumes "DbError \<in> E"
  shows "NotFound \<in> E \<Longrightarrow> LastOwner \<in> E \<Longrightarrow> throws E (applyRoleChange u c r)"
    "throws E (applyJoin i u c r)"
    "NotFound \<in> E \<Longrightarrow> LastOwner \<in> E \<Longrightarrow> throws E (applyRemoval u c)"
    "throws E (applyCompanyRemoval c)"
    "NotFound \<in> E \<Longrightarrow> LastOwner \<in> E \<Longrightarrow> throws E (applyTransfer a u c)"
  unfolding applyRoleChange_def applyJoin_def applyRemoval_def applyCompanyRemoval_def applyTransfer_def
    keepingAnOwner_def becomeCurrentOnJoin_def reassignCurrentAfterLeaving_def
  by (intro throws_intros assms; (use assms in \<open>auto intro: throws_intros\<close>)?)+

lemma throws_membership_ops [throws_intros]:
  assumes "DbError \<in> E"
  shows "Forbidden \<in> E \<Longrightarrow> throws E (switchCurrentCompany A u c)"
    "NotFound \<in> E \<Longrightarrow> LastOwner \<in> E \<Longrightarrow> throws E (changeRole A g)"
    "NotFound \<in> E \<Longrightarrow> LastOwner \<in> E \<Longrightarrow> throws E (removeMember A rg)"
    "NotFound \<in> E \<Longrightarrow> LastOwner \<in> E \<Longrightarrow> throws E (transferOwnership A tg)"
    "throws E (listMembers vm)"
  unfolding switchCurrentCompany_def changeRole_def removeMember_def transferOwnership_def listMembers_def
    Let_def
  by (intro throws_intros assms; assumption)+

end
