(* ===== verification/Company.thy ===== *)
theory Company
  imports Membership
begin

text \<open>
  \<open>src/company\<close>: creating, updating and deleting companies. Deleting one revokes its pending
  invitations, removes every membership, deletes the accounts that are left without any active company,
  and marks the company DELETED, all in one transaction that first locks its owners and checks again
  that the actor is one of them.
\<close>

record createdCompany =
  cr_company :: company
  cr_membership :: membership

definition createCompanyWithOwner :: "id \<Rightarrow> string \<Rightarrow> org_code \<Rightarrow> (createdCompany, 'x) eff" where
  "createCompanyWithOwner userId name orgCode =
     andThen generateCompanyId (\<lambda>companyId.
     andThen (insertCompany companyId name orgCode) (\<lambda>created.
     andThen generateMembershipId (\<lambda>membershipId.
     andThen (applyJoin membershipId userId companyId OWNER) (\<lambda>membership.
     andDo (appendAuditInTx [\<lparr>ae_userId = userId,
              ae_event = Company_created companyId name orgCode userId\<rparr>])
       (succeed \<lparr>cr_company = created, cr_membership = membership\<rparr>)))))"

definition createSignupCompany ::
    "'x better_auth \<Rightarrow> id \<Rightarrow> string \<Rightarrow> org_code \<Rightarrow> (createdCompany, 'x) eff" where
  "createSignupCompany A userId name orgCode = transaction A
     (andDo (lockMembershipChangesOfUser userId)
     (andThen (countActiveMembershipsByUserId userId) (\<lambda>n.
       if n > 0 then failWith AlreadyExists
       else createCompanyWithOwner userId name orgCode)))"

definition addCompany ::
    "'x better_auth \<Rightarrow> id \<Rightarrow> string \<Rightarrow> org_code \<Rightarrow> (createdCompany, 'x) eff" where
  "addCompany A userId name orgCode = transaction A (createCompanyWithOwner userId name orgCode)"

definition updateCompanyInfo ::
    "'x better_auth \<Rightarrow> verifiedMember \<Rightarrow> string \<Rightarrow> org_code \<Rightarrow> (company, 'x) eff" where
  "updateCompanyInfo A member name orgCode =
     (let actorUserId = ac_id (vm_actor member); companyId = vm_companyId member
      in transaction A
        (andThen (findCompanyById companyId) (\<lambda>found.
           case found of
             None \<Rightarrow> failWith NotFound
           | Some before \<Rightarrow>
               (if co_activationStatus before \<noteq> ACTIVE then failWith NotFound
                else andThen (updateCompany companyId name orgCode) (\<lambda>updated.
                  case updated of
                    None \<Rightarrow> failWith NotFound
                  | Some row \<Rightarrow>
                      andDo (appendAuditInTx [\<lparr>ae_userId = actorUserId,
                        ae_event = Company_updated companyId (co_name before, co_orgCode before)
                          (name, orgCode)\<rparr>])
                        (succeed row))))))"

definition deleteCompanyBody :: "id \<Rightarrow> id \<Rightarrow> (id list, 'x) eff" where
  "deleteCompanyBody actorUserId companyId =
     andDo (lockOwnerMembershipsOfCompany companyId)
     (andThen (findCompanyById companyId) (\<lambda>found.
       case found of
         None \<Rightarrow> failWith Forbidden
       | Some target \<Rightarrow>
           (if co_activationStatus target \<noteq> ACTIVE then succeed []
            else andThen (findMembership actorUserId companyId) (\<lambda>actorMembership.
              case actorMembership of
                None \<Rightarrow> failWith Forbidden
              | Some am \<Rightarrow>
                  (if \<not> isAtLeast (mb_role am) OWNER then failWith Forbidden
                   else
                     andThen (revokePendingInvitationsOfCompany companyId) (\<lambda>revokedInvitations.
                     andDo (appendAuditInTx (map (\<lambda>inv. invitationRevokedEntry actorUserId (iv_id inv) companyId)
                              revokedInvitations))
                     (andThen (applyCompanyRemoval companyId) (\<lambda>removed.
                     andDo (appendAuditInTx (map (\<lambda>m. membershipRemovedEntry actorUserId companyId
                              (mb_userId m) (mb_role m)) removed))
                     (andThen (filterEff (\<lambda>userId. mapEff (\<lambda>r. r = Deleted)
                                (deleteAccountIfOrphaned userId Flow_company_delete))
                              (sort (dedupe (map mb_userId removed)))) (\<lambda>deletedOrphanIds.
                     andDo (softDeleteCompany companyId)
                     (andDo (appendAuditInTx [\<lparr>ae_userId = actorUserId,
                              ae_event = Company_deleted companyId (co_name target) actorUserId\<rparr>])
                       (succeed deletedOrphanIds))))))))))))"

definition deleteCompany :: "'x better_auth \<Rightarrow> verifiedMember \<Rightarrow> (bool, 'x) eff" where
  "deleteCompany A member =
     (let actorUserId = ac_id (vm_actor member)
      in andThen (transaction A (deleteCompanyBody actorUserId (vm_companyId member)))
           (\<lambda>deletedUserIds. succeed (actorUserId \<in> set deletedUserIds)))"

section \<open>What they do to the database\<close>

definition newCompany :: "id \<Rightarrow> string \<Rightarrow> org_code \<Rightarrow> millis \<Rightarrow> company" where
  "newCompany c name oc now = \<lparr>co_id = c, co_name = name, co_orgCode = oc, co_activationStatus = ACTIVE,
     co_deletedAt = None, co_createdAt = now, co_updatedAt = now\<rparr>"

definition newOwner :: "id \<Rightarrow> id \<Rightarrow> id \<Rightarrow> millis \<Rightarrow> membership" where
  "newOwner i u c now = \<lparr>mb_id = i, mb_userId = u, mb_companyId = c, mb_role = OWNER,
     mb_joinedAt = now, mb_createdAt = now, mb_updatedAt = now\<rparr>"

definition companyCreated :: "id \<Rightarrow> string \<Rightarrow> org_code \<Rightarrow> millis \<Rightarrow> createdCompany \<Rightarrow>
    database \<Rightarrow> database \<Rightarrow> bool" where
  "companyCreated u name oc now r d d' \<longleftrightarrow>
     (\<exists>c i. r = \<lparr>cr_company = newCompany c name oc now, cr_membership = newOwner i u c now\<rparr> \<and>
       c \<notin> companyIds d \<and> u \<in> userIds d \<and> i \<notin> mb_id ` set (d_membership d) \<and>
       (u, c) \<notin> membershipKey ` set (d_membership d) \<and>
       auditAppended [\<lparr>ae_userId = u, ae_event = Company_created c name oc u\<rparr>]
         (setCurrent u c now (d\<lparr>d_company := d_company d @ [newCompany c name oc now],
            d_membership := d_membership d @ [newOwner i u c now]\<rparr>)) d')"

lemma createCompanyWithOwner_success:
  assumes "createCompanyWithOwner u name oc w = (Inr r, w')"
  shows "companyCreated u name oc (w_clock w) r (w_db w) (w_db w')"
proof -
  from assms obtain c w1 co w2 i w3 m w4 where
    c: "generateCompanyId w = (Inr c, w1)" and co: "insertCompany c name oc w1 = (Inr co, w2)"
    and i: "generateMembershipId w2 = (Inr i, w3)" and m: "applyJoin i u c OWNER w3 = (Inr m, w4)"
    and audit: "appendAuditInTx [\<lparr>ae_userId = u, ae_event = Company_created c name oc u\<rparr>] w4 = (Inr (), w')"
    and r: "r = \<lparr>cr_company = co, cr_membership = m\<rparr>"
    unfolding createCompanyWithOwner_def andThen_runs succeed_runs by auto
  have w1: "w_db w1 = w_db w" "w_clock w1 = w_clock w"
    using c by (auto simp: generateCompanyId_def mapEff_runs random_runs)
  from co have co: "co = newCompany c name oc (w_clock w)" "c \<notin> companyIds (w_db w)"
    "w_db w2 = (w_db w)\<lparr>d_company := d_company (w_db w) @ [co]\<rparr>" "w_clock w2 = w_clock w"
    by (auto simp: insertCompany_runs w1 newCompany_def)
  have w3: "w_db w3 = w_db w2" "w_clock w3 = w_clock w2"
    using i by (auto simp: generateMembershipId_def mapEff_runs random_runs)
  from applyJoin_success[OF m] have j: "m = newOwner i u c (w_clock w)"
    "u \<in> userIds (w_db w)" "i \<notin> mb_id ` set (d_membership (w_db w))"
    "(u, c) \<notin> membershipKey ` set (d_membership (w_db w))"
    "w_db w4 = setCurrent u c (w_clock w) ((w_db w2)\<lparr>d_membership := d_membership (w_db w) @ [m]\<rparr>)"
    by (simp_all add: w3 co newOwner_def userIds_def)
  show ?thesis
    unfolding companyCreated_def
    using appendAuditInTx_db[OF audit] co j r by (intro exI[of _ c] exI[of _ i]) auto
qed

lemma createSignupCompany_success:
  assumes "createSignupCompany A u name oc w = (Inr r, w')" "auth_frame A"
  shows "activeJoin (w_db w) u = [] \<and> companyCreated u name oc (w_clock w) r (w_db w) (w_db w')"
proof -
  let ?w0 = "w\<lparr>w_dbCalls := Suc (w_dbCalls w), w_hooks := [], w_locks := []\<rparr>"
  from transaction_success[OF assms(1)[unfolded createSignupCompany_def] assms(2)]
  obtain w1 where body: "andDo (lockMembershipChangesOfUser u)
     (andThen (countActiveMembershipsByUserId u) (\<lambda>n.
       if n > 0 then failWith AlreadyExists else createCompanyWithOwner u name oc)) ?w0 = (Inr r, w1)"
    and w': "w_db w' = w_db w1" by blast
  from body obtain w2 where "createCompanyWithOwner u name oc w2 = (Inr r, w1)"
    and "w_db w2 = w_db w" "w_clock w2 = w_clock w" "activeJoin (w_db w) u = []"
    by (auto simp: andThen_runs lockMembershipChangesOfUser_def lockDb_runs
        countActiveMembershipsByUserId_def select_runs failWith_runs split: if_splits)
  with createCompanyWithOwner_success[OF this(1)] w' show ?thesis by simp
qed

section \<open>The constraints of the schema survive\<close>

lemma preserves_company_ops [preserves_intros]:
  assumes "auth_frame A"
  shows "preserves wf_db (createSignupCompany A u n oc)" "preserves wf_db (addCompany A u n oc)"
    "preserves wf_db (updateCompanyInfo A m n oc)" "preserves wf_db (deleteCompany A m)"
  unfolding createSignupCompany_def addCompany_def updateCompanyInfo_def deleteCompany_def
    deleteCompanyBody_def createCompanyWithOwner_def generateCompanyId_def Let_def
  by (intro preserves_intros assms)+

section \<open>Failures\<close>

lemma throws_company_ops [throws_intros]:
  assumes "DbError \<in> E"
  shows "AlreadyExists \<in> E \<Longrightarrow> throws E (createSignupCompany A u n oc)" "throws E (addCompany A u n oc)"
    "NotFound \<in> E \<Longrightarrow> throws E (updateCompanyInfo A m n oc)"
    "Forbidden \<in> E \<Longrightarrow> throws E (deleteCompany A m)"
  unfolding createSignupCompany_def addCompany_def updateCompanyInfo_def deleteCompany_def
    deleteCompanyBody_def createCompanyWithOwner_def Let_def
  by (intro throws_intros assms; assumption)+

end
