(* ===== verification/Json.thy ===== *)
theory Json
  imports Prelude
begin

text \<open>
  \<open>JSON.stringify\<close> and \<open>JSON.parse\<close>, as far as the session index of better-auth needs them: numbers are
  integers (a fraction or an exponent is refused), and characters are the 256 first code points.
  The parser takes fuel; \<open>jsonParse\<close> gives it more than any text of that length needs, and
  \<open>jsonParse_stringify\<close> is the round trip.
\<close>

datatype json = JNull | JBool bool | JNum int | JStr string | JArr "json list" | JObj "(string \<times> json) list"

section \<open>Printing\<close>

definition chr :: "nat \<Rightarrow> char" where
  "chr n = char_of n"

definition ord :: "char \<Rightarrow> nat" where
  "ord c = of_char c"

lemma chr_ord [simp]: "chr (ord c) = c"
  by (simp add: chr_def ord_def)

lemma ord_chr [simp]: "n < 256 \<Longrightarrow> ord (chr n) = n"
  by (simp add: chr_def ord_def)

lemma ord_less [simp]: "ord c < 256"
  by (simp add: ord_def)

definition quoteChar :: char where "quoteChar = CHR 0x22"

definition backslash :: char where "backslash = CHR 0x5C"

definition hexDigit :: "nat \<Rightarrow> char" where
  "hexDigit n = (if n < 10 then chr (48 + n) else chr (87 + n))"

definition escapeChar :: "char \<Rightarrow> string" where
  "escapeChar c =
    (if c = quoteChar \<or> c = backslash then [backslash, c]
     else if ord c = 8 then [backslash, CHR ''b'']
     else if ord c = 9 then [backslash, CHR ''t'']
     else if ord c = 10 then [backslash, CHR ''n'']
     else if ord c = 12 then [backslash, CHR ''f'']
     else if ord c = 13 then [backslash, CHR ''r'']
     else if ord c < 32
     then [backslash, CHR ''u'', CHR ''0'', CHR ''0'', hexDigit (ord c div 16), hexDigit (ord c mod 16)]
     else [c])"

definition stringifyString :: "string \<Rightarrow> string" where
  "stringifyString s = quoteChar # concat (map escapeChar s) @ [quoteChar]"

definition stringifyInt :: "int \<Rightarrow> string" where
  "stringifyInt i = (if i < 0 then CHR ''-'' # showNat (nat (- i)) else showNat (nat i))"

fun commaSep :: "string list \<Rightarrow> string" where
  "commaSep [] = []"
| "commaSep [s] = s"
| "commaSep (s # t # ss) = s @ CHR '','' # commaSep (t # ss)"

fun stringify :: "json \<Rightarrow> string" where
  "stringify JNull = ''null''"
| "stringify (JBool b) = (if b then ''true'' else ''false'')"
| "stringify (JNum i) = stringifyInt i"
| "stringify (JStr s) = stringifyString s"
| "stringify (JArr xs) = CHR ''['' # commaSep (map stringify xs) @ '']''"
| "stringify (JObj fs) = CHR ''{'' # commaSep (map (\<lambda>(k, v). stringifyString k @ CHR '':'' # stringify v) fs) @ ''}''"

section \<open>Parsing\<close>

definition isJsonSpace :: "char \<Rightarrow> bool" where
  "isJsonSpace c \<longleftrightarrow> ord c \<in> {9, 10, 13, 32}"

definition skipWs :: "string \<Rightarrow> string" where
  "skipWs s = dropWhile isJsonSpace s"

definition hexValue :: "char \<Rightarrow> nat option" where
  "hexValue c =
    (let n = ord c
     in if 48 \<le> n \<and> n \<le> 57 then Some (n - 48)
        else if 97 \<le> n \<and> n \<le> 102 then Some (n - 87)
        else if 65 \<le> n \<and> n \<le> 70 then Some (n - 55)
        else None)"

definition unhex4 :: "char \<Rightarrow> char \<Rightarrow> char \<Rightarrow> char \<Rightarrow> nat option" where
  "unhex4 a b c d =
    (case (hexValue a, hexValue b, hexValue c, hexValue d) of
       (Some w, Some x, Some y, Some z) \<Rightarrow> Some (4096 * w + 256 * x + 16 * y + z)
     | _ \<Rightarrow> None)"

definition unescape :: "char \<Rightarrow> char option" where
  "unescape e =
    (if e = quoteChar \<or> e = backslash \<or> e = CHR ''/'' then Some e
     else if e = CHR ''b'' then Some (chr 8)
     else if e = CHR ''t'' then Some (chr 9)
     else if e = CHR ''n'' then Some (chr 10)
     else if e = CHR ''f'' then Some (chr 12)
     else if e = CHR ''r'' then Some (chr 13)
     else None)"

definition consTo :: "char \<Rightarrow> (string \<times> string) option \<Rightarrow> (string \<times> string) option" where
  "consTo c = map_option (\<lambda>(s, r). (c # s, r))"

fun parseChars :: "string \<Rightarrow> (string \<times> string) option" where
  "parseChars [] = None"
| "parseChars (c # s) =
    (if c = quoteChar then Some ([], s)
     else if c = backslash then
       (case s of
          e # t \<Rightarrow>
            (if e = CHR ''u'' then
               (case t of
                  a # b # c' # d # r \<Rightarrow>
                    (case unhex4 a b c' d of
                       Some n \<Rightarrow> (if n < 256 then consTo (chr n) (parseChars r) else None)
                     | None \<Rightarrow> None)
                | _ \<Rightarrow> None)
             else (case unescape e of Some x \<Rightarrow> consTo x (parseChars t) | None \<Rightarrow> None))
        | [] \<Rightarrow> None)
     else if ord c < 32 then None
     else consTo c (parseChars s))"

definition parseNumber :: "string \<Rightarrow> (json \<times> string) option" where
  "parseNumber s =
    (let (neg, t) = (case s of c # r \<Rightarrow> if c = CHR ''-'' then (True, r) else (False, s) | [] \<Rightarrow> (False, s));
         ds = takeWhile isDigit t; r = dropWhile isDigit t
     in if ds = [] \<or> (hd ds = CHR ''0'' \<and> ds \<noteq> ''0'') \<or>
           (r \<noteq> [] \<and> hd r \<in> {CHR ''.'', CHR ''e'', CHR ''E''})
        then None
        else Some (JNum (if neg then - int (readDigits ds) else int (readDigits ds)), r))"

fun parseValue :: "nat \<Rightarrow> string \<Rightarrow> (json \<times> string) option"
and parseElements :: "nat \<Rightarrow> string \<Rightarrow> (json list \<times> string) option"
and parseMembers :: "nat \<Rightarrow> string \<Rightarrow> ((string \<times> json) list \<times> string) option" where
  "parseValue 0 s = None"
| "parseValue (Suc n) s =
    (case skipWs s of
       [] \<Rightarrow> None
     | c # t \<Rightarrow>
         (if c = CHR ''['' then
            (case skipWs t of
               [] \<Rightarrow> None
             | c' # r \<Rightarrow> (if c' = CHR '']'' then Some (JArr [], r)
                         else map_option (\<lambda>(xs, r). (JArr xs, r)) (parseElements n t)))
          else if c = CHR ''{'' then
            (case skipWs t of
               [] \<Rightarrow> None
             | c' # r \<Rightarrow> (if c' = CHR ''}'' then Some (JObj [], r)
                         else map_option (\<lambda>(fs, r). (JObj fs, r)) (parseMembers n t)))
          else if c = quoteChar then map_option (\<lambda>(x, r). (JStr x, r)) (parseChars t)
          else if startsWith (c # t) ''null'' then Some (JNull, drop 4 (c # t))
          else if startsWith (c # t) ''true'' then Some (JBool True, drop 4 (c # t))
          else if startsWith (c # t) ''false'' then Some (JBool False, drop 5 (c # t))
          else parseNumber (c # t)))"
| "parseElements 0 s = None"
| "parseElements (Suc n) s =
    (case parseValue n s of
       None \<Rightarrow> None
     | Some (x, r) \<Rightarrow>
         (case skipWs r of
            [] \<Rightarrow> None
          | c # r' \<Rightarrow>
              (if c = CHR '','' then map_option (\<lambda>(xs, r''). (x # xs, r'')) (parseElements n r')
               else if c = CHR '']'' then Some ([x], r') else None)))"
| "parseMembers 0 s = None"
| "parseMembers (Suc n) s =
    (case skipWs s of
       [] \<Rightarrow> None
     | q # t \<Rightarrow>
         (if q \<noteq> quoteChar then None
          else (case parseChars t of
            None \<Rightarrow> None
          | Some (k, r) \<Rightarrow>
              (case skipWs r of
                 [] \<Rightarrow> None
               | c # r1 \<Rightarrow>
                   (if c \<noteq> CHR '':'' then None
                    else (case parseValue n r1 of
                      None \<Rightarrow> None
                    | Some (v, r2) \<Rightarrow>
                        (case skipWs r2 of
                           [] \<Rightarrow> None
                         | c' # r' \<Rightarrow>
                             (if c' = CHR '','' then map_option (\<lambda>(fs, r''). ((k, v) # fs, r'')) (parseMembers n r')
                              else if c' = CHR ''}'' then Some ([(k, v)], r') else None))))))))"

definition jsonParse :: "string \<Rightarrow> json option" where
  "jsonParse s = (case parseValue (Suc (length s)) s of
     Some (j, r) \<Rightarrow> (if skipWs r = [] then Some j else None)
   | None \<Rightarrow> None)"

text \<open>A property of an object: the last one of that name counts.\<close>

definition field :: "string \<Rightarrow> json \<Rightarrow> json option" where
  "field k j = (case j of JObj fs \<Rightarrow> map_of (rev fs) k | _ \<Rightarrow> None)"

section \<open>The round trip\<close>

lemma hexValue_hexDigit: "n < 16 \<Longrightarrow> hexValue (hexDigit n) = Some n"
  by (auto simp: hexDigit_def hexValue_def Let_def)

lemma ord_neq: "ord c \<noteq> ord d \<Longrightarrow> c \<noteq> d"
  by auto

lemma ord_eq_chr: "ord c = n \<Longrightarrow> n < 256 \<Longrightarrow> c = chr n"
  by auto

lemma parseChars_escape:
  "parseChars (escapeChar c @ s) = consTo c (parseChars s)"
proof -
  have q: "ord quoteChar = 34" "ord backslash = 92"
    by (simp_all add: quoteChar_def backslash_def ord_def)
  have bu: "CHR ''b'' \<noteq> quoteChar" "CHR ''b'' \<noteq> backslash" "CHR ''t'' \<noteq> quoteChar" "CHR ''t'' \<noteq> backslash"
    "CHR ''n'' \<noteq> quoteChar" "CHR ''n'' \<noteq> backslash" "CHR ''f'' \<noteq> quoteChar" "CHR ''f'' \<noteq> backslash"
    "CHR ''r'' \<noteq> quoteChar" "CHR ''r'' \<noteq> backslash" "CHR ''u'' \<noteq> quoteChar" "CHR ''u'' \<noteq> backslash"
    "quoteChar \<noteq> backslash" "backslash \<noteq> quoteChar"
    by (simp_all add: quoteChar_def backslash_def)
  consider (special) "c = quoteChar \<or> c = backslash"
    | (named) "ord c \<in> {8, 9, 10, 12, 13}"
    | (control) "ord c < 32" "ord c \<notin> {8, 9, 10, 12, 13}"
    | (plain) "\<not> ord c < 32" "c \<noteq> quoteChar" "c \<noteq> backslash"
    by auto
  then show ?thesis
  proof cases
    case special
    then show ?thesis using bu by (auto simp: escapeChar_def unescape_def)
  next
    case named
    then have "c \<noteq> quoteChar" "c \<noteq> backslash" using q by auto
    with named show ?thesis
      using bu ord_eq_chr[of c 8] ord_eq_chr[of c 9] ord_eq_chr[of c 10] ord_eq_chr[of c 12]
        ord_eq_chr[of c 13]
      by (auto simp: escapeChar_def unescape_def)
  next
    case control
    then have ne: "c \<noteq> quoteChar" "c \<noteq> backslash" using q by auto
    have h: "hexValue (CHR ''0'') = Some 0" by (simp add: hexValue_def ord_def)
    have "unhex4 (CHR ''0'') (CHR ''0'') (hexDigit (ord c div 16)) (hexDigit (ord c mod 16)) = Some (ord c)"
      using control(1) by (simp add: unhex4_def h hexValue_hexDigit)
    with control ne show ?thesis
      using bu by (simp add: escapeChar_def)
  next
    case plain
    then show ?thesis by (simp add: escapeChar_def)
  qed
qed

lemma parseChars_stringify:
  "parseChars (concat (map escapeChar s) @ quoteChar # rest) = Some (s, rest)"
  by (induction s) (simp_all add: parseChars_escape consTo_def)

text \<open>What may follow a value without being swallowed by it.\<close>

definition stops :: "string \<Rightarrow> bool" where
  "stops r \<longleftrightarrow> r = [] \<or> (\<not> isDigit (hd r) \<and> hd r \<notin> {CHR ''.'', CHR ''e'', CHR ''E''})"

lemma showNat_head: "\<exists>c t. showNat n = c # t \<and> isDigit c \<and> (c = CHR ''0'' \<longrightarrow> t = [])"
proof (induction n rule: showNat.induct)
  case (1 n)
  show ?case
  proof (cases "n < 10")
    case True
    then show ?thesis by (simp add: showNat.simps[of n] digitChar_props)
  next
    case False
    with 1 obtain c t where ct: "showNat (n div 10) = c # t" "isDigit c" "c = CHR ''0'' \<longrightarrow> t = []" by blast
    have "c \<noteq> CHR ''0''"
    proof
      assume z: "c = CHR ''0''"
      with ct have "showNat (n div 10) = [CHR ''0'']" by simp
      then have "readDigits (showNat (n div 10)) = 0" by (simp add: readDigits_def digitValue_def)
      with False show False by (simp add: readDigits_showNat)
    qed
    with False ct show ?thesis by (simp add: showNat.simps[of n])
  qed
qed

lemma parseNumber_stringify:
  assumes "stops rest" shows "parseNumber (stringifyInt i @ rest) = Some (JNum i, rest)"
proof -
  have digits: "\<forall>c\<in>set (showNat n). isDigit c" for n
    using showNat_digits[of n] by (simp add: list_all_iff)
  have "takeWhile isDigit rest = []" "dropWhile isDigit rest = rest"
    using assms by (cases rest; simp add: stops_def)+
  then have tw: "takeWhile isDigit (showNat n @ rest) = showNat n"
    and dw: "dropWhile isDigit (showNat n @ rest) = rest" for n
    using digits by (simp_all add: takeWhile_append2 dropWhile_append2)
  have minus: "\<not> isDigit (CHR ''-'')" by (simp add: isDigit_def)
  have ok: "\<not> (showNat n = [] \<or> (hd (showNat n) = CHR ''0'' \<and> showNat n \<noteq> ''0''))" for n
    using showNat_head[of n] by auto
  have head: "hd (showNat n @ rest) \<noteq> CHR ''-''" "showNat n @ rest \<noteq> []" for n
    using showNat_head[of n] minus by auto
  have foll: "\<not> (rest \<noteq> [] \<and> hd rest \<in> {CHR ''.'', CHR ''e'', CHR ''E''})"
    using assms by (auto simp: stops_def)
  show ?thesis
  proof (cases "i < 0")
    case True
    then show ?thesis
      using ok[of "nat (- i)"] foll
      by (auto simp: parseNumber_def stringifyInt_def Let_def tw dw readDigits_showNat ball_Un digits[rule_format])
  next
    case False
    have "(case showNat (nat i) @ rest of [] \<Rightarrow> (False, showNat (nat i) @ rest)
      | c # r \<Rightarrow> if c = CHR ''-'' then (True, r) else (False, showNat (nat i) @ rest))
      = (False, showNat (nat i) @ rest)"
      using head[of "nat i"] by (cases "showNat (nat i) @ rest") auto
    with False show ?thesis
      using ok[of "nat i"] foll
      by (auto simp: parseNumber_def stringifyInt_def Let_def tw dw readDigits_showNat ball_Un digits[rule_format])
  qed
qed

lemma skipWs_noop: "s \<noteq> [] \<Longrightarrow> \<not> isJsonSpace (hd s) \<Longrightarrow> skipWs s = s"
  by (cases s) (auto simp: skipWs_def)

text \<open>The first character of a printed value decides how it is parsed.\<close>

lemma stringify_head:
  "\<exists>c t. stringify j = c # t \<and> \<not> isJsonSpace c \<and> c \<noteq> CHR '']'' \<and> c \<noteq> CHR ''}''"
proof (cases j)
  case (JNum i)
  obtain c t where ct: "stringifyInt i = c # t" "c = CHR ''-'' \<or> isDigit c"
    using showNat_head[of "nat i"] by (cases "i < 0") (auto simp: stringifyInt_def)
  from ct(2) have "\<not> isJsonSpace c \<and> c \<noteq> CHR '']'' \<and> c \<noteq> CHR ''}''"
    by (auto simp: isDigit_def isJsonSpace_def ord_def)
  with ct(1) JNum show ?thesis by simp
qed (auto simp: stringifyString_def quoteChar_def isJsonSpace_def ord_def)

lemma startsWith_number:
  assumes "c = CHR ''-'' \<or> isDigit c"
  shows "c \<noteq> CHR ''[''" "c \<noteq> CHR ''{''" "c \<noteq> quoteChar" "\<not> startsWith (c # t) ''null''"
    "\<not> startsWith (c # t) ''true''" "\<not> startsWith (c # t) ''false''" "\<not> isJsonSpace c"
  using assms by (auto simp: isDigit_def startsWith_def quoteChar_def isJsonSpace_def ord_def)

lemma stringifyInt_head: "\<exists>c t. stringifyInt i = c # t \<and> (c = CHR ''-'' \<or> isDigit c)"
  using showNat_head[of "nat i"] by (auto simp: stringifyInt_def)

lemma parseValue_number:
  assumes "stops rest"
  shows "parseValue (Suc n) (stringify (JNum i) @ rest) = Some (JNum i, rest)"
proof -
  obtain c t where ct: "stringifyInt i = c # t" "c = CHR ''-'' \<or> isDigit c"
    using stringifyInt_head by blast
  have "skipWs (stringifyInt i @ rest) = c # (t @ rest)"
    using ct startsWith_number(7)[OF ct(2)] by (simp add: skipWs_def)
  then show ?thesis
    using startsWith_number(1-3)[OF ct(2)] startsWith_number(4-6)[OF ct(2), of "t @ rest"]
      parseNumber_stringify[OF assms, of i] ct(1) by simp
qed

lemma stops_punctuation [simp]:
  "stops (CHR '','' # r)" "stops (CHR '']'' # r)" "stops (CHR ''}'' # r)" "stops []"
  by (auto simp: stops_def isDigit_def)

lemma skipWs_punctuation [simp]:
  "skipWs (CHR '','' # r) = CHR '','' # r" "skipWs (CHR '']'' # r) = CHR '']'' # r"
  "skipWs (CHR ''}'' # r) = CHR ''}'' # r" "skipWs (CHR '':'' # r) = CHR '':'' # r"
  "skipWs (CHR ''['' # r) = CHR ''['' # r" "skipWs (CHR ''{'' # r) = CHR ''{'' # r"
  "skipWs (quoteChar # r) = quoteChar # r" "skipWs [] = []"
  by (simp_all add: skipWs_def isJsonSpace_def ord_def quoteChar_def)

text \<open>How much fuel a value needs.\<close>

fun jsonFuel :: "json \<Rightarrow> nat" where
  "jsonFuel (JArr xs) = Suc (sum_list (map (\<lambda>x. Suc (jsonFuel x)) xs))"
| "jsonFuel (JObj fs) = Suc (sum_list (map (\<lambda>(k, v). Suc (jsonFuel v)) fs))"
| "jsonFuel _ = 1"

lemma jsonFuel_le_length: "jsonFuel j \<le> length (stringify j)"
proof (induction j)
  case (JNum i)
  then show ?case using stringifyInt_head[of i] by auto
next
  case (JArr xs)
  have "sum_list (map (\<lambda>x. Suc (jsonFuel x)) xs) \<le> Suc (length (commaSep (map stringify xs)))"
    using JArr
  proof (induction xs)
    case (Cons x xs)
    then have "jsonFuel x \<le> length (stringify x)"
      "sum_list (map (\<lambda>x. Suc (jsonFuel x)) xs) \<le> Suc (length (commaSep (map stringify xs)))" by auto
    then show ?case by (cases xs) auto
  qed simp
  then show ?case by simp
next
  case (JObj fs)
  have "sum_list (map (\<lambda>(k, v). Suc (jsonFuel v)) fs) \<le>
      Suc (length (commaSep (map (\<lambda>(k, v). stringifyString k @ CHR '':'' # stringify v) fs)))"
    using JObj
  proof (induction fs)
    case (Cons f fs)
    obtain k v where f: "f = (k, v)" by fastforce
    from Cons.prems[of f v] have "jsonFuel v \<le> length (stringify v)" by (simp add: f)
    moreover have "sum_list (map (\<lambda>(k, v). Suc (jsonFuel v)) fs) \<le>
      Suc (length (commaSep (map (\<lambda>(k, v). stringifyString k @ CHR '':'' # stringify v) fs)))"
      using Cons by auto
    ultimately show ?case by (cases fs) (auto simp: f)
  qed simp
  then show ?case by simp
qed (auto simp: stringifyString_def)

lemma parseElements_stringify:
  assumes "\<And>x n rest. x \<in> set xs \<Longrightarrow> jsonFuel x \<le> n \<Longrightarrow> stops rest \<Longrightarrow>
      parseValue n (stringify x @ rest) = Some (x, rest)"
    and "xs \<noteq> []" "sum_list (map (\<lambda>x. Suc (jsonFuel x)) xs) \<le> n"
  shows "parseElements n (commaSep (map stringify xs) @ CHR '']'' # rest) = Some (xs, rest)"
  using assms
proof (induction xs arbitrary: n)
  case (Cons x xs)
  from Cons.prems(3) obtain m where n: "n = Suc m" "jsonFuel x \<le> m"
    "sum_list (map (\<lambda>x. Suc (jsonFuel x)) xs) \<le> m"
    by (cases n) auto
  show ?case
  proof (cases xs)
    case Nil
    then show ?thesis using Cons.prems(1)[of x m] n by simp
  next
    case (Cons y ys)
    have "parseElements m (commaSep (map stringify xs) @ CHR '']'' # rest) = Some (xs, rest)"
      using Cons.IH[of m] Cons.prems(1) n Cons by auto
    then show ?thesis
      using Cons.prems(1)[of x m] n Cons by simp
  qed
qed simp

lemma parseMembers_stringify:
  assumes "\<And>k v n rest. (k, v) \<in> set fs \<Longrightarrow> jsonFuel v \<le> n \<Longrightarrow> stops rest \<Longrightarrow>
      parseValue n (stringify v @ rest) = Some (v, rest)"
    and "fs \<noteq> []" "sum_list (map (\<lambda>(k, v). Suc (jsonFuel v)) fs) \<le> n"
  shows "parseMembers n (commaSep (map (\<lambda>(k, v). stringifyString k @ CHR '':'' # stringify v) fs) @ CHR ''}'' # rest)
    = Some (fs, rest)"
  using assms
proof (induction fs arbitrary: n)
  case (Cons f fs)
  obtain k v where f: "f = (k, v)" by fastforce
  from Cons.prems(3) obtain m where n: "n = Suc m" "jsonFuel v \<le> m"
    "sum_list (map (\<lambda>(k, v). Suc (jsonFuel v)) fs) \<le> m"
    by (cases n) (auto simp: f)
  show ?case
  proof (cases fs)
    case Nil
    then show ?thesis
      using Cons.prems(1)[of k v m] n by (simp add: f stringifyString_def parseChars_stringify)
  next
    case (Cons g gs)
    have "parseMembers m (commaSep (map (\<lambda>(k, v). stringifyString k @ CHR '':'' # stringify v) fs) @ CHR ''}'' # rest)
      = Some (fs, rest)"
      using Cons.IH[of m] Cons.prems(1) n Cons by auto
    then show ?thesis
      using Cons.prems(1)[of k v m] n Cons by (simp add: f stringifyString_def parseChars_stringify)
  qed
qed simp

lemma parseValue_stringify:
  "jsonFuel j \<le> n \<Longrightarrow> stops rest \<Longrightarrow> parseValue n (stringify j @ rest) = Some (j, rest)"
proof (induction j arbitrary: n rest)
  case (JNum i)
  then obtain m where "n = Suc m" by (cases n) auto
  then show ?case by (simp only: parseValue_number[OF JNum.prems(2)])
next
  case (JArr xs)
  from JArr.prems obtain m where n: "n = Suc m" "sum_list (map (\<lambda>x. Suc (jsonFuel x)) xs) \<le> m"
    by (cases n) auto
  show ?case
  proof (cases "xs = []")
    case False
    then obtain x xs' where xs: "xs = x # xs'" by (cases xs) auto
    obtain c t where ct: "stringify x = c # t" "\<not> isJsonSpace c" "c \<noteq> CHR '']''"
      using stringify_head by metis
    obtain u where u: "commaSep (map stringify xs) = c # u"
      using xs ct by (cases xs') auto
    have "parseElements m (commaSep (map stringify xs) @ CHR '']'' # rest) = Some (xs, rest)"
      using JArr.IH False n(2) by (intro parseElements_stringify) auto
    then show ?thesis using n ct u by (simp add: skipWs_noop)
  qed (simp add: n)
next
  case (JObj fs)
  from JObj.prems obtain m where n: "n = Suc m" "sum_list (map (\<lambda>(k, v). Suc (jsonFuel v)) fs) \<le> m"
    by (cases n) auto
  show ?case
  proof (cases "fs = []")
    case False
    then obtain k v fs' where fs: "fs = (k, v) # fs'" by (cases fs) auto
    obtain u where u: "commaSep (map (\<lambda>(k, v). stringifyString k @ CHR '':'' # stringify v) fs) = quoteChar # u"
      using fs by (cases fs') (auto simp: stringifyString_def)
    have "parseMembers m (commaSep (map (\<lambda>(k, v). stringifyString k @ CHR '':'' # stringify v) fs) @ CHR ''}'' # rest)
      = Some (fs, rest)"
    proof (rule parseMembers_stringify[OF _ False n(2)])
      fix k v n rest assume "(k, v) \<in> set fs" "jsonFuel v \<le> n" "stops rest"
      then show "parseValue n (stringify v @ rest) = Some (v, rest)"
        using JObj.IH[of "(k, v)" v n rest] by simp
    qed
    then show ?thesis using n u by (simp add: quoteChar_def[symmetric]) (simp add: quoteChar_def)
  qed (simp add: n)
next
  case (JStr s)
  then obtain m where "n = Suc m" by (cases n) auto
  then show ?case
    by (simp add: stringifyString_def parseChars_stringify) (simp add: quoteChar_def)
next
  case JNull
  then obtain m where "n = Suc m" by (cases n) auto
  then show ?case by (simp add: skipWs_noop isJsonSpace_def ord_def startsWith_def quoteChar_def)
next
  case (JBool b)
  then obtain m where "n = Suc m" by (cases n) auto
  then show ?case by (simp add: skipWs_noop isJsonSpace_def ord_def startsWith_def quoteChar_def)
qed

theorem jsonParse_stringify: "jsonParse (stringify j) = Some j"
proof -
  have "parseValue (Suc (length (stringify j))) (stringify j @ []) = Some (j, [])"
    using jsonFuel_le_length[of j] by (intro parseValue_stringify) auto
  then show ?thesis by (simp add: jsonParse_def)
qed

end
