(* ===== verification/SessionIndex.thy ===== *)
theory SessionIndex
  imports Json
begin

text \<open>
  \<open>src/session-index.ts\<close>: merging the index of a user's sessions that better-auth writes with the one that is
  stored, so that two sessions created at the same time are both kept.
\<close>

record sessionIndexEntry =
  si_token :: string
  si_expiresAt :: int

definition sessionIndexEntryOf :: "json \<Rightarrow> sessionIndexEntry option" where
  "sessionIndexEntryOf item =
    (case (field ''token'' item, field ''expiresAt'' item) of
       (Some (JStr token), Some (JNum expiresAt)) \<Rightarrow>
         Some \<lparr>si_token = token, si_expiresAt = expiresAt\<rparr>
     | _ \<Rightarrow> None)"

definition entriesOf :: "string option \<Rightarrow> sessionIndexEntry list" where
  "entriesOf raw =
    (case jsonParse (case raw of None \<Rightarrow> ''[]'' | Some s \<Rightarrow> s) of
       Some (JArr items) \<Rightarrow> List.map_filter sessionIndexEntryOf items
     | _ \<Rightarrow> [])"

definition entryJson :: "sessionIndexEntry \<Rightarrow> json" where
  "entryJson e = JObj [(''token'', JStr (si_token e)), (''expiresAt'', JNum (si_expiresAt e))]"

definition stringifyEntries :: "sessionIndexEntry list \<Rightarrow> string" where
  "stringifyEntries es = stringify (JArr (map entryJson es))"

text \<open>\<open>Math.ceil(x / 1000)\<close>.\<close>

definition ceilDiv1000 :: "int \<Rightarrow> int" where
  "ceilDiv1000 x = - ((- x) div 1000)"

record mergedSessionIndex =
  ms_value :: string
  ms_ttlSeconds :: int

definition mergedEntries :: "string option \<Rightarrow> string \<Rightarrow> int \<Rightarrow> sessionIndexEntry list" where
  "mergedEntries stored incoming now =
    (let written = entriesOf (Some incoming);
         writtenTokens = set (map si_token written);
         keptFromStored = filter (\<lambda>e. si_token e \<notin> writtenTokens \<and> si_expiresAt e > now) (entriesOf stored)
     in sort_key si_expiresAt (keptFromStored @ written))"

definition mergeSessionIndex :: "string option \<Rightarrow> string \<Rightarrow> int \<Rightarrow> mergedSessionIndex" where
  "mergeSessionIndex stored incoming now =
    (let merged = mergedEntries stored incoming now;
         latest = (if merged = [] then now else si_expiresAt (last merged))
     in \<lparr>ms_value = stringifyEntries merged, ms_ttlSeconds = max 0 (ceilDiv1000 (latest - now))\<rparr>)"

lemma sessionIndexEntryOf_entryJson [simp]: "sessionIndexEntryOf (entryJson e) = Some e"
  by (simp add: sessionIndexEntryOf_def entryJson_def field_def)

text \<open>What is stored is read back.\<close>

lemma entriesOf_stringify [simp]: "entriesOf (Some (stringifyEntries es)) = es"
proof -
  have "List.map_filter sessionIndexEntryOf (map entryJson es) = es"
    by (induction es) (simp_all add: List.map_filter_simps)
  then show ?thesis
    by (simp add: entriesOf_def stringifyEntries_def jsonParse_stringify del: stringify.simps)
qed

lemma entriesOf_None [simp]: "entriesOf None = []"
proof -
  have "jsonParse (stringify (JArr [])) = Some (JArr [])" by (rule jsonParse_stringify)
  then show ?thesis by (simp add: entriesOf_def List.map_filter_simps)
qed

lemma in_mergedEntries:
  "e \<in> set (mergedEntries stored incoming now) \<longleftrightarrow>
    e \<in> set (entriesOf (Some incoming)) \<or>
    (e \<in> set (entriesOf stored) \<and> si_token e \<notin> si_token ` set (entriesOf (Some incoming)) \<and> si_expiresAt e > now)"
  by (auto simp: mergedEntries_def Let_def)

lemma mergedEntries_sorted: "sorted (map si_expiresAt (mergedEntries stored incoming now))"
  by (simp add: mergedEntries_def Let_def)

lemma ceilDiv1000_bounds: "x \<le> 1000 * ceilDiv1000 x" "1000 * ceilDiv1000 x < x + 1000"
proof -
  define q where "q = (- x) div 1000"
  have "- x = 1000 * q + (- x) mod 1000" by (simp add: q_def)
  moreover have "0 \<le> (- x) mod 1000" "(- x) mod 1000 < 1000" by simp_all
  ultimately show "x \<le> 1000 * ceilDiv1000 x" "1000 * ceilDiv1000 x < x + 1000"
    unfolding ceilDiv1000_def q_def[symmetric] by linarith+
qed

text \<open>The index lives at least as long as its last session.\<close>

lemma merge_ttl_covers:
  assumes "e \<in> set (mergedEntries stored incoming now)"
  shows "si_expiresAt e \<le> now + 1000 * ms_ttlSeconds (mergeSessionIndex stored incoming now)"
proof -
  let ?m = "mergedEntries stored incoming now"
  have ne: "?m \<noteq> []" using assms by auto
  have "si_expiresAt e \<le> si_expiresAt (last ?m)"
  proof -
    obtain i where i: "i < length ?m" "?m ! i = e" using assms by (auto simp: in_set_conv_nth)
    then have "map si_expiresAt ?m ! i \<le> map si_expiresAt ?m ! (length ?m - 1)"
      using mergedEntries_sorted[of stored incoming now] by (intro sorted_nth_mono) auto
    with i ne show ?thesis by (simp add: last_conv_nth)
  qed
  also have "si_expiresAt (last ?m) - now \<le> 1000 * ceilDiv1000 (si_expiresAt (last ?m) - now)"
    by (rule ceilDiv1000_bounds)
  finally show ?thesis
    using ne by (auto simp: mergeSessionIndex_def Let_def max_def)
qed

end
