(* ===== verification/TtlKey.thy ===== *)
theory TtlKey
  imports Prelude
begin

text \<open>
  \<open>src/ttl-key.ts\<close>: the keys of the TTL store. The program's own keys carry one of a closed list of
  prefixes; better-auth may use only three shapes of key. No key is both, and two own keys are equal only
  when prefix and subject are.
\<close>

datatype own_key_prefix =
    RateLimitMagicLinkIp | RateLimitMagicLinkEmail | RateLimitCanaryIp | RateLimitMfaChallengeIp
  | RateLimitMfaChallengeStatusIp | RateLimitMfaAttempt | InvitationRate | MfaDisableAttempts
  | MfaLoginChallengeAttempts | MfaLoginChallenge | Health

fun prefixString :: "own_key_prefix \<Rightarrow> string" where
  "prefixString RateLimitMagicLinkIp = ''rate-limit:magic-link:ip''"
| "prefixString RateLimitMagicLinkEmail = ''rate-limit:magic-link:email''"
| "prefixString RateLimitCanaryIp = ''rate-limit:canary:ip''"
| "prefixString RateLimitMfaChallengeIp = ''rate-limit:mfa-challenge:ip''"
| "prefixString RateLimitMfaChallengeStatusIp = ''rate-limit:mfa-challenge-status:ip''"
| "prefixString RateLimitMfaAttempt = ''rate-limit:mfa-attempt''"
| "prefixString InvitationRate = ''invitation_rate''"
| "prefixString MfaDisableAttempts = ''mfa:disable-attempts''"
| "prefixString MfaLoginChallengeAttempts = ''mfa:login-challenge-attempts''"
| "prefixString MfaLoginChallenge = ''mfa:login-challenge''"
| "prefixString Health = ''health''"

definition ownKey :: "own_key_prefix \<Rightarrow> string \<Rightarrow> string" where
  "ownKey prefix subject = prefixString prefix @ '':'' @ subject"

definition HEALTH_PING_KEY :: string where
  "HEALTH_PING_KEY = ownKey Health ''ping''"

definition SESSION_INDEX_PREFIX :: string where
  "SESSION_INDEX_PREFIX = ''active-sessions-''"

definition VERIFICATION_PREFIX :: string where
  "VERIFICATION_PREFIX = ''verification:''"

definition isAlnum :: "char \<Rightarrow> bool" where
  "isAlnum c =
    (let n = of_char c :: nat
     in (48 \<le> n \<and> n \<le> 57) \<or> (65 \<le> n \<and> n \<le> 90) \<or> (97 \<le> n \<and> n \<le> 122))"

definition isSessionToken :: "string \<Rightarrow> bool" where
  "isSessionToken s \<longleftrightarrow> length s = 32 \<and> list_all isAlnum s"

definition hasSubjectAfter :: "string \<Rightarrow> string \<Rightarrow> bool" where
  "hasSubjectAfter key prefix \<longleftrightarrow> startsWith key prefix \<and> length key > length prefix"

definition betterAuthKey :: "string \<Rightarrow> string option" where
  "betterAuthKey key =
    (if isSessionToken key \<or> hasSubjectAfter key SESSION_INDEX_PREFIX \<or> hasSubjectAfter key VERIFICATION_PREFIX
     then Some key else None)"

definition isSessionIndexKey :: "string \<Rightarrow> bool" where
  "isSessionIndexKey key \<longleftrightarrow> startsWith key SESSION_INDEX_PREFIX"

lemma colon_in_ownKey: "CHR '':'' \<in> set (ownKey p s)"
  by (simp add: ownKey_def)

lemma isAlnum_no_colon: "list_all isAlnum s \<Longrightarrow> CHR '':'' \<notin> set s"
  by (auto simp: list_all_iff isAlnum_def)

lemma ownKey_not_session_token: "\<not> isSessionToken (ownKey p s)"
  using colon_in_ownKey[of p s] isAlnum_no_colon by (auto simp: isSessionToken_def)

lemma ownKey_no_foreign_prefix:
  "\<not> startsWith (ownKey p s) SESSION_INDEX_PREFIX" "\<not> startsWith (ownKey p s) VERIFICATION_PREFIX"
  by (cases p; simp add: ownKey_def startsWith_def SESSION_INDEX_PREFIX_def VERIFICATION_PREFIX_def)+

text \<open>No key of better-auth is one of the program's own.\<close>

lemma betterAuthKey_not_own: "betterAuthKey k = Some k' \<Longrightarrow> k' \<noteq> ownKey p s"
  using ownKey_not_session_token ownKey_no_foreign_prefix
  by (auto simp: betterAuthKey_def hasSubjectAfter_def split: if_splits)

lemma ownKey_inj: "ownKey p s = ownKey q t \<Longrightarrow> p = q \<and> s = t"
  by (cases p; cases q; simp add: ownKey_def)

end
