(* ===== verification/KvStore.thy ===== *)
theory KvStore
  imports World SessionIndex TtlKey
begin

text \<open>
  \<open>src/kv-store.do.ts\<close>, \<open>src/kv-store.memory.ts\<close> and \<open>src/ttl-store.ts\<close>: the two key-value stores behind the
  TTL store. In production every key is a Durable Object of its own, with an entry and an alarm that
  removes it; in development all keys live in one \<open>Map\<close>. The locale \<open>ttl_storage\<close> is the interface
  \<open>TtlStorage\<close> with the laws its clients rely on; both stores are interpretations.

  A method that throws answers \<open>None\<close> and leaves the store as it was.
\<close>

section \<open>Counters\<close>

text \<open>
  \<open>Number(value)\<close> of what \<open>String(count)\<close> wrote: blanks around a natural number are ignored and the
  empty string is zero; the notations for other numbers are not modelled and count as not a number.
\<close>

definition toNumber :: "string \<Rightarrow> nat option" where
  "toNumber s = (if trim s = [] then Some 0 else parseNat (trim s))"

lemma trim_digits: "list_all isDigit s \<Longrightarrow> trim s = s"
proof -
  assume d: "list_all isDigit s"
  have "\<not> isSpace c" if "c \<in> set s" for c
    using d that by (auto simp: list_all_iff isDigit_def isSpace_def)
  then have "dropWhile isSpace s = s" "dropWhile isSpace (rev s) = rev s"
    by (metis dropWhile_eq_self_iff list.set_sel(1)) (metis \<open>\<And>c. c \<in> set s \<Longrightarrow> \<not> isSpace c\<close> dropWhile_eq_self_iff list.set_sel(1) set_rev)
  then show ?thesis by (simp add: trim_def)
qed

lemma toNumber_showNat [simp]: "toNumber (showNat n) = Some n"
  using showNat_digits[of n] by (simp add: toNumber_def trim_digits)

lemma toNumber_zero: "toNumber ''0'' = Some 0"
  by (simp add: toNumber_def trim_def isSpace_def parseNat_def isDigit_def readDigits_def digitValue_def)

section \<open>One Durable Object\<close>

definition emptyObject :: kv_object where
  "emptyObject = \<lparr>ob_entry = None, ob_alarm = None\<rparr>"

definition isLive :: "millis \<Rightarrow> entry \<Rightarrow> bool" where
  "isLive now e \<longleftrightarrow> (case en_expiresAt e of None \<Rightarrow> True | Some t \<Rightarrow> t > now)"

definition doLive :: "millis \<Rightarrow> kv_object \<Rightarrow> entry option" where
  "doLive now ob = (case ob_entry ob of
     None \<Rightarrow> None
   | Some e \<Rightarrow> (if \<not> isLive now e then None else Some e))"

definition doWrite :: "string \<Rightarrow> millis option \<Rightarrow> kv_object \<Rightarrow> kv_object" where
  "doWrite value expiresAt ob =
     ob\<lparr>ob_entry := Some \<lparr>en_value = value, en_expiresAt = expiresAt\<rparr>, ob_alarm := expiresAt\<rparr>"

definition doGet :: "millis \<Rightarrow> kv_object \<Rightarrow> string option" where
  "doGet now ob = map_option en_value (doLive now ob)"

definition doSet :: "millis \<Rightarrow> string \<Rightarrow> int option \<Rightarrow> kv_object \<Rightarrow> kv_object" where
  "doSet now value ttlSec = doWrite value (map_option (\<lambda>s. now + s * 1000) ttlSec)"

definition doDelete :: "kv_object \<Rightarrow> kv_object" where
  "doDelete ob = emptyObject"

definition doGetAndDelete :: "millis \<Rightarrow> kv_object \<Rightarrow> string option \<times> kv_object" where
  "doGetAndDelete now ob =
     (let value = doGet now ob in (value, if value \<noteq> None then doDelete ob else ob))"

definition doMergeSessionIndex :: "millis \<Rightarrow> string \<Rightarrow> kv_object \<Rightarrow> kv_object" where
  "doMergeSessionIndex now value ob =
     (let merged = mergeSessionIndex (doGet now ob) value now
      in doWrite (ms_value merged) (Some (now + ms_ttlSeconds merged * 1000)) ob)"

definition doIncrementWindow :: "millis \<Rightarrow> int \<Rightarrow> kv_object \<Rightarrow> (nat \<times> kv_object) option" where
  "doIncrementWindow now windowSec ob =
     (case toNumber (case doLive now ob of None \<Rightarrow> ''0'' | Some e \<Rightarrow> en_value e) of
        None \<Rightarrow> None
      | Some n \<Rightarrow> (let count = n + 1
                  in Some (count, doWrite (showNat count) (Some (now + windowSec * 1000)) ob)))"

definition doAlarm :: "millis \<Rightarrow> kv_object \<Rightarrow> kv_object" where
  "doAlarm now ob =
     (let fired = ob\<lparr>ob_alarm := None\<rparr>
      in case doLive now ob of
           None \<Rightarrow> doDelete fired
         | Some e \<Rightarrow> (case en_expiresAt e of None \<Rightarrow> fired | Some t \<Rightarrow> fired\<lparr>ob_alarm := Some t\<rparr>))"

section \<open>The namespace of Durable Objects\<close>

type_synonym kv = "(string \<times> kv_object) list"

definition objectOf :: "kv \<Rightarrow> string \<Rightarrow> kv_object" where
  "objectOf kv key = (case map_of kv key of None \<Rightarrow> emptyObject | Some ob \<Rightarrow> ob)"

definition putObject :: "string \<Rightarrow> kv_object \<Rightarrow> kv \<Rightarrow> kv" where
  "putObject key ob kv = AList.update key ob kv"

lemma objectOf_putObject [simp]: "objectOf (putObject k ob kv) k' = (if k' = k then ob else objectOf kv k')"
  by (simp add: objectOf_def putObject_def update_conv')

text \<open>A method of the TTL store's backend: an answer and the store it leaves, or a thrown error.\<close>

type_synonym ('s, 'a) kvop = "millis \<Rightarrow> 's \<Rightarrow> ('a \<times> 's) option"

definition kvGet :: "string \<Rightarrow> (kv, string option) kvop" where
  "kvGet key = (\<lambda>now kv. Some (doGet now (objectOf kv key), kv))"

definition kvSet :: "string \<Rightarrow> string \<Rightarrow> int option \<Rightarrow> (kv, unit) kvop" where
  "kvSet key value ttl = (\<lambda>now kv. Some ((), putObject key (doSet now value ttl (objectOf kv key)) kv))"

definition kvDelete :: "string \<Rightarrow> (kv, unit) kvop" where
  "kvDelete key = (\<lambda>now kv. Some ((), putObject key (doDelete (objectOf kv key)) kv))"

definition kvGetAndDelete :: "string \<Rightarrow> (kv, string option) kvop" where
  "kvGetAndDelete key = (\<lambda>now kv.
     let (value, ob) = doGetAndDelete now (objectOf kv key) in Some (value, putObject key ob kv))"

definition kvMergeSessionIndex :: "string \<Rightarrow> string \<Rightarrow> (kv, unit) kvop" where
  "kvMergeSessionIndex key value = (\<lambda>now kv.
     Some ((), putObject key (doMergeSessionIndex now value (objectOf kv key)) kv))"

text \<open>\<open>toRateWindowResult\<close>: a count below one breaks the contract.\<close>

definition toRateWindowResult :: "nat \<Rightarrow> nat option" where
  "toRateWindowResult count = (if count < 1 then None else Some count)"

definition kvIncrementRateWindow :: "string \<Rightarrow> int \<Rightarrow> (kv, nat) kvop" where
  "kvIncrementRateWindow key windowSec = (\<lambda>now kv.
     case doIncrementWindow now windowSec (objectOf kv key) of
       None \<Rightarrow> None
     | Some (count, ob) \<Rightarrow> map_option (\<lambda>c. (c, putObject key ob kv)) (toRateWindowResult count))"

definition kvPing :: "(kv, unit) kvop" where
  "kvPing = (\<lambda>now kv. Some ((), kv))"

definition kvAlarm :: "string \<Rightarrow> millis \<Rightarrow> kv \<Rightarrow> kv" where
  "kvAlarm key now kv = putObject key (doAlarm now (objectOf kv key)) kv"

section \<open>The store in memory\<close>

type_synonym mem = "(string \<times> entry) list"

definition memPrune :: "millis \<Rightarrow> string \<Rightarrow> mem \<Rightarrow> mem" where
  "memPrune now key m = (case map_of m key of
     None \<Rightarrow> m
   | Some e \<Rightarrow> (if isLive now e then m else AList.delete key m))"

definition memLive :: "millis \<Rightarrow> string \<Rightarrow> mem \<Rightarrow> entry option \<times> mem" where
  "memLive now key m = (case map_of m key of
     None \<Rightarrow> (None, m)
   | Some e \<Rightarrow> (if \<not> isLive now e then (None, AList.delete key m) else (Some e, m)))"

definition memGet :: "string \<Rightarrow> (mem, string option) kvop" where
  "memGet key = (\<lambda>now m. let (e, m') = memLive now key m in Some (map_option en_value e, m'))"

definition memSet :: "string \<Rightarrow> string \<Rightarrow> int option \<Rightarrow> (mem, unit) kvop" where
  "memSet key value ttlSec = (\<lambda>now m. Some ((), AList.update key
     \<lparr>en_value = value, en_expiresAt = map_option (\<lambda>s. now + s * 1000) ttlSec\<rparr> m))"

definition memDelete :: "string \<Rightarrow> (mem, unit) kvop" where
  "memDelete key = (\<lambda>now m. Some ((), AList.delete key m))"

definition memGetAndDelete :: "string \<Rightarrow> (mem, string option) kvop" where
  "memGetAndDelete key = (\<lambda>now m.
     let (e, m') = memLive now key m in Some (map_option en_value e, AList.delete key m'))"

definition memMergeSessionIndex :: "string \<Rightarrow> string \<Rightarrow> (mem, unit) kvop" where
  "memMergeSessionIndex key value = (\<lambda>now m.
     let (e, m') = memLive now key m;
         merged = mergeSessionIndex (map_option en_value e) value now
     in memSet key (ms_value merged) (Some (ms_ttlSeconds merged)) now m')"

definition memIncrementRateWindow :: "string \<Rightarrow> int \<Rightarrow> (mem, nat) kvop" where
  "memIncrementRateWindow key windowSec = (\<lambda>now m.
     let (e, m') = memLive now key m
     in case toNumber (case e of None \<Rightarrow> ''0'' | Some x \<Rightarrow> en_value x) of
          None \<Rightarrow> None
        | Some n \<Rightarrow>
            (case memSet key (showNat (n + 1)) (Some windowSec) now m' of
               None \<Rightarrow> None
             | Some (_, m'') \<Rightarrow> map_option (\<lambda>c. (c, m'')) (toRateWindowResult (n + 1))))"

definition memKeys :: "string \<Rightarrow> millis \<Rightarrow> mem \<Rightarrow> string list" where
  "memKeys prefix now m =
     filter (\<lambda>k. startsWith k prefix \<and> fst (memLive now k m) \<noteq> None) (map fst m)"

definition memTtl :: "string \<Rightarrow> millis \<Rightarrow> mem \<Rightarrow> int" where
  "memTtl key now m = (case fst (memLive now key m) of
     None \<Rightarrow> -2
   | Some e \<Rightarrow> (case en_expiresAt e of None \<Rightarrow> -1 | Some t \<Rightarrow> ceilDiv1000 (t - now)))"

section \<open>The contract\<close>

text \<open>
  \<open>live s k t\<close>: the entry a read of \<open>k\<close> at time \<open>t\<close> finds, if nothing is written in between.
  The laws speak of every later time \<open>t\<close>, because what was written must also expire on time.
\<close>

definition written :: "millis \<Rightarrow> string \<Rightarrow> int option \<Rightarrow> millis \<Rightarrow> entry option" where
  "written now value ttl t =
    (let e = \<lparr>en_value = value, en_expiresAt = map_option (\<lambda>s. now + s * 1000) ttl\<rparr>
     in if isLive t e then Some e else None)"

locale ttl_storage =
  fixes live :: "'s \<Rightarrow> string \<Rightarrow> millis \<Rightarrow> entry option"
    and get :: "string \<Rightarrow> ('s, string option) kvop"
    and set' :: "string \<Rightarrow> string \<Rightarrow> int option \<Rightarrow> ('s, unit) kvop"
    and delete :: "string \<Rightarrow> ('s, unit) kvop"
    and getAndDelete :: "string \<Rightarrow> ('s, string option) kvop"
    and increment :: "string \<Rightarrow> int \<Rightarrow> ('s, nat) kvop"
    and merge :: "string \<Rightarrow> string \<Rightarrow> ('s, unit) kvop"
  assumes live_entry: "live s k t = Some e \<Longrightarrow> isLive t e"
    and live_earlier: "live s k t' = Some e \<Longrightarrow> t \<le> t' \<Longrightarrow> live s k t = Some e"
    and live_later: "live s k t = Some e \<Longrightarrow> isLive t' e \<Longrightarrow> live s k t' = Some e"
    and get_law: "get k now s = Some (v, s') \<Longrightarrow>
      v = map_option en_value (live s k now) \<and> (\<forall>k' t. now \<le> t \<longrightarrow> live s' k' t = live s k' t)"
    and get_returns: "\<exists>r. get k now s = Some r"
    and set_law: "set' k value ttl now s = Some (u, s') \<Longrightarrow> now \<le> t \<Longrightarrow>
      live s' k' t = (if k' = k then written now value ttl t else live s k' t)"
    and delete_law: "delete k now s = Some (u, s') \<Longrightarrow> now \<le> t \<Longrightarrow>
      live s' k' t = (if k' = k then None else live s k' t)"
    and getAndDelete_law: "getAndDelete k now s = Some (v, s') \<Longrightarrow>
      v = map_option en_value (live s k now) \<and>
      (\<forall>k' t. now \<le> t \<longrightarrow> live s' k' t = (if k' = k then None else live s k' t))"
    and getAndDelete_returns: "\<exists>r. getAndDelete k now s = Some r"
    and increment_law: "increment k w now s = Some (n, s') \<Longrightarrow>
      (\<exists>n0. toNumber (case live s k now of None \<Rightarrow> ''0'' | Some e \<Rightarrow> en_value e) = Some n0 \<and> n = Suc n0) \<and>
      (\<forall>k' t. now \<le> t \<longrightarrow>
        live s' k' t = (if k' = k then written now (showNat n) (Some w) t else live s k' t))"
    and merge_law: "merge k value now s = Some (u, s') \<Longrightarrow> now \<le> t \<Longrightarrow>
      live s' k' t =
        (if k' = k
         then (let m = mergeSessionIndex (map_option en_value (live s k now)) value now
               in written now (ms_value m) (Some (ms_ttlSeconds m)) t)
         else live s k' t)"
begin

text \<open>A value is handed out by \<open>getAndDelete\<close> at most once.\<close>

lemma taken_once:
  assumes "getAndDelete k now s = Some (v, s')" "now \<le> t" "getAndDelete k t s' = Some (v', s'')"
  shows "v' = None"
  using getAndDelete_law[OF assms(1)] getAndDelete_law[OF assms(3)] assms(2) by auto

text \<open>An expired value is never read, whatever the clock shows later.\<close>

lemma never_after_expiry:
  assumes "set' k v (Some ttl) now s = Some (u, s')" "now \<le> t" "now + ttl * 1000 \<le> t"
    "get k t s' = Some (r, s'')"
  shows "r = None"
  using set_law[OF assms(1,2), of k] get_law[OF assms(4)] assms(3)
  by (auto simp: written_def isLive_def)

lemma read_back:
  assumes "set' k v ttl now s = Some (u, s')" "now \<le> t" "\<And>d. ttl = Some d \<Longrightarrow> t < now + d * 1000"
    "get k t s' = Some (r, s'')"
  shows "r = Some v"
  using set_law[OF assms(1,2), of k] get_law[OF assms(4)] assms(3)
  by (cases ttl) (auto simp: written_def isLive_def)

text \<open>While a window has not run out, a counter only grows, by one each time.\<close>

lemma increments_count:
  assumes "increment k w now s = Some (n, s')" "now \<le> t" "t < now + w * 1000"
    "increment k w t s' = Some (n', s'')"
  shows "n' = Suc n"
proof -
  have "live s' k t = Some \<lparr>en_value = showNat n, en_expiresAt = Some (now + w * 1000)\<rparr>"
    using increment_law[OF assms(1)] assms(2,3) by (auto simp: written_def isLive_def)
  with increment_law[OF assms(4)] show ?thesis by auto
qed

lemma window_restarts:
  assumes "increment k w now s = Some (n, s')" "now \<le> t" "now + w * 1000 \<le> t"
    "increment k w t s' = Some (n', s'')"
  shows "n' = 1"
proof -
  have "live s' k t = None"
    using increment_law[OF assms(1)] assms(2,3) by (auto simp: written_def isLive_def)
  moreover have "toNumber ''0'' = Some 0"
    by (rule toNumber_zero)
  ultimately show ?thesis using increment_law[OF assms(4)] by auto
qed

end

section \<open>Both stores keep it\<close>

definition kvLive :: "kv \<Rightarrow> string \<Rightarrow> millis \<Rightarrow> entry option" where
  "kvLive kv key t = doLive t (objectOf kv key)"

definition memEntry :: "mem \<Rightarrow> string \<Rightarrow> millis \<Rightarrow> entry option" where
  "memEntry m key t = (case map_of m key of None \<Rightarrow> None | Some e \<Rightarrow> if isLive t e then Some e else None)"

lemma isLive_earlier: "isLive t' e \<Longrightarrow> t \<le> t' \<Longrightarrow> isLive t e"
  by (auto simp: isLive_def split: option.splits)

lemmas kv_defs = kvLive_def kvGet_def kvSet_def kvDelete_def kvGetAndDelete_def kvMergeSessionIndex_def
  kvIncrementRateWindow_def doLive_def doGet_def doSet_def doWrite_def doDelete_def doGetAndDelete_def
  doMergeSessionIndex_def doIncrementWindow_def emptyObject_def toRateWindowResult_def

interpretation durable: ttl_storage kvLive kvGet kvSet kvDelete kvGetAndDelete kvIncrementRateWindow
  kvMergeSessionIndex
proof unfold_locales
  fix s s' :: kv and k k' :: string and t t' now :: millis and e :: entry and v' :: "string option"
    and v :: string and ttl :: "int option" and u :: unit and w :: int and n :: nat
  show "kvLive s k t = Some e \<Longrightarrow> isLive t e"
    by (auto simp: kvLive_def doLive_def split: option.splits if_splits)
  show "kvLive s k t' = Some e \<Longrightarrow> t \<le> t' \<Longrightarrow> kvLive s k t = Some e"
    by (auto simp: kvLive_def doLive_def split: option.splits if_splits intro: isLive_earlier)
  show "kvLive s k t = Some e \<Longrightarrow> isLive t' e \<Longrightarrow> kvLive s k t' = Some e"
    by (auto simp: kvLive_def doLive_def split: option.splits if_splits)
  show "kvGet k now s = Some (v', s') \<Longrightarrow>
      v' = map_option en_value (kvLive s k now) \<and> (\<forall>k' t. now \<le> t \<longrightarrow> kvLive s' k' t = kvLive s k' t)"
    by (auto simp: kvGet_def kvLive_def doGet_def)
  show "\<exists>r. kvGet k now s = Some r" by (simp add: kvGet_def)
  show "kvSet k v ttl now s = Some (u, s') \<Longrightarrow> now \<le> t \<Longrightarrow>
      kvLive s' k' t = (if k' = k then written now v ttl t else kvLive s k' t)"
    by (auto simp: kvSet_def kvLive_def doSet_def doWrite_def doLive_def written_def Let_def)
  show "kvDelete k now s = Some (u, s') \<Longrightarrow> now \<le> t \<Longrightarrow>
      kvLive s' k' t = (if k' = k then None else kvLive s k' t)"
    by (auto simp: kvDelete_def kvLive_def doDelete_def emptyObject_def doLive_def)
  show "kvGetAndDelete k now s = Some (v', s') \<Longrightarrow> v' = map_option en_value (kvLive s k now) \<and>
      (\<forall>k' t. now \<le> t \<longrightarrow> kvLive s' k' t = (if k' = k then None else kvLive s k' t))"
    by (auto simp: kv_defs Let_def split: option.splits if_splits intro: isLive_earlier)
  show "\<exists>r. kvGetAndDelete k now s = Some r" by (simp add: kvGetAndDelete_def split: prod.splits)
  show "kvIncrementRateWindow k w now s = Some (n, s') \<Longrightarrow>
      (\<exists>m. toNumber (case kvLive s k now of None \<Rightarrow> ''0'' | Some e \<Rightarrow> en_value e) = Some m \<and> n = Suc m) \<and>
      (\<forall>k' t. now \<le> t \<longrightarrow>
        kvLive s' k' t = (if k' = k then written now (showNat n) (Some w) t else kvLive s k' t))"
    by (auto simp: kvIncrementRateWindow_def doIncrementWindow_def toRateWindowResult_def kvLive_def
        written_def doWrite_def doLive_def[of t for t] Let_def split: option.splits if_splits)
  show "kvMergeSessionIndex k v now s = Some (u, s') \<Longrightarrow> now \<le> t \<Longrightarrow>
      kvLive s' k' t =
        (if k' = k
         then (let m = mergeSessionIndex (map_option en_value (kvLive s k now)) v now
               in written now (ms_value m) (Some (ms_ttlSeconds m)) t)
         else kvLive s k' t)"
    by (auto simp: kvMergeSessionIndex_def doMergeSessionIndex_def doGet_def kvLive_def written_def
        doWrite_def Let_def doLive_def[of t])
qed

lemma memEntry_live:
  "memLive now k m = (memEntry m k now, memPrune now k m)"
  by (auto simp: memLive_def memEntry_def memPrune_def split: option.splits)

lemma memEntry_prune: "now \<le> t \<Longrightarrow> memEntry (memPrune now k m) k' t = memEntry m k' t"
  by (auto simp: memEntry_def memPrune_def delete_conv' split: option.splits intro: isLive_earlier)

lemma memEntry_update:
  "memEntry (AList.update k e m) k' t = (if k' = k then if isLive t e then Some e else None else memEntry m k' t)"
  by (simp add: memEntry_def update_conv')

lemma memEntry_delete: "memEntry (AList.delete k m) k' t = (if k' = k then None else memEntry m k' t)"
  by (simp add: memEntry_def delete_conv')

interpretation memory: ttl_storage memEntry memGet memSet memDelete memGetAndDelete memIncrementRateWindow
  memMergeSessionIndex
proof unfold_locales
  fix s s' :: mem and k k' :: string and t t' now :: millis and e :: entry and v' :: "string option"
    and v :: string and ttl :: "int option" and u :: unit and w :: int and n :: nat
  show "memEntry s k t = Some e \<Longrightarrow> isLive t e"
    by (auto simp: memEntry_def split: option.splits if_splits)
  show "memEntry s k t' = Some e \<Longrightarrow> t \<le> t' \<Longrightarrow> memEntry s k t = Some e"
    by (auto simp: memEntry_def split: option.splits if_splits intro: isLive_earlier)
  show "memEntry s k t = Some e \<Longrightarrow> isLive t' e \<Longrightarrow> memEntry s k t' = Some e"
    by (auto simp: memEntry_def split: option.splits if_splits)
  show "memGet k now s = Some (v', s') \<Longrightarrow>
      v' = map_option en_value (memEntry s k now) \<and> (\<forall>k' t. now \<le> t \<longrightarrow> memEntry s' k' t = memEntry s k' t)"
    by (auto simp: memGet_def memEntry_live memEntry_prune)
  show "\<exists>r. memGet k now s = Some r" by (simp add: memGet_def memEntry_live)
  show "memSet k v ttl now s = Some (u, s') \<Longrightarrow> now \<le> t \<Longrightarrow>
      memEntry s' k' t = (if k' = k then written now v ttl t else memEntry s k' t)"
    by (auto simp: memSet_def memEntry_update written_def Let_def)
  show "memDelete k now s = Some (u, s') \<Longrightarrow> now \<le> t \<Longrightarrow>
      memEntry s' k' t = (if k' = k then None else memEntry s k' t)"
    by (auto simp: memDelete_def memEntry_delete)
  show "memGetAndDelete k now s = Some (v', s') \<Longrightarrow> v' = map_option en_value (memEntry s k now) \<and>
      (\<forall>k' t. now \<le> t \<longrightarrow> memEntry s' k' t = (if k' = k then None else memEntry s k' t))"
    by (auto simp: memGetAndDelete_def memEntry_live memEntry_delete memEntry_prune)
  show "\<exists>r. memGetAndDelete k now s = Some r" by (simp add: memGetAndDelete_def memEntry_live)
  show "memIncrementRateWindow k w now s = Some (n, s') \<Longrightarrow>
      (\<exists>m. toNumber (case memEntry s k now of None \<Rightarrow> ''0'' | Some e \<Rightarrow> en_value e) = Some m \<and> n = Suc m) \<and>
      (\<forall>k' t. now \<le> t \<longrightarrow>
        memEntry s' k' t = (if k' = k then written now (showNat n) (Some w) t else memEntry s k' t))"
    by (auto simp: memIncrementRateWindow_def memEntry_live memSet_def memEntry_update memEntry_prune
        toRateWindowResult_def written_def Let_def split: option.splits if_splits)
  show "memMergeSessionIndex k v now s = Some (u, s') \<Longrightarrow> now \<le> t \<Longrightarrow>
      memEntry s' k' t =
        (if k' = k
         then (let m = mergeSessionIndex (map_option en_value (memEntry s k now)) v now
               in written now (ms_value m) (Some (ms_ttlSeconds m)) t)
         else memEntry s k' t)"
    by (auto simp: memMergeSessionIndex_def memEntry_live memSet_def memEntry_update memEntry_prune
        written_def Let_def)
qed

text \<open>The alarm is set exactly when the entry expires, and firing it loses nothing that is live.\<close>

definition alarmSet :: "kv_object \<Rightarrow> bool" where
  "alarmSet ob \<longleftrightarrow> (case ob_entry ob of None \<Rightarrow> ob_alarm ob = None | Some e \<Rightarrow> ob_alarm ob = en_expiresAt e)"

lemma doAlarm_live:
  assumes "now \<le> t" shows "doLive t (doAlarm now ob) = doLive t ob"
  using assms
  by (auto simp: doAlarm_def doLive_def doDelete_def emptyObject_def Let_def split: option.splits
      intro: isLive_earlier)

lemma doAlarm_frees: "doLive now ob = None \<Longrightarrow> doAlarm now ob = emptyObject"
  by (simp add: doAlarm_def doDelete_def Let_def)

lemma alarmSet_ops:
  "alarmSet emptyObject" "alarmSet (doWrite v x ob)" "alarmSet (doSet now v ttl ob)" "alarmSet (doDelete ob)"
  "alarmSet ob \<Longrightarrow> alarmSet (snd (doGetAndDelete now ob))" "alarmSet (doMergeSessionIndex now v ob)"
  "doIncrementWindow now w ob = Some (n, ob') \<Longrightarrow> alarmSet ob'"
  "alarmSet (doAlarm now ob)"
  by (auto simp: alarmSet_def kv_defs Let_def doAlarm_def split: option.splits)

end
