(* ===== verification/TtlStore.thy ===== *)
theory TtlStore
  imports KvStore
begin

text \<open>
  \<open>src/ttl-store-service.ts\<close> and \<open>src/ttl-store-better-auth.ts\<close>: the service the program uses, over the
  Durable Objects of the world, and the adapter that lets better-auth use the same store. A read is
  retried three times; a write is attempted once, because a lost answer does not tell whether it was
  applied. (The pauses between the attempts do not advance the clock of the model.)
\<close>

definition tryTtlStore :: "(kv, 'a) kvop \<Rightarrow> ('a, 'x) eff" where
  "tryTtlStore kvop = (\<lambda>w.
     let w' = w\<lparr>w_kvCalls := Suc (w_kvCalls w)\<rparr>
     in case w_kvFaults w (w_kvCalls w) of
          Lost \<Rightarrow> (Inl (Fail TtlStoreError), w')
        | fault \<Rightarrow>
            (case kvop (w_clock w) (w_kv w) of
               None \<Rightarrow> (Inl (Fail TtlStoreError), w')
             | Some (a, kv) \<Rightarrow>
                 (if fault = NoFault then (Inr a, w'\<lparr>w_kv := kv\<rparr>)
                  else (Inl (Fail TtlStoreError), w'\<lparr>w_kv := kv\<rparr>))))"

fun retryTimes :: "nat \<Rightarrow> ('a, 'x) eff \<Rightarrow> ('a, 'x) eff" where
  "retryTimes 0 m = m"
| "retryTimes (Suc n) m = catchIf (\<lambda>e. e = TtlStoreError) (\<lambda>_. retryTimes n m) m"

definition attemptOnce :: "(kv, 'a) kvop \<Rightarrow> ('a, 'x) eff" where
  "attemptOnce kvop = tryTtlStore kvop"

definition readWithRetry :: "(kv, 'a) kvop \<Rightarrow> ('a, 'x) eff" where
  "readWithRetry kvop = retryTimes 3 (attemptOnce kvop)"

definition ttlGet :: "string \<Rightarrow> (string option, 'x) eff" where
  "ttlGet key = readWithRetry (kvGet key)"

definition ttlSet :: "string \<Rightarrow> string \<Rightarrow> int option \<Rightarrow> (unit, 'x) eff" where
  "ttlSet key value ttl = attemptOnce (kvSet key value ttl)"

definition ttlDelete :: "string \<Rightarrow> (unit, 'x) eff" where
  "ttlDelete key = attemptOnce (kvDelete key)"

definition ttlGetAndDelete :: "string \<Rightarrow> (string option, 'x) eff" where
  "ttlGetAndDelete key = attemptOnce (kvGetAndDelete key)"

definition ttlMergeSessionIndex :: "string \<Rightarrow> string \<Rightarrow> (unit, 'x) eff" where
  "ttlMergeSessionIndex key value = attemptOnce (kvMergeSessionIndex key value)"

definition ttlIncrementRateWindow :: "string \<Rightarrow> int \<Rightarrow> (nat, 'x) eff" where
  "ttlIncrementRateWindow key windowSec = attemptOnce (kvIncrementRateWindow key windowSec)"

definition ttlPing :: "(unit, 'x) eff" where
  "ttlPing = attemptOnce kvPing"

section \<open>better-auth's view of the store\<close>

definition unlessUnknownKey :: "string \<Rightarrow> 'a \<Rightarrow> (string \<Rightarrow> ('a, 'x) eff) \<Rightarrow> ('a, 'x) eff" where
  "unlessUnknownKey key absent use =
     (case betterAuthKey key of None \<Rightarrow> succeed absent | Some parsed \<Rightarrow> use parsed)"

definition storageGet :: "string \<Rightarrow> (string option, 'x) eff" where
  "storageGet key = unlessUnknownKey key None ttlGet"

definition storageGetAndDelete :: "string \<Rightarrow> (string option, 'x) eff" where
  "storageGetAndDelete key = unlessUnknownKey key None ttlGetAndDelete"

definition storageDelete :: "string \<Rightarrow> (unit, 'x) eff" where
  "storageDelete key = unlessUnknownKey key () ttlDelete"

definition storageIncrement :: "(nat, 'x) eff" where
  "storageIncrement = dieWith (ThrownError ''increment is not written'')"

definition storageSet :: "string \<Rightarrow> string \<Rightarrow> int option \<Rightarrow> (unit, 'x) eff" where
  "storageSet key value ttl =
     (case betterAuthKey key of
        None \<Rightarrow> dieWith (ThrownError ''unknown key'')
      | Some parsed \<Rightarrow>
          (if isSessionIndexKey parsed then ttlMergeSessionIndex parsed value
           else ttlSet parsed value ttl))"

section \<open>What they do\<close>

lemma tryTtlStore_runs:
  "tryTtlStore kvop w = (Inr a, w') \<longleftrightarrow>
    w_kvFaults w (w_kvCalls w) = NoFault \<and>
    (\<exists>kv. kvop (w_clock w) (w_kv w) = Some (a, kv) \<and>
      w' = w\<lparr>w_kvCalls := Suc (w_kvCalls w), w_kv := kv\<rparr>)"
  by (auto simp: tryTtlStore_def Let_def split: fault.splits option.splits)

lemma tryTtlStore_fails: "tryTtlStore kvop w = (Inl r, w') \<Longrightarrow> r = Fail TtlStoreError"
  by (auto simp: tryTtlStore_def Let_def split: fault.splits option.splits if_splits)

lemma throws_tryTtlStore [throws_intros]: "TtlStoreError \<in> E \<Longrightarrow> throws E (tryTtlStore kvop)"
  by (auto simp: throws_def dest: tryTtlStore_fails)

lemma throws_retryTimes [throws_intros]: "throws E m \<Longrightarrow> throws E (retryTimes n m)"
  by (induction n) (auto intro: throws_catchIf)

lemma throws_ttl [throws_intros]:
  assumes "TtlStoreError \<in> E"
  shows "throws E (ttlGet k)" "throws E (ttlSet k v t)" "throws E (ttlDelete k)"
    "throws E (ttlGetAndDelete k)" "throws E (ttlMergeSessionIndex k v)"
    "throws E (ttlIncrementRateWindow k n)" "throws E ttlPing"
  unfolding ttlGet_def ttlSet_def ttlDelete_def ttlGetAndDelete_def ttlMergeSessionIndex_def
    ttlIncrementRateWindow_def ttlPing_def attemptOnce_def readWithRetry_def
  by (intro throws_intros assms)+

lemma keeps_tryTtlStore: "(\<And>w. v (w\<lparr>w_kvCalls := Suc (w_kvCalls w)\<rparr>) = v w) \<Longrightarrow>
    (\<And>w kv. v (w\<lparr>w_kv := kv\<rparr>) = v w) \<Longrightarrow> keeps v (tryTtlStore kvop)"
  by (auto simp: keeps_def tryTtlStore_def Let_def split: fault.splits option.splits)

lemma keeps_retryTimes [keeps_intros]: "keeps v m \<Longrightarrow> keeps v (retryTimes n m)"
  by (induction n) (auto intro: keeps_intros)

lemma keeps_db_ttl [keeps_intros]:
  "keeps w_db (ttlGet k)" "keeps w_db (ttlSet k v t)" "keeps w_db (ttlDelete k)"
  "keeps w_db (ttlGetAndDelete k)" "keeps w_db (ttlMergeSessionIndex k v)"
  "keeps w_db (ttlIncrementRateWindow k n)" "keeps w_db ttlPing"
  unfolding ttlGet_def ttlSet_def ttlDelete_def ttlGetAndDelete_def ttlMergeSessionIndex_def
    ttlIncrementRateWindow_def ttlPing_def attemptOnce_def readWithRetry_def
  by (intro keeps_intros keeps_tryTtlStore; simp)+

lemmas preserves_ttl [preserves_intros] = keeps_db_ttl[THEN preserves_keeps]

text \<open>Every exit of a call leaves the store as it was, or as the method left it.\<close>

lemma tryTtlStore_kv:
  "tryTtlStore kvop w = (r, w') \<Longrightarrow>
    w_kv w' = w_kv w \<or> (\<exists>a. kvop (w_clock w) (w_kv w) = Some (a, w_kv w'))"
  by (auto simp: tryTtlStore_def Let_def split: fault.splits option.splits if_splits)

lemma tryTtlStore_rest:
  "tryTtlStore kvop w = (r, w') \<Longrightarrow> w_clock w' = w_clock w \<and> w_db w' = w_db w \<and>
    w_kvFaults w' = w_kvFaults w \<and> w_hooks w' = w_hooks w"
  by (auto simp: tryTtlStore_def Let_def split: fault.splits option.splits if_splits)

text \<open>The object behind another key is not touched.\<close>

definition touchesOnly :: "string \<Rightarrow> (kv, 'a) kvop \<Rightarrow> bool" where
  "touchesOnly key kvop \<longleftrightarrow>
    (\<forall>now kv a kv' k. kvop now kv = Some (a, kv') \<longrightarrow> k \<noteq> key \<longrightarrow> objectOf kv' k = objectOf kv k)"

lemma touchesOnly_ops:
  "touchesOnly k (kvGet k)" "touchesOnly k (kvSet k v t)" "touchesOnly k (kvDelete k)"
  "touchesOnly k (kvGetAndDelete k)" "touchesOnly k (kvMergeSessionIndex k v)"
  "touchesOnly k (kvIncrementRateWindow k n)" "touchesOnly k kvPing"
  by (auto simp: touchesOnly_def kvGet_def kvSet_def kvDelete_def kvGetAndDelete_def
      kvMergeSessionIndex_def kvIncrementRateWindow_def kvPing_def
      split: prod.splits option.splits)

lemma keeps_other_object:
  assumes "touchesOnly k kvop" "k' \<noteq> k"
  shows "keeps (\<lambda>w. objectOf (w_kv w) k') (tryTtlStore kvop)"
  using assms
  by (auto simp: keeps_def touchesOnly_def tryTtlStore_def Let_def split: fault.splits option.splits)

lemma keeps_other_object_ops:
  assumes "k' \<noteq> k"
  shows "keeps (\<lambda>w. objectOf (w_kv w) k') (ttlGet k)" "keeps (\<lambda>w. objectOf (w_kv w) k') (ttlSet k v t)"
    "keeps (\<lambda>w. objectOf (w_kv w) k') (ttlDelete k)" "keeps (\<lambda>w. objectOf (w_kv w) k') (ttlGetAndDelete k)"
    "keeps (\<lambda>w. objectOf (w_kv w) k') (ttlMergeSessionIndex k v)"
    "keeps (\<lambda>w. objectOf (w_kv w) k') (ttlIncrementRateWindow k n)"
  unfolding ttlGet_def ttlSet_def ttlDelete_def ttlGetAndDelete_def ttlMergeSessionIndex_def
    ttlIncrementRateWindow_def attemptOnce_def readWithRetry_def
  by (intro keeps_intros keeps_other_object[OF _ assms] touchesOnly_ops)+

lemma keeps_own_object:
  "keeps (\<lambda>w. objectOf (w_kv w) (ownKey p s)) (storageGet k)"
  "keeps (\<lambda>w. objectOf (w_kv w) (ownKey p s)) (storageGetAndDelete k)"
  "keeps (\<lambda>w. objectOf (w_kv w) (ownKey p s)) (storageDelete k)"
  "keeps (\<lambda>w. objectOf (w_kv w) (ownKey p s)) (storageSet k v t)"
proof -
  have ne: "betterAuthKey k = Some k' \<Longrightarrow> ownKey p s \<noteq> k'" for k'
    using betterAuthKey_not_own by metis
  show "keeps (\<lambda>w. objectOf (w_kv w) (ownKey p s)) (storageGet k)"
    "keeps (\<lambda>w. objectOf (w_kv w) (ownKey p s)) (storageGetAndDelete k)"
    "keeps (\<lambda>w. objectOf (w_kv w) (ownKey p s)) (storageDelete k)"
    "keeps (\<lambda>w. objectOf (w_kv w) (ownKey p s)) (storageSet k v t)"
    unfolding storageGet_def storageGetAndDelete_def storageDelete_def storageSet_def unlessUnknownKey_def
    using ne by (auto intro!: keeps_other_object_ops keeps_succeed keeps_dieWith split: option.splits)
qed

end
