(* ===== verification/AttemptBudget.thy ===== *)
theory AttemptBudget
  imports TtlStore
begin

text \<open>
  \<open>src/attempt-budget.ts\<close>: budgets of attempts per subject and window, counted in the TTL store. When the
  counter cannot be read the budget either lets the attempt through (\<open>allow\<close>, the rate limits) or
  refuses it (\<open>deny\<close>, the budgets that protect a second factor).
\<close>

datatype whenUncountable = Allow | Deny

record attemptBudget =
  ab_keyPrefix :: own_key_prefix
  ab_windowSeconds :: int
  ab_maxAttempts :: nat
  ab_whenUncountable :: whenUncountable
  ab_component :: string

definition DEFAULT_INVITATIONS_PER_COMPANY_HOUR :: nat where
  "DEFAULT_INVITATIONS_PER_COMPANY_HOUR = 50"

text \<open>The environment variable, when it is a positive number.\<close>

definition invitationsPerCompanyHourLimit :: "string option \<Rightarrow> nat" where
  "invitationsPerCompanyHourLimit env =
     (case (case env of None \<Rightarrow> None | Some raw \<Rightarrow> toNumber raw) of
        Some n \<Rightarrow> if n > 0 then n else DEFAULT_INVITATIONS_PER_COMPANY_HOUR
      | None \<Rightarrow> DEFAULT_INVITATIONS_PER_COMPANY_HOUR)"

definition perMinuteRouteBudget :: "own_key_prefix \<Rightarrow> nat \<Rightarrow> attemptBudget" where
  "perMinuteRouteBudget keyPrefix limit =
     \<lparr>ab_keyPrefix = keyPrefix, ab_windowSeconds = 60, ab_maxAttempts = limit,
      ab_whenUncountable = Allow, ab_component = ''rate-limit''\<rparr>"

definition magicLinkPerIp :: attemptBudget where
  "magicLinkPerIp = perMinuteRouteBudget RateLimitMagicLinkIp 5"

definition magicLinkPerEmail :: attemptBudget where
  "magicLinkPerEmail = perMinuteRouteBudget RateLimitMagicLinkEmail 3"

definition canaryTokenPerIp :: attemptBudget where
  "canaryTokenPerIp = perMinuteRouteBudget RateLimitCanaryIp 10"

definition mfaChallengeVerifyPerIp :: attemptBudget where
  "mfaChallengeVerifyPerIp = perMinuteRouteBudget RateLimitMfaChallengeIp 10"

definition mfaChallengeStatePerIp :: attemptBudget where
  "mfaChallengeStatePerIp = perMinuteRouteBudget RateLimitMfaChallengeStatusIp 30"

definition mfaChangePerSession :: attemptBudget where
  "mfaChangePerSession = perMinuteRouteBudget RateLimitMfaAttempt 10"

definition invitationsPerCompanyHour :: "string option \<Rightarrow> attemptBudget" where
  "invitationsPerCompanyHour env =
     \<lparr>ab_keyPrefix = InvitationRate, ab_windowSeconds = 60 * 60,
      ab_maxAttempts = invitationsPerCompanyHourLimit env, ab_whenUncountable = Allow,
      ab_component = ''invitation-rate-limit''\<rparr>"

definition mfaDisablePerUser :: attemptBudget where
  "mfaDisablePerUser =
     \<lparr>ab_keyPrefix = MfaDisableAttempts, ab_windowSeconds = 15 * 60, ab_maxAttempts = 5,
      ab_whenUncountable = Deny, ab_component = ''mfa-disable-attempt-budget''\<rparr>"

definition mfaLoginChallenge :: attemptBudget where
  "mfaLoginChallenge =
     \<lparr>ab_keyPrefix = MfaLoginChallengeAttempts, ab_windowSeconds = 600, ab_maxAttempts = 5,
      ab_whenUncountable = Deny, ab_component = ''mfa-login-challenge''\<rparr>"

definition attemptBudgetKey :: "attemptBudget \<Rightarrow> string \<Rightarrow> string" where
  "attemptBudgetKey budget subject = ownKey (ab_keyPrefix budget) subject"

text \<open>\<open>spend\<close>: a count that cannot be had, or that breaks the contract, is reported and counts as none.\<close>

definition spend :: "attemptBudget \<Rightarrow> string \<Rightarrow> (nat, 'x) eff" where
  "spend budget subject =
     andThen
       (catchIf (\<lambda>_. True) (\<lambda>_. captureCauseAs None (ab_component budget))
          (andThen (ttlIncrementRateWindow (attemptBudgetKey budget subject) (ab_windowSeconds budget))
             (\<lambda>count. if count \<ge> 1 then succeed (Some count) else failWith TtlStoreError)))
       (\<lambda>counted. case counted of
          None \<Rightarrow> failWith AttemptBudgetUnavailable
        | Some count \<Rightarrow>
            (if count > ab_maxAttempts budget then failWith AttemptBudgetExhausted
             else succeed (ab_maxAttempts budget - count)))"

definition spendAttemptBudgetFailClosed :: "attemptBudget \<Rightarrow> string \<Rightarrow> (nat, 'x) eff" where
  "spendAttemptBudgetFailClosed budget subject = spend budget subject"

definition spendAttemptBudgetFailOpen :: "attemptBudget \<Rightarrow> string \<Rightarrow> (unit, 'x) eff" where
  "spendAttemptBudgetFailOpen budget subject =
     catchIf (\<lambda>e. e = AttemptBudgetUnavailable) (\<lambda>_. succeed ()) (mapEff (\<lambda>_. ()) (spend budget subject))"

definition spendAttemptBudgetOrRateLimited :: "attemptBudget \<Rightarrow> string \<Rightarrow> (unit, 'x) eff" where
  "spendAttemptBudgetOrRateLimited budget subject =
     catchIf (\<lambda>e. e = AttemptBudgetExhausted) (\<lambda>_. failWith RateLimited)
       (spendAttemptBudgetFailOpen budget subject)"

section \<open>What they do\<close>

lemma throws_spend [throws_intros]:
  assumes "AttemptBudgetUnavailable \<in> E" "AttemptBudgetExhausted \<in> E"
  shows "throws E (spend b s)" "throws E (spendAttemptBudgetFailClosed b s)"
proof -
  have inner: "throws {TtlStoreError} (andThen (ttlIncrementRateWindow k n)
      (\<lambda>count. if count \<ge> 1 then succeed (Some count) else failWith TtlStoreError))" for k n
    by (intro throws_intros) auto
  have "throws E (catchIf (\<lambda>_. True) (\<lambda>_. captureCauseAs None c) (andThen (ttlIncrementRateWindow k n)
      (\<lambda>count. if count \<ge> 1 then succeed (Some count) else failWith TtlStoreError)))" for k n c
    using inner by (rule throws_catchIf) (auto intro: throws_intros)
  then show "throws E (spend b s)"
    unfolding spend_def by (intro throws_intros assms)
  then show "throws E (spendAttemptBudgetFailClosed b s)"
    by (simp add: spendAttemptBudgetFailClosed_def)
qed

lemma throws_spendFailOpen [throws_intros]:
  assumes "AttemptBudgetExhausted \<in> E" shows "throws E (spendAttemptBudgetFailOpen b s)"
proof -
  have "throws {AttemptBudgetUnavailable, AttemptBudgetExhausted} (mapEff (\<lambda>_. ()) (spend b s))"
    by (intro throws_intros) auto
  then show ?thesis
    unfolding spendAttemptBudgetFailOpen_def
    by (rule throws_catchIf) (use assms in \<open>auto intro: throws_intros\<close>)
qed

lemma throws_spendOrRateLimited [throws_intros]:
  assumes "RateLimited \<in> E" shows "throws E (spendAttemptBudgetOrRateLimited b s)"
proof -
  have "throws {AttemptBudgetExhausted} (spendAttemptBudgetFailOpen b s)"
    by (intro throws_intros) auto
  then show ?thesis
    unfolding spendAttemptBudgetOrRateLimited_def
    by (rule throws_catchIf) (use assms in \<open>auto intro: throws_intros\<close>)
qed

lemma keeps_db_spend [keeps_intros]:
  "keeps w_db (spend b s)" "keeps w_db (spendAttemptBudgetFailClosed b s)"
  "keeps w_db (spendAttemptBudgetFailOpen b s)" "keeps w_db (spendAttemptBudgetOrRateLimited b s)"
  unfolding spendAttemptBudgetFailClosed_def spendAttemptBudgetFailOpen_def
    spendAttemptBudgetOrRateLimited_def spend_def
  by (intro keeps_intros)+

lemmas preserves_spend [preserves_intros] = keeps_db_spend[THEN preserves_keeps]

lemma spend_success:
  assumes "spend b s w = (Inr left, w')"
  shows "\<exists>n. kvIncrementRateWindow (attemptBudgetKey b s) (ab_windowSeconds b) (w_clock w) (w_kv w)
      = Some (n, w_kv w') \<and> n \<le> ab_maxAttempts b \<and> left = ab_maxAttempts b - n \<and> w_clock w' = w_clock w"
proof -
  from assms obtain c w1 where c: "catchIf (\<lambda>_. True) (\<lambda>_. captureCauseAs None (ab_component b))
          (andThen (ttlIncrementRateWindow (attemptBudgetKey b s) (ab_windowSeconds b))
             (\<lambda>count. if count \<ge> 1 then succeed (Some count) else failWith TtlStoreError)) w = (Inr c, w1)"
    and rest: "(case c of None \<Rightarrow> failWith AttemptBudgetUnavailable
        | Some count \<Rightarrow> (if count > ab_maxAttempts b then failWith AttemptBudgetExhausted
             else succeed (ab_maxAttempts b - count))) w1 = (Inr left, w')"
    unfolding spend_def andThen_runs by blast
  from rest obtain n where n: "c = Some n" "n \<le> ab_maxAttempts b" "left = ab_maxAttempts b - n" "w' = w1"
    by (cases c) (auto simp: run_simps split: if_splits)
  from c n(1) have "ttlIncrementRateWindow (attemptBudgetKey b s) (ab_windowSeconds b) w = (Inr n, w1)"
    by (auto simp: run_simps split: if_splits)
  with n show ?thesis
    by (auto simp: ttlIncrementRateWindow_def attemptOnce_def tryTtlStore_runs)
qed

lemma spend_kv:
  assumes "spend b s w = (r, w')"
  shows "w_clock w' = w_clock w \<and> (w_kv w' = w_kv w \<or>
    (\<exists>n. kvIncrementRateWindow (attemptBudgetKey b s) (ab_windowSeconds b) (w_clock w) (w_kv w) = Some (n, w_kv w')))"
proof -
  obtain e w1 where inc: "tryTtlStore (kvIncrementRateWindow (attemptBudgetKey b s) (ab_windowSeconds b)) w = (e, w1)"
    by fastforce
  have "w_kv w' = w_kv w1 \<and> w_clock w' = w_clock w1"
    using assms inc
    by (cases e) (auto simp: spend_def ttlIncrementRateWindow_def attemptOnce_def andThen_def catchIf_def
        captureCauseAs_def captureCause_def mapEff_def succeed_def failWith_def
        split: if_splits dest!: tryTtlStore_fails)
  then show ?thesis using tryTtlStore_kv[OF inc] tryTtlStore_rest[OF inc] by auto
qed

section \<open>A run of attempts\<close>

text \<open>
  Attempts on one subject, each after a pause: what \<open>spendMany\<close> counts is how many of them were let
  through while the counter never had a whole window without an attempt.
\<close>

definition tick :: "millis \<Rightarrow> 'x world \<Rightarrow> 'x world" where
  "tick dt w = w\<lparr>w_clock := w_clock w + dt\<rparr>"

fun spendMany :: "attemptBudget \<Rightarrow> string \<Rightarrow> millis list \<Rightarrow> 'x world \<Rightarrow> nat \<times> 'x world" where
  "spendMany b s [] w = (0, w)"
| "spendMany b s (dt # dts) w =
    (case spend b s (tick dt w) of
       (r, w1) \<Rightarrow> (case spendMany b s dts w1 of
         (k, w2) \<Rightarrow> ((case r of Inl _ \<Rightarrow> k | Inr _ \<Rightarrow> Suc k), w2)))"

definition counterOf :: "attemptBudget \<Rightarrow> string \<Rightarrow> 'x world \<Rightarrow> nat" where
  "counterOf b s w = (case kvLive (w_kv w) (attemptBudgetKey b s) (w_clock w) of
     None \<Rightarrow> 0
   | Some e \<Rightarrow> (case toNumber (en_value e) of None \<Rightarrow> 0 | Some n \<Rightarrow> n))"

text \<open>The counter holds a number, and outlives every time up to \<open>t\<close>.\<close>

definition counting :: "attemptBudget \<Rightarrow> string \<Rightarrow> nat \<Rightarrow> millis \<Rightarrow> 'x world \<Rightarrow> bool" where
  "counting b s n t w \<longleftrightarrow>
    (\<exists>x. kvLive (w_kv w) (attemptBudgetKey b s) t = Some \<lparr>en_value = showNat n, en_expiresAt = x\<rparr>)"

lemma increment_starts_counting:
  assumes "kvIncrementRateWindow (attemptBudgetKey b s) (ab_windowSeconds b) t (w_kv w) = Some (n, w_kv w')"
    and "t \<le> t'" "t' < t + ab_windowSeconds b * 1000"
  shows "counting b s n t' w'"
  using durable.increment_law[OF assms(1)] assms(2,3)
  by (auto simp: counting_def written_def isLive_def)

lemma increment_continues:
  assumes "kvIncrementRateWindow (attemptBudgetKey b s) k t (w_kv w) = Some (n, kv')"
    and "counting b s m t' w" "t \<le> t'"
  shows "n = Suc m"
proof -
  from assms(2) obtain x where
    "kvLive (w_kv w) (attemptBudgetKey b s) t' = Some \<lparr>en_value = showNat m, en_expiresAt = x\<rparr>"
    by (auto simp: counting_def)
  from durable.live_earlier[OF this assms(3)] durable.increment_law[OF assms(1)]
  show ?thesis by auto
qed

lemma increment_positive:
  "kvIncrementRateWindow k n t kv = Some (c, kv') \<Longrightarrow> 1 \<le> c"
  using durable.increment_law by fastforce

lemma spendMany_counting:
  assumes "counting b s n (w_clock w + sum_list dts) w" "\<forall>dt\<in>set dts. 0 \<le> dt"
    "sum_list dts < ab_windowSeconds b * 1000"
  shows "fst (spendMany b s dts w) \<le> ab_maxAttempts b - n"
  using assms
proof (induction dts arbitrary: w n)
  case (Cons dt dts)
  obtain r w1 where sp: "spend b s (tick dt w) = (r, w1)" by fastforce
  have nn: "0 \<le> sum_list dts" using Cons.prems(2) by (simp add: sum_list_nonneg)
  have end_: "w_clock w1 + sum_list dts = w_clock w + sum_list (dt # dts)"
    using spend_kv[OF sp] by (simp add: tick_def)
  have later: "w_clock w + dt \<le> w_clock w + sum_list (dt # dts)" using nn by simp
  have dts: "\<forall>dt\<in>set dts. 0 \<le> dt" "sum_list dts < ab_windowSeconds b * 1000"
    using Cons.prems(2,3) by auto
  consider (idle) "w_kv w1 = w_kv w"
    | (counted) c where "kvIncrementRateWindow (attemptBudgetKey b s) (ab_windowSeconds b)
        (w_clock w + dt) (w_kv w) = Some (c, w_kv w1)"
    using spend_kv[OF sp] by (auto simp: tick_def)
  then show ?case
  proof cases
    case counted
    have "counting b s c (w_clock w1 + sum_list dts) w1"
      unfolding end_ using counted later Cons.prems(3) nn Cons.prems(2)
      by (intro increment_starts_counting) auto
    moreover have c: "c = Suc n"
      using increment_continues[OF counted Cons.prems(1) later] .
    ultimately have "fst (spendMany b s dts w1) \<le> ab_maxAttempts b - Suc n"
      using Cons.IH dts by blast
    moreover have "Suc n \<le> ab_maxAttempts b" if "r = Inr left" for left
      using spend_success[OF sp[unfolded that]] counted c by (auto simp: tick_def)
    ultimately show ?thesis
      by (auto simp: sp split: prod.splits sum.splits)
  next
    case idle
    have cw1: "counting b s n (w_clock w1 + sum_list dts) w1"
      unfolding end_ using Cons.prems(1) idle by (simp add: counting_def)
    have "\<exists>c. kvIncrementRateWindow (attemptBudgetKey b s) (ab_windowSeconds b)
        (w_clock w + dt) (w_kv w) = Some (c, w_kv w1) \<and> c \<le> ab_maxAttempts b" if "r = Inr left" for left
      using spend_success[OF sp[unfolded that]] by (auto simp: tick_def)
    moreover have "c = Suc n" if "kvIncrementRateWindow (attemptBudgetKey b s) (ab_windowSeconds b)
        (w_clock w + dt) (w_kv w) = Some (c, w_kv w1)" for c
      using increment_continues[OF that Cons.prems(1) later] .
    moreover have False if inc: "kvIncrementRateWindow (attemptBudgetKey b s) (ab_windowSeconds b)
        (w_clock w + dt) (w_kv w) = Some (c, w_kv w1)" for c
    proof -
      have "counting b s c (w_clock w + dt) w1"
        using inc Cons.prems(3) nn Cons.prems(2) by (intro increment_starts_counting) auto
      moreover have "counting b s n (w_clock w + dt) w1"
        using Cons.prems(1) idle later durable.live_earlier unfolding counting_def by metis
      ultimately have "showNat c = showNat n" by (auto simp: counting_def)
      with increment_continues[OF inc Cons.prems(1) later] show False
        using showNat_inj by fastforce
    qed
    ultimately have "\<And>left. r \<noteq> Inr left" by blast
    with Cons.IH[OF cw1 dts] show ?thesis
      by (auto simp: sp split: prod.splits sum.splits)
  qed
qed simp

lemma spendMany_bounded:
  assumes "\<forall>dt\<in>set dts. 0 \<le> dt" "sum_list dts < ab_windowSeconds b * 1000"
  shows "fst (spendMany b s dts w) \<le> ab_maxAttempts b"
  using assms
proof (induction dts arbitrary: w)
  case (Cons dt dts)
  obtain r w1 where sp: "spend b s (tick dt w) = (r, w1)" by fastforce
  have nn: "0 \<le> sum_list dts" using Cons.prems(1) by (simp add: sum_list_nonneg)
  have dts: "\<forall>dt\<in>set dts. 0 \<le> dt" "sum_list dts < ab_windowSeconds b * 1000"
    using Cons.prems by auto
  have clk: "w_clock w1 = w_clock w + dt" using spend_kv[OF sp] by (simp add: tick_def)
  show ?case
  proof (cases "\<exists>c. kvIncrementRateWindow (attemptBudgetKey b s) (ab_windowSeconds b)
        (w_clock w + dt) (w_kv w) = Some (c, w_kv w1)")
    case True
    then obtain c where counted: "kvIncrementRateWindow (attemptBudgetKey b s) (ab_windowSeconds b)
        (w_clock w + dt) (w_kv w) = Some (c, w_kv w1)" by blast
    have "counting b s c (w_clock w1 + sum_list dts) w1"
      unfolding clk using counted nn dts by (intro increment_starts_counting) auto
    then have "fst (spendMany b s dts w1) \<le> ab_maxAttempts b - c"
      using dts by (rule spendMany_counting)
    moreover have "1 \<le> c" using increment_positive[OF counted] .
    moreover have "c \<le> ab_maxAttempts b" if "r = Inr left" for left
      using spend_success[OF sp[unfolded that]] counted by (auto simp: tick_def)
    ultimately show ?thesis
      by (auto simp: sp split: prod.splits sum.splits)
  next
    case False
    then have "\<And>left. r \<noteq> Inr left"
      using spend_success[of b s "tick dt w" _ w1] sp by (auto simp: tick_def)
    with Cons.IH[OF dts, of w1] show ?thesis
      by (auto simp: sp split: prod.splits sum.splits)
  qed
qed simp

text \<open>A budget that fails closed lets nothing through while its counter cannot be had.\<close>

lemma spend_lost:
  assumes "w_kvFaults w (w_kvCalls w) \<noteq> NoFault"
  shows "fst (spendAttemptBudgetFailClosed b s w) = Inl (Fail AttemptBudgetUnavailable)"
    and "fst (spendAttemptBudgetFailOpen b s w) = Inr ()"
proof -
  obtain e w1 where inc: "tryTtlStore (kvIncrementRateWindow (attemptBudgetKey b s) (ab_windowSeconds b)) w = (e, w1)"
    by fastforce
  with assms have "e = Inl (Fail TtlStoreError)"
    by (auto simp: tryTtlStore_def Let_def split: fault.splits option.splits if_splits)
  with inc show "fst (spendAttemptBudgetFailClosed b s w) = Inl (Fail AttemptBudgetUnavailable)"
    and "fst (spendAttemptBudgetFailOpen b s w) = Inr ()"
    by (auto simp: spendAttemptBudgetFailClosed_def spendAttemptBudgetFailOpen_def spend_def
        ttlIncrementRateWindow_def attemptOnce_def andThen_def catchIf_def captureCauseAs_def
        captureCause_def mapEff_def succeed_def failWith_def)
qed

end
