(* ===== verification/EmailText.thy ===== *)
theory EmailText
  imports Prelude
begin

text \<open>
  \<open>src/email/sanitize.ts\<close>: user-provided names are stripped of control, zero-width and direction characters
  before they reach an e-mail. A text is a list of code points here.
\<close>

definition SPOOFING_OR_HEADER_INJECTION_CODE_POINTS :: "(nat \<times> nat) list" where
  "SPOOFING_OR_HEADER_INJECTION_CODE_POINTS =
    [(0x00, 0x1f), (0x7f, 0x9f), (0x200b, 0x200d), (0xfeff, 0xfeff), (0x202a, 0x202e), (0x2066, 0x2069)]"

definition isInvisibleOrDirectional :: "nat \<Rightarrow> bool" where
  "isInvisibleOrDirectional cp \<longleftrightarrow>
    list_ex (\<lambda>(first, last). cp \<ge> first \<and> cp \<le> last) SPOOFING_OR_HEADER_INJECTION_CODE_POINTS"

text \<open>The white space \<open>String.prototype.trim\<close> removes.\<close>

definition isTrimmed :: "nat \<Rightarrow> bool" where
  "isTrimmed cp \<longleftrightarrow> cp \<in> {9, 10, 11, 12, 13, 32, 160, 0x1680, 0x2028, 0x2029, 0x202f, 0x205f, 0x3000, 0xfeff}
    \<or> (0x2000 \<le> cp \<and> cp \<le> 0x200a)"

definition trimCodePoints :: "nat list \<Rightarrow> nat list" where
  "trimCodePoints s = rev (dropWhile isTrimmed (rev (dropWhile isTrimmed s)))"

definition toDisplayCodePoints :: "nat list \<Rightarrow> nat list" where
  "toDisplayCodePoints s = trimCodePoints (filter (\<lambda>cp. \<not> isInvisibleOrDirectional cp) s)"

definition toDisplayText :: "string \<Rightarrow> string" where
  "toDisplayText s = map char_of (toDisplayCodePoints (map of_char s))"

lemma set_trimCodePoints: "set (trimCodePoints s) \<subseteq> set s"
  unfolding trimCodePoints_def by (metis set_dropWhileD set_rev subsetI)

lemma toDisplayCodePoints_safe:
  "cp \<in> set (toDisplayCodePoints s) \<Longrightarrow> \<not> isInvisibleOrDirectional cp"
  using set_trimCodePoints[of "filter (\<lambda>cp. \<not> isInvisibleOrDirectional cp) s"]
  by (auto simp: toDisplayCodePoints_def)

lemma dropWhile_rev_dropWhile_hd:
  "s \<noteq> [] \<Longrightarrow> \<not> P (hd s) \<Longrightarrow> rev (dropWhile P (rev s)) = [] \<or> \<not> P (hd (rev (dropWhile P (rev s))))"
proof -
  assume ne: "s \<noteq> []" and h: "\<not> P (hd s)"
  obtain c t where s: "s = c # t" using ne by (cases s) auto
  have "dropWhile P (rev s) = dropWhile P (rev t) @ [c]" if "dropWhile P (rev t) \<noteq> []"
    using that by (simp add: s dropWhile_append)
  moreover have "dropWhile P (rev s) = [c]" if "dropWhile P (rev t) = []"
    using that h by (simp add: s dropWhile_append)
  ultimately show ?thesis using h s by (cases "dropWhile P (rev t) = []") auto
qed

text \<open>Nothing is left to trim, so the text is in normal form.\<close>

lemma trimCodePoints_idem: "trimCodePoints (trimCodePoints s) = trimCodePoints s"
proof -
  define a where "a = dropWhile isTrimmed s"
  define b where "b = rev (dropWhile isTrimmed (rev a))"
  have a: "a = [] \<or> \<not> isTrimmed (hd a)"
    unfolding a_def by (metis hd_dropWhile)
  have hb: "b = [] \<or> \<not> isTrimmed (hd b)"
    using a dropWhile_rev_dropWhile_hd[of a isTrimmed] unfolding b_def by (cases "a = []") auto
  then have "dropWhile isTrimmed b = b" by (metis dropWhile_eq_self_iff)
  moreover have "dropWhile isTrimmed (rev b) = rev b"
    unfolding b_def by (simp add: dropWhile_idem)
  ultimately show ?thesis
    unfolding trimCodePoints_def a_def[symmetric] b_def[symmetric] by simp
qed

lemma toDisplayCodePoints_idem: "toDisplayCodePoints (toDisplayCodePoints s) = toDisplayCodePoints s"
proof -
  have "filter (\<lambda>cp. \<not> isInvisibleOrDirectional cp) (toDisplayCodePoints s) = toDisplayCodePoints s"
    using toDisplayCodePoints_safe by (auto simp: filter_id_conv)
  then show ?thesis
    by (simp add: toDisplayCodePoints_def[of "toDisplayCodePoints s"])
      (simp add: toDisplayCodePoints_def trimCodePoints_idem)
qed

end
