(* ===== verification/Urls.thy ===== *)
theory Urls
  imports Guards
begin

text \<open>
  \<open>src/url-allowlist.ts\<close>, \<open>redirect-hosts.ts\<close>, \<open>services.ts\<close>, \<open>sign-in-params.ts\<close>, \<open>env.ts\<close> and
  \<open>src/mfa/redirect-guard.ts\<close>: where the service is willing to send a browser. The URL parser is the
  platform's; it is a parameter \<open>parseUrl\<close> (\<open>None\<close> where \<open>new URL\<close> throws) of everything that uses it.
\<close>

record url =
  ur_protocol :: string
  ur_username :: string
  ur_password :: string
  ur_hostname :: string
  ur_origin :: string
  ur_pathname :: string
  ur_search :: string
  ur_hash :: string
  ur_searchParams :: "(string \<times> string) list"

type_synonym url_parser = "string \<Rightarrow> url option"

section \<open>The allow list of consumers\<close>

definition ALLOWED_REDIRECT_PROTOCOLS :: "string list" where
  "ALLOWED_REDIRECT_PROTOCOLS = [''https:'']"

definition SERVICE_NAMES :: "string list" where
  "SERVICE_NAMES = [''taimei'', ''accounts'']"

text \<open>\<open>ALLOWED_REDIRECT_HOST_PATTERNS\<close>: each pattern is one literal host, anchored at both ends.\<close>

fun allowedHost :: "string \<Rightarrow> string \<Rightarrow> bool" where
  "allowedHost service host =
     (if service = ''taimei'' then host = ''app.taimei-code.com''
      else if service = ''accounts'' then host = ''auth.taimei-code.com''
      else False)"

definition withoutTrailingDot :: "string \<Rightarrow> string" where
  "withoutTrailingDot host = (if host \<noteq> [] \<and> last host = CHR ''.'' then butlast host else host)"

definition validateRedirectUrl :: "url_parser \<Rightarrow> string \<Rightarrow> string \<Rightarrow> bool" where
  "validateRedirectUrl parseUrl redirectUrl service =
     (case parseUrl redirectUrl of
        None \<Rightarrow> False
      | Some url \<Rightarrow>
          (if ur_protocol url \<notin> set ALLOWED_REDIRECT_PROTOCOLS then False
           else if ur_username url \<noteq> [] \<or> ur_password url \<noteq> [] then False
           else allowedHost service (withoutTrailingDot (ur_hostname url))))"

section \<open>The parameters of the sign-in page\<close>

record signInParams =
  sp_service_name :: string
  sp_redirect_url :: string
  sp_sign_up_url :: "string option"
  sp_invitation_token :: "string option"

definition isBetweenLength :: "nat \<Rightarrow> nat \<Rightarrow> string \<Rightarrow> bool" where
  "isBetweenLength lo hi s \<longleftrightarrow> lo \<le> length s \<and> length s \<le> hi"

definition parseSignInParams :: "url_parser \<Rightarrow> (string \<Rightarrow> string option) \<Rightarrow> signInParams option" where
  "parseSignInParams parseUrl field =
     (case (field ''service_name'', field ''redirect_url'') of
        (Some service, Some redirect) \<Rightarrow>
          (if service \<in> set SERVICE_NAMES \<and> isBetweenLength 1 2048 redirect \<and>
              pred_option (isBetweenLength 1 2048) (field ''sign_up_url'') \<and>
              pred_option (isBetweenLength 1 256) (field ''invitation_token'') \<and>
              validateRedirectUrl parseUrl redirect service \<and>
              pred_option (\<lambda>u. validateRedirectUrl parseUrl u service) (field ''sign_up_url'')
           then Some \<lparr>sp_service_name = service, sp_redirect_url = redirect,
                      sp_sign_up_url = field ''sign_up_url'',
                      sp_invitation_token = field ''invitation_token''\<rparr>
           else None)
      | _ \<Rightarrow> None)"

definition parseRedirectTarget :: "url_parser \<Rightarrow> string \<Rightarrow> string \<Rightarrow> redirectTarget option" where
  "parseRedirectTarget parseUrl service redirect =
     (if service \<in> set SERVICE_NAMES \<and> isBetweenLength 1 2048 redirect \<and>
         validateRedirectUrl parseUrl redirect service
      then Some \<lparr>rt_service_name = service, rt_redirect_url = redirect\<rparr> else None)"

section \<open>After a login challenge\<close>

definition FALLBACK_REDIRECT :: string where
  "FALLBACK_REDIRECT = ''/account''"

text \<open>
  \<open>SAME_ORIGIN_PATH\<close>: a slash that is not followed by a slash, a backslash or their escaped forms, then
  a path and an optional query of the listed characters.
\<close>

definition isWordChar :: "char \<Rightarrow> bool" where
  "isWordChar c =
    (let n = of_char c :: nat
     in (48 \<le> n \<and> n \<le> 57) \<or> (65 \<le> n \<and> n \<le> 90) \<or> (97 \<le> n \<and> n \<le> 122) \<or> n = 95)"

definition isPathChar :: "char \<Rightarrow> bool" where
  "isPathChar c \<longleftrightarrow> isWordChar c \<or> c \<in> set ''-.+/@''"

definition isQueryChar :: "char \<Rightarrow> bool" where
  "isQueryChar c \<longleftrightarrow> isWordChar c \<or> c \<in> set ''-.+/=&%@''"

definition leavesOrigin :: "string \<Rightarrow> bool" where
  "leavesOrigin rest \<longleftrightarrow>
     startsWith rest ''/'' \<or> startsWith rest [CHR 0x5C] \<or> startsWith rest ''%2f'' \<or> startsWith rest ''%5c''"

definition isSameOriginPath :: "string \<Rightarrow> bool" where
  "isSameOriginPath s =
     (case s of
        [] \<Rightarrow> False
      | c # rest \<Rightarrow>
          c = CHR ''/'' \<and> \<not> leavesOrigin rest \<and>
          (case dropWhile isPathChar rest of
             [] \<Rightarrow> True
           | q # query \<Rightarrow> q = CHR ''?'' \<and> list_all isQueryChar query))"

text \<open>The trusted origins of the environment: the non-empty entries of a comma-separated list.\<close>

definition getTrustedOrigins :: "string option \<Rightarrow> string list" where
  "getTrustedOrigins env =
     filter (\<lambda>s. s \<noteq> []) (splitOn (CHR '','') (case env of None \<Rightarrow> [] | Some s \<Rightarrow> s))"

definition isTrustedAbsoluteUrl :: "url_parser \<Rightarrow> string list \<Rightarrow> string \<Rightarrow> bool" where
  "isTrustedAbsoluteUrl parseUrl trusted candidate =
     (case parseUrl candidate of
        None \<Rightarrow> False
      | Some url \<Rightarrow>
          (if ur_protocol url \<noteq> ''http:'' \<and> ur_protocol url \<noteq> ''https:'' then False
           else if ur_username url \<noteq> [] \<or> ur_password url \<noteq> [] then False
           else if ur_hash url \<noteq> [] then False
           else list_ex (\<lambda>entry. map_option ur_origin (parseUrl entry) = Some (ur_origin url)) trusted))"

definition captureMessage :: "string \<Rightarrow> (unit, 'x) eff" where
  "captureMessage component = (\<lambda>w. (Inr (), w\<lparr>w_sentry := w_sentry w @ [component]\<rparr>))"

definition fallBackAndReport :: "(string, 'x) eff" where
  "fallBackAndReport = andDo (captureMessage ''mfa-redirect-guard'') (succeed FALLBACK_REDIRECT)"

definition validateChallengeRedirect ::
    "url_parser \<Rightarrow> string list \<Rightarrow> string option \<Rightarrow> (string, 'x) eff" where
  "validateChallengeRedirect parseUrl trusted raw =
     (case raw of
        None \<Rightarrow> succeed FALLBACK_REDIRECT
      | Some r \<Rightarrow>
          (if r = [] then succeed FALLBACK_REDIRECT
           else if startsWith r ''/''
           then (if isSameOriginPath r then succeed r else fallBackAndReport)
           else if isTrustedAbsoluteUrl parseUrl trusted r then succeed r
           else fallBackAndReport))"

section \<open>What is let through\<close>

lemma captureMessage_runs [run_simps]:
  "captureMessage t w = (Inr b, w') \<longleftrightarrow> w' = w\<lparr>w_sentry := w_sentry w @ [t]\<rparr>"
  "captureMessage t w = (Inl r, w') \<longleftrightarrow> False"
  by (auto simp: captureMessage_def)

lemma keeps_captureMessage [keeps_intros]: "keeps w_db (captureMessage t)"
  by (simp add: keeps_def captureMessage_def)

lemma keeps_redirect [keeps_intros]:
  "keeps w_db fallBackAndReport" "keeps w_db (validateChallengeRedirect p ts raw)"
  unfolding validateChallengeRedirect_def fallBackAndReport_def by (intro keeps_intros)+

lemmas preserves_redirect [preserves_intros] =
  keeps_captureMessage[THEN preserves_keeps] keeps_redirect[THEN preserves_keeps]

lemma throws_captureMessage [throws_intros]: "throws E (captureMessage t)"
  by (simp add: throws_def captureMessage_def)

lemma throws_redirect [throws_intros]: "throws E (validateChallengeRedirect p ts raw)"
  unfolding validateChallengeRedirect_def fallBackAndReport_def by (intro throws_intros)

text \<open>A path that is let through stays on the origin: the browser cannot read a host out of it.\<close>

lemma isSameOriginPath_safe:
  assumes "isSameOriginPath s"
  shows "startsWith s ''/'' \<and> \<not> startsWith s ''//'' \<and> CHR 0x5C \<notin> set s \<and> CHR '':'' \<notin> set s \<and> CHR ''#'' \<notin> set s"
proof -
  from assms obtain rest where s: "s = CHR ''/'' # rest" and lo: "\<not> leavesOrigin rest"
    and tail: "case dropWhile isPathChar rest of [] \<Rightarrow> True
      | q # query \<Rightarrow> q = CHR ''?'' \<and> list_all isQueryChar query"
    by (cases s) (auto simp: isSameOriginPath_def)
  have "set rest \<subseteq> {c. isPathChar c} \<union> {c. isQueryChar c} \<union> {CHR ''?''}"
  proof -
    have "set rest = set (takeWhile isPathChar rest) \<union> set (dropWhile isPathChar rest)"
      by (metis set_append takeWhile_dropWhile_id)
    moreover have "set (takeWhile isPathChar rest) \<subseteq> {c. isPathChar c}" by (auto dest: set_takeWhileD)
    moreover have "set (dropWhile isPathChar rest) \<subseteq> {c. isQueryChar c} \<union> {CHR ''?''}"
      using tail by (cases "dropWhile isPathChar rest") (auto simp del: dropWhile_eq_Nil_conv simp: list_all_iff)
    ultimately show ?thesis by blast
  qed
  moreover have "\<not> isPathChar x \<and> \<not> isQueryChar x \<and> x \<noteq> CHR ''?''"
    if "x \<in> {CHR 0x5C, CHR '':'', CHR ''#''}" for x
    using that by (auto simp: isPathChar_def isQueryChar_def isWordChar_def)
  ultimately show ?thesis
    using lo s by (auto simp: leavesOrigin_def startsWith_def)
qed

lemma validateRedirectUrl_iff:
  "validateRedirectUrl P r service \<longleftrightarrow>
    (\<exists>u. P r = Some u \<and> ur_protocol u = ''https:'' \<and> ur_username u = [] \<and> ur_password u = [] \<and>
      allowedHost service (withoutTrailingDot (ur_hostname u)))"
  by (auto simp: validateRedirectUrl_def ALLOWED_REDIRECT_PROTOCOLS_def split: option.splits)

lemma validateChallengeRedirect_runs:
  assumes "validateChallengeRedirect P ts raw w = (Inr r, w')"
  shows "r = FALLBACK_REDIRECT \<or> (raw = Some r \<and> (isSameOriginPath r \<or> isTrustedAbsoluteUrl P ts r))"
  using assms by (auto simp: validateChallengeRedirect_def fallBackAndReport_def run_simps
      split: option.splits if_splits)

end
