(* ===== verification/Invitation.thy ===== *)
theory Invitation
  imports Company AttemptBudget EmailText Urls
begin

text \<open>
  \<open>src/invitation\<close>: sending, accepting and revoking invitations. An invitation is valid for 24 hours and
  is used once. Accepting marks it, then (for an OWNER invitation) checks that the inviter still is an owner,
  then joins; when it is refused inside the transaction nothing is kept, a rejection is logged outside it
  and the caller only learns that the invitation is used or expired.
\<close>

section \<open>The hourly budget\<close>

text \<open>The civil date of a day counted from 1970-01-01, for the years 0 to 9999.\<close>

definition civilFromDays :: "int \<Rightarrow> int \<times> int \<times> int" where
  "civilFromDays days =
    (let z = days + 719468; era = z div 146097; doe = z mod 146097;
         yoe = (doe - doe div 1460 + doe div 36524 - doe div 146096) div 365;
         doy = doe - (365 * yoe + yoe div 4 - yoe div 100);
         mp = (5 * doy + 2) div 153; d = doy - (153 * mp + 2) div 5 + 1;
         m = (if mp < 10 then mp + 3 else mp - 9)
     in (yoe + era * 400 + (if m \<le> 2 then 1 else 0), m, d))"

definition padded :: "nat \<Rightarrow> int \<Rightarrow> string" where
  "padded n i = padStart n (CHR ''0'') (showNat (nat i))"

text \<open>\<open>new Date(nowMillis).toISOString().slice(0, 13)\<close>.\<close>

definition hourBucket :: "millis \<Rightarrow> string" where
  "hourBucket nowMillis =
    (let hours = nowMillis div 3600000; (y, m, d) = civilFromDays (hours div 24)
     in padded 4 y @ ''-'' @ padded 2 m @ ''-'' @ padded 2 d @ ''T'' @ padded 2 (hours mod 24))"

definition spendInvitationAttempt :: "string option \<Rightarrow> id \<Rightarrow> (unit, 'x) eff" where
  "spendInvitationAttempt env companyId = andThen currentTimeMillis (\<lambda>nowMillis.
     spendAttemptBudgetOrRateLimited (invitationsPerCompanyHour env)
       (companyId @ '':'' @ hourBucket nowMillis))"

section \<open>The link\<close>

definition ACCEPT_INVITATION_PATH :: string where
  "ACCEPT_INVITATION_PATH = ''/auth/signup/accept-invitation''"

definition hexUpper :: "nat \<Rightarrow> char" where
  "hexUpper n = (if n < 10 then chr (48 + n) else chr (55 + n))"

text \<open>\<open>URLSearchParams\<close> writes \<open>application/x-www-form-urlencoded\<close>.\<close>

definition formEncodeChar :: "char \<Rightarrow> string" where
  "formEncodeChar c =
    (if isAlnum c \<or> c \<in> {CHR ''*'', CHR ''-'', CHR ''.'', CHR ''_''} then [c]
     else if c = CHR '' '' then ''+''
     else CHR 0x25 # [hexUpper (ord c div 16), hexUpper (ord c mod 16)])"

definition formEncode :: "(string \<times> string) list \<Rightarrow> string" where
  "formEncode ps = (case map (\<lambda>(k, v). concat (map formEncodeChar k) @ ''='' @ concat (map formEncodeChar v)) ps of
     [] \<Rightarrow> [] | q # qs \<Rightarrow> q @ concat (map (\<lambda>r. CHR ''&'' # r) qs))"

definition acceptInvitationPath :: "string \<Rightarrow> redirectTarget option \<Rightarrow> string" where
  "acceptInvitationPath invitationToken target =
     ACCEPT_INVITATION_PATH @ ''?'' @ formEncode ((''invitation_token'', invitationToken) #
       (case target of None \<Rightarrow> [] | Some t \<Rightarrow> [(''service_name'', rt_service_name t), (''redirect_url'', rt_redirect_url t)]))"

section \<open>Sending\<close>

definition INVITE_TTL_MS :: millis where
  "INVITE_TTL_MS = 24 * 60 * 60 * 1000"

definition sendInvitationLink :: "string \<Rightarrow> inviteGrant \<Rightarrow> string \<Rightarrow> (unit, 'x) eff" where
  "sendInvitationLink appUrl grant token =
     runBackground (SignInMagicLinkJob (ig_email grant)
       (appUrl @ acceptInvitationPath token (ig_redirectTarget grant)))"

record createdInvitation =
  ci_invitation :: invitation
  ci_reused :: bool

definition findOrInsertInvitation ::
    "'x better_auth \<Rightarrow> string option \<Rightarrow> inviteGrant \<Rightarrow> (createdInvitation, 'x) eff" where
  "findOrInsertInvitation A env grant =
     (let companyId = ig_companyId grant; email = ig_email grant; role = ig_role grant;
          actorUserId = ac_id (ig_actor grant)
      in andThen currentTimeMillis (\<lambda>nowMillis.
         andThen (findActivePendingInvitation companyId email nowMillis) (\<lambda>existing.
           case existing of
             Some i \<Rightarrow> succeed \<lparr>ci_invitation = i, ci_reused = True\<rparr>
           | None \<Rightarrow>
               andDo (spendInvitationAttempt env companyId)
               (andThen (transaction A
                  (andThen generateInvitationId (\<lambda>newId.
                   andThen generateInvitationToken (\<lambda>token.
                   andThen (insertInvitation \<lparr>ni_id = newId, ni_companyId = companyId, ni_email = email,
                             ni_role = role, ni_token = token, ni_expiresAt = nowMillis + INVITE_TTL_MS,
                             ni_invitedByUserId = actorUserId\<rparr>) (\<lambda>row.
                   andDo (appendAuditInTx [\<lparr>ae_userId = actorUserId,
                            ae_event = Invitation_sent (iv_id row) companyId email role actorUserId\<rparr>])
                     (succeed row))))))
                (\<lambda>inserted. succeed \<lparr>ci_invitation = inserted, ci_reused = False\<rparr>)))))"

definition createInvitation ::
    "'x better_auth \<Rightarrow> string option \<Rightarrow> string \<Rightarrow> inviteGrant \<Rightarrow> (createdInvitation, 'x) eff" where
  "createInvitation A env appUrl grant =
     andThen (findOrInsertInvitation A env grant) (\<lambda>result.
       andDo (sendInvitationLink appUrl grant (iv_token (ci_invitation result))) (succeed result))"

definition pendingInvitationsOf :: "verifiedMember \<Rightarrow> (invitation list, 'x) eff" where
  "pendingInvitationsOf member =
     andThen currentTimeMillis (\<lambda>now. listPendingInvitations (vm_companyId member) now)"

definition revokeInvitation :: "'x better_auth \<Rightarrow> verifiedMember \<Rightarrow> id \<Rightarrow> (unit, 'x) eff" where
  "revokeInvitation A member invitationId =
     (let actorUserId = ac_id (vm_actor member); companyId = vm_companyId member
      in transaction A
        (andThen (markInvitationRevoked invitationId companyId) (\<lambda>found.
           case found of
             None \<Rightarrow> failWith NotFoundOrNotPending
           | Some row \<Rightarrow> appendAuditInTx [invitationRevokedEntry actorUserId (iv_id row) companyId])))"

section \<open>Accepting\<close>

definition acceptBody :: "actor \<Rightarrow> invitation \<Rightarrow> (unit, 'x) eff" where
  "acceptBody actor invitation =
     andThen (markInvitationAccepted (iv_id invitation)) (\<lambda>accepted.
       if accepted = None then failWith DoubleAccept
       else andDo
         (if iv_role invitation = OWNER
          then andThen (mapEff verifyInviter
                 (lockMembershipForShare (iv_invitedByUserId invitation) (iv_companyId invitation)))
                 (\<lambda>verdict. case verdict of Accept \<Rightarrow> succeed () | Reject seen \<Rightarrow> failWith (InviterNotOwner seen))
          else succeed ())
         (andThen generateMembershipId (\<lambda>newId.
          andDo (applyJoin newId (ac_id actor) (iv_companyId invitation) (iv_role invitation))
            (appendAuditInTx [\<lparr>ae_userId = ac_id actor,
               ae_event = Invitation_accepted (iv_id invitation) (iv_companyId invitation) (ac_id actor)
                 (iv_role invitation)\<rparr>]))))"

text \<open>The failures \<open>DoubleAccept\<close> and \<open>InviterNotOwner\<close>.\<close>

fun isRejection :: "failure \<Rightarrow> bool" where
  "isRejection DoubleAccept = True"
| "isRejection (InviterNotOwner seen) = True"
| "isRejection _ = False"

definition rejectionEvent :: "invitation \<Rightarrow> failure \<Rightarrow> audit_event" where
  "rejectionEvent invitation rejected =
     Invitation_accept_rejected (iv_id invitation) (iv_companyId invitation) (iv_invitedByUserId invitation)
       (iv_role invitation)
       (case rejected of InviterNotOwner seen \<Rightarrow> Some seen | _ \<Rightarrow> None)
       (case rejected of InviterNotOwner seen \<Rightarrow> Inviter_not_owner_or_missing | _ \<Rightarrow> Double_accept)"

definition recordRejectionAndFail :: "id \<Rightarrow> invitation \<Rightarrow> failure \<Rightarrow> ('a, 'x) eff" where
  "recordRejectionAndFail actorUserId invitation rejected =
     andDo (appendAuditBestEffort \<lparr>ae_userId = actorUserId, ae_event = rejectionEvent invitation rejected\<rparr>)
       (failWith ExpiredOrUsed)"

definition acceptInvitation :: "'x better_auth \<Rightarrow> acceptGrant \<Rightarrow> (id, 'x) eff" where
  "acceptInvitation A grant =
     (let actor = ag_actor grant; invitation = ag_invitation grant
      in andDo
        (catchIf isRejection (\<lambda>rejected. recordRejectionAndFail (ac_id actor) invitation rejected)
          (transaction A (acceptBody actor invitation)))
        (succeed (iv_companyId invitation)))"

section \<open>The e-mail\<close>

record invitationEmailContext =
  ie_companyName :: string
  ie_inviterName :: string
  ie_inviterEmail :: string
  ie_roleLabel :: role

text \<open>\<open>parseUrl\<close> stands for \<open>new URL(value, 'http://localhost')\<close>, \<open>None\<close> where it throws.\<close>

definition extractInvitationToken :: "url_parser \<Rightarrow> string \<Rightarrow> string option" where
  "extractInvitationToken parseUrl magicLinkUrl =
     (case (case parseUrl magicLinkUrl of None \<Rightarrow> None | Some u \<Rightarrow> map_of (ur_searchParams u) ''callbackURL'') of
        None \<Rightarrow> None
      | Some callback \<Rightarrow>
          (if callback = [] then None
           else (case parseUrl callback of
             None \<Rightarrow> None
           | Some parsed \<Rightarrow>
               (if ur_protocol parsed \<noteq> ''http:'' \<and> ur_protocol parsed \<noteq> ''https:'' then None
                else map_of (ur_searchParams parsed) ''invitation_token''))))"

definition resolveInvitationEmailContext ::
    "url_parser \<Rightarrow> string \<Rightarrow> (invitationEmailContext option, 'x) eff" where
  "resolveInvitationEmailContext parseUrl magicLinkUrl =
     (case extractInvitationToken parseUrl magicLinkUrl of
        None \<Rightarrow> succeed None
      | Some token \<Rightarrow>
          (if token = [] then succeed None
           else andThen (findInvitationByToken token) (\<lambda>found.
             case found of
               None \<Rightarrow> succeed None
             | Some invitation \<Rightarrow>
                 andThen (findCompanyById (iv_companyId invitation)) (\<lambda>company.
                 andThen (findUserById (iv_invitedByUserId invitation)) (\<lambda>inviter.
                   case company of
                     None \<Rightarrow> succeed None
                   | Some c \<Rightarrow> succeed (Some
                       \<lparr>ie_companyName = toDisplayText (co_name c),
                        ie_inviterName = toDisplayText (case inviter of None \<Rightarrow> [] | Some u \<Rightarrow> us_name u),
                        ie_inviterEmail = toDisplayText (case inviter of None \<Rightarrow> [] | Some u \<Rightarrow> us_email u),
                        ie_roleLabel = iv_role invitation\<rparr>))))))"

section \<open>What they do to the database\<close>

definition settle :: "(invitation \<Rightarrow> bool) \<Rightarrow> invitation_status \<Rightarrow> millis \<Rightarrow> database \<Rightarrow> database" where
  "settle P s now d = d\<lparr>d_invitation := updateWhere (\<lambda>i. P i \<and> iv_status i = PENDING)
     (invitationStatusColumns s now) (d_invitation d)\<rparr>"

lemma settle_tables [simp]:
  "d_membership (settle P s t d) = d_membership d" "userIds (settle P s t d) = userIds d"
  "companyIds (settle P s t d) = companyIds d" "membershipOf (settle P s t d) = membershipOf d"
  "d_user (settle P s t d) = d_user d" "d_company (settle P s t d) = d_company d"
  "logged (settle P s t d) = logged d"
  by (auto simp: settle_def userIds_def companyIds_def membershipOf_def logged_def fun_eq_iff)

lemma acceptBody_success:
  assumes "acceptBody actor vit w = (Inr r, w')"
  shows "\<exists>i. (\<exists>row\<in>set (d_invitation (w_db w)). iv_id row = iv_id vit \<and> iv_status row = PENDING) \<and>
    (iv_role vit = OWNER \<longrightarrow> (\<exists>m. membershipOf (w_db w) (iv_invitedByUserId vit) (iv_companyId vit) = Some m \<and> mb_role m = OWNER)) \<and>
    i \<notin> mb_id ` set (d_membership (w_db w)) \<and>
    (ac_id actor, iv_companyId vit) \<notin> membershipKey ` set (d_membership (w_db w)) \<and>
    ac_id actor \<in> userIds (w_db w) \<and> iv_companyId vit \<in> companyIds (w_db w) \<and>
    auditAppended [\<lparr>ae_userId = ac_id actor, ae_event = Invitation_accepted (iv_id vit) (iv_companyId vit)
        (ac_id actor) (iv_role vit)\<rparr>]
      (setCurrent (ac_id actor) (iv_companyId vit) (w_clock w)
        ((settle (\<lambda>v. iv_id v = iv_id vit) ACCEPTED (w_clock w) (w_db w))\<lparr>d_membership := d_membership (w_db w) @
          [\<lparr>mb_id = i, mb_userId = ac_id actor, mb_companyId = iv_companyId vit, mb_role = iv_role vit,
            mb_joinedAt = w_clock w, mb_createdAt = w_clock w, mb_updatedAt = w_clock w\<rparr>]\<rparr>))
      (w_db w')"
proof -
  from assms obtain acc w1 where mark: "markInvitationAccepted (iv_id vit) w = (Inr acc, w1)"
    and rest: "(if acc = None then failWith DoubleAccept
       else andDo
         (if iv_role vit = OWNER
          then andThen (mapEff verifyInviter
                 (lockMembershipForShare (iv_invitedByUserId vit) (iv_companyId vit)))
                 (\<lambda>verdict. case verdict of Accept \<Rightarrow> succeed () | Reject seen \<Rightarrow> failWith (InviterNotOwner seen))
          else succeed ())
         (andThen generateMembershipId (\<lambda>newId.
          andDo (applyJoin newId (ac_id actor) (iv_companyId vit) (iv_role vit))
            (appendAuditInTx [\<lparr>ae_userId = ac_id actor,
               ae_event = Invitation_accepted (iv_id vit) (iv_companyId vit) (ac_id actor)
                 (iv_role vit)\<rparr>])))) w1 = (Inr r, w')"
    unfolding acceptBody_def andThen_runs by blast
  have acc: "acc \<noteq> None"
  proof
    assume "acc = None"
    with rest show False by (simp add: failWith_runs)
  qed
  from mark have d1: "w_db w1 = settle (\<lambda>v. iv_id v = iv_id vit) ACCEPTED (w_clock w) (w_db w)"
    "w_clock w1 = w_clock w"
    by (auto simp: markInvitation_runs settlePending_runs settle_def)
  have pend: "\<exists>row\<in>set (d_invitation (w_db w)). iv_id row = iv_id vit \<and> iv_status row = PENDING"
    using mark acc by (auto simp: markInvitation_runs settlePending_runs filter_empty_conv)
  from rest acc obtain u w2 i w3 m w4 where
    ver: "(if iv_role vit = OWNER
          then andThen (mapEff verifyInviter
                 (lockMembershipForShare (iv_invitedByUserId vit) (iv_companyId vit)))
                 (\<lambda>verdict. case verdict of Accept \<Rightarrow> succeed () | Reject seen \<Rightarrow> failWith (InviterNotOwner seen))
          else succeed ()) w1 = (Inr u, w2)"
    and i: "generateMembershipId w2 = (Inr i, w3)"
    and join: "applyJoin i (ac_id actor) (iv_companyId vit) (iv_role vit) w3 = (Inr m, w4)"
    and audit: "appendAuditInTx [\<lparr>ae_userId = ac_id actor,
               ae_event = Invitation_accepted (iv_id vit) (iv_companyId vit) (ac_id actor)
                 (iv_role vit)\<rparr>] w4 = (Inr r, w')"
    by (simp only: if_False andThen_runs) blast
  have d2: "w_db w2 = w_db w1" "w_clock w2 = w_clock w1"
    and own: "iv_role vit = OWNER \<Longrightarrow>
      (\<exists>m. membershipOf (w_db w1) (iv_invitedByUserId vit) (iv_companyId vit) = Some m \<and> mb_role m = OWNER)"
    using ver by (auto simp: andThen_runs mapEff_runs lockMembershipForShare_def selectFor_runs succeed_runs
        failWith_runs verifyInviter_Accept_iff split: if_splits inviter_verdict.splits)
  have d3: "w_db w3 = w_db w2" "w_clock w3 = w_clock w2"
    using i by (auto simp: generateMembershipId_def mapEff_runs random_runs)
  show ?thesis
    using applyJoin_success[OF join] appendAuditInTx_db[OF audit] pend own
    by (intro exI[of _ i]) (auto simp: d1 d2 d3)
qed

lemma acceptInvitation_success:
  fixes A :: "'x better_auth"
  assumes "acceptInvitation A g w = (Inr c, w')" "auth_frame A"
  shows "\<exists>(w0 :: 'x world) (w1 :: 'x world). acceptBody (ag_actor g) (ag_invitation g) w0 = (Inr (), w1) \<and> w_db w0 = w_db w \<and>
    w_clock w0 = w_clock w \<and> w_db w' = w_db w1 \<and> c = iv_companyId (ag_invitation g)"
proof -
  from assms(1) have "transaction A (acceptBody (ag_actor g) (ag_invitation g)) w = (Inr (), w')"
    and c: "c = iv_companyId (ag_invitation g)"
    by (auto simp: acceptInvitation_def Let_def andThen_runs catchIf_runs recordRejectionAndFail_def
        failWith_runs succeed_runs)
  from transaction_success[OF this(1) assms(2)] obtain w1 where
    "acceptBody (ag_actor g) (ag_invitation g)
      (w\<lparr>w_dbCalls := Suc (w_dbCalls w), w_hooks := [], w_locks := []\<rparr>) = (Inr (), w1)"
    and "w_db w' = w_db w1" by blast
  with c show ?thesis
    by (intro exI[of _ "w\<lparr>w_dbCalls := Suc (w_dbCalls w), w_hooks := [], w_locks := []\<rparr>"] exI[of _ w1]) simp
qed

section \<open>The constraints of the schema survive\<close>

lemma preserves_spendInvitationAttempt [preserves_intros]: "preserves I (spendInvitationAttempt env c)"
  unfolding spendInvitationAttempt_def by (intro preserves_intros)

lemma preserves_verdict [preserves_intros]:
  "preserves I m \<Longrightarrow> (\<And>s. preserves I (f s)) \<Longrightarrow>
    preserves I (case v of Accept \<Rightarrow> m | Reject s \<Rightarrow> f s)"
  by (cases v) auto

lemma preserves_acceptBody [preserves_intros]: "preserves wf_db (acceptBody actor vit)"
  unfolding acceptBody_def by (intro preserves_intros)

lemma preserves_invitation_ops [preserves_intros]:
  assumes "auth_frame A"
  shows "preserves wf_db (createInvitation A env url ig)" "preserves wf_db (revokeInvitation A m i)"
    "preserves wf_db (acceptInvitation A ag)" "preserves wf_db (pendingInvitationsOf m)"
  unfolding createInvitation_def findOrInsertInvitation_def sendInvitationLink_def revokeInvitation_def
    acceptInvitation_def recordRejectionAndFail_def pendingInvitationsOf_def Let_def
  by (intro preserves_intros assms)+

section \<open>Failures\<close>

lemma throws_spendInvitationAttempt [throws_intros]:
  "RateLimited \<in> E \<Longrightarrow> throws E (spendInvitationAttempt env c)"
  unfolding spendInvitationAttempt_def by (intro throws_intros)

lemma throws_acceptBody:
  "throws ({DbError, DoubleAccept} \<union> range InviterNotOwner) (acceptBody actor vit)"
  unfolding acceptBody_def
  by (intro throws_intros) (auto intro: throws_intros split: inviter_verdict.splits)

lemma throws_invitation_ops [throws_intros]:
  assumes "DbError \<in> E"
  shows "RateLimited \<in> E \<Longrightarrow> throws E (createInvitation A env url ig)"
    "NotFoundOrNotPending \<in> E \<Longrightarrow> throws E (revokeInvitation A m i)"
    "ExpiredOrUsed \<in> E \<Longrightarrow> throws E (acceptInvitation A ag)"
    "throws E (pendingInvitationsOf m)"
proof -
  show "RateLimited \<in> E \<Longrightarrow> throws E (createInvitation A env url ig)"
    unfolding createInvitation_def findOrInsertInvitation_def sendInvitationLink_def Let_def
    by (intro throws_intros assms)
  show "NotFoundOrNotPending \<in> E \<Longrightarrow> throws E (revokeInvitation A m i)"
    unfolding revokeInvitation_def Let_def by (intro throws_intros assms)
  show "throws E (pendingInvitationsOf m)"
    unfolding pendingInvitationsOf_def by (intro throws_intros assms)
  assume used: "ExpiredOrUsed \<in> E"
  have tx: "throws ({DbError, DoubleAccept} \<union> range InviterNotOwner) (transaction A (acceptBody a i))" for a i
    by (intro throws_transaction throws_acceptBody) simp
  have "throws E (catchIf isRejection (\<lambda>r. recordRejectionAndFail u i r) (transaction A (acceptBody a i)))" for u i a
    using tx by (rule throws_catchIf)
      (use assms used in \<open>auto simp: recordRejectionAndFail_def intro!: throws_intros\<close>)
  then show "throws E (acceptInvitation A ag)"
    unfolding acceptInvitation_def Let_def by (intro throws_intros)
qed

end
