(* ===== verification/OwnerInvariant.thy ===== *)
theory OwnerInvariant
  imports Invitation
begin

text \<open>
  The two invariants of companies and members, and that every transaction keeps them, for any grant:
  \<open>owned\<close> - every active company has an owner; \<open>currentValid\<close> - a user's current company is one it
  belongs to. A grant may be out of date by the time it is used, so nothing is assumed about it.
\<close>

definition ownedExcept :: "id set \<Rightarrow> database \<Rightarrow> bool" where
  "ownedExcept S d \<longleftrightarrow> (\<forall>c. c \<notin> S \<longrightarrow> isActiveCompany d c \<longrightarrow> ownersOf d c \<noteq> [])"

definition owned :: "database \<Rightarrow> bool" where
  "owned d \<longleftrightarrow> (\<forall>c. isActiveCompany d c \<longrightarrow> ownersOf d c \<noteq> [])"

definition isMember :: "database \<Rightarrow> id \<Rightarrow> id \<Rightarrow> bool" where
  "isMember d u c \<longleftrightarrow> (u, c) \<in> membershipKey ` set (d_membership d)"

definition currentValid :: "database \<Rightarrow> bool" where
  "currentValid d \<longleftrightarrow>
    (\<forall>u\<in>set (d_user d). \<forall>c. us_lastUsedCompanyId u = Some c \<longrightarrow> isMember d (us_id u) c)"

definition companyInv :: "database \<Rightarrow> bool" where
  "companyInv d \<longleftrightarrow> wf_db d \<and> owned d \<and> currentValid d"

lemma owned_iff: "owned d \<longleftrightarrow> ownedExcept {} d"
  by (simp add: owned_def ownedExcept_def)

lemma isMember_iff:
  "isMember d u c \<longleftrightarrow> (\<exists>m\<in>set (d_membership d). mb_userId m = u \<and> mb_companyId m = c)"
  by (force simp: isMember_def membershipKey_def)

lemma membershipOf_isMember: "membershipOf d u c = Some m \<Longrightarrow> isMember d u c"
  by (auto simp: isMember_iff dest: membershipOf_Some)

section \<open>Audit entries change nothing\<close>

lemma audit_keeps:
  assumes "auditAppended es d d'"
  shows "ownedExcept S d' \<longleftrightarrow> ownedExcept S d" "currentValid d' \<longleftrightarrow> currentValid d"
    "activeJoin d' u = activeJoin d u" "isActiveCompany d' c \<longleftrightarrow> isActiveCompany d c"
    "ownersOf d' c = ownersOf d c" "isMember d' u c \<longleftrightarrow> isMember d u c"
  using auditAppended_tables[OF assms]
  by (simp_all add: ownedExcept_def currentValid_def isActiveCompany_def ownersOf_def isMember_def
      activeJoin_def)

section \<open>Changes of the tables\<close>

lemma setRole_simps [simp]:
  "d_company (setRole u c r t d) = d_company d" "d_user (setRole u c r t d) = d_user d"
  "d_auditLog (setRole u c r t d) = d_auditLog d" "d_invitation (setRole u c r t d) = d_invitation d"
  "d_mfaTotp (setRole u c r t d) = d_mfaTotp d"
  "d_mfaRecoveryCode (setRole u c r t d) = d_mfaRecoveryCode d"
  by (simp_all add: setRole_def)

lemma isMember_setRole [simp]: "isMember (setRole u c r t d) x y \<longleftrightarrow> isMember d x y"
proof -
  have "map membershipKey (d_membership (setRole u c r t d)) = map membershipKey (d_membership d)"
    unfolding setRole_def by (simp, rule map_key_updateWhere) (simp add: membershipKey_def)
  then show ?thesis unfolding isMember_def by (metis set_map)
qed

lemma ownersOf_setRole_other: "c' \<noteq> c \<Longrightarrow> ownersOf (setRole u c r t d) c' = ownersOf d c'"
  unfolding ownersOf_def setRole_def
  by (simp, rule filter_updateWhere_untouched) (auto simp: isMembershipOf_def)

lemma ownedExcept_setRole:
  assumes "ownedExcept S d" "ownersOf (setRole u c r t d) c \<noteq> []"
  shows "ownedExcept S (setRole u c r t d)"
  using assms ownersOf_setRole_other unfolding ownedExcept_def
  by (auto simp: isActiveCompany_def) metis

lemma currentValid_setRole [simp]: "currentValid (setRole u c r t d) \<longleftrightarrow> currentValid d"
  by (simp add: currentValid_def)

lemma setCurrent_simps [simp]:
  "d_company (setCurrent u c t d) = d_company d" "d_membership (setCurrent u c t d) = d_membership d"
  "isActiveCompany (setCurrent u c t d) x = isActiveCompany d x"
  "ownersOf (setCurrent u c t d) x = ownersOf d x" "isMember (setCurrent u c t d) x y = isMember d x y"
  "logged (setCurrent u c t d) = logged d" "d_invitation (setCurrent u c t d) = d_invitation d"
  by (simp_all add: setCurrent_def isActiveCompany_def ownersOf_def isMember_def logged_def)

lemma ownedExcept_setCurrent [simp]: "ownedExcept S (setCurrent u c t d) \<longleftrightarrow> ownedExcept S d"
  by (simp add: ownedExcept_def)

lemma currentValid_setCurrent:
  assumes "currentValid d" "isMember d u c" shows "currentValid (setCurrent u c t d)"
  using assms unfolding currentValid_def setCurrent_def isMember_def
  by (auto simp: in_updateWhere split: if_splits)

lemma reassignCurrent_simps [simp]:
  "d_company (reassignCurrent c us t d) = d_company d"
  "d_membership (reassignCurrent c us t d) = d_membership d"
  "isActiveCompany (reassignCurrent c us t d) x = isActiveCompany d x"
  "ownersOf (reassignCurrent c us t d) x = ownersOf d x"
  "isMember (reassignCurrent c us t d) x y = isMember d x y"
  "activeJoin (reassignCurrent c us t d) x = activeJoin d x"
  "logged (reassignCurrent c us t d) = logged d" "d_invitation (reassignCurrent c us t d) = d_invitation d"
  by (simp_all add: reassignCurrent_def reassignLastUsedCompanySql_def isActiveCompany_def ownersOf_def
      isMember_def activeJoin_def logged_def)

lemma userIds_reassignCurrent [simp]: "userIds (reassignCurrent c us t d) = userIds d"
proof -
  have "map us_id (d_user (reassignCurrent c us t d)) = map us_id (d_user d)"
    unfolding reassignCurrent_def reassignLastUsedCompanySql_def
    by (simp, rule map_key_updateWhere) simp
  then show ?thesis unfolding userIds_def by (metis set_map)
qed

lemma ownedExcept_reassign [simp]: "ownedExcept S (reassignCurrent c us t d) \<longleftrightarrow> ownedExcept S d"
  by (simp add: ownedExcept_def)

text \<open>Leaving users point at a company they still belong to, or at none.\<close>

lemma currentValid_reassign:
  assumes "\<And>u x. u \<in> set (d_user d) \<Longrightarrow> us_lastUsedCompanyId u = Some x \<Longrightarrow>
      \<not> (x = c \<and> us_id u \<in> set us) \<Longrightarrow> isMember d (us_id u) x"
  shows "currentValid (reassignCurrent c us t d)"
proof -
  have mem: "isMember d u x" if "oldestActiveCompanyOf d u = Some x" for u x
    using oldestActiveCompanyOf_Some[OF that] by (auto simp: isMember_iff)
  have "isMember d (us_id v) x"
    if v: "v \<in> set (d_user (reassignCurrent c us t d))" "us_lastUsedCompanyId v = Some x" for v x
  proof -
    from v(1) obtain u where u: "u \<in> set (d_user d)"
      "v = (if us_id u \<in> set us \<and> us_lastUsedCompanyId u = Some c
            then u\<lparr>us_lastUsedCompanyId := oldestActiveCompanyOf d (us_id u), us_updatedAt := t\<rparr> else u)"
      by (auto simp: reassignCurrent_def reassignLastUsedCompanySql_def in_updateWhere)
    then show ?thesis
      using v(2) mem assms[of u x] by (auto split: if_splits)
  qed
  then show ?thesis by (simp add: currentValid_def)
qed

lemma isMember_leave [simp]: "isMember (leave u c d) x y \<longleftrightarrow> isMember d x y \<and> \<not> (x = u \<and> y = c)"
  by (auto simp: isMember_iff leave_def isMembershipOf_def)

lemma leave_simps [simp]:
  "d_company (leave u c d) = d_company d" "d_user (leave u c d) = d_user d"
  "isActiveCompany (leave u c d) x = isActiveCompany d x" "logged (leave u c d) = logged d"
  "d_invitation (leave u c d) = d_invitation d" "userIds (leave u c d) = userIds d"
  by (simp_all add: leave_def isActiveCompany_def logged_def userIds_def)

lemma ownedExcept_leave:
  assumes "ownedExcept S d" "ownersOf (leave u c d) c \<noteq> []"
  shows "ownedExcept S (leave u c d)"
proof -
  have "ownersOf (leave u c d) x = ownersOf d x" if "x \<noteq> c" for x
    using that unfolding ownersOf_def leave_def
    by (auto simp: isMembershipOf_def intro!: filter_cong)
  then show ?thesis using assms unfolding ownedExcept_def by (auto, metis)
qed

lemma currentValid_leave:
  assumes "currentValid d"
  shows "currentValid (reassignCurrent c [u] t (leave u c d))"
  using assms by (intro currentValid_reassign) (auto simp: currentValid_def)

section \<open>Accounts\<close>

lemma ownersOf_dropUser: "ownersOf (dropUser u d) c = filter (\<lambda>m. mb_userId m \<noteq> u) (ownersOf d c)"
  by (auto simp: ownersOf_def intro: filter_cong)

lemma ownedExcept_dropUser_orphan:
  assumes "ownedExcept S d" "activeJoin d u = []"
  shows "ownedExcept S (dropUser u d)"
  unfolding ownedExcept_def
proof (intro allI impI)
  fix c assume c: "c \<notin> S" "isActiveCompany (dropUser u d) c"
  then have "ownersOf d c \<noteq> []" using assms(1) by (simp add: ownedExcept_def)
  moreover have "mb_userId m \<noteq> u" if "m \<in> set (ownersOf d c)" for m
    using that c assms(2) by (auto simp: activeJoin_Nil_iff)
  ultimately show "ownersOf (dropUser u d) c \<noteq> []"
    by (cases "ownersOf d c") (auto simp: ownersOf_dropUser filter_empty_conv)
qed

lemma owned_dropUser_unblocked:
  assumes "owned d" "wf_db d" "blockingCompanies d u = []"
  shows "owned (dropUser u d)"
  unfolding owned_def
proof (intro allI impI)
  fix c assume c: "isActiveCompany (dropUser u d) c"
  then have act: "isActiveCompany d c" by simp
  with assms(1) obtain m where m: "m \<in> set (ownersOf d c)"
    unfolding owned_def by (cases "ownersOf d c") force+
  show "ownersOf (dropUser u d) c \<noteq> []"
  proof (cases "mb_userId m = u")
    case True
    then have "length (ownersOf d c) \<noteq> 1"
      using assms(3) m act by (auto simp: blockingCompanies_Nil_iff)
    moreover have "distinct (map membershipKey (d_membership d))"
      using assms(2) by (simp add: wf_db_def wf_keys_def)
    ultimately obtain m' where "m' \<in> set (d_membership d)" "mb_companyId m' = c" "mb_role m' = OWNER"
      "membershipKey m' \<noteq> membershipKey m"
      using length_filter_ge_2[of membershipKey "d_membership d" m
          "\<lambda>m. mb_companyId m = c \<and> mb_role m = OWNER"] m
      by (auto simp: ownersOf_def)
    then show ?thesis
      using m True by (auto simp: ownersOf_dropUser filter_empty_conv membershipKey_def)
  next
    case False
    with m show ?thesis by (auto simp: ownersOf_dropUser filter_empty_conv)
  qed
qed

lemma isMember_dropUser [simp]: "isMember (dropUser u d) x y \<longleftrightarrow> isMember d x y \<and> x \<noteq> u"
  by (auto simp: isMember_iff)

lemma currentValid_dropUser: "currentValid d \<Longrightarrow> currentValid (dropUser u d)"
  by (auto simp: currentValid_def)

lemma accountDeleted_keeps:
  assumes "accountDeleted u d d'" "currentValid d"
  shows "currentValid d'" "ownedExcept S d' \<longleftrightarrow> ownedExcept S (dropUser u d)"
    "isActiveCompany d' c \<longleftrightarrow> isActiveCompany d c"
    "isMember d' x c \<longleftrightarrow> isMember d x c \<and> x \<noteq> u"
  using assms currentValid_dropUser[OF assms(2), of u]
  by (auto simp: accountDeleted_def audit_keeps)

section \<open>Transactions\<close>

lemma companyInv_transaction:
  assumes "\<And>w r w1. companyInv (w_db w) \<Longrightarrow> f w = (Inr r, w1) \<Longrightarrow>
      ownedExcept {} (w_db w1) \<and> currentValid (w_db w1)"
    and "auth_frame A" "preserves wf_db f"
  shows "preserves companyInv (transaction A f)"
proof (rule preserves_transaction[OF _ assms(2)])
  fix w r w1 assume I: "companyInv (w_db w)" and run: "f w = (Inr r, w1)"
  have "wf_db (w_db w1)" using preservesD[OF assms(3) run] I by (simp add: companyInv_def)
  with assms(1)[OF I run] show "companyInv (w_db w1)" by (simp add: companyInv_def owned_iff)
qed

lemma companyInv_deleteAccountUnlessLastOwner [preserves_intros]:
  assumes "auth_frame A" shows "preserves companyInv (deleteAccountUnlessLastOwner A u)"
  unfolding deleteAccountUnlessLastOwner_def
proof (rule companyInv_transaction[OF _ assms])
  fix w :: "'a world" and r w1
  assume I: "companyInv (w_db w)"
    and run: "andDo (lockOwnerMembershipsOfUserCompanies u)
     (andDo (lockMembershipChangesOfUser u)
     (andThen (findCompaniesBlockingUserDeletion u) (\<lambda>blocking.
       if length blocking > 0 then failWith LastOwner
       else deleteAccount u Flow_account_delete))) w = (Inr r, w1)"
  from run obtain w2 where del: "deleteAccount u Flow_account_delete w2 = (Inr r, w1)"
    and w2: "w_db w2 = w_db w" and bl: "blockingCompanies (w_db w) u = []"
    by (auto simp: andThen_runs lockDb_runs lockOwnerMembershipsOfUserCompanies_def
        lockMembershipChangesOfUser_def findCompaniesBlockingUserDeletion_def select_runs failWith_runs
        split: if_splits)
  from deleteAccount_success(1)[OF del] have ad: "accountDeleted u (w_db w) (w_db w1)" by (simp add: w2)
  have "owned (dropUser u (w_db w))"
    using owned_dropUser_unblocked bl I by (auto simp: companyInv_def)
  with accountDeleted_keeps[OF ad] I show "ownedExcept {} (w_db w1) \<and> currentValid (w_db w1)"
    by (simp add: companyInv_def owned_iff)
qed (intro preserves_intros)

lemma orphan_keeps:
  assumes run: "deleteAccountIfOrphaned u flow w = (Inr r, w')"
    and cv: "currentValid (w_db w)" and ow: "ownedExcept S (w_db w)"
  shows "currentValid (w_db w') \<and> ownedExcept S (w_db w') \<and>
    (\<forall>c. isActiveCompany (w_db w') c = isActiveCompany (w_db w) c) \<and>
    (\<forall>x c. isMember (w_db w') x c \<longrightarrow> isMember (w_db w) x c)"
proof (cases r)
  case Deleted
  from deleteAccountIfOrphaned_success(1)[OF run this] accountDeleted_keeps cv
    ownedExcept_dropUser_orphan[OF ow] show ?thesis by blast
next
  case Kept
  from deleteAccountIfOrphaned_success(2)[OF run this] cv ow show ?thesis by simp
qed

lemma companyInv_sweep [preserves_intros]:
  assumes "auth_frame A" shows "preserves companyInv (sweepAbandonedSignups A t e)"
proof -
  have "preserves companyInv (transaction A (deleteAccountIfOrphaned u Flow_sweep))" for u
  proof (rule companyInv_transaction[OF _ assms])
    fix w :: "'a world" and r w1
    assume I: "companyInv (w_db w)" and run: "deleteAccountIfOrphaned u Flow_sweep w = (Inr r, w1)"
    with orphan_keeps[OF run, of "{}"] I show "ownedExcept {} (w_db w1) \<and> currentValid (w_db w1)"
      by (simp add: companyInv_def owned_iff)
  qed (intro preserves_intros)
  note tx = this
  show ?thesis
    supply preserves_transaction_statementwise [preserves_intros del]
    unfolding sweepAbandonedSignups_def by (intro preserves_intros tx)
qed

section \<open>Members\<close>

lemma companyInv_changeRole [preserves_intros]:
  assumes "auth_frame A" shows "preserves companyInv (changeRole A g)"
proof -
  have "preserves companyInv (transaction A (andDo (applyRoleChange u c r) (appendAuditInTx es)))" for u c r es
  proof (rule companyInv_transaction[OF _ assms])
    fix w :: "'a world" and x w2
    assume I: "companyInv (w_db w)"
      and run: "andDo (applyRoleChange u c r) (appendAuditInTx es) w = (Inr x, w2)"
    from run obtain y w1 where "applyRoleChange u c r w = (Inr y, w1)"
      and audit: "appendAuditInTx es w1 = (Inr x, w2)" unfolding andThen_runs by blast
    from applyRoleChange_success[OF this(1)] I audit_keeps[OF appendAuditInTx_db[OF audit]]
    show "ownedExcept {} (w_db w2) \<and> currentValid (w_db w2)"
      by (auto simp: companyInv_def owned_iff intro: ownedExcept_setRole)
  qed (intro preserves_intros)
  note tx = this
  show ?thesis
    supply preserves_transaction_statementwise [preserves_intros del]
    unfolding changeRole_def Let_def by (intro preserves_intros tx)
qed

lemma companyInv_transferOwnership [preserves_intros]:
  assumes "auth_frame A" shows "preserves companyInv (transferOwnership A g)"
  unfolding transferOwnership_def Let_def
proof (rule companyInv_transaction[OF _ assms])
  let ?a = "ac_id (og_actor g)" and ?u = "og_toUserId g" and ?c = "og_companyId g"
  fix w :: "'a world" and x w2
  assume I: "companyInv (w_db w)"
    and run: "andDo (applyTransfer ?a ?u ?c) (appendAuditInTx [\<lparr>ae_userId = ?a,
             ae_event = Ownership_transferred ?c ?a ?u\<rparr>]) w = (Inr x, w2)"
  from run obtain y w1 where tr: "applyTransfer ?a ?u ?c w = (Inr y, w1)"
    and audit: "appendAuditInTx [\<lparr>ae_userId = ?a, ae_event = Ownership_transferred ?c ?a ?u\<rparr>] w1 = (Inr x, w2)"
    unfolding andThen_runs by blast
  note tr = applyTransfer_success[OF tr]
  have "ownersOf (w_db w1) x \<noteq> []" if "isActiveCompany (w_db w1) x" for x
  proof (cases "x = ?c")
    case False
    then have "ownersOf (w_db w1) x = ownersOf (w_db w) x" using tr by (simp add: ownersOf_setRole_other)
    moreover have "isActiveCompany (w_db w) x" using that tr by (simp add: isActiveCompany_def)
    ultimately show ?thesis using I by (simp add: companyInv_def owned_def)
  qed (use tr in auto)
  then have "owned (w_db w1)" by (simp add: owned_def)
  with tr I audit_keeps[OF appendAuditInTx_db[OF audit]] show "ownedExcept {} (w_db w2) \<and> currentValid (w_db w2)"
    by (simp add: companyInv_def owned_iff)
qed (intro preserves_intros)

lemma companyInv_removeMember [preserves_intros]:
  assumes "auth_frame A" shows "preserves companyInv (removeMember A g)"
  unfolding removeMember_def Let_def
proof (rule companyInv_transaction[OF _ assms])
  let ?u = "rv_targetUserId g" and ?c = "rv_companyId g"
    and ?es = "[membershipRemovedEntry (ac_id (rv_actor g)) (rv_companyId g) (rv_targetUserId g) (rv_targetRole g)]"
  fix w :: "'a world" and x w4
  assume I: "companyInv (w_db w)"
    and run: "andDo (applyRemoval ?u ?c) (andDo (appendAuditInTx ?es)
      (andThen (deleteAccountIfOrphaned ?u Flow_member_remove) (\<lambda>removal. succeed (removal = Deleted)))) w = (Inr x, w4)"
  from run obtain w1 w2 r where rem: "applyRemoval ?u ?c w = (Inr (), w1)"
    and audit: "appendAuditInTx ?es w1 = (Inr (), w2)"
    and orphan: "deleteAccountIfOrphaned ?u Flow_member_remove w2 = (Inr r, w4)"
    by (auto simp: andThen_runs succeed_runs)
  note rem = applyRemoval_success[OF rem]
  have "currentValid (w_db w1)" "ownedExcept {} (w_db w1)"
    using rem I currentValid_leave ownedExcept_leave by (auto simp: companyInv_def owned_iff)
  with orphan_keeps[OF orphan, of "{}"] audit_keeps[OF appendAuditInTx_db[OF audit]]
  show "ownedExcept {} (w_db w4) \<and> currentValid (w_db w4)" by (simp add: companyInv_def owned_iff)
qed (intro preserves_intros)

lemma companyInv_switchCurrentCompany [preserves_intros]:
  assumes "auth_frame A" shows "preserves companyInv (switchCurrentCompany A u c)"
proof -
  have "preserves companyInv (transaction A
       (andThen (lockMembershipForShare u c) (\<lambda>targetMembership.
          if targetMembership = None then failWith Forbidden
          else andThen (lockCurrentCompanyOf u) (\<lambda>current.
            let from = (case current of None \<Rightarrow> None | Some lastUsed \<Rightarrow> lastUsed)
            in if from = Some c then succeed ()
               else andDo (updateUserLastUsedCompany u c)
                 (appendAuditInTx [\<lparr>ae_userId = u, ae_event = Company_switched from c\<rparr>])))))"
    (is "preserves companyInv (transaction A ?body)")
  proof (rule companyInv_transaction[OF _ assms])
    fix w :: "'a world" and x w3
    assume I: "companyInv (w_db w)" and run: "?body w = (Inr x, w3)"
    from run obtain t w0 where lock: "lockMembershipForShare u c w = (Inr t, w0)"
      and rest: "(if t = None then failWith Forbidden
          else andThen (lockCurrentCompanyOf u) (\<lambda>current.
            let from = (case current of None \<Rightarrow> None | Some lastUsed \<Rightarrow> lastUsed)
            in if from = Some c then succeed ()
               else andDo (updateUserLastUsedCompany u c)
                 (appendAuditInTx [\<lparr>ae_userId = u, ae_event = Company_switched from c\<rparr>]))) w0 = (Inr x, w3)"
      unfolding andThen_runs by blast
    have t: "t \<noteq> None" using rest by (cases "t = None") (auto simp: failWith_runs)
    from lock t have mem: "isMember (w_db w) u c" and w0: "w_db w0 = w_db w"
      by (auto simp: lockMembershipForShare_def selectFor_runs membershipOf_isMember)
    from rest t obtain current w1 where cur: "lockCurrentCompanyOf u w0 = (Inr current, w1)"
      and rest2: "(let from = (case current of None \<Rightarrow> None | Some lastUsed \<Rightarrow> lastUsed)
            in if from = Some c then succeed ()
               else andDo (updateUserLastUsedCompany u c)
                 (appendAuditInTx [\<lparr>ae_userId = u, ae_event = Company_switched from c\<rparr>])) w1 = (Inr x, w3)"
      unfolding andThen_runs by (auto simp: andThen_runs)
    from cur have w1: "w_db w1 = w_db w" by (simp add: lockCurrentCompanyOf_def selectFor_runs w0)
    show "ownedExcept {} (w_db w3) \<and> currentValid (w_db w3)"
    proof (cases "(case current of None \<Rightarrow> None | Some lastUsed \<Rightarrow> lastUsed) = Some c")
      case True
      with rest2 show ?thesis using I by (simp add: succeed_runs w1 companyInv_def owned_iff)
    next
      case False
      with rest2 obtain w2 es where upd: "updateUserLastUsedCompany u c w1 = (Inr (), w2)"
        and audit: "appendAuditInTx es w2 = (Inr x, w3)" by (auto simp: Let_def andThen_runs)
      from upd have w2: "w_db w2 = setCurrent u c (w_clock w1) (w_db w)"
        by (auto simp: updateUserLastUsedCompany_runs setCurrent_def w1)
      show ?thesis
        using audit_keeps[OF appendAuditInTx_db[OF audit]] I mem
        by (simp add: companyInv_def owned_iff w2 currentValid_setCurrent)
    qed
  qed (unfold Let_def, intro preserves_intros)
  note tx = this
  show ?thesis
    supply preserves_transaction_statementwise [preserves_intros del]
    unfolding switchCurrentCompany_def by (intro preserves_intros tx)
qed

section \<open>Companies\<close>

lemma companyCreated_keeps:
  assumes "companyCreated u n oc t r d d'" "ownedExcept {} d" "currentValid d"
  shows "ownedExcept {} d' \<and> currentValid d'"
proof -
  from assms(1) obtain c i where new: "c \<notin> companyIds d"
    and a: "auditAppended [\<lparr>ae_userId = u, ae_event = Company_created c n oc u\<rparr>]
         (setCurrent u c t (d\<lparr>d_company := d_company d @ [newCompany c n oc t],
            d_membership := d_membership d @ [newOwner i u c t]\<rparr>)) d'"
    unfolding companyCreated_def by blast
  let ?d = "d\<lparr>d_company := d_company d @ [newCompany c n oc t], d_membership := d_membership d @ [newOwner i u c t]\<rparr>"
  have owners: "ownersOf ?d x = ownersOf d x @ (if x = c then [newOwner i u c t] else [])" for x
    by (simp add: ownersOf_def newOwner_def)
  have active: "isActiveCompany ?d x \<longleftrightarrow> x = c \<or> isActiveCompany d x" for x
    by (auto simp: isActiveCompany_def newCompany_def)
  have "ownedExcept {} ?d" using assms(2) by (auto simp: ownedExcept_def owners active)
  moreover have "isMember ?d x y \<longleftrightarrow> isMember d x y \<or> (x = u \<and> y = c)" for x y
    by (auto simp: isMember_iff newOwner_def)
  then have "currentValid (setCurrent u c t ?d)"
    using assms(3) by (intro currentValid_setCurrent) (auto simp: currentValid_def)
  ultimately show ?thesis using audit_keeps[OF a] by simp
qed

lemma companyInv_createCompany [preserves_intros]:
  assumes "auth_frame A"
  shows "preserves companyInv (createSignupCompany A u n oc)" "preserves companyInv (addCompany A u n oc)"
proof -
  have wf: "preserves wf_db (createCompanyWithOwner u n oc :: (createdCompany, 'a) eff)"
    unfolding createCompanyWithOwner_def generateCompanyId_def by (intro preserves_intros)
  have body: "ownedExcept {} (w_db w1) \<and> currentValid (w_db w1)"
    if "companyInv (w_db w)" and "createCompanyWithOwner u n oc w = (Inr r, w1)"
    for w w1 :: "'a world" and r
    using companyCreated_keeps[OF createCompanyWithOwner_success[OF that(2)]] that(1)
    by (simp add: companyInv_def owned_iff)
  show "preserves companyInv (addCompany A u n oc)"
    unfolding addCompany_def
    by (rule companyInv_transaction) (erule (1) body, rule assms, rule wf)
  show "preserves companyInv (createSignupCompany A u n oc)"
    unfolding createSignupCompany_def
  proof (rule companyInv_transaction[OF _ assms])
    fix w :: "'a world" and r w1
    assume I: "companyInv (w_db w)" and run: "andDo (lockMembershipChangesOfUser u)
     (andThen (countActiveMembershipsByUserId u) (\<lambda>k.
       if k > 0 then failWith AlreadyExists else createCompanyWithOwner u n oc)) w = (Inr r, w1)"
    from run obtain w2 where "createCompanyWithOwner u n oc w2 = (Inr r, w1)" and "w_db w2 = w_db w"
      by (auto simp: andThen_runs lockMembershipChangesOfUser_def lockDb_runs
          countActiveMembershipsByUserId_def select_runs failWith_runs split: if_splits)
    with body[of w2 r w1] I show "ownedExcept {} (w_db w1) \<and> currentValid (w_db w1)" by simp
  qed (intro preserves_intros wf)
qed

text \<open>An update of a company's name and kind touches neither its status nor its members.\<close>

lemma companyInv_updateActive:
  assumes "\<And>now c. co_id (f now c) = co_id c \<and> co_activationStatus (f now c) = co_activationStatus c"
  shows "sqlKeeps companyInv (updateActiveCompany i f)"
proof -
  have wf: "sqlKeeps wf_db (updateActiveCompany i f)"
    by (rule sqlKeeps_updateActiveCompany) (simp add: assms)
  have "isActiveCompany (d\<lparr>d_company := updateWhere P (f now) (d_company d)\<rparr>) c = isActiveCompany d c" for P now d c
  proof -
    have "(\<exists>r\<in>set (updateWhere P (f now) rs). co_id r = c \<and> co_activationStatus r = ACTIVE) =
      (\<exists>r\<in>set rs. co_id r = c \<and> co_activationStatus r = ACTIVE)" for rs
      by (induction rs) (auto simp: assms)
    then show ?thesis by (simp add: isActiveCompany_def)
  qed
  then show ?thesis
    using wf by (auto simp: sqlKeeps_def companyInv_def updateActiveCompany_def Let_def owned_def
        currentValid_def ownersOf_def isMember_def)
qed

lemma sqlKeeps_companyInv_audit [preserves_intros]: "sqlKeeps companyInv (insertAuditLogsSql rows)"
  using sqlKeeps_insertAuditLogs[of rows]
  by (auto simp: sqlKeeps_def companyInv_def insertAuditLogsSql_def owned_def currentValid_def ownersOf_def
      isMember_def isActiveCompany_def split: if_splits)

lemma companyInv_updateCompanyInfo [preserves_intros]:
  assumes "auth_frame A" shows "preserves companyInv (updateCompanyInfo A m n oc)"
  unfolding updateCompanyInfo_def updateCompany_def Let_def
  by (intro preserves_intros companyInv_updateActive assms) simp

lemma orphans_keep:
  assumes "filterEff (\<lambda>u. mapEff (\<lambda>r. r = Deleted) (deleteAccountIfOrphaned u flow)) us w = (Inr ids, w')"
    and "currentValid (w_db w)" "ownedExcept S (w_db w)"
  shows "currentValid (w_db w') \<and> ownedExcept S (w_db w')"
  using assms
proof (induction us arbitrary: w ids)
  case (Cons u us)
  from Cons.prems(1) obtain r w1 zs where one: "deleteAccountIfOrphaned u flow w = (Inr r, w1)"
    and rest: "filterEff (\<lambda>u. mapEff (\<lambda>r. r = Deleted) (deleteAccountIfOrphaned u flow)) us w1 = (Inr zs, w')"
    by (auto simp: filterEff_runs mapEff_runs)
  from orphan_keeps[OF one Cons.prems(2,3)] Cons.IH[OF rest] show ?case by simp
qed (simp add: filterEff_runs)

section \<open>Deleting a company\<close>

lemma deleteCompanyBody_success:
  assumes "deleteCompanyBody a c w = (Inr ids, w')"
  shows "\<exists>target. at0 (filter (\<lambda>x. co_id x = c) (d_company (w_db w))) = Some target \<and>
    (if co_activationStatus target \<noteq> ACTIVE then ids = [] \<and> w_db w' = w_db w
     else (\<exists>m. membershipOf (w_db w) a c = Some m \<and> mb_role m = OWNER) \<and>
      (\<exists>w1 revoked w2 w3 removed w4 w5 w6 x w7. w_db w1 = w_db w \<and> w_clock w1 = w_clock w \<and>
        revokePendingInvitationsOfCompany c w1 = (Inr revoked, w2) \<and>
        appendAuditInTx (map (\<lambda>i. invitationRevokedEntry a (iv_id i) c) revoked) w2 = (Inr (), w3) \<and>
        applyCompanyRemoval c w3 = (Inr removed, w4) \<and>
        appendAuditInTx (map (\<lambda>m. membershipRemovedEntry a c (mb_userId m) (mb_role m)) removed) w4 = (Inr (), w5) \<and>
        filterEff (\<lambda>u. mapEff (\<lambda>r. r = Deleted) (deleteAccountIfOrphaned u Flow_company_delete))
          (sort (dedupe (map mb_userId removed))) w5 = (Inr ids, w6) \<and>
        softDeleteCompany c w6 = (Inr x, w7) \<and>
        appendAuditInTx [\<lparr>ae_userId = a, ae_event = Company_deleted c (co_name target) a\<rparr>] w7 = (Inr (), w')))"
proof -
  let ?found = "at0 (filter (\<lambda>x. co_id x = c) (d_company (w_db w)))"
  let ?rest = "\<lambda>target am.
    (if \<not> isAtLeast (mb_role am) OWNER then failWith Forbidden
     else andThen (revokePendingInvitationsOfCompany c) (\<lambda>revoked.
       andDo (appendAuditInTx (map (\<lambda>i. invitationRevokedEntry a (iv_id i) c) revoked))
       (andThen (applyCompanyRemoval c) (\<lambda>removed.
       andDo (appendAuditInTx (map (\<lambda>m. membershipRemovedEntry a c (mb_userId m) (mb_role m)) removed))
       (andThen (filterEff (\<lambda>u. mapEff (\<lambda>r. r = Deleted) (deleteAccountIfOrphaned u Flow_company_delete))
                 (sort (dedupe (map mb_userId removed)))) (\<lambda>ids.
       andDo (softDeleteCompany c)
       (andDo (appendAuditInTx [\<lparr>ae_userId = a, ae_event = Company_deleted c (co_name target) a\<rparr>])
         (succeed ids))))))))"
  let ?act = "\<lambda>target. (if co_activationStatus target \<noteq> ACTIVE then succeed []
     else andThen (findMembership a c) (\<lambda>m. case m of None \<Rightarrow> failWith Forbidden | Some am \<Rightarrow> ?rest target am))"
  from assms obtain l w00 found w0 where lock: "lockOwnerMembershipsOfCompany c w = (Inr l, w00)"
    and find: "findCompanyById c w00 = (Inr found, w0)"
    and step: "(case found of None \<Rightarrow> failWith Forbidden | Some target \<Rightarrow> ?act target) w0 = (Inr ids, w')"
    unfolding deleteCompanyBody_def andThen_runs by blast
  have w0: "w_db w0 = w_db w" "w_clock w0 = w_clock w" and "found = ?found"
    using lock find by (auto simp: lockOwnerMembershipsOfCompany_def lockDb_runs findCompanyById_runs)
  with step have body: "(case ?found of None \<Rightarrow> failWith Forbidden | Some target \<Rightarrow> ?act target) w0 = (Inr ids, w')"
    by simp
  from body obtain target where t: "?found = Some target" and act: "?act target w0 = (Inr ids, w')"
    by (cases ?found) (simp_all add: failWith_runs)
  show ?thesis
  proof (cases "co_activationStatus target = ACTIVE")
    case False
    with act t w0 show ?thesis by (auto simp: succeed_runs)
  next
    case True
    from act True have "andThen (findMembership a c)
        (\<lambda>m. case m of None \<Rightarrow> failWith Forbidden | Some am \<Rightarrow> ?rest target am) w0 = (Inr ids, w')"
      by (simp only: True simp_thms if_False)
    then obtain m w1 where find: "findMembership a c w0 = (Inr m, w1)"
      and step: "(case m of None \<Rightarrow> failWith Forbidden | Some am \<Rightarrow> ?rest target am) w1 = (Inr ids, w')"
      unfolding andThen_runs by blast
    from step obtain am where m: "m = Some am" and rest: "?rest target am w1 = (Inr ids, w')"
      by (cases m) (simp_all add: failWith_runs)
    from find have am: "membershipOf (w_db w) a c = Some am" and w1: "w_db w1 = w_db w" "w_clock w1 = w_clock w"
      by (auto simp: findMembership_def select_runs w0 m)
    from rest have owner: "mb_role am = OWNER" by (cases "mb_role am = OWNER") (simp_all add: failWith_runs)
    from rest obtain revoked w2 w3 removed w4 w5 w6 x w7 where
      "revokePendingInvitationsOfCompany c w1 = (Inr revoked, w2)"
      "appendAuditInTx (map (\<lambda>i. invitationRevokedEntry a (iv_id i) c) revoked) w2 = (Inr (), w3)"
      "applyCompanyRemoval c w3 = (Inr removed, w4)"
      "appendAuditInTx (map (\<lambda>m. membershipRemovedEntry a c (mb_userId m) (mb_role m)) removed) w4 = (Inr (), w5)"
      "filterEff (\<lambda>u. mapEff (\<lambda>r. r = Deleted) (deleteAccountIfOrphaned u Flow_company_delete))
          (sort (dedupe (map mb_userId removed))) w5 = (Inr ids, w6)"
      "softDeleteCompany c w6 = (Inr x, w7)"
      "appendAuditInTx [\<lparr>ae_userId = a, ae_event = Company_deleted c (co_name target) a\<rparr>] w7 = (Inr (), w')"
      using owner by (auto simp: andThen_runs succeed_runs)
    with True t am owner w1 show ?thesis by auto
  qed
qed

lemma softDeleteCompany_success:
  assumes "softDeleteCompany c w = (Inr x, w')"
  shows "d_membership (w_db w') = d_membership (w_db w)" "d_user (w_db w') = d_user (w_db w)"
    "d_invitation (w_db w') = d_invitation (w_db w)" "logged (w_db w') = logged (w_db w)"
    "isActiveCompany (w_db w') y \<longleftrightarrow> y \<noteq> c \<and> isActiveCompany (w_db w) y"
proof -
  let ?P = "\<lambda>x. co_id x = c \<and> co_activationStatus x = ACTIVE"
  let ?f = "\<lambda>x. x\<lparr>co_activationStatus := DELETED, co_deletedAt := Some (w_clock w), co_updatedAt := w_clock w\<rparr>"
  from assms have d: "w_db w' = (w_db w)\<lparr>d_company := updateWhere ?P ?f (d_company (w_db w))\<rparr>"
    by (auto simp: softDeleteCompany_def updateActiveCompany_def tryDb_runs Let_def)
  then show "d_membership (w_db w') = d_membership (w_db w)" "d_user (w_db w') = d_user (w_db w)"
    "d_invitation (w_db w') = d_invitation (w_db w)" "logged (w_db w') = logged (w_db w)"
    by (simp_all add: logged_def)
  have "(\<exists>r\<in>set (updateWhere ?P ?f rs). co_id r = y \<and> co_activationStatus r = ACTIVE) =
    (y \<noteq> c \<and> (\<exists>r\<in>set rs. co_id r = y \<and> co_activationStatus r = ACTIVE))" for rs
    by (induction rs) auto
  then show "isActiveCompany (w_db w') y \<longleftrightarrow> y \<noteq> c \<and> isActiveCompany (w_db w) y"
    by (simp add: d isActiveCompany_def)
qed

lemma settle_keeps [simp]:
  "ownedExcept S (settle P s t d) \<longleftrightarrow> ownedExcept S d" "currentValid (settle P s t d) \<longleftrightarrow> currentValid d"
  "isActiveCompany (settle P s t d) c \<longleftrightarrow> isActiveCompany d c" "isMember (settle P s t d) x c \<longleftrightarrow> isMember d x c"
  "ownersOf (settle P s t d) c = ownersOf d c" "activeJoin (settle P s t d) x = activeJoin d x"
  by (simp_all add: settle_def ownedExcept_def currentValid_def isActiveCompany_def isMember_def
      ownersOf_def activeJoin_def)

lemma revokePending_success:
  assumes "revokePendingInvitationsOfCompany c w = (Inr rows, w')"
  shows "w_db w' = settle (\<lambda>v. iv_companyId v = c) REVOKED (w_clock w) (w_db w)" "w_clock w' = w_clock w"
    "rows = map (invitationStatusColumns REVOKED (w_clock w))
      (filter (\<lambda>i. iv_companyId i = c \<and> iv_status i = PENDING) (d_invitation (w_db w)))"
  using assms by (auto simp: markInvitation_runs settlePending_runs settle_def)

lemma deleteCompanyBody_keeps:
  assumes run: "deleteCompanyBody a c w = (Inr ids, w')" and I: "companyInv (w_db w)"
  shows "ownedExcept {} (w_db w') \<and> currentValid (w_db w')"
proof -
  have base: "ownedExcept {} (w_db w)" "currentValid (w_db w)"
    using I by (simp_all add: companyInv_def owned_iff)
  from deleteCompanyBody_success[OF run] obtain target where
    "at0 (filter (\<lambda>x. co_id x = c) (d_company (w_db w))) = Some target" and
    act: "if co_activationStatus target \<noteq> ACTIVE then ids = [] \<and> w_db w' = w_db w
     else (\<exists>m. membershipOf (w_db w) a c = Some m \<and> mb_role m = OWNER) \<and>
      (\<exists>w1 revoked w2 w3 removed w4 w5 w6 x w7. w_db w1 = w_db w \<and> w_clock w1 = w_clock w \<and>
        revokePendingInvitationsOfCompany c w1 = (Inr revoked, w2) \<and>
        appendAuditInTx (map (\<lambda>i. invitationRevokedEntry a (iv_id i) c) revoked) w2 = (Inr (), w3) \<and>
        applyCompanyRemoval c w3 = (Inr removed, w4) \<and>
        appendAuditInTx (map (\<lambda>m. membershipRemovedEntry a c (mb_userId m) (mb_role m)) removed) w4 = (Inr (), w5) \<and>
        filterEff (\<lambda>u. mapEff (\<lambda>r. r = Deleted) (deleteAccountIfOrphaned u Flow_company_delete))
          (sort (dedupe (map mb_userId removed))) w5 = (Inr ids, w6) \<and>
        softDeleteCompany c w6 = (Inr x, w7) \<and>
        appendAuditInTx [\<lparr>ae_userId = a, ae_event = Company_deleted c (co_name target) a\<rparr>] w7 = (Inr (), w'))"
    by (elim exE conjE) (rule that)
  show ?thesis
  proof (cases "co_activationStatus target = ACTIVE")
    case False
    with act base show ?thesis by simp
  next
    case True
    with act obtain w1 revoked w2 w3 removed w4 w5 w6 x w7 where
      w1: "w_db w1 = w_db w" and s: "revokePendingInvitationsOfCompany c w1 = (Inr revoked, w2)"
      "appendAuditInTx (map (\<lambda>i. invitationRevokedEntry a (iv_id i) c) revoked) w2 = (Inr (), w3)"
      "applyCompanyRemoval c w3 = (Inr removed, w4)"
      "appendAuditInTx (map (\<lambda>m. membershipRemovedEntry a c (mb_userId m) (mb_role m)) removed) w4 = (Inr (), w5)"
      "filterEff (\<lambda>u. mapEff (\<lambda>r. r = Deleted) (deleteAccountIfOrphaned u Flow_company_delete))
          (sort (dedupe (map mb_userId removed))) w5 = (Inr ids, w6)"
      "softDeleteCompany c w6 = (Inr x, w7)"
      "appendAuditInTx [\<lparr>ae_userId = a, ae_event = Company_deleted c (co_name target) a\<rparr>] w7 = (Inr (), w')"
      by auto
    have i3: "ownedExcept {} (w_db w3)" "currentValid (w_db w3)"
      using audit_keeps[OF appendAuditInTx_db[OF s(2)]] revokePending_success(1)[OF s(1)] base w1
      by simp_all
    let ?d = "(w_db w3)\<lparr>d_membership := filter (\<lambda>m. mb_companyId m \<noteq> c) (d_membership (w_db w3))\<rparr>"
    from applyCompanyRemoval_success[OF s(3)]
    have rem: "removed = filter (\<lambda>m. mb_companyId m = c) (d_membership (w_db w3))"
      and w4: "w_db w4 = reassignCurrent c (map mb_userId removed) (w_clock w3) ?d" by auto
    have mem: "isMember ?d x y \<longleftrightarrow> isMember (w_db w3) x y \<and> y \<noteq> c" for x y
      by (auto simp: isMember_iff)
    have "ownedExcept {c} ?d"
      unfolding ownedExcept_def
    proof (intro allI impI)
      fix y assume y: "y \<notin> {c}" "isActiveCompany ?d y"
      then have "ownersOf ?d y = ownersOf (w_db w3) y"
        by (auto simp: ownersOf_def intro!: filter_cong)
      moreover have "isActiveCompany (w_db w3) y" using y by (simp add: isActiveCompany_def)
      ultimately show "ownersOf ?d y \<noteq> []" using i3(1) by (simp add: ownedExcept_def)
    qed
    then have o4: "ownedExcept {c} (w_db w4)" by (simp add: w4)
    have c4: "currentValid (w_db w4)"
      unfolding w4
    proof (rule currentValid_reassign)
      fix u y assume u: "u \<in> set (d_user ?d)" "us_lastUsedCompanyId u = Some y"
        "\<not> (y = c \<and> us_id u \<in> set (map mb_userId removed))"
      then have m: "isMember (w_db w3) (us_id u) y" using i3(2) by (simp add: currentValid_def)
      have "y \<noteq> c" using u(3) m by (force simp: rem isMember_iff)
      with m show "isMember ?d (us_id u) y" by (simp add: mem)
    qed
    from orphans_keep[OF s(5), of "{c}"] o4 c4 audit_keeps[OF appendAuditInTx_db[OF s(4)]]
    have "currentValid (w_db w6)" "ownedExcept {c} (w_db w6)" by simp_all
    then have "currentValid (w_db w7)" "ownedExcept {} (w_db w7)"
      using softDeleteCompany_success[OF s(6)]
      by (auto simp: currentValid_def isMember_def ownedExcept_def ownersOf_def)
    then show ?thesis using audit_keeps[OF appendAuditInTx_db[OF s(7)]] by simp
  qed
qed

lemma companyInv_deleteCompany [preserves_intros]:
  assumes "auth_frame A" shows "preserves companyInv (deleteCompany A m)"
proof -
  have wf: "preserves wf_db (deleteCompanyBody a c)" for a c
    unfolding deleteCompanyBody_def by (intro preserves_intros)
  have tx: "preserves companyInv (transaction A (deleteCompanyBody a c))" for a c
    by (rule companyInv_transaction) (erule (1) deleteCompanyBody_keeps[rotated], rule assms, rule wf)
  show ?thesis
    supply preserves_transaction_statementwise [preserves_intros del]
    unfolding deleteCompany_def Let_def by (intro preserves_intros tx)
qed

section \<open>Invitations\<close>

lemma acceptBody_keeps:
  assumes "acceptBody actor i w = (Inr r, w')" "companyInv (w_db w)"
  shows "ownedExcept {} (w_db w') \<and> currentValid (w_db w')"
proof -
  from acceptBody_success[OF assms(1)] obtain n where
    audit: "auditAppended [\<lparr>ae_userId = ac_id actor, ae_event = Invitation_accepted (iv_id i) (iv_companyId i)
        (ac_id actor) (iv_role i)\<rparr>]
      (setCurrent (ac_id actor) (iv_companyId i) (w_clock w)
        ((settle (\<lambda>v. iv_id v = iv_id i) ACCEPTED (w_clock w) (w_db w))\<lparr>d_membership := d_membership (w_db w) @
          [\<lparr>mb_id = n, mb_userId = ac_id actor, mb_companyId = iv_companyId i, mb_role = iv_role i,
            mb_joinedAt = w_clock w, mb_createdAt = w_clock w, mb_updatedAt = w_clock w\<rparr>]\<rparr>)) (w_db w')"
    by blast
  define s where "s = settle (\<lambda>v. iv_id v = iv_id i) ACCEPTED (w_clock w) (w_db w)"
  define m where "m = \<lparr>mb_id = n, mb_userId = ac_id actor, mb_companyId = iv_companyId i, mb_role = iv_role i,
            mb_joinedAt = w_clock w, mb_createdAt = w_clock w, mb_updatedAt = w_clock w\<rparr>"
  let ?d = "s\<lparr>d_membership := d_membership (w_db w) @ [m]\<rparr>"
  have mem: "isMember ?d x y \<longleftrightarrow> isMember (w_db w) x y \<or> (x = ac_id actor \<and> y = iv_companyId i)" for x y
    by (auto simp: isMember_iff m_def)
  have own: "ownersOf ?d y = ownersOf (w_db w) y @ (if y = iv_companyId i \<and> iv_role i = OWNER then [m] else [])" for y
    by (auto simp: ownersOf_def m_def)
  have act: "isActiveCompany ?d y = isActiveCompany (w_db w) y" for y
    by (simp add: isActiveCompany_def s_def)
  have users: "d_user s = d_user (w_db w)" by (simp add: s_def)
  have base: "ownedExcept {} (w_db w)" "currentValid (w_db w)"
    using assms(2) by (simp_all add: companyInv_def owned_iff)
  have "ownedExcept {} ?d" using base(1) by (simp add: ownedExcept_def own act)
  moreover have "currentValid ?d"
    unfolding currentValid_def
  proof (intro ballI allI impI)
    fix u c assume "u \<in> set (d_user ?d)" "us_lastUsedCompanyId u = Some c"
    then show "isMember ?d (us_id u) c"
      using base(2) mem users by (simp add: currentValid_def)
  qed
  then have "currentValid (setCurrent (ac_id actor) (iv_companyId i) (w_clock w) ?d)"
    by (rule currentValid_setCurrent) (simp add: mem)
  ultimately show ?thesis using audit_keeps[OF audit[folded s_def m_def]] by simp
qed

lemma sqlKeeps_companyInv_invitations [preserves_intros]:
  "sqlKeeps companyInv (settlePending P s)" "sqlKeeps companyInv (insertInvitationSql p)"
proof -
  have settle: "snd (the (settlePending P s now d)) = settle P s now d" for now d
    by (simp add: settlePending_def settle_def Let_def)
  show "sqlKeeps companyInv (settlePending P s)"
    using sqlKeeps_settlePending[of P s]
    by (auto simp: sqlKeeps_def companyInv_def settlePending_def Let_def owned_def currentValid_def
        ownersOf_def isMember_def isActiveCompany_def)
  show "sqlKeeps companyInv (insertInvitationSql p)"
    using sqlKeeps_insertInvitation[of p]
    by (auto simp: sqlKeeps_def companyInv_def insertInvitationSql_def Let_def owned_def currentValid_def
        ownersOf_def isMember_def isActiveCompany_def split: if_splits)
qed

lemma companyInv_createInvitation [preserves_intros]:
  assumes "auth_frame A" shows "preserves companyInv (createInvitation A env url g)"
  unfolding createInvitation_def findOrInsertInvitation_def sendInvitationLink_def insertInvitation_def Let_def
  by (intro preserves_intros assms)

lemma companyInv_revokeInvitation [preserves_intros]:
  assumes "auth_frame A" shows "preserves companyInv (revokeInvitation A m i)"
  unfolding revokeInvitation_def markInvitationRevoked_def Let_def
  by (intro preserves_intros assms)

lemma companyInv_acceptInvitation [preserves_intros]:
  assumes "auth_frame A" shows "preserves companyInv (acceptInvitation A g)"
proof -
  have tx: "preserves companyInv (transaction A (acceptBody a i))" for a i
    by (rule companyInv_transaction) (erule (1) acceptBody_keeps[rotated], rule assms, rule preserves_acceptBody)
  show ?thesis
    supply preserves_transaction_statementwise [preserves_intros del]
    unfolding acceptInvitation_def recordRejectionAndFail_def Let_def by (intro preserves_intros tx)
qed

end
