(* ===== verification/MfaTotpRepo.thy ===== *)
theory MfaTotpRepo
  imports World
begin

text \<open>
  \<open>db/repositories/mfa-totp.ts\<close>: the statements on \<open>mfa_totp\<close> (at most one enrollment per user) and
  \<open>mfa_recovery_code\<close>. The transitions of MFA are conditional updates: \<open>activateMfaTotp\<close> verifies an
  enrollment once, \<open>consumeTotpTimestep\<close> only moves the last used time step forward, and
  \<open>consumeRecoveryCode\<close> marks a code used once.
\<close>

definition generateEnrollmentId :: "(id, 'x) eff" where
  "generateEnrollmentId = randomUUID"

definition generateRecoveryCodeId :: "nat \<Rightarrow> (id, 'x) eff" where
  "generateRecoveryCodeId index =
     mapEff (\<lambda>u. padStart 2 (CHR ''0'') (showNat index) @ ''-'' @ u) randomUUID"

definition totpOf :: "database \<Rightarrow> id \<Rightarrow> mfaTotp option" where
  "totpOf d userId = at0 (filter (\<lambda>t. mt_userId t = userId) (d_mfaTotp d))"

definition findMfaTotp :: "id \<Rightarrow> (mfaTotp option, 'x) eff" where
  "findMfaTotp userId = tryDb (select (\<lambda>d. totpOf d userId))"

definition readMfaVerification :: "id \<Rightarrow> (millis option option, 'x) eff" where
  "readMfaVerification userId = tryDb (select (\<lambda>d. map_option mt_verifiedAt (totpOf d userId)))"

definition unusedCodesOf :: "database \<Rightarrow> id \<Rightarrow> mfaRecoveryCode list" where
  "unusedCodesOf d userId = filter (\<lambda>r. rc_userId r = userId \<and> rc_usedAt r = None) (d_mfaRecoveryCode d)"

definition readMfaStatusRow :: "id \<Rightarrow> ((millis option \<times> nat) option, 'x) eff" where
  "readMfaStatusRow userId = tryDb (select (\<lambda>d.
     map_option (\<lambda>t. (mt_verifiedAt t, length (unusedCodesOf d userId))) (totpOf d userId)))"

record newMfaTotpEnrollment =
  ne_userId :: id
  ne_enrollmentId :: id
  ne_secretCiphertext :: string
  ne_secretIv :: string
  ne_keyVersion :: nat

definition insertMfaTotpEnrollmentSql :: "newMfaTotpEnrollment \<Rightarrow> bool sql" where
  "insertMfaTotpEnrollmentSql v = (\<lambda>now d.
     if ne_userId v \<in> mt_userId ` set (d_mfaTotp d) then Some (False, d)
     else if ne_userId v \<notin> userIds d then None
     else Some (True, d\<lparr>d_mfaTotp := d_mfaTotp d @
       [\<lparr>mt_userId = ne_userId v, mt_enrollmentId = ne_enrollmentId v,
         mt_secretCiphertext = ne_secretCiphertext v, mt_secretIv = ne_secretIv v,
         mt_keyVersion = ne_keyVersion v, mt_verifiedAt = None, mt_lastUsedTimestep = 0,
         mt_createdAt = now\<rparr>]\<rparr>))"

definition insertMfaTotpEnrollment :: "newMfaTotpEnrollment \<Rightarrow> (bool, 'x) eff" where
  "insertMfaTotpEnrollment v = tryDb (insertMfaTotpEnrollmentSql v)"

text \<open>\<open>UPDATE mfa_totp SET \<dots> WHERE \<dots> RETURNING user_id\<close>, and whether it hit one row.\<close>

definition updateTotpWhere :: "(mfaTotp \<Rightarrow> bool) \<Rightarrow> (millis \<Rightarrow> mfaTotp \<Rightarrow> mfaTotp) \<Rightarrow> bool sql" where
  "updateTotpWhere P upd = (\<lambda>now d. Some (length (filter P (d_mfaTotp d)) = 1,
     d\<lparr>d_mfaTotp := updateWhere P (upd now) (d_mfaTotp d)\<rparr>))"

definition activateMfaTotp :: "id \<Rightarrow> id \<Rightarrow> int \<Rightarrow> (bool, 'x) eff" where
  "activateMfaTotp userId enrollmentId usedTimestep = tryDb (updateTotpWhere
     (\<lambda>t. mt_userId t = userId \<and> mt_enrollmentId t = enrollmentId \<and> mt_verifiedAt t = None)
     (\<lambda>now t. t\<lparr>mt_verifiedAt := Some now, mt_lastUsedTimestep := usedTimestep\<rparr>))"

definition consumeTotpTimestep :: "id \<Rightarrow> int \<Rightarrow> (bool, 'x) eff" where
  "consumeTotpTimestep userId timestep = tryDb (updateTotpWhere
     (\<lambda>t. mt_userId t = userId \<and> mt_verifiedAt t \<noteq> None \<and> mt_lastUsedTimestep t < timestep)
     (\<lambda>now t. t\<lparr>mt_lastUsedTimestep := timestep\<rparr>))"

definition deleteMfaTotpSql :: "id \<Rightarrow> nat sql" where
  "deleteMfaTotpSql userId = (\<lambda>now d.
     Some (length (filter (\<lambda>t. mt_userId t = userId) (d_mfaTotp d)),
           d\<lparr>d_mfaTotp := filter (\<lambda>t. mt_userId t \<noteq> userId) (d_mfaTotp d)\<rparr>))"

definition deleteMfaTotp :: "id \<Rightarrow> (nat, 'x) eff" where
  "deleteMfaTotp userId = tryDb (deleteMfaTotpSql userId)"

record newMfaRecoveryCode =
  nr_id :: id
  nr_userId :: id
  nr_codeCiphertext :: string
  nr_codeIv :: string
  nr_keyVersion :: nat

definition recoveryCodeRow :: "newMfaRecoveryCode \<Rightarrow> mfaRecoveryCode" where
  "recoveryCodeRow v = \<lparr>rc_id = nr_id v, rc_userId = nr_userId v, rc_codeCiphertext = nr_codeCiphertext v,
     rc_codeIv = nr_codeIv v, rc_keyVersion = nr_keyVersion v, rc_usedAt = None\<rparr>"

definition insertRecoveryCodesSql :: "newMfaRecoveryCode list \<Rightarrow> unit sql" where
  "insertRecoveryCodesSql vs = (\<lambda>now d.
     if distinct (map nr_id vs) \<and> set (map nr_id vs) \<inter> rc_id ` set (d_mfaRecoveryCode d) = {} \<and>
        set (map nr_userId vs) \<subseteq> userIds d
     then Some ((), d\<lparr>d_mfaRecoveryCode := d_mfaRecoveryCode d @ map recoveryCodeRow vs\<rparr>)
     else None)"

definition insertRecoveryCodes :: "newMfaRecoveryCode list \<Rightarrow> (unit, 'x) eff" where
  "insertRecoveryCodes vs = (if vs = [] then succeed () else tryDb (insertRecoveryCodesSql vs))"

record unusedRecoveryCode =
  ur_id :: id
  ur_codeCiphertext :: string
  ur_codeIv :: string
  ur_keyVersion :: nat

definition listUnusedRecoveryCodes :: "id \<Rightarrow> (unusedRecoveryCode list, 'x) eff" where
  "listUnusedRecoveryCodes userId = tryDb (select (\<lambda>d.
     map (\<lambda>r. \<lparr>ur_id = rc_id r, ur_codeCiphertext = rc_codeCiphertext r, ur_codeIv = rc_codeIv r,
               ur_keyVersion = rc_keyVersion r\<rparr>)
       (sort_key rc_id (unusedCodesOf d userId))))"

definition consumeRecoveryCodeSql :: "id \<Rightarrow> id \<Rightarrow> bool sql" where
  "consumeRecoveryCodeSql userId i = (\<lambda>now d.
     let P = (\<lambda>r. rc_id r = i \<and> rc_userId r = userId \<and> rc_usedAt r = None)
     in Some (length (filter P (d_mfaRecoveryCode d)) = 1,
              d\<lparr>d_mfaRecoveryCode := updateWhere P (\<lambda>r. r\<lparr>rc_usedAt := Some now\<rparr>) (d_mfaRecoveryCode d)\<rparr>))"

definition consumeRecoveryCode :: "id \<Rightarrow> id \<Rightarrow> (bool, 'x) eff" where
  "consumeRecoveryCode userId i = tryDb (consumeRecoveryCodeSql userId i)"

definition deleteRecoveryCodesSql :: "id \<Rightarrow> nat sql" where
  "deleteRecoveryCodesSql userId = (\<lambda>now d.
     Some (length (filter (\<lambda>r. rc_userId r = userId) (d_mfaRecoveryCode d)),
           d\<lparr>d_mfaRecoveryCode := filter (\<lambda>r. rc_userId r \<noteq> userId) (d_mfaRecoveryCode d)\<rparr>))"

definition deleteRecoveryCodesByUserId :: "id \<Rightarrow> (nat, 'x) eff" where
  "deleteRecoveryCodesByUserId userId = tryDb (deleteRecoveryCodesSql userId)"

section \<open>What the statements do\<close>

lemmas mfaTotpRepo_defs [sql_defs] = insertMfaTotpEnrollmentSql_def updateTotpWhere_def
  deleteMfaTotpSql_def insertRecoveryCodesSql_def consumeRecoveryCodeSql_def deleteRecoveryCodesSql_def

lemmas mfa_queries [run_simps] = findMfaTotp_def readMfaVerification_def readMfaStatusRow_def
  listUnusedRecoveryCodes_def

lemma keeps_mfa_queries [keeps_intros]:
  "keeps w_db (findMfaTotp u)" "keeps w_db (readMfaVerification u)" "keeps w_db (readMfaStatusRow u)"
  "keeps w_db (listUnusedRecoveryCodes u)" "keeps w_db generateEnrollmentId"
  "keeps w_db (generateRecoveryCodeId i)"
  unfolding mfa_queries generateEnrollmentId_def generateRecoveryCodeId_def
  by (intro keeps_intros)+

lemmas preserves_mfa_queries [preserves_intros] = keeps_mfa_queries[THEN preserves_keeps]

lemma totpOf_Some: "totpOf d u = Some t \<Longrightarrow> t \<in> set (d_mfaTotp d) \<and> mt_userId t = u"
  by (auto simp: totpOf_def dest: at0_filter_SomeD)

lemma totpOf_None_iff: "totpOf d u = None \<longleftrightarrow> u \<notin> mt_userId ` set (d_mfaTotp d)"
  by (auto simp: totpOf_def filter_empty_conv)

lemma wf_db_totp_filter:
  assumes "wf_db d" "totpOf d u = Some t"
  shows "filter (\<lambda>x. mt_userId x = u \<and> P x) (d_mfaTotp d) = (if P t then [t] else [])"
proof -
  have dist: "distinct (map mt_userId (d_mfaTotp d))" using assms(1) by (simp add: wf_db_def wf_keys_def)
  from totpOf_Some[OF assms(2)] have t: "t \<in> set (d_mfaTotp d)" "mt_userId t = u" by auto
  have "filter (\<lambda>x. mt_userId x = u) (d_mfaTotp d) = [t]"
    using filter_key_single[OF dist t(1)] t(2) by simp
  then have "filter P (filter (\<lambda>x. mt_userId x = u) (d_mfaTotp d)) = (if P t then [t] else [])" by simp
  then show ?thesis by (simp add: conj_commute)
qed

lemma tryDb_updateTotpWhere_runs [run_simps]:
  "tryDb (updateTotpWhere P f) w = (Inr b, w') \<longleftrightarrow>
    w_dbFaults w (w_dbCalls w) = NoFault \<and> b = (length (filter P (d_mfaTotp (w_db w))) = 1) \<and>
    w' = w\<lparr>w_dbCalls := Suc (w_dbCalls w),
           w_db := w_db w\<lparr>d_mfaTotp := updateWhere P (f (w_clock w)) (d_mfaTotp (w_db w))\<rparr>\<rparr>"
  by (auto simp: updateTotpWhere_def tryDb_runs)

lemma consumeRecoveryCode_runs [run_simps]:
  "consumeRecoveryCode u i w = (Inr b, w') \<longleftrightarrow>
    (let P = (\<lambda>r. rc_id r = i \<and> rc_userId r = u \<and> rc_usedAt r = None)
     in w_dbFaults w (w_dbCalls w) = NoFault \<and> b = (length (filter P (d_mfaRecoveryCode (w_db w))) = 1) \<and>
        w' = w\<lparr>w_dbCalls := Suc (w_dbCalls w),
           w_db := w_db w\<lparr>d_mfaRecoveryCode :=
             updateWhere P (\<lambda>r. r\<lparr>rc_usedAt := Some (w_clock w)\<rparr>) (d_mfaRecoveryCode (w_db w))\<rparr>\<rparr>)"
  by (auto simp: consumeRecoveryCode_def consumeRecoveryCodeSql_def tryDb_runs Let_def)

section \<open>The constraints of the schema survive\<close>

lemma sqlKeeps_insertMfaTotpEnrollment [preserves_intros]:
  "sqlKeeps wf_db (insertMfaTotpEnrollmentSql v)"
  by (auto simp: sqlKeeps_def insertMfaTotpEnrollmentSql_def wf_db_def wf_keys_def wf_refs_def
      companyIds_def userIds_def split: if_splits)

lemma sqlKeeps_updateTotpWhere [preserves_intros]:
  assumes "\<And>now t. mt_userId (f now t) = mt_userId t"
  shows "sqlKeeps wf_db (updateTotpWhere P f)"
proof -
  have keys: "map mt_userId (updateWhere P (f now) ts) = map mt_userId ts" for now ts
    by (rule map_key_updateWhere) (rule assms)
  show ?thesis
    by (auto simp: sqlKeeps_def updateTotpWhere_def wf_db_def wf_keys_def wf_refs_def
        companyIds_def userIds_def keys in_updateWhere assms)
qed

lemma sqlKeeps_deleteMfa [preserves_intros]:
  "sqlKeeps wf_db (deleteMfaTotpSql u)" "sqlKeeps wf_db (deleteRecoveryCodesSql u)"
  by (auto simp: sqlKeeps_def deleteMfaTotpSql_def deleteRecoveryCodesSql_def wf_db_def wf_keys_def
      wf_refs_def companyIds_def userIds_def intro: distinct_map_filterI)

lemma sqlKeeps_insertRecoveryCodes [preserves_intros]: "sqlKeeps wf_db (insertRecoveryCodesSql vs)"
  by (auto simp: sqlKeeps_def insertRecoveryCodesSql_def wf_db_def wf_keys_def wf_refs_def
      companyIds_def userIds_def recoveryCodeRow_def comp_def split: if_splits)

lemma sqlKeeps_consumeRecoveryCode [preserves_intros]: "sqlKeeps wf_db (consumeRecoveryCodeSql u i)"
proof -
  have keys: "map rc_id (updateWhere P (\<lambda>r. r\<lparr>rc_usedAt := t\<rparr>) rs) = map rc_id rs" for P t rs
    by (rule map_key_updateWhere) simp
  show ?thesis
    by (auto simp: sqlKeeps_def consumeRecoveryCodeSql_def Let_def wf_db_def wf_keys_def wf_refs_def
        companyIds_def userIds_def keys in_updateWhere)
qed

lemma preserves_mfaTotpRepo [preserves_intros]:
  "preserves wf_db (insertMfaTotpEnrollment v)" "preserves wf_db (activateMfaTotp u e t)"
  "preserves wf_db (consumeTotpTimestep u t)" "preserves wf_db (deleteMfaTotp u)"
  "preserves wf_db (insertRecoveryCodes vs)" "preserves wf_db (consumeRecoveryCode u i)"
  "preserves wf_db (deleteRecoveryCodesByUserId u)"
  unfolding insertMfaTotpEnrollment_def activateMfaTotp_def consumeTotpTimestep_def deleteMfaTotp_def
    insertRecoveryCodes_def consumeRecoveryCode_def deleteRecoveryCodesByUserId_def
  by (intro preserves_intros; simp)+

section \<open>Failures\<close>

lemma throws_mfaTotpRepo [throws_intros]:
  assumes "DbError \<in> E"
  shows "throws E (findMfaTotp u)" "throws E (readMfaVerification u)" "throws E (readMfaStatusRow u)"
    "throws E (listUnusedRecoveryCodes u)" "throws E generateEnrollmentId"
    "throws E (generateRecoveryCodeId n)" "throws E (insertMfaTotpEnrollment v)"
    "throws E (activateMfaTotp u e t)" "throws E (consumeTotpTimestep u t)" "throws E (deleteMfaTotp u)"
    "throws E (insertRecoveryCodes vs)" "throws E (consumeRecoveryCode u i)"
    "throws E (deleteRecoveryCodesByUserId u)"
  unfolding mfa_queries generateEnrollmentId_def generateRecoveryCodeId_def insertMfaTotpEnrollment_def
    activateMfaTotp_def consumeTotpTimestep_def deleteMfaTotp_def insertRecoveryCodes_def
    consumeRecoveryCode_def deleteRecoveryCodesByUserId_def
  by (intro throws_intros assms)+

end
