(* ===== verification/MfaCrypto.thy ===== *)
theory MfaCrypto
  imports Urls MfaTotpRepo
begin

text \<open>
  \<open>src/mfa/totp/cipher.ts\<close>, \<open>totp-engine.ts\<close>, \<open>totp-parameters.ts\<close>, \<open>recovery-codes.ts\<close>: the key ring, the
  encryption at rest of secrets and recovery codes, the check of a TOTP code and the generation of
  recovery codes. AES-GCM, the TOTP library, the cookie functions and the random strings of better-auth are
  not part of the repository: they are the fields of \<open>mfa_deps\<close>. The base64 and UTF-8 conversions
  and the unbiased choice of characters are written out.
\<close>

type_synonym bytes = "nat list"

record mfa_deps =
  md_aesEncrypt :: "bytes \<Rightarrow> bytes \<Rightarrow> bytes \<Rightarrow> bytes \<Rightarrow> bytes"
  md_aesDecrypt :: "bytes \<Rightarrow> bytes \<Rightarrow> bytes \<Rightarrow> bytes \<Rightarrow> bytes option"
  md_randomString :: "nat \<Rightarrow> nat \<Rightarrow> string"
  md_validateTotp :: "bytes \<Rightarrow> string \<Rightarrow> millis \<Rightarrow> nat \<Rightarrow> int option"
  md_totpCounter :: "nat \<Rightarrow> millis \<Rightarrow> int"
  md_totpUri :: "string \<Rightarrow> string \<Rightarrow> bytes \<Rightarrow> string"
  md_constantTimeEqual :: "string \<Rightarrow> string \<Rightarrow> bool"
  md_parseCookie :: "string \<Rightarrow> string \<Rightarrow> string option"
  md_serializeSetCookie :: "string \<Rightarrow> string \<Rightarrow> int \<Rightarrow> string"
  md_parseUrl :: url_parser
  md_encryptionKeys :: "string option"
  md_trustedOrigins :: "string option"
  md_appName :: string

section \<open>Bytes and text\<close>

definition base64Char :: "nat \<Rightarrow> char" where
  "base64Char n =
    (if n < 26 then char_of (65 + n)
     else if n < 52 then char_of (71 + n)
     else if n < 62 then char_of (n - 4)
     else if n = 62 then CHR ''+'' else CHR ''/'')"

definition base64Value :: "char \<Rightarrow> nat option" where
  "base64Value c =
    (let n = of_char c :: nat
     in if 65 \<le> n \<and> n \<le> 90 then Some (n - 65)
        else if 97 \<le> n \<and> n \<le> 122 then Some (n - 71)
        else if 48 \<le> n \<and> n \<le> 57 then Some (n + 4)
        else if c = CHR ''+'' then Some 62
        else if c = CHR ''/'' then Some 63
        else None)"

fun encodeBase64 :: "bytes \<Rightarrow> string" where
  "encodeBase64 [] = []"
| "encodeBase64 [a] = [base64Char (a div 4), base64Char ((a mod 4) * 16), CHR ''='', CHR ''='']"
| "encodeBase64 [a, b] =
    [base64Char (a div 4), base64Char ((a mod 4) * 16 + b div 16), base64Char ((b mod 16) * 4), CHR ''='']"
| "encodeBase64 (a # b # c # bs) =
    base64Char (a div 4) # base64Char ((a mod 4) * 16 + b div 16) #
    base64Char ((b mod 16) * 4 + c div 64) # base64Char (c mod 64) # encodeBase64 bs"

text \<open>
  \<open>Buffer.from(text, 'base64')\<close> stops at the first padding character, skips what is not base64, and drops an
  incomplete last byte.
\<close>

fun decodeSextets :: "nat list \<Rightarrow> bytes" where
  "decodeSextets (w # x # y # z # ss) =
    (w * 4 + x div 16) # ((x mod 16) * 16 + y div 4) # ((y mod 4) * 64 + z) # decodeSextets ss"
| "decodeSextets [w, x, y] = [w * 4 + x div 16, (x mod 16) * 16 + y div 4]"
| "decodeSextets [w, x] = [w * 4 + x div 16]"
| "decodeSextets _ = []"

definition decodeBase64 :: "string \<Rightarrow> bytes" where
  "decodeBase64 text =
     decodeSextets (map the (filter (\<lambda>v. v \<noteq> None) (map base64Value (takeWhile (\<lambda>c. c \<noteq> CHR ''='') text))))"

text \<open>
  UTF-8, for the first 256 code points (the characters of the model). What is not UTF-8 decodes to a
  substitute, as \<open>TextDecoder\<close> does.
\<close>

fun encodeUtf8 :: "string \<Rightarrow> bytes" where
  "encodeUtf8 [] = []"
| "encodeUtf8 (c # s) =
    (let n = of_char c in if n < 128 then n # encodeUtf8 s
     else (192 + n div 64) # (128 + n mod 64) # encodeUtf8 s)"

fun decodeUtf8 :: "bytes \<Rightarrow> string" where
  "decodeUtf8 [] = []"
| "decodeUtf8 [n] = [if n < 128 then char_of n else CHR 0x1A]"
| "decodeUtf8 (n # m # bs) =
    (if n < 128 then char_of n # decodeUtf8 (m # bs)
     else if (n = 194 \<or> n = 195) \<and> 128 \<le> m \<and> m < 192
     then char_of ((n - 192) * 64 + (m - 128)) # decodeUtf8 bs
     else CHR 0x1A # decodeUtf8 (m # bs))"

section \<open>The key ring\<close>

record keyRing =
  kr_currentVersion :: nat
  kr_keys :: "(nat \<times> bytes) list"

definition KEY_BYTES :: nat where "KEY_BYTES = 32"

text \<open>\<open>KEY_ENTRY\<close>: the version and the base64 text of an entry \<open>v<version>:<key>\<close>.\<close>

definition matchKeyEntry :: "string \<Rightarrow> (nat \<times> string) option" where
  "matchKeyEntry s =
     (case s of
        [] \<Rightarrow> None
      | c # r \<Rightarrow>
          (let version = takeWhile isDigit r; rest = dropWhile isDigit r
           in if c \<noteq> CHR ''v'' \<or> version = [] \<or> hd version = CHR ''0'' then None
              else (case rest of
                      [] \<Rightarrow> None
                    | d # key \<Rightarrow>
                        (let body = takeWhile (\<lambda>x. base64Value x \<noteq> None) key;
                             pad = dropWhile (\<lambda>x. base64Value x \<noteq> None) key
                         in if d = CHR '':'' \<and> body \<noteq> [] \<and> pad \<in> {'''', ''='', ''==''}
                            then Some (readDigits version, key) else None))))"

fun parseKeyEntries :: "string list \<Rightarrow> (nat \<times> bytes) list \<Rightarrow> (nat \<times> bytes) list option" where
  "parseKeyEntries [] keys = Some keys"
| "parseKeyEntries (entry # es) keys =
    (case matchKeyEntry (trim entry) of
       None \<Rightarrow> None
     | Some (version, text) \<Rightarrow>
         (if version \<in> fst ` set keys then None
          else (let key = decodeBase64 text
                in if length key \<noteq> KEY_BYTES then None
                   else parseKeyEntries es (keys @ [(version, key)]))))"

definition parseMfaKeyRing :: "string option \<Rightarrow> keyRing option" where
  "parseMfaKeyRing raw =
     (case raw of
        None \<Rightarrow> None
      | Some r \<Rightarrow>
          (if r = [] then None
           else case parseKeyEntries (splitOn (CHR '','') r) [] of
             None \<Rightarrow> None
           | Some keys \<Rightarrow> Some \<lparr>kr_currentVersion = foldr max (map fst keys) 0, kr_keys = keys\<rparr>))"

definition mfaKeyring :: "mfa_deps \<Rightarrow> (keyRing, 'x) eff" where
  "mfaKeyring L = (case parseMfaKeyRing (md_encryptionKeys L) of
     None \<Rightarrow> dieWith KeyRingRejected | Some ring \<Rightarrow> succeed ring)"

section \<open>Encryption at rest\<close>

record encryptedValue =
  ev_ciphertext :: string
  ev_iv :: string
  ev_keyVersion :: nat

definition importAesKey :: "keyRing \<Rightarrow> nat \<Rightarrow> (bytes, 'x) eff" where
  "importAesKey ring version =
     (case map_of (kr_keys ring) version of None \<Rightarrow> dieWith UnknownKeyVersion | Some key \<Rightarrow> succeed key)"

definition encryptValue :: "mfa_deps \<Rightarrow> keyRing \<Rightarrow> bytes \<Rightarrow> string \<Rightarrow> (encryptedValue, 'x) eff" where
  "encryptValue L ring plaintext aad =
     andThen (getRandomValues 12) (\<lambda>iv.
     andThen (importAesKey ring (kr_currentVersion ring)) (\<lambda>key.
       succeed \<lparr>ev_ciphertext = encodeBase64 (md_aesEncrypt L key iv (encodeUtf8 aad) plaintext),
                ev_iv = encodeBase64 iv, ev_keyVersion = kr_currentVersion ring\<rparr>))"

definition decryptValue :: "mfa_deps \<Rightarrow> keyRing \<Rightarrow> encryptedValue \<Rightarrow> string \<Rightarrow> (bytes, 'x) eff" where
  "decryptValue L ring value aad =
     andThen (importAesKey ring (ev_keyVersion value)) (\<lambda>key.
       case md_aesDecrypt L key (decodeBase64 (ev_iv value)) (encodeUtf8 aad) (decodeBase64 (ev_ciphertext value)) of
         None \<Rightarrow> dieWith DecryptFailed
       | Some plaintext \<Rightarrow> succeed plaintext)"

definition decryptText :: "mfa_deps \<Rightarrow> keyRing \<Rightarrow> encryptedValue \<Rightarrow> string \<Rightarrow> (string, 'x) eff" where
  "decryptText L ring value aad = mapEff decodeUtf8 (decryptValue L ring value aad)"

definition secretCipher :: "mfaTotp \<Rightarrow> encryptedValue" where
  "secretCipher row =
     \<lparr>ev_ciphertext = mt_secretCiphertext row, ev_iv = mt_secretIv row, ev_keyVersion = mt_keyVersion row\<rparr>"

definition codeCipher :: "unusedRecoveryCode \<Rightarrow> encryptedValue" where
  "codeCipher row =
     \<lparr>ev_ciphertext = ur_codeCiphertext row, ev_iv = ur_codeIv row, ev_keyVersion = ur_keyVersion row\<rparr>"

section \<open>TOTP\<close>

definition TOTP_PERIOD_SECONDS :: nat where "TOTP_PERIOD_SECONDS = 30"

definition TOTP_DIGITS :: nat where "TOTP_DIGITS = 6"

definition TOTP_WINDOW_STEPS :: nat where "TOTP_WINDOW_STEPS = 1"

definition SECRET_LENGTH :: nat where "SECRET_LENGTH = 32"

definition generateTotpSecret :: "mfa_deps \<Rightarrow> (bytes, 'x) eff" where
  "generateTotpSecret L = (\<lambda>w.
     (Inr (encodeUtf8 (md_randomString L (w_drawn w) SECRET_LENGTH)), w\<lparr>w_drawn := Suc (w_drawn w)\<rparr>))"

definition matchTotpCode :: "mfa_deps \<Rightarrow> bytes \<Rightarrow> string \<Rightarrow> millis \<Rightarrow> int option" where
  "matchTotpCode L secret code timestamp =
     (if length code \<noteq> TOTP_DIGITS \<or> \<not> list_all isDigit code then None
      else case md_validateTotp L secret code timestamp TOTP_WINDOW_STEPS of
             None \<Rightarrow> None
           | Some delta \<Rightarrow> Some (md_totpCounter L TOTP_PERIOD_SECONDS timestamp + delta))"

section \<open>Recovery codes\<close>

definition ALPHABET_WITHOUT_LOOKALIKES :: string where
  "ALPHABET_WITHOUT_LOOKALIKES = ''abcdefghjkmnpqrstuvwxyz23456789''"

definition HALF_LENGTH :: nat where "HALF_LENGTH = 5"

definition byteLimit :: nat where
  "byteLimit = 256 - 256 mod length ALPHABET_WITHOUT_LOOKALIKES"

fun takeBytes :: "nat \<Rightarrow> string \<Rightarrow> bytes \<Rightarrow> string" where
  "takeBytes len out [] = out"
| "takeBytes len out (byte # bs) =
    (if byte \<ge> byteLimit then takeBytes len out bs
     else let out' = out @ [ALPHABET_WITHOUT_LOOKALIKES ! (byte mod length ALPHABET_WITHOUT_LOOKALIKES)]
          in if length out' = len then out' else takeBytes len out' bs)"

text \<open>The loop draws until it has enough characters: \<open>None\<close> where it never does.\<close>

partial_function (option) randomCharsFrom :: "nat \<Rightarrow> string \<Rightarrow> 'x world \<Rightarrow> (string \<times> 'x world) option" where
  "randomCharsFrom len out w =
     (if length out < len
      then randomCharsFrom len (takeBytes len out (w_bytes w (w_drawn w) (len * 2)))
             (w\<lparr>w_drawn := Suc (w_drawn w)\<rparr>)
      else Some (out, w))"

definition randomChars :: "nat \<Rightarrow> 'x world \<Rightarrow> (string \<times> 'x world) option" where
  "randomChars len w = randomCharsFrom len [] w"

fun recoveryCodes :: "nat \<Rightarrow> 'x world \<Rightarrow> (string list \<times> 'x world) option" where
  "recoveryCodes 0 w = Some ([], w)"
| "recoveryCodes (Suc n) w =
    (case randomChars HALF_LENGTH w of
       None \<Rightarrow> None
     | Some (left, w1) \<Rightarrow>
         (case randomChars HALF_LENGTH w1 of
            None \<Rightarrow> None
          | Some (right, w2) \<Rightarrow>
              map_option (\<lambda>(codes, w3). ((left @ ''-'' @ right) # codes, w3)) (recoveryCodes n w2)))"

text \<open>A loop that never ends is cut off by the platform.\<close>

definition generateRecoveryCodes :: "nat \<Rightarrow> (string list, 'x) eff" where
  "generateRecoveryCodes n = (\<lambda>w.
     case recoveryCodes n w of None \<Rightarrow> (Inl Interrupt, w) | Some (codes, w') \<Rightarrow> (Inr codes, w'))"

section \<open>Round trips\<close>

lemma base64Value_base64Char: "n < 64 \<Longrightarrow> base64Value (base64Char n) = Some n"
  by (auto simp: base64Char_def base64Value_def Let_def of_char_of)

lemma base64_less_64:
  assumes "n < 64" shows "base64Value (base64Char n) = Some n \<and> base64Char n \<noteq> CHR ''=''"
proof -
  have "base64Value (CHR ''='') = None" by (simp add: base64Value_def)
  with base64Value_base64Char[OF assms] show ?thesis by force
qed

fun sextets :: "bytes \<Rightarrow> nat list" where
  "sextets [] = []"
| "sextets [a] = [a div 4, (a mod 4) * 16]"
| "sextets [a, b] = [a div 4, (a mod 4) * 16 + b div 16, (b mod 16) * 4]"
| "sextets (a # b # c # bs) =
    [a div 4, (a mod 4) * 16 + b div 16, (b mod 16) * 4 + c div 64, c mod 64] @ sextets bs"

lemma encodeBase64_sextets:
  "\<exists>pad. encodeBase64 bs = map base64Char (sextets bs) @ pad \<and> (pad = [] \<or> hd pad = CHR ''='')"
proof (induction bs rule: sextets.induct)
  case (4 a b c bs) then show ?case by auto
qed auto

lemma split_4: "x div 4 * 4 + x mod 4 = (x :: nat)" "x div 16 * 16 + x mod 16 = x" "x div 64 * 64 + x mod 64 = x"
  by simp_all

lemma sextets_less: "\<forall>b\<in>set bs. b < 256 \<Longrightarrow> s \<in> set (sextets bs) \<Longrightarrow> s < 64"
proof (induction bs rule: sextets.induct)
  case (4 a b c bs)
  have "a div 4 < 64" "b div 16 < 16" "c div 64 < 4" using "4.prems"(1) by (auto simp: div_less_iff_less_mult)
  moreover have "a mod 4 < 4" "b mod 16 < 16" "c mod 64 < 64" by simp_all
  ultimately have "s \<in> set (sextets bs) \<or> s < 64" using "4.prems"(2) by auto
  then show ?case using "4.IH" "4.prems"(1) by auto
next
  case (3 a b)
  have "a div 4 < 64" "b div 16 < 16" using "3.prems"(1) by (auto simp: div_less_iff_less_mult)
  moreover have "a mod 4 < 4" "b mod 16 < 16" by simp_all
  ultimately show ?case using "3.prems"(2) by auto
next
  case (2 a)
  have "a div 4 < 64" using "2.prems"(1) by (auto simp: div_less_iff_less_mult)
  moreover have "a mod 4 < 4" by simp
  ultimately show ?case using "2.prems"(2) by auto
qed simp

lemma byte_parts: assumes "(b :: nat) < 256" "(c :: nat) < 256"
  shows "((a mod 4) * 16 + b div 16) div 16 = a mod 4" "((a mod 4) * 16 + b div 16) mod 16 = b div 16"
    "((b mod 16) * 4 + c div 64) div 4 = b mod 16"
proof -
  have "b div 16 < 16" "c div 64 < 4" using assms by (simp_all add: div_less_iff_less_mult)
  then show "((a mod 4) * 16 + b div 16) div 16 = a mod 4" "((a mod 4) * 16 + b div 16) mod 16 = b div 16"
    "((b mod 16) * 4 + c div 64) div 4 = b mod 16" by simp_all
qed

lemma last_parts: assumes "(c :: nat) < 256" shows "((b mod 16) * 4 + c div 64) mod 4 = c div 64"
proof -
  have "c div 64 < 4" using assms by (simp add: div_less_iff_less_mult)
  then show ?thesis by simp
qed

lemma decodeSextets_sextets: "\<forall>b\<in>set bs. b < 256 \<Longrightarrow> decodeSextets (sextets bs) = bs"
proof (induction bs rule: sextets.induct)
  case (4 a b c bs)
  then show ?case using byte_parts(1,2)[of b c a] byte_parts(3)[of b c] last_parts[of c b]
    by (simp add: split_4)
next
  case (3 a b)
  then show ?case using byte_parts(1,2)[of b 0 a] by (simp add: split_4)
next
  case (2 a)
  then show ?case using split_4(1)[of a] by simp
qed simp

lemma decodeBase64_encodeBase64:
  assumes "\<forall>b\<in>set bs. b < 256" shows "decodeBase64 (encodeBase64 bs) = bs"
proof -
  obtain pad where e: "encodeBase64 bs = map base64Char (sextets bs) @ pad" "pad = [] \<or> hd pad = CHR ''=''"
    using encodeBase64_sextets by blast
  have all: "\<forall>c\<in>set (map base64Char (sextets bs)). c \<noteq> CHR ''=''"
    using sextets_less[OF assms] base64_less_64 by auto
  have "takeWhile (\<lambda>c. c \<noteq> CHR ''='') (encodeBase64 bs) = map base64Char (sextets bs)"
    unfolding e(1) using all e(2) by (cases pad) (simp_all add: takeWhile_append2 del: set_map)
  moreover have "\<forall>x\<in>set xs. base64Value (base64Char x) = Some x \<Longrightarrow>
      map the (filter (\<lambda>v. v \<noteq> None) (map base64Value (map base64Char xs))) = xs" for xs
    by (induction xs) auto
  ultimately show ?thesis
    using sextets_less[OF assms] base64_less_64
    by (simp add: decodeBase64_def decodeSextets_sextets[OF assms] del: map_map)
qed

lemma decodeUtf8_encodeUtf8: "decodeUtf8 (encodeUtf8 s) = s"
proof (induction s)
  case (Cons c s)
  define n where "n = (of_char c :: nat)"
  have c: "c = char_of n" "n < 256" by (simp_all add: n_def)
  show ?case
  proof (cases "n < 128")
    case True
    then show ?thesis using Cons c by (cases "encodeUtf8 s") (simp_all add: Let_def)
  next
    case False
    then have "n div 64 = 2 \<or> n div 64 = 3" using c(2) by auto
    moreover have "n = n div 64 * 64 + n mod 64" by simp
    ultimately show ?thesis using Cons c False
      by (auto simp: Let_def)
  qed
qed simp

section \<open>The key ring\<close>

lemma parseKeyEntries_sound:
  assumes "parseKeyEntries es keys = Some keys'" "distinct (map fst keys)" "\<forall>(v, k)\<in>set keys. length k = KEY_BYTES"
  shows "distinct (map fst keys') \<and> (\<forall>(v, k)\<in>set keys'. length k = KEY_BYTES) \<and>
    length keys' = length keys + length es"
  using assms
proof (induction es arbitrary: keys)
  case (Cons e es)
  from Cons.prems(1) obtain v t where m: "matchKeyEntry (trim e) = Some (v, t)"
    and v: "v \<notin> fst ` set keys" and l: "length (decodeBase64 t) = KEY_BYTES"
    and rest: "parseKeyEntries es (keys @ [(v, decodeBase64 t)]) = Some keys'"
    by (auto simp: Let_def split: option.splits prod.splits if_splits)
  show ?case using Cons.IH[OF rest] Cons.prems(2,3) v l by auto
qed auto

lemma foldr_max_in: "xs \<noteq> [] \<Longrightarrow> foldr max xs (0 :: nat) \<in> set xs"
proof (induction xs)
  case (Cons a xs) then show ?case by (cases xs) (auto simp: max_def)
qed simp

lemma foldr_max_ge: "x \<in> set xs \<Longrightarrow> x \<le> foldr max xs (0 :: nat)"
  by (induction xs) auto

lemma parseMfaKeyRing_sound:
  assumes "parseMfaKeyRing raw = Some ring"
  shows "distinct (map fst (kr_keys ring)) \<and> (\<forall>(v, k)\<in>set (kr_keys ring). length k = KEY_BYTES) \<and>
    kr_currentVersion ring \<in> fst ` set (kr_keys ring) \<and>
    (\<forall>v\<in>fst ` set (kr_keys ring). v \<le> kr_currentVersion ring)"
proof -
  from assms obtain r keys where p: "parseKeyEntries (splitOn (CHR '','') r) [] = Some keys"
    and ring: "ring = \<lparr>kr_currentVersion = foldr max (map fst keys) 0, kr_keys = keys\<rparr>"
    by (auto simp: parseMfaKeyRing_def split: option.splits if_splits)
  from parseKeyEntries_sound[OF p] have s: "distinct (map fst keys)" "\<forall>(v, k)\<in>set keys. length k = KEY_BYTES"
    "length keys = length (splitOn (CHR '','') r)" by auto
  then have "map fst keys \<noteq> []" by auto
  from foldr_max_in[OF this] foldr_max_ge[of _ "map fst keys"] s ring show ?thesis by auto
qed

section \<open>What is encrypted can be read again\<close>

text \<open>What is relied on of AES-GCM: decryption inverts encryption, and ciphertexts are bytes.\<close>

definition aes_inverts :: "mfa_deps \<Rightarrow> bool" where
  "aes_inverts L \<longleftrightarrow> (\<forall>k iv aad p. (\<forall>b\<in>set p. b < 256) \<longrightarrow>
     md_aesDecrypt L k iv aad (md_aesEncrypt L k iv aad p) = Some p \<and>
     (\<forall>b\<in>set (md_aesEncrypt L k iv aad p). b < 256))"

definition byteStream :: "'x world \<Rightarrow> bool" where
  "byteStream w \<longleftrightarrow> (\<forall>k n. \<forall>b\<in>set (w_bytes w k n). b < 256)"

lemma encodeUtf8_bytes: "\<forall>b\<in>set (encodeUtf8 s). b < 256"
proof (induction s)
  case (Cons c s)
  have "(of_char c :: nat) div 64 < 4" by (simp add: div_less_iff_less_mult)
  moreover have "(of_char c :: nat) mod 64 < 64" by simp
  ultimately have "192 + (of_char c :: nat) div 64 < 256 \<and> 128 + (of_char c :: nat) mod 64 < 256" by linarith
  with Cons show ?case by (auto simp: Let_def)
qed simp

lemma decryptValue_encryptValue:
  assumes "aes_inverts L" "byteStream w" "\<forall>b\<in>set p. b < 256" "encryptValue L ring p aad w = (Inr v, w1)"
  shows "decryptValue L ring v aad w2 = (Inr p, w2)"
proof -
  from assms(4) obtain key where k: "map_of (kr_keys ring) (kr_currentVersion ring) = Some key"
    and v: "v = \<lparr>ev_ciphertext = encodeBase64 (md_aesEncrypt L key (w_bytes w (w_drawn w) 12) (encodeUtf8 aad) p),
      ev_iv = encodeBase64 (w_bytes w (w_drawn w) 12), ev_keyVersion = kr_currentVersion ring\<rparr>"
    by (auto simp: encryptValue_def importAesKey_def run_simps split: option.splits)
  then show ?thesis
    using assms(1,2,3) by (simp add: decryptValue_def importAesKey_def andThen_def succeed_def
        decodeBase64_encodeBase64 aes_inverts_def byteStream_def)
qed

section \<open>Recovery codes\<close>

definition codeChars :: "char set" where "codeChars = set ALPHABET_WITHOUT_LOOKALIKES"

lemma alphabet_length: "length ALPHABET_WITHOUT_LOOKALIKES = 31" "byteLimit = 248"
  by (simp_all add: ALPHABET_WITHOUT_LOOKALIKES_def byteLimit_def)

lemma takeBytes_props:
  "set out \<subseteq> codeChars \<Longrightarrow> length out < len \<Longrightarrow>
    set (takeBytes len out bs) \<subseteq> codeChars \<and> length (takeBytes len out bs) \<le> len \<and>
    length out \<le> length (takeBytes len out bs) \<and>
    ((\<exists>b\<in>set bs. b < byteLimit) \<longrightarrow> length out < length (takeBytes len out bs))"
proof (induction bs arbitrary: out)
  case (Cons b bs)
  show ?case
  proof (cases "b \<ge> byteLimit")
    case True with Cons show ?thesis by auto
  next
    case False
    let ?c = "ALPHABET_WITHOUT_LOOKALIKES ! (b mod length ALPHABET_WITHOUT_LOOKALIKES)"
    have c: "?c \<in> codeChars" unfolding codeChars_def by (rule nth_mem) (simp add: alphabet_length)
    show ?thesis
    proof (cases "Suc (length out) = len")
      case True with False Cons.prems c show ?thesis by (simp add: Let_def)
    next
      case neq: False
      with Cons.IH[of "out @ [?c]"] Cons.prems c False show ?thesis by (auto simp: Let_def)
    qed
  qed
qed simp

lemma randomCharsFrom_sound:
  assumes "randomCharsFrom len out w = Some r"
  shows "set out \<subseteq> codeChars \<and> length out \<le> len \<longrightarrow>
    length (fst r) = len \<and> set (fst r) \<subseteq> codeChars \<and> w_bytes (snd r) = w_bytes w \<and> w_db (snd r) = w_db w"
proof (rule randomCharsFrom.raw_induct[OF _ assms, where P = "\<lambda>len out w r. set out \<subseteq> codeChars \<and> length out \<le> len \<longrightarrow>
    length (fst r) = len \<and> set (fst r) \<subseteq> codeChars \<and> w_bytes (snd r) = w_bytes w \<and> w_db (snd r) = w_db w"])
  fix f len out w r
  assume IH: "\<And>len out w r. f len out w = Some r \<Longrightarrow> set out \<subseteq> codeChars \<and> length out \<le> len \<longrightarrow>
      length (fst r) = len \<and> set (fst r) \<subseteq> codeChars \<and> w_bytes (snd r) = w_bytes w \<and> w_db (snd r) = w_db w"
    and step: "(if length out < len
      then f len (takeBytes len out (w_bytes w (w_drawn w) (len * 2))) (w\<lparr>w_drawn := Suc (w_drawn w)\<rparr>)
      else Some (out, w)) = Some r"
  show "set out \<subseteq> codeChars \<and> length out \<le> len \<longrightarrow>
    length (fst r) = len \<and> set (fst r) \<subseteq> codeChars \<and> w_bytes (snd r) = w_bytes w \<and> w_db (snd r) = w_db w"
  proof (cases "length out < len")
    case True
    with step have "f len (takeBytes len out (w_bytes w (w_drawn w) (len * 2))) (w\<lparr>w_drawn := Suc (w_drawn w)\<rparr>) = Some r"
      by simp
    from IH[OF this] takeBytes_props[of out len] True show ?thesis by simp
  next
    case False
    with step show ?thesis by auto
  qed
qed

text \<open>Enough randomness: every draw of bytes holds one below the limit. Then the loop ends.\<close>

definition fairBytes :: "'x world \<Rightarrow> bool" where
  "fairBytes w \<longleftrightarrow> (\<forall>k n. n > 0 \<longrightarrow> (\<exists>b\<in>set (w_bytes w k n). b < 248))"

lemma randomCharsFrom_returns:
  "fairBytes w \<Longrightarrow> set out \<subseteq> codeChars \<Longrightarrow> length out \<le> len \<Longrightarrow> randomCharsFrom len out w \<noteq> None"
proof (induction "len - length out" arbitrary: out w rule: less_induct)
  case less
  show ?case
  proof (cases "length out < len")
    case True
    let ?out = "takeBytes len out (w_bytes w (w_drawn w) (len * 2))" and ?w = "w\<lparr>w_drawn := Suc (w_drawn w)\<rparr>"
    have "\<exists>b\<in>set (w_bytes w (w_drawn w) (len * 2)). b < byteLimit"
      using less.prems(1) True by (simp add: fairBytes_def alphabet_length)
    with takeBytes_props[OF less.prems(2) True]
    have out: "set ?out \<subseteq> codeChars" "length ?out \<le> len" "length out < length ?out" by blast+
    then have "randomCharsFrom len ?out ?w \<noteq> None"
      using less.hyps[of ?out ?w] less.prems(1) True by (simp add: fairBytes_def)
    with True show ?thesis by (subst randomCharsFrom.simps) simp
  next
    case False
    then show ?thesis by (subst randomCharsFrom.simps) simp
  qed
qed

definition isRecoveryCode :: "string \<Rightarrow> bool" where
  "isRecoveryCode s \<longleftrightarrow> length s = 11 \<and> s ! 5 = CHR ''-'' \<and>
     set (take 5 s) \<subseteq> set ALPHABET_WITHOUT_LOOKALIKES \<and> set (drop 6 s) \<subseteq> set ALPHABET_WITHOUT_LOOKALIKES"

lemma recoveryCodes_sound:
  "recoveryCodes n w = Some (codes, w') \<Longrightarrow>
    length codes = n \<and> (\<forall>c\<in>set codes. isRecoveryCode c) \<and> w_bytes w' = w_bytes w \<and> w_db w' = w_db w"
proof (induction n arbitrary: w codes)
  case (Suc n)
  from Suc.prems obtain l w1 r w2 cs where l: "randomChars HALF_LENGTH w = Some (l, w1)"
    and r: "randomChars HALF_LENGTH w1 = Some (r, w2)" and cs: "recoveryCodes n w2 = Some (cs, w')"
    and codes: "codes = (l @ ''-'' @ r) # cs"
    by (auto split: option.splits)
  have lr: "length l = 5" "set l \<subseteq> codeChars" "length r = 5" "set r \<subseteq> codeChars"
    "w_bytes w2 = w_bytes w" "w_db w2 = w_db w"
    using l r randomCharsFrom_sound[of HALF_LENGTH "[]" w] randomCharsFrom_sound[of HALF_LENGTH "[]" w1]
    by (auto simp: randomChars_def HALF_LENGTH_def)
  then have "isRecoveryCode (l @ ''-'' @ r)"
    by (simp add: isRecoveryCode_def nth_append codeChars_def)
  with Suc.IH[OF cs] codes lr show ?case by simp
qed simp

lemma recoveryCodes_returns: "fairBytes w \<Longrightarrow> recoveryCodes n w \<noteq> None"
proof (induction n arbitrary: w)
  case (Suc n)
  have one: "randomChars HALF_LENGTH v \<noteq> None" if "fairBytes v" for v :: "'a world"
    using randomCharsFrom_returns[OF that, of "[]"] by (simp add: randomChars_def)
  have fair: "fairBytes v'" if "fairBytes v" "randomChars k v = Some (x, v')" for v v' :: "'a world" and k x
    using randomCharsFrom_sound[of k "[]" v] that by (auto simp: randomChars_def fairBytes_def)
  from one[OF Suc.prems] obtain l w1 where l: "randomChars HALF_LENGTH w = Some (l, w1)" by auto
  from one[OF fair[OF Suc.prems l]] obtain r w2 where r: "randomChars HALF_LENGTH w1 = Some (r, w2)" by auto
  from Suc.IH[OF fair[OF fair[OF Suc.prems l] r]] obtain cs w3 where "recoveryCodes n w2 = Some (cs, w3)" by auto
  with l r show ?case by simp
qed simp

lemma generateRecoveryCodes_runs:
  "generateRecoveryCodes n w = (Inr codes, w') \<longleftrightarrow> recoveryCodes n w = Some (codes, w')"
  by (auto simp: generateRecoveryCodes_def split: option.splits)

section \<open>They leave the database alone\<close>

lemma keeps_mfaCrypto [keeps_intros]:
  "keeps w_db (mfaKeyring L)" "keeps w_db (importAesKey r v)" "keeps w_db (encryptValue L r p a)"
  "keeps w_db (decryptValue L r e a)" "keeps w_db (decryptText L r e a)" "keeps w_db (generateTotpSecret L)"
  "keeps w_db (generateRecoveryCodes n)"
proof -
  show imp: "keeps w_db (importAesKey r v)" for r v
    unfolding importAesKey_def by (intro keeps_intros)
  show "keeps w_db (mfaKeyring L)" unfolding mfaKeyring_def by (intro keeps_intros)
  show "keeps w_db (encryptValue L r p a)" unfolding encryptValue_def by (intro keeps_intros imp)
  show dec: "keeps w_db (decryptValue L r e a)"
    unfolding decryptValue_def by (intro keeps_intros imp)
  show "keeps w_db (decryptText L r e a)" unfolding decryptText_def by (intro keeps_intros dec)
  show "keeps w_db (generateTotpSecret L)" by (simp add: keeps_def generateTotpSecret_def)
  show "keeps w_db (generateRecoveryCodes n)"
    using recoveryCodes_sound by (auto simp: keeps_def generateRecoveryCodes_def split: option.splits)
qed

lemmas preserves_mfaCrypto [preserves_intros] = keeps_mfaCrypto[THEN preserves_keeps]

end
