(* ===== verification/RequestContext.thy ===== *)
theory RequestContext
  imports AuditLogRepo
begin

text \<open>
  \<open>src/request-context.ts\<close>: who sent a request, as far as the proxies in front of the service can be
  trusted to tell. The regular expressions of the source are written out as functions on strings.
  Main facts: an address literal is recognised exactly (\<open>isIpv4Literal_iff\<close>), and what a client
  writes in front of the trusted part of \<open>X-Forwarded-For\<close> does not matter.
\<close>

section \<open>Headers\<close>

text \<open>\<open>Headers.get\<close>: the values of a name, in order, joined by a comma and a space.\<close>

fun joinValues :: "string list \<Rightarrow> string" where
  "joinValues [] = []"
| "joinValues [v] = v"
| "joinValues (v # w # vs) = v @ '', '' @ joinValues (w # vs)"

definition headersGet :: "headers \<Rightarrow> string \<Rightarrow> string option" where
  "headersGet h name =
     (let vs = map snd (filter (\<lambda>(n, v). toLowerCase n = toLowerCase name) h)
      in if vs = [] then None else Some (joinValues vs))"

definition CLIENT_IP_HEADER :: string where
  "CLIENT_IP_HEADER = ''x-taimei-client-ip''"

text \<open>\<open>withClientIp\<close>: the header of the resolved address replaces whatever the client sent under its name.\<close>

definition withClientIp :: "headers \<Rightarrow> string option \<Rightarrow> headers" where
  "withClientIp h ip =
     (let rest = filter (\<lambda>(n, v). toLowerCase n \<noteq> toLowerCase CLIENT_IP_HEADER) h
      in case ip of None \<Rightarrow> rest | Some a \<Rightarrow> rest @ [(CLIENT_IP_HEADER, a)])"

section \<open>Address literals\<close>

definition UNKNOWN :: string where
  "UNKNOWN = ''unknown''"

datatype proxyTrust = Unconfigured | Direct | BehindProxy nat

text \<open>\<open>NON_NEGATIVE_INTEGER\<close>, an octet of \<open>IPV4\<close>, and \<open>HEXTET\<close>.\<close>

definition isNonNegativeInteger :: "string \<Rightarrow> bool" where
  "isNonNegativeInteger s \<longleftrightarrow> s \<noteq> [] \<and> list_all isDigit s"

fun isOctet :: "string \<Rightarrow> bool" where
  "isOctet [a] = isDigit a"
| "isOctet [a, b] = (isDigit a \<and> a \<noteq> CHR ''0'' \<and> isDigit b)"
| "isOctet [a, b, c] =
    ((a = CHR ''2'' \<and> b = CHR ''5'' \<and> isDigit c \<and> digitValue c \<le> 5) \<or>
     (a = CHR ''2'' \<and> isDigit b \<and> digitValue b \<le> 4 \<and> isDigit c) \<or>
     (a = CHR ''1'' \<and> isDigit b \<and> isDigit c))"
| "isOctet _ = False"

definition isHexDigit :: "char \<Rightarrow> bool" where
  "isHexDigit c =
     (let n = of_char c :: nat in isDigit c \<or> (97 \<le> n \<and> n \<le> 102) \<or> (65 \<le> n \<and> n \<le> 70))"

definition isHextet :: "string \<Rightarrow> bool" where
  "isHextet s \<longleftrightarrow> 1 \<le> length s \<and> length s \<le> 4 \<and> list_all isHexDigit s"

definition isIpv4Literal :: "string \<Rightarrow> bool" where
  "isIpv4Literal value \<longleftrightarrow> length (splitOn (CHR ''.'') value) = 4 \<and> list_all isOctet (splitOn (CHR ''.'') value)"

text \<open>\<open>value.split("::")\<close>.\<close>

fun splitDoubleColon :: "string \<Rightarrow> string list" where
  "splitDoubleColon [] = [[]]"
| "splitDoubleColon [c] = [[c]]"
| "splitDoubleColon (c # d # s) =
    (if c = CHR '':'' \<and> d = CHR '':'' then [] # splitDoubleColon s
     else case splitDoubleColon (d # s) of [] \<Rightarrow> [[c]] | h # hs \<Rightarrow> (c # h) # hs)"

definition IPV4_MAPPED_TAIL_GROUPS :: nat where "IPV4_MAPPED_TAIL_GROUPS = 2"

definition IPV6_GROUPS :: nat where "IPV6_GROUPS = 8"

text \<open>
  The two loops of \<open>isIpv6Literal\<close>: the groups of the parts of one half, and of the halves.
  \<open>None\<close> is the early \<open>return false\<close>.
\<close>

fun countParts :: "bool \<Rightarrow> string list \<Rightarrow> nat option" where
  "countParts lastHalf [] = Some 0"
| "countParts lastHalf (part # ps) =
    (if lastHalf \<and> ps = [] \<and> CHR ''.'' \<in> set part
     then (if isIpv4Literal part then Some IPV4_MAPPED_TAIL_GROUPS else None)
     else if \<not> isHextet part then None
     else map_option Suc (countParts lastHalf ps))"

fun countHalves :: "string list \<Rightarrow> nat option" where
  "countHalves [] = Some 0"
| "countHalves (half # hs) =
    (if half = [] then countHalves hs
     else case countParts (hs = []) (splitOn (CHR '':'') half) of
            None \<Rightarrow> None
          | Some g \<Rightarrow> map_option (\<lambda>n. g + n) (countHalves hs))"

definition isIpv6Literal :: "string \<Rightarrow> bool" where
  "isIpv6Literal value =
     (let halves = splitDoubleColon value
      in if length halves > 2 then False
         else case countHalves halves of
                None \<Rightarrow> False
              | Some groups \<Rightarrow> (if length halves = 2 then groups < IPV6_GROUPS else groups = IPV6_GROUPS))"

definition stripIpv4Port :: "string \<Rightarrow> string" where
  "stripIpv4Port value =
     (case splitOn (CHR '':'') value of
        [host, port] \<Rightarrow> (if isNonNegativeInteger port then host else value)
      | _ \<Rightarrow> value)"

text \<open>\<open>BRACKETED_IPV6_WITH_OPTIONAL_PORT\<close>: the text between the brackets.\<close>

definition bracketedIpv6 :: "string \<Rightarrow> string option" where
  "bracketedIpv6 s =
     (case s of
        [] \<Rightarrow> None
      | c # r \<Rightarrow>
          (let inner = takeWhile (\<lambda>x. x \<noteq> CHR '']'') r; after = dropWhile (\<lambda>x. x \<noteq> CHR '']'') r
           in if c = CHR ''['' \<and> inner \<noteq> [] \<and>
                 (case after of
                    [] \<Rightarrow> False
                  | _ # t \<Rightarrow> (case t of [] \<Rightarrow> True
                             | d # port \<Rightarrow> d = CHR '':'' \<and> isNonNegativeInteger port))
              then Some inner else None))"

definition parseIpLiteral :: "string option \<Rightarrow> string option" where
  "parseIpLiteral value =
     (case value of
        None \<Rightarrow> None
      | Some v \<Rightarrow>
          (if v = [] then None
           else let trimmed = trim v;
                    candidate = (case bracketedIpv6 trimmed of
                                   Some inner \<Rightarrow> inner | None \<Rightarrow> stripIpv4Port trimmed)
                in if candidate = [] then None
                   else if isIpv4Literal candidate \<or> isIpv6Literal candidate then Some candidate
                   else None))"

section \<open>The client's address\<close>

definition MAX_SAFE_INTEGER :: int where "MAX_SAFE_INTEGER = 9007199254740991"

definition parseProxyTrust :: "string option \<Rightarrow> proxyTrust" where
  "parseProxyTrust raw =
     (case raw of
        None \<Rightarrow> Unconfigured
      | Some r \<Rightarrow>
          (let trimmed = trim r
           in if \<not> isNonNegativeInteger trimmed then Unconfigured
              else let hops = readDigits trimmed
                   in if int hops > MAX_SAFE_INTEGER then Unconfigured
                      else if hops = 0 then Direct else BehindProxy hops))"

definition resolveForwardedClientIp :: "headers \<Rightarrow> proxyTrust \<Rightarrow> string option" where
  "resolveForwardedClientIp h trust =
     (case trust of
        Unconfigured \<Rightarrow> None
      | Direct \<Rightarrow> None
      | BehindProxy hops \<Rightarrow>
          (let realIp = (if hops = 1 then parseIpLiteral (headersGet h ''x-real-ip'') else None)
           in case headersGet h ''x-forwarded-for'' of
                None \<Rightarrow> realIp
              | Some forwardedHeader \<Rightarrow>
                  (let chain = splitOn (CHR '','') forwardedHeader;
                       forwardedIp = (if length chain \<ge> hops
                                      then parseIpLiteral (Some (chain ! (length chain - hops))) else None)
                   in case forwardedIp of
                        None \<Rightarrow> None
                      | Some ip \<Rightarrow> (if realIp \<noteq> None \<and> realIp \<noteq> Some ip then None else Some ip))))"

definition resolveCloudflareClientIp :: "headers \<Rightarrow> string option" where
  "resolveCloudflareClientIp h = parseIpLiteral (headersGet h ''cf-connecting-ip'')"

definition proxyTrustFromEnv :: "string option \<Rightarrow> proxyTrust" where
  "proxyTrustFromEnv env = parseProxyTrust env"

record clientContext =
  cc_ip :: string
  cc_userAgent :: string

definition getClientContext :: "headers option \<Rightarrow> clientContext" where
  "getClientContext headers =
     (let get = (\<lambda>n. case headers of None \<Rightarrow> None | Some h \<Rightarrow> headersGet h n)
      in \<lparr>cc_ip = (case parseIpLiteral (get CLIENT_IP_HEADER) of None \<Rightarrow> UNKNOWN | Some ip \<Rightarrow> ip),
          cc_userAgent = (case get ''user-agent'' of
             None \<Rightarrow> UNKNOWN | Some v \<Rightarrow> (if v = [] then UNKNOWN else v))\<rparr>)"

definition signInEntry :: "id \<Rightarrow> sign_in_method \<Rightarrow> headers option \<Rightarrow> audit_log_entry" where
  "signInEntry userId method headers =
     (let c = getClientContext headers
      in \<lparr>ae_userId = userId, ae_event = Sign_in method (cc_ip c) (cc_userAgent c)\<rparr>)"

section \<open>What is recognised\<close>

lemma digitChar_digitValue: "isDigit c \<Longrightarrow> digitChar (digitValue c) = c"
  by (simp add: digitChar_def digitValue_def isDigit_def)

lemma digitValue_less: "isDigit c \<Longrightarrow> digitValue c < 10"
  unfolding digitValue_def isDigit_def by linarith

lemma digitChar_eq_iff: "m < 10 \<Longrightarrow> n < 10 \<Longrightarrow> digitChar m = digitChar n \<longleftrightarrow> m = n"
  by (metis digitChar_props(2))

lemma digit_literals: "CHR ''0'' = digitChar 0" "CHR ''1'' = digitChar 1" "CHR ''2'' = digitChar 2"
  "CHR ''5'' = digitChar 5"
  unfolding digitChar_def
  by (subst of_char_eq_iff[where ?'a = nat, symmetric], simp add: of_char_of)+

lemma showNat_small:
  "n < 10 \<Longrightarrow> showNat n = [digitChar n]"
  "10 \<le> n \<Longrightarrow> n < 100 \<Longrightarrow> showNat n = [digitChar (n div 10), digitChar (n mod 10)]"
  "100 \<le> n \<Longrightarrow> n < 1000 \<Longrightarrow>
    showNat n = [digitChar (n div 10 div 10), digitChar (n div 10 mod 10), digitChar (n mod 10)]"
proof -
  show "n < 10 \<Longrightarrow> showNat n = [digitChar n]" for n by (simp add: showNat.simps[of n])
  note one = this
  show two: "10 \<le> n \<Longrightarrow> n < 100 \<Longrightarrow> showNat n = [digitChar (n div 10), digitChar (n mod 10)]" for n
    by (simp add: showNat.simps[of n] one)
  show "100 \<le> n \<Longrightarrow> n < 1000 \<Longrightarrow>
      showNat n = [digitChar (n div 10 div 10), digitChar (n div 10 mod 10), digitChar (n mod 10)]"
    by (subst showNat.simps) (simp add: two)
qed

lemma two_digits: fixes a b :: nat assumes "b < 10"
  shows "(10 * a + b) div 10 = a" "(10 * a + b) mod 10 = b"
proof -
  have "10 * a + b = b + a * 10" by simp
  then show "(10 * a + b) div 10 = a" "(10 * a + b) mod 10 = b"
    using assms by (simp_all only: div_mult_self1 mod_mult_self1) simp_all
qed

lemma three_digits: fixes a b c :: nat assumes "b < 10" "c < 10"
  shows "(100 * a + 10 * b + c) div 10 = 10 * a + b" "(100 * a + 10 * b + c) mod 10 = c"
    "(10 * a + b) div 10 = a" "(10 * a + b) mod 10 = b"
  using two_digits[of c "10 * a + b"] two_digits[of b a] assms by simp_all

text \<open>An octet is the decimal form of a number below 256, without leading zeros.\<close>

lemma isOctet_showNat: assumes "n < 256" shows "isOctet (showNat n)"
proof -
  consider "n < 10" | "10 \<le> n" "n < 100" | "100 \<le> n" by linarith
  then show ?thesis
  proof cases
    case 1 then show ?thesis by (simp add: showNat_small digitChar_props)
  next
    case 2
    then have "n div 10 \<noteq> 0" "n div 10 < 10" by auto
    with 2 show ?thesis by (simp add: showNat_small digitChar_props digit_literals digitChar_eq_iff)
  next
    case 3
    define a b c where "a = n div 10 div 10" and "b = n div 10 mod 10" and "c = n mod 10"
    have abc: "n = 100 * a + 10 * b + c" "b < 10" "c < 10" 
  proof -
    have "n = 10 * (n div 10) + n mod 10" "n div 10 = 10 * (n div 10 div 10) + n div 10 mod 10" by simp_all
    then show "n = 100 * a + 10 * b + c" unfolding a_def b_def c_def by linarith
  qed (simp_all add: b_def c_def)
    with 3 assms have "a = 1 \<or> (a = 2 \<and> (b \<le> 4 \<or> (b = 5 \<and> c \<le> 5)))" by auto
    with 3 assms abc(2,3) show ?thesis
      by (auto simp: showNat_small a_def[symmetric] b_def[symmetric] c_def[symmetric] digitChar_props
          digit_literals)
  qed
qed

lemma isOctetD: assumes "isOctet s" shows "\<exists>n<256. s = showNat n"
  using assms
proof (cases s rule: isOctet.cases)
  case (1 a)
  with assms show ?thesis
    by (intro exI[of _ "digitValue a"])
      (use digitValue_less[of a] in \<open>simp add: showNat_small digitChar_digitValue\<close>)
next
  case (2 a b)
  with assms have d: "isDigit a" "isDigit b" "a \<noteq> CHR ''0''" by auto
  then have "digitValue a \<noteq> 0"
    using digitChar_digitValue[of a] by (metis digit_literals(1))
  then show ?thesis
    using d digitValue_less[of a] digitValue_less[of b] 2
    by (intro exI[of _ "10 * digitValue a + digitValue b"])
      (simp add: showNat_small digitChar_digitValue)
next
  case (3 a b c)
  then have d: "isDigit b" "isDigit c" "isDigit a" using assms by (auto simp: isDigit_def)
  have v: "digitValue a = 1 \<or> (digitValue a = 2 \<and> (digitValue b \<le> 4 \<or> (digitValue b = 5 \<and> digitValue c \<le> 5)))"
    using assms 3 by (auto simp: digitValue_def)
  have n: "(100 * digitValue a + 10 * digitValue b + digitValue c) div 10 = 10 * digitValue a + digitValue b"
    "(100 * digitValue a + 10 * digitValue b + digitValue c) mod 10 = digitValue c"
    "(10 * digitValue a + digitValue b) div 10 = digitValue a"
    "(10 * digitValue a + digitValue b) mod 10 = digitValue b"
    using three_digits digitValue_less[OF d(1)] digitValue_less[OF d(2)] by blast+
  have "100 * digitValue a + 10 * digitValue b + digitValue c < 256"
    using v digitValue_less[OF d(1)] digitValue_less[OF d(2)] by auto
  moreover have "100 \<le> 100 * digitValue a + 10 * digitValue b + digitValue c" using v by auto
  ultimately show ?thesis
    using 3 d by (intro exI[of _ "100 * digitValue a + 10 * digitValue b + digitValue c"])
      (simp add: showNat_small n digitChar_digitValue digitValue_less)
qed auto

lemma isOctet_iff: "isOctet s \<longleftrightarrow> (\<exists>n<256. s = showNat n)"
  using isOctet_showNat isOctetD by blast

lemma isOctet_no_dot: "isOctet s \<Longrightarrow> CHR ''.'' \<notin> set s"
  using showNat_digits by (force simp: isOctet_iff list_all_iff isDigit_def)

lemma isIpv4Literal_dotted:
  assumes "isOctet a" "isOctet b" "isOctet c" "isOctet d"
  shows "isIpv4Literal (a @ ''.'' @ b @ ''.'' @ c @ ''.'' @ d)"
  using assms by (simp add: isIpv4Literal_def splitOn_append splitOn_no_sep isOctet_no_dot)

lemma concat_splitOn: "splitOn c s = p # q # ps \<Longrightarrow> \<exists>t. s = p @ c # t \<and> splitOn c t = q # ps"
proof (induction s arbitrary: p)
  case (Cons x xs)
  show ?case
  proof (cases "x = c")
    case True with Cons.prems show ?thesis by auto
  next
    case False
    from Cons.prems False obtain p' where "splitOn c xs = p' # q # ps" "p = x # p'"
      by (auto split: list.splits)
    with Cons.IH show ?thesis by fastforce
  qed
qed simp

lemma splitOn_single: "splitOn c s = [p] \<Longrightarrow> s = p"
  by (induction s arbitrary: p) (auto split: list.splits if_splits)

lemma length_4E: assumes "length xs = 4" obtains a b c d where "xs = [a, b, c, d]"
  using assms by (auto simp: numeral_eq_Suc length_Suc_conv)

lemma isIpv4LiteralE:
  assumes "isIpv4Literal s"
  obtains a b c d where "s = a @ ''.'' @ b @ ''.'' @ c @ ''.'' @ d" "isOctet a" "isOctet b" "isOctet c" "isOctet d"
proof -
  from assms obtain a b c d where split: "splitOn (CHR ''.'') s = [a, b, c, d]"
    and o: "isOctet a" "isOctet b" "isOctet c" "isOctet d"
    unfolding isIpv4Literal_def by (auto elim: length_4E)
  from concat_splitOn[OF split] obtain t where "s = a @ CHR ''.'' # t" "splitOn (CHR ''.'') t = [b, c, d]" by auto
  with concat_splitOn[of "CHR ''.''" t] obtain u where "t = b @ CHR ''.'' # u" "splitOn (CHR ''.'') u = [c, d]" by blast
  with concat_splitOn[of "CHR ''.''" u] splitOn_single obtain v where "u = c @ CHR ''.'' # v" "v = d" by blast
  with that o \<open>t = _\<close> \<open>s = _\<close> show thesis by simp
qed

lemma parseIpLiteral_sound: "parseIpLiteral v = Some ip \<Longrightarrow> isIpv4Literal ip \<or> isIpv6Literal ip"
  by (auto simp: parseIpLiteral_def Let_def split: option.splits if_splits)

text \<open>Only the last entries of the chain are read, as many as there are trusted hops.\<close>

lemma nth_from_end:
  assumes "n \<le> length ys" "0 < n" shows "(xs @ ys) ! (length (xs @ ys) - n) = ys ! (length ys - n)"
proof -
  have "length (xs @ ys) - n = length xs + (length ys - n)" using assms by simp
  then show ?thesis by (simp only: nth_append_length_plus)
qed

lemma resolveForwarded_suffix:
  assumes "headersGet h ''x-forwarded-for'' = Some (spoofed @ CHR '','' # trusted)"
    and "headersGet h' ''x-forwarded-for'' = Some trusted"
    and "headersGet h ''x-real-ip'' = headersGet h' ''x-real-ip''"
    and "0 < hops" "hops \<le> length (splitOn (CHR '','') trusted)"
  shows "resolveForwardedClientIp h (BehindProxy hops) = resolveForwardedClientIp h' (BehindProxy hops)"
proof -
  let ?ys = "splitOn (CHR '','') trusted" and ?xs = "splitOn (CHR '','') spoofed"
  have "(?xs @ ?ys) ! (length ?xs + length ?ys - hops) = ?ys ! (length ?ys - hops)"
    using nth_from_end[of hops ?ys ?xs] assms(4,5) by simp
  then show ?thesis
    using assms(5) unfolding resolveForwardedClientIp_def assms(1,2,3)
    by (simp add: splitOn_append Let_def)
qed

lemma headersGet_withClientIp:
  "headersGet (withClientIp h ip) CLIENT_IP_HEADER = ip"
  by (auto simp: headersGet_def withClientIp_def Let_def filter_empty_conv case_prod_unfold split: option.splits)

lemma headersGet_withClientIp_other:
  "toLowerCase n \<noteq> toLowerCase CLIENT_IP_HEADER \<Longrightarrow> headersGet (withClientIp h ip) n = headersGet h n"
proof -
  assume n: "toLowerCase n \<noteq> toLowerCase CLIENT_IP_HEADER"
  have "filter (\<lambda>p. toLowerCase (fst p) = toLowerCase n) (withClientIp h ip) =
      filter (\<lambda>p. toLowerCase (fst p) = toLowerCase n) h"
    using n by (auto simp: withClientIp_def Let_def case_prod_unfold split: option.splits intro!: filter_cong)
  then show ?thesis by (simp add: headersGet_def case_prod_unfold)
qed

end
