(* ===== verification/MfaEnrollment.thy ===== *)
theory MfaEnrollment
  imports MfaCrypto RequestContext AttemptBudget
begin

text \<open>
  \<open>src/mfa/totp\<close> and \<open>src/mfa\<close>: enrolling, activating and disabling TOTP, checking a second factor, and the
  budget of attempts to disable. A pending enrollment is shown again as it is; it is verified once; a
  second factor counts only when the conditional update that consumes it hits its row.
\<close>

section \<open>Helpers\<close>

text \<open>\<open>Effect.forEach\<close>: the results, in order.\<close>

fun collectEff :: "('a \<Rightarrow> ('b, 'x) eff) \<Rightarrow> 'a list \<Rightarrow> ('b list, 'x) eff" where
  "collectEff f [] = succeed []"
| "collectEff f (x # xs) = andThen (f x) (\<lambda>y. mapEff (Cons y) (collectEff f xs))"

datatype mfa_code_kind = KindTotp | KindRecoveryCode

text \<open>\<open>isMfaEnabled\<close>, on the verification time of the row, if there is a row.\<close>

definition isMfaEnabled :: "millis option option \<Rightarrow> bool" where
  "isMfaEnabled row = (case row of Some (Some _) \<Rightarrow> True | _ \<Rightarrow> False)"

definition isMfaChallengeEnabled :: "string option \<Rightarrow> bool" where
  "isMfaChallengeEnabled raw \<longleftrightarrow> raw \<noteq> Some ''false''"

definition mfaChallengeRequired :: "id \<Rightarrow> (bool, 'x) eff" where
  "mfaChallengeRequired userId = mapEff isMfaEnabled (readMfaVerification userId)"

record mfaStatus =
  ms_enabled :: bool
  ms_recoveryCodesRemaining :: nat

definition readOwnedMfaStatus :: "actor \<Rightarrow> (mfaStatus, 'x) eff" where
  "readOwnedMfaStatus actor = andThen (readMfaStatusRow (ac_id actor)) (\<lambda>row.
     let enabled = isMfaEnabled (map_option fst row)
     in succeed \<lparr>ms_enabled = enabled,
                 ms_recoveryCodesRemaining = (if enabled then snd (the row) else 0)\<rparr>)"

definition revokeOtherSessionsOrUnauthorized :: "'x better_auth \<Rightarrow> headers \<Rightarrow> (headers, 'x) eff" where
  "revokeOtherSessionsOrUnauthorized A h =
     catchIf (\<lambda>e. e = SessionRejected) (\<lambda>_. failWith Unauthorized) (revokeOtherSessions A h)"

definition notifyMfaEnabled :: "string \<Rightarrow> (unit, 'x) eff" where
  "notifyMfaEnabled email = runBackground (SendMfaEnabledJob email)"

definition notifyMfaDisabled :: "string \<Rightarrow> (unit, 'x) eff" where
  "notifyMfaDisabled email = runBackground (SendMfaDisabledJob email)"

definition notifyMfaDisabledForManagement ::
    "(string \<Rightarrow> (unit, 'x) eff) \<Rightarrow> string \<Rightarrow> (bool, 'x) eff" where
  "notifyMfaDisabledForManagement sendMfaDisabled email =
     catchIf (\<lambda>_. True) (\<lambda>_. captureCauseAs False ''mfa-notification'')
       (mapEff (\<lambda>_. True) (sendMfaDisabled email))"

section \<open>A second factor\<close>

datatype matchedOwnedCode = MatchedTotp int | MatchedRecoveryCode id

fun firstMatching :: "mfa_deps \<Rightarrow> keyRing \<Rightarrow> id \<Rightarrow> string \<Rightarrow> unusedRecoveryCode list \<Rightarrow> (matchedOwnedCode, 'x) eff" where
  "firstMatching L ring userId code [] = failWith InvalidCode"
| "firstMatching L ring userId code (candidate # rest) =
    andThen (decryptText L ring (codeCipher candidate) userId) (\<lambda>plain.
      if plain \<noteq> code then firstMatching L ring userId code rest
      else succeed (MatchedRecoveryCode (ur_id candidate)))"

definition matchOwnedCode :: "mfa_deps \<Rightarrow> id \<Rightarrow> string \<Rightarrow> mfa_code_kind \<Rightarrow> (matchedOwnedCode, 'x) eff" where
  "matchOwnedCode L userId code kind =
     andThen (mfaKeyring L) (\<lambda>ring.
     andThen (findMfaTotp userId) (\<lambda>found.
       case found of
         None \<Rightarrow> failWith NotEnabled
       | Some row \<Rightarrow>
           (if \<not> isMfaEnabled (Some (mt_verifiedAt row)) then failWith NotEnabled
            else if kind = KindTotp
            then andThen (decryptValue L ring (secretCipher row) userId) (\<lambda>secret.
                 andThen currentTimeMillis (\<lambda>now.
                   case matchTotpCode L secret code now of
                     None \<Rightarrow> failWith InvalidCode
                   | Some timestep \<Rightarrow> succeed (MatchedTotp timestep)))
            else andThen (listUnusedRecoveryCodes userId) (firstMatching L ring userId code))))"

definition consumeMatchedCode :: "id \<Rightarrow> matchedOwnedCode \<Rightarrow> (unit, 'x) eff" where
  "consumeMatchedCode userId matched =
     andThen (case matched of
                MatchedTotp timestep \<Rightarrow> consumeTotpTimestep userId timestep
              | MatchedRecoveryCode i \<Rightarrow> consumeRecoveryCode userId i) (\<lambda>consumed.
       if \<not> consumed then failWith InvalidCode else succeed ())"

section \<open>Enrolling\<close>

record enrollment =
  en_enrollmentId :: id
  en_totpUri :: string
  en_recoveryCodes :: "string list"

definition replayPendingEnrollment :: "mfa_deps \<Rightarrow> actor \<Rightarrow> mfaTotp \<Rightarrow> (enrollment, 'x) eff" where
  "replayPendingEnrollment L actor row =
     (if isMfaEnabled (Some (mt_verifiedAt row)) then failWith AlreadyEnabled
      else andThen (mfaKeyring L) (\<lambda>ring.
           andThen (decryptValue L ring (secretCipher row) (ac_id actor)) (\<lambda>secret.
           andThen (listUnusedRecoveryCodes (ac_id actor)) (\<lambda>stored.
           andThen (collectEff (\<lambda>code. decryptText L ring (codeCipher code) (ac_id actor)) stored) (\<lambda>codes.
             succeed \<lparr>en_enrollmentId = mt_enrollmentId row,
                      en_totpUri = md_totpUri L (md_appName L) (ac_email actor) secret,
                      en_recoveryCodes = codes\<rparr>)))))"

definition newRecoveryCodeRow :: "id \<Rightarrow> nat \<times> encryptedValue \<Rightarrow> (newMfaRecoveryCode, 'x) eff" where
  "newRecoveryCodeRow userId = (\<lambda>(i, code).
     mapEff (\<lambda>rid. \<lparr>nr_id = rid, nr_userId = userId, nr_codeCiphertext = ev_ciphertext code,
                    nr_codeIv = ev_iv code, nr_keyVersion = ev_keyVersion code\<rparr>)
       (generateRecoveryCodeId i))"

definition insertEnrollment :: "id \<Rightarrow> id \<Rightarrow> encryptedValue \<Rightarrow> encryptedValue list \<Rightarrow> (bool, 'x) eff" where
  "insertEnrollment userId enrollmentId encryptedSecret encryptedCodes =
     andThen (insertMfaTotpEnrollment
        \<lparr>ne_userId = userId, ne_enrollmentId = enrollmentId,
         ne_secretCiphertext = ev_ciphertext encryptedSecret, ne_secretIv = ev_iv encryptedSecret,
         ne_keyVersion = ev_keyVersion encryptedSecret\<rparr>) (\<lambda>inserted.
       if \<not> inserted then succeed False
       else andThen (collectEff (newRecoveryCodeRow userId) (enumerate 0 encryptedCodes)) (\<lambda>rows.
            andDo (insertRecoveryCodes rows) (succeed True)))"

definition enroll :: "'x better_auth \<Rightarrow> mfa_deps \<Rightarrow> actor \<Rightarrow> (enrollment, 'x) eff" where
  "enroll A L actor =
     andThen (findMfaTotp (ac_id actor)) (\<lambda>existing.
       case existing of
         Some row \<Rightarrow> replayPendingEnrollment L actor row
       | None \<Rightarrow>
           andThen (mfaKeyring L) (\<lambda>ring.
           andThen (generateTotpSecret L) (\<lambda>secret.
           andThen (generateRecoveryCodes 10) (\<lambda>codes.
           andThen generateEnrollmentId (\<lambda>enrollmentId.
           andThen (encryptValue L ring secret (ac_id actor)) (\<lambda>encryptedSecret.
           andThen (collectEff (\<lambda>code. encryptValue L ring (encodeUtf8 code) (ac_id actor)) codes) (\<lambda>encryptedCodes.
           andThen (transaction A (insertEnrollment (ac_id actor) enrollmentId encryptedSecret encryptedCodes)) (\<lambda>won.
             if won
             then succeed \<lparr>en_enrollmentId = enrollmentId,
                           en_totpUri = md_totpUri L (md_appName L) (ac_email actor) secret,
                           en_recoveryCodes = codes\<rparr>
             else andThen (findMfaTotp (ac_id actor)) (\<lambda>winner.
               case winner of
                 None \<Rightarrow> failWith ChallengeExpired
               | Some row \<Rightarrow> replayPendingEnrollment L actor row)))))))))"

section \<open>Activating\<close>

definition activate ::
    "'x better_auth \<Rightarrow> mfa_deps \<Rightarrow> actor \<Rightarrow> headers \<Rightarrow> id \<Rightarrow> string \<Rightarrow> (headers, 'x) eff" where
  "activate A L actor h enrollmentId code =
     andThen (findMfaTotp (ac_id actor)) (\<lambda>found.
       case found of
         None \<Rightarrow> failWith MfaNotFound
       | Some row \<Rightarrow>
           (if isMfaEnabled (Some (mt_verifiedAt row)) then failWith AlreadyEnabled
            else if enrollmentId \<noteq> mt_enrollmentId row then failWith EnrollmentChanged
            else andThen (mfaKeyring L) (\<lambda>ring.
                 andThen (decryptValue L ring (secretCipher row) (ac_id actor)) (\<lambda>secret.
                 andThen currentTimeMillis (\<lambda>now.
                   case matchTotpCode L secret code now of
                     None \<Rightarrow> failWith InvalidCode
                   | Some timestep \<Rightarrow>
                       andThen (revokeOtherSessionsOrUnauthorized A h) (\<lambda>sessionChanges.
                       andThen (activateMfaTotp (ac_id actor) (mt_enrollmentId row) timestep) (\<lambda>won.
                         if \<not> won then failWith AlreadyEnabled
                         else let c = getClientContext (Some h)
                           in andDo (appendAuditBestEffort \<lparr>ae_userId = ac_id actor,
                                ae_event = Mfa_enabled (Some (cc_ip c)) (cc_userAgent c)\<rparr>)
                             (andDo (notifyMfaEnabled (ac_email actor)) (succeed sessionChanges)))))))))"

section \<open>Disabling\<close>

definition disableAttemptsKey :: "id \<Rightarrow> string" where
  "disableAttemptsKey userId = attemptBudgetKey mfaDisablePerUser userId"

definition spendDisableAttempt :: "id \<Rightarrow> (unit, 'x) eff" where
  "spendDisableAttempt userId =
     catchIf (\<lambda>e. e = AttemptBudgetExhausted \<or> e = AttemptBudgetUnavailable) (\<lambda>_. failWith Locked)
       (mapEff (\<lambda>_. ()) (spendAttemptBudgetFailClosed mfaDisablePerUser userId))"

definition resetDisableAttempts :: "id \<Rightarrow> (unit, 'x) eff" where
  "resetDisableAttempts userId =
     catchIf (\<lambda>e. e = TtlStoreError) (\<lambda>_. captureCause (ab_component mfaDisablePerUser))
       (ttlDelete (disableAttemptsKey userId))"

definition deleteEnrollment :: "'x better_auth \<Rightarrow> id \<Rightarrow> (nat, 'x) eff" where
  "deleteEnrollment A userId = transaction A
     (andThen (deleteMfaTotp userId) (\<lambda>rows.
       andDo (deleteRecoveryCodesByUserId userId) (succeed rows)))"

definition disableEnrollment :: "'x better_auth \<Rightarrow> id \<Rightarrow> string option \<Rightarrow> string \<Rightarrow> (nat, 'x) eff" where
  "disableEnrollment A userId ip userAgent =
     andThen (deleteEnrollment A userId) (\<lambda>deleted.
       andDo (if deleted > 0
              then appendAuditBestEffort \<lparr>ae_userId = userId, ae_event = Mfa_disabled ip userAgent\<rparr>
              else succeed ())
         (succeed deleted))"

definition disable ::
    "'x better_auth \<Rightarrow> mfa_deps \<Rightarrow> actor \<Rightarrow> headers \<Rightarrow> string \<Rightarrow> mfa_code_kind \<Rightarrow> (headers, 'x) eff" where
  "disable A L actor h code kind =
     andThen (readMfaVerification (ac_id actor)) (\<lambda>enrollment.
       if \<not> isMfaEnabled enrollment then failWith NotEnabled
       else andDo (spendDisableAttempt (ac_id actor))
         (andThen (matchOwnedCode L (ac_id actor) code kind) (\<lambda>matched.
          andThen (revokeOtherSessionsOrUnauthorized A h) (\<lambda>sessionChanges.
          andDo (consumeMatchedCode (ac_id actor) matched)
         (andDo (resetDisableAttempts (ac_id actor))
         (andDo (let c = getClientContext (Some h)
                 in disableEnrollment A (ac_id actor) (Some (cc_ip c)) (cc_userAgent c))
         (andDo (notifyMfaDisabled (ac_email actor)) (succeed sessionChanges))))))))"

datatype forceDisableResult = ForceNotFound | ForceUnchanged | ForceDisabled bool

definition forceDisableMfa ::
    "'x better_auth \<Rightarrow> (string \<Rightarrow> (unit, 'x) eff) \<Rightarrow> id \<Rightarrow> (forceDisableResult, 'x) eff" where
  "forceDisableMfa A sendMfaDisabled userId =
     andThen (findUserById userId) (\<lambda>found.
       case found of
         None \<Rightarrow> succeed ForceNotFound
       | Some user \<Rightarrow>
           andThen (readMfaVerification userId) (\<lambda>enrollment.
             if \<not> isMfaEnabled enrollment then andDo (deleteEnrollment A userId) (succeed ForceUnchanged)
             else andThen (disableEnrollment A userId None ''management/disable-user-mfa'') (\<lambda>deleted.
               if deleted = 0 then succeed ForceUnchanged
               else mapEff ForceDisabled (notifyMfaDisabledForManagement sendMfaDisabled (us_email user)))))"

end
