(* ===== verification/LoginChallenge.thy ===== *)
theory LoginChallenge
  imports MfaEnrollment Json
begin

text \<open>
  \<open>src/mfa/totp/login-challenge.ts\<close> and \<open>complete-login-challenge.ts\<close>: the second step of a sign-in. The
  challenge lives in the TTL store for ten minutes under an id that only a signed cookie carries; it may be tried
  five times, and is taken out of the store before the code that answers it is consumed and the session issued.
\<close>

definition LOGIN_CHALLENGE_COOKIE :: string where
  "LOGIN_CHALLENGE_COOKIE = ''mfa_login_challenge''"

definition CHALLENGE_TTL_SECONDS :: int where
  "CHALLENGE_TTL_SECONDS = ab_windowSeconds mfaLoginChallenge"

definition challengeKey :: "string \<Rightarrow> string" where
  "challengeKey challengeId = ownKey MfaLoginChallenge challengeId"

definition attemptsKey :: "string \<Rightarrow> string" where
  "attemptsKey challengeId = attemptBudgetKey mfaLoginChallenge challengeId"

record loginChallenge =
  lc_userId :: id
  lc_redirectUrl :: string
  lc_method :: sign_in_method

record loginChallengeCookie =
  ck_name :: string
  ck_value :: string
  ck_maxAge :: int

fun methodString :: "sign_in_method \<Rightarrow> string" where
  "methodString Magic_link = ''magic_link''"
| "methodString Github = ''github''"

definition parseMethod :: "string \<Rightarrow> sign_in_method option" where
  "parseMethod s = (if s = ''magic_link'' then Some Magic_link else if s = ''github'' then Some Github else None)"

definition signChallengeId :: "'x better_auth \<Rightarrow> string \<Rightarrow> string" where
  "signChallengeId A challengeId = ba_makeSignature A challengeId (ba_secret A)"

definition challengeJson :: "loginChallenge \<Rightarrow> json" where
  "challengeJson c = JObj [(''userId'', JStr (lc_userId c)), (''redirectUrl'', JStr (lc_redirectUrl c)),
     (''method'', JStr (methodString (lc_method c)))]"

definition openLoginChallenge :: "'x better_auth \<Rightarrow> loginChallenge \<Rightarrow> (loginChallengeCookie, 'x) eff" where
  "openLoginChallenge A challenge =
     andThen randomUUID (\<lambda>uuid.
       let challengeId = ''mfa-lc-'' @ uuid
       in andDo (ttlSet (challengeKey challengeId) (stringify (challengeJson challenge)) (Some CHALLENGE_TTL_SECONDS))
          (succeed \<lparr>ck_name = LOGIN_CHALLENGE_COOKIE,
                    ck_value = challengeId @ ''.'' @ signChallengeId A challengeId,
                    ck_maxAge = CHALLENGE_TTL_SECONDS\<rparr>))"

text \<open>\<open>challengeSchema.safeParse(JSON.parse(raw))\<close>: of duplicate members the last one counts.\<close>

definition parseChallenge :: "string option \<Rightarrow> loginChallenge option" where
  "parseChallenge raw =
     (case raw of
        None \<Rightarrow> None
      | Some stored \<Rightarrow>
          (if stored = [] then None
           else case jsonParse stored of
             Some (JObj fs) \<Rightarrow>
               (case (map_of (rev fs) ''userId'', map_of (rev fs) ''redirectUrl'', map_of (rev fs) ''method'') of
                  (Some (JStr u), Some (JStr r), Some (JStr m)) \<Rightarrow>
                    (if u = [] then None
                     else map_option (\<lambda>k. \<lparr>lc_userId = u, lc_redirectUrl = r, lc_method = k\<rparr>) (parseMethod m))
                | _ \<Rightarrow> None)
           | _ \<Rightarrow> None))"

definition clearCookieHeaders :: "mfa_deps \<Rightarrow> headers" where
  "clearCookieHeaders L = [(''set-cookie'', md_serializeSetCookie L LOGIN_CHALLENGE_COOKIE [] 0)]"

text \<open>What is before and after the last dot.\<close>

definition splitAtLastDot :: "string \<Rightarrow> (string \<times> string) option" where
  "splitAtLastDot s =
     (case dropWhile (\<lambda>c. c \<noteq> CHR ''.'') (rev s) of
        [] \<Rightarrow> None
      | _ # before \<Rightarrow> Some (rev before, rev (takeWhile (\<lambda>c. c \<noteq> CHR ''.'') (rev s))))"

definition resolveChallengeId :: "'x better_auth \<Rightarrow> mfa_deps \<Rightarrow> headers \<Rightarrow> string option" where
  "resolveChallengeId A L h =
     (let cookie = (case headersGet h ''cookie'' of None \<Rightarrow> [] | Some c \<Rightarrow> c)
      in case md_parseCookie L cookie LOGIN_CHALLENGE_COOKIE of
           None \<Rightarrow> None
         | Some raw \<Rightarrow>
             (case splitAtLastDot raw of
                None \<Rightarrow> None
              | Some (challengeId, signature) \<Rightarrow>
                  (if challengeId \<noteq> [] \<and> md_constantTimeEqual L signature (signChallengeId A challengeId)
                   then Some challengeId else None)))"

definition peekLoginChallenge ::
    "'x better_auth \<Rightarrow> mfa_deps \<Rightarrow> headers \<Rightarrow> ((string \<times> loginChallenge) option, 'x) eff" where
  "peekLoginChallenge A L h =
     (case resolveChallengeId A L h of
        None \<Rightarrow> succeed None
      | Some challengeId \<Rightarrow>
          andThen (ttlGet (challengeKey challengeId)) (\<lambda>raw.
            succeed (map_option (\<lambda>c. (challengeId, c)) (parseChallenge raw))))"

definition readLoginChallengeState :: "'x better_auth \<Rightarrow> mfa_deps \<Rightarrow> headers \<Rightarrow> (bool, 'x) eff" where
  "readLoginChallengeState A L h = mapEff (\<lambda>c. c \<noteq> None) (peekLoginChallenge A L h)"

definition consumeLoginChallenge :: "mfa_deps \<Rightarrow> string \<Rightarrow> (headers, 'x) eff" where
  "consumeLoginChallenge L challengeId =
     andThen (ttlGetAndDelete (challengeKey challengeId)) (\<lambda>raw.
       if raw = None then failWith ChallengeExpired else succeed (clearCookieHeaders L))"

definition expireLoginChallenge :: "string \<Rightarrow> ('a, 'x) eff" where
  "expireLoginChallenge challengeId =
     andDo (captureMessage ''mfa-login-challenge'')
       (andDo (catchIf (\<lambda>e. e = TtlStoreError) (\<lambda>_. captureCause ''mfa-login-challenge'')
                 (ttlDelete (challengeKey challengeId)))
         (failWith ChallengeExpired))"

text \<open>The number of attempts left; \<open>rejectWrongCode\<close> is the function the source returns in its place.\<close>

definition spendLoginChallengeAttempt :: "string \<Rightarrow> (nat, 'x) eff" where
  "spendLoginChallengeAttempt challengeId =
     catchIf (\<lambda>e. e = AttemptBudgetUnavailable \<or> e = AttemptBudgetExhausted)
       (\<lambda>e. if e = AttemptBudgetUnavailable then failWith Locked else expireLoginChallenge challengeId)
       (spendAttemptBudgetFailClosed mfaLoginChallenge challengeId)"

definition rejectWrongCode :: "string \<Rightarrow> nat \<Rightarrow> ('a, 'x) eff" where
  "rejectWrongCode challengeId attemptsLeft =
     (if attemptsLeft = 0 then expireLoginChallenge challengeId else failWith InvalidCode)"

record challengePassed =
  cp_redirectUrl :: string
  cp_forwardedHeaders :: headers

definition completeLoginChallenge ::
    "'x better_auth \<Rightarrow> mfa_deps \<Rightarrow> headers \<Rightarrow> string \<Rightarrow> mfa_code_kind \<Rightarrow> (challengePassed, 'x) eff" where
  "completeLoginChallenge A L h code kind =
     andThen (peekLoginChallenge A L h) (\<lambda>opened.
       case opened of
         None \<Rightarrow> failWith ChallengeExpired
       | Some (challengeId, challenge) \<Rightarrow>
           andThen (spendLoginChallengeAttempt challengeId) (\<lambda>attemptsLeft.
           andThen (catchIf (\<lambda>e. e = NotEnabled \<or> e = InvalidCode)
                      (\<lambda>e. if e = NotEnabled then failWith ChallengeExpired
                           else rejectWrongCode challengeId attemptsLeft)
                      (matchOwnedCode L (lc_userId challenge) code kind)) (\<lambda>matched.
           andThen (consumeLoginChallenge L challengeId) (\<lambda>clearCookie.
           andDo (consumeMatchedCode (lc_userId challenge) matched)
           (andThen (issueSession A (lc_userId challenge)) (\<lambda>sessionHeaders.
           andDo (appendAuditBestEffort (signInEntry (lc_userId challenge) (lc_method challenge) (Some h)))
           (andThen (validateChallengeRedirect (md_parseUrl L) (getTrustedOrigins (md_trustedOrigins L))
                       (Some (lc_redirectUrl challenge))) (\<lambda>redirectUrl.
             succeed \<lparr>cp_redirectUrl = redirectUrl,
                      cp_forwardedHeaders = sessionHeaders @ clearCookie\<rparr>))))))))"

section \<open>The cookie and the stored challenge\<close>

lemma splitAtLastDot_signed:
  assumes "CHR ''.'' \<notin> set sig" shows "splitAtLastDot (cid @ ''.'' @ sig) = Some (cid, sig)"
proof -
  have all: "\<forall>c\<in>set (rev sig). c \<noteq> CHR ''.''" using assms by auto
  have "dropWhile (\<lambda>c. c \<noteq> CHR ''.'') (xs @ CHR ''.'' # ys) = CHR ''.'' # ys \<and>
      takeWhile (\<lambda>c. c \<noteq> CHR ''.'') (xs @ CHR ''.'' # ys) = xs"
    if "\<forall>c\<in>set xs. c \<noteq> CHR ''.''" for xs ys :: string
    using that by (induction xs) auto
  from this[OF all, of "rev cid"] show ?thesis by (simp add: splitAtLastDot_def)
qed

lemma parseMethod_methodString [simp]: "parseMethod (methodString m) = Some m"
  by (cases m) (simp_all add: parseMethod_def)

lemma parseChallenge_stringify:
  assumes "lc_userId c \<noteq> []" shows "parseChallenge (Some (stringify (challengeJson c))) = Some c"
proof -
  have ne: "stringify (challengeJson c) \<noteq> []" by (simp add: challengeJson_def)
  have "jsonParse (stringify (challengeJson c)) = Some (challengeJson c)" by (rule jsonParse_stringify)
  then show ?thesis using assms ne by (simp add: parseChallenge_def challengeJson_def)
qed

end
