(* ===== verification/PrimaryAuth.thy ===== *)
theory PrimaryAuth
  imports LoginChallenge EmailText
begin

text \<open>
  \<open>src/auth-plugins\<close>: what the program hooks into better-auth. After a first factor, a user with MFA gets a
  login challenge in place of the session; when that cannot be decided the answer is a challenge too. The
  better-auth middleware is reduced to what the hook does with the context: whether a session was issued, and
  the \<open>hook_outcome\<close> the middleware turns into a response.
\<close>

section \<open>Routes\<close>

datatype primaryAuthRoute = Mapped sign_in_method | Unmapped string "string option"

definition MAGIC_LINK_VERIFY_ROUTE :: string where
  "MAGIC_LINK_VERIFY_ROUTE = ''/magic-link/verify''"

definition OAUTH_CALLBACK_ROUTE :: string where
  "OAUTH_CALLBACK_ROUTE = ''/callback/:id''"

definition isPrimaryAuthRoute :: "string option \<Rightarrow> bool" where
  "isPrimaryAuthRoute path \<longleftrightarrow> path \<in> Some ` set [MAGIC_LINK_VERIFY_ROUTE, OAUTH_CALLBACK_ROUTE]"

text \<open>\<open>paramsId\<close> is \<open>params.id\<close> when it is a string.\<close>

definition parsePrimaryAuthRoute :: "string \<Rightarrow> string option \<Rightarrow> primaryAuthRoute" where
  "parsePrimaryAuthRoute path paramsId =
     (if path = MAGIC_LINK_VERIFY_ROUTE then Mapped Magic_link
      else if path = OAUTH_CALLBACK_ROUTE \<and> paramsId = Some ''github'' then Mapped Github
      else Unmapped path paramsId)"

section \<open>The challenge\<close>

definition KILL_SWITCH_REPORT_INTERVAL_MS :: millis where
  "KILL_SWITCH_REPORT_INTERVAL_MS = 6 * 60 * 60 * 1000"

record challengeInput =
  cin_userId :: id
  cin_sessionToken :: string
  cin_route :: primaryAuthRoute
  cin_location :: "string option"
  cin_challengeEnabled :: bool

datatype challengeDecision = Pass | Challenge "loginChallengeCookie option"

text \<open>\<open>Effect.catchCause\<close>: failures, defects and interruptions alike.\<close>

definition catchCause :: "(reason \<Rightarrow> ('a, 'x) eff) \<Rightarrow> ('a, 'x) eff \<Rightarrow> ('a, 'x) eff" where
  "catchCause h m = (\<lambda>w. case m w of (Inl r, w') \<Rightarrow> h r w' | (Inr a, w') \<Rightarrow> (Inr a, w'))"

definition reportFailure :: "reason \<Rightarrow> (unit, 'x) eff" where
  "reportFailure cause = captureCause ''mfa-challenge''"

text \<open>
  \<open>killSwitchReportedAt\<close> is a variable of the module; it is passed in and out. At most one report is made
  per interval.
\<close>

definition reportKillSwitchPeriodically :: "millis \<Rightarrow> (millis, 'x) eff" where
  "reportKillSwitchPeriodically reportedAt =
     andThen currentTimeMillis (\<lambda>now.
       if now - reportedAt < KILL_SWITCH_REPORT_INTERVAL_MS then succeed reportedAt
       else andDo (captureMessage ''mfa-challenge'') (succeed now))"

definition openChallengeCookie :: "'x better_auth \<Rightarrow> challengeInput \<Rightarrow> (loginChallengeCookie, 'x) eff" where
  "openChallengeCookie A input =
     (case cin_route input of
        Unmapped path providerId \<Rightarrow> failWith UnmappedPrimaryAuthRoute
      | Mapped method \<Rightarrow> openLoginChallenge A
          \<lparr>lc_userId = cin_userId input,
           lc_redirectUrl = (case cin_location input of None \<Rightarrow> FALLBACK_REDIRECT | Some l \<Rightarrow> l),
           lc_method = method\<rparr>)"

definition enforceChallenge ::
    "'x better_auth \<Rightarrow> millis \<Rightarrow> challengeInput \<Rightarrow> (challengeDecision \<times> millis, 'x) eff" where
  "enforceChallenge A reportedAt input =
     (if \<not> cin_challengeEnabled input
      then mapEff (\<lambda>reported. (Pass, reported)) (reportKillSwitchPeriodically reportedAt)
      else andThen (catchCause (\<lambda>cause. mapEff (\<lambda>_. True) (reportFailure cause))
                      (mfaChallengeRequired (cin_userId input))) (\<lambda>required.
        if \<not> required then succeed (Pass, reportedAt)
        else andThen (catchCause (\<lambda>cause. mapEff (\<lambda>_. None) (reportFailure cause))
                        (mapEff Some (openChallengeCookie A input))) (\<lambda>cookie.
             andDo (catchCause reportFailure (deleteSession A (cin_sessionToken input)))
               (succeed (Challenge cookie, reportedAt)))))"

section \<open>Observing a sign-in\<close>

definition NEW_USER_THRESHOLD_MS :: millis where
  "NEW_USER_THRESHOLD_MS = 10000"

record signedInUser =
  si_id :: id
  si_email :: string
  si_name :: string
  si_createdAt :: millis

definition observeSignInProgram :: "signedInUser \<Rightarrow> primaryAuthRoute \<Rightarrow> headers option \<Rightarrow> (unit, 'x) eff" where
  "observeSignInProgram user route headers =
     andThen currentTimeMillis (\<lambda>now.
       andDo (if now - si_createdAt user < NEW_USER_THRESHOLD_MS
              then runBackground (SendWelcomeJob (si_email user) (toDisplayText (si_name user)))
              else succeed ())
         (case route of
            Unmapped path providerId \<Rightarrow> succeed ()
          | Mapped method \<Rightarrow> runBackground (AuditBestEffortJob (signInEntry (si_id user) method headers))))"

section \<open>The hook after a first factor\<close>

record issuedSession =
  is_user :: signedInUser
  is_token :: string

text \<open>What the middleware does with the response: nothing, or delete the session cookie, forget the session,
  set the challenge cookie if there is one and redirect to the challenge page.\<close>

datatype hook_outcome = NoSessionIssued | SessionKept | RedirectToChallenge "loginChallengeCookie option"

definition afterPrimaryAuth ::
    "'x better_auth \<Rightarrow> string option \<Rightarrow> millis \<Rightarrow> issuedSession option \<Rightarrow> string \<Rightarrow> string option \<Rightarrow>
      string option \<Rightarrow> headers option \<Rightarrow> (hook_outcome \<times> millis, 'x) eff" where
  "afterPrimaryAuth A env reportedAt issued path paramsId location headers =
     (case issued of
        None \<Rightarrow> succeed (NoSessionIssued, reportedAt)
      | Some s \<Rightarrow>
          (let route = parsePrimaryAuthRoute path paramsId;
               challengeEnabled = isMfaChallengeEnabled env
           in andThen
                (catchCause (\<lambda>_. succeed ((if challengeEnabled then Challenge None else Pass), reportedAt))
                   (enforceChallenge A reportedAt
                      \<lparr>cin_userId = si_id (is_user s), cin_sessionToken = is_token s, cin_route = route,
                       cin_location = location, cin_challengeEnabled = challengeEnabled\<rparr>)) (\<lambda>(decision, reported).
                case decision of
                  Challenge cookie \<Rightarrow> succeed (RedirectToChallenge cookie, reported)
                | Pass \<Rightarrow> andDo (observeSignInProgram (is_user s) route headers) (succeed (SessionKept, reported)))))"

section \<open>Revoking a session\<close>

definition REVOKE_SESSION_ROUTE :: string where
  "REVOKE_SESSION_ROUTE = ''/revoke-session''"

text \<open>The token in the body that better-auth sees: anything but a session token is replaced by the empty one.\<close>

definition revokeOnlySessionTokens :: "string \<Rightarrow> string option \<Rightarrow> string option" where
  "revokeOnlySessionTokens path bodyToken =
     (if path = REVOKE_SESSION_ROUTE \<and> \<not> (\<exists>t. bodyToken = Some t \<and> isSessionToken t)
      then Some [] else bodyToken)"

section \<open>What the hook decides\<close>

lemma catchCause_runs [run_simps]:
  "catchCause h m w = (Inr b, w') \<longleftrightarrow> m w = (Inr b, w') \<or> (\<exists>r w1. m w = (Inl r, w1) \<and> h r w1 = (Inr b, w'))"
  "catchCause h m w = (Inl q, w') \<longleftrightarrow> (\<exists>r w1. m w = (Inl r, w1) \<and> h r w1 = (Inl q, w'))"
  by (auto simp: catchCause_def split: prod.splits sum.splits)

lemma keeps_catchCause [keeps_intros]:
  assumes "keeps v m" "\<And>r. keeps v (h r)" shows "keeps v (catchCause h m)"
  unfolding keeps_def
proof
  fix w
  obtain r w1 where m: "m w = (r, w1)" by fastforce
  show "v (snd (catchCause h m w)) = v w"
    using keepsD[OF assms(1) m] assms(2)[unfolded keeps_def, rule_format, of _ w1] m
    by (cases r) (auto simp: catchCause_def)
qed

text \<open>With the challenge enabled, the session is kept only where the database says that MFA is off.\<close>

lemma enforceChallenge_Pass:
  assumes "enforceChallenge A r input w = (Inr (Pass, r'), w')" "cin_challengeEnabled input"
  shows "w_dbFaults w (w_dbCalls w) = NoFault \<and>
    \<not> isMfaEnabled (map_option mt_verifiedAt (totpOf (w_db w) (cin_userId input)))"
  using assms by (auto simp: enforceChallenge_def run_simps mfaChallengeRequired_def reportFailure_def
      split: if_splits)

lemma enforceChallenge_total: "\<exists>d r' w'. enforceChallenge A r input w = (Inr (d, r'), w')"
proof -
  obtain q w1 where req: "catchCause (\<lambda>cause. mapEff (\<lambda>_. True) (reportFailure cause))
        (mfaChallengeRequired (cin_userId input)) w = (q, w1)" by fastforce
  have q: "\<exists>b. q = Inr b" using req by (cases q) (auto simp: run_simps reportFailure_def)
  obtain c w2 where cookie: "catchCause (\<lambda>cause. mapEff (\<lambda>_. None) (reportFailure cause))
      (mapEff Some (openChallengeCookie A input)) w1 = (c, w2)" by fastforce
  have c: "\<exists>b. c = Inr b" using cookie by (cases c) (auto simp: run_simps reportFailure_def)
  obtain d w3 where del: "catchCause reportFailure (deleteSession A (cin_sessionToken input)) w2 = (d, w3)"
    by fastforce
  have d: "\<exists>b. d = Inr b" using del by (cases d) (auto simp: run_simps reportFailure_def)
  show ?thesis
    using q c d req cookie del
    by (auto simp: enforceChallenge_def reportKillSwitchPeriodically_def andThen_def mapEff_def succeed_def
        currentTimeMillis_def captureMessage_def)
qed

end
