(* ===== verification/MfaStates.thy ===== *)
theory MfaStates
  imports PrimaryAuth
begin

text \<open>
  The state machine of a user's MFA - absent, pending, enabled - as a step relation, and that every
  operation moves every user only along the steps it may take, whatever it is called with and whatever fails. The
  enabled state carries the last time step used, which only grows: that is why a TOTP code counts once.
\<close>

section \<open>The state machine\<close>

datatype mfa_phase = Absent | Pending id | Enabled int

datatype mfa_action = Enrolls | Verifies | Uses | Drops

inductive mfa_step :: "mfa_action \<Rightarrow> mfa_phase \<Rightarrow> mfa_phase \<Rightarrow> bool" where
  enrolls: "mfa_step Enrolls Absent (Pending e)"
| verifies: "mfa_step Verifies (Pending e) (Enabled s)"
| uses: "s < s' \<Longrightarrow> mfa_step Uses (Enabled s) (Enabled s')"
| drops: "mfa_step Drops p Absent"

inductive_cases mfa_step_AbsentE: "mfa_step a Absent q"
inductive_cases mfa_step_PendingE: "mfa_step a (Pending e) q"
inductive_cases mfa_step_EnabledE: "mfa_step a (Enabled s) q"
inductive_simps mfa_step_simps: "mfa_step a p q"

definition mfa_path :: "mfa_action set \<Rightarrow> mfa_phase \<Rightarrow> mfa_phase \<Rightarrow> bool" where
  "mfa_path acts = (\<lambda>p q. \<exists>a\<in>acts. mfa_step a p q)\<^sup>*\<^sup>*"

lemma mfa_path_refl [simp]: "mfa_path acts p p"
  by (simp add: mfa_path_def)

lemma mfa_path_trans: "mfa_path acts p q \<Longrightarrow> mfa_path acts q r \<Longrightarrow> mfa_path acts p r"
  unfolding mfa_path_def by (rule rtranclp_trans)

lemma mfa_path_step: "mfa_step a p q \<Longrightarrow> a \<in> acts \<Longrightarrow> mfa_path acts p q"
  unfolding mfa_path_def by (rule r_into_rtranclp) blast

lemma mfa_path_mono: "mfa_path acts p q \<Longrightarrow> acts \<subseteq> acts' \<Longrightarrow> mfa_path acts' p q"
  unfolding mfa_path_def by (erule rtranclp_mono[THEN predicate2D, rotated]) blast

lemma mfa_path_empty: "mfa_path {} p q \<longleftrightarrow> p = q"
proof
  assume "mfa_path {} p q" then show "p = q" unfolding mfa_path_def by (induction rule: rtranclp_induct) auto
qed simp

text \<open>Without enrolling again, an enabled enrollment only moves its time step forward or is dropped.\<close>

lemma mfa_path_Enabled:
  assumes "mfa_path acts (Enabled s) q" "Enrolls \<notin> acts"
  shows "q = Absent \<or> (\<exists>s'. q = Enabled s' \<and> s \<le> s')"
  using assms(1) unfolding mfa_path_def
proof (induction rule: rtranclp_induct)
  case (step p q)
  then show ?case using assms(2) by (auto simp: mfa_step_simps)
qed simp

section \<open>The phase of a user\<close>

definition phaseOf :: "database \<Rightarrow> id \<Rightarrow> mfa_phase" where
  "phaseOf d u = (case totpOf d u of
     None \<Rightarrow> Absent
   | Some t \<Rightarrow> (case mt_verifiedAt t of None \<Rightarrow> Pending (mt_enrollmentId t) | Some _ \<Rightarrow> Enabled (mt_lastUsedTimestep t)))"

lemma phaseOf_Absent_iff: "phaseOf d u = Absent \<longleftrightarrow> totpOf d u = None"
  by (auto simp: phaseOf_def split: option.splits)

lemma phaseOf_Enabled_iff:
  "(\<exists>s. phaseOf d u = Enabled s) \<longleftrightarrow> isMfaEnabled (map_option mt_verifiedAt (totpOf d u))"
  by (auto simp: phaseOf_def isMfaEnabled_def split: option.splits)

definition advances :: "mfa_action set \<Rightarrow> id \<Rightarrow> ('a, 'x) eff \<Rightarrow> bool" where
  "advances acts u m \<longleftrightarrow> (\<forall>w. mfa_path acts (phaseOf (w_db w) u) (phaseOf (w_db (snd (m w))) u))"

named_theorems advances_intros \<open>structural rules for the steps of MFA a program may take\<close>

lemma advancesD: "advances acts u m \<Longrightarrow> m w = (r, w') \<Longrightarrow> mfa_path acts (phaseOf (w_db w) u) (phaseOf (w_db w') u)"
  by (auto simp: advances_def dest: spec[of _ w])

lemma advances_keeps: "keeps w_db m \<Longrightarrow> advances acts u m"
  by (simp add: advances_def keeps_def)

lemma advances_andThen [advances_intros]:
  assumes "advances acts u m" "\<And>a. advances acts u (f a)" shows "advances acts u (andThen m f)"
  unfolding advances_def
proof
  fix w
  obtain r w1 where m: "m w = (r, w1)" by fastforce
  have "mfa_path acts (phaseOf (w_db w1) u) (phaseOf (w_db (snd (f a w1))) u)" for a
    using assms(2) by (simp add: advances_def)
  then show "mfa_path acts (phaseOf (w_db w) u) (phaseOf (w_db (snd (andThen m f w))) u)"
    using advancesD[OF assms(1) m] m by (cases r) (auto simp: andThen_def intro: mfa_path_trans)
qed

lemma advances_mapEff [advances_intros]: "advances acts u m \<Longrightarrow> advances acts u (mapEff f m)"
  unfolding mapEff_def by (rule advances_andThen) (auto intro: advances_keeps keeps_intros)

lemma advances_catchIf [advances_intros]:
  assumes "advances acts u m" "\<And>e. advances acts u (h e)" shows "advances acts u (catchIf P h m)"
  unfolding advances_def
proof
  fix w
  obtain r w1 where m: "m w = (r, w1)" by fastforce
  have "mfa_path acts (phaseOf (w_db w1) u) (phaseOf (w_db (snd (h e w1))) u)" for e
    using assms(2) by (simp add: advances_def)
  then show "mfa_path acts (phaseOf (w_db w) u) (phaseOf (w_db (snd (catchIf P h m w))) u)"
    using advancesD[OF assms(1) m] m
    by (auto simp: catchIf_def split: sum.splits reason.splits intro: mfa_path_trans)
qed

lemma advances_if [advances_intros]:
  "advances acts u m \<Longrightarrow> advances acts u n \<Longrightarrow> advances acts u (if b then m else n)"
  by simp

lemma advances_option [advances_intros]:
  "advances acts u m \<Longrightarrow> (\<And>x. advances acts u (f x)) \<Longrightarrow> advances acts u (case z of None \<Rightarrow> m | Some x \<Rightarrow> f x)"
  by (cases z) auto

lemma advances_prod [advances_intros]:
  "(\<And>x y. advances acts u (f x y)) \<Longrightarrow> advances acts u (case z of (x, y) \<Rightarrow> f x y)"
  by (cases z) auto

lemma advances_collectEff [advances_intros]:
  "(\<And>x. advances acts u (f x)) \<Longrightarrow> advances acts u (collectEff f xs)"
  by (induction xs) (auto intro: advances_intros advances_keeps[OF keeps_succeed])

lemma advances_transaction [advances_intros]:
  fixes f :: "('a, 'x) eff"
  assumes f: "advances acts u f" and A: "auth_frame A"
  shows "advances acts u (transaction A f)"
  unfolding advances_def
proof
  fix w :: "'x world"
  obtain r w' where run: "transaction A f w = (r, w')" by fastforce
  let ?w0 = "w\<lparr>w_dbCalls := Suc (w_dbCalls w), w_hooks := [], w_locks := []\<rparr>"
  from runTx_db[OF run[unfolded transaction_def] keeps_runHook[OF A]]
  have "w_db w' = w_db w \<or> (\<exists>a w1. f ?w0 = (Inr a, w1) \<and> w_db w' = w_db w1)" .
  then show "mfa_path acts (phaseOf (w_db w) u) (phaseOf (w_db (snd (transaction A f w))) u)"
    using advancesD[OF f, of ?w0] by (auto simp: run)
qed

lemma advances_tryDb:
  assumes "\<And>now d a d'. stmt now d = Some (a, d') \<Longrightarrow> mfa_path acts (phaseOf d u) (phaseOf d' u)"
  shows "advances acts u (tryDb stmt)"
  using assms by (auto simp: advances_def tryDb_def Let_def split: fault.splits option.splits)

section \<open>The statements\<close>

lemma totpOf_updateWhere:
  assumes "\<And>t. mt_userId (f t) = mt_userId t"
  shows "totpOf (d\<lparr>d_mfaTotp := updateWhere P f (d_mfaTotp d)\<rparr>) u =
    map_option (\<lambda>t. if P t then f t else t) (totpOf d u)"
proof -
  have "at0 (filter (\<lambda>t. mt_userId t = u) (updateWhere P f ts)) =
      map_option (\<lambda>t. if P t then f t else t) (at0 (filter (\<lambda>t. mt_userId t = u) ts))" for ts
    using assms by (induction ts) auto
  then show ?thesis by (simp add: totpOf_def)
qed

lemma advances_activateMfaTotp [advances_intros]:
  assumes "u = v \<Longrightarrow> Verifies \<in> acts" shows "advances acts u (activateMfaTotp v e s)"
  unfolding activateMfaTotp_def
proof (rule advances_tryDb)
  fix now d a d'
  let ?P = "\<lambda>t. mt_userId t = v \<and> mt_enrollmentId t = e \<and> mt_verifiedAt t = None"
  let ?f = "\<lambda>t. t\<lparr>mt_verifiedAt := Some now, mt_lastUsedTimestep := s\<rparr>"
  assume "updateTotpWhere ?P (\<lambda>now t. t\<lparr>mt_verifiedAt := Some now, mt_lastUsedTimestep := s\<rparr>) now d = Some (a, d')"
  then have d': "d' = d\<lparr>d_mfaTotp := updateWhere ?P ?f (d_mfaTotp d)\<rparr>" by (simp add: updateTotpWhere_def)
  show "mfa_path acts (phaseOf d u) (phaseOf d' u)"
  proof (cases "totpOf d u")
    case (Some t)
    then have "mt_userId t = u" by (auto dest: totpOf_Some)
    then show ?thesis using Some assms
      by (auto simp: d' phaseOf_def totpOf_updateWhere intro!: mfa_path_step[OF mfa_step.verifies])
  qed (simp add: d' phaseOf_def totpOf_updateWhere)
qed

lemma advances_consumeTotpTimestep [advances_intros]:
  assumes "u = v \<Longrightarrow> Uses \<in> acts" shows "advances acts u (consumeTotpTimestep v s)"
  unfolding consumeTotpTimestep_def
proof (rule advances_tryDb)
  fix now d a d'
  let ?P = "\<lambda>t. mt_userId t = v \<and> mt_verifiedAt t \<noteq> None \<and> mt_lastUsedTimestep t < s"
  let ?f = "\<lambda>t. t\<lparr>mt_lastUsedTimestep := s\<rparr>"
  assume "updateTotpWhere ?P (\<lambda>now t. t\<lparr>mt_lastUsedTimestep := s\<rparr>) now d = Some (a, d')"
  then have d': "d' = d\<lparr>d_mfaTotp := updateWhere ?P ?f (d_mfaTotp d)\<rparr>" by (simp add: updateTotpWhere_def)
  show "mfa_path acts (phaseOf d u) (phaseOf d' u)"
  proof (cases "totpOf d u")
    case (Some t)
    then have "mt_userId t = u" by (auto dest: totpOf_Some)
    then show ?thesis using Some assms
      by (auto simp: d' phaseOf_def totpOf_updateWhere intro!: mfa_path_step[OF mfa_step.uses])
  qed (simp add: d' phaseOf_def totpOf_updateWhere)
qed

lemma advances_insertMfaTotpEnrollment [advances_intros]:
  assumes "u = ne_userId v \<Longrightarrow> Enrolls \<in> acts" shows "advances acts u (insertMfaTotpEnrollment v)"
  unfolding insertMfaTotpEnrollment_def
proof (rule advances_tryDb)
  fix now d a d'
  assume ins: "insertMfaTotpEnrollmentSql v now d = Some (a, d')"
  show "mfa_path acts (phaseOf d u) (phaseOf d' u)"
  proof (cases "ne_userId v \<in> mt_userId ` set (d_mfaTotp d)")
    case True with ins show ?thesis by (simp add: insertMfaTotpEnrollmentSql_def)
  next
    case False
    let ?t = "\<lparr>mt_userId = ne_userId v, mt_enrollmentId = ne_enrollmentId v,
         mt_secretCiphertext = ne_secretCiphertext v, mt_secretIv = ne_secretIv v,
         mt_keyVersion = ne_keyVersion v, mt_verifiedAt = None, mt_lastUsedTimestep = 0, mt_createdAt = now\<rparr>"
    from ins False have d': "d' = d\<lparr>d_mfaTotp := d_mfaTotp d @ [?t]\<rparr>"
      by (auto simp: insertMfaTotpEnrollmentSql_def split: if_splits)
    show ?thesis
    proof (cases "u = ne_userId v")
      case True
      with False have "totpOf d u = None" by (simp add: totpOf_None_iff)
      moreover have "totpOf d' u = Some ?t"
      proof -
        have "filter (\<lambda>t. mt_userId t = u) (d_mfaTotp d) = []" using False True by (force simp: filter_empty_conv)
        then show ?thesis by (simp add: totpOf_def d' True)
      qed
      ultimately show ?thesis using assms True
        by (auto simp: phaseOf_def intro!: mfa_path_step[OF mfa_step.enrolls])
    next
      case False
      then show ?thesis by (simp add: phaseOf_def totpOf_def d')
    qed
  qed
qed

lemma totpOf_deleted:
  "totpOf (d\<lparr>d_mfaTotp := filter (\<lambda>t. mt_userId t \<noteq> v) (d_mfaTotp d)\<rparr>) u = (if u = v then None else totpOf d u)"
proof -
  have f: "filter (\<lambda>t. mt_userId t = u) (filter (\<lambda>t. mt_userId t \<noteq> v) ts) =
    (if u = v then [] else filter (\<lambda>t. mt_userId t = u) ts)" for ts
    by (induction ts) auto
  show ?thesis by (simp add: totpOf_def f del: filter_filter)
qed

lemma advances_deleteMfaTotp [advances_intros]:
  assumes "u = v \<Longrightarrow> Drops \<in> acts" shows "advances acts u (deleteMfaTotp v)"
  unfolding deleteMfaTotp_def
  by (rule advances_tryDb)
    (use assms in \<open>auto simp: deleteMfaTotpSql_def phaseOf_def totpOf_deleted
      intro!: mfa_path_step[OF mfa_step.drops]\<close>)

lemma phaseOf_cong: "d_mfaTotp d' = d_mfaTotp d \<Longrightarrow> phaseOf d' u = phaseOf d u"
  by (simp add: phaseOf_def totpOf_def)

lemma advances_otherTable:
  assumes "\<And>now d a d'. stmt now d = Some (a, d') \<Longrightarrow> d_mfaTotp d' = d_mfaTotp d"
  shows "advances acts u (tryDb stmt)"
proof (rule advances_tryDb)
  fix now d a d' assume "stmt now d = Some (a, d')"
  then have "d_mfaTotp d' = d_mfaTotp d" by (rule assms)
  from phaseOf_cong[OF this] show "mfa_path acts (phaseOf d u) (phaseOf d' u)" by simp
qed

lemma advances_otherTables [advances_intros]:
  "advances acts u (insertRecoveryCodes rs)" "advances acts u (consumeRecoveryCode v i)"
  "advances acts u (deleteRecoveryCodesByUserId v)" "advances acts u (tryDb (insertAuditLogsSql es))"
proof -
  show "advances acts u (insertRecoveryCodes rs)"
    unfolding insertRecoveryCodes_def
    by (rule advances_if, rule advances_keeps[OF keeps_succeed], rule advances_otherTable)
      (auto simp: insertRecoveryCodesSql_def split: if_splits)
  show "advances acts u (consumeRecoveryCode v i)"
    unfolding consumeRecoveryCode_def
    by (rule advances_otherTable) (auto simp: consumeRecoveryCodeSql_def Let_def)
  show "advances acts u (deleteRecoveryCodesByUserId v)"
    unfolding deleteRecoveryCodesByUserId_def
    by (rule advances_otherTable) (auto simp: deleteRecoveryCodesSql_def)
  show "advances acts u (tryDb (insertAuditLogsSql es))"
    by (rule advances_otherTable) (auto simp: insertAuditLogsSql_def split: if_splits)
qed

lemma advances_audit [advances_intros]:
  "advances acts u (appendAuditLogs es)" "advances acts u (appendAuditBestEffort e)"
proof -
  show logs: "advances acts u (appendAuditLogs es)" for es
    unfolding appendAuditLogs_def
    by (intro advances_intros; (rule advances_keeps, intro keeps_intros)?)
  show "advances acts u (appendAuditBestEffort e)"
    unfolding appendAuditBestEffort_def appendAuditLog_def 
    by (intro advances_intros logs; (rule advances_keeps, intro keeps_intros)?)
qed

section \<open>The operations\<close>

lemma keeps_collectEff [keeps_intros]: "(\<And>x. keeps v (f x)) \<Longrightarrow> keeps v (collectEff f xs)"
  by (induction xs) (auto intro: keeps_intros)

lemma keeps_firstMatching [keeps_intros]: "keeps w_db (firstMatching L ring u code cs)"
  by (induction cs) (auto intro: keeps_intros)

lemma keeps_mfa [keeps_intros]:
  "keeps w_db (mfaChallengeRequired u)" "keeps w_db (readOwnedMfaStatus a)" "keeps w_db (notifyMfaEnabled e)"
  "keeps w_db (notifyMfaDisabled e)" "keeps w_db (matchOwnedCode L u code kind)"
  "keeps w_db (replayPendingEnrollment L a row)" "keeps w_db (newRecoveryCodeRow u p)"
  "keeps w_db (spendDisableAttempt u)" "keeps w_db (resetDisableAttempts u)"
  "keeps w_db (readLoginChallengeState A L h)" "keeps w_db (peekLoginChallenge A L h)"
  "keeps w_db (consumeLoginChallenge L c)" "keeps w_db (expireLoginChallenge c)"
  "keeps w_db (spendLoginChallengeAttempt c)" "keeps w_db (rejectWrongCode c n)"
  "keeps w_db (openLoginChallenge A ch)"
  unfolding mfaChallengeRequired_def readOwnedMfaStatus_def notifyMfaEnabled_def notifyMfaDisabled_def
    matchOwnedCode_def replayPendingEnrollment_def newRecoveryCodeRow_def spendDisableAttempt_def
    resetDisableAttempts_def readLoginChallengeState_def peekLoginChallenge_def consumeLoginChallenge_def
    rejectWrongCode_def expireLoginChallenge_def spendLoginChallengeAttempt_def openLoginChallenge_def Let_def
    case_prod_unfold
  by (intro keeps_intros)+

lemma keeps_revokeOthers [keeps_intros]: "auth_frame A \<Longrightarrow> keeps w_db (revokeOtherSessionsOrUnauthorized A h)"
  unfolding revokeOtherSessionsOrUnauthorized_def by (intro keeps_intros)

lemma advances_consumeMatchedCode [advances_intros]:
  "(u = v \<Longrightarrow> Uses \<in> acts) \<Longrightarrow> advances acts u (consumeMatchedCode v m)"
  unfolding consumeMatchedCode_def
  by (cases m; simp; intro advances_intros; (rule advances_keeps, intro keeps_intros)?) simp

lemma advances_enroll [advances_intros]:
  assumes "auth_frame A" "u = ac_id actor \<Longrightarrow> Enrolls \<in> acts" shows "advances acts u (enroll A L actor)"
  unfolding enroll_def insertEnrollment_def
  by (intro advances_andThen advances_option advances_if advances_transaction advances_insertMfaTotpEnrollment
      advances_collectEff advances_otherTables assms(1); (rule advances_keeps, intro keeps_intros)?)
    (use assms(2) in simp)

lemma advances_activate [advances_intros]:
  assumes "auth_frame A" "u = ac_id actor \<Longrightarrow> Verifies \<in> acts" shows "advances acts u (activate A L actor h e code)"
  unfolding activate_def Let_def
  by (intro advances_andThen advances_option advances_if advances_activateMfaTotp advances_audit;
      (rule advances_keeps, intro keeps_intros assms(1))?)
    (use assms(2) in simp)

lemma advances_deleteEnrollment [advances_intros]:
  assumes "auth_frame A" "u = v \<Longrightarrow> Drops \<in> acts" shows "advances acts u (deleteEnrollment A v)"
  unfolding deleteEnrollment_def
  by (intro advances_andThen advances_transaction advances_deleteMfaTotp advances_otherTables assms(1);
      (rule advances_keeps, intro keeps_intros)?) (use assms(2) in simp)

lemma advances_disable [advances_intros]:
  assumes "auth_frame A" "u = ac_id actor \<Longrightarrow> Uses \<in> acts \<and> Drops \<in> acts"
  shows "advances acts u (disable A L actor h code kind)"
  unfolding disable_def Let_def disableEnrollment_def
  by (intro advances_andThen advances_option advances_if advances_consumeMatchedCode advances_audit
      advances_deleteEnrollment assms(1); (rule advances_keeps, intro keeps_intros assms(1))?)
    (use assms(2) in simp_all)

lemma advances_completeLoginChallenge [advances_intros]:
  assumes "auth_frame A" "Uses \<in> acts" shows "advances acts u (completeLoginChallenge A L h code kind)"
  unfolding completeLoginChallenge_def
  by (intro advances_andThen advances_option advances_if advances_prod advances_consumeMatchedCode advances_audit
      advances_catchIf; (rule advances_keeps, intro keeps_intros assms(1))?)
    (use assms(2) in simp)

end
