(* ===== verification/SingleUse.thy ===== *)
theory SingleUse
  imports MfaStates Invitation
begin

text \<open>
  The interface behind every credential that counts once: a conditional statement that reports whether it hit,
  and after a hit never hits for that key again. The locale \<open>single_use\<close> states the contract and proves
  that in any interleaving of attempts each key wins at most once; it is interpreted on the statements
  of the model that settle invitations, consume recovery codes and TOTP time steps, and take login challenges.
\<close>

text \<open>The keys that win, in a run of attempts, each with the circumstances it is made in.\<close>

fun winners :: "('k \<Rightarrow> 'e \<Rightarrow> 's \<Rightarrow> bool \<times> 's) \<Rightarrow> ('k \<times> 'e) list \<Rightarrow> 's \<Rightarrow> 'k list" where
  "winners use [] s = []"
| "winners use ((k, e) # as) s =
    (let (won, s') = use k e s in (if won then [k] else []) @ winners use as s')"

locale single_use =
  fixes use :: "'k \<Rightarrow> 'e \<Rightarrow> 's \<Rightarrow> bool \<times> 's"
    and spent :: "'k \<Rightarrow> 's \<Rightarrow> bool"
  assumes spends: "use k e s = (True, s') \<Longrightarrow> spent k s'"
    and stays: "spent k s \<Longrightarrow> use j e s = (b, s') \<Longrightarrow> spent k s'"
    and refused: "spent k s \<Longrightarrow> use k e s = (b, s') \<Longrightarrow> \<not> b"
begin

lemma spent_never_wins: "spent k s \<Longrightarrow> k \<notin> set (winners use as s)"
proof (induction as arbitrary: s)
  case (Cons a as)
  obtain j e where a: "a = (j, e)" by fastforce
  obtain b s' where u: "use j e s = (b, s')" by fastforce
  from Cons.IH[OF stays[OF Cons.prems u]] refused[OF Cons.prems, of e] u a
  show ?case by auto
qed simp

lemma wins_once: "distinct (winners use as s)"
proof (induction as arbitrary: s)
  case (Cons a as)
  obtain j e where a: "a = (j, e)" by fastforce
  obtain b s' where u: "use j e s = (b, s')" by fastforce
  with Cons.IH[of s'] spent_never_wins[OF spends, of j e s s' as] a show ?case by auto
qed simp

end

lemma updateWhere_excludes:
  assumes "x \<in> set (updateWhere P f xs)" "\<And>y. P y \<Longrightarrow> \<not> Q (f y)" "\<And>y. y \<in> set xs \<Longrightarrow> \<not> P y \<Longrightarrow> \<not> Q y"
  shows "\<not> Q x"
proof -
  from assms(1) obtain y where "y \<in> set xs" "x = (if P y then f y else y)" by (auto simp: in_updateWhere)
  with assms(2,3) show ?thesis by (cases "P y") simp_all
qed

section \<open>Recovery codes\<close>

definition unusedCode :: "id \<times> id \<Rightarrow> mfaRecoveryCode \<Rightarrow> bool" where
  "unusedCode k r \<longleftrightarrow> rc_id r = snd k \<and> rc_userId r = fst k \<and> rc_usedAt r = None"

definition consumeRecoveryCodeUse :: "id \<times> id \<Rightarrow> millis \<Rightarrow> database \<Rightarrow> bool \<times> database" where
  "consumeRecoveryCodeUse k now d = the (consumeRecoveryCodeSql (fst k) (snd k) now d)"

definition recoveryCodeSpent :: "id \<times> id \<Rightarrow> database \<Rightarrow> bool" where
  "recoveryCodeSpent k d \<longleftrightarrow> (\<forall>r\<in>set (d_mfaRecoveryCode d). \<not> unusedCode k r)"

lemma consumeRecoveryCodeUse_unfold:
  "consumeRecoveryCodeUse k now d = (length (filter (unusedCode k) (d_mfaRecoveryCode d)) = 1,
    d\<lparr>d_mfaRecoveryCode := updateWhere (unusedCode k) (\<lambda>r. r\<lparr>rc_usedAt := Some now\<rparr>) (d_mfaRecoveryCode d)\<rparr>)"
  by (simp add: consumeRecoveryCodeUse_def consumeRecoveryCodeSql_def Let_def unusedCode_def[abs_def])

interpretation recovery_code: single_use consumeRecoveryCodeUse recoveryCodeSpent
proof unfold_locales
  have used: "recoveryCodeSpent k d'"
    if "consumeRecoveryCodeUse j e d = (b, d')" "k = j \<or> recoveryCodeSpent k d" for j e b d d' k
    unfolding recoveryCodeSpent_def
  proof
    fix r assume "r \<in> set (d_mfaRecoveryCode d')"
    with that(1) have "r \<in> set (updateWhere (unusedCode j) (\<lambda>r. r\<lparr>rc_usedAt := Some e\<rparr>) (d_mfaRecoveryCode d))"
      by (auto simp: consumeRecoveryCodeUse_unfold)
    then show "\<not> unusedCode k r"
      by (rule updateWhere_excludes) (use that(2) in \<open>auto simp: unusedCode_def recoveryCodeSpent_def\<close>)
  qed
  then show "consumeRecoveryCodeUse k e d = (True, d') \<Longrightarrow> recoveryCodeSpent k d'" for k e d d' by blast
  from used show "recoveryCodeSpent k d \<Longrightarrow> consumeRecoveryCodeUse j e d = (b, d') \<Longrightarrow> recoveryCodeSpent k d'"
    for k d j e b d' by blast
  show "recoveryCodeSpent k d \<Longrightarrow> consumeRecoveryCodeUse k e d = (b, d') \<Longrightarrow> \<not> b" for k d e b d'
    by (auto simp: consumeRecoveryCodeUse_unfold recoveryCodeSpent_def filter_empty_conv)
qed

section \<open>TOTP time steps\<close>

definition acceptsTimestep :: "id \<Rightarrow> int \<Rightarrow> mfaTotp \<Rightarrow> bool" where
  "acceptsTimestep userId timestep t \<longleftrightarrow>
     mt_userId t = userId \<and> mt_verifiedAt t \<noteq> None \<and> mt_lastUsedTimestep t < timestep"

definition consumeTotpTimestepUse :: "id \<Rightarrow> int \<Rightarrow> millis \<Rightarrow> database \<Rightarrow> bool \<times> database" where
  "consumeTotpTimestepUse userId timestep now d =
     the (updateTotpWhere (acceptsTimestep userId timestep) (\<lambda>now t. t\<lparr>mt_lastUsedTimestep := timestep\<rparr>) now d)"

lemma consumeTotpTimestep_use:
  "consumeTotpTimestep u s = tryDb (updateTotpWhere (acceptsTimestep u s) (\<lambda>now t. t\<lparr>mt_lastUsedTimestep := s\<rparr>))"
  by (simp add: consumeTotpTimestep_def acceptsTimestep_def[abs_def])

definition timestepSpent :: "id \<Rightarrow> int \<Rightarrow> database \<Rightarrow> bool" where
  "timestepSpent userId timestep d \<longleftrightarrow> (\<forall>t\<in>set (d_mfaTotp d). \<not> acceptsTimestep userId timestep t)"

interpretation totp_timestep: single_use "consumeTotpTimestepUse u" "timestepSpent u"
proof unfold_locales
  have used: "timestepSpent u k d'"
    if "consumeTotpTimestepUse u j e d = (b, d')" "k = j \<or> timestepSpent u k d" for j e b d d' k
    unfolding timestepSpent_def
  proof
    fix t assume "t \<in> set (d_mfaTotp d')"
    with that(1) have t: "t \<in> set (updateWhere (acceptsTimestep u j) (\<lambda>t. t\<lparr>mt_lastUsedTimestep := j\<rparr>) (d_mfaTotp d))"
      by (auto simp: consumeTotpTimestepUse_def updateTotpWhere_def)
    then obtain y where y: "y \<in> set (d_mfaTotp d)"
      "t = (if acceptsTimestep u j y then y\<lparr>mt_lastUsedTimestep := j\<rparr> else y)" by (auto simp: in_updateWhere)
    show "\<not> acceptsTimestep u k t"
    proof (cases "k = j")
      case True with y(2) show ?thesis by (cases "acceptsTimestep u j y") (simp_all add: acceptsTimestep_def)
    next
      case False
      with that(2) y(1) have "\<not> acceptsTimestep u k y" by (simp add: timestepSpent_def)
      with y(2) show ?thesis by (cases "acceptsTimestep u j y") (auto simp: acceptsTimestep_def)
    qed
  qed
  then show "consumeTotpTimestepUse u k e d = (True, d') \<Longrightarrow> timestepSpent u k d'" for k e d d' by blast
  from used show "timestepSpent u k d \<Longrightarrow> consumeTotpTimestepUse u j e d = (b, d') \<Longrightarrow> timestepSpent u k d'"
    for k d j e b d' by blast
  show "timestepSpent u k d \<Longrightarrow> consumeTotpTimestepUse u k e d = (b, d') \<Longrightarrow> \<not> b" for k d e b d'
    by (auto simp: consumeTotpTimestepUse_def updateTotpWhere_def timestepSpent_def filter_empty_conv)
qed

text \<open>A later success is for a later step: a code that was passed over cannot be used afterwards either.\<close>

lemma timestepSpent_mono: "timestepSpent u s d \<Longrightarrow> s' \<le> s \<Longrightarrow> timestepSpent u s' d"
  by (force simp: timestepSpent_def acceptsTimestep_def)

lemma totp_winners_greater: "timestepSpent u s d \<Longrightarrow> x \<in> set (winners (consumeTotpTimestepUse u) as d) \<Longrightarrow> s < x"
  using totp_timestep.spent_never_wins timestepSpent_mono by (metis not_le)

lemma totp_winners_increase: "sorted_wrt (<) (winners (consumeTotpTimestepUse u) as d)"
proof (induction as arbitrary: d)
  case (Cons a as)
  obtain j e where a: "a = (j, e)" by fastforce
  obtain b d' where u: "consumeTotpTimestepUse u j e d = (b, d')" by fastforce
  with Cons.IH[of d'] totp_winners_greater[OF totp_timestep.spends, of u j e d d' _ as] a show ?case by auto
qed simp

section \<open>Invitations\<close>

text \<open>Accepting and revoking alike settle a pending invitation.\<close>

definition settleInvitationUse :: "id \<Rightarrow> invitation_status \<times> millis \<Rightarrow> database \<Rightarrow> bool \<times> database" where
  "settleInvitationUse i = (\<lambda>(status, now) d.
     if status = PENDING then (False, d)
     else case settlePending (\<lambda>v. iv_id v = i) status now d of
            None \<Rightarrow> (False, d) | Some (rows, d') \<Rightarrow> (rows \<noteq> [], d'))"

definition invitationSettled :: "id \<Rightarrow> database \<Rightarrow> bool" where
  "invitationSettled i d \<longleftrightarrow> (\<forall>v\<in>set (d_invitation d). iv_id v = i \<longrightarrow> iv_status v \<noteq> PENDING)"

lemma settleInvitationUse_cases:
  assumes "settleInvitationUse j (status, now) d = (b, d')"
  obtains "status = PENDING" "\<not> b" "d' = d"
  | "status \<noteq> PENDING" "b \<longleftrightarrow> \<not> invitationSettled j d"
    "d_invitation d' = updateWhere (\<lambda>v. iv_id v = j \<and> iv_status v = PENDING) (invitationStatusColumns status now)
       (d_invitation d)"
  using assms by (cases "status = PENDING")
    (auto simp: settleInvitationUse_def settlePending_def Let_def invitationSettled_def filter_empty_conv)

lemma invitationSettled_update:
  assumes "d_invitation d' = updateWhere (\<lambda>v. iv_id v = j \<and> iv_status v = PENDING) (invitationStatusColumns status now)
       (d_invitation d)" "status \<noteq> PENDING" "i = j \<or> invitationSettled i d"
  shows "invitationSettled i d'"
  unfolding invitationSettled_def assms(1)
proof (intro ballI impI)
  fix v assume "v \<in> set (updateWhere (\<lambda>v. iv_id v = j \<and> iv_status v = PENDING)
      (invitationStatusColumns status now) (d_invitation d))" and i: "iv_id v = i"
  then obtain x where x: "x \<in> set (d_invitation d)"
    "v = (if iv_id x = j \<and> iv_status x = PENDING then invitationStatusColumns status now x else x)"
    by (auto simp: in_updateWhere)
  then show "iv_status v \<noteq> PENDING"
    using assms(2,3) i by (auto simp: invitationSettled_def split: if_splits)
qed

interpretation invitation_settlement: single_use settleInvitationUse invitationSettled
proof unfold_locales
  show "settleInvitationUse i e d = (True, d') \<Longrightarrow> invitationSettled i d'" for i e d d'
    by (cases e) (auto elim: settleInvitationUse_cases intro: invitationSettled_update)
  show "invitationSettled i d \<Longrightarrow> settleInvitationUse j e d = (b, d') \<Longrightarrow> invitationSettled i d'" for i d j e b d'
    by (cases e) (auto elim: settleInvitationUse_cases intro: invitationSettled_update)
  show "invitationSettled i d \<Longrightarrow> settleInvitationUse i e d = (b, d') \<Longrightarrow> \<not> b" for i d e b d'
    by (cases e) (auto elim: settleInvitationUse_cases)
qed

section \<open>Login challenges\<close>

definition takeChallengeUse :: "string \<Rightarrow> millis \<Rightarrow> kv \<Rightarrow> bool \<times> kv" where
  "takeChallengeUse challengeId now kv =
     (case kvGetAndDelete (challengeKey challengeId) now kv of
        None \<Rightarrow> (False, kv) | Some (v, kv') \<Rightarrow> (v \<noteq> None, kv'))"

definition challengeTaken :: "string \<Rightarrow> kv \<Rightarrow> bool" where
  "challengeTaken challengeId kv \<longleftrightarrow> ob_entry (objectOf kv (challengeKey challengeId)) = None"

interpretation login_challenge: single_use takeChallengeUse challengeTaken
  by unfold_locales
    (auto simp: takeChallengeUse_def challengeTaken_def kv_defs Let_def split: option.splits if_splits prod.splits)

section \<open>The operations make these attempts\<close>

lemma consumeMatchedCode_attempt:
  assumes "consumeMatchedCode u m w = (Inr (), w')"
  shows "case m of
      MatchedTotp s \<Rightarrow> consumeTotpTimestepUse u s (w_clock w) (w_db w) = (True, w_db w')
    | MatchedRecoveryCode i \<Rightarrow> consumeRecoveryCodeUse (u, i) (w_clock w) (w_db w) = (True, w_db w')"
proof (cases m)
  case (MatchedTotp s)
  from assms have "consumeTotpTimestep u s w = (Inr True, w')"
    by (auto simp: consumeMatchedCode_def MatchedTotp andThen_runs failWith_runs succeed_runs split: if_splits)
  then show ?thesis
    by (auto simp: MatchedTotp consumeTotpTimestep_use consumeTotpTimestepUse_def tryDb_runs)
next
  case (MatchedRecoveryCode i)
  from assms have "consumeRecoveryCode u i w = (Inr True, w')"
    by (auto simp: consumeMatchedCode_def MatchedRecoveryCode andThen_runs failWith_runs succeed_runs split: if_splits)
  then show ?thesis
    by (auto simp: MatchedRecoveryCode consumeRecoveryCode_def consumeRecoveryCodeUse_def tryDb_runs)
qed

lemma consumeLoginChallenge_attempt:
  assumes "consumeLoginChallenge L c w = (Inr hs, w')"
  shows "takeChallengeUse c (w_clock w) (w_kv w) = (True, w_kv w')"
  using assms
  by (auto simp: consumeLoginChallenge_def takeChallengeUse_def ttlGetAndDelete_def attemptOnce_def tryTtlStore_runs
      run_simps split: if_splits)

lemma markInvitationAccepted_attempt:
  assumes "markInvitationAccepted i w = (Inr (Some v), w')"
  shows "settleInvitationUse i (ACCEPTED, w_clock w) (w_db w) = (True, w_db w')"
proof -
  from assms obtain rows where "tryDb (settlePending (\<lambda>v. iv_id v = i) ACCEPTED) w = (Inr rows, w')"
    and "at0 rows = Some v" by (auto simp: run_simps)
  moreover from this(2) have "rows \<noteq> []" by auto
  ultimately show ?thesis
    by (auto simp: settlePending_runs) (auto simp: settleInvitationUse_def settlePending_def Let_def)
qed

end
