(* ===== verification/Lifecycle.thy ===== *)
theory Lifecycle
  imports OwnerInvariant SingleUse
begin

text \<open>
  The service as a transition system. A step is any operation of the program, with any grant (it may be
  stale: nothing ties it to the present database), ending in any way; a sign-up or a profile update by
  better-auth; or the world moving on without touching the database (time passes, sessions come and go, calls
  fail). \<open>service_invariant\<close> is the interface of an invariant; it is interpreted on the integrity of
  the schema, on the ownership of companies, and on the columns of invitations.
\<close>

record 'x service =
  sv_auth :: "'x better_auth"
  sv_mfa :: mfa_deps
  sv_appUrl :: string
  sv_invitationsEnv :: "string option"
  sv_challengeEnv :: "string option"
  sv_sendMfaDisabled :: "string \<Rightarrow> (unit, 'x) eff"

text \<open>What is relied on of the parts outside the repository: they do not write the tables of the program.\<close>

definition service_frame :: "'x service \<Rightarrow> bool" where
  "service_frame K \<longleftrightarrow> auth_frame (sv_auth K) \<and> (\<forall>e. keeps w_db (sv_sendMfaDisabled K e))"

datatype operation =
    SwitchCurrentCompany id id
  | DeleteAccount id
  | SweepAbandonedSignups millis bool
  | ChangeRole roleChangeGrant
  | RemoveMember removalGrant
  | TransferOwnership ownershipTransferGrant
  | CreateSignupCompany id string org_code
  | AddCompany id string org_code
  | UpdateCompanyInfo verifiedMember string org_code
  | DeleteCompany verifiedMember
  | CreateInvitation inviteGrant
  | RevokeInvitation verifiedMember id
  | AcceptInvitation acceptGrant
  | EnrollMfa actor
  | ActivateMfa actor headers id string
  | DisableMfa actor headers string mfa_code_kind
  | ForceDisableMfa id
  | CompleteLoginChallenge headers string mfa_code_kind
  | AfterPrimaryAuth millis "issuedSession option" string "string option" "string option" "headers option"
  | AppendAudit audit_log_entry

fun perform :: "'x service \<Rightarrow> operation \<Rightarrow> (unit, 'x) eff" where
  "perform K (SwitchCurrentCompany u c) = mapEff (\<lambda>_. ()) (switchCurrentCompany (sv_auth K) u c)"
| "perform K (DeleteAccount u) = deleteAccountUnlessLastOwner (sv_auth K) u"
| "perform K (SweepAbandonedSignups t e) = mapEff (\<lambda>_. ()) (sweepAbandonedSignups (sv_auth K) t e)"
| "perform K (ChangeRole g) = changeRole (sv_auth K) g"
| "perform K (RemoveMember g) = mapEff (\<lambda>_. ()) (removeMember (sv_auth K) g)"
| "perform K (TransferOwnership g) = transferOwnership (sv_auth K) g"
| "perform K (CreateSignupCompany u n oc) = mapEff (\<lambda>_. ()) (createSignupCompany (sv_auth K) u n oc)"
| "perform K (AddCompany u n oc) = mapEff (\<lambda>_. ()) (addCompany (sv_auth K) u n oc)"
| "perform K (UpdateCompanyInfo m n oc) = mapEff (\<lambda>_. ()) (updateCompanyInfo (sv_auth K) m n oc)"
| "perform K (DeleteCompany m) = mapEff (\<lambda>_. ()) (deleteCompany (sv_auth K) m)"
| "perform K (CreateInvitation g) =
    mapEff (\<lambda>_. ()) (createInvitation (sv_auth K) (sv_invitationsEnv K) (sv_appUrl K) g)"
| "perform K (RevokeInvitation m i) = revokeInvitation (sv_auth K) m i"
| "perform K (AcceptInvitation g) = mapEff (\<lambda>_. ()) (acceptInvitation (sv_auth K) g)"
| "perform K (EnrollMfa a) = mapEff (\<lambda>_. ()) (enroll (sv_auth K) (sv_mfa K) a)"
| "perform K (ActivateMfa a h e code) = mapEff (\<lambda>_. ()) (activate (sv_auth K) (sv_mfa K) a h e code)"
| "perform K (DisableMfa a h code kind) = mapEff (\<lambda>_. ()) (disable (sv_auth K) (sv_mfa K) a h code kind)"
| "perform K (ForceDisableMfa u) = mapEff (\<lambda>_. ()) (forceDisableMfa (sv_auth K) (sv_sendMfaDisabled K) u)"
| "perform K (CompleteLoginChallenge h code kind) =
    mapEff (\<lambda>_. ()) (completeLoginChallenge (sv_auth K) (sv_mfa K) h code kind)"
| "perform K (AfterPrimaryAuth r s p i l h) =
    mapEff (\<lambda>_. ()) (afterPrimaryAuth (sv_auth K) (sv_challengeEnv K) r s p i l h)"
| "perform K (AppendAudit e) = appendAuditBestEffort e"

text \<open>better-auth signs users up, and edits their profiles; it sets neither id nor current company.\<close>

definition signUp :: "user \<Rightarrow> database \<Rightarrow> database" where
  "signUp u d = d\<lparr>d_user := d_user d @ [u]\<rparr>"

definition signUpAllowed :: "user \<Rightarrow> database \<Rightarrow> bool" where
  "signUpAllowed u d \<longleftrightarrow> us_id u \<notin> userIds d \<and> us_email u \<notin> us_email ` set (d_user d) \<and> us_lastUsedCompanyId u = None"

definition editProfile :: "id \<Rightarrow> (user \<Rightarrow> user) \<Rightarrow> database \<Rightarrow> database" where
  "editProfile i f d = d\<lparr>d_user := updateWhere (\<lambda>u. us_id u = i) f (d_user d)\<rparr>"

definition profileEdit :: "id \<Rightarrow> (user \<Rightarrow> user) \<Rightarrow> database \<Rightarrow> bool" where
  "profileEdit i f d \<longleftrightarrow> (\<forall>u. us_id (f u) = us_id u \<and> us_lastUsedCompanyId (f u) = us_lastUsedCompanyId u) \<and>
     distinct (map us_email (d_user (editProfile i f d)))"

inductive service_step :: "'x service \<Rightarrow> 'x world \<Rightarrow> 'x world \<Rightarrow> bool" for K where
  operation: "perform K op w = (r, w') \<Longrightarrow> service_step K w w'"
| sign_up: "signUpAllowed u (w_db w) \<Longrightarrow> service_step K w (w\<lparr>w_db := signUp u (w_db w)\<rparr>)"
| profile: "profileEdit i f (w_db w) \<Longrightarrow> service_step K w (w\<lparr>w_db := editProfile i f (w_db w)\<rparr>)"
| elsewhere: "w_db w' = w_db w \<Longrightarrow> service_step K w w'"

inductive reachable :: "'x service \<Rightarrow> 'x world \<Rightarrow> bool" for K where
  start: "w_db w = emptyDb \<Longrightarrow> reachable K w"
| step: "reachable K w \<Longrightarrow> service_step K w w' \<Longrightarrow> reachable K w'"

locale service_invariant =
  fixes K :: "'x service" and I :: "database \<Rightarrow> bool"
  assumes initial: "I emptyDb"
    and operations: "service_frame K \<Longrightarrow> preserves I (perform K op)"
    and signs_up: "I d \<Longrightarrow> signUpAllowed u d \<Longrightarrow> I (signUp u d)"
    and edits: "I d \<Longrightarrow> profileEdit i f d \<Longrightarrow> I (editProfile i f d)"
begin

lemma step_keeps:
  assumes "service_step K w w'" "service_frame K" "I (w_db w)" shows "I (w_db w')"
  using assms(1)
proof cases
  case (operation op r)
  with preservesD[OF operations[OF assms(2)]] assms(3) show ?thesis by blast
qed (use assms(3) signs_up edits in auto)

lemma always:
  assumes "reachable K w" "service_frame K" shows "I (w_db w)"
  using assms(1)
proof induction
  case (start w) then show ?case by (simp add: initial)
next
  case (step w w') with step_keeps[OF _ assms(2)] show ?case by blast
qed

end

section \<open>MFA touches neither companies nor members\<close>

lemma sqlKeeps_companyInv_otherTables:
  assumes "sqlKeeps wf_db stmt"
    and "\<And>now d a d'. stmt now d = Some (a, d') \<Longrightarrow>
      d_company d' = d_company d \<and> d_membership d' = d_membership d \<and> d_user d' = d_user d"
  shows "sqlKeeps companyInv stmt"
  using assms unfolding sqlKeeps_def companyInv_def owned_def currentValid_def ownersOf_def isMember_def
    isActiveCompany_def
  by (smt (verit, best))

lemma preserves_companyInv_mfa [preserves_intros]:
  "preserves companyInv (insertMfaTotpEnrollment v)" "preserves companyInv (activateMfaTotp u e t)"
  "preserves companyInv (consumeTotpTimestep u t)" "preserves companyInv (deleteMfaTotp u)"
  "preserves companyInv (insertRecoveryCodes vs)" "preserves companyInv (consumeRecoveryCode u i)"
  "preserves companyInv (deleteRecoveryCodesByUserId u)"
  unfolding insertMfaTotpEnrollment_def activateMfaTotp_def consumeTotpTimestep_def deleteMfaTotp_def
    insertRecoveryCodes_def consumeRecoveryCode_def deleteRecoveryCodesByUserId_def
  by (intro preserves_intros sqlKeeps_companyInv_otherTables; (simp; fail)?;
      auto simp: insertMfaTotpEnrollmentSql_def updateTotpWhere_def deleteMfaTotpSql_def insertRecoveryCodesSql_def
        consumeRecoveryCodeSql_def deleteRecoveryCodesSql_def Let_def split: if_splits)+

lemma preserves_prod [preserves_intros]:
  "(\<And>x y. preserves I (f x y)) \<Longrightarrow> preserves I (case z of (x, y) \<Rightarrow> f x y)"
  by (cases z) auto

lemma preserves_collectEff [preserves_intros]:
  "(\<And>x. preserves I (f x)) \<Longrightarrow> preserves I (collectEff f xs)"
  by (induction xs) (auto intro: preserves_intros)

lemma preserves_matched [preserves_intros]:
  "(\<And>t. preserves I (f t)) \<Longrightarrow> (\<And>i. preserves I (g i)) \<Longrightarrow>
    preserves I (case m of MatchedTotp t \<Rightarrow> f t | MatchedRecoveryCode i \<Rightarrow> g i)"
  by (cases m) auto

lemmas preserves_mfa_reads [preserves_intros] = keeps_mfa[THEN preserves_keeps]

lemma preserves_revokeOthers [preserves_intros]:
  "auth_frame A \<Longrightarrow> preserves I (revokeOtherSessionsOrUnauthorized A h)"
  by (intro preserves_keeps keeps_intros)

text \<open>Any property of the database that the two transactions on an enrollment and the statements on codes keep.\<close>

lemma preserves_mfa_operations:
  fixes A :: "'x better_auth" and send :: "string \<Rightarrow> (unit, 'x) eff"
  assumes use: "\<And>u e t. preserves I (activateMfaTotp u e t :: (bool, 'x) eff)"
    "\<And>u t. preserves I (consumeTotpTimestep u t :: (bool, 'x) eff)"
    "\<And>u i. preserves I (consumeRecoveryCode u i :: (bool, 'x) eff)"
    and ins: "\<And>u e s cs. preserves I (transaction A (insertEnrollment u e s cs) :: (bool, 'x) eff)"
    and del: "\<And>u. preserves I (deleteEnrollment A u :: (nat, 'x) eff)"
    and audit: "\<And>es. sqlKeeps I (insertAuditLogsSql es)"
    and A: "auth_frame A" and send: "\<And>e. keeps w_db (send e)"
  shows "preserves I (enroll A L a)" "preserves I (activate A L a h e code)"
    "preserves I (disable A L a h code kind)" "preserves I (forceDisableMfa A send u)"
    "preserves I (completeLoginChallenge A L h code kind)"
    "preserves I (afterPrimaryAuth A env r s p i l hs)"
proof -
  have dis: "preserves I (disableEnrollment A u ip ua)" for u ip ua
    unfolding disableEnrollment_def by (intro preserves_intros del audit)
  have consume: "preserves I (consumeMatchedCode u m :: (unit, 'x) eff)" for u m
    unfolding consumeMatchedCode_def by (intro preserves_intros use)
  show "preserves I (enroll A L a)"
    unfolding enroll_def
    by (intro preserves_andThen preserves_option preserves_if ins; (rule preserves_keeps, intro keeps_intros)?)
  show "preserves I (activate A L a h e code)"
    unfolding activate_def Let_def by (intro preserves_intros use A audit)
  show "preserves I (disable A L a h code kind)"
    unfolding disable_def Let_def by (intro preserves_intros consume dis A)
  show "preserves I (forceDisableMfa A send u)"
    unfolding forceDisableMfa_def notifyMfaDisabledForManagement_def
    by (intro preserves_intros del dis send[THEN preserves_keeps])
  show "preserves I (completeLoginChallenge A L h code kind)"
    unfolding completeLoginChallenge_def
    by (intro preserves_intros consume audit A keeps_auth[THEN preserves_keeps])
  have enforce: "keeps w_db (enforceChallenge A r ci)" for ci
    unfolding enforceChallenge_def reportKillSwitchPeriodically_def reportFailure_def openChallengeCookie_def
    by (intro keeps_intros A; (cases "cin_route ci"; simp; intro keeps_intros)?)
  have observe: "keeps w_db (observeSignInProgram u ro hd :: (unit, 'x) eff)" for u ro hd
    unfolding observeSignInProgram_def by (cases ro; simp; intro keeps_intros)
  show "preserves I (afterPrimaryAuth A env r s p i l hs)"
    unfolding afterPrimaryAuth_def Let_def
    by (intro preserves_option preserves_andThen preserves_prod preserves_keeps[OF keeps_catchCause] enforce;
        (intro preserves_keeps keeps_intros)?)
      (auto intro!: preserves_keeps keeps_intros observe split: challengeDecision.splits)
qed

text \<open>What the statements of the two transactions keep, the transactions keep.\<close>

lemma preserves_insertEnrollment [preserves_intros]:
  assumes "preserves I (insertMfaTotpEnrollment \<lparr>ne_userId = u, ne_enrollmentId = e, ne_secretCiphertext = ev_ciphertext s,
      ne_secretIv = ev_iv s, ne_keyVersion = ev_keyVersion s\<rparr> :: (bool, 'x) eff)"
    "\<And>vs. preserves I (insertRecoveryCodes vs :: (unit, 'x) eff)"
  shows "preserves I (insertEnrollment u e s cs :: (bool, 'x) eff)"
  unfolding insertEnrollment_def by (intro preserves_intros assms)

lemma preserves_deleteEnrollment [preserves_intros]:
  fixes A :: "'x better_auth"
  assumes "auth_frame A" "preserves I (deleteMfaTotp u :: (nat, 'x) eff)"
    "preserves I (deleteRecoveryCodesByUserId u :: (nat, 'x) eff)"
  shows "preserves I (deleteEnrollment A u)"
  unfolding deleteEnrollment_def by (intro preserves_intros assms)

section \<open>The invariants of the service\<close>

lemma wf_signUp: "wf_db d \<Longrightarrow> signUpAllowed u d \<Longrightarrow> wf_db (signUp u d)"
  by (auto simp: signUp_def signUpAllowed_def wf_db_def wf_keys_def wf_refs_def userIds_def companyIds_def)

lemma editProfile_facts:
  assumes "profileEdit i f d"
  shows "map us_id (d_user (editProfile i f d)) = map us_id (d_user d)"
    "distinct (map us_email (d_user (editProfile i f d)))"
    "u \<in> set (d_user (editProfile i f d)) \<Longrightarrow>
      \<exists>v\<in>set (d_user d). us_id u = us_id v \<and> us_lastUsedCompanyId u = us_lastUsedCompanyId v"
  using assms map_key_updateWhere[of "\<lambda>u. us_id u = i" us_id f "d_user d"]
  by (auto simp: profileEdit_def editProfile_def in_updateWhere)

lemma wf_editProfile:
  assumes "wf_db d" "profileEdit i f d" shows "wf_db (editProfile i f d)"
proof -
  note e = editProfile_facts[OF assms(2)]
  have ids: "userIds (editProfile i f d) = userIds d"
    unfolding userIds_def using e(1) by (metis set_map)
  have refs: "\<forall>u\<in>set (d_user (editProfile i f d)). \<forall>c. us_lastUsedCompanyId u = Some c \<longrightarrow> c \<in> companyIds d"
    using e(3) assms(1) by (fastforce simp: wf_db_def wf_refs_def)
  show ?thesis
    using assms(1) e(1,2) ids refs
    by (simp add: wf_db_def wf_keys_def wf_refs_def) (simp add: editProfile_def companyIds_def)
qed

interpretation schema: service_invariant K wf_db for K :: "'x service"
proof unfold_locales
  show "service_frame K \<Longrightarrow> preserves wf_db (perform K op)" for op
    by (cases op) (auto simp: service_frame_def intro!: preserves_intros preserves_mfa_operations)
qed (auto intro: wf_signUp wf_editProfile)

lemma companyInv_signUp: "companyInv d \<Longrightarrow> signUpAllowed u d \<Longrightarrow> companyInv (signUp u d)"
  using wf_signUp[of d u]
  by (auto simp: companyInv_def owned_def currentValid_def signUp_def signUpAllowed_def isActiveCompany_def
      ownersOf_def isMember_def)

lemma companyInv_editProfile: "companyInv d \<Longrightarrow> profileEdit i f d \<Longrightarrow> companyInv (editProfile i f d)"
  using wf_editProfile[of d i f] editProfile_facts(3)[of i f d]
  by (force simp: companyInv_def owned_def currentValid_def editProfile_def isActiveCompany_def
      ownersOf_def isMember_def)

interpretation ownership: service_invariant K companyInv for K :: "'x service"
proof unfold_locales
  show "companyInv emptyDb"
    by (simp add: companyInv_def owned_def currentValid_def) (simp add: emptyDb_def isActiveCompany_def)
  show "service_frame K \<Longrightarrow> preserves companyInv (perform K op)" for op
    by (cases op) (auto simp: service_frame_def intro!: preserves_intros preserves_mfa_operations)
qed (auto intro: companyInv_signUp companyInv_editProfile)

end
