(* ===== verification/Statements.thy ===== *)
theory Statements
  imports Lifecycle
begin

text \<open>
  Invariants that hold statement by statement: what every single statement of the repositories keeps, every
  operation keeps, at every point, committed or not. Instances: the columns of invitations agree with their
  status; the audit log only grows at its end; a deleted company stays deleted.
\<close>

definition companyStatements :: "(database \<Rightarrow> bool) \<Rightarrow> bool" where
  "companyStatements I \<longleftrightarrow>
    (\<forall>i u c r. sqlKeeps I (insertMembershipSql i u c r)) \<and>
    (\<forall>u c r. sqlKeeps I (updateMembershipRoleSql u c r)) \<and>
    (\<forall>P. sqlKeeps I (deleteMembershipsWhere P)) \<and>
    (\<forall>u. sqlKeeps I (deleteUserSql u)) \<and>
    (\<forall>u c. sqlKeeps I (updateUserLastUsedCompanySql u c)) \<and>
    (\<forall>c us. sqlKeeps I (reassignLastUsedCompanySql c us)) \<and>
    (\<forall>i n oc. sqlKeeps I (insertCompanySql i n oc)) \<and>
    (\<forall>i f. (\<forall>now c. co_id (f now c) = co_id c) \<longrightarrow> sqlKeeps I (updateActiveCompany i f)) \<and>
    (\<forall>p. sqlKeeps I (insertInvitationSql p)) \<and>
    (\<forall>P s. s \<noteq> PENDING \<longrightarrow> sqlKeeps I (settlePending P s)) \<and>
    (\<forall>es. sqlKeeps I (insertAuditLogsSql es))"

definition statementInvariant :: "(database \<Rightarrow> bool) \<Rightarrow> bool" where
  "statementInvariant I \<longleftrightarrow> companyStatements I \<and>
    (\<forall>v. sqlKeeps I (insertMfaTotpEnrollmentSql v)) \<and>
    (\<forall>P f. sqlKeeps I (updateTotpWhere P f)) \<and>
    (\<forall>u. sqlKeeps I (deleteMfaTotpSql u)) \<and>
    (\<forall>vs. sqlKeeps I (insertRecoveryCodesSql vs)) \<and>
    (\<forall>u i. sqlKeeps I (consumeRecoveryCodeSql u i)) \<and>
    (\<forall>u. sqlKeeps I (deleteRecoveryCodesSql u))"

lemmas repository_defs = insertMembership_def updateMembershipRole_def deleteMembership_def
  removeMembershipsOfCompany_def deleteUser_def updateUserLastUsedCompany_def
  reassignLastUsedCompanyAfterLeaving_def insertCompany_def updateCompany_def softDeleteCompany_def
  insertInvitation_def markInvitationAccepted_def markInvitationRevoked_def revokePendingInvitationsOfCompany_def
  insertMfaTotpEnrollment_def activateMfaTotp_def consumeTotpTimestep_def deleteMfaTotp_def
  insertRecoveryCodes_def consumeRecoveryCode_def deleteRecoveryCodesByUserId_def

lemma companyStatements_repository:
  assumes "companyStatements I"
  shows "preserves I (insertMembership i u c r)" "preserves I (updateMembershipRole u c r)"
    "preserves I (deleteMembership u c)" "preserves I (removeMembershipsOfCompany c)"
    "preserves I (deleteUser u)" "preserves I (updateUserLastUsedCompany u c)"
    "preserves I (reassignLastUsedCompanyAfterLeaving c us)"
    "preserves I (insertCompany i n oc)" "preserves I (updateCompany i n oc)" "preserves I (softDeleteCompany i)"
    "preserves I (insertInvitation p)" "preserves I (markInvitationAccepted i)"
    "preserves I (markInvitationRevoked i c)" "preserves I (revokePendingInvitationsOfCompany c)"
    "sqlKeeps I (insertAuditLogsSql es)"
  using assms unfolding repository_defs companyStatements_def
  by (auto intro!: preserves_intros)

lemma statementInvariant_mfa:
  assumes "statementInvariant I"
  shows "preserves I (insertMfaTotpEnrollment v)" "preserves I (activateMfaTotp u e t)" "preserves I (consumeTotpTimestep u t)"
    "preserves I (deleteMfaTotp u)" "preserves I (insertRecoveryCodes vs)"
    "preserves I (consumeRecoveryCode u i)" "preserves I (deleteRecoveryCodesByUserId u)"
  using assms unfolding repository_defs statementInvariant_def
  by (auto intro!: preserves_intros)

lemma companyStatements_operations:
  fixes K :: "'x service"
  assumes I: "companyStatements I" and frame: "service_frame K"
    and use: "\<And>u e t. preserves I (activateMfaTotp u e t :: (bool, 'x) eff)"
    "\<And>u t. preserves I (consumeTotpTimestep u t :: (bool, 'x) eff)"
    "\<And>u i. preserves I (consumeRecoveryCode u i :: (bool, 'x) eff)"
    and ins: "\<And>u e s cs. preserves I (transaction (sv_auth K) (insertEnrollment u e s cs) :: (bool, 'x) eff)"
    and del: "\<And>u. preserves I (deleteEnrollment (sv_auth K) u :: (nat, 'x) eff)"
  shows "preserves I (perform K op)"
proof -
  note repo = companyStatements_repository[OF I] preserves_audit[OF companyStatements_repository(15)[OF I]]
  have A: "auth_frame (sv_auth K)" and send: "\<And>e. keeps w_db (sv_sendMfaDisabled K e)"
    using frame by (auto simp: service_frame_def)
  have best: "preserves I (appendAuditBestEffort e)" for e by (intro preserves_intros repo)
  have account_del: "preserves I (deleteAccount u flow)" for u flow
    unfolding deleteAccount_def by (intro preserves_intros repo)
  have orphan: "preserves I (deleteAccountIfOrphaned u flow)" for u flow
    unfolding deleteAccountIfOrphaned_def by (intro preserves_intros account_del)
  have account: "preserves I (deleteAccountUnlessLastOwner (sv_auth K) u)"
    "preserves I (sweepAbandonedSignups (sv_auth K) t e)" for u t e
    unfolding deleteAccountUnlessLastOwner_def sweepAbandonedSignups_def
    by (intro preserves_intros account_del orphan A)+
  have applies: "preserves I (applyRoleChange u c r)" "preserves I (applyJoin i u c r)"
    "preserves I (applyRemoval u c)" "preserves I (applyCompanyRemoval c)" "preserves I (applyTransfer a u c)"
    for u c r i a
    unfolding applyRoleChange_def applyJoin_def applyRemoval_def applyCompanyRemoval_def applyTransfer_def
      keepingAnOwner_def becomeCurrentOnJoin_def reassignCurrentAfterLeaving_def
    by (intro preserves_intros repo; auto intro: preserves_intros repo)+
  have member: "preserves I (switchCurrentCompany (sv_auth K) u c)" "preserves I (changeRole (sv_auth K) g)"
    "preserves I (removeMember (sv_auth K) rg)" "preserves I (transferOwnership (sv_auth K) tg)" for u c g rg tg
    unfolding switchCurrentCompany_def changeRole_def removeMember_def transferOwnership_def Let_def
    by (intro preserves_intros applies repo orphan A)+
  have create: "preserves I (createCompanyWithOwner u n oc)" for u n oc
    unfolding createCompanyWithOwner_def generateCompanyId_def by (intro preserves_intros applies repo)
  have body: "preserves I (deleteCompanyBody a c)" for a c
    unfolding deleteCompanyBody_def by (intro preserves_intros applies repo orphan)
  have company: "preserves I (createSignupCompany (sv_auth K) u n oc)" "preserves I (addCompany (sv_auth K) u n oc)"
    "preserves I (updateCompanyInfo (sv_auth K) m n oc)" "preserves I (deleteCompany (sv_auth K) m)" for u n oc m
    unfolding createSignupCompany_def addCompany_def updateCompanyInfo_def deleteCompany_def Let_def
    by (intro preserves_intros create body repo A)+
  have accept: "preserves I (acceptBody a i)" for a i
    unfolding acceptBody_def by (intro preserves_intros applies repo)
  have invite: "preserves I (createInvitation (sv_auth K) env url ig)" "preserves I (revokeInvitation (sv_auth K) m i)"
    "preserves I (acceptInvitation (sv_auth K) ag)" for env url ig m i ag
    unfolding createInvitation_def findOrInsertInvitation_def sendInvitationLink_def revokeInvitation_def
      acceptInvitation_def recordRejectionAndFail_def Let_def
    by (intro preserves_intros accept best repo A)+
  note mfa = preserves_mfa_operations[OF use ins del repo(15) A send]
  show ?thesis
    by (cases op) (auto intro!: preserves_mapEff account member company invite best mfa)
qed

lemma statementInvariant_operations:
  assumes "statementInvariant I" "service_frame K" shows "preserves I (perform K op)"
proof (rule companyStatements_operations)
  show "companyStatements I" using assms(1) by (simp add: statementInvariant_def)
qed (use assms(2) in \<open>auto simp: service_frame_def intro!: preserves_intros statementInvariant_mfa[OF assms(1)]\<close>)

section \<open>Instances\<close>

text \<open>The columns of invitations.\<close>

definition invitationColumns :: "database \<Rightarrow> bool" where
  "invitationColumns d \<longleftrightarrow> (\<forall>i\<in>set (d_invitation d). statusColumnsAgree i)"

lemma statementInvariant_invitationColumns: "statementInvariant invitationColumns"
  unfolding statementInvariant_def companyStatements_def
proof (intro conjI allI impI)
  show "sqlKeeps invitationColumns (settlePending P s)" for P s
    unfolding sqlKeeps_def
  proof (intro allI impI)
    fix now d a d' assume run: "settlePending P s now d = Some (a, d')" and d: "invitationColumns d"
    show "invitationColumns d'"
      unfolding invitationColumns_def
    proof
      fix i assume "i \<in> set (d_invitation d')"
      with run obtain j where "j \<in> set (d_invitation d)"
        "i = (if P j \<and> iv_status j = PENDING then invitationStatusColumns s now j else j)"
        by (auto simp: settlePending_def Let_def in_updateWhere)
      with d show "statusColumnsAgree i" by (simp add: invitationColumns_def)
    qed
  qed
qed (auto simp: sqlKeeps_def invitationColumns_def sql_defs insertAuditLogsSql_def Let_def statusColumnsAgree_def split: if_splits option.splits)

text \<open>The audit log, from a given point on.\<close>

definition auditExtends :: "auditLog list \<Rightarrow> database \<Rightarrow> bool" where
  "auditExtends l d \<longleftrightarrow> (\<exists>es. d_auditLog d = l @ es)"

lemma statementInvariant_auditExtends: "statementInvariant (auditExtends l)"
  unfolding statementInvariant_def companyStatements_def
  by (auto simp: sqlKeeps_def auditExtends_def sql_defs Let_def insertAuditLogsSql_def split: if_splits option.splits)

text \<open>A company that was deleted.\<close>

definition companyDeleted :: "id \<Rightarrow> database \<Rightarrow> bool" where
  "companyDeleted c d \<longleftrightarrow> c \<in> companyIds d \<and> \<not> isActiveCompany d c"

lemma statementInvariant_companyDeleted: "statementInvariant (companyDeleted c)"
  unfolding statementInvariant_def companyStatements_def
proof (intro conjI allI impI)
  show "sqlKeeps (companyDeleted c) (updateActiveCompany i f)"
    if ids: "\<forall>now x. co_id (f now x) = co_id x" for i f
    unfolding sqlKeeps_def
  proof (intro allI impI)
    fix now d a d' assume run: "updateActiveCompany i f now d = Some (a, d')" and d: "companyDeleted c d"
    have act: "(\<exists>r\<in>set (updateWhere (\<lambda>x. co_id x = i \<and> co_activationStatus x = ACTIVE) (f now) rs). co_id r = c \<and> co_activationStatus r = ACTIVE)
      \<Longrightarrow> (\<exists>r\<in>set rs. co_id r = c \<and> co_activationStatus r = ACTIVE)" for rs
      using ids by (induction rs) (auto split: if_splits)
    from run have d': "d_company d' = updateWhere (\<lambda>x. co_id x = i \<and> co_activationStatus x = ACTIVE) (f now) (d_company d)"
      by (auto simp: updateActiveCompany_def Let_def)
    have "isActiveCompany d' c \<Longrightarrow> isActiveCompany d c"
      unfolding isActiveCompany_def d' by (rule act)
    moreover have "map co_id (d_company d') = map co_id (d_company d)"
      unfolding d' by (rule map_key_updateWhere) (simp add: ids)
    then have "companyIds d' = companyIds d" unfolding companyIds_def by (metis set_map)
    ultimately show "companyDeleted c d'"
      using d by (auto simp: companyDeleted_def)
  qed
qed (auto simp: sqlKeeps_def companyDeleted_def companyIds_def isActiveCompany_def sql_defs insertAuditLogsSql_def Let_def
    split: if_splits option.splits)

lemma statement_step:
  assumes "statementInvariant I" "service_frame K" "service_step K w w'" "I (w_db w)"
    and "\<And>u d. I d \<Longrightarrow> I (signUp u d)" "\<And>i f d. I d \<Longrightarrow> I (editProfile i f d)"
  shows "I (w_db w')"
  using assms(3)
proof cases
  case (operation op r)
  with preservesD[OF statementInvariant_operations[OF assms(1,2)]] assms(4) show ?thesis by blast
qed (use assms(4,5,6) in auto)

interpretation invitations: service_invariant K invitationColumns for K :: "'x service"
  by unfold_locales
    (auto intro: statementInvariant_operations statementInvariant_invitationColumns
      simp: signUp_def editProfile_def emptyDb_def invitationColumns_def)

end
