(* ===== verification/Demo.thy ===== *)
theory Demo
  imports Statements
begin

text \<open>
  Concrete inputs for the witnesses: a small database, a better-auth that knows one session per user and whose
  calls all succeed, a world without faults, and the run from the empty database that founds a company.
\<close>

section \<open>Running a program\<close>

lemma runs_to: "fst p = r \<Longrightarrow> p = (r, snd p)"
  by (cases p) simp

lemma performs: "service_step K w (snd (perform K op w))"
  by (rule service_step.operation[of K op w "fst (perform K op w)"]) simp

section \<open>The environment\<close>

text \<open>The header \<open>user\<close> stands for the session cookie: it names the user of the session.\<close>

definition demoSession :: "id \<Rightarrow> auth_session" where
  "demoSession u = \<lparr>as_session = Some \<lparr>sr_id = u @ ''-session'', sr_token = u @ ''-token'', sr_expiresAt = 90000\<rparr>,
     as_user = Some \<lparr>su_id = u, su_revision = Some 0\<rparr>\<rparr>"

definition demoAuth :: "unit better_auth" where
  "demoAuth = \<lparr>
     ba_getSession = (\<lambda>h w. (Inr (map_option demoSession (map_of h ''user'')), w)),
     ba_deleteUserSessions = (\<lambda>u w. (Inr (), w)),
     ba_deleteSession = (\<lambda>t w. (Inr (), w)),
     ba_revokeOtherSessions = (\<lambda>h w. (Inr (Some [(''set-cookie'', ''rotated'')]), w)),
     ba_createSession = (\<lambda>u w. (Inr (''token'', 90000), w)),
     ba_createUser = (\<lambda>e n w. (Inr (''new'', e), w)),
     ba_signInMagicLink = (\<lambda>e c w. (Inr (), w)),
     ba_signOut = (\<lambda>h w. (Inr [], w)),
     ba_secret = ''secret'',
     ba_cookieName = ''session'',
     ba_makeSignature = (\<lambda>v s. ''sig''),
     ba_serializeSetCookie = (\<lambda>n v m. n @ ''='' @ v)\<rparr>"

lemma demoAuth_frame [simp]: "auth_frame demoAuth"
  by (simp add: auth_frame_def demoAuth_def)

definition demoUser :: "id \<Rightarrow> string \<Rightarrow> id option \<Rightarrow> user" where
  "demoUser i email c = \<lparr>us_id = i, us_name = i, us_email = email, us_emailVerified = True, us_image = None,
     us_revision = 0, us_lastUsedCompanyId = c, us_createdAt = 0, us_updatedAt = 0\<rparr>"

definition demoCompany :: "id \<Rightarrow> company" where
  "demoCompany c = newCompany c ''Acme'' CORPORATE 0"

definition demoMember :: "id \<Rightarrow> id \<Rightarrow> id \<Rightarrow> role \<Rightarrow> millis \<Rightarrow> membership" where
  "demoMember i u c r t = \<lparr>mb_id = i, mb_userId = u, mb_companyId = c, mb_role = r, mb_joinedAt = t,
     mb_createdAt = t, mb_updatedAt = t\<rparr>"

definition demoInvitation :: "id \<Rightarrow> string \<Rightarrow> role \<Rightarrow> invitation" where
  "demoInvitation i email r = \<lparr>iv_id = i, iv_companyId = ''c1'', iv_email = email, iv_role = r,
     iv_token = i @ ''-token'', iv_expiresAt = 50000, iv_status = PENDING, iv_acceptedAt = None,
     iv_revokedAt = None, iv_usedAt = None, iv_invitedByUserId = ''ann'', iv_createdAt = 0\<rparr>"

text \<open>Ann owns \<open>c1\<close>, Bob administers it, Cid is a member of it, and Dan is invited to it.\<close>

definition demoDb :: database where
  "demoDb = \<lparr>d_company = [demoCompany ''c1''],
     d_user = [demoUser ''ann'' ''ann@x.jp'' (Some ''c1''), demoUser ''bob'' ''bob@x.jp'' (Some ''c1''),
       demoUser ''cid'' ''cid@x.jp'' (Some ''c1''), demoUser ''dan'' ''dan@x.jp'' None],
     d_mfaTotp = [], d_mfaRecoveryCode = [], d_auditLog = [],
     d_membership = [demoMember ''m1'' ''ann'' ''c1'' OWNER 0, demoMember ''m2'' ''bob'' ''c1'' ADMIN 1,
       demoMember ''m3'' ''cid'' ''c1'' MEMBER 2],
     d_invitation = [demoInvitation ''i1'' ''dan@x.jp'' MEMBER]\<rparr>"

definition worldOf :: "database \<Rightarrow> unit world" where
  "worldOf d = \<lparr>w_db = d, w_kv = [], w_auth = (), w_clock = 1000, w_drawn = 0,
     w_uuid = showNat, w_nanoid = (\<lambda>n k. CHR ''n'' # showNat n), w_bytes = (\<lambda>n k. replicate k (n mod 256)),
     w_dbCalls = 0, w_dbFaults = (\<lambda>_. NoFault), w_kvCalls = 0, w_kvFaults = (\<lambda>_. NoFault),
     w_hooks = [], w_locks = [], w_background = [], w_sentry = []\<rparr>"

definition demoWorld :: "unit world" where
  "demoWorld = worldOf demoDb"

lemma worldOf_simps [simp]:
  "w_db (worldOf d) = d" "w_clock (worldOf d) = 1000" "w_kv (worldOf d) = []"
  "w_db demoWorld = demoDb" "w_clock demoWorld = 1000"
  by (simp_all add: worldOf_def demoWorld_def)

definition demoActor :: "id \<Rightarrow> string \<Rightarrow> actor" where
  "demoActor u email = \<lparr>ac_id = u, ac_email = email, ac_lastUsedCompanyId = Some ''c1''\<rparr>"

definition annsMembership :: verifiedMember where
  "annsMembership = \<lparr>vm_actor = demoActor ''ann'' ''ann@x.jp'', vm_companyId = ''c1'', vm_role = OWNER\<rparr>"

text \<open>Strings that start with \<open>https://\<close> and a host, then a path or nothing.\<close>

definition demoUrl :: url_parser where
  "demoUrl s = (if startsWith s ''https://''
     then (let rest = drop 8 s; host = takeWhile (\<lambda>c. c \<noteq> CHR ''/'') rest
           in Some \<lparr>ur_protocol = ''https:'', ur_username = [], ur_password = [], ur_hostname = host,
                ur_origin = ''https://'' @ host, ur_pathname = dropWhile (\<lambda>c. c \<noteq> CHR ''/'') rest,
                ur_search = [], ur_hash = [], ur_searchParams = []\<rparr>)
     else None)"

definition demoDeps :: mfa_deps where
  "demoDeps = \<lparr>
     md_aesEncrypt = (\<lambda>k iv aad p. p),
     md_aesDecrypt = (\<lambda>k iv aad c. Some c),
     md_randomString = (\<lambda>i n. replicate n (CHR ''s'')),
     md_validateTotp = (\<lambda>secret code t window. if code = ''123456'' then Some 0 else None),
     md_totpCounter = (\<lambda>period t. t div (1000 * int period)),
     md_totpUri = (\<lambda>issuer account secret. ''otpauth://totp/'' @ account),
     md_constantTimeEqual = (=),
     md_parseCookie = (\<lambda>cookie name. if startsWith cookie (name @ ''='') then Some (drop (Suc (length name)) cookie)
       else None),
     md_serializeSetCookie = (\<lambda>name v maxAge. name @ ''='' @ v),
     md_parseUrl = demoUrl,
     md_encryptionKeys = Some (''v1:'' @ replicate 43 (CHR ''A'') @ ''=''),
     md_trustedOrigins = Some ''https://auth.taimei-code.com'',
     md_appName = ''Taimei''\<rparr>"

lemma demoDeps_aes [simp]: "aes_inverts demoDeps"
  by (simp add: aes_inverts_def demoDeps_def)

definition demoService :: "unit service" where
  "demoService = \<lparr>sv_auth = demoAuth, sv_mfa = demoDeps, sv_appUrl = ''https://auth.taimei-code.com'',
     sv_invitationsEnv = None, sv_challengeEnv = None, sv_sendMfaDisabled = (\<lambda>e. succeed ())\<rparr>"

lemma demoService_frame [simp]: "service_frame demoService"
  by (simp add: service_frame_def demoService_def keeps_succeed)

section \<open>A company is founded\<close>

definition foundedWorld :: "unit world" where
  "foundedWorld = snd (perform demoService (AddCompany ''ann'' ''Acme'' CORPORATE)
     (worldOf (signUp (demoUser ''ann'' ''ann@x.jp'' None) emptyDb)))"

lemma reachable_foundedWorld: "reachable demoService foundedWorld"
proof -
  have start: "reachable demoService (worldOf emptyDb)" by (rule reachable.start) simp
  have "service_step demoService (worldOf emptyDb)
      ((worldOf emptyDb)\<lparr>w_db := signUp (demoUser ''ann'' ''ann@x.jp'' None) (w_db (worldOf emptyDb))\<rparr>)"
    by (rule service_step.sign_up) (simp add: signUpAllowed_def emptyDb_def userIds_def demoUser_def)
  then have "service_step demoService (worldOf emptyDb) (worldOf (signUp (demoUser ''ann'' ''ann@x.jp'' None) emptyDb))"
    by (simp add: worldOf_def)
  from reachable.step[OF start this] show ?thesis
    unfolding foundedWorld_def by (rule reachable.step) (rule performs)
qed

lemma wf_demoDb [simp]: "wf_db demoDb"
  by (simp add: demoDb_def wf_db_def wf_keys_def wf_refs_def companyIds_def userIds_def demoCompany_def
      demoUser_def demoMember_def demoInvitation_def newCompany_def membershipKey_def)

text \<open>A later moment of that database, at which the counter of invitations cannot be reached.\<close>

definition laterWorld :: "unit world" where
  "laterWorld = (worldOf (w_db foundedWorld))\<lparr>w_drawn := 10, w_kvFaults := (\<lambda>_. Lost)\<rparr>"

lemma reachable_laterWorld: "reachable demoService laterWorld"
  using reachable_foundedWorld by (rule reachable.step) (rule service_step.elsewhere, simp add: laterWorld_def)

lemma foundedDb:
  "d_invitation (w_db laterWorld) = [] \<and> map co_id (d_company (w_db laterWorld)) = [''cmp_n0''] \<and>
   map us_id (d_user (w_db laterWorld)) = [''ann''] \<and> map al_id (d_auditLog (w_db laterWorld)) = [''2'']"
  by code_simp

definition inviteDan :: inviteGrant where
  "inviteDan = \<lparr>ig_actor = demoActor ''ann'' ''ann@x.jp'', ig_companyId = ''cmp_n0'', ig_email = ''dan@x.jp'',
     ig_role = ADMIN, ig_redirectTarget = None\<rparr>"

definition invitedWorld :: "unit world" where
  "invitedWorld = snd (perform demoService (CreateInvitation inviteDan) laterWorld)"

lemma reachable_invitedWorld: "reachable demoService invitedWorld"
  unfolding invitedWorld_def using reachable_laterWorld by (rule reachable.step) (rule performs)


lemma laterWorld_simps:
  "w_clock laterWorld = 1000" "w_drawn laterWorld = 10" "w_kvFaults laterWorld k = Lost" "w_dbFaults laterWorld k = NoFault"
  "w_nanoid laterWorld n m = CHR ''n'' # showNat n" "w_uuid laterWorld n = showNat n"
  by (simp_all add: laterWorld_def worldOf_def)

lemma spend_none: "w_kvFaults w (w_kvCalls w) = Lost \<Longrightarrow>
  spendInvitationAttempt env c w = (Inr (), w\<lparr>w_kvCalls := Suc (w_kvCalls w),
    w_sentry := w_sentry w @ [ab_component (invitationsPerCompanyHour env)]\<rparr>)"
  by (simp add: spendInvitationAttempt_def spendAttemptBudgetOrRateLimited_def spendAttemptBudgetFailOpen_def spend_def
    ttlIncrementRateWindow_def attemptOnce_def tryTtlStore_def andThen_def currentTimeMillis_def catchIf_def
    captureCauseAs_def captureCause_def mapEff_def succeed_def failWith_def Let_def)

lemma digits: "showNat 10 = ''10''" "showNat 11 = ''11''" "showNat 12 = ''12''" by code_simp+

lemma invited: "map iv_status (d_invitation (w_db invitedWorld)) = [PENDING]"
proof -
  from foundedDb have f: "d_invitation (w_db laterWorld) = []" "companyIds (w_db laterWorld) = {''cmp_n0''}"
   "userIds (w_db laterWorld) = {''ann''}" "al_id ` set (d_auditLog (w_db laterWorld)) = {''2''}"
    unfolding companyIds_def userIds_def by (metis list.set_map list.set(1) list.simps(15))+
  show ?thesis
  by (simp add: invitedWorld_def createInvitation_def findOrInsertInvitation_def Let_def andThen_def currentTimeMillis_def
    findActivePendingInvitation_def tryDb_def select_def laterWorld_simps f spend_none transaction_def runTx_def
    generateInvitationId_def generateInvitationToken_def mapEff_def nanoid_def succeed_def insertInvitation_def insertInvitationSql_def
    appendAuditInTx_def appendAuditLogs_def randomUUID_def insertAuditLogsSql_def demoService_def inviteDan_def demoActor_def
    sendInvitationLink_def runBackground_def digits companyIds_def[symmetric] userIds_def[symmetric] forEachDiscard.simps)
qed

end
