(* ===== verification/CompanyProperties.thy ===== *)
theory CompanyProperties
  imports Demo
begin

text \<open>
  What the operations on companies, members and accounts do, and what never changes while the service runs.
  The first section says what the single changes of the database do to roles; the properties follow, each
  with the run of the demonstration database that shows its hypotheses can hold.
\<close>

section \<open>Roles\<close>

definition roleOf :: "database \<Rightarrow> id \<Rightarrow> id \<Rightarrow> role option" where
  "roleOf d u c = map_option mb_role (membershipOf d u c)"

lemma roleOf_iff_isMember: "roleOf d u c \<noteq> None \<longleftrightarrow> isMember d u c"
  by (auto simp: roleOf_def isMember_iff membershipOf_def filter_empty_conv isMembershipOf_def)

lemma membershipOf_audit: "auditAppended es d d' \<Longrightarrow> membershipOf d' u c = membershipOf d u c"
  by (simp add: membershipOf_def auditAppended_tables)

lemma roleOf_audit: "auditAppended es d d' \<Longrightarrow> roleOf d' u c = roleOf d u c"
  by (simp add: roleOf_def membershipOf_audit)

lemma at0_filter_updateWhere:
  assumes "\<And>x. P x \<Longrightarrow> Q (f x) = Q x"
  shows "at0 (filter Q (updateWhere P f xs)) = map_option (\<lambda>x. if P x then f x else x) (at0 (filter Q xs))"
  using assms by (induction xs) auto

lemma roleOf_setRole:
  "roleOf (setRole u c r t d) u' c' =
    (if u' = u \<and> c' = c then map_option (\<lambda>_. r) (roleOf d u c) else roleOf d u' c')"
proof -
  have "membershipOf (setRole u c r t d) u' c' =
      map_option (\<lambda>m. if isMembershipOf u c m then m\<lparr>mb_role := r, mb_updatedAt := t\<rparr> else m) (membershipOf d u' c')"
    unfolding membershipOf_def setRole_def
    by (simp add: at0_filter_updateWhere isMembershipOf_def)
  then show ?thesis
    by (cases "membershipOf d u' c'") (auto simp: roleOf_def isMembershipOf_def dest: membershipOf_Some)
qed

lemma roleOf_leave: "roleOf (leave u c d) u' c' = (if u' = u \<and> c' = c then None else roleOf d u' c')"
proof -
  have "filter (\<lambda>m. mb_userId m = u' \<and> mb_companyId m = c') (filter (\<lambda>m. \<not> isMembershipOf u c m) xs) =
      (if u' = u \<and> c' = c then [] else filter (\<lambda>m. mb_userId m = u' \<and> mb_companyId m = c') xs)" for xs
    by (induction xs) (auto simp: isMembershipOf_def)
  then show ?thesis by (simp add: roleOf_def membershipOf_def leave_def)
qed

lemma roleOf_dropUser: "roleOf (dropUser v d) u c = (if u = v then None else roleOf d u c)"
proof -
  have "filter (\<lambda>m. mb_userId m = u \<and> mb_companyId m = c) (filter (\<lambda>m. mb_userId m \<noteq> v) xs) =
      (if u = v then [] else filter (\<lambda>m. mb_userId m = u \<and> mb_companyId m = c) xs)" for xs :: "membership list"
    by (induction xs) auto
  then show ?thesis by (cases "u = v") (simp_all add: roleOf_def membershipOf_def del: filter_filter)
qed

lemma roleOf_reassign [simp]: "roleOf (reassignCurrent c us t d) u x = roleOf d u x"
  by (simp add: roleOf_def membershipOf_def)

lemma roleOf_owner: "ownersOf d c \<noteq> [] \<longleftrightarrow> (\<exists>m\<in>set (d_membership d). mb_companyId m = c \<and> mb_role m = OWNER)"
  by (auto simp: ownersOf_def filter_empty_conv)

section \<open>Transactions\<close>

lemma transaction_failure:
  fixes f :: "('a, 'x) eff"
  assumes "transaction A f w = (Inl r, w')"
  shows "(w_db w' = w_db w \<or> (r = Fail DbError \<and> (\<exists>a. fst (f (w\<lparr>w_dbCalls := Suc (w_dbCalls w), w_hooks := [], w_locks := []\<rparr>)) = Inr a) \<and>
      w_db w' = w_db (snd (f (w\<lparr>w_dbCalls := Suc (w_dbCalls w), w_hooks := [], w_locks := []\<rparr>))))) \<and>
    w_auth w' \<in> {w_auth w, w_auth (snd (f (w\<lparr>w_dbCalls := Suc (w_dbCalls w), w_hooks := [], w_locks := []\<rparr>)))} \<and>
    w_hooks w' = w_hooks w"
proof -
  let ?w0 = "w\<lparr>w_dbCalls := Suc (w_dbCalls w), w_hooks := [], w_locks := []\<rparr>"
  obtain x w1 where body: "f ?w0 = (x, w1)" by fastforce
  have hooks: "andDo (forEachDiscard (runHook A) hs) (succeed a) v \<noteq> (Inl r, v')" for hs v v' and a :: 'a
    using throwsD[of "{}" "andDo (forEachDiscard (runHook A) hs) (succeed a)" v r v'] by (auto intro: throws_intros)
  show ?thesis
    using assms body hooks
    by (cases x) (auto simp: transaction_def runTx_def Let_def split: if_splits fault.splits)
qed



section \<open>Members\<close>

lemma changeRole_effect:
  assumes "changeRole A g w = (Inr (), w')" "auth_frame A" "rg_targetRole g \<noteq> rg_nextRole g"
  shows "\<exists>d1. d1 = setRole (rg_targetUserId g) (rg_companyId g) (rg_nextRole g) (w_clock w) (w_db w) \<and>
    isMember (w_db w) (rg_targetUserId g) (rg_companyId g) \<and> ownersOf d1 (rg_companyId g) \<noteq> [] \<and>
    auditAppended [\<lparr>ae_userId = ac_id (rg_actor g), ae_event = Role_changed (rg_companyId g) (rg_targetUserId g)
      (rg_targetRole g) (rg_nextRole g) (ac_id (rg_actor g))\<rparr>] d1 (w_db w')"
proof -
  let ?w0 = "w\<lparr>w_dbCalls := Suc (w_dbCalls w), w_hooks := [], w_locks := []\<rparr>"
  from assms(1,3) have "transaction A (andDo (applyRoleChange (rg_targetUserId g) (rg_companyId g) (rg_nextRole g))
      (appendAuditInTx [\<lparr>ae_userId = ac_id (rg_actor g), ae_event = Role_changed (rg_companyId g) (rg_targetUserId g)
        (rg_targetRole g) (rg_nextRole g) (ac_id (rg_actor g))\<rparr>])) w = (Inr (), w')"
    by (simp add: changeRole_def Let_def)
  from transaction_success[OF this assms(2)] obtain w1 w2 x where
    change: "applyRoleChange (rg_targetUserId g) (rg_companyId g) (rg_nextRole g) ?w0 = (Inr x, w1)"
    and log: "appendAuditInTx [\<lparr>ae_userId = ac_id (rg_actor g), ae_event = Role_changed (rg_companyId g)
      (rg_targetUserId g) (rg_targetRole g) (rg_nextRole g) (ac_id (rg_actor g))\<rparr>] w1 = (Inr (), w2)"
    and w': "w_db w' = w_db w2"
    by (auto simp: andThen_runs)
  from applyRoleChange_success[OF change] appendAuditInTx_db[OF log] w' show ?thesis
    by (auto dest: membershipOf_isMember)
qed

text \<open>
  C18: A role change that succeeds gives the target the new role and touches no other member, leaves the company
  with an owner (demoting the last one fails), and logs the change under the actor's name.
\<close>

theorem changeRole_correct:
  assumes "changeRole A g w = (Inr (), w')" "auth_frame A" "rg_targetRole g \<noteq> rg_nextRole g"
  shows "roleOf (w_db w') u c = (if u = rg_targetUserId g \<and> c = rg_companyId g then Some (rg_nextRole g)
      else roleOf (w_db w) u c) \<and>
    (\<exists>m\<in>set (d_membership (w_db w')). mb_companyId m = rg_companyId g \<and> mb_role m = OWNER) \<and>
    logged (w_db w') = logged (w_db w) @ [\<lparr>ae_userId = ac_id (rg_actor g), ae_event = Role_changed (rg_companyId g)
      (rg_targetUserId g) (rg_targetRole g) (rg_nextRole g) (ac_id (rg_actor g))\<rparr>]"
proof -
  from changeRole_effect[OF assms] obtain d1 where d1: "d1 = setRole (rg_targetUserId g) (rg_companyId g)
      (rg_nextRole g) (w_clock w) (w_db w)" "ownersOf d1 (rg_companyId g) \<noteq> []"
    and m: "isMember (w_db w) (rg_targetUserId g) (rg_companyId g)"
    and a: "auditAppended [\<lparr>ae_userId = ac_id (rg_actor g), ae_event = Role_changed (rg_companyId g)
      (rg_targetUserId g) (rg_targetRole g) (rg_nextRole g) (ac_id (rg_actor g))\<rparr>] d1 (w_db w')" by blast
  from m obtain r where "roleOf (w_db w) (rg_targetUserId g) (rg_companyId g) = Some r"
    using roleOf_iff_isMember by fastforce
  moreover have "logged d1 = logged (w_db w)" by (simp add: d1 logged_def)
  ultimately show ?thesis
    using d1(2) auditAppended_tables[OF a] by (auto simp: roleOf_audit[OF a] d1(1) roleOf_setRole roleOf_owner)
qed

definition demoteCid :: roleChangeGrant where
  "demoteCid = \<lparr>rg_actor = demoActor ''ann'' ''ann@x.jp'', rg_companyId = ''c1'', rg_targetUserId = ''cid'',
     rg_targetRole = MEMBER, rg_nextRole = ADMIN\<rparr>"

theorem changeRole_correct_witness:
  "roleOf (w_db (snd (changeRole demoAuth demoteCid demoWorld))) ''cid'' ''c1'' = Some ADMIN \<and>
   roleOf (w_db (snd (changeRole demoAuth demoteCid demoWorld))) ''ann'' ''c1'' = roleOf demoDb ''ann'' ''c1''"
proof -
  have "fst (changeRole demoAuth demoteCid demoWorld) = Inr ()" by code_simp
  note run = changeRole_correct[OF runs_to[OF this] demoAuth_frame]
  show ?thesis using run[of "''cid''" "''c1''"] run[of "''ann''" "''c1''"] by (simp add: demoteCid_def)
qed

lemma transferOwnership_effect:
  assumes "transferOwnership A g w = (Inr (), w')" "auth_frame A"
  shows "\<exists>d1. d1 = setRole (ac_id (og_actor g)) (og_companyId g) ADMIN (w_clock w)
      (setRole (og_toUserId g) (og_companyId g) OWNER (w_clock w) (w_db w)) \<and>
    isMember (w_db w) (og_toUserId g) (og_companyId g) \<and> isMember (w_db w) (ac_id (og_actor g)) (og_companyId g) \<and>
    auditAppended [\<lparr>ae_userId = ac_id (og_actor g), ae_event = Ownership_transferred (og_companyId g)
      (ac_id (og_actor g)) (og_toUserId g)\<rparr>] d1 (w_db w')"
proof -
  let ?w0 = "w\<lparr>w_dbCalls := Suc (w_dbCalls w), w_hooks := [], w_locks := []\<rparr>"
  from transaction_success[OF assms(1)[unfolded transferOwnership_def Let_def] assms(2)] obtain w1 w2 x where
    change: "applyTransfer (ac_id (og_actor g)) (og_toUserId g) (og_companyId g) ?w0 = (Inr x, w1)"
    and log: "appendAuditInTx [\<lparr>ae_userId = ac_id (og_actor g), ae_event = Ownership_transferred (og_companyId g)
      (ac_id (og_actor g)) (og_toUserId g)\<rparr>] w1 = (Inr (), w2)"
    and w': "w_db w' = w_db w2"
    by (auto simp: andThen_runs)
  from applyTransfer_success[OF change] appendAuditInTx_db[OF log] w' show ?thesis
    by (auto dest: membershipOf_isMember)
qed

text \<open>
  C7: A transfer of ownership that succeeds makes the target an owner and the actor an administrator, changes no
  other role in any company, and logs who gave the company to whom.
\<close>

theorem transferOwnership_correct:
  assumes "transferOwnership A g w = (Inr (), w')" "auth_frame A" "og_toUserId g \<noteq> ac_id (og_actor g)"
  shows "roleOf (w_db w') u c = (if c = og_companyId g \<and> u = og_toUserId g then Some OWNER
      else if c = og_companyId g \<and> u = ac_id (og_actor g) then Some ADMIN else roleOf (w_db w) u c) \<and>
    logged (w_db w') = logged (w_db w) @ [\<lparr>ae_userId = ac_id (og_actor g),
      ae_event = Ownership_transferred (og_companyId g) (ac_id (og_actor g)) (og_toUserId g)\<rparr>]"
proof -
  from transferOwnership_effect[OF assms(1,2)] obtain d1 where d1: "d1 = setRole (ac_id (og_actor g)) (og_companyId g)
      ADMIN (w_clock w) (setRole (og_toUserId g) (og_companyId g) OWNER (w_clock w) (w_db w))"
    and m: "isMember (w_db w) (og_toUserId g) (og_companyId g)" "isMember (w_db w) (ac_id (og_actor g)) (og_companyId g)"
    and a: "auditAppended [\<lparr>ae_userId = ac_id (og_actor g), ae_event = Ownership_transferred (og_companyId g)
      (ac_id (og_actor g)) (og_toUserId g)\<rparr>] d1 (w_db w')" by blast
  from m obtain r s where "roleOf (w_db w) (og_toUserId g) (og_companyId g) = Some r"
    "roleOf (w_db w) (ac_id (og_actor g)) (og_companyId g) = Some s"
    by (metis not_None_eq roleOf_iff_isMember)
  moreover have "logged d1 = logged (w_db w)" by (simp add: d1 logged_def)
  ultimately show ?thesis
    using assms(3) auditAppended_tables(7)[OF a] by (auto simp: roleOf_audit[OF a] d1(1) roleOf_setRole)
qed

definition annToBob :: ownershipTransferGrant where
  "annToBob = \<lparr>og_actor = demoActor ''ann'' ''ann@x.jp'', og_companyId = ''c1'', og_toUserId = ''bob''\<rparr>"

theorem transferOwnership_correct_witness:
  "roleOf (w_db (snd (transferOwnership demoAuth annToBob demoWorld))) ''bob'' ''c1'' = Some OWNER \<and>
   roleOf (w_db (snd (transferOwnership demoAuth annToBob demoWorld))) ''ann'' ''c1'' = Some ADMIN"
proof -
  have "fst (transferOwnership demoAuth annToBob demoWorld) = Inr ()" by code_simp
  note run = transferOwnership_correct[OF runs_to[OF this] demoAuth_frame]
  show ?thesis using run[of "''bob''" "''c1''"] run[of "''ann''" "''c1''"] by (simp add: annToBob_def demoActor_def)
qed

text \<open>The companies of a user other than \<open>c\<close> that are active.\<close>

definition activeElsewhere :: "database \<Rightarrow> id \<Rightarrow> id \<Rightarrow> bool" where
  "activeElsewhere d u c \<longleftrightarrow>
     (\<exists>m\<in>set (d_membership d). mb_userId m = u \<and> mb_companyId m \<noteq> c \<and> isActiveCompany d (mb_companyId m))"

lemma activeJoin_leave: "activeJoin (leave u c d) u = [] \<longleftrightarrow> \<not> activeElsewhere d u c"
  by (auto simp: activeJoin_Nil_iff activeElsewhere_def) (auto simp: leave_def isMembershipOf_def)

lemma removeMember_effect:
  assumes "removeMember A g w = (Inr deleted, w')" "auth_frame A"
  shows "\<exists>d1 d2. d1 = reassignCurrent (rv_companyId g) [rv_targetUserId g] (w_clock w)
      (leave (rv_targetUserId g) (rv_companyId g) (w_db w)) \<and>
    isMember (w_db w) (rv_targetUserId g) (rv_companyId g) \<and>
    ownersOf (leave (rv_targetUserId g) (rv_companyId g) (w_db w)) (rv_companyId g) \<noteq> [] \<and>
    auditAppended [membershipRemovedEntry (ac_id (rv_actor g)) (rv_companyId g) (rv_targetUserId g) (rv_targetRole g)] d1 d2 \<and>
    (if deleted then activeJoin d2 (rv_targetUserId g) = [] \<and> accountDeleted (rv_targetUserId g) d2 (w_db w')
     else w_db w' = d2 \<and> (rv_targetUserId g \<in> userIds d2 \<longrightarrow> activeJoin d2 (rv_targetUserId g) \<noteq> []))"
proof -
  let ?w0 = "w\<lparr>w_dbCalls := Suc (w_dbCalls w), w_hooks := [], w_locks := []\<rparr>"
  let ?t = "rv_targetUserId g" and ?c = "rv_companyId g"
  from transaction_success[OF assms(1)[unfolded removeMember_def Let_def] assms(2)] obtain w1 w2 w3 x y removal where
    leaves: "applyRemoval ?t ?c ?w0 = (Inr x, w1)"
    and log: "appendAuditInTx [membershipRemovedEntry (ac_id (rv_actor g)) ?c ?t (rv_targetRole g)] w1 = (Inr y, w2)"
    and orphan: "deleteAccountIfOrphaned ?t Flow_member_remove w2 = (Inr removal, w3)"
    and w': "w_db w' = w_db w3" and res: "deleted = (removal = Deleted)"
    by (auto simp: andThen_runs succeed_runs)
  from applyRemoval_success[OF leaves] appendAuditInTx_db[OF log]
    deleteAccountIfOrphaned_success[OF orphan] w' res
  show ?thesis by (cases removal) (auto dest: membershipOf_isMember)
qed


definition removeCid :: removalGrant where
  "removeCid = \<lparr>rv_actor = demoActor ''bob'' ''bob@x.jp'', rv_companyId = ''c1'', rv_targetUserId = ''cid'',
     rv_targetRole = MEMBER\<rparr>"


section \<open>Accounts\<close>

text \<open>
  C17: Users delete their own account only if no active company would be left without an owner: success means that
  every active company the user owned has another owner, who remains; and the user, its memberships, its
  second factor and the invitations it sent are gone.
\<close>

theorem deleteAccount_keeps_owners:
  assumes "deleteAccountUnlessLastOwner A u w = (Inr (), w')" "auth_frame A" "wf_db (w_db w)" "owned (w_db w)"
  shows "u \<notin> userIds (w_db w') \<and> (\<forall>c. roleOf (w_db w') u c = None) \<and>
    (\<forall>v c. v \<noteq> u \<longrightarrow> roleOf (w_db w') v c = roleOf (w_db w) v c) \<and>
    (\<forall>c. isActiveCompany (w_db w') c = isActiveCompany (w_db w) c) \<and>
    (\<forall>c. isActiveCompany (w_db w) c \<longrightarrow> (\<exists>m\<in>set (d_membership (w_db w')). mb_companyId m = c \<and> mb_role m = OWNER)) \<and>
    totpOf (w_db w') u = None \<and> (\<forall>v\<in>set (d_invitation (w_db w')). iv_invitedByUserId v \<noteq> u)"
proof -
  from deleteAccountUnlessLastOwner_success[OF assms(1,2)] have b: "blockingCompanies (w_db w) u = []"
    and a: "auditAppended [\<lparr>ae_userId = u, ae_event = Account_delete\<rparr>] (dropUser u (w_db w)) (w_db w')"
    by (auto simp: accountDeleted_def)
  note tabs = auditAppended_tables[OF a]
  have "owned (dropUser u (w_db w))" using assms(3,4) b by (intro owned_dropUser_unblocked)
  then have "\<forall>c. isActiveCompany (w_db w) c \<longrightarrow> (\<exists>m\<in>set (d_membership (w_db w')). mb_companyId m = c \<and> mb_role m = OWNER)"
    by (simp add: owned_def tabs(5) roleOf_owner)
  then show ?thesis
    by (auto simp: roleOf_audit[OF a] roleOf_dropUser audit_keeps(4)[OF a] userIds_def tabs totpOf_def filter_empty_conv)
qed

theorem deleteAccount_keeps_owners_witness:
  "''bob'' \<notin> userIds (w_db (snd (deleteAccountUnlessLastOwner demoAuth ''bob'' demoWorld)))"
proof -
  have run: "fst (deleteAccountUnlessLastOwner demoAuth ''bob'' demoWorld) = Inr ()" by code_simp
  have "owned demoDb"
    by (auto simp: owned_def isActiveCompany_def demoDb_def demoCompany_def newCompany_def ownersOf_def demoMember_def)
  with deleteAccount_keeps_owners[OF runs_to[OF run] demoAuth_frame] show ?thesis by simp
qed

text \<open>
  The only owner of an active company cannot delete the account: the call fails and the database is as it was.
\<close>

theorem sole_owner_cannot_leave:
  assumes "m \<in> set (d_membership (w_db w))" "mb_userId m = u" "mb_role m = OWNER" "isActiveCompany (w_db w) (mb_companyId m)"
    and "ownersOf (w_db w) (mb_companyId m) = [m]" "w_dbFaults w = (\<lambda>_. NoFault)" "auth_frame A"
  shows "fst (deleteAccountUnlessLastOwner A u w) = Inl (Fail LastOwner) \<and>
    w_db (snd (deleteAccountUnlessLastOwner A u w)) = w_db w"
proof -
  have "\<not> blockingCompanies (w_db w) u = []"
    unfolding blockingCompanies_Nil_iff using assms(1-5) by auto
  then have b: "0 < length (blockingCompanies (w_db w) u)" by simp
  have "fst (deleteAccountUnlessLastOwner A u w) = Inl (Fail LastOwner)"
    using b assms(6)
    by (simp add: deleteAccountUnlessLastOwner_def transaction_def runTx_def Let_def andThen_def
        lockOwnerMembershipsOfUserCompanies_def lockMembershipChangesOfUser_def lockDb_def selectFor_def
        findCompaniesBlockingUserDeletion_def tryDb_def select_def failWith_def)
  moreover from transaction_failure[OF runs_to[OF this[unfolded deleteAccountUnlessLastOwner_def]]]
  have "w_db (snd (deleteAccountUnlessLastOwner A u w)) = w_db w"
    by (simp add: deleteAccountUnlessLastOwner_def)
  ultimately show ?thesis by blast
qed

theorem sole_owner_cannot_leave_witness:
  "fst (deleteAccountUnlessLastOwner demoAuth ''ann'' demoWorld) = Inl (Fail LastOwner)"
  using sole_owner_cannot_leave[of "demoMember ''m1'' ''ann'' ''c1'' OWNER 0" demoWorld "''ann''" demoAuth]
  by (simp add: demoDb_def demoMember_def isActiveCompany_def demoCompany_def newCompany_def ownersOf_def
      demoWorld_def worldOf_def)

section \<open>Companies\<close>

lemma roleOf_appended:
  assumes "(u, c) \<notin> membershipKey ` set (d_membership d)"
    and "d_membership d' = d_membership d @ [m]" "mb_userId m = u" "mb_companyId m = c"
  shows "roleOf d' v x = (if v = u \<and> x = c then Some (mb_role m) else roleOf d v x)"
proof -
  have none: "filter (\<lambda>m. mb_userId m = u \<and> mb_companyId m = c) (d_membership d) = []"
    using assms(1) by (auto simp: filter_empty_conv membershipKey_def)
  show ?thesis
    using assms(2-4) none by (auto simp: roleOf_def membershipOf_def at0_def split: list.splits)
qed

text \<open>
  Signing up a company works only for a user without any active company; it creates an ACTIVE company under a
  fresh id, makes the user its owner and it the user's current company, and changes nobody else's role.
\<close>

theorem createSignupCompany_correct:
  assumes "createSignupCompany A u name oc w = (Inr r, w')" "auth_frame A"
  shows "(\<forall>m\<in>set (d_membership (w_db w)). mb_userId m = u \<longrightarrow> \<not> isActiveCompany (w_db w) (mb_companyId m)) \<and>
    (\<exists>c. r = \<lparr>cr_company = newCompany c name oc (w_clock w), cr_membership = cr_membership r\<rparr> \<and>
      c \<notin> companyIds (w_db w) \<and> d_company (w_db w') = d_company (w_db w) @ [newCompany c name oc (w_clock w)] \<and>
      (\<forall>v x. roleOf (w_db w') v x = (if v = u \<and> x = c then Some OWNER else roleOf (w_db w) v x)) \<and>
      (\<exists>row\<in>set (d_user (w_db w')). us_id row = u \<and> us_lastUsedCompanyId row = Some c) \<and>
      logged (w_db w') = logged (w_db w) @ [\<lparr>ae_userId = u, ae_event = Company_created c name oc u\<rparr>])"
proof -
  from createSignupCompany_success[OF assms] obtain c i where none: "activeJoin (w_db w) u = []"
    and r: "r = \<lparr>cr_company = newCompany c name oc (w_clock w), cr_membership = newOwner i u c (w_clock w)\<rparr>"
    and new: "c \<notin> companyIds (w_db w)" "u \<in> userIds (w_db w)" "(u, c) \<notin> membershipKey ` set (d_membership (w_db w))"
    and a: "auditAppended [\<lparr>ae_userId = u, ae_event = Company_created c name oc u\<rparr>]
         (setCurrent u c (w_clock w) ((w_db w)\<lparr>d_company := d_company (w_db w) @ [newCompany c name oc (w_clock w)],
            d_membership := d_membership (w_db w) @ [newOwner i u c (w_clock w)]\<rparr>)) (w_db w')"
    unfolding companyCreated_def by blast
  note tabs = auditAppended_tables[OF a]
  have "roleOf (w_db w') v x = (if v = u \<and> x = c then Some OWNER else roleOf (w_db w) v x)" for v x
    using roleOf_appended[OF new(3), of "w_db w'" "newOwner i u c (w_clock w)"] tabs(5) by (simp add: newOwner_def)
  moreover from new(2) obtain row where "row \<in> set (d_user (w_db w))" "us_id row = u" by (auto simp: userIds_def)
  then have "\<exists>row\<in>set (d_user (w_db w')). us_id row = u \<and> us_lastUsedCompanyId row = Some c"
    unfolding tabs(2)
    by (intro bexI[of _ "row\<lparr>us_lastUsedCompanyId := Some c, us_updatedAt := w_clock w\<rparr>"])
      (auto simp: setCurrent_def in_updateWhere intro!: bexI[of _ row])
  moreover have "logged ((w_db w)\<lparr>d_company := cs, d_membership := ms\<rparr>) = logged (w_db w)" for cs ms
    by (simp add: logged_def)
  ultimately show ?thesis
    using none new(1) r tabs(1,7) by (auto simp: activeJoin_Nil_iff)
qed

theorem createSignupCompany_correct_witness:
  "\<exists>c. c \<notin> companyIds demoDb \<and>
    roleOf (w_db (snd (createSignupCompany demoAuth ''dan'' ''Dan'' PERSONAL demoWorld))) ''dan'' c = Some OWNER"
proof -
  let ?run = "createSignupCompany demoAuth ''dan'' ''Dan'' PERSONAL demoWorld"
  have "case fst ?run of Inl _ \<Rightarrow> False | Inr _ \<Rightarrow> True" by code_simp
  then obtain r where "fst ?run = Inr r" by (auto split: sum.splits)
  from createSignupCompany_correct[OF runs_to[OF this] demoAuth_frame] show ?thesis by auto
qed

lemma orphans_effect:
  assumes "filterEff (\<lambda>u. mapEff (\<lambda>r. r = Deleted) (deleteAccountIfOrphaned u flow)) us w = (Inr ids, w')"
  shows "set ids \<subseteq> set us \<and> set ids \<subseteq> userIds (w_db w) \<and> userIds (w_db w') = userIds (w_db w) - set ids \<and>
    d_membership (w_db w') = filter (\<lambda>m. mb_userId m \<notin> set ids) (d_membership (w_db w)) \<and>
    d_company (w_db w') = d_company (w_db w) \<and>
    d_invitation (w_db w') = filter (\<lambda>v. iv_invitedByUserId v \<notin> set ids) (d_invitation (w_db w)) \<and>
    (\<forall>u\<in>set us. u \<in> userIds (w_db w) \<longrightarrow> (u \<in> set ids \<longleftrightarrow> activeJoin (w_db w) u = [])) \<and>
    (\<exists>es. logged (w_db w') = logged (w_db w) @ es)"
  using assms
proof (induction us arbitrary: w ids)
  case Nil
  then show ?case by (simp add: filterEff_runs)
next
  case (Cons u us)
  from Cons.prems obtain r w1 zs where one: "deleteAccountIfOrphaned u flow w = (Inr r, w1)"
    and rest: "filterEff (\<lambda>u. mapEff (\<lambda>r. r = Deleted) (deleteAccountIfOrphaned u flow)) us w1 = (Inr zs, w')"
    and ids: "ids = (if r = Deleted then u # zs else zs)"
    by (auto simp: filterEff_runs mapEff_runs)
  note IH = Cons.IH[OF rest]
  show ?case
  proof (cases r)
    case Kept
    with deleteAccountIfOrphaned_success(2)[OF one] IH ids show ?thesis by auto
  next
    case Deleted
    with deleteAccountIfOrphaned_success(1)[OF one] have none: "activeJoin (w_db w) u = []" and u: "u \<in> userIds (w_db w)"
      and a: "auditAppended [\<lparr>ae_userId = u, ae_event = Account_delete\<rparr>] (dropUser u (w_db w)) (w_db w1)"
      by (auto simp: accountDeleted_def)
    note tabs = auditAppended_tables[OF a]
    have users: "userIds (w_db w1) = userIds (w_db w) - {u}" by (auto simp: userIds_def tabs)
    have join: "activeJoin (w_db w1) v = [] \<longleftrightarrow> activeJoin (w_db w) v = [] \<or> v = u" for v
      unfolding activeJoin_Nil_iff using none by (auto simp: tabs isActiveCompany_def activeJoin_Nil_iff)
    have "logged (w_db w1) = logged (w_db w) @ [\<lparr>ae_userId = u, ae_event = Account_delete\<rparr>]"
      using tabs(7) by (simp add: logged_def)
    then show ?thesis
      using IH Deleted ids users join tabs u none by (auto simp: conj_ac)
  qed
qed

text \<open>The stages of a deletion, as the company and its members see them.\<close>

lemma deleteCompanyBody_effect:
  assumes run: "deleteCompanyBody a c w = (Inr ids, w')" and active: "isActiveCompany (w_db w) c" and wf: "wf_db (w_db w)"
  shows "roleOf (w_db w) a c = Some OWNER \<and>
    (\<forall>x. isActiveCompany (w_db w') x \<longleftrightarrow> x \<noteq> c \<and> isActiveCompany (w_db w) x) \<and>
    d_membership (w_db w') = filter (\<lambda>m. mb_companyId m \<noteq> c \<and> mb_userId m \<notin> set ids) (d_membership (w_db w)) \<and>
    (\<forall>v\<in>set (d_invitation (w_db w')). iv_companyId v = c \<longrightarrow> iv_status v \<noteq> PENDING) \<and>
    set ids \<subseteq> userIds (w_db w) \<and>
    (\<forall>u. isMember (w_db w) u c \<longrightarrow> (u \<in> set ids \<longleftrightarrow> \<not> activeElsewhere (w_db w) u c)) \<and>
    (\<forall>u\<in>set ids. isMember (w_db w) u c) \<and>
    (\<exists>name. last (logged (w_db w')) = \<lparr>ae_userId = a, ae_event = Company_deleted c name a\<rparr>)"
proof -
  from deleteCompanyBody_success[OF run] obtain target where
    t: "at0 (filter (\<lambda>x. co_id x = c) (d_company (w_db w))) = Some target"
    and body: "if co_activationStatus target \<noteq> ACTIVE then ids = [] \<and> w_db w' = w_db w
     else (\<exists>m. membershipOf (w_db w) a c = Some m \<and> mb_role m = OWNER) \<and>
      (\<exists>w1 revoked w2 w3 removed w4 w5 w6 x w7. w_db w1 = w_db w \<and> w_clock w1 = w_clock w \<and>
        revokePendingInvitationsOfCompany c w1 = (Inr revoked, w2) \<and>
        appendAuditInTx (map (\<lambda>i. invitationRevokedEntry a (iv_id i) c) revoked) w2 = (Inr (), w3) \<and>
        applyCompanyRemoval c w3 = (Inr removed, w4) \<and>
        appendAuditInTx (map (\<lambda>m. membershipRemovedEntry a c (mb_userId m) (mb_role m)) removed) w4 = (Inr (), w5) \<and>
        filterEff (\<lambda>u. mapEff (\<lambda>r. r = Deleted) (deleteAccountIfOrphaned u Flow_company_delete))
          (sort (dedupe (map mb_userId removed))) w5 = (Inr ids, w6) \<and>
        softDeleteCompany c w6 = (Inr x, w7) \<and>
        appendAuditInTx [\<lparr>ae_userId = a, ae_event = Company_deleted c (co_name target) a\<rparr>] w7 = (Inr (), w'))"
    by blast
  from active obtain row where row: "row \<in> set (d_company (w_db w))" "co_id row = c" "co_activationStatus row = ACTIVE"
    by (auto simp: isActiveCompany_def)
  from at0_filter_SomeD[OF t] have "target = row"
    using wf_db_company_unique[OF wf, of target row] row by auto
  with body row(3) obtain m w1 revoked w2 w3 removed w4 w5 w6 x w7 where
    m: "membershipOf (w_db w) a c = Some m" "mb_role m = OWNER" and w1: "w_db w1 = w_db w" "w_clock w1 = w_clock w"
    and s1: "revokePendingInvitationsOfCompany c w1 = (Inr revoked, w2)"
    and s2: "appendAuditInTx (map (\<lambda>i. invitationRevokedEntry a (iv_id i) c) revoked) w2 = (Inr (), w3)"
    and s3: "applyCompanyRemoval c w3 = (Inr removed, w4)"
    and s4: "appendAuditInTx (map (\<lambda>m. membershipRemovedEntry a c (mb_userId m) (mb_role m)) removed) w4 = (Inr (), w5)"
    and s5: "filterEff (\<lambda>u. mapEff (\<lambda>r. r = Deleted) (deleteAccountIfOrphaned u Flow_company_delete))
          (sort (dedupe (map mb_userId removed))) w5 = (Inr ids, w6)"
    and s6: "softDeleteCompany c w6 = (Inr x, w7)"
    and s7: "appendAuditInTx [\<lparr>ae_userId = a, ae_event = Company_deleted c (co_name target) a\<rparr>] w7 = (Inr (), w')"
    by auto
  note t2 = revokePending_success(1)[OF s1, unfolded w1]
  note t3 = auditAppended_tables[OF appendAuditInTx_db[OF s2]]
  note t4 = applyCompanyRemoval_success[OF s3]
  note t5 = auditAppended_tables[OF appendAuditInTx_db[OF s4]]
  note t6 = orphans_effect[OF s5]
  note t7 = softDeleteCompany_success[OF s6]
  note t8 = auditAppended_tables[OF appendAuditInTx_db[OF s7]]
  have db4: "d_company (w_db w4) = d_company (w_db w)"
    "d_membership (w_db w4) = filter (\<lambda>m. mb_companyId m \<noteq> c) (d_membership (w_db w))"
    "userIds (w_db w4) = userIds (w_db w)"
    "d_invitation (w_db w4) = d_invitation (settle (\<lambda>v. iv_companyId v = c) REVOKED (w_clock w) (w_db w))"
    and removed: "removed = filter (\<lambda>m. mb_companyId m = c) (d_membership (w_db w))"
  proof -
    have users: "userIds (w_db w3) = userIds (w_db w)" using t3(2) by (simp add: t2 userIds_def)
    let ?d = "(w_db w3)\<lparr>d_membership := filter (\<lambda>m. mb_companyId m \<noteq> c) (d_membership (w_db w3))\<rparr>"
    have w4: "w_db w4 = reassignCurrent c (map mb_userId removed) (w_clock w3) ?d" using t4 by simp
    have "userIds ?d = userIds (w_db w3)" by (simp add: userIds_def)
    with users show "userIds (w_db w4) = userIds (w_db w)" unfolding w4 by simp
    show "d_company (w_db w4) = d_company (w_db w)"
      "d_membership (w_db w4) = filter (\<lambda>m. mb_companyId m \<noteq> c) (d_membership (w_db w))"
      unfolding w4 using t3 by (simp_all add: t2)
    show "d_invitation (w_db w4) = d_invitation (settle (\<lambda>v. iv_companyId v = c) REVOKED (w_clock w) (w_db w))"
      unfolding w4 using t3 by (simp add: t2 reassignCurrent_def reassignLastUsedCompanySql_def)
    show "removed = filter (\<lambda>m. mb_companyId m = c) (d_membership (w_db w))" using t4 t3 by (simp add: t2)
  qed
  have db6: "d_company (w_db w6) = d_company (w_db w)"
    "d_membership (w_db w6) = filter (\<lambda>m. mb_companyId m \<noteq> c \<and> mb_userId m \<notin> set ids) (d_membership (w_db w))"
    "d_invitation (w_db w6) = filter (\<lambda>v. iv_invitedByUserId v \<notin> set ids)
      (d_invitation (settle (\<lambda>v. iv_companyId v = c) REVOKED (w_clock w) (w_db w)))"
    using t6 t5 db4 by (simp_all add: conj_commute)
  have members: "u \<in> set (sort (dedupe (map mb_userId removed))) \<longleftrightarrow> isMember (w_db w) u c" for u
    by (auto simp: removed isMember_iff)
  have users5: "userIds (w_db w5) = userIds (w_db w)" using t5(2) db4(3) by (simp add: userIds_def)
  have join5: "activeJoin (w_db w5) u = [] \<longleftrightarrow> \<not> activeElsewhere (w_db w) u c" for u
    unfolding activeJoin_Nil_iff activeElsewhere_def using t5 db4 by (auto simp: isActiveCompany_def)
  have inv: "\<forall>v\<in>set (d_invitation (w_db w6)). iv_companyId v = c \<longrightarrow> iv_status v \<noteq> PENDING"
  proof
    fix v assume "v \<in> set (d_invitation (w_db w6))"
    then have "v \<in> set (updateWhere (\<lambda>i. iv_companyId i = c \<and> iv_status i = PENDING)
        (invitationStatusColumns REVOKED (w_clock w)) (d_invitation (w_db w)))" by (simp add: db6(3) settle_def)
    then have "\<not> (iv_companyId v = c \<and> iv_status v = PENDING)"
      by (rule updateWhere_excludes) (simp_all add: invitationStatusColumns_def)
    then show "iv_companyId v = c \<longrightarrow> iv_status v \<noteq> PENDING" by blast
  qed
  have ids: "set ids \<subseteq> userIds (w_db w)" "\<forall>u\<in>set ids. isMember (w_db w) u c"
    using t6 users5 members by blast+
  have "isMember (w_db w) u c \<Longrightarrow> u \<in> userIds (w_db w)" for u
    using wf by (force simp: isMember_iff wf_db_def wf_refs_def)
  then have orphans: "u \<in> set ids \<longleftrightarrow> \<not> activeElsewhere (w_db w) u c" if "isMember (w_db w) u c" for u
    using that t6 users5 join5 members by blast
  have act: "isActiveCompany (w_db w') x \<longleftrightarrow> x \<noteq> c \<and> isActiveCompany (w_db w) x" for x
  proof -
    have "isActiveCompany (w_db w') x \<longleftrightarrow> isActiveCompany (w_db w7) x" by (simp add: isActiveCompany_def t8)
    also have "isActiveCompany (w_db w6) x \<longleftrightarrow> isActiveCompany (w_db w) x" by (simp add: isActiveCompany_def db6)
    ultimately show ?thesis by (simp add: t7)
  qed
  have same: "d_membership (w_db w') = d_membership (w_db w6)" "d_invitation (w_db w') = d_invitation (w_db w6)"
    using t8 t7 by simp_all
  have log: "last (logged (w_db w')) = \<lparr>ae_userId = a, ae_event = Company_deleted c (co_name target) a\<rparr>"
    using t8(7) by simp
  have own: "roleOf (w_db w) a c = Some OWNER" using m by (simp add: roleOf_def)
  show ?thesis
    unfolding same db6(2) using own act inv ids orphans log by (intro conjI) (blast | simp (no_asm_simp))+
qed



end
