(* ===== verification/ServiceProperties.thy ===== *)
theory ServiceProperties
  imports Demo
begin

text \<open>
  What holds of every database the service can reach, whatever operations run, with whatever grants, however they
  end and whatever calls are lost; and what no step of the service ever does.
\<close>

text \<open>
  C1: In every reachable database each active company has an owner, and that owner is an existing user.
\<close>

theorem active_company_has_owner:
  assumes "reachable K w" "service_frame K" "isActiveCompany (w_db w) c"
  shows "\<exists>m\<in>set (d_membership (w_db w)). mb_companyId m = c \<and> mb_role m = OWNER \<and> mb_userId m \<in> userIds (w_db w)"
proof -
  have inv: "companyInv (w_db w)" using assms(1,2) by (rule ownership.always)
  then have "ownersOf (w_db w) c \<noteq> []" using assms(3) by (simp add: companyInv_def owned_def)
  then obtain m where "m \<in> set (d_membership (w_db w))" "mb_companyId m = c" "mb_role m = OWNER"
    by (auto simp: ownersOf_def filter_empty_conv)
  with inv show ?thesis by (auto simp: companyInv_def wf_db_def wf_refs_def)
qed

theorem active_company_has_owner_witness:
  "\<exists>c m. isActiveCompany (w_db foundedWorld) c \<and> m \<in> set (d_membership (w_db foundedWorld)) \<and>
    mb_companyId m = c \<and> mb_role m = OWNER"
proof -
  have "list_ex (\<lambda>r. co_activationStatus r = ACTIVE) (d_company (w_db foundedWorld))" by code_simp
  then obtain c where c: "isActiveCompany (w_db foundedWorld) c" by (auto simp: list_ex_iff isActiveCompany_def)
  from active_company_has_owner[OF reachable_foundedWorld demoService_frame c] c show ?thesis by blast
qed

text \<open>
  C2: In every reachable database the current company of a user is an existing company the user is a member of.
\<close>

theorem current_company_is_a_membership:
  assumes "reachable K w" "service_frame K" "u \<in> set (d_user (w_db w))" "us_lastUsedCompanyId u = Some c"
  shows "c \<in> companyIds (w_db w) \<and> (\<exists>m\<in>set (d_membership (w_db w)). mb_userId m = us_id u \<and> mb_companyId m = c)"
proof -
  have "companyInv (w_db w)" using assms(1,2) by (rule ownership.always)
  with assms(3,4) show ?thesis
    by (auto simp: companyInv_def currentValid_def isMember_iff wf_db_def wf_refs_def)
qed

theorem current_company_is_a_membership_witness:
  "\<exists>u c. u \<in> set (d_user (w_db foundedWorld)) \<and> us_lastUsedCompanyId u = Some c \<and> c \<in> companyIds (w_db foundedWorld)"
proof -
  have "list_ex (\<lambda>u. us_lastUsedCompanyId u \<noteq> None) (d_user (w_db foundedWorld))" by code_simp
  then obtain u c where u: "u \<in> set (d_user (w_db foundedWorld))" "us_lastUsedCompanyId u = Some c"
    by (auto simp: list_ex_iff)
  from current_company_is_a_membership[OF reachable_foundedWorld demoService_frame u] u show ?thesis by blast
qed



text \<open>
  The status of an invitation and its timestamps agree in every reachable database: a pending one has none, an
  accepted one says when it was accepted and used, a revoked one when it was revoked and used up.
\<close>

theorem invitation_status_columns:
  assumes "reachable K w" "service_frame K" "i \<in> set (d_invitation (w_db w))"
  shows "case iv_status i of
      PENDING \<Rightarrow> iv_acceptedAt i = None \<and> iv_usedAt i = None \<and> iv_revokedAt i = None
    | ACCEPTED \<Rightarrow> iv_acceptedAt i \<noteq> None \<and> iv_usedAt i \<noteq> None \<and> iv_revokedAt i = None
    | REVOKED \<Rightarrow> iv_acceptedAt i = None \<and> iv_usedAt i \<noteq> None \<and> iv_revokedAt i \<noteq> None"
  using invitations.always[OF assms(1,2)] assms(3)
  by (auto simp: invitationColumns_def statusColumnsAgree_def split: invitation_status.splits)

theorem invitation_status_columns_witness:
  "\<exists>i. i \<in> set (d_invitation (w_db invitedWorld)) \<and> iv_status i = PENDING \<and> iv_usedAt i = None"
proof -
  from invited obtain i where i: "i \<in> set (d_invitation (w_db invitedWorld))" "iv_status i = PENDING" by auto
  from invitation_status_columns[OF reachable_invitedWorld demoService_frame i(1)] i show ?thesis by auto
qed

text \<open>
  C22: The audit log only grows: no step of the service removes, changes or reorders an entry that was written.
\<close>

theorem audit_log_append_only:
  assumes "service_step K w w'" "service_frame K"
  shows "\<exists>es. d_auditLog (w_db w') = d_auditLog (w_db w) @ es"
proof -
  have "auditExtends (d_auditLog (w_db w)) (w_db w')"
    using statementInvariant_auditExtends assms(2,1)
  proof (rule statement_step)
    show "auditExtends (d_auditLog (w_db w)) (w_db w)" by (simp add: auditExtends_def)
  qed (simp_all add: auditExtends_def signUp_def editProfile_def)
  then show ?thesis by (simp add: auditExtends_def)
qed

theorem audit_log_append_only_witness:
  "\<exists>es. d_auditLog (w_db (snd (perform demoService (DeleteCompany annsMembership) demoWorld))) = d_auditLog demoDb @ es"
  using audit_log_append_only[OF performs demoService_frame, of "DeleteCompany annsMembership" demoWorld]
  by (simp del: perform.simps)

text \<open>
  A deleted company stays deleted: no step of the service brings it back to life or drops its row.
\<close>

theorem deleted_company_stays_deleted:
  assumes "service_step K w w'" "service_frame K" "c \<in> companyIds (w_db w)" "\<not> isActiveCompany (w_db w) c"
  shows "c \<in> companyIds (w_db w') \<and> \<not> isActiveCompany (w_db w') c"
proof -
  have "companyDeleted c (w_db w')"
    using statementInvariant_companyDeleted assms(2,1)
    by (rule statement_step) (use assms(3,4) in \<open>simp_all add: companyDeleted_def signUp_def editProfile_def
        companyIds_def isActiveCompany_def\<close>)
  then show ?thesis by (simp add: companyDeleted_def)
qed

definition deletedWorld :: "unit world" where
  "deletedWorld = snd (perform demoService (DeleteCompany annsMembership) demoWorld)"

theorem deleted_company_stays_deleted_witness:
  "\<not> isActiveCompany (w_db (snd (perform demoService (UpdateCompanyInfo annsMembership ''New'' PERSONAL) deletedWorld))) ''c1''"
proof -
  have "list_ex (\<lambda>r. co_id r = ''c1'') (d_company (w_db deletedWorld))"
    "\<not> list_ex (\<lambda>r. co_activationStatus r = ACTIVE) (d_company (w_db deletedWorld))" by code_simp+
  then have "''c1'' \<in> companyIds (w_db deletedWorld)" "\<not> isActiveCompany (w_db deletedWorld) ''c1''"
    by (auto simp: list_ex_iff companyIds_def isActiveCompany_def) (metis image_eqI)
  from deleted_company_stays_deleted[OF performs demoService_frame this] show ?thesis by blast
qed

end
