(* ===== verification/OperationProperties.thy ===== *)
theory OperationProperties
  imports Demo
begin

text \<open>
  Accepting an invitation, where a browser is sent after a login challenge, and whose address a request is counted
  under.
\<close>

section \<open>Accepting an invitation\<close>

lemma requireInvitationAccept_proceeds:
  assumes "requireInvitationAccept actor token w = (Inr (Proceed g), w')"
  shows "ag_invitation g \<in> set (d_invitation (w_db w)) \<and> iv_token (ag_invitation g) = token \<and> ag_actor g = actor \<and>
    toLowerCase (iv_email (ag_invitation g)) = toLowerCase (ac_email actor) \<and>
    isAcceptableAt (ag_invitation g) (w_clock w) \<and> w_db w' = w_db w \<and> w_clock w' = w_clock w"
  using assms
  by (auto simp: requireInvitationAccept_def run_simps split: option.splits if_splits dest!: at0_filter_SomeD)

text \<open>
  C10: An invitation is accepted only by its token, by a user with its address, while it is pending and not expired,
  and - when it makes an owner - while its sender still is one. Then exactly one membership of that role is added, the
  company becomes the user's current one, no other invitation is touched, and the acceptance is logged.
\<close>

theorem acceptInvitation_correct:
  fixes A :: "'x better_auth" and w w1 w' :: "'x world"
  assumes "auth_frame A" "requireInvitationAccept actor token w = (Inr (Proceed g), w1)"
    and "acceptInvitation A g w1 = (Inr c, w')"
  shows "\<exists>inv m. inv \<in> set (d_invitation (w_db w)) \<and> iv_token inv = token \<and> c = iv_companyId inv \<and>
    toLowerCase (iv_email inv) = toLowerCase (ac_email actor) \<and> isAcceptableAt inv (w_clock w) \<and>
    (iv_role inv = OWNER \<longrightarrow> (\<exists>o'. membershipOf (w_db w) (iv_invitedByUserId inv) c = Some o' \<and> mb_role o' = OWNER)) \<and>
    membershipOf (w_db w) (ac_id actor) c = None \<and>
    mb_userId m = ac_id actor \<and> mb_companyId m = c \<and> mb_role m = iv_role inv \<and>
    d_membership (w_db w') = d_membership (w_db w) @ [m] \<and>
    d_invitation (w_db w') = updateWhere (\<lambda>i. iv_id i = iv_id inv \<and> iv_status i = PENDING)
      (invitationStatusColumns ACCEPTED (w_clock w)) (d_invitation (w_db w)) \<and>
    d_user (w_db w') = d_user (setCurrent (ac_id actor) c (w_clock w) (w_db w)) \<and>
    logged (w_db w') = logged (w_db w) @ [\<lparr>ae_userId = ac_id actor,
      ae_event = Invitation_accepted (iv_id inv) c (ac_id actor) (iv_role inv)\<rparr>]"
proof -
  let ?inv = "ag_invitation g"
  note grant = requireInvitationAccept_proceeds[OF assms(2)]
  from acceptInvitation_success[OF assms(3,1)] obtain w0 w2 :: "'x world" where
    body: "acceptBody (ag_actor g) ?inv w0 = (Inr (), w2)" and w0: "w_db w0 = w_db w1" "w_clock w0 = w_clock w1"
    and db: "w_db w' = w_db w2" and c: "c = iv_companyId ?inv" by blast
  from acceptBody_success[OF body] obtain i where
    own: "iv_role ?inv = OWNER \<longrightarrow>
      (\<exists>m. membershipOf (w_db w0) (iv_invitedByUserId ?inv) (iv_companyId ?inv) = Some m \<and> mb_role m = OWNER)"
    and fresh: "(ac_id actor, c) \<notin> membershipKey ` set (d_membership (w_db w0))"
    and app: "auditAppended [\<lparr>ae_userId = ac_id actor, ae_event = Invitation_accepted (iv_id ?inv) c (ac_id actor) (iv_role ?inv)\<rparr>]
      (setCurrent (ac_id actor) c (w_clock w0)
        ((settle (\<lambda>v. iv_id v = iv_id ?inv) ACCEPTED (w_clock w0) (w_db w0))\<lparr>d_membership := d_membership (w_db w0) @
          [\<lparr>mb_id = i, mb_userId = ac_id actor, mb_companyId = c, mb_role = iv_role ?inv,
            mb_joinedAt = w_clock w0, mb_createdAt = w_clock w0, mb_updatedAt = w_clock w0\<rparr>]\<rparr>)) (w_db w2)"
    unfolding c using grant by auto
  have "membershipOf (w_db w) (ac_id actor) c = None"
    using fresh w0 grant by (force simp: membershipOf_None_iff isMembershipOf_def membershipKey_def)
  with auditAppended_tables[OF app] own grant w0 db c show ?thesis
    by (intro exI[of _ ?inv] exI[of _ "\<lparr>mb_id = i, mb_userId = ac_id actor, mb_companyId = c, mb_role = iv_role ?inv,
            mb_joinedAt = w_clock w0, mb_createdAt = w_clock w0, mb_updatedAt = w_clock w0\<rparr>"])
      (simp add: settle_def setCurrent_def logged_def)
qed

theorem acceptInvitation_correct_witness:
  "\<exists>m. d_membership (w_db (snd (acceptInvitation demoAuth \<lparr>ag_actor = demoActor ''dan'' ''dan@x.jp'',
      ag_invitation = demoInvitation ''i1'' ''dan@x.jp'' MEMBER\<rparr>
      (snd (requireInvitationAccept (demoActor ''dan'' ''dan@x.jp'') ''i1-token'' demoWorld))))) = d_membership demoDb @ [m] \<and>
    mb_userId m = ''dan''"
proof -
  let ?g = "\<lparr>ag_actor = demoActor ''dan'' ''dan@x.jp'', ag_invitation = demoInvitation ''i1'' ''dan@x.jp'' MEMBER\<rparr>"
  let ?guard = "requireInvitationAccept (demoActor ''dan'' ''dan@x.jp'') ''i1-token'' demoWorld"
  have "fst ?guard = Inr (Proceed ?g)" by code_simp
  then have guard: "?guard = (Inr (Proceed ?g), snd ?guard)" by (rule runs_to)
  have "fst (acceptInvitation demoAuth ?g (snd ?guard)) = Inr ''c1''" by code_simp
  then have run: "acceptInvitation demoAuth ?g (snd ?guard) = (Inr ''c1'', snd (acceptInvitation demoAuth ?g (snd ?guard)))"
    by (rule runs_to)
  from acceptInvitation_correct[OF demoAuth_frame guard run] show ?thesis by (auto simp: demoActor_def)
qed

section \<open>After a login challenge\<close>

text \<open>
  The address a browser is sent to after a login challenge is the fallback, a path of the same origin - one slash,
  no backslash, no scheme and no fragment - or an address whose origin is that of a trusted entry, without credentials
  and without a fragment; everything else is replaced by the fallback.
\<close>

theorem challenge_redirect_is_safe:
  assumes "validateChallengeRedirect parseUrl trusted raw w = (Inr r, w')"
  shows "r = FALLBACK_REDIRECT \<or>
    (startsWith r ''/'' \<and> \<not> startsWith r ''//'' \<and> CHR 0x5C \<notin> set r \<and> CHR '':'' \<notin> set r \<and> CHR ''#'' \<notin> set r) \<or>
    (\<exists>u entry v. parseUrl r = Some u \<and> entry \<in> set trusted \<and> parseUrl entry = Some v \<and> ur_origin v = ur_origin u \<and>
      ur_username u = [] \<and> ur_password u = [] \<and> ur_hash u = [])"
  using validateChallengeRedirect_runs[OF assms] isSameOriginPath_safe[of r]
  by (auto simp: isTrustedAbsoluteUrl_def list_ex_iff split: option.splits if_splits)

theorem challenge_redirect_is_safe_witness:
  "\<exists>u entry v. demoUrl ''https://app.taimei-code.com/x'' = Some u \<and> entry = ''https://app.taimei-code.com'' \<and>
     demoUrl entry = Some v \<and> ur_origin v = ur_origin u \<and> ur_username u = []"
proof -
  let ?run = "validateChallengeRedirect demoUrl [''https://app.taimei-code.com''] (Some ''https://app.taimei-code.com/x'') demoWorld"
  have "fst ?run = Inr ''https://app.taimei-code.com/x''" by code_simp
  then have run: "?run = (Inr ''https://app.taimei-code.com/x'', snd ?run)" by (rule runs_to)
  from challenge_redirect_is_safe[OF run] show ?thesis by (auto simp: FALLBACK_REDIRECT_def startsWith_def)
qed

section \<open>The address of the client\<close>

text \<open>
  Behind a number of trusted proxies, what a client writes into the forwarding header itself does not change the
  address it is counted under, as long as the proxies append theirs.
\<close>

theorem forwarded_address_not_spoofable:
  assumes "headersGet h ''x-forwarded-for'' = Some (spoofed @ CHR '','' # trusted)"
    and "headersGet h' ''x-forwarded-for'' = Some trusted" "headersGet h ''x-real-ip'' = headersGet h' ''x-real-ip''"
    and "0 < hops" "hops \<le> length (splitOn (CHR '','') trusted)"
  shows "resolveForwardedClientIp h (BehindProxy hops) = resolveForwardedClientIp h' (BehindProxy hops) \<and>
    pred_option (\<lambda>ip. isIpv4Literal ip \<or> isIpv6Literal ip) (resolveForwardedClientIp h (BehindProxy hops))"
proof -
  have "pred_option (\<lambda>ip. isIpv4Literal ip \<or> isIpv6Literal ip) (resolveForwardedClientIp h (BehindProxy hops))"
    using assms(1) parseIpLiteral_sound
    by (auto simp: resolveForwardedClientIp_def Let_def split: option.splits if_splits)
  with resolveForwarded_suffix[OF assms] show ?thesis by blast
qed

theorem forwarded_address_not_spoofable_witness:
  "resolveForwardedClientIp [(''x-forwarded-for'', ''10.0.0.1,203.0.113.7'')] (BehindProxy 1) =
   resolveForwardedClientIp [(''x-forwarded-for'', ''203.0.113.7'')] (BehindProxy 1)"
  using forwarded_address_not_spoofable[of "[(''x-forwarded-for'', ''10.0.0.1,203.0.113.7'')]" "''10.0.0.1''" "''203.0.113.7''"
      "[(''x-forwarded-for'', ''203.0.113.7'')]" 1]
  by (simp add: headersGet_def toLowerCase_def splitOn_no_sep)

end
