(* ===== verification/MfaProperties.thy ===== *)
theory MfaProperties
  imports Demo
begin

text \<open>
  What the second factor guarantees: a first factor alone does not keep a session, every operation moves a user's
  enrollment along the state machine only, a code and a login challenge count once, and what is generated and
  encrypted has the promised form.
\<close>

section \<open>A user with a second factor\<close>

text \<open>Ann has MFA enabled, and a challenge was opened for her login.\<close>

definition mfaDb :: database where
  "mfaDb = demoDb\<lparr>d_mfaTotp := [\<lparr>mt_userId = ''ann'', mt_enrollmentId = ''e1'', mt_secretCiphertext = ''AAAA'',
     mt_secretIv = ''AAAA'', mt_keyVersion = 1, mt_verifiedAt = Some 0, mt_lastUsedTimestep = -1, mt_createdAt = 0\<rparr>]\<rparr>"

definition challengedWorld :: "unit world" where
  "challengedWorld = snd (openLoginChallenge demoAuth
     \<lparr>lc_userId = ''ann'', lc_redirectUrl = ''/account'', lc_method = Magic_link\<rparr> (worldOf mfaDb))"

definition challengeCookie :: headers where
  "challengeCookie = [(''cookie'', ''mfa_login_challenge=mfa-lc-0.sig'')]"

section \<open>The first factor is not enough\<close>

lemma enforceChallenge_challenges:
  assumes "cin_challengeEnabled input"
    and "phaseOf (w_db w) (cin_userId input) = Enabled t \<or> w_dbFaults w (w_dbCalls w) \<noteq> NoFault"
  shows "\<exists>cookie r' w'. enforceChallenge A r input w = (Inr (Challenge cookie, r'), w')"
proof -
  obtain d r' w' where run: "enforceChallenge A r input w = (Inr (d, r'), w')" using enforceChallenge_total by blast
  show ?thesis
  proof (cases d)
    case Pass
    have "isMfaEnabled (map_option mt_verifiedAt (totpOf (w_db w) (cin_userId input)))"
      if "phaseOf (w_db w) (cin_userId input) = Enabled t"
      using that phaseOf_Enabled_iff by blast
    with enforceChallenge_Pass[OF run[unfolded Pass] assms(1)] assms(2) show ?thesis by blast
  qed (use run in blast)
qed

text \<open>
  C3: While the challenge is switched on, no session survives a primary authentication of a user whose MFA is
  enabled: the session is replaced by the challenge, also when the database cannot say whether MFA is enabled, when
  no challenge could be opened, and when the session could not be deleted in the store.
\<close>

theorem mfa_not_bypassed:
  assumes "isMfaChallengeEnabled env"
    and "phaseOf (w_db w) (si_id (is_user s)) = Enabled t \<or> w_dbFaults w (w_dbCalls w) \<noteq> NoFault"
  shows "\<exists>cookie r' w'. afterPrimaryAuth A env reportedAt (Some s) path paramsId location headers w =
    (Inr (RedirectToChallenge cookie, r'), w')"
proof -
  let ?input = "\<lparr>cin_userId = si_id (is_user s), cin_sessionToken = is_token s,
    cin_route = parsePrimaryAuthRoute path paramsId, cin_location = location, cin_challengeEnabled = True\<rparr>"
  from enforceChallenge_challenges[of ?input w t A reportedAt] assms(2)
  obtain cookie r' w' where "enforceChallenge A reportedAt ?input w = (Inr (Challenge cookie, r'), w')" by auto
  with assms(1) show ?thesis
    by (auto simp: afterPrimaryAuth_def Let_def andThen_def catchCause_def succeed_def)
qed

theorem mfa_not_bypassed_witness:
  "\<exists>cookie r' w'. afterPrimaryAuth demoAuth (Some ''true'') 0
     (Some \<lparr>is_user = \<lparr>si_id = ''ann'', si_email = ''ann@x.jp'', si_name = ''Ann'', si_createdAt = 0\<rparr>, is_token = ''t''\<rparr>)
     ''/magic-link/verify'' None None None (worldOf mfaDb) = (Inr (RedirectToChallenge cookie, r'), w')"
proof -
  have "phaseOf mfaDb ''ann'' = Enabled (-1)" by code_simp
  then show ?thesis
    by (intro mfa_not_bypassed[where t = "-1"]) (simp_all add: isMfaChallengeEnabled_def)
qed

section \<open>The state machine\<close>



lemma mfa_path_uses: "mfa_path {Uses} (Enabled s) q \<Longrightarrow> \<exists>s'. q = Enabled s' \<and> s \<le> s'"
  unfolding mfa_path_def by (induction rule: rtranclp_induct) (auto simp: mfa_step_simps)

section \<open>Once\<close>

text \<open>A verified code is presented after a pause, and counts when the statement reports a hit.\<close>

definition presentCode :: "id \<Rightarrow> matchedOwnedCode \<Rightarrow> millis \<Rightarrow> 'x world \<Rightarrow> bool \<times> 'x world" where
  "presentCode u m dt w = (case consumeMatchedCode u m (tick dt w) of (r, w') \<Rightarrow> (r = Inr (), w'))"

definition presentChallenge :: "mfa_deps \<Rightarrow> string \<Rightarrow> millis \<Rightarrow> 'x world \<Rightarrow> bool \<times> 'x world" where
  "presentChallenge L c dt w = (case consumeLoginChallenge L c (tick dt w) of (r, w') \<Rightarrow> (case r of Inr _ \<Rightarrow> True | Inl _ \<Rightarrow> False, w'))"

fun codeSpent :: "id \<Rightarrow> matchedOwnedCode \<Rightarrow> database \<Rightarrow> bool" where
  "codeSpent u (MatchedTotp s) d = timestepSpent u s d"
| "codeSpent u (MatchedRecoveryCode i) d = recoveryCodeSpent (u, i) d"

lemma tryDb_db: "tryDb stmt w = (r, w') \<Longrightarrow> w_db w' = w_db w \<or> (\<exists>a. stmt (w_clock w) (w_db w) = Some (a, w_db w'))"
  by (auto simp: tryDb_def Let_def split: fault.splits option.splits if_splits)

lemma consumeMatchedCode_db:
  assumes "consumeMatchedCode u m w = (r, w')"
  shows "w_db w' = w_db w \<or> (\<exists>b. (case m of
      MatchedTotp s \<Rightarrow> consumeTotpTimestepUse u s (w_clock w) (w_db w)
    | MatchedRecoveryCode i \<Rightarrow> consumeRecoveryCodeUse (u, i) (w_clock w) (w_db w)) = (b, w_db w'))"
proof -
  obtain q w1 where run: "(case m of MatchedTotp s \<Rightarrow> consumeTotpTimestep u s
      | MatchedRecoveryCode i \<Rightarrow> consumeRecoveryCode u i) w = (q, w1)" by fastforce
  with assms have "w_db w' = w_db w1"
    by (cases q) (auto simp: consumeMatchedCode_def andThen_def failWith_def succeed_def split: if_splits)
  with run show ?thesis
    by (cases m) (auto simp: consumeTotpTimestep_use consumeRecoveryCode_def consumeTotpTimestepUse_def
        consumeRecoveryCodeUse_def dest!: tryDb_db)
qed

lemma codeSpent_other:
  "consumeTotpTimestepUse u s t d = (b, d') \<Longrightarrow> d_mfaRecoveryCode d' = d_mfaRecoveryCode d"
  "consumeRecoveryCodeUse k t d = (b, d') \<Longrightarrow> d_mfaTotp d' = d_mfaTotp d"
  by (auto simp: consumeTotpTimestepUse_def updateTotpWhere_def consumeRecoveryCodeUse_unfold)

lemma codeSpent_stays:
  assumes "codeSpent u k (w_db w)" "consumeMatchedCode u m w = (r, w')"
  shows "codeSpent u k (w_db w')"
proof (cases "w_db w' = w_db w")
  case False
  with consumeMatchedCode_db[OF assms(2)] obtain b where b: "(case m of
      MatchedTotp s \<Rightarrow> consumeTotpTimestepUse u s (w_clock w) (w_db w)
    | MatchedRecoveryCode i \<Rightarrow> consumeRecoveryCodeUse (u, i) (w_clock w) (w_db w)) = (b, w_db w')" by blast
  show ?thesis
  proof (cases k)
    case (MatchedTotp s)
    with assms(1) b codeSpent_other(2) totp_timestep.stays show ?thesis
      by (cases m) (auto simp: timestepSpent_def)
  next
    case (MatchedRecoveryCode i)
    with assms(1) b codeSpent_other(1) recovery_code.stays show ?thesis
      by (cases m) (auto simp: recoveryCodeSpent_def)
  qed
qed (use assms(1) in simp)

interpretation owned_code: single_use "presentCode u" "\<lambda>m w. codeSpent u m (w_db w)" for u
proof unfold_locales
  fix k e w w' b j
  have db: "w_db (tick e w) = w_db w" by (simp add: tick_def)
  { assume "presentCode u k e w = (True, w')"
    then have "consumeMatchedCode u k (tick e w) = (Inr (), w')" by (auto simp: presentCode_def split: prod.splits)
    from consumeMatchedCode_attempt[OF this] show "codeSpent u k (w_db w')"
      by (cases k) (auto dest: totp_timestep.spends recovery_code.spends) }
  { assume "codeSpent u k (w_db w)" "presentCode u j e w = (b, w')"
    then show "codeSpent u k (w_db w')"
      using codeSpent_stays[of u k "tick e w" j] db by (auto simp: presentCode_def split: prod.splits) }
  { assume spent: "codeSpent u k (w_db w)" and "presentCode u k e w = (b, w')"
    then have "b \<Longrightarrow> consumeMatchedCode u k (tick e w) = (Inr (), w')" by (auto simp: presentCode_def split: prod.splits)
    from consumeMatchedCode_attempt[OF this] show "\<not> b"
      using spent db by (cases k) (auto dest: totp_timestep.refused recovery_code.refused) }
qed

lemma presentChallenge_kv:
  assumes "presentChallenge L c dt w = (b, w')"
  shows "w_kv w' = w_kv w \<and> \<not> b \<or> (\<exists>won. takeChallengeUse c (w_clock w + dt) (w_kv w) = (won, w_kv w') \<and> (b \<longrightarrow> won))"
proof -
  obtain r w1 where run: "tryTtlStore (kvGetAndDelete (challengeKey c)) (tick dt w) = (r, w1)" by fastforce
  have b: "w_kv w' = w_kv w1 \<and> (b \<longleftrightarrow> (\<exists>v. r = Inr (Some v)))"
    using assms run
    by (cases r) (auto simp: presentChallenge_def consumeLoginChallenge_def ttlGetAndDelete_def attemptOnce_def andThen_def
        failWith_def succeed_def split: if_splits)
  show ?thesis
  proof (cases r)
    case (Inl e)
    with tryTtlStore_kv[OF run] b show ?thesis by (auto simp: takeChallengeUse_def tick_def)
  next
    case (Inr v)
    with run b show ?thesis by (auto simp: tryTtlStore_runs takeChallengeUse_def tick_def)
  qed
qed

interpretation login_challenge_run: single_use "presentChallenge L" "\<lambda>c w. challengeTaken c (w_kv w)" for L
proof unfold_locales
  fix c e w w' b j
  { assume run: "presentChallenge L c e w = (True, w')"
    from presentChallenge_kv[OF run] show "challengeTaken c (w_kv w')" using login_challenge.spends by fastforce }
  { assume taken: "challengeTaken c (w_kv w)" and run: "presentChallenge L j e w = (b, w')"
    from presentChallenge_kv[OF run] taken show "challengeTaken c (w_kv w')" using login_challenge.stays by metis }
  { assume taken: "challengeTaken c (w_kv w)" and run: "presentChallenge L c e w = (b, w')"
    from presentChallenge_kv[OF run] taken show "\<not> b" using login_challenge.refused by blast }
qed


section \<open>Completing a login\<close>

lemma rejectWrongCode_never_succeeds: "rejectWrongCode cid n w \<noteq> (Inr a, w')"
  by (auto simp: rejectWrongCode_def expireLoginChallenge_def run_simps split: if_splits)

lemma matchOwnedCode_enabled:
  assumes "matchOwnedCode L u code kind w = (Inr m, w')"
  shows "(\<exists>s. phaseOf (w_db w) u = Enabled s) \<and> w_db w' = w_db w"
proof -
  from assms obtain ring w1 found w2 where k: "mfaKeyring L w = (Inr ring, w1)" and f: "findMfaTotp u w1 = (Inr found, w2)"
    and rest: "(case found of None \<Rightarrow> failWith NotEnabled | Some row \<Rightarrow>
       (if \<not> isMfaEnabled (Some (mt_verifiedAt row)) then failWith NotEnabled
        else if kind = KindTotp
        then andThen (decryptValue L ring (secretCipher row) u) (\<lambda>secret. andThen currentTimeMillis (\<lambda>now.
               case matchTotpCode L secret code now of None \<Rightarrow> failWith InvalidCode | Some t \<Rightarrow> succeed (MatchedTotp t)))
        else andThen (listUnusedRecoveryCodes u) (firstMatching L ring u code))) w2 = (Inr m, w')"
    unfolding matchOwnedCode_def andThen_runs by blast
  have db: "w_db w1 = w_db w" using keeps_mfaCrypto(1) k by (rule keepsD)
  from rest obtain row where row: "found = Some row" "isMfaEnabled (Some (mt_verifiedAt row))"
    by (cases found) (auto simp: failWith_runs split: if_splits)
  have "totpOf (w_db w) u = found" using f db by (auto simp: findMfaTotp_def run_simps totpOf_def)
  with row have "isMfaEnabled (map_option mt_verifiedAt (totpOf (w_db w) u))" by simp
  then have "\<exists>s. phaseOf (w_db w) u = Enabled s" by (simp only: phaseOf_Enabled_iff)
  moreover have "w_db w' = w_db w" using keeps_mfa(5) assms by (rule keepsD)
  ultimately show ?thesis by blast
qed



section \<open>What is stored\<close>

text \<open>
  A secret or a recovery code that was encrypted for a user is decrypted to the same bytes with the same ring of
  keys, at any later time, when AES-GCM itself inverts.
\<close>

theorem encrypted_values_roundtrip:
  assumes "aes_inverts L" "byteStream w" "encryptValue L ring (encodeUtf8 plain) userId w = (Inr v, w1)"
  shows "decryptText L ring v userId w2 = (Inr plain, w2)"
proof -
  have "decryptValue L ring v userId w2 = (Inr (encodeUtf8 plain), w2)"
    using decryptValue_encryptValue[OF assms(1,2) encodeUtf8_bytes assms(3)] .
  then show ?thesis by (simp add: decryptText_def mapEff_def andThen_def succeed_def decodeUtf8_encodeUtf8)
qed

theorem encrypted_values_roundtrip_witness:
  "\<exists>v w1. encryptValue demoDeps \<lparr>kr_currentVersion = 1, kr_keys = [(1, [1, 2, 3])]\<rparr> (encodeUtf8 ''secret'') ''ann'' demoWorld = (Inr v, w1) \<and>
     decryptText demoDeps \<lparr>kr_currentVersion = 1, kr_keys = [(1, [1, 2, 3])]\<rparr> v ''ann'' demoWorld = (Inr ''secret'', demoWorld)"
proof -
  let ?ring = "\<lparr>kr_currentVersion = 1, kr_keys = [(1, [1, 2, 3])]\<rparr>"
  obtain v w1 where run: "encryptValue demoDeps ?ring (encodeUtf8 ''secret'') ''ann'' demoWorld = (Inr v, w1)"
    by (simp add: encryptValue_def importAesKey_def andThen_def succeed_def getRandomValues_def)
  have "byteStream demoWorld" by (simp add: byteStream_def demoWorld_def worldOf_def)
  from encrypted_values_roundtrip[OF demoDeps_aes this run] run show ?thesis by blast
qed

text \<open>
  C25: Generating recovery codes ends whenever the random bytes are not all outside the accepted range, and yields as
  many codes as asked, each of two groups of five characters of the alphabet without look-alikes.
\<close>

theorem recovery_codes_are_generated:
  assumes "fairBytes w"
  shows "\<exists>codes w'. generateRecoveryCodes n w = (Inr codes, w') \<and> length codes = n \<and>
    list_all isRecoveryCode codes \<and> w_db w' = w_db w"
proof -
  from recoveryCodes_returns[OF assms] obtain codes w' where "recoveryCodes n w = Some (codes, w')" by fastforce
  with recoveryCodes_sound[OF this] show ?thesis
    by (auto simp: generateRecoveryCodes_runs list_all_iff)
qed

theorem recovery_codes_are_generated_witness:
  "\<exists>codes w'. generateRecoveryCodes 10 (demoWorld\<lparr>w_bytes := (\<lambda>k n. replicate n (k mod 31))\<rparr>) = (Inr codes, w') \<and>
     length codes = 10 \<and> list_all isRecoveryCode codes"
proof -
  have "\<exists>b\<in>set (replicate n (k mod 31)). b < 248" if "n > 0" for k n :: nat
    using that mod_less_divisor[of 31 k] by (intro bexI[of _ "k mod 31"]) (simp_all add: less_trans[of _ 31])
  then have "fairBytes (demoWorld\<lparr>w_bytes := (\<lambda>k n. replicate n (k mod 31))\<rparr>)" by (simp add: fairBytes_def)
  from recovery_codes_are_generated[OF this, of 10] show ?thesis by blast
qed

end
