(* ===== verification/RecoveryCodes.thy ===== *)
theory RecoveryCodes
  imports Demo
begin

text \<open>
  The recovery codes of an enrollment, from the answer of \<open>enrollMfa\<close> over \<open>activateMfa\<close> to the check of a code: what is
  stored is what was answered, and each answered code is accepted once the enrollment is active.
\<close>

section \<open>Codes belong to an enrollment\<close>

text \<open>
  Each transaction keeps this, not each statement: enrolling writes the enrollment before its codes, disabling deletes the
  enrollment before its codes.
\<close>

definition codesEnrolled :: "database \<Rightarrow> bool" where
  "codesEnrolled d \<longleftrightarrow> rc_userId ` set (d_mfaRecoveryCode d) \<subseteq> mt_userId ` set (d_mfaTotp d)"

lemma companyStatements_codesEnrolled: "companyStatements codesEnrolled"
  unfolding companyStatements_def
  by (auto simp: sqlKeeps_def codesEnrolled_def sql_defs insertAuditLogsSql_def dropUser_def Let_def split: if_splits option.splits)

lemma codesEnrolled_updateTotp:
  assumes "\<And>now t. mt_userId (f now t) = mt_userId t" shows "sqlKeeps codesEnrolled (updateTotpWhere P f)"
proof -
  have keys: "mt_userId ` set (updateWhere P (f now) ts) = mt_userId ` set ts" for now ts
    using map_key_updateWhere[of P mt_userId "f now" ts] assms by (metis set_map)
  show ?thesis by (auto simp: sqlKeeps_def codesEnrolled_def updateTotpWhere_def keys)
qed

lemma codesEnrolled_consume: "sqlKeeps codesEnrolled (consumeRecoveryCodeSql u i)"
proof -
  have keys: "rc_userId ` set (updateWhere P (\<lambda>r. r\<lparr>rc_usedAt := t\<rparr>) rs) = rc_userId ` set rs" for P t rs
  proof -
    have "map rc_userId (updateWhere P (\<lambda>r. r\<lparr>rc_usedAt := t\<rparr>) rs) = map rc_userId rs" by (rule map_key_updateWhere) simp
    then show ?thesis by (metis set_map)
  qed
  show ?thesis by (auto simp: sqlKeeps_def codesEnrolled_def consumeRecoveryCodeSql_def Let_def keys)
qed

section \<open>What a stored code says\<close>

definition plainText :: "mfa_deps \<Rightarrow> keyRing \<Rightarrow> encryptedValue \<Rightarrow> string \<Rightarrow> string option" where
  "plainText L ring value aad = (case map_of (kr_keys ring) (ev_keyVersion value) of
     None \<Rightarrow> None
   | Some key \<Rightarrow> map_option decodeUtf8
       (md_aesDecrypt L key (decodeBase64 (ev_iv value)) (encodeUtf8 aad) (decodeBase64 (ev_ciphertext value))))"

lemma decryptText_runs:
  "decryptText L ring v aad w = (Inr p, w') \<longleftrightarrow> plainText L ring v aad = Some p \<and> w' = w"
  by (auto simp: decryptText_def decryptValue_def importAesKey_def plainText_def run_simps split: option.splits)

definition unusedOf :: "mfaRecoveryCode \<Rightarrow> unusedRecoveryCode" where
  "unusedOf r = \<lparr>ur_id = rc_id r, ur_codeCiphertext = rc_codeCiphertext r, ur_codeIv = rc_codeIv r, ur_keyVersion = rc_keyVersion r\<rparr>"

text \<open>Every unused code of the user can be read, and the given codes are among them.\<close>

definition opensWith :: "mfa_deps \<Rightarrow> keyRing \<Rightarrow> database \<Rightarrow> id \<Rightarrow> string list \<Rightarrow> bool" where
  "opensWith L ring d u codes \<longleftrightarrow>
     (\<forall>r\<in>set (unusedCodesOf d u). plainText L ring (codeCipher (unusedOf r)) u \<noteq> None) \<and>
     (\<forall>c\<in>set codes. \<exists>r\<in>set (unusedCodesOf d u). plainText L ring (codeCipher (unusedOf r)) u = Some c)"

lemma listUnused_runs:
  "listUnusedRecoveryCodes u w = (Inr cs, w') \<longleftrightarrow> w_dbFaults w (w_dbCalls w) = NoFault \<and>
    cs = map unusedOf (sort_key rc_id (unusedCodesOf (w_db w) u)) \<and> w' = w\<lparr>w_dbCalls := Suc (w_dbCalls w)\<rparr>"
  by (auto simp: run_simps unusedOf_def[abs_def])

section \<open>Lists of effects\<close>

lemma collectEff_runs:
  "collectEff f [] w = (Inr ys, w') \<longleftrightarrow> ys = [] \<and> w' = w"
  "collectEff f (x # xs) w = (Inr ys, w') \<longleftrightarrow>
    (\<exists>y w1 zs. f x w = (Inr y, w1) \<and> collectEff f xs w1 = (Inr zs, w') \<and> ys = y # zs)"
  by (auto simp: run_simps)

lemma decrypted_codes:
  "collectEff (\<lambda>v. decryptText L ring (codeCipher v) u) vs w = (Inr cs, w') \<Longrightarrow>
    list_all2 (\<lambda>v c. plainText L ring (codeCipher v) u = Some c) vs cs \<and> w' = w"
proof (induction vs arbitrary: w cs)
  case (Cons v vs) then show ?case by (auto simp: collectEff_runs decryptText_runs simp del: collectEff.simps)
qed (simp add: collectEff_runs succeed_def)

lemma encrypted_code:
  assumes "aes_inverts L" "byteStream w" "encryptValue L ring (encodeUtf8 c) u w = (Inr v, w')"
  shows "plainText L ring v u = Some c \<and> byteStream w' \<and> w_db w' = w_db w"
proof -
  have "decryptText L ring v u w' = (Inr c, w')"
    using decryptValue_encryptValue[OF assms(1,2) encodeUtf8_bytes assms(3), of w']
    by (simp add: decryptText_def mapEff_def andThen_def succeed_def decodeUtf8_encodeUtf8)
  moreover have "byteStream w'" "w_db w' = w_db w" using assms(2,3)
    by (auto simp: encryptValue_def importAesKey_def run_simps byteStream_def split: option.splits)
  ultimately show ?thesis by (simp add: decryptText_runs)
qed

lemma encrypted_codes:
  "collectEff (\<lambda>c. encryptValue L ring (encodeUtf8 c) u) cs w = (Inr vs, w') \<Longrightarrow> aes_inverts L \<Longrightarrow> byteStream w \<Longrightarrow>
    list_all2 (\<lambda>v c. plainText L ring v u = Some c) vs cs \<and> w_db w' = w_db w"
proof (induction cs arbitrary: w vs)
  case (Cons c cs)
  from Cons.prems(1) obtain v w1 rest where v: "encryptValue L ring (encodeUtf8 c) u w = (Inr v, w1)"
    and rest: "collectEff (\<lambda>c. encryptValue L ring (encodeUtf8 c) u) cs w1 = (Inr rest, w')" "vs = v # rest"
    by (auto simp: collectEff_runs simp del: collectEff.simps)
  from encrypted_code[OF Cons.prems(2,3) v] Cons.IH[OF rest(1) Cons.prems(2)] rest(2) show ?case by simp
qed (simp add: collectEff_runs succeed_def)

lemma code_rows:
  "collectEff (newRecoveryCodeRow u) (enumerate n vs) w = (Inr rows, w') \<Longrightarrow>
    map (\<lambda>row. codeCipher (unusedOf (recoveryCodeRow row))) rows = vs \<and> set (map nr_userId rows) \<subseteq> {u} \<and> w_db w' = w_db w"
proof (induction vs arbitrary: n w rows)
  case (Cons v vs)
  from Cons.prems obtain row w1 rest where row: "newRecoveryCodeRow u (n, v) w = (Inr row, w1)"
    and rest: "collectEff (newRecoveryCodeRow u) (enumerate (Suc n) vs) w1 = (Inr rest, w')" "rows = row # rest"
    by (auto simp: collectEff_runs simp del: collectEff.simps)
  have "codeCipher (unusedOf (recoveryCodeRow row)) = v \<and> nr_userId row = u \<and> w_db w1 = w_db w"
    using row by (auto simp: newRecoveryCodeRow_def generateRecoveryCodeId_def run_simps codeCipher_def unusedOf_def recoveryCodeRow_def)
  with Cons.IH[OF rest(1)] rest(2) show ?case by simp
qed (simp add: collectEff_runs succeed_def)

section \<open>Enrolling\<close>

lemma opensWithI:
  assumes "list_all2 (\<lambda>v c. plainText L ring v u = Some c) vs cs"
    and "set (map (\<lambda>r. codeCipher (unusedOf r)) (unusedCodesOf d u)) = set vs"
  shows "opensWith L ring d u cs"
proof -
  have all: "(\<forall>v\<in>set vs. plainText L ring v u \<noteq> None) \<and> (\<forall>c\<in>set cs. \<exists>v\<in>set vs. plainText L ring v u = Some c)"
    using assms(1) by (induction rule: list_all2_induct) auto
  moreover have "\<exists>r\<in>set (unusedCodesOf d u). codeCipher (unusedOf r) = v" if "v \<in> set vs" for v
    using that assms(2) by force
  moreover have "codeCipher (unusedOf r) \<in> set vs" if "r \<in> set (unusedCodesOf d u)" for r
    using that assms(2) by auto
  ultimately show ?thesis unfolding opensWith_def by metis
qed

lemma replay_answers_stored:
  assumes "replayPendingEnrollment L actor row w = (Inr e, w')"
  shows "\<exists>ring. parseMfaKeyRing (md_encryptionKeys L) = Some ring \<and>
    opensWith L ring (w_db w') (ac_id actor) (en_recoveryCodes e)"
proof -
  from assms obtain ring secret stored w1 w2 codes where ring: "parseMfaKeyRing (md_encryptionKeys L) = Some ring"
    and d: "w_db w1 = w_db w"
    and stored: "listUnusedRecoveryCodes (ac_id actor) w1 = (Inr stored, w2)"
    and codes: "collectEff (\<lambda>code. decryptText L ring (codeCipher code) (ac_id actor)) stored w2 = (Inr codes, w')"
    and e: "en_recoveryCodes e = codes"
    by (auto simp: replayPendingEnrollment_def andThen_runs succeed_runs failWith_runs mfaKeyring_def dieWith_runs
        split: if_splits option.splits dest: keepsD[OF keeps_mfaCrypto(4)])
  from decrypted_codes[OF codes] have "list_all2 (\<lambda>v c. plainText L ring v (ac_id actor) = Some c) (map codeCipher stored) codes"
    "w' = w2" by (auto simp: list_all2_map1)
  with ring e stored d show ?thesis
    by (intro exI[of _ ring] conjI opensWithI[where vs = "map codeCipher stored"]) (auto simp: listUnused_runs)
qed

lemma insertEnrollment_stores:
  assumes "insertEnrollment u i secret vs w = (Inr True, w')" "unusedCodesOf (w_db w) u = []"
  shows "map (\<lambda>r. codeCipher (unusedOf r)) (unusedCodesOf (w_db w') u) = vs"
proof -
  from assms(1) obtain w1 rows w2 where ins: "insertMfaTotpEnrollment \<lparr>ne_userId = u, ne_enrollmentId = i,
      ne_secretCiphertext = ev_ciphertext secret, ne_secretIv = ev_iv secret, ne_keyVersion = ev_keyVersion secret\<rparr> w = (Inr True, w1)"
    and rows: "collectEff (newRecoveryCodeRow u) (enumerate 0 vs) w1 = (Inr rows, w2)"
    and store: "insertRecoveryCodes rows w2 = (Inr (), w')"
    by (auto simp: insertEnrollment_def andThen_runs succeed_runs split: if_splits)
  have "d_mfaRecoveryCode (w_db w1) = d_mfaRecoveryCode (w_db w)"
    using ins by (auto simp: insertMfaTotpEnrollment_def insertMfaTotpEnrollmentSql_def tryDb_runs split: if_splits)
  moreover have r: "map (\<lambda>row. codeCipher (unusedOf (recoveryCodeRow row))) rows = vs" "set (map nr_userId rows) \<subseteq> {u}" "w_db w2 = w_db w1"
    using code_rows[OF rows] by auto
  moreover have "d_mfaRecoveryCode (w_db w') = d_mfaRecoveryCode (w_db w2) @ map recoveryCodeRow rows"
    using store by (auto simp: insertRecoveryCodes_def insertRecoveryCodesSql_def tryDb_runs succeed_runs split: if_splits)
  ultimately have "unusedCodesOf (w_db w') u = map recoveryCodeRow (filter (\<lambda>row. nr_userId row = u) rows)"
    using assms(2) by (simp add: unusedCodesOf_def filter_map comp_def recoveryCodeRow_def)
  also have "filter (\<lambda>row. nr_userId row = u) rows = rows" using r(2) by (auto simp: filter_id_conv)
  finally show ?thesis using r(1) by (simp add: comp_def)
qed

lemma enroll_answers_stored:
  assumes "auth_frame A" "aes_inverts L" "byteStream w" "enroll A L actor w = (Inr e, w')"
    and "totpOf (w_db w) (ac_id actor) = None \<Longrightarrow> unusedCodesOf (w_db w) (ac_id actor) = []"
  shows "\<exists>ring. parseMfaKeyRing (md_encryptionKeys L) = Some ring \<and>
    opensWith L ring (w_db w') (ac_id actor) (en_recoveryCodes e)"
proof -
  let ?u = "ac_id actor"
  from assms(4) obtain existing w1 where f: "findMfaTotp ?u w = (Inr existing, w1)"
    and rest: "(case existing of Some row \<Rightarrow> replayPendingEnrollment L actor row w1 = (Inr e, w') | None \<Rightarrow> enroll A L actor w = (Inr e, w'))"
    unfolding enroll_def by (auto simp: andThen_runs split: option.splits)
  from f have db1: "w_db w1 = w_db w" "w_bytes w1 = w_bytes w" "existing = totpOf (w_db w) ?u" by (auto simp: run_simps)
  show ?thesis
  proof (cases existing)
    case (Some row) with rest replay_answers_stored show ?thesis by auto
  next
    case None
    with assms(4) f obtain ring w2 secret w3 codes w4 i w5 es w6 vs w7 won w8
      where ring: "mfaKeyring L w1 = (Inr ring, w2)" and secret: "generateTotpSecret L w2 = (Inr secret, w3)"
      and codes: "generateRecoveryCodes 10 w3 = (Inr codes, w4)" and i: "generateEnrollmentId w4 = (Inr i, w5)"
      and es: "encryptValue L ring secret ?u w5 = (Inr es, w6)"
      and vs: "collectEff (\<lambda>code. encryptValue L ring (encodeUtf8 code) ?u) codes w6 = (Inr vs, w7)"
      and tx: "transaction A (insertEnrollment ?u i es vs) w7 = (Inr won, w8)"
      and last: "if won then en_recoveryCodes e = codes \<and> w' = w8
        else \<exists>row w9. replayPendingEnrollment L actor row w9 = (Inr e, w')"
      unfolding enroll_def
      by (auto simp: andThen_runs succeed_runs failWith_runs split: if_splits option.splits) (metis (no_types, lifting))+
    show ?thesis
    proof (cases won)
      case False with last replay_answers_stored show ?thesis by auto
    next
      case True
      from ring have k: "parseMfaKeyRing (md_encryptionKeys L) = Some ring" "w2 = w1"
        by (auto simp: mfaKeyring_def run_simps split: option.splits)
      from secret have b3: "w_bytes w3 = w_bytes w2" "w_db w3 = w_db w2" by (auto simp: generateTotpSecret_def)
      from codes have b4: "w_bytes w4 = w_bytes w3" "w_db w4 = w_db w3"
        using recoveryCodes_sound[of 10 w3] by (auto simp: generateRecoveryCodes_runs)
      from i have b5: "w_bytes w5 = w_bytes w4" "w_db w5 = w_db w4" by (auto simp: generateEnrollmentId_def run_simps)
      from es have b6: "w_bytes w6 = w_bytes w5" "w_db w6 = w_db w5"
        by (auto simp: encryptValue_def importAesKey_def run_simps split: option.splits)
      have "byteStream w6" using assms(3) b3 b4 b5 b6 k(2) db1 by (simp add: byteStream_def)
      from encrypted_codes[OF vs assms(2) this]
      have stored: "list_all2 (\<lambda>v c. plainText L ring v ?u = Some c) vs codes" "w_db w7 = w_db w6" by auto
      from transaction_success[OF tx assms(1)] True obtain w9 where
        body: "insertEnrollment ?u i es vs (w7\<lparr>w_dbCalls := Suc (w_dbCalls w7), w_hooks := [], w_locks := []\<rparr>) = (Inr True, w9)"
        "w_db w8 = w_db w9" by auto
      have "unusedCodesOf (w_db w7) ?u = []" using assms(5) None db1 k(2) b3 b4 b5 b6 stored(2) by simp
      with insertEnrollment_stores[OF body(1)] have "map (\<lambda>r. codeCipher (unusedOf r)) (unusedCodesOf (w_db w9) ?u) = vs" by simp
      with opensWithI[OF stored(1)] last True body(2) k(1) show ?thesis by (metis (no_types, lifting))
    qed
  qed
qed

lemma codesEnrolled_insertEnrollment:
  assumes "auth_frame A" shows "preserves codesEnrolled (transaction A (insertEnrollment u i secret vs))"
proof (rule preserves_transaction[OF _ assms])
  fix w won w' assume I: "codesEnrolled (w_db w)" and run: "insertEnrollment u i secret vs w = (Inr won, w')"
  then obtain w1 where ins: "insertMfaTotpEnrollment \<lparr>ne_userId = u, ne_enrollmentId = i,
      ne_secretCiphertext = ev_ciphertext secret, ne_secretIv = ev_iv secret, ne_keyVersion = ev_keyVersion secret\<rparr> w = (Inr won, w1)"
    and rest: "if won then \<exists>rows w2. collectEff (newRecoveryCodeRow u) (enumerate 0 vs) w1 = (Inr rows, w2) \<and>
      insertRecoveryCodes rows w2 = (Inr (), w') else w' = w1"
    by (auto simp: insertEnrollment_def andThen_runs succeed_runs split: if_splits)
  have w1: "codesEnrolled (w_db w1)" "won \<Longrightarrow> u \<in> mt_userId ` set (d_mfaTotp (w_db w1))"
    using ins I by (auto simp: insertMfaTotpEnrollment_def insertMfaTotpEnrollmentSql_def tryDb_runs codesEnrolled_def split: if_splits)
  show "codesEnrolled (w_db w')"
  proof (cases won)
    case True
    with rest obtain rows w2 where rows: "collectEff (newRecoveryCodeRow u) (enumerate 0 vs) w1 = (Inr rows, w2)"
      and store: "insertRecoveryCodes rows w2 = (Inr (), w')" by auto
    from code_rows[OF rows] have new: "set (map nr_userId rows) \<subseteq> {u}" "w_db w2 = w_db w1" by auto
    from store have "w_db w' = (w_db w2)\<lparr>d_mfaRecoveryCode := d_mfaRecoveryCode (w_db w2) @ map recoveryCodeRow rows\<rparr>"
      by (auto simp: insertRecoveryCodes_def insertRecoveryCodesSql_def tryDb_runs succeed_runs split: if_splits)
    moreover have "rc_userId ` set (map recoveryCodeRow rows) \<subseteq> {u}" using new(1) by (auto simp: recoveryCodeRow_def)
    ultimately show ?thesis using w1 True new(2) by (simp add: codesEnrolled_def image_Un) blast
  qed (use rest w1 in auto)
qed

lemma codesEnrolled_deleteEnrollment:
  assumes "auth_frame A" shows "preserves codesEnrolled (deleteEnrollment A u)"
  unfolding deleteEnrollment_def
proof (rule preserves_transaction[OF _ assms])
  fix w n w' assume "codesEnrolled (w_db w)"
    "andThen (deleteMfaTotp u) (\<lambda>rows. andDo (deleteRecoveryCodesByUserId u) (succeed rows)) w = (Inr n, w')"
  then show "codesEnrolled (w_db w')"
    by (auto simp: andThen_runs succeed_runs deleteMfaTotp_def deleteRecoveryCodesByUserId_def deleteMfaTotpSql_def
        deleteRecoveryCodesSql_def tryDb_runs codesEnrolled_def)
qed

interpretation enrolled: service_invariant K codesEnrolled for K :: "'x service"
proof unfold_locales
  show "preserves codesEnrolled (perform K op)" if "service_frame K" for op
    by (rule companyStatements_operations[OF companyStatements_codesEnrolled that])
      (use that in \<open>auto simp: service_frame_def activateMfaTotp_def consumeTotpTimestep_def consumeRecoveryCode_def
        intro!: preserves_intros codesEnrolled_updateTotp codesEnrolled_consume codesEnrolled_insertEnrollment
          codesEnrolled_deleteEnrollment\<close>)
qed (auto simp: codesEnrolled_def emptyDb_def signUp_def editProfile_def)

section \<open>Activating\<close>

lemma sqlKeeps_codes: "sqlKeeps (\<lambda>d. d_mfaRecoveryCode d = cs) (updateTotpWhere P f)"
    "sqlKeeps (\<lambda>d. d_mfaRecoveryCode d = cs \<and> d_mfaTotp d = ts) (insertAuditLogsSql es)"
    "sqlKeeps (\<lambda>d. d_mfaRecoveryCode d = cs) (insertAuditLogsSql es)"
  by (auto simp: sqlKeeps_def updateTotpWhere_def insertAuditLogsSql_def split: if_splits)

lemma activateMfaTotp_enables:
  assumes "activateMfaTotp u i t w = (Inr True, w')" "wf_db (w_db w)"
  shows "isMfaEnabled (map_option mt_verifiedAt (totpOf (w_db w') u)) \<and> d_mfaRecoveryCode (w_db w') = d_mfaRecoveryCode (w_db w)"
proof -
  let ?P = "\<lambda>t. mt_userId t = u \<and> mt_enrollmentId t = i \<and> mt_verifiedAt t = None"
  from assms(1) have one: "length (filter ?P (d_mfaTotp (w_db w))) = 1"
    and w': "w_db w' = w_db w\<lparr>d_mfaTotp := updateWhere ?P (\<lambda>x. x\<lparr>mt_verifiedAt := Some (w_clock w), mt_lastUsedTimestep := t\<rparr>) (d_mfaTotp (w_db w))\<rparr>"
    by (auto simp: activateMfaTotp_def run_simps)
  from one have "filter ?P (d_mfaTotp (w_db w)) \<noteq> []" by (cases "filter ?P (d_mfaTotp (w_db w))") simp_all
  then obtain row where row: "row \<in> set (d_mfaTotp (w_db w))" "?P row" by (auto simp: filter_empty_conv)
  have "distinct (map mt_userId (d_mfaTotp (w_db w)))" using assms(2) by (simp add: wf_db_def wf_keys_def)
  then have ts: "filter (\<lambda>x. mt_userId x = u) (d_mfaTotp (w_db w)) = [row]" using filter_key_single row by fastforce
  have swap: "filter (\<lambda>x. mt_userId x = u) (updateWhere ?P g ts) = updateWhere ?P g (filter (\<lambda>x. mt_userId x = u) ts)"
    if "\<And>x. mt_userId (g x) = mt_userId x" for g ts
    using that by (induction ts) auto
  with ts row(2) w' show ?thesis by (simp add: totpOf_def isMfaEnabled_def swap)
qed

lemma activate_enables:
  assumes "auth_frame A" "wf_db (w_db w)" "activate A L actor h i code w = (Inr out, w')"
  shows "isMfaEnabled (map_option mt_verifiedAt (totpOf (w_db w') (ac_id actor))) \<and>
    d_mfaRecoveryCode (w_db w') = d_mfaRecoveryCode (w_db w)"
proof -
  from assms(3) obtain t w2 w3 w4 e where d2: "w_db w2 = w_db w"
    and act: "activateMfaTotp (ac_id actor) i t w2 = (Inr True, w3)"
    and audit: "appendAuditBestEffort e w3 = (Inr (), w4)" and "notifyMfaEnabled (ac_email actor) w4 = (Inr (), w')"
    unfolding activate_def Let_def
    by (auto simp: andThen_runs succeed_runs failWith_runs findMfaTotp_def select_runs currentTimeMillis_runs
        split: option.splits if_splits dest!: keepsD[OF keeps_mfaCrypto(1)] keepsD[OF keeps_mfaCrypto(4)] keepsD[OF keeps_revokeOthers[OF assms(1)]])
  then have "w_db w' = w_db w4" using keepsD[OF keeps_mfa(3)] by blast
  moreover have "preserves (\<lambda>d. d_mfaRecoveryCode d = d_mfaRecoveryCode (w_db w3) \<and> d_mfaTotp d = d_mfaTotp (w_db w3))
      (appendAuditBestEffort e)"
    by (intro preserves_audit sqlKeeps_codes)
  from preservesD[OF this audit] have "d_mfaRecoveryCode (w_db w4) = d_mfaRecoveryCode (w_db w3)" "d_mfaTotp (w_db w4) = d_mfaTotp (w_db w3)"
    by auto
  ultimately show ?thesis using activateMfaTotp_enables[OF act] assms(2) d2 by (simp add: totpOf_def)
qed

section \<open>Checking\<close>

text \<open>A recovery code is checked and then consumed: as a second factor (\<open>completeLoginChallenge\<close>) and to disable.\<close>

definition presentRecoveryCode :: "mfa_deps \<Rightarrow> id \<Rightarrow> string \<Rightarrow> (unit, 'x) eff" where
  "presentRecoveryCode L u code = andThen (matchOwnedCode L u code KindRecoveryCode) (consumeMatchedCode u)"

lemma firstMatching_finds:
  assumes "\<forall>v\<in>set vs. plainText L ring (codeCipher v) u \<noteq> None" "\<exists>v\<in>set vs. plainText L ring (codeCipher v) u = Some c"
  shows "\<exists>v\<in>set vs. firstMatching L ring u c vs w = (Inr (MatchedRecoveryCode (ur_id v)), w)"
  using assms
proof (induction vs)
  case (Cons v vs)
  from Cons.prems(1) obtain p where p: "plainText L ring (codeCipher v) u = Some p" by auto
  then have dec: "decryptText L ring (codeCipher v) u w = (Inr p, w)" by (simp add: decryptText_runs)
  show ?case
  proof (cases "p = c")
    case True with dec show ?thesis by (auto simp: andThen_def succeed_def)
  next
    case False with dec p Cons show ?thesis by (auto simp: andThen_def)
  qed
qed simp

lemma tryDb_select: "tryDb (select q) w =
    (if w_dbFaults w (w_dbCalls w) = NoFault then Inr (q (w_db w)) else Inl (Fail DbError), w\<lparr>w_dbCalls := Suc (w_dbCalls w)\<rparr>)"
  by (cases "w_dbFaults w (w_dbCalls w)") (simp_all add: tryDb_def select_def Let_def)

lemma matchOwnedCode_accepts:
  assumes "parseMfaKeyRing (md_encryptionKeys L) = Some ring" "opensWith L ring (w_db w) u codes" "c \<in> set codes"
    and "isMfaEnabled (map_option mt_verifiedAt (totpOf (w_db w) u))"
  shows "\<exists>r\<in>set (unusedCodesOf (w_db w) u). \<exists>w'. w_db w' = w_db w \<and> w_dbFaults w' = w_dbFaults w \<and>
    matchOwnedCode L u c KindRecoveryCode w =
      (if w_dbFaults w (w_dbCalls w) = NoFault \<and> w_dbFaults w (Suc (w_dbCalls w)) = NoFault
       then Inr (MatchedRecoveryCode (rc_id r)) else Inl (Fail DbError), w')"
proof -
  from assms(4) obtain row where row: "totpOf (w_db w) u = Some row" "isMfaEnabled (Some (mt_verifiedAt row))"
    by (auto simp: isMfaEnabled_def split: option.splits)
  let ?stored = "map unusedOf (sort_key rc_id (unusedCodesOf (w_db w) u))"
  let ?w2 = "w\<lparr>w_dbCalls := Suc (Suc (w_dbCalls w))\<rparr>"
  from assms(2,3) have "\<forall>v\<in>set ?stored. plainText L ring (codeCipher v) u \<noteq> None"
    "\<exists>v\<in>set ?stored. plainText L ring (codeCipher v) u = Some c" by (auto simp: opensWith_def)
  from firstMatching_finds[OF this, of ?w2] obtain r where r: "r \<in> set (unusedCodesOf (w_db w) u)"
    "firstMatching L ring u c ?stored ?w2 = (Inr (MatchedRecoveryCode (rc_id r)), ?w2)" by (auto simp: unusedOf_def)
  show ?thesis
    using r row assms(1)
    by (intro bexI[of _ r])
      (simp_all add: matchOwnedCode_def andThen_def mfaKeyring_def succeed_def findMfaTotp_def listUnusedRecoveryCodes_def
        unusedOf_def[abs_def, symmetric] tryDb_select)
qed

lemma presentRecoveryCode_accepts:
  assumes "wf_db (w_db w)" "parseMfaKeyRing (md_encryptionKeys L) = Some ring" "opensWith L ring (w_db w) u codes" "c \<in> set codes"
    and "isMfaEnabled (map_option mt_verifiedAt (totpOf (w_db w) u))"
  shows "fst (presentRecoveryCode L u c w) \<in> {Inr (), Inl (Fail DbError)} \<and>
    ((\<forall>n. w_dbFaults w n = NoFault) \<longrightarrow> fst (presentRecoveryCode L u c w) = Inr ())"
proof -
  from matchOwnedCode_accepts[OF assms(2-5)] obtain r w' where r: "r \<in> set (unusedCodesOf (w_db w) u)"
    and w': "w_db w' = w_db w" "w_dbFaults w' = w_dbFaults w" and m: "matchOwnedCode L u c KindRecoveryCode w =
      (if w_dbFaults w (w_dbCalls w) = NoFault \<and> w_dbFaults w (Suc (w_dbCalls w)) = NoFault
       then Inr (MatchedRecoveryCode (rc_id r)) else Inl (Fail DbError), w')" by blast
  have "distinct (map rc_id (d_mfaRecoveryCode (w_db w)))" using assms(1) by (simp add: wf_db_def wf_keys_def)
  then have "filter (\<lambda>x. rc_id x = rc_id r) (d_mfaRecoveryCode (w_db w)) = [r]"
    using r filter_key_single by (force simp: unusedCodesOf_def)
  then have "filter (\<lambda>x. rc_userId x = u \<and> rc_usedAt x = None) (filter (\<lambda>x. rc_id x = rc_id r) (d_mfaRecoveryCode (w_db w))) = [r]"
    using r by (simp add: unusedCodesOf_def)
  then have one: "filter (\<lambda>x. rc_id x = rc_id r \<and> rc_userId x = u \<and> rc_usedAt x = None) (d_mfaRecoveryCode (w_db w')) = [r]"
    by (simp add: w' conj_commute conj_left_commute)
  then show ?thesis
    using m w'(2)
    by (cases "w_dbFaults w (w_dbCalls w')")
      (auto simp: presentRecoveryCode_def consumeMatchedCode_def andThen_def succeed_def
        tryDb_def consumeRecoveryCode_def consumeRecoveryCodeSql_def Let_def)
qed

section \<open>The codes open the account\<close>

text \<open>
  C13: Recovery codes work: in every reachable database, the codes an enrollment was answered with - a new one or one that
  was pending - are accepted, each of them, once that enrollment was activated: checking and consuming one succeeds, unless
  a call of the database is lost.
\<close>

theorem recovery_codes_open_the_account:
  assumes "reachable K w" "service_frame K" "aes_inverts (sv_mfa K)" "byteStream w"
    and "enroll (sv_auth K) (sv_mfa K) actor w = (Inr e, w1)" "w_db w2 = w_db w1"
    and "activate (sv_auth K) (sv_mfa K) actor h (en_enrollmentId e) code w2 = (Inr out, w3)" "w_db w4 = w_db w3"
    and "c \<in> set (en_recoveryCodes e)"
  shows "fst (presentRecoveryCode (sv_mfa K) (ac_id actor) c w4) \<in> {Inr (), Inl (Fail DbError)} \<and>
    ((\<forall>n. w_dbFaults w4 n = NoFault) \<longrightarrow> fst (presentRecoveryCode (sv_mfa K) (ac_id actor) c w4) = Inr ())"
proof -
  let ?u = "ac_id actor" and ?L = "sv_mfa K"
  have A: "auth_frame (sv_auth K)" using assms(2) by (simp add: service_frame_def)
  have "reachable K w1" using reachable.step[OF assms(1) service_step.operation[of K "EnrollMfa actor"]] assms(5)
    by (auto simp: mapEff_def andThen_def succeed_def)
  then have "reachable K w2" by (rule reachable.step) (rule service_step.elsewhere, rule assms(6))
  moreover from this have "reachable K w3"
    using reachable.step[OF _ service_step.operation[of K "ActivateMfa actor h (en_enrollmentId e) code" w2]] assms(7)
    by (auto simp: mapEff_def andThen_def succeed_def)
  ultimately have wf: "wf_db (w_db w2)" "wf_db (w_db w4)" using schema.always[OF _ assms(2)] assms(8) by auto
  have "codesEnrolled (w_db w)" using assms(1,2) by (rule enrolled.always)
  then have "totpOf (w_db w) ?u = None \<Longrightarrow> unusedCodesOf (w_db w) ?u = []"
    by (simp add: codesEnrolled_def totpOf_None_iff unusedCodesOf_def filter_empty_conv image_subset_iff) (metis image_eqI)
  from enroll_answers_stored[OF A assms(3,4,5) this] obtain ring where ring: "parseMfaKeyRing (md_encryptionKeys ?L) = Some ring"
    "opensWith ?L ring (w_db w1) ?u (en_recoveryCodes e)" by blast
  from activate_enables[OF A wf(1) assms(7)] have on: "isMfaEnabled (map_option mt_verifiedAt (totpOf (w_db w4) ?u))"
    "d_mfaRecoveryCode (w_db w4) = d_mfaRecoveryCode (w_db w1)" using assms(6,8) by auto
  then have "opensWith ?L ring (w_db w4) ?u (en_recoveryCodes e)" using ring(2) by (simp add: opensWith_def unusedCodesOf_def)
  from presentRecoveryCode_accepts[OF wf(2) ring(1) this assms(9) on(1)] show ?thesis .
qed

section \<open>An enrollment that goes through\<close>

text \<open>Drawing randomness changes nothing else of the world.\<close>

definition onlyDraws :: "'x world \<Rightarrow> 'x world \<Rightarrow> bool" where
  "onlyDraws w w' \<longleftrightarrow> (\<exists>n. w' = w\<lparr>w_drawn := n\<rparr>)"

lemma onlyDraws_trans: "onlyDraws w w1 \<Longrightarrow> onlyDraws w1 w2 \<Longrightarrow> onlyDraws w w2"
  by (auto simp: onlyDraws_def)

lemma onlyDraws_drawn [simp]: "onlyDraws w (w\<lparr>w_drawn := n\<rparr>)" "onlyDraws (w\<lparr>w_drawn := n\<rparr>) w' \<longleftrightarrow> onlyDraws w w'" "onlyDraws w w"
  by (auto simp: onlyDraws_def intro: exI[of _ "w_drawn w"])

lemma onlyDraws_randomChars: "randomCharsFrom len out w = Some r \<Longrightarrow> onlyDraws w (snd r)"
proof (rule randomCharsFrom.raw_induct[where P = "\<lambda>len out w r. onlyDraws w (snd r)"])
  fix f len out r and w :: "'x world"
  assume IH: "\<And>len out (w :: 'x world) r. f len out w = Some r \<Longrightarrow> onlyDraws w (snd r)"
    and step: "(if length out < len
      then f len (takeBytes len out (w_bytes w (w_drawn w) (len * 2))) (w\<lparr>w_drawn := Suc (w_drawn w)\<rparr>)
      else Some (out, w)) = Some r"
  from IH[of len _ "w\<lparr>w_drawn := Suc (w_drawn w)\<rparr>" r] step show "onlyDraws w (snd r)" by (auto split: if_splits)
qed

lemma onlyDraws_recoveryCodes: "recoveryCodes n w = Some (cs, w') \<Longrightarrow> onlyDraws w w'"
proof (induction n arbitrary: w cs)
  case (Suc n)
  then show ?case
    by (fastforce simp: randomChars_def split: option.splits intro: onlyDraws_trans dest: onlyDraws_randomChars)
qed simp

lemma encrypts:
  assumes "map_of (kr_keys ring) (kr_currentVersion ring) = Some k"
  shows "\<exists>v w'. encryptValue L ring p u w = (Inr v, w') \<and> onlyDraws w w' \<and> ev_keyVersion v = kr_currentVersion ring"
  using assms by (simp add: encryptValue_def getRandomValues_def importAesKey_def andThen_def succeed_def)

lemma encrypts_all:
  assumes "map_of (kr_keys ring) (kr_currentVersion ring) = Some k"
  shows "\<exists>vs w'. collectEff (\<lambda>c. encryptValue L ring (encodeUtf8 c) u) cs w = (Inr vs, w') \<and> onlyDraws w w' \<and>
    length vs = length cs"
proof (induction cs arbitrary: w)
  case (Cons c cs)
  from encrypts[OF assms] obtain v w1 where v: "encryptValue L ring (encodeUtf8 c) u w = (Inr v, w1)" "onlyDraws w w1" by blast
  from Cons.IH[of w1] obtain vs w' where "collectEff (\<lambda>c. encryptValue L ring (encodeUtf8 c) u) cs w1 = (Inr vs, w')"
    "onlyDraws w1 w'" "length vs = length cs" by blast
  with v show ?case by (auto simp: collectEff_runs simp del: collectEff.simps intro: onlyDraws_trans)
qed (simp add: succeed_def)

lemma rows_made:
  "\<exists>rows w'. collectEff (newRecoveryCodeRow u) (enumerate n vs) w = (Inr rows, w') \<and> onlyDraws w w' \<and>
    set (map nr_userId rows) \<subseteq> {u} \<and> length rows = length vs \<and>
    (\<forall>i<length vs. \<exists>s. nr_id (rows ! i) = padStart 2 (CHR ''0'') (showNat (n + i)) @ ''-'' @ s)"
proof (induction vs arbitrary: n w)
  case (Cons v vs)
  obtain row w1 where row: "newRecoveryCodeRow u (n, v) w = (Inr row, w1)" "onlyDraws w w1" "nr_userId row = u"
    "nr_id row = padStart 2 (CHR ''0'') (showNat n) @ ''-'' @ w_uuid w (w_drawn w)"
    by (simp add: newRecoveryCodeRow_def generateRecoveryCodeId_def randomUUID_def mapEff_def andThen_def succeed_def)
  from Cons.IH[of "Suc n" w1] obtain rows w' where rest: "collectEff (newRecoveryCodeRow u) (enumerate (Suc n) vs) w1 = (Inr rows, w')"
    "onlyDraws w1 w'" "set (map nr_userId rows) \<subseteq> {u}" "length rows = length vs"
    "\<forall>i<length vs. \<exists>s. nr_id (rows ! i) = padStart 2 (CHR ''0'') (showNat (Suc n + i)) @ ''-'' @ s" by blast
  have "collectEff (newRecoveryCodeRow u) (enumerate n (v # vs)) w = (Inr (row # rows), w')"
    using row(1) rest(1) by (auto simp: collectEff_runs simp del: collectEff.simps)
  moreover have "\<exists>s. nr_id ((row # rows) ! i) = padStart 2 (CHR ''0'') (showNat (n + i)) @ ''-'' @ s" if "i < Suc (length vs)" for i
    using that rest(5) row(4) by (cases i) auto
  ultimately show ?case using row rest by (intro exI[of _ "row # rows"] exI[of _ w']) (auto intro: onlyDraws_trans)
qed (simp add: succeed_def)

text \<open>The index in front keeps the ids of ten codes apart, whatever is drawn.\<close>

lemma indexed_distinct: "distinct (map (\<lambda>i. padStart 2 (CHR ''0'') (showNat i)) [0..<10])"
    "\<forall>i<10. length (padStart 2 (CHR ''0'') (showNat i)) = 2"
  by code_simp+

lemma ids_distinct:
  assumes "length rows = 10" "\<forall>i<10. \<exists>s. nr_id (rows ! i) = padStart 2 (CHR ''0'') (showNat i) @ ''-'' @ s"
  shows "distinct (map nr_id rows)"
proof (rule distinct_conv_nth[THEN iffD2], intro allI impI notI)
  fix i j assume ij: "i < length (map nr_id rows)" "j < length (map nr_id rows)" "i \<noteq> j"
    and same: "map nr_id rows ! i = map nr_id rows ! j"
  have take2: "take 2 (nr_id (rows ! k)) = padStart 2 (CHR ''0'') (showNat k)" if "k < 10" for k
  proof -
    from assms(2) that obtain s where "nr_id (rows ! k) = padStart 2 (CHR ''0'') (showNat k) @ ''-'' @ s" by blast
    then show ?thesis using indexed_distinct(2) that by simp
  qed
  from ij same assms(1) take2 have "padStart 2 (CHR ''0'') (showNat i) = padStart 2 (CHR ''0'') (showNat j)" by (metis length_map nth_map)
  with indexed_distinct(1) ij assms(1) show False by (auto simp: distinct_conv_nth)
qed

lemma enroll_succeeds:
  assumes "fairBytes w" "\<forall>n. w_dbFaults w n = NoFault" "parseMfaKeyRing (md_encryptionKeys L) = Some ring"
    and "map_of (kr_keys ring) (kr_currentVersion ring) = Some k"
    and "ac_id actor \<in> userIds (w_db w)" "totpOf (w_db w) (ac_id actor) = None" "d_mfaRecoveryCode (w_db w) = []"
  shows "\<exists>e w' row. enroll A L actor w = (Inr e, w') \<and> length (en_recoveryCodes e) = 10 \<and> w_dbFaults w' = w_dbFaults w \<and>
    totpOf (w_db w') (ac_id actor) = Some row \<and> mt_enrollmentId row = en_enrollmentId e \<and> mt_verifiedAt row = None \<and>
    mt_keyVersion row = kr_currentVersion ring"
proof -
  let ?u = "ac_id actor"
  let ?w1 = "w\<lparr>w_dbCalls := Suc (w_dbCalls w)\<rparr>"
  let ?secret = "encodeUtf8 (md_randomString L (w_drawn w) SECRET_LENGTH)"
  let ?w2 = "?w1\<lparr>w_drawn := Suc (w_drawn w)\<rparr>"
  have "fairBytes ?w2" using assms(1) by (simp add: fairBytes_def)
  from recoveryCodes_returns[OF this, of 10] obtain codes w3 where codes: "recoveryCodes 10 ?w2 = Some (codes, w3)" by fastforce
  then have w3: "onlyDraws ?w2 w3" "length codes = 10" using onlyDraws_recoveryCodes recoveryCodes_sound by blast+
  let ?i = "w_uuid w3 (w_drawn w3)" and ?w4 = "w3\<lparr>w_drawn := Suc (w_drawn w3)\<rparr>"
  from encrypts[OF assms(4), of L ?secret ?u ?w4] obtain es w5 where es: "encryptValue L ring ?secret ?u ?w4 = (Inr es, w5)"
    "onlyDraws ?w4 w5" "ev_keyVersion es = kr_currentVersion ring" by blast
  from encrypts_all[OF assms(4), of L ?u codes w5] obtain vs w6
    where vs: "collectEff (\<lambda>c. encryptValue L ring (encodeUtf8 c) ?u) codes w5 = (Inr vs, w6)" "onlyDraws w5 w6" "length vs = 10"
    using w3(2) by auto
  have "onlyDraws ?w1 w6" using w3(1) es(2) vs(2) by (auto intro: onlyDraws_trans)
  then obtain n where w6: "w6 = ?w1\<lparr>w_drawn := n\<rparr>" by (auto simp: onlyDraws_def)
  let ?row = "\<lparr>mt_userId = ?u, mt_enrollmentId = ?i, mt_secretCiphertext = ev_ciphertext es, mt_secretIv = ev_iv es,
    mt_keyVersion = ev_keyVersion es, mt_verifiedAt = None, mt_lastUsedTimestep = 0, mt_createdAt = w_clock w\<rparr>"
  let ?w7 = "w6\<lparr>w_hooks := [], w_locks := [], w_dbCalls := Suc (Suc (w_dbCalls w6)), w_db := (w_db w6)\<lparr>d_mfaTotp := d_mfaTotp (w_db w6) @ [?row]\<rparr>\<rparr>"
  from rows_made[of ?u 0 vs ?w7] vs(3) obtain rows w8 where rows: "collectEff (newRecoveryCodeRow ?u) (enumerate 0 vs) ?w7 = (Inr rows, w8)"
    "onlyDraws ?w7 w8" "set (map nr_userId rows) \<subseteq> {?u}" "length rows = 10"
    "\<forall>i<10. \<exists>s. nr_id (rows ! i) = padStart 2 (CHR ''0'') (showNat i) @ ''-'' @ s" by auto
  from rows(2) obtain m where w8: "w8 = ?w7\<lparr>w_drawn := m\<rparr>" by (auto simp: onlyDraws_def)
  have ids: "distinct (map nr_id rows)" using ids_distinct[OF rows(4,5)] .
  have new: "?u \<notin> mt_userId ` set (d_mfaTotp (w_db w))" using assms(6) by (simp add: totpOf_None_iff)
  have users: "nr_userId ` set rows \<subseteq> userIds (w_db w)" using rows(3) assms(5) by auto
  have found: "totpOf ((w_db w)\<lparr>d_mfaTotp := d_mfaTotp (w_db w) @ [?row], d_mfaRecoveryCode := cs\<rparr>) ?u = Some ?row" for cs
  proof -
    have "filter (\<lambda>t. mt_userId t = ?u) (d_mfaTotp (w_db w)) = []" using new by (force simp: filter_empty_conv)
    then show ?thesis by (simp add: totpOf_def)
  qed
  have ne: "rows \<noteq> []" using rows(4) by auto
  have insertion: "\<exists>w9. transaction A (insertEnrollment ?u ?i es vs) w6 = (Inr True, w9) \<and> w_dbFaults w9 = w_dbFaults w \<and>
      w_db w9 = (w_db w)\<lparr>d_mfaTotp := d_mfaTotp (w_db w) @ [?row], d_mfaRecoveryCode := map recoveryCodeRow rows\<rparr>"
    using assms(2,5,7) new rows(1) ids users ne
    by (simp add: transaction_def runTx_def insertEnrollment_def insertMfaTotpEnrollment_def insertMfaTotpEnrollmentSql_def
        andThen_def succeed_def tryDb_def Let_def w6 w8 insertRecoveryCodes_def insertRecoveryCodesSql_def
        userIds_def forEachDiscard.simps)
  then obtain w9 where w9: "transaction A (insertEnrollment ?u ?i es vs) w6 = (Inr True, w9)" "w_dbFaults w9 = w_dbFaults w"
      "w_db w9 = (w_db w)\<lparr>d_mfaTotp := d_mfaTotp (w_db w) @ [?row], d_mfaRecoveryCode := map recoveryCodeRow rows\<rparr>" by blast
  have "enroll A L actor w = (Inr \<lparr>en_enrollmentId = ?i, en_totpUri = md_totpUri L (md_appName L) (ac_email actor) ?secret,
      en_recoveryCodes = codes\<rparr>, w9)"
    using assms(2,3,6) codes es(1) vs(1) w9(1)
    by (simp add: enroll_def findMfaTotp_def tryDb_select andThen_def succeed_def mfaKeyring_def generateTotpSecret_def
        generateRecoveryCodes_def generateEnrollmentId_def randomUUID_def)
  with w3(2) w9 found es(3) show ?thesis by (intro exI[of _ w9] exI[of _ ?row] exI conjI) auto
qed

lemma audit_returns: "\<exists>w'. appendAuditBestEffort e w = (Inr (), w')"
  by (cases "w_dbFaults w (w_dbCalls w)")
    (auto simp: appendAuditBestEffort_def appendAuditLog_def appendAuditLogs_def catchIf_def captureCause_def andThen_def
      mapEff_def randomUUID_def succeed_def tryDb_def Let_def forEachDiscard.simps split: option.splits sum.splits)

lemma activate_succeeds:
  fixes w :: "'x world"
  assumes "wf_db (w_db w)" "\<forall>n. w_dbFaults w n = NoFault" "parseMfaKeyRing (md_encryptionKeys L) = Some ring"
    and "totpOf (w_db w) (ac_id actor) = Some row" "mt_enrollmentId row = i" "mt_verifiedAt row = None"
    and "\<And>w :: 'x world. decryptValue L ring (secretCipher row) (ac_id actor) w = (Inr secret, w)"
    and "matchTotpCode L secret code (w_clock w) = Some t"
    and "\<And>w. revokeOtherSessionsOrUnauthorized A h w = (Inr out, w)"
  shows "\<exists>w'. activate A L actor h i code w = (Inr out, w')"
proof -
  let ?u = "ac_id actor" and ?d = "d_mfaTotp (w_db w)"
  have one: "filter (\<lambda>t. mt_userId t = ?u \<and> mt_enrollmentId t = i \<and> mt_verifiedAt t = None) ?d = [row]"
    using wf_db_totp_filter[OF assms(1,4)] assms(5,6) by simp
  define w1 where "w1 = w\<lparr>w_dbCalls := Suc (Suc (w_dbCalls w)), w_db := (w_db w)\<lparr>d_mfaTotp := updateWhere
    (\<lambda>t. mt_userId t = ?u \<and> mt_enrollmentId t = i \<and> mt_verifiedAt t = None)
    (\<lambda>r. r\<lparr>mt_verifiedAt := Some (w_clock w), mt_lastUsedTimestep := t\<rparr>) ?d\<rparr>\<rparr>"
  let ?c = "getClientContext (Some h)"
  from audit_returns obtain w2 where "appendAuditBestEffort \<lparr>ae_userId = ?u, ae_event = Mfa_enabled (Some (cc_ip ?c)) (cc_userAgent ?c)\<rparr> w1
    = (Inr (), w2)" by blast
  then show ?thesis
    using assms(2-6,8) one
    by (simp add: activate_def findMfaTotp_def select_def andThen_def succeed_def mfaKeyring_def isMfaEnabled_def assms(7,9)
        currentTimeMillis_def activateMfaTotp_def updateTotpWhere_def tryDb_def Let_def notifyMfaEnabled_def runBackground_def w1_def)
qed

text \<open>The founded company's world with bytes a code can be drawn from.\<close>

definition fairWorld :: "unit world" where
  "fairWorld = laterWorld\<lparr>w_bytes := (\<lambda>k n. replicate n (k mod 31))\<rparr>"

definition annActor :: actor where "annActor = demoActor ''ann'' ''ann@x.jp''"

definition enrolling :: "enrollment exit \<times> unit world" where
  "enrolling = enroll demoAuth demoDeps annActor fairWorld"

definition activating :: "enrollment \<Rightarrow> headers exit \<times> unit world" where
  "activating e = activate demoAuth demoDeps annActor [] (en_enrollmentId e) ''123456'' (snd enrolling)"

lemma demoRing: "case parseMfaKeyRing (md_encryptionKeys demoDeps) of
    Some ring \<Rightarrow> map_of (kr_keys ring) (kr_currentVersion ring) = Some (replicate 32 0) | None \<Rightarrow> False"
  by code_simp

lemma laterWorld_mfa: "d_mfaTotp (w_db laterWorld) = []" "d_mfaRecoveryCode (w_db laterWorld) = []"
  by code_simp+

lemma fairWorld_simps: "w_db fairWorld = w_db laterWorld" "w_dbFaults fairWorld k = NoFault"
  by (simp_all add: fairWorld_def laterWorld_simps)

lemma reachable_fairWorld: "reachable demoService fairWorld"
  using reachable_laterWorld by (rule reachable.step) (rule service_step.elsewhere, simp add: fairWorld_def)

lemma fairBytes_fairWorld: "fairBytes fairWorld"
proof -
  have "\<exists>b\<in>set (replicate n (k mod 31)). b < 248" if "n > 0" for k n :: nat
    using that mod_less_divisor[of 31 k] by (intro bexI[of _ "k mod 31"]) (simp_all add: less_trans[of _ 31])
  then show ?thesis by (simp add: fairBytes_def fairWorld_def)
qed

lemma enrolls_and_activates:
  "\<exists>e out. enrolling = (Inr e, snd enrolling) \<and> length (en_recoveryCodes e) = 10 \<and> activating e = (Inr out, snd (activating e))"
proof -
  from demoRing obtain ring where ring: "parseMfaKeyRing (md_encryptionKeys demoDeps) = Some ring"
    "map_of (kr_keys ring) (kr_currentVersion ring) = Some (replicate 32 0)" by (auto split: option.splits)
  have user: "ac_id annActor \<in> userIds (w_db fairWorld)"
    using foundedDb by (metis fairWorld_simps(1) annActor_def demoActor_def actor.select_convs(1) list.set_intros(1) list.set_map userIds_def)
  obtain e w' row where e: "enroll demoAuth demoDeps annActor fairWorld = (Inr e, w')" "length (en_recoveryCodes e) = 10"
    "w_dbFaults w' = w_dbFaults fairWorld" "totpOf (w_db w') (ac_id annActor) = Some row" "mt_enrollmentId row = en_enrollmentId e"
    "mt_verifiedAt row = None" "mt_keyVersion row = kr_currentVersion ring"
    using enroll_succeeds[OF fairBytes_fairWorld _ ring user, of demoAuth] by (auto simp: fairWorld_simps laterWorld_mfa totpOf_def)
  have "reachable demoService w'"
    using reachable.step[OF reachable_fairWorld service_step.operation[of demoService "EnrollMfa annActor"]] e(1)
    by (auto simp: mapEff_def andThen_def succeed_def demoService_def)
  then have wf: "wf_db (w_db w')" by (rule schema.always) simp
  have dec: "\<exists>p. \<forall>w. decryptValue demoDeps ring (secretCipher row) (ac_id annActor) (w :: unit world) = (Inr p, w)"
    using ring(2) e(7) by (simp add: decryptValue_def importAesKey_def andThen_def succeed_def demoDeps_def secretCipher_def)
  then obtain p where "\<And>w :: unit world. decryptValue demoDeps ring (secretCipher row) (ac_id annActor) w = (Inr p, w)" by blast
  moreover have "matchTotpCode demoDeps p ''123456'' (w_clock w') \<noteq> None"
    by (simp add: matchTotpCode_def demoDeps_def TOTP_DIGITS_def isDigit_def)
  then obtain t where "matchTotpCode demoDeps p ''123456'' (w_clock w') = Some t" by blast
  moreover have "revokeOtherSessionsOrUnauthorized demoAuth [] w = (Inr [(''set-cookie'', ''rotated'')], w)" for w
    by (simp add: revokeOtherSessionsOrUnauthorized_def revokeOtherSessions_def demoAuth_def catchIf_def andThen_def succeed_def tryAuthApi_def mapEff_def)
  ultimately obtain w2 where "activate demoAuth demoDeps annActor [] (en_enrollmentId e) ''123456'' w' = (Inr [(''set-cookie'', ''rotated'')], w2)"
    using activate_succeeds[OF wf _ ring(1) e(4,5,6)] e(3) by (metis fairWorld_simps(2))
  with e show ?thesis by (auto simp: enrolling_def activating_def)
qed

theorem recovery_codes_open_the_account_witness:
  "\<exists>e c. fst enrolling = Inr e \<and> c \<in> set (en_recoveryCodes e) \<and>
    fst (presentRecoveryCode demoDeps ''ann'' c ((snd (activating e))\<lparr>w_dbFaults := \<lambda>_. NoFault\<rparr>)) = Inr ()"
proof -
  from enrolls_and_activates obtain e out where e: "enrolling = (Inr e, snd enrolling)" "length (en_recoveryCodes e) = 10"
    and out: "activating e = (Inr out, snd (activating e))" by blast
  have "k mod 31 < 256" for k :: nat using mod_less_divisor[of 31 k] by simp
  then have bytes: "byteStream fairWorld" by (simp add: byteStream_def fairWorld_def)
  have code: "hd (en_recoveryCodes e) \<in> set (en_recoveryCodes e)" using e(2) by (cases "en_recoveryCodes e") auto
  have "fst (presentRecoveryCode (sv_mfa demoService) (ac_id annActor) (hd (en_recoveryCodes e))
      ((snd (activating e))\<lparr>w_dbFaults := \<lambda>_. NoFault\<rparr>)) = Inr ()"
    using recovery_codes_open_the_account[OF reachable_fairWorld demoService_frame _ bytes _ refl _ _ code, of annActor "snd enrolling"
        "[]" "''123456''" out "snd (activating e)" "(snd (activating e))\<lparr>w_dbFaults := \<lambda>_. NoFault\<rparr>"] e(1) out
    by (simp add: demoService_def enrolling_def activating_def)
  with e(1) code show ?thesis
    by (metis fst_conv service.select_convs(2) demoService_def annActor_def demoActor_def actor.select_convs(1))
qed

end
