(* ===== verification/Cookies.thy ===== *)
theory Cookies
  imports RequestContext
begin

text \<open>
  \<open>packages/auth-client/src/cookie.ts\<close>, \<open>src/session-cookie.ts\<close>, \<open>src/service-key.ts\<close>,
  \<open>src/cookie-domain.ts\<close> and \<open>src/auth-secret.ts\<close>: the session cookie as a text, the keys by which consumers
  authenticate, and the settings read at the start. The digest of a key is a parameter.
\<close>

section \<open>The session cookie\<close>

definition SESSION_COOKIE_NAME :: string where
  "SESSION_COOKIE_NAME = ''__Secure-better-auth.session_token''"

text \<open>\<open>value || undefined\<close>.\<close>

definition nonEmpty :: "string option \<Rightarrow> string option" where
  "nonEmpty v = (case v of None \<Rightarrow> None | Some s \<Rightarrow> if s = [] then None else Some s)"

definition getSessionToken :: "(string \<Rightarrow> string option) \<Rightarrow> string option" where
  "getSessionToken readCookie = nonEmpty (readCookie SESSION_COOKIE_NAME)"

definition hasAuthCookie :: "(string \<Rightarrow> string option) \<Rightarrow> bool" where
  "hasAuthCookie readCookie \<longleftrightarrow> getSessionToken readCookie \<noteq> None"

definition buildSessionCookieHeader :: "string \<Rightarrow> string" where
  "buildSessionCookieHeader token = SESSION_COOKIE_NAME @ ''='' @ token"

text \<open>The loop over the pairs: the first pair of that name decides, also when its value is empty.\<close>

fun tokenOfPairs :: "string list \<Rightarrow> string option" where
  "tokenOfPairs [] = None"
| "tokenOfPairs (pair # pairs) =
    (case dropWhile (\<lambda>c. c \<noteq> CHR ''='') pair of
       [] \<Rightarrow> tokenOfPairs pairs
     | _ # value \<Rightarrow>
         (if trim (takeWhile (\<lambda>c. c \<noteq> CHR ''='') pair) = SESSION_COOKIE_NAME
          then nonEmpty (Some (trim value)) else tokenOfPairs pairs))"

definition extractSessionTokenFromCookieHeader :: "string \<Rightarrow> string option" where
  "extractSessionTokenFromCookieHeader cookieHeader = tokenOfPairs (splitOn (CHR '';'') cookieHeader)"

definition sessionCookieOf :: "headers \<Rightarrow> string option" where
  "sessionCookieOf h = extractSessionTokenFromCookieHeader
     (case headersGet h ''cookie'' of None \<Rightarrow> [] | Some c \<Rightarrow> c)"

section \<open>Service keys\<close>

definition getValidServiceKeys :: "string option \<Rightarrow> string option \<Rightarrow> string list" where
  "getValidServiceKeys active previous = List.map_filter nonEmpty [active, previous]"

definition matchesInConstantTime :: "(string \<Rightarrow> nat list) \<Rightarrow> string \<Rightarrow> string list \<Rightarrow> bool" where
  "matchesInConstantTime sha256 presented accepted =
     (let presentedDigest = sha256 presented
      in list_ex (\<lambda>key. sha256 key = presentedDigest) accepted)"

definition verifyServiceKey ::
    "(string \<Rightarrow> nat list) \<Rightarrow> string option \<Rightarrow> string option \<Rightarrow> string option \<Rightarrow> (unit, 'x) eff" where
  "verifyServiceKey sha256 active previous presented =
     (let accepted = getValidServiceKeys active previous
      in if accepted = [] then failWith ServiceKeyMisconfigured
         else case nonEmpty presented of
                None \<Rightarrow> failWith ServiceKeyRejected
              | Some p \<Rightarrow> (if matchesInConstantTime sha256 p accepted then succeed ()
                           else failWith ServiceKeyRejected))"

section \<open>Settings\<close>

record crossSubDomainCookies =
  cd_enabled :: bool
  cd_domain :: string

definition resolveCrossSubDomainCookies :: "string option \<Rightarrow> crossSubDomainCookies" where
  "resolveCrossSubDomainCookies authCookieDomain =
     \<lparr>cd_enabled = (case nonEmpty authCookieDomain of None \<Rightarrow> False | Some d \<Rightarrow> d \<noteq> ''localhost''),
      cd_domain = (case nonEmpty authCookieDomain of None \<Rightarrow> ''taimei-code.com'' | Some d \<Rightarrow> d)\<rparr>"

definition AUTH_SECRET_MIN_LENGTH :: nat where
  "AUTH_SECRET_MIN_LENGTH = 32"

datatype secret_error = SecretNotSet | SecretTooShort nat

definition requireAuthSecret :: "string option \<Rightarrow> secret_error + string" where
  "requireAuthSecret value =
     (case nonEmpty value of
        None \<Rightarrow> Inl SecretNotSet
      | Some v \<Rightarrow> (if length v < AUTH_SECRET_MIN_LENGTH then Inl (SecretTooShort (length v)) else Inr v))"

section \<open>What they promise\<close>

lemma nonEmpty_Some_iff [simp]: "nonEmpty v = Some s \<longleftrightarrow> v = Some s \<and> s \<noteq> []"
  by (auto simp: nonEmpty_def split: option.splits)

lemma nonEmpty_simps [simp]: "nonEmpty None = None" "nonEmpty (Some []) = None" "s \<noteq> [] \<Longrightarrow> nonEmpty (Some s) = Some s"
  by (simp_all add: nonEmpty_def)

definition trimmed :: "string \<Rightarrow> bool" where
  "trimmed s \<longleftrightarrow> trim s = s"

lemma trimmedI: "s = [] \<or> (\<not> isSpace (hd s) \<and> \<not> isSpace (last s)) \<Longrightarrow> trimmed s"
  by (auto simp: trimmed_def trim_def dropWhile_eq_self_iff[THEN iffD2] hd_rev)

lemma takeWhile_dropWhile_sep:
  "c \<notin> set p \<Longrightarrow> takeWhile (\<lambda>x. x \<noteq> c) (p @ c # t) = p \<and> dropWhile (\<lambda>x. x \<noteq> c) (p @ c # t) = c # t"
  by (induction p) auto

lemma cookie_name_plain:
  "CHR ''='' \<notin> set SESSION_COOKIE_NAME" "CHR '';'' \<notin> set SESSION_COOKIE_NAME" "trim SESSION_COOKIE_NAME = SESSION_COOKIE_NAME"
  by (simp_all add: SESSION_COOKIE_NAME_def trim_def isSpace_def)

lemma tokenOfPairs_named:
  "tokenOfPairs ((SESSION_COOKIE_NAME @ ''='' @ v) # ps) = nonEmpty (Some (trim v))"
  using takeWhile_dropWhile_sep[OF cookie_name_plain(1), of v] cookie_name_plain(3) by simp

text \<open>The value of a cookie that the builder wrote is read back.\<close>

lemma extract_build:
  assumes "t \<noteq> []" "CHR '';'' \<notin> set t" "trimmed t"
  shows "extractSessionTokenFromCookieHeader (buildSessionCookieHeader t) = Some t"
proof -
  have "CHR '';'' \<notin> set (buildSessionCookieHeader t)"
    using assms(2) cookie_name_plain(2) by (simp add: buildSessionCookieHeader_def)
  then have "splitOn (CHR '';'') (buildSessionCookieHeader t) = [SESSION_COOKIE_NAME @ ''='' @ t]"
    by (simp add: splitOn_no_sep) (simp add: buildSessionCookieHeader_def)
  then show ?thesis
    using assms(1,3) tokenOfPairs_named[of t "[]"]
    by (simp add: extractSessionTokenFromCookieHeader_def trimmed_def)
qed

lemma trim_space: "trim (CHR '' '' # s) = trim s"
  by (simp add: trim_def isSpace_def)

text \<open>And so is it when other cookies come before or after it, as browsers send them.\<close>

lemma tokenOfPairs_skip:
  assumes "\<forall>p\<in>set ps. trim (takeWhile (\<lambda>c. c \<noteq> CHR ''='') p) \<noteq> SESSION_COOKIE_NAME"
  shows "tokenOfPairs (ps @ qs) = tokenOfPairs qs"
  using assms by (induction ps) (auto split: list.splits)

lemma extract_among_others:
  assumes "\<forall>p\<in>set (splitOn (CHR '';'') before). trim (takeWhile (\<lambda>c. c \<noteq> CHR ''='') p) \<noteq> SESSION_COOKIE_NAME"
    and "CHR '';'' \<notin> set t" "t \<noteq> []" "trimmed t"
  shows "extractSessionTokenFromCookieHeader (before @ ''; '' @ buildSessionCookieHeader t @ CHR '';'' # after) = Some t"
proof -
  let ?own = "CHR '' '' # buildSessionCookieHeader t"
  have "CHR '';'' \<notin> set ?own"
    using assms(2) cookie_name_plain(2) by (simp add: buildSessionCookieHeader_def)
  then have "splitOn (CHR '';'') (before @ CHR '';'' # ?own @ CHR '';'' # after)
      = splitOn (CHR '';'') before @ ?own # splitOn (CHR '';'') after"
    unfolding splitOn_append[of _ before] splitOn_append[of _ ?own] splitOn_no_sep[OF \<open>CHR '';'' \<notin> set ?own\<close>] by simp
  moreover have "CHR ''='' \<notin> set (CHR '' '' # SESSION_COOKIE_NAME)" using cookie_name_plain(1) by simp
  from takeWhile_dropWhile_sep[OF this, of t]
  have "tokenOfPairs (?own # qs) = Some t" for qs
    using assms(3,4) cookie_name_plain(3)
    by (simp add: buildSessionCookieHeader_def trim_space trimmed_def)
  ultimately show ?thesis
    using assms(1) by (simp add: extractSessionTokenFromCookieHeader_def tokenOfPairs_skip)
qed

lemma extract_never_empty: "extractSessionTokenFromCookieHeader h \<noteq> Some []"
proof -
  have "tokenOfPairs ps \<noteq> Some []" for ps
    by (induction ps) (auto split: list.splits)
  then show ?thesis by (simp add: extractSessionTokenFromCookieHeader_def)
qed

lemma verifyServiceKey_runs:
  "verifyServiceKey sha active previous presented w = (Inr u, w') \<longleftrightarrow>
     w' = w \<and> (\<exists>p key. presented = Some p \<and> p \<noteq> [] \<and> key \<noteq> [] \<and> (active = Some key \<or> previous = Some key) \<and> sha key = sha p)"
  "verifyServiceKey sha active previous presented w = (Inl r, w') \<longleftrightarrow>
     w' = w \<and> r = Fail (if nonEmpty active = None \<and> nonEmpty previous = None then ServiceKeyMisconfigured
       else ServiceKeyRejected) \<and>
     \<not> (\<exists>p key. presented = Some p \<and> p \<noteq> [] \<and> key \<noteq> [] \<and> (active = Some key \<or> previous = Some key) \<and> sha key = sha p)"
  by (cases presented; cases active; cases previous;
      auto simp: verifyServiceKey_def getValidServiceKeys_def matchesInConstantTime_def nonEmpty_def map_filter_simps
        run_simps split: if_splits)+

lemma requireAuthSecret_success:
  "requireAuthSecret value = Inr s \<longleftrightarrow> value = Some s \<and> 32 \<le> length s"
  by (auto simp: requireAuthSecret_def AUTH_SECRET_MIN_LENGTH_def nonEmpty_def split: option.splits if_splits)

end
