(* ===== verification/RouteErrors.thy ===== *)
theory RouteErrors
  imports AuthApi Json
begin

text \<open>
  \<open>src/handlers/client-facing-error.ts\<close>, \<open>handlers/run-route.ts\<close>, \<open>dieOnBoundary\<close> of
  \<open>handlers/request-http-api.ts\<close> and \<open>rpc/run-rpc.ts\<close>: how the end of a program becomes an answer. Only a
  failure that carries an HTTP status reaches the client; everything else becomes one fixed answer and a report.
\<close>

section \<open>Causes\<close>

fun failureTag :: "failure \<Rightarrow> string" where
  "failureTag Unauthorized = ''Unauthorized''"
| "failureTag Forbidden = ''Forbidden''"
| "failureTag NotFound = ''NotFound''"
| "failureTag InvalidArgument = ''InvalidArgument''"
| "failureTag RateLimited = ''RateLimited''"
| "failureTag LastOwner = ''LastOwner''"
| "failureTag AlreadyOwner = ''AlreadyOwner''"
| "failureTag AlreadyExists = ''AlreadyExists''"
| "failureTag NotFoundOrNotPending = ''NotFoundOrNotPending''"
| "failureTag EmailMismatch = ''EmailMismatch''"
| "failureTag ExpiredOrUsed = ''ExpiredOrUsed''"
| "failureTag InvalidCode = ''InvalidCode''"
| "failureTag Locked = ''Locked''"
| "failureTag ChallengeExpired = ''ChallengeExpired''"
| "failureTag AlreadyEnabled = ''AlreadyEnabled''"
| "failureTag EnrollmentChanged = ''EnrollmentChanged''"
| "failureTag NotEnabled = ''NotEnabled''"
| "failureTag MfaNotFound = ''MfaNotFound''"
| "failureTag ServiceKeyRejected = ''ServiceKeyRejected''"
| "failureTag ServiceKeyMisconfigured = ''ServiceKeyMisconfigured''"
| "failureTag DoubleAccept = ''DoubleAccept''"
| "failureTag (InviterNotOwner seen) = ''InviterNotOwner''"
| "failureTag SessionRejected = ''SessionRejected''"
| "failureTag AttemptBudgetExhausted = ''AttemptBudgetExhausted''"
| "failureTag AttemptBudgetUnavailable = ''AttemptBudgetUnavailable''"
| "failureTag UnmappedPrimaryAuthRoute = ''UnmappedPrimaryAuthRoute''"
| "failureTag DbError = ''DbError''"
| "failureTag AuthApiError = ''AuthApiError''"
| "failureTag TtlStoreError = ''TtlStoreError''"
| "failureTag EmailError = ''EmailError''"

record clientFacing =
  cf_failure :: failure
  cf_tag :: string
  cf_status :: nat
  cf_body :: json

definition parseClientFacingError :: "failure \<Rightarrow> clientFacing option" where
  "parseClientFacingError e = map_option
     (\<lambda>status. \<lparr>cf_failure = e, cf_tag = failureTag e, cf_status = status,
                cf_body = JObj [(''_tag'', JStr (failureTag e))]\<rparr>)
     (httpApiStatus e)"

datatype report_level = Warning | ErrorLevel

text \<open>What is reported: a failure, a defect, or the printed cause when there is nothing else.\<close>

datatype internal = InternalFailure failure | InternalDefect defect | InternalCause

definition failureToInternal :: "failure \<Rightarrow> internal \<times> report_level" where
  "failureToInternal e = (InternalFailure e, if isBoundaryError e then Warning else ErrorLevel)"

fun defectToInternal :: "defect \<Rightarrow> internal \<times> report_level" where
  "defectToInternal (BoundaryDefect e) = failureToInternal e"
| "defectToInternal d = (InternalDefect d, ErrorLevel)"

text \<open>The loop over the reasons: the first client-facing failure so far, and what was internal.\<close>

fun settleReasons :: "(failure \<Rightarrow> 'w option) \<Rightarrow> reason list \<Rightarrow> 'w option \<Rightarrow> (internal \<times> report_level) list \<Rightarrow>
    'w option \<times> (internal \<times> report_level) list" where
  "settleReasons parse [] failure internals = (failure, internals)"
| "settleReasons parse (Fail e # rs) failure internals =
    (case (if isBoundaryError e then None else parse e) of
       None \<Rightarrow> settleReasons parse rs failure (internals @ [failureToInternal e])
     | Some shown \<Rightarrow> settleReasons parse rs (if failure = None then Some shown else failure) internals)"
| "settleReasons parse (Die d # rs) failure internals =
    settleReasons parse rs failure (internals @ [defectToInternal d])"
| "settleReasons parse (Interrupt # rs) failure internals = settleReasons parse rs failure internals"

definition settleCause :: "(failure \<Rightarrow> 'w option) \<Rightarrow> reason list \<Rightarrow> 'w option \<times> (internal \<times> report_level) list" where
  "settleCause parse reasons =
     (case settleReasons parse reasons None [] of
        (None, []) \<Rightarrow> (None, [(InternalCause, ErrorLevel)])
      | settled \<Rightarrow> settled)"

definition dieOnBoundary :: "('a, 'x) eff \<Rightarrow> ('a, 'x) eff" where
  "dieOnBoundary m = catchIf isBoundaryError (\<lambda>e. dieWith (BoundaryDefect e)) m"

section \<open>Answers\<close>

record response =
  rs_status :: nat
  rs_headers :: headers
  rs_body :: string

definition JSON_HEADERS :: headers where
  "JSON_HEADERS = [(''content-type'', ''application/json'')]"

definition TEXT_HEADERS :: headers where
  "TEXT_HEADERS = [(''content-type'', ''text/plain; charset=UTF-8'')]"

definition clientFacingErrorResponse :: "clientFacing \<Rightarrow> response" where
  "clientFacingErrorResponse e =
     \<lparr>rs_status = cf_status e, rs_headers = JSON_HEADERS, rs_body = stringify (cf_body e)\<rparr>"

definition internalErrorResponse :: response where
  "internalErrorResponse = \<lparr>rs_status = 500, rs_headers = TEXT_HEADERS, rs_body = ''Internal Server Error''\<rparr>"

text \<open>\<open>send\<close> for every internal reason; the tag of the report is the name of the adapter.\<close>

definition sendReports :: "string \<Rightarrow> (internal \<times> report_level) list \<Rightarrow> 'x world \<Rightarrow> 'x world" where
  "sendReports handler internals w = w\<lparr>w_sentry := w_sentry w @ map (\<lambda>_. handler) internals\<rparr>"

definition causeToResponse :: "reason list \<Rightarrow> string \<Rightarrow> 'x world \<Rightarrow> response \<times> 'x world" where
  "causeToResponse cause adapter w =
     (let (failure, internals) = settleCause parseClientFacingError cause
      in (case failure of None \<Rightarrow> internalErrorResponse | Some e \<Rightarrow> clientFacingErrorResponse e,
          sendReports adapter internals w))"

definition runRoute :: "(response, 'x) eff \<Rightarrow> 'x world \<Rightarrow> response \<times> 'x world" where
  "runRoute program w = (case program w of
     (Inr answer, w') \<Rightarrow> (answer, w')
   | (Inl r, w') \<Rightarrow> causeToResponse [r] ''runRoute'' w')"

datatype middlewareDecision = Continue | Respond response

definition runMiddleware ::
    "('x world \<Rightarrow> response \<times> 'x world) \<Rightarrow> (middlewareDecision, 'x) eff \<Rightarrow> 'x world \<Rightarrow> response \<times> 'x world" where
  "runMiddleware continue program w = (case program w of
     (Inl r, w') \<Rightarrow> causeToResponse [r] ''runMiddleware'' w'
   | (Inr (Respond answer), w') \<Rightarrow> (answer, w')
   | (Inr Continue, w') \<Rightarrow> continue w')"

section \<open>RPC\<close>

datatype code = Code_InvalidArgument | Code_Unauthenticated | Code_PermissionDenied | Code_NotFound
  | Code_FailedPrecondition | Code_ResourceExhausted | Code_Internal

definition statusToCode :: "nat \<Rightarrow> code" where
  "statusToCode status =
     (case map_of [(400, Code_InvalidArgument), (401, Code_Unauthenticated), (403, Code_PermissionDenied),
                   (404, Code_NotFound), (409, Code_FailedPrecondition), (410, Code_FailedPrecondition),
                   (429, Code_ResourceExhausted)] status of
        Some c \<Rightarrow> c | None \<Rightarrow> Code_Internal)"

text \<open>A thrown \<open>ConnectError\<close>: one of the program's own, or \<open>ConnectError.from\<close> of what was reported first.\<close>

datatype connectError = RpcError string code | RpcErrorFrom internal

definition causeToConnectError :: "reason list \<Rightarrow> 'x world \<Rightarrow> connectError \<times> 'x world" where
  "causeToConnectError cause w =
     (let (failure, internals) = settleCause parseClientFacingError cause
      in (case failure of
            Some e \<Rightarrow> RpcError (cf_tag e) (statusToCode (cf_status e))
          | None \<Rightarrow> RpcErrorFrom (fst (hd internals)),
          sendReports ''runRpc'' internals w))"

definition runRpc :: "('a, 'x) eff \<Rightarrow> 'x world \<Rightarrow> (connectError + 'a) \<times> 'x world" where
  "runRpc program w = (case program w of
     (Inr a, w') \<Rightarrow> (Inr a, w')
   | (Inl r, w') \<Rightarrow> (let (e, w2) = causeToConnectError [r] w' in (Inl e, w2)))"

section \<open>What a program can fail with, defects aside\<close>

definition raises :: "failure set \<Rightarrow> ('a, 'x) eff \<Rightarrow> bool" where
  "raises E m \<longleftrightarrow> (\<forall>w e w'. m w = (Inl (Fail e), w') \<longrightarrow> e \<in> E)"

named_theorems raises_intros
  \<open>structural rules for the failures of a program that may also end in a defect\<close>

lemma raises_throws: "throws E m \<Longrightarrow> raises E m"
  by (auto simp: raises_def throws_def)

lemma raises_mono: "raises E m \<Longrightarrow> E \<subseteq> E' \<Longrightarrow> raises E' m"
  unfolding raises_def by blast

lemma raises_andThen [raises_intros]:
  "raises E m \<Longrightarrow> (\<And>a. raises E (f a)) \<Longrightarrow> raises E (andThen m f)"
  unfolding raises_def andThen_runs by blast

lemma raises_mapEff [raises_intros]: "raises E m \<Longrightarrow> raises E (mapEff f m)"
  unfolding raises_def mapEff_runs by blast

lemma raises_dieWith [raises_intros]: "raises E (dieWith d)"
  by (simp add: raises_def dieWith_def)

lemma raises_if [raises_intros]:
  "(b \<Longrightarrow> raises E m) \<Longrightarrow> (\<not> b \<Longrightarrow> raises E n) \<Longrightarrow> raises E (if b then m else n)"
  by simp

lemma raises_option [raises_intros]:
  "raises E m \<Longrightarrow> (\<And>a. raises E (f a)) \<Longrightarrow> raises E (case x of None \<Rightarrow> m | Some a \<Rightarrow> f a)"
  by (cases x) auto

lemma raises_prod [raises_intros]: "(\<And>x y. raises E (f x y)) \<Longrightarrow> raises E (case z of (x, y) \<Rightarrow> f x y)"
  by (cases z) auto

lemma raises_catchIf:
  assumes "raises E' m" "\<And>e. e \<in> E' \<Longrightarrow> P e \<Longrightarrow> raises E (h e)" "\<And>e. e \<in> E' \<Longrightarrow> \<not> P e \<Longrightarrow> e \<in> E"
  shows "raises E (catchIf P h m)"
  using assms unfolding raises_def catchIf_runs by (metis reason.inject(1))

lemma raises_dieOnBoundary:
  "raises (E \<union> Collect isBoundaryError) m \<Longrightarrow> raises E (dieOnBoundary m)"
  unfolding dieOnBoundary_def
  by (rule raises_catchIf[where E' = "E \<union> Collect isBoundaryError"]) (auto intro: raises_intros)

lemma dieOnBoundary_runs [run_simps]:
  "dieOnBoundary m w = (Inr a, w') \<longleftrightarrow> m w = (Inr a, w')"
  by (auto simp: dieOnBoundary_def catchIf_runs dieWith_runs)

lemma keeps_dieOnBoundary [keeps_intros]: "keeps v m \<Longrightarrow> keeps v (dieOnBoundary m)"
  unfolding dieOnBoundary_def by (intro keeps_intros)

section \<open>What the client learns\<close>

lemma parseClientFacingError_None_iff: "parseClientFacingError e = None \<longleftrightarrow> httpApiStatus e = None"
  by (simp add: parseClientFacingError_def)

lemma boundary_never_shown: "isBoundaryError e \<Longrightarrow> parseClientFacingError e = None"
  by (simp add: parseClientFacingError_def boundary_not_client_facing)

text \<open>The specification of \<open>settleCause\<close>: the first failure that may be shown, and everything that may not.\<close>

definition showable :: "(failure \<Rightarrow> 'w option) \<Rightarrow> reason \<Rightarrow> 'w option" where
  "showable parse r = (case r of Fail e \<Rightarrow> if isBoundaryError e then None else parse e | _ \<Rightarrow> None)"

definition toReport :: "(failure \<Rightarrow> 'w option) \<Rightarrow> reason \<Rightarrow> (internal \<times> report_level) option" where
  "toReport parse r = (case r of
     Fail e \<Rightarrow> if showable parse r = None then Some (failureToInternal e) else None
   | Die d \<Rightarrow> Some (defectToInternal d) | Interrupt \<Rightarrow> None)"

lemma showable_simps [simp]:
  "showable parse (Fail e) = (if isBoundaryError e then None else parse e)"
  "showable parse (Die d) = None" "showable parse Interrupt = None"
  "toReport parse (Fail e) = (if showable parse (Fail e) = None then Some (failureToInternal e) else None)"
  "toReport parse (Die d) = Some (defectToInternal d)" "toReport parse Interrupt = None"
  by (simp_all add: showable_def toReport_def)

lemma settleReasons_spec:
  "settleReasons parse rs failure internals =
    (if failure = None then at0 (List.map_filter (showable parse) rs) else failure,
     internals @ List.map_filter (toReport parse) rs)"
  by (induction parse rs failure internals rule: settleReasons.induct)
    (auto simp: map_filter_simps split: option.splits)

lemma settleCause_spec:
  "fst (settleCause parse rs) = at0 (List.map_filter (showable parse) rs)"
  "snd (settleCause parse rs) =
    (if List.map_filter (showable parse) rs = [] \<and> List.map_filter (toReport parse) rs = []
     then [(InternalCause, ErrorLevel)] else List.map_filter (toReport parse) rs)"
  by (auto simp: settleCause_def settleReasons_spec split: option.splits list.splits)

lemma settleCause_reports: "fst (settleCause parse rs) = None \<Longrightarrow> snd (settleCause parse rs) \<noteq> []"
  by (simp add: settleCause_spec)

lemma settleCause_single:
  "settleCause parseClientFacingError [Fail e] = (case parseClientFacingError e of
     None \<Rightarrow> (None, [failureToInternal e]) | Some s \<Rightarrow> (Some s, []))"
  "settleCause parse [Die d] = (None, [defectToInternal d])"
  "settleCause parse [Interrupt] = (None, [(InternalCause, ErrorLevel)])"
  using boundary_never_shown[of e] by (auto simp: settleCause_def split: option.splits)

lemma statusToCode_client_facing:
  "httpApiStatus e = Some s \<Longrightarrow> statusToCode s = Code_Internal \<longleftrightarrow> e = ServiceKeyMisconfigured"
  by (cases e) (auto simp: statusToCode_def)

end
