(* ===== verification/SpaContract.thy ===== *)
theory SpaContract
  imports Cookies RouteErrors Invitation MfaEnrollment
begin

text \<open>
  The HTTP API of the web application as it is declared: \<open>src/spa-contract.ts\<close>, \<open>spa-contract-table.ts\<close>,
  \<open>spa-contract-schemas.ts\<close> and the \<open>*-contract.ts\<close> of each domain. For every endpoint its route, its middleware and
  the failures it may answer with, and the decoder of its parameters and payload. The e-mail pattern is zod's;
  it is a parameter.
\<close>

section \<open>Endpoints\<close>

datatype spa_endpoint =
    Account_memberships | Account_switchCompany | Account_deleteAccount | Account_avatarUploadToken
  | Membership_list | Membership_changeRole | Membership_remove | Membership_transferOwnership
  | Company_create | Company_add | Company_update | Company_delete
  | Invitation_pending | Invitation_create | Invitation_revoke | Invitation_accept
  | Mfa_status | Mfa_enroll | Mfa_activate | Mfa_disable
  | MfaChallenge_state | MfaChallenge_verify

datatype spa_middleware = Authenticated | MfaChangeBudget | ChallengeStateBudget | ChallengeVerifyBudget

datatype http_method = GET | POST

definition accountGroup :: "spa_endpoint list" where
  "accountGroup = [Account_memberships, Account_switchCompany, Account_deleteAccount, Account_avatarUploadToken]"

definition membershipGroup :: "spa_endpoint list" where
  "membershipGroup = [Membership_list, Membership_changeRole, Membership_remove, Membership_transferOwnership]"

definition companyGroup :: "spa_endpoint list" where
  "companyGroup = [Company_create, Company_add, Company_update, Company_delete]"

definition invitationGroup :: "spa_endpoint list" where
  "invitationGroup = [Invitation_pending, Invitation_create, Invitation_revoke, Invitation_accept]"

definition mfaGroup :: "spa_endpoint list" where
  "mfaGroup = [Mfa_status, Mfa_enroll, Mfa_activate, Mfa_disable]"

definition mfaChallengeGroup :: "spa_endpoint list" where
  "mfaChallengeGroup = [MfaChallenge_state, MfaChallenge_verify]"

definition spaApi :: "spa_endpoint list" where
  "spaApi = accountGroup @ membershipGroup @ companyGroup @ invitationGroup @ mfaGroup @ mfaChallengeGroup"

fun spaRoute :: "spa_endpoint \<Rightarrow> http_method \<times> string" where
  "spaRoute Account_memberships = (GET, ''/api/account/memberships'')"
| "spaRoute Account_switchCompany = (POST, ''/api/account/current-company'')"
| "spaRoute Account_deleteAccount = (POST, ''/api/account/delete'')"
| "spaRoute Account_avatarUploadToken = (POST, ''/api/account/avatar/upload-token'')"
| "spaRoute Membership_list = (GET, ''/api/account/companies/:companyId/members'')"
| "spaRoute Membership_changeRole = (POST, ''/api/account/companies/:companyId/members/:targetUserId/role'')"
| "spaRoute Membership_remove = (POST, ''/api/account/companies/:companyId/members/:targetUserId/remove'')"
| "spaRoute Membership_transferOwnership = (POST, ''/api/account/companies/:companyId/transfer-ownership'')"
| "spaRoute Company_create = (POST, ''/api/account/companies'')"
| "spaRoute Company_add = (POST, ''/api/account/companies/add'')"
| "spaRoute Company_update = (POST, ''/api/account/companies/:companyId'')"
| "spaRoute Company_delete = (POST, ''/api/account/companies/:companyId/delete'')"
| "spaRoute Invitation_pending = (GET, ''/api/account/companies/:companyId/invitations'')"
| "spaRoute Invitation_create = (POST, ''/api/account/companies/:companyId/invitations'')"
| "spaRoute Invitation_revoke = (POST, ''/api/account/companies/:companyId/invitations/:invitationId/revoke'')"
| "spaRoute Invitation_accept = (POST, ''/api/account/accept-invitation'')"
| "spaRoute Mfa_status = (GET, ''/api/account/mfa'')"
| "spaRoute Mfa_enroll = (POST, ''/api/account/mfa/enroll'')"
| "spaRoute Mfa_activate = (POST, ''/api/account/mfa/activate'')"
| "spaRoute Mfa_disable = (POST, ''/api/account/mfa/disable'')"
| "spaRoute MfaChallenge_state = (GET, ''/api/mfa/challenge'')"
| "spaRoute MfaChallenge_verify = (POST, ''/api/mfa/challenge/verify'')"

fun spaMiddleware :: "spa_endpoint \<Rightarrow> spa_middleware list" where
  "spaMiddleware MfaChallenge_state = [ChallengeStateBudget]"
| "spaMiddleware MfaChallenge_verify = [ChallengeVerifyBudget]"
| "spaMiddleware Mfa_enroll = [Authenticated, MfaChangeBudget]"
| "spaMiddleware Mfa_activate = [Authenticated, MfaChangeBudget]"
| "spaMiddleware Mfa_disable = [Authenticated, MfaChangeBudget]"
| "spaMiddleware _ = [Authenticated]"

fun middlewareFailure :: "spa_middleware \<Rightarrow> failure" where
  "middlewareFailure Authenticated = Unauthorized"
| "middlewareFailure MfaChangeBudget = RateLimited"
| "middlewareFailure ChallengeStateBudget = RateLimited"
| "middlewareFailure ChallengeVerifyBudget = RateLimited"

fun endpointErrors :: "spa_endpoint \<Rightarrow> failure list" where
  "endpointErrors Account_memberships = []"
| "endpointErrors Account_switchCompany = [Forbidden]"
| "endpointErrors Account_deleteAccount = [LastOwner, NotFound]"
| "endpointErrors Account_avatarUploadToken = []"
| "endpointErrors Membership_list = [Forbidden]"
| "endpointErrors Membership_changeRole = [Forbidden, NotFound, LastOwner]"
| "endpointErrors Membership_remove = [Forbidden, NotFound, LastOwner]"
| "endpointErrors Membership_transferOwnership = [Forbidden, NotFound, InvalidArgument, AlreadyOwner, LastOwner]"
| "endpointErrors Company_create = [AlreadyExists]"
| "endpointErrors Company_add = []"
| "endpointErrors Company_update = [Forbidden, NotFound]"
| "endpointErrors Company_delete = [Forbidden, LastOwner]"
| "endpointErrors Invitation_pending = [Forbidden]"
| "endpointErrors Invitation_create = [Forbidden, RateLimited]"
| "endpointErrors Invitation_revoke = [Forbidden, NotFoundOrNotPending]"
| "endpointErrors Invitation_accept = [NotFound, EmailMismatch, ExpiredOrUsed]"
| "endpointErrors Mfa_status = []"
| "endpointErrors Mfa_enroll = [AlreadyEnabled, ChallengeExpired]"
| "endpointErrors Mfa_activate = [InvalidCode, Locked, EnrollmentChanged, AlreadyEnabled, MfaNotFound]"
| "endpointErrors Mfa_disable = [InvalidCode, Locked, NotEnabled]"
| "endpointErrors MfaChallenge_state = []"
| "endpointErrors MfaChallenge_verify = [InvalidCode, Locked, ChallengeExpired]"

definition spaErrors :: "spa_endpoint \<Rightarrow> failure set" where
  "spaErrors e = set (endpointErrors e) \<union> middlewareFailure ` set (spaMiddleware e)"

text \<open>\<open>SpaEndpoint.failures\<close>: the tag of every failure with its status.\<close>

definition spaFailures :: "spa_endpoint \<Rightarrow> (string \<times> nat option) list" where
  "spaFailures e = map (\<lambda>f. (failureTag f, httpApiStatus f))
     (endpointErrors e @ map middlewareFailure (spaMiddleware e))"

section \<open>Schemas\<close>

fun asString :: "json option \<Rightarrow> string option" where
  "asString (Some (JStr s)) = Some s"
| "asString _ = None"

fun jsonField :: "json \<Rightarrow> string \<Rightarrow> json option" where
  "jsonField (JObj fs) k = map_of (rev fs) k"
| "jsonField _ k = None"

definition checked :: "('a \<Rightarrow> bool) \<Rightarrow> 'a option \<Rightarrow> 'a option" where
  "checked P v = (case v of Some a \<Rightarrow> if P a then Some a else None | None \<Rightarrow> None)"

definition decodeId :: "json option \<Rightarrow> id option" where
  "decodeId v = checked (isBetweenLength 1 64) (asString v)"

definition roleString :: "role \<Rightarrow> string" where
  "roleString r = (case r of OWNER \<Rightarrow> ''OWNER'' | ADMIN \<Rightarrow> ''ADMIN'' | MEMBER \<Rightarrow> ''MEMBER'')"

definition orgCodeString :: "org_code \<Rightarrow> string" where
  "orgCodeString c = (case c of PERSONAL \<Rightarrow> ''PERSONAL'' | CORPORATE \<Rightarrow> ''CORPORATE'')"

text \<open>\<open>Schema.Literals\<close>: the member of the list that is written so.\<close>

definition literal :: "('a \<Rightarrow> string) \<Rightarrow> 'a list \<Rightarrow> json option \<Rightarrow> 'a option" where
  "literal name options v = (case asString v of None \<Rightarrow> None | Some s \<Rightarrow> find (\<lambda>a. name a = s) options)"

definition decodeRole :: "json option \<Rightarrow> role option" where
  "decodeRole v = literal roleString ROLES v"

definition decodeOrgCode :: "json option \<Rightarrow> org_code option" where
  "decodeOrgCode v = literal orgCodeString ORG_CODES v"

definition decodeCompanyName :: "json option \<Rightarrow> string option" where
  "decodeCompanyName v = checked (isBetweenLength 1 100) (map_option trim (asString v))"

definition decodeCompanyInput :: "json \<Rightarrow> (string \<times> org_code) option" where
  "decodeCompanyInput j = (case (decodeCompanyName (jsonField j ''name''), decodeOrgCode (jsonField j ''org_code'')) of
     (Some n, Some oc) \<Rightarrow> Some (n, oc) | _ \<Rightarrow> None)"

definition decodeInvitedEmail :: "(string \<Rightarrow> bool) \<Rightarrow> json option \<Rightarrow> string option" where
  "decodeInvitedEmail emailPattern v =
     map_option toLowerCase (checked (\<lambda>s. isBetweenLength 0 320 s \<and> emailPattern s) (asString v))"

definition decodeAllowedRedirectTarget :: "url_parser \<Rightarrow> json \<Rightarrow> redirectTarget option" where
  "decodeAllowedRedirectTarget parseUrl j =
     (case (asString (jsonField j ''service_name''), asString (jsonField j ''redirect_url'')) of
        (Some service, Some redirect) \<Rightarrow> parseRedirectTarget parseUrl service redirect
      | _ \<Rightarrow> None)"

record inviteRequest =
  iq_email :: string
  iq_role :: role
  iq_redirect_target :: "redirectTarget option"

definition decodeInviteRequest :: "(string \<Rightarrow> bool) \<Rightarrow> url_parser \<Rightarrow> json \<Rightarrow> inviteRequest option" where
  "decodeInviteRequest emailPattern parseUrl j =
     (case (decodeInvitedEmail emailPattern (jsonField j ''email''), decodeRole (jsonField j ''role''),
            (case jsonField j ''redirect_target'' of None \<Rightarrow> Some None
             | Some t \<Rightarrow> map_option Some (decodeAllowedRedirectTarget parseUrl t))) of
        (Some e, Some r, Some t) \<Rightarrow> Some \<lparr>iq_email = e, iq_role = r, iq_redirect_target = t\<rparr>
      | _ \<Rightarrow> None)"

definition decodeCode :: "json option \<Rightarrow> string option" where
  "decodeCode v = checked (isBetweenLength 1 64) (asString v)"

definition codeKindString :: "mfa_code_kind \<Rightarrow> string" where
  "codeKindString k = (case k of KindTotp \<Rightarrow> ''totp'' | KindRecoveryCode \<Rightarrow> ''recovery_code'')"

definition decodeCodeWithKind :: "json \<Rightarrow> (string \<times> mfa_code_kind) option" where
  "decodeCodeWithKind j =
     (case (decodeCode (jsonField j ''code''), literal codeKindString [KindTotp, KindRecoveryCode] (jsonField j ''kind'')) of
        (Some c, Some k) \<Rightarrow> Some (c, k) | _ \<Rightarrow> None)"

record avatarUpload =
  av_pathname :: string
  av_clientPayload :: "string option"
  av_multipart :: bool

text \<open>The two optional fields, with the defaults the handler gives them.\<close>

definition decodeAvatarUpload :: "json \<Rightarrow> avatarUpload option" where
  "decodeAvatarUpload j =
     (case (asString (jsonField j ''type''), jsonField j ''payload'') of
        (Some t, Some p) \<Rightarrow>
          (if t \<noteq> ''blob.generate-client-token'' then None
           else case (asString (jsonField p ''pathname''),
                 (case jsonField p ''clientPayload'' of None \<Rightarrow> Some None | Some JNull \<Rightarrow> Some None
                  | Some (JStr s) \<Rightarrow> Some (Some s) | _ \<Rightarrow> None),
                 (case jsonField p ''multipart'' of None \<Rightarrow> Some False | Some (JBool b) \<Rightarrow> Some b | _ \<Rightarrow> None)) of
              (Some n, Some c, Some m) \<Rightarrow> Some \<lparr>av_pathname = n, av_clientPayload = c, av_multipart = m\<rparr>
            | _ \<Rightarrow> None)
      | _ \<Rightarrow> None)"

text \<open>\<open>Date.prototype.toISOString\<close>, for the years 0 to 9999.\<close>

definition toISOString :: "millis \<Rightarrow> string" where
  "toISOString t = hourBucket t @ '':'' @ padded 2 (t div 60000 mod 60) @ '':'' @ padded 2 (t div 1000 mod 60) @
     ''.'' @ padded 3 (t mod 1000) @ ''Z''"

section \<open>Requests\<close>

datatype spa_call =
    GetMemberships | SwitchCompany id | DeleteOwnAccount | GetAvatarToken avatarUpload
  | ListMembers id | SetRole id id role | Remove id id | Transfer id id
  | CreateCompany string org_code | AddAnotherCompany string org_code
  | UpdateCompany id string org_code | RemoveCompany id
  | ListPending id | Invite id inviteRequest | RevokeInvite id id | AcceptInvite string
  | GetMfaStatus | EnrollTotp | ActivateTotp string id | DisableTotp string mfa_code_kind
  | GetChallengeState | VerifyChallenge string mfa_code_kind

fun endpointOf :: "spa_call \<Rightarrow> spa_endpoint" where
  "endpointOf GetMemberships = Account_memberships"
| "endpointOf (SwitchCompany c) = Account_switchCompany"
| "endpointOf DeleteOwnAccount = Account_deleteAccount"
| "endpointOf (GetAvatarToken a) = Account_avatarUploadToken"
| "endpointOf (ListMembers c) = Membership_list"
| "endpointOf (SetRole c u r) = Membership_changeRole"
| "endpointOf (Remove c u) = Membership_remove"
| "endpointOf (Transfer c u) = Membership_transferOwnership"
| "endpointOf (CreateCompany n oc) = Company_create"
| "endpointOf (AddAnotherCompany n oc) = Company_add"
| "endpointOf (UpdateCompany c n oc) = Company_update"
| "endpointOf (RemoveCompany c) = Company_delete"
| "endpointOf (ListPending c) = Invitation_pending"
| "endpointOf (Invite c r) = Invitation_create"
| "endpointOf (RevokeInvite c i) = Invitation_revoke"
| "endpointOf (AcceptInvite t) = Invitation_accept"
| "endpointOf GetMfaStatus = Mfa_status"
| "endpointOf EnrollTotp = Mfa_enroll"
| "endpointOf (ActivateTotp c i) = Mfa_activate"
| "endpointOf (DisableTotp c k) = Mfa_disable"
| "endpointOf GetChallengeState = MfaChallenge_state"
| "endpointOf (VerifyChallenge c k) = MfaChallenge_verify"

text \<open>What a route needs: the parts of its path, and its payload where it has one.\<close>

fun decodeCall :: "(string \<Rightarrow> bool) \<Rightarrow> url_parser \<Rightarrow> spa_endpoint \<Rightarrow> (string \<Rightarrow> string) \<Rightarrow> json \<Rightarrow> spa_call option" where
  "decodeCall pat U Account_memberships param j = Some GetMemberships"
| "decodeCall pat U Account_switchCompany param j = map_option SwitchCompany (decodeId (jsonField j ''company_id''))"
| "decodeCall pat U Account_deleteAccount param j = Some DeleteOwnAccount"
| "decodeCall pat U Account_avatarUploadToken param j = map_option GetAvatarToken (decodeAvatarUpload j)"
| "decodeCall pat U Membership_list param j = Some (ListMembers (param ''companyId''))"
| "decodeCall pat U Membership_changeRole param j =
    map_option (SetRole (param ''companyId'') (param ''targetUserId'')) (decodeRole (jsonField j ''role''))"
| "decodeCall pat U Membership_remove param j = Some (Remove (param ''companyId'') (param ''targetUserId''))"
| "decodeCall pat U Membership_transferOwnership param j =
    map_option (Transfer (param ''companyId'')) (decodeId (jsonField j ''to_user_id''))"
| "decodeCall pat U Company_create param j = map_option (\<lambda>(n, oc). CreateCompany n oc) (decodeCompanyInput j)"
| "decodeCall pat U Company_add param j = map_option (\<lambda>(n, oc). AddAnotherCompany n oc) (decodeCompanyInput j)"
| "decodeCall pat U Company_update param j =
    map_option (\<lambda>(n, oc). UpdateCompany (param ''companyId'') n oc) (decodeCompanyInput j)"
| "decodeCall pat U Company_delete param j = Some (RemoveCompany (param ''companyId''))"
| "decodeCall pat U Invitation_pending param j = Some (ListPending (param ''companyId''))"
| "decodeCall pat U Invitation_create param j = map_option (Invite (param ''companyId'')) (decodeInviteRequest pat U j)"
| "decodeCall pat U Invitation_revoke param j = Some (RevokeInvite (param ''companyId'') (param ''invitationId''))"
| "decodeCall pat U Invitation_accept param j =
    map_option AcceptInvite (checked (isBetweenLength 1 256) (asString (jsonField j ''invitation_token'')))"
| "decodeCall pat U Mfa_status param j = Some GetMfaStatus"
| "decodeCall pat U Mfa_enroll param j = Some EnrollTotp"
| "decodeCall pat U Mfa_activate param j =
    (case (decodeCode (jsonField j ''code''), checked (\<lambda>s. s \<noteq> []) (asString (jsonField j ''enrollment_id''))) of
       (Some c, Some i) \<Rightarrow> Some (ActivateTotp c i) | _ \<Rightarrow> None)"
| "decodeCall pat U Mfa_disable param j = map_option (\<lambda>(c, k). DisableTotp c k) (decodeCodeWithKind j)"
| "decodeCall pat U MfaChallenge_state param j = Some GetChallengeState"
| "decodeCall pat U MfaChallenge_verify param j = map_option (\<lambda>(c, k). VerifyChallenge c k) (decodeCodeWithKind j)"

section \<open>What the contract guarantees\<close>

lemma checked_Some [simp]: "checked P v = Some a \<longleftrightarrow> v = Some a \<and> P a"
  by (auto simp: checked_def split: option.splits)

lemma asString_Some [simp]: "asString v = Some s \<longleftrightarrow> v = Some (JStr s)"
  by (cases v rule: asString.cases) auto

lemma spaApi_complete: "set spaApi = UNIV" "distinct spaApi"
proof -
  have "e \<in> set spaApi" for e
    by (cases e) (simp_all add: spaApi_def accountGroup_def membershipGroup_def companyGroup_def
        invitationGroup_def mfaGroup_def mfaChallengeGroup_def)
  then show "set spaApi = UNIV" by auto
  show "distinct spaApi"
    by (simp add: spaApi_def accountGroup_def membershipGroup_def companyGroup_def
        invitationGroup_def mfaGroup_def mfaChallengeGroup_def)
qed

lemma spaErrors_shown: "f \<in> spaErrors e \<Longrightarrow> httpApiStatus f \<noteq> None"
  by (cases e) (auto simp: spaErrors_def)

lemma spaErrors_no_boundary: "f \<in> spaErrors e \<Longrightarrow> \<not> isBoundaryError f"
  using spaErrors_shown boundary_not_client_facing by blast

lemma isSpace_trim: "trim s \<noteq> [] \<Longrightarrow> \<not> isSpace (hd (trim s)) \<and> \<not> isSpace (last (trim s))"
proof -
  assume ne: "trim s \<noteq> []"
  let ?l = "dropWhile isSpace s" and ?r = "dropWhile isSpace (rev (dropWhile isSpace s))"
  have r: "?r \<noteq> []" using ne by (simp add: trim_def)
  then have "\<not> isSpace (hd ?r)" by (rule hd_dropWhile)
  then have last: "\<not> isSpace (last (trim s))" by (simp add: trim_def last_rev r)
  have "rev ?l = takeWhile isSpace (rev ?l) @ ?r" by simp
  then have "?l = rev ?r @ rev (takeWhile isSpace (rev ?l))" by (metis rev_append rev_rev_ident)
  then have "hd ?l = hd (trim s)" using r by (metis trim_def hd_append2 rev_is_Nil_conv)
  moreover have "?l \<noteq> []" using r by (metis dropWhile.simps(1) rev.simps(1))
  then have "\<not> isSpace (hd ?l)" by (rule hd_dropWhile)
  ultimately show ?thesis using last by simp
qed

text \<open>What a decoded request is known to satisfy.\<close>

fun wellFormedCall :: "url_parser \<Rightarrow> spa_call \<Rightarrow> bool" where
  "wellFormedCall U (SwitchCompany c) = isBetweenLength 1 64 c"
| "wellFormedCall U (Transfer c u) = isBetweenLength 1 64 u"
| "wellFormedCall U (CreateCompany n oc) = (isBetweenLength 1 100 n \<and> \<not> isSpace (hd n) \<and> \<not> isSpace (last n))"
| "wellFormedCall U (AddAnotherCompany n oc) = (isBetweenLength 1 100 n \<and> \<not> isSpace (hd n) \<and> \<not> isSpace (last n))"
| "wellFormedCall U (UpdateCompany c n oc) = (isBetweenLength 1 100 n \<and> \<not> isSpace (hd n) \<and> \<not> isSpace (last n))"
| "wellFormedCall U (Invite c r) =
    (length (iq_email r) \<le> 320 \<and> toLowerCase (iq_email r) = iq_email r \<and>
     (\<forall>t. iq_redirect_target r = Some t \<longrightarrow> validateRedirectUrl U (rt_redirect_url t) (rt_service_name t)))"
| "wellFormedCall U (AcceptInvite t) = isBetweenLength 1 256 t"
| "wellFormedCall U (ActivateTotp c i) = (isBetweenLength 1 64 c \<and> i \<noteq> [])"
| "wellFormedCall U (DisableTotp c k) = isBetweenLength 1 64 c"
| "wellFormedCall U (VerifyChallenge c k) = isBetweenLength 1 64 c"
| "wellFormedCall U _ = True"

lemma decodeCompanyInput_Some:
  "decodeCompanyInput j = Some (n, oc) \<Longrightarrow> isBetweenLength 1 100 n \<and> \<not> isSpace (hd n) \<and> \<not> isSpace (last n)"
proof -
  assume "decodeCompanyInput j = Some (n, oc)"
  then obtain s where n: "n = trim s" "isBetweenLength 1 100 n"
    by (auto simp: decodeCompanyInput_def decodeCompanyName_def split: option.splits)
  then have "trim s \<noteq> []" by (auto simp: isBetweenLength_def)
  from isSpace_trim[OF this] n show ?thesis by simp
qed

lemma decodeInviteRequest_Some:
  assumes "decodeInviteRequest pat U j = Some r" shows "wellFormedCall U (Invite c r)"
  using assms
  by (auto simp: decodeInviteRequest_def decodeInvitedEmail_def isBetweenLength_def toLowerCase_def
      decodeAllowedRedirectTarget_def parseRedirectTarget_def split: option.splits if_splits prod.splits)

lemma decodeCodeWithKind_Some: "decodeCodeWithKind j = Some (c, k) \<Longrightarrow> isBetweenLength 1 64 c"
  by (auto simp: decodeCodeWithKind_def decodeCode_def split: option.splits)

lemma decodeCall_Some:
  assumes "decodeCall pat U e param j = Some call"
  shows "endpointOf call = e \<and> wellFormedCall U call"
  using assms
  by (cases e) (auto simp: decodeId_def decodeCode_def split: option.splits
      dest!: decodeCompanyInput_Some decodeCodeWithKind_Some dest: decodeInviteRequest_Some simp del: wellFormedCall.simps(6))

end
