(* ===== verification/SpaHandlers.thy ===== *)
theory SpaHandlers
  imports SpaContract Lifecycle
begin

text \<open>
  The handlers of the HTTP API of the web application: \<open>src/handlers/account-http-api.ts\<close>,
  \<open>company-http-api.ts\<close>, \<open>invitation-http-api.ts\<close>, \<open>membership-http-api.ts\<close>, \<open>mfa-http-api.ts\<close>, the middleware of
  \<open>spa-http-api.ts\<close> and \<open>attempt-budget-http-api.ts\<close>, and \<open>forwardSetCookies\<close>. A handler turns its request into a
  grant, runs the operation and writes the answer as JSON. The digest and the upload endpoint of the blob store
  are parameters. Middleware runs outermost first, that of the group before that of the endpoint.
\<close>

record uploadOptions =
  uo_allowedContentTypes :: "string list"
  uo_addRandomSuffix :: bool
  uo_maximumSizeInBytes :: nat
  uo_tokenPayload :: string

text \<open>What \<open>handleUpload\<close> answers: a client token, or an event of another type.\<close>

datatype uploadResult = ClientToken string | OtherUploadEvent

record 'x spa =
  sa_service :: "'x service"
  sa_sha256 :: "string \<Rightarrow> nat list"
  sa_handleUpload :: "avatarUpload \<Rightarrow> uploadOptions \<Rightarrow> 'x world \<Rightarrow> (string + uploadResult) \<times> 'x world"

record spaResponse =
  sr_body :: json
  sr_setCookies :: "string list"

section \<open>Writing answers\<close>

definition ok :: "(string \<times> json) list \<Rightarrow> json" where
  "ok fs = JObj ((''ok'', JBool True) # fs)"

definition activationString :: "activation_status \<Rightarrow> string" where
  "activationString s = (case s of ACTIVE \<Rightarrow> ''ACTIVE'' | DELETED \<Rightarrow> ''DELETED'')"

definition serializeMembership :: "membershipWithCompany \<Rightarrow> json" where
  "serializeMembership row = JObj
     [(''id'', JStr (mb_id row)), (''company_id'', JStr (mb_companyId row)),
      (''company_name'', JStr (mb_companyName row)),
      (''company_org_code'', JStr (orgCodeString (mb_companyOrgCode row))),
      (''role'', JStr (roleString (mb_role row))), (''joined_at'', JStr (toISOString (mb_joinedAt row)))]"

definition serializeCompany :: "company \<Rightarrow> (string \<times> json) list" where
  "serializeCompany c =
     [(''id'', JStr (co_id c)), (''name'', JStr (co_name c)), (''org_code'', JStr (orgCodeString (co_orgCode c))),
      (''activation_status'', JStr (activationString (co_activationStatus c)))]"

definition serializeCreatedCompany :: "createdCompany \<Rightarrow> json" where
  "serializeCreatedCompany r = JObj
     [(''company'', JObj (serializeCompany (cr_company r) @
         [(''created_at'', JStr (toISOString (co_createdAt (cr_company r))))])),
      (''membership'', JObj
         [(''id'', JStr (mb_id (cr_membership r))), (''role'', JStr (roleString (mb_role (cr_membership r)))),
          (''company_id'', JStr (mb_companyId (cr_membership r))),
          (''joined_at'', JStr (toISOString (mb_joinedAt (cr_membership r))))])]"

definition serializePending :: "invitation \<Rightarrow> json" where
  "serializePending i = JObj
     [(''id'', JStr (iv_id i)), (''email'', JStr (iv_email i)), (''role'', JStr (roleString (iv_role i))),
      (''expires_at'', JStr (toISOString (iv_expiresAt i))), (''created_at'', JStr (toISOString (iv_createdAt i)))]"

definition serializeInvited :: "createdInvitation \<Rightarrow> json" where
  "serializeInvited r = JObj
     [(''invitation'', JObj
        [(''id'', JStr (iv_id (ci_invitation r))), (''email'', JStr (iv_email (ci_invitation r))),
         (''role'', JStr (roleString (iv_role (ci_invitation r)))),
         (''expires_at'', JStr (toISOString (iv_expiresAt (ci_invitation r))))]),
      (''reused'', JBool (ci_reused r))]"

definition serializeMember :: "memberRow \<Rightarrow> json" where
  "serializeMember m = JObj
     [(''membership_id'', JStr (mr_membershipId m)), (''user_id'', JStr (mr_userId m)),
      (''user_name'', JStr (mr_userName m)), (''user_email'', JStr (mr_userEmail m)),
      (''role'', JStr (roleString (mr_role m))), (''joined_at'', JStr (toISOString (mr_joinedAt m)))]"

definition answer :: "json \<Rightarrow> (spaResponse, 'x) eff" where
  "answer j = succeed \<lparr>sr_body = j, sr_setCookies = []\<rparr>"

text \<open>\<open>forwardSetCookies\<close>: the \<open>Set-Cookie\<close> values of the forwarded headers go out with the answer.\<close>

definition getSetCookie :: "headers \<Rightarrow> string list" where
  "getSetCookie h = map snd (filter (\<lambda>(n, v). toLowerCase n = ''set-cookie'') h)"

definition answerForwarding :: "headers \<Rightarrow> json \<Rightarrow> (spaResponse, 'x) eff" where
  "answerForwarding forwarded j = succeed \<lparr>sr_body = j, sr_setCookies = getSetCookie forwarded\<rparr>"

section \<open>The handlers\<close>

definition ALLOWED_CONTENT_TYPES :: "string list" where
  "ALLOWED_CONTENT_TYPES = [''image/png'', ''image/jpeg'', ''image/webp'']"

definition MAX_SIZE_BYTES :: nat where
  "MAX_SIZE_BYTES = 5 * 1024 * 1024"

definition membershipsHandler :: "actor \<Rightarrow> (spaResponse, 'x) eff" where
  "membershipsHandler actor = andThen (activeMembershipsOf (ac_id actor)) (\<lambda>rows.
     answer (JObj
       [(''current_company_id'', (case ac_lastUsedCompanyId actor of None \<Rightarrow> JNull | Some c \<Rightarrow> JStr c)),
        (''memberships'', JArr (map serializeMembership rows))]))"

definition switchCompanyHandler :: "'x spa \<Rightarrow> actor \<Rightarrow> id \<Rightarrow> (spaResponse, 'x) eff" where
  "switchCompanyHandler S actor companyId =
     andThen (switchCurrentCompany (sv_auth (sa_service S)) (ac_id actor) companyId) (\<lambda>c.
       answer (ok [(''company_id'', JStr c)]))"

definition deleteAccountHandler :: "'x spa \<Rightarrow> actor \<Rightarrow> (spaResponse, 'x) eff" where
  "deleteAccountHandler S actor =
     andDo (deleteAccountUnlessLastOwner (sv_auth (sa_service S)) (ac_id actor)) (answer (ok []))"

definition avatarUploadTokenHandler :: "'x spa \<Rightarrow> actor \<Rightarrow> avatarUpload \<Rightarrow> (spaResponse, 'x) eff" where
  "avatarUploadTokenHandler S actor payload = (\<lambda>w.
     case sa_handleUpload S payload
       \<lparr>uo_allowedContentTypes = ALLOWED_CONTENT_TYPES, uo_addRandomSuffix = True,
        uo_maximumSizeInBytes = MAX_SIZE_BYTES,
        uo_tokenPayload = stringify (JObj [(''userId'', JStr (ac_id actor))])\<rparr> w of
       (Inl thrown, w') \<Rightarrow> (Inl (Die (ThrownError thrown)), w')
     | (Inr OtherUploadEvent, w') \<Rightarrow> (Inl (Die (ThrownError ''upload event'')), w')
     | (Inr (ClientToken t), w') \<Rightarrow>
         answer (JObj [(''type'', JStr ''blob.generate-client-token''), (''clientToken'', JStr t)]) w')"

definition listHandler :: "actor \<Rightarrow> id \<Rightarrow> (spaResponse, 'x) eff" where
  "listHandler actor companyId = andThen (requireMembershipOf actor companyId MEMBER) (\<lambda>member.
     andThen (listMembers member) (\<lambda>members. answer (JObj [(''members'', JArr (map serializeMember members))])))"

definition changeRoleHandler :: "'x spa \<Rightarrow> actor \<Rightarrow> id \<Rightarrow> id \<Rightarrow> role \<Rightarrow> (spaResponse, 'x) eff" where
  "changeRoleHandler S actor companyId targetUserId role =
     andThen (requireRoleChange actor companyId targetUserId role) (\<lambda>grant.
       andDo (changeRole (sv_auth (sa_service S)) grant) (answer (ok [])))"

definition removeHandler :: "'x spa \<Rightarrow> actor \<Rightarrow> id \<Rightarrow> id \<Rightarrow> (spaResponse, 'x) eff" where
  "removeHandler S actor companyId targetUserId =
     andThen (requireRemoval actor companyId targetUserId) (\<lambda>grant.
     andThen (removeMember (sv_auth (sa_service S)) grant) (\<lambda>accountDeleted.
       answer (ok [(''account_deleted'', JBool accountDeleted)])))"

definition transferOwnershipHandler :: "'x spa \<Rightarrow> actor \<Rightarrow> id \<Rightarrow> id \<Rightarrow> (spaResponse, 'x) eff" where
  "transferOwnershipHandler S actor companyId toUserId =
     andThen (requireTransferOwnership actor companyId toUserId) (\<lambda>grant.
       andDo (transferOwnership (sv_auth (sa_service S)) grant) (answer (ok [])))"

definition createCompanyHandler :: "'x spa \<Rightarrow> actor \<Rightarrow> string \<Rightarrow> org_code \<Rightarrow> (spaResponse, 'x) eff" where
  "createCompanyHandler S actor name orgCode =
     andThen (createSignupCompany (sv_auth (sa_service S)) (ac_id actor) name orgCode)
       (\<lambda>r. answer (serializeCreatedCompany r))"

definition addCompanyHandler :: "'x spa \<Rightarrow> actor \<Rightarrow> string \<Rightarrow> org_code \<Rightarrow> (spaResponse, 'x) eff" where
  "addCompanyHandler S actor name orgCode =
     andThen (addCompany (sv_auth (sa_service S)) (ac_id actor) name orgCode)
       (\<lambda>r. answer (serializeCreatedCompany r))"

definition updateCompanyHandler :: "'x spa \<Rightarrow> actor \<Rightarrow> id \<Rightarrow> string \<Rightarrow> org_code \<Rightarrow> (spaResponse, 'x) eff" where
  "updateCompanyHandler S actor companyId name orgCode =
     andThen (requireMembershipOf actor companyId OWNER) (\<lambda>member.
     andThen (updateCompanyInfo (sv_auth (sa_service S)) member name orgCode)
       (\<lambda>c. answer (JObj [(''company'', JObj (serializeCompany c))])))"

definition deleteCompanyHandler :: "'x spa \<Rightarrow> actor \<Rightarrow> id \<Rightarrow> (spaResponse, 'x) eff" where
  "deleteCompanyHandler S actor companyId =
     andThen (requireMembershipOf actor companyId OWNER) (\<lambda>member.
     andThen (deleteCompany (sv_auth (sa_service S)) member)
       (\<lambda>actorDeleted. answer (ok [(''account_deleted'', JBool actorDeleted)])))"

definition pendingHandler :: "actor \<Rightarrow> id \<Rightarrow> (spaResponse, 'x) eff" where
  "pendingHandler actor companyId = andThen (requireMembershipOf actor companyId ADMIN) (\<lambda>member.
     andThen (pendingInvitationsOf member) (\<lambda>invitations.
       answer (JObj [(''invitations'', JArr (map serializePending invitations))])))"

definition createInvitationHandler :: "'x spa \<Rightarrow> actor \<Rightarrow> id \<Rightarrow> inviteRequest \<Rightarrow> (spaResponse, 'x) eff" where
  "createInvitationHandler S actor companyId r =
     andThen (requireInvite actor companyId (iq_email r) (iq_role r) (iq_redirect_target r)) (\<lambda>grant.
     andThen (createInvitation (sv_auth (sa_service S)) (sv_invitationsEnv (sa_service S))
                (sv_appUrl (sa_service S)) grant)
       (\<lambda>created. answer (serializeInvited created)))"

definition revokeInvitationHandler :: "'x spa \<Rightarrow> actor \<Rightarrow> id \<Rightarrow> id \<Rightarrow> (spaResponse, 'x) eff" where
  "revokeInvitationHandler S actor companyId invitationId =
     andThen (requireMembershipOf actor companyId ADMIN) (\<lambda>member.
       andDo (revokeInvitation (sv_auth (sa_service S)) member invitationId) (answer (ok [])))"

definition acceptInvitationHandler :: "'x spa \<Rightarrow> actor \<Rightarrow> string \<Rightarrow> (spaResponse, 'x) eff" where
  "acceptInvitationHandler S actor token =
     andThen (requireInvitationAccept actor token) (\<lambda>grant.
       case grant of
         Reused companyId \<Rightarrow> answer (ok [(''company_id'', JStr companyId), (''reused'', JBool True)])
       | Proceed g \<Rightarrow> andThen (acceptInvitation (sv_auth (sa_service S)) g)
           (\<lambda>companyId. answer (ok [(''company_id'', JStr companyId)])))"

definition mfaStatusHandler :: "actor \<Rightarrow> (spaResponse, 'x) eff" where
  "mfaStatusHandler actor = andThen (readOwnedMfaStatus actor) (\<lambda>status.
     answer (JObj [(''enabled'', JBool (ms_enabled status)),
                   (''recovery_codes_remaining'', JNum (int (ms_recoveryCodesRemaining status)))]))"

definition enrollHandler :: "'x spa \<Rightarrow> actor \<Rightarrow> (spaResponse, 'x) eff" where
  "enrollHandler S actor = andThen (enroll (sv_auth (sa_service S)) (sv_mfa (sa_service S)) actor) (\<lambda>r.
     answer (JObj [(''totp_uri'', JStr (en_totpUri r)),
                   (''recovery_codes'', JArr (map JStr (en_recoveryCodes r))),
                   (''enrollment_id'', JStr (en_enrollmentId r))]))"

definition activateHandler :: "'x spa \<Rightarrow> headers \<Rightarrow> actor \<Rightarrow> string \<Rightarrow> id \<Rightarrow> (spaResponse, 'x) eff" where
  "activateHandler S h actor code enrollmentId =
     andThen (activate (sv_auth (sa_service S)) (sv_mfa (sa_service S)) actor h enrollmentId code)
       (\<lambda>sessionChanges. answerForwarding sessionChanges (ok []))"

definition disableHandler :: "'x spa \<Rightarrow> headers \<Rightarrow> actor \<Rightarrow> string \<Rightarrow> mfa_code_kind \<Rightarrow> (spaResponse, 'x) eff" where
  "disableHandler S h actor code kind =
     andThen (disable (sv_auth (sa_service S)) (sv_mfa (sa_service S)) actor h code kind)
       (\<lambda>sessionChanges. answerForwarding sessionChanges (ok []))"

definition challengeStateHandler :: "'x spa \<Rightarrow> headers \<Rightarrow> (spaResponse, 'x) eff" where
  "challengeStateHandler S h =
     andThen (readLoginChallengeState (sv_auth (sa_service S)) (sv_mfa (sa_service S)) h)
       (\<lambda>pending. answer (JObj [(''pending'', JBool pending)]))"

definition challengeVerifyHandler :: "'x spa \<Rightarrow> headers \<Rightarrow> string \<Rightarrow> mfa_code_kind \<Rightarrow> (spaResponse, 'x) eff" where
  "challengeVerifyHandler S h code kind =
     andThen (completeLoginChallenge (sv_auth (sa_service S)) (sv_mfa (sa_service S)) h code kind)
       (\<lambda>r. answerForwarding (cp_forwardedHeaders r) (JObj [(''redirect_url'', JStr (cp_redirectUrl r))]))"

text \<open>\<open>yield* CurrentActor\<close>: the service that \<open>Authenticated\<close> provides.\<close>

definition withActor :: "actor option \<Rightarrow> (actor \<Rightarrow> ('a, 'x) eff) \<Rightarrow> ('a, 'x) eff" where
  "withActor current use = (case current of
     None \<Rightarrow> dieWith (ThrownError ''Service not found: taimei/CurrentActor'') | Some actor \<Rightarrow> use actor)"

fun spaHandler :: "'x spa \<Rightarrow> headers \<Rightarrow> spa_call \<Rightarrow> actor option \<Rightarrow> (spaResponse, 'x) eff" where
  "spaHandler S h GetMemberships a = withActor a (\<lambda>u. dieOnBoundary (membershipsHandler u))"
| "spaHandler S h (SwitchCompany c) a = withActor a (\<lambda>u. dieOnBoundary (switchCompanyHandler S u c))"
| "spaHandler S h DeleteOwnAccount a = withActor a (\<lambda>u. dieOnBoundary (deleteAccountHandler S u))"
| "spaHandler S h (GetAvatarToken p) a = withActor a (\<lambda>u. avatarUploadTokenHandler S u p)"
| "spaHandler S h (ListMembers c) a = withActor a (\<lambda>u. dieOnBoundary (listHandler u c))"
| "spaHandler S h (SetRole c t r) a = withActor a (\<lambda>u. dieOnBoundary (changeRoleHandler S u c t r))"
| "spaHandler S h (Remove c t) a = withActor a (\<lambda>u. dieOnBoundary (removeHandler S u c t))"
| "spaHandler S h (Transfer c t) a = withActor a (\<lambda>u. dieOnBoundary (transferOwnershipHandler S u c t))"
| "spaHandler S h (CreateCompany n oc) a = withActor a (\<lambda>u. dieOnBoundary (createCompanyHandler S u n oc))"
| "spaHandler S h (AddAnotherCompany n oc) a = withActor a (\<lambda>u. dieOnBoundary (addCompanyHandler S u n oc))"
| "spaHandler S h (UpdateCompany c n oc) a = withActor a (\<lambda>u. dieOnBoundary (updateCompanyHandler S u c n oc))"
| "spaHandler S h (RemoveCompany c) a = withActor a (\<lambda>u. dieOnBoundary (deleteCompanyHandler S u c))"
| "spaHandler S h (ListPending c) a = withActor a (\<lambda>u. dieOnBoundary (pendingHandler u c))"
| "spaHandler S h (Invite c r) a = withActor a (\<lambda>u. dieOnBoundary (createInvitationHandler S u c r))"
| "spaHandler S h (RevokeInvite c i) a = withActor a (\<lambda>u. dieOnBoundary (revokeInvitationHandler S u c i))"
| "spaHandler S h (AcceptInvite t) a = withActor a (\<lambda>u. dieOnBoundary (acceptInvitationHandler S u t))"
| "spaHandler S h GetMfaStatus a = withActor a (\<lambda>u. dieOnBoundary (mfaStatusHandler u))"
| "spaHandler S h EnrollTotp a = withActor a (\<lambda>u. dieOnBoundary (enrollHandler S u))"
| "spaHandler S h (ActivateTotp c i) a = withActor a (\<lambda>u. dieOnBoundary (activateHandler S h u c i))"
| "spaHandler S h (DisableTotp c k) a = withActor a (\<lambda>u. dieOnBoundary (disableHandler S h u c k))"
| "spaHandler S h GetChallengeState a = dieOnBoundary (challengeStateHandler S h)"
| "spaHandler S h (VerifyChallenge c k) a = dieOnBoundary (challengeVerifyHandler S h c k)"

section \<open>The middleware\<close>

definition hexByte :: "nat \<Rightarrow> string" where
  "hexByte b = padStart 2 (CHR ''0'') (if b < 16 then [hexDigit b] else [hexDigit (b div 16), hexDigit (b mod 16)])"

definition sha256Hex :: "(string \<Rightarrow> nat list) \<Rightarrow> string \<Rightarrow> string" where
  "sha256Hex sha256 s = concat (map hexByte (sha256 s))"

definition mfaAttemptSubject :: "(string \<Rightarrow> nat list) \<Rightarrow> headers \<Rightarrow> string \<Rightarrow> string" where
  "mfaAttemptSubject sha256 h fallbackIp = (case sessionCookieOf h of
     None \<Rightarrow> ''ip:'' @ fallbackIp
   | Some sessionToken \<Rightarrow> ''session:'' @ sha256Hex sha256 sessionToken)"

definition budgetMiddleware ::
    "attemptBudget \<Rightarrow> (headers \<Rightarrow> string \<Rightarrow> string) \<Rightarrow> headers \<Rightarrow> ('a, 'x) eff \<Rightarrow> ('a, 'x) eff" where
  "budgetMiddleware budget subjectOf h httpEffect =
     andDo (spendAttemptBudgetOrRateLimited budget (subjectOf h (cc_ip (getClientContext (Some h))))) httpEffect"

fun withMiddleware :: "'x spa \<Rightarrow> headers \<Rightarrow> spa_middleware list \<Rightarrow> (actor option \<Rightarrow> ('a, 'x) eff) \<Rightarrow>
    actor option \<Rightarrow> ('a, 'x) eff" where
  "withMiddleware S h [] run current = run current"
| "withMiddleware S h (Authenticated # ms) run current =
    andThen (requireActor (sv_auth (sa_service S)) h) (\<lambda>actor. withMiddleware S h ms run (Some actor))"
| "withMiddleware S h (MfaChangeBudget # ms) run current =
    budgetMiddleware mfaChangePerSession (mfaAttemptSubject (sa_sha256 S)) h (withMiddleware S h ms run current)"
| "withMiddleware S h (ChallengeStateBudget # ms) run current =
    budgetMiddleware mfaChallengeStatePerIp (\<lambda>h ip. ip) h (withMiddleware S h ms run current)"
| "withMiddleware S h (ChallengeVerifyBudget # ms) run current =
    budgetMiddleware mfaChallengeVerifyPerIp (\<lambda>h ip. ip) h (withMiddleware S h ms run current)"

definition serveSpa :: "'x spa \<Rightarrow> headers \<Rightarrow> spa_call \<Rightarrow> (spaResponse, 'x) eff" where
  "serveSpa S h call = withMiddleware S h (spaMiddleware (endpointOf call)) (spaHandler S h call) None"

end
