(* ===== verification/SpaProperties.thy ===== *)
theory SpaProperties
  imports SpaHandlers Demo
begin

text \<open>
  What the HTTP API as a whole guarantees: a request only fails with what its endpoint declares, it runs for a
  signed-in user or not at all, and it moves the database only as the operations of the service do, so that every
  invariant of the service holds of what the API reaches.
\<close>

section \<open>Staying reachable\<close>

definition serves :: "'x service \<Rightarrow> ('a, 'x) eff \<Rightarrow> bool" where
  "serves K m \<longleftrightarrow> (\<forall>w. reachable K w \<longrightarrow> reachable K (snd (m w)))"

named_theorems serves_intros \<open>structural rules for programs that move the database as the service does\<close>

lemma servesD: "serves K m \<Longrightarrow> m w = (r, w') \<Longrightarrow> reachable K w \<Longrightarrow> reachable K w'"
  by (auto simp: serves_def dest: spec[of _ w])

lemma serves_keeps: "keeps w_db m \<Longrightarrow> serves K m"
  by (auto simp: serves_def keeps_def intro: reachable.step service_step.elsewhere)

lemma serves_perform: "serves K (perform K op)"
  unfolding serves_def using performs reachable.step by blast

lemma serves_unmap: "serves K (mapEff f m) \<Longrightarrow> serves K m"
proof -
  have "snd (mapEff f m w) = snd (m w)" for w
    by (auto simp: mapEff_def andThen_def succeed_def split: prod.splits sum.splits)
  then show "serves K (mapEff f m) \<Longrightarrow> serves K m" by (simp add: serves_def)
qed

lemma serves_andThen [serves_intros]:
  assumes "serves K m" "\<And>a. serves K (f a)" shows "serves K (andThen m f)"
  unfolding serves_def
proof (intro allI impI)
  fix w assume w: "reachable K w"
  obtain r w1 where m: "m w = (r, w1)" by fastforce
  have "reachable K w1" using assms(1) m w by (rule servesD)
  then have "reachable K (snd (f a w1))" for a using assms(2) by (simp add: serves_def)
  with \<open>reachable K w1\<close> show "reachable K (snd (andThen m f w))" by (cases r) (simp_all add: andThen_def m)
qed

lemma serves_catchIf [serves_intros]:
  assumes "serves K m" "\<And>e. serves K (h e)" shows "serves K (catchIf P h m)"
  unfolding serves_def
proof (intro allI impI)
  fix w assume w: "reachable K w"
  obtain r w1 where m: "m w = (r, w1)" by fastforce
  have "reachable K w1" using assms(1) m w by (rule servesD)
  then have "reachable K (snd (h e w1))" for e using assms(2) by (simp add: serves_def)
  with \<open>reachable K w1\<close> show "reachable K (snd (catchIf P h m w))"
    by (auto simp: catchIf_def m split: sum.splits reason.splits)
qed

lemma serves_basic [serves_intros]: "serves K (succeed a)" "serves K (dieWith d)" "serves K (answer j)"
    "serves K (answerForwarding hs j)"
  by (intro serves_keeps; (intro keeps_intros | simp add: answer_def answerForwarding_def keeps_succeed))+

lemma serves_dieOnBoundary [serves_intros]: "serves K m \<Longrightarrow> serves K (dieOnBoundary m)"
  unfolding dieOnBoundary_def by (intro serves_intros)

lemma serves_withActor [serves_intros]: "(\<And>a. serves K (f a)) \<Longrightarrow> serves K (withActor c f)"
  by (cases c) (simp_all add: withActor_def serves_intros)

lemma serves_operations [serves_intros]:
  fixes K :: "'x service"
  shows "serves K (switchCurrentCompany (sv_auth K) u c)" "serves K (deleteAccountUnlessLastOwner (sv_auth K) u)"
    "serves K (changeRole (sv_auth K) cg)" "serves K (removeMember (sv_auth K) rg)"
    "serves K (transferOwnership (sv_auth K) tg)" "serves K (createSignupCompany (sv_auth K) u n oc)"
    "serves K (addCompany (sv_auth K) u n oc)" "serves K (updateCompanyInfo (sv_auth K) m n oc)"
    "serves K (deleteCompany (sv_auth K) m)"
    "serves K (createInvitation (sv_auth K) (sv_invitationsEnv K) (sv_appUrl K) ig)"
    "serves K (revokeInvitation (sv_auth K) m i)" "serves K (acceptInvitation (sv_auth K) ag)"
    "serves K (enroll (sv_auth K) (sv_mfa K) a)" "serves K (activate (sv_auth K) (sv_mfa K) a h e code)"
    "serves K (disable (sv_auth K) (sv_mfa K) a h code kind)"
    "serves K (completeLoginChallenge (sv_auth K) (sv_mfa K) h code kind)"
  using serves_perform[of K "SwitchCurrentCompany u c"] serves_perform[of K "DeleteAccount u"]
    serves_perform[of K "ChangeRole cg"] serves_perform[of K "RemoveMember rg"]
    serves_perform[of K "TransferOwnership tg"] serves_perform[of K "CreateSignupCompany u n oc"]
    serves_perform[of K "AddCompany u n oc"] serves_perform[of K "UpdateCompanyInfo m n oc"]
    serves_perform[of K "DeleteCompany m"] serves_perform[of K "CreateInvitation ig"]
    serves_perform[of K "RevokeInvitation m i"] serves_perform[of K "AcceptInvitation ag"]
    serves_perform[of K "EnrollMfa a"] serves_perform[of K "ActivateMfa a h e code"]
    serves_perform[of K "DisableMfa a h code kind"] serves_perform[of K "CompleteLoginChallenge h code kind"]
  by (simp_all) (erule serves_unmap)+

text \<open>What is relied on of the blob store: asking it for an upload token does not write the tables.\<close>

definition spa_frame :: "'x spa \<Rightarrow> bool" where
  "spa_frame S \<longleftrightarrow> service_frame (sa_service S) \<and> (\<forall>p u w. w_db (snd (sa_handleUpload S p u w)) = w_db w)"

lemma keeps_avatarUploadToken: "spa_frame S \<Longrightarrow> keeps w_db (avatarUploadTokenHandler S u p)"
  unfolding keeps_def avatarUploadTokenHandler_def spa_frame_def
  by (auto simp: answer_def succeed_def split: prod.splits sum.splits uploadResult.splits) (metis snd_conv)+

lemma keeps_spend [keeps_intros]: "keeps w_db (spendAttemptBudgetOrRateLimited b s)"
  unfolding spendAttemptBudgetOrRateLimited_def spendAttemptBudgetFailOpen_def by (intro keeps_intros)

lemma keeps_requireActor [keeps_intros]: "auth_frame A \<Longrightarrow> keeps w_db (requireActor A h)"
  unfolding requireActor_def failClosedAsUnauthorized_def
  by (intro keeps_intros) (auto intro!: keeps_intros split: session_status.splits)

lemma keeps_spa_queries [keeps_intros]:
  "keeps w_db (activeMembershipsOf u)" "keeps w_db (listMembers m)" "keeps w_db (pendingInvitationsOf m)"
  unfolding activeMembershipsOf_def listMembers_def pendingInvitationsOf_def by (intro keeps_intros)+

lemma serves_spaHandler:
  assumes "spa_frame S" shows "serves (sa_service S) (spaHandler S h call a)"
proof -
  have accept: "serves (sa_service S) (acceptInvitationHandler S u t)" for u t
    unfolding acceptInvitationHandler_def
    by (intro serves_andThen serves_keeps[OF keeps_guards(7)])
      (auto intro!: serves_intros split: invitationAcceptGrant.splits)
  show ?thesis
    by (cases call)
      (simp_all add: membershipsHandler_def switchCompanyHandler_def deleteAccountHandler_def listHandler_def
        changeRoleHandler_def removeHandler_def transferOwnershipHandler_def createCompanyHandler_def
        addCompanyHandler_def updateCompanyHandler_def deleteCompanyHandler_def pendingHandler_def
        createInvitationHandler_def revokeInvitationHandler_def mfaStatusHandler_def
        enrollHandler_def activateHandler_def disableHandler_def challengeStateHandler_def
        challengeVerifyHandler_def,
      (intro serves_intros accept serves_keeps[OF keeps_avatarUploadToken[OF assms]]; rule serves_keeps, intro keeps_intros)+)
qed

lemma serves_middleware:
  assumes "spa_frame S" "\<And>a. serves (sa_service S) (run a)"
  shows "serves (sa_service S) (withMiddleware S h ms run a)"
proof -
  have "auth_frame (sv_auth (sa_service S))" using assms(1) by (simp add: spa_frame_def service_frame_def)
  note actor = serves_keeps[OF keeps_requireActor[OF this]]
  have "serves (sa_service S) (withMiddleware S h (m # ms) run a)"
    if "\<And>b. serves (sa_service S) (withMiddleware S h ms run b)" for m ms a
    using that by (cases m) (simp_all add: budgetMiddleware_def actor serves_andThen serves_keeps[OF keeps_spend])
  then show ?thesis by (induction ms arbitrary: a) (simp_all add: assms(2))
qed

section \<open>Failures of the second factor\<close>

lemma raises_crypto [raises_intros]:
  "raises E (mfaKeyring L)" "raises E (encryptValue L ring p u)" "raises E (decryptValue L ring v u)"
  "raises E (decryptText L ring v u)" "raises E (generateTotpSecret L)" "raises E (generateRecoveryCodes n)"
  by (auto simp: raises_def mfaKeyring_def encryptValue_def decryptText_def decryptValue_def importAesKey_def
      generateTotpSecret_def generateRecoveryCodes_def run_simps split: option.splits)

lemma raises_basic [raises_intros]: "raises E (succeed a)" "e \<in> E \<Longrightarrow> raises E (failWith e)" "raises E currentTimeMillis"
  by (rule raises_throws; intro throws_intros; assumption)+

lemma raises_collectEff [raises_intros]: "(\<And>x. raises E (f x)) \<Longrightarrow> raises E (collectEff f xs)"
  by (induction xs) (auto intro: raises_intros)

lemma throws_collectEff [throws_intros]: "(\<And>x. throws E (f x)) \<Longrightarrow> throws E (collectEff f xs)"
  by (induction xs) (auto intro: throws_intros)

lemma throws_insertEnrollment: "DbError \<in> E \<Longrightarrow> throws E (insertEnrollment u e s cs)"
  unfolding insertEnrollment_def newRecoveryCodeRow_def case_prod_unfold by (intro throws_intros; assumption)

lemma raises_firstMatching: "InvalidCode \<in> E \<Longrightarrow> raises E (firstMatching L ring u code cs)"
  by (induction cs) (auto intro!: raises_intros)

lemma raises_matchOwnedCode:
  "{DbError, NotEnabled, InvalidCode} \<subseteq> E \<Longrightarrow> raises E (matchOwnedCode L u code kind)"
  unfolding matchOwnedCode_def
  by (intro raises_intros raises_firstMatching; (rule raises_throws, intro throws_intros)?) auto

lemma raises_replay: "{DbError, AlreadyEnabled} \<subseteq> E \<Longrightarrow> raises E (replayPendingEnrollment L a row)"
  unfolding replayPendingEnrollment_def
  by (intro raises_intros; (rule raises_throws, intro throws_intros)?) auto

lemma raises_enroll: "{DbError, AlreadyEnabled, ChallengeExpired} \<subseteq> E \<Longrightarrow> raises E (enroll A L a)"
  unfolding enroll_def
  by (intro raises_intros raises_replay raises_throws[OF throws_transaction] throws_insertEnrollment;
      (rule raises_throws, intro throws_intros)?) auto

lemma throws_revokeOthers [throws_intros]:
  assumes "AuthApiError \<in> E" "Unauthorized \<in> E" shows "throws E (revokeOtherSessionsOrUnauthorized A h)"
proof -
  have "throws {SessionRejected, AuthApiError} (revokeOtherSessions A h)"
    by (auto simp: throws_def revokeOtherSessions_def split: prod.splits sum.splits if_splits)
  then show ?thesis unfolding revokeOtherSessionsOrUnauthorized_def
    by (rule throws_catchIf) (use assms in \<open>auto intro: throws_intros\<close>)
qed

lemma throws_notify [throws_intros]: "throws E (notifyMfaEnabled e)" "throws E (notifyMfaDisabled e)"
  unfolding notifyMfaEnabled_def notifyMfaDisabled_def by (intro throws_intros)+

lemma raises_activate:
  "{DbError, AuthApiError, Unauthorized, InvalidCode, EnrollmentChanged, AlreadyEnabled, MfaNotFound} \<subseteq> E \<Longrightarrow>
    raises E (activate A L a h i code)"
  unfolding activate_def Let_def
  by (intro raises_intros; (rule raises_throws, intro throws_intros)?) auto

lemma throws_consumeMatchedCode: "{DbError, InvalidCode} \<subseteq> E \<Longrightarrow> throws E (consumeMatchedCode u m)"
  unfolding consumeMatchedCode_def by (cases m; simp; intro throws_intros; auto)

lemma throws_spendDisable: assumes "Locked \<in> E" shows "throws E (spendDisableAttempt u)"
proof -
  have "throws {AttemptBudgetUnavailable, AttemptBudgetExhausted}
      (mapEff (\<lambda>_. ()) (spendAttemptBudgetFailClosed mfaDisablePerUser u))"
    by (intro throws_intros) auto
  then show ?thesis unfolding spendDisableAttempt_def
    by (rule throws_catchIf) (use assms in \<open>auto intro: throws_intros\<close>)
qed

lemma throws_resetDisable: "throws E (resetDisableAttempts u)"
proof -
  have "throws {TtlStoreError} (ttlDelete (disableAttemptsKey u))" by (intro throws_intros) simp
  then show ?thesis unfolding resetDisableAttempts_def by (rule throws_catchIf) (auto intro: throws_intros)
qed

lemma throws_disableEnrollment: "DbError \<in> E \<Longrightarrow> throws E (disableEnrollment A u ip ua)"
  unfolding disableEnrollment_def deleteEnrollment_def by (intro throws_intros; assumption)

lemma raises_disable:
  "{DbError, AuthApiError, Unauthorized, InvalidCode, Locked, NotEnabled} \<subseteq> E \<Longrightarrow> raises E (disable A L a h code kind)"
  unfolding disable_def Let_def
  by (intro raises_intros raises_matchOwnedCode raises_throws[OF throws_spendDisable]
      raises_throws[OF throws_resetDisable] raises_throws[OF throws_disableEnrollment]
      raises_throws[OF throws_consumeMatchedCode];
      (rule raises_throws, intro throws_intros)?) auto

section \<open>Failures of the login challenge\<close>

lemma throws_peek: "TtlStoreError \<in> E \<Longrightarrow> throws E (peekLoginChallenge A L h)"
  unfolding peekLoginChallenge_def by (intro throws_intros; assumption)

lemma throws_expire: assumes "ChallengeExpired \<in> E" shows "throws E (expireLoginChallenge c)"
proof -
  have "throws {TtlStoreError} (ttlDelete (challengeKey c))" by (intro throws_intros) simp
  then have "throws E (catchIf (\<lambda>e. e = TtlStoreError) (\<lambda>_. captureCause ''mfa-login-challenge'') (ttlDelete (challengeKey c)))"
    by (rule throws_catchIf) (auto intro: throws_intros)
  then show ?thesis unfolding expireLoginChallenge_def using assms by (intro throws_intros)
qed

lemma throws_spendChallenge:
  assumes "ChallengeExpired \<in> E" "Locked \<in> E" shows "throws E (spendLoginChallengeAttempt c)"
proof -
  have "throws {AttemptBudgetUnavailable, AttemptBudgetExhausted} (spendAttemptBudgetFailClosed mfaLoginChallenge c)"
    by (intro throws_intros) auto
  then show ?thesis unfolding spendLoginChallengeAttempt_def
    by (rule throws_catchIf) (use assms in \<open>auto intro: throws_intros throws_expire\<close>)
qed

lemma raises_completeLoginChallenge:
  assumes "{DbError, AuthApiError, TtlStoreError, InvalidCode, Locked, ChallengeExpired} \<subseteq> E"
  shows "raises E (completeLoginChallenge A L h code kind)"
proof -
  have match: "raises E (catchIf (\<lambda>e. e = NotEnabled \<or> e = InvalidCode)
      (\<lambda>e. if e = NotEnabled then failWith ChallengeExpired else rejectWrongCode c n) (matchOwnedCode L u code kind))" for c n u
    by (rule raises_catchIf[where E' = "{DbError, NotEnabled, InvalidCode}"])
      (use assms in \<open>auto simp: rejectWrongCode_def intro!: raises_matchOwnedCode raises_intros
        raises_throws[OF throws_expire]\<close>)
  have issue: "throws E (issueSession A u)" for u
    unfolding issueSession_def by (rule throws_andThen, intro throws_intros, rule throws_andThen, intro throws_intros)
      (use assms in \<open>auto simp: Let_def intro: throws_intros split: prod.splits\<close>)
  show ?thesis
    unfolding completeLoginChallenge_def consumeLoginChallenge_def
    by (intro raises_intros match raises_throws[OF throws_peek] raises_throws[OF throws_spendChallenge]
        raises_throws[OF throws_consumeMatchedCode] raises_throws[OF issue];
        (rule raises_throws, intro throws_intros)?) (use assms in auto)
qed

section \<open>Failures of the API\<close>

lemma boundaries: "Collect isBoundaryError = {DbError, AuthApiError, TtlStoreError, EmailError}"
  by (auto simp: isBoundaryError_def)

lemma raises_withActor: "(\<And>u. raises E (f u)) \<Longrightarrow> raises E (withActor a f)"
  by (cases a) (simp_all add: withActor_def raises_dieWith)

lemma raises_answer [raises_intros]: "raises E (answer j)" "raises E (answerForwarding hs j)"
  by (simp_all add: answer_def answerForwarding_def raises_basic)

lemma raises_upload: "raises E (avatarUploadTokenHandler S u p)"
  by (auto simp: raises_def avatarUploadTokenHandler_def answer_def run_simps
      split: prod.splits sum.splits uploadResult.splits)

lemma throws_reads [throws_intros]:
  assumes "DbError \<in> E" shows "throws E (readOwnedMfaStatus a)" "throws E (activeMembershipsOf u)"
    "throws E (listMembers m)"
  unfolding readOwnedMfaStatus_def Let_def activeMembershipsOf_def listMembers_def by (intro throws_intros assms)+

lemma throws_challengeState: "TtlStoreError \<in> E \<Longrightarrow> throws E (readLoginChallengeState A L h)"
  unfolding readLoginChallengeState_def by (intro throws_intros throws_peek)

lemma raises_accept: "{DbError, NotFound, EmailMismatch, ExpiredOrUsed} \<subseteq> E \<Longrightarrow> raises E (acceptInvitationHandler S u t)"
  unfolding acceptInvitationHandler_def
  by (rule raises_andThen, rule raises_throws, intro throws_intros)
    (auto intro!: raises_intros raises_throws[OF throws_invitation_ops(3)] split: invitationAcceptGrant.splits)

lemma spa_handler_errors: "raises (spaErrors (endpointOf call)) (spaHandler S h call a)"
  by (cases call)
    (simp_all add: membershipsHandler_def switchCompanyHandler_def deleteAccountHandler_def listHandler_def
        changeRoleHandler_def removeHandler_def transferOwnershipHandler_def createCompanyHandler_def
        addCompanyHandler_def updateCompanyHandler_def deleteCompanyHandler_def pendingHandler_def
        createInvitationHandler_def revokeInvitationHandler_def mfaStatusHandler_def
        enrollHandler_def activateHandler_def disableHandler_def challengeStateHandler_def
        challengeVerifyHandler_def spaErrors_def,
      (intro raises_withActor raises_dieOnBoundary raises_accept raises_upload raises_andThen raises_answer
        raises_enroll raises_activate raises_disable raises_completeLoginChallenge
        raises_throws[OF throws_challengeState];
        (rule raises_throws, intro throws_intros)?; simp add: boundaries)+)

lemma spa_middleware_errors:
  assumes "\<And>a. raises E (run a)" "middlewareFailure ` set ms \<subseteq> E"
  shows "raises E (withMiddleware S h ms run a)"
  using assms(2)
proof (induction ms arbitrary: a)
  case (Cons m ms)
  then show ?case
    by (cases m) (auto simp: budgetMiddleware_def intro!: raises_andThen raises_throws[OF throws_requireActor]
        raises_throws[OF throws_spendOrRateLimited])
qed (simp add: assms(1))

lemma requireActor_success:
  assumes "requireActor A h w = (Inr a, w')"
  shows "\<exists>s u. checkSession A h w = (Inr (Active s u), w') \<and>
    a = \<lparr>ac_id = us_id u, ac_email = us_email u, ac_lastUsedCompanyId = us_lastUsedCompanyId u\<rparr>"
proof -
  from assms obtain status w1 where c: "checkSession A h w = (Inr status, w1)"
    and rest: "(case status of Active s u \<Rightarrow> succeed \<lparr>ac_id = us_id u, ac_email = us_email u,
      ac_lastUsedCompanyId = us_lastUsedCompanyId u\<rparr> | _ \<Rightarrow> failWith Unauthorized) w1 = (Inr a, w')"
    by (auto simp: requireActor_def failClosedAsUnauthorized_def catchIf_runs andThen_runs failWith_runs)
  from rest obtain s u where "status = Active s u" by (cases status) (auto simp: failWith_runs)
  with c rest show ?thesis by (auto simp: succeed_runs)
qed

text \<open>
  C24: A request to the HTTP API fails only with a failure its endpoint declares in the contract; whatever else goes
  wrong - the database, better-auth, the store - ends as a defect.
\<close>

theorem spa_fails_as_declared: "raises (spaErrors (endpointOf call)) (serveSpa S h call)"
  unfolding serveSpa_def by (rule spa_middleware_errors, rule spa_handler_errors) (auto simp: spaErrors_def)

text \<open>
  C5: The API moves the database only as the operations of the service do: from a reachable state every request,
  with any payload and however it ends, leads to a reachable state, so that the invariants of the service hold
  of everything the API does.
\<close>

theorem spa_stays_reachable:
  assumes "spa_frame S" "reachable (sa_service S) w" "serveSpa S h call w = (r, w')"
  shows "reachable (sa_service S) w' \<and> companyInv (w_db w') \<and> wf_db (w_db w') \<and> invitationColumns (w_db w')"
proof -
  have "serves (sa_service S) (serveSpa S h call)"
    unfolding serveSpa_def by (rule serves_middleware[OF assms(1) serves_spaHandler[OF assms(1)]])
  from servesD[OF this assms(3,2)] have "reachable (sa_service S) w'" .
  moreover have "service_frame (sa_service S)" using assms(1) by (simp add: spa_frame_def)
  ultimately show ?thesis using ownership.always schema.always invitations.always by blast
qed

definition demoSpa :: "unit spa" where
  "demoSpa = \<lparr>sa_service = demoService, sa_sha256 = map of_char,
     sa_handleUpload = (\<lambda>p u w. (Inr (ClientToken (uo_tokenPayload u)), w))\<rparr>"

lemma demoSpa_frame: "spa_frame demoSpa"
  by (simp add: spa_frame_def demoSpa_def)

theorem spa_stays_reachable_witness:
  "reachable demoService (snd (serveSpa demoSpa [(''user'', ''ann'')] (AddAnotherCompany ''Beta'' PERSONAL) foundedWorld))"
proof -
  have "reachable (sa_service demoSpa) foundedWorld" using reachable_foundedWorld by (simp add: demoSpa_def)
  from spa_stays_reachable[OF demoSpa_frame this surjective_pairing] show ?thesis by (simp add: demoSpa_def)
qed

text \<open>
  C6: The API fails closed: unless better-auth vouches for a session and its user has a row, a request to an
  endpoint that needs a signed-in user is answered with Unauthorized and the database is as it was - also when the
  check itself fails.
\<close>

theorem spa_requires_session:
  assumes "Authenticated \<in> set (spaMiddleware (endpointOf call))" "auth_frame (sv_auth (sa_service S))"
    and "\<nexists>s u w1. checkSession (sv_auth (sa_service S)) h w = (Inr (Active s u), w1)"
  shows "\<exists>w'. serveSpa S h call w = (Inl (Fail Unauthorized), w') \<and> w_db w' = w_db w"
proof -
  obtain ms where ms: "spaMiddleware (endpointOf call) = Authenticated # ms"
    using assms(1) by (cases "endpointOf call") auto
  obtain r w' where run: "requireActor (sv_auth (sa_service S)) h w = (r, w')" by fastforce
  have "r = Inl (Fail Unauthorized)"
  proof (cases r)
    case (Inl e)
    with throwsD[OF throws_requireActor[of "{Unauthorized}"]] run show ?thesis by auto
  next
    case (Inr a)
    with requireActor_success run assms(3) show ?thesis by blast
  qed
  moreover have "w_db w' = w_db w" using keeps_requireActor[OF assms(2)] run by (rule keepsD)
  ultimately show ?thesis by (simp add: serveSpa_def ms andThen_def run)
qed

theorem spa_requires_session_witness:
  "\<exists>w'. serveSpa demoSpa [(''user'', ''eve'')] DeleteOwnAccount demoWorld = (Inl (Fail Unauthorized), w') \<and>
    w_db w' = demoDb"
proof -
  have out: "fst (checkSession demoAuth [(''user'', ''eve'')] demoWorld) = Inr UserDeleted" by code_simp
  have "\<nexists>s u w1. checkSession (sv_auth (sa_service demoSpa)) [(''user'', ''eve'')] demoWorld = (Inr (Active s u), w1)"
    using out by (auto simp: demoSpa_def demoService_def)
  from spa_requires_session[OF _ _ this, of DeleteOwnAccount]
  show ?thesis using demoService_frame by (simp add: demoSpa_def service_frame_def)
qed

end
