(* ===== verification/Rpc.thy ===== *)
theory Rpc
  imports SpaContract
begin

text \<open>
  \<open>src/rpc/auth-handler.ts\<close>, \<open>company-handler.ts\<close>, \<open>user-handler.ts\<close> and \<open>mappers.ts\<close>: what consumers ask of the
  auth host. A message of the protocol is a record, its \<open>outcome\<close> a sum; an absent optional field is \<open>None\<close>.
\<close>

section \<open>Messages\<close>

datatype proto_result = RESULT_UNSPECIFIED | RESULT_OK | RESULT_SESSION_NOT_FOUND | RESULT_SESSION_EXPIRED
  | RESULT_USER_DELETED | RESULT_USER_LOCKED | RESULT_REVOKED | RESULT_REVISION_OUTDATED

datatype proto_role = ROLE_UNSPECIFIED | ROLE_OWNER | ROLE_ADMIN | ROLE_MEMBER

datatype proto_company_status = STATUS_UNSPECIFIED | STATUS_ACTIVE | STATUS_DELETED | STATUS_NOT_FOUND

record protoUser =
  pu_id :: id
  pu_name :: string
  pu_email :: string
  pu_emailVerified :: bool
  pu_image :: "string option"
  pu_createdAt :: string
  pu_updatedAt :: string
  pu_revision :: nat
  pu_defaultCompanyId :: "id option"

record protoSession =
  ps_id :: id
  ps_expiresAt :: string
  ps_sessionKind :: string
  ps_companyId :: "id option"

record protoCompanyMember =
  pm_userId :: id
  pm_name :: string
  pm_email :: string
  pm_role :: proto_role

datatype 'a outcome = OutcomeOk 'a | OutcomeError proto_result | OutcomeUnset

record verifySessionOk =
  vs_user :: "protoUser option"
  vs_session :: "protoSession option"
  vs_currentRole :: "proto_role option"

record getSessionOk = verifySessionOk +
  gs_members :: "protoCompanyMember list"

record listMembersOk =
  lm_companyId :: "id option"
  lm_members :: "protoCompanyMember list"

section \<open>Mappers\<close>

fun toProtoRole :: "role \<Rightarrow> proto_role" where
  "toProtoRole OWNER = ROLE_OWNER"
| "toProtoRole ADMIN = ROLE_ADMIN"
| "toProtoRole MEMBER = ROLE_MEMBER"

fun toProtoCompanyActivationStatus :: "activation_status \<Rightarrow> proto_company_status" where
  "toProtoCompanyActivationStatus ACTIVE = STATUS_ACTIVE"
| "toProtoCompanyActivationStatus DELETED = STATUS_DELETED"

definition toProtoCompanyMember :: "memberRow \<Rightarrow> protoCompanyMember" where
  "toProtoCompanyMember row = \<lparr>pm_userId = mr_userId row, pm_name = mr_userName row,
     pm_email = mr_userEmail row, pm_role = toProtoRole (mr_role row)\<rparr>"

definition toProtoUser :: "user \<Rightarrow> protoUser" where
  "toProtoUser u = \<lparr>pu_id = us_id u, pu_name = us_name u, pu_email = us_email u,
     pu_emailVerified = us_emailVerified u, pu_image = us_image u,
     pu_createdAt = toISOString (us_createdAt u), pu_updatedAt = toISOString (us_updatedAt u),
     pu_revision = us_revision u, pu_defaultCompanyId = us_lastUsedCompanyId u\<rparr>"

definition toProtoSession :: "auth_session_row \<Rightarrow> protoSession" where
  "toProtoSession s = \<lparr>ps_id = sr_id s, ps_expiresAt = toISOString (sr_expiresAt s),
     ps_sessionKind = ''user'', ps_companyId = None\<rparr>"

section \<open>Sessions\<close>

datatype sessionCheck = Verified user auth_session_row | Rejected proto_result

definition sessionTokenHeaders :: "string \<Rightarrow> headers" where
  "sessionTokenHeaders sessionToken = [(''cookie'', buildSessionCookieHeader sessionToken)]"

definition verifySessionUser :: "'x better_auth \<Rightarrow> string \<Rightarrow> string \<Rightarrow> (sessionCheck, 'x) eff" where
  "verifySessionUser A sessionToken handler =
     (let h = sessionTokenHeaders sessionToken
      in andThen (checkSession A h) (\<lambda>status.
           case status of
             NoSession \<Rightarrow> succeed (Rejected RESULT_SESSION_NOT_FOUND)
           | UserDeleted \<Rightarrow> succeed (Rejected RESULT_USER_DELETED)
           | Active s u \<Rightarrow>
               (case su_revision (the (as_user s)) of
                  Some cachedRevision \<Rightarrow>
                    (if us_revision u \<noteq> cachedRevision
                     then andDo (catchIf (\<lambda>_. True) (\<lambda>_. captureCause handler) (mapEff (\<lambda>_. ()) (signOut A h)))
                            (succeed (Rejected RESULT_REVISION_OUTDATED))
                     else succeed (Verified u (the (as_session s))))
                | None \<Rightarrow> succeed (Verified u (the (as_session s))))))"

definition sessionSeenByConsumer :: "user \<Rightarrow> auth_session_row \<Rightarrow> role option \<Rightarrow> verifySessionOk" where
  "sessionSeenByConsumer u s role = \<lparr>vs_user = Some (toProtoUser u), vs_session = Some (toProtoSession s),
     vs_currentRole = map_option toProtoRole role\<rparr>"

definition verifySessionProgram :: "'x better_auth \<Rightarrow> string \<Rightarrow> (verifySessionOk outcome, 'x) eff" where
  "verifySessionProgram A sessionToken =
     andThen (verifySessionUser A sessionToken ''verifySession'') (\<lambda>check.
       case check of
         Rejected reason \<Rightarrow> succeed (OutcomeError reason)
       | Verified u s \<Rightarrow> andThen (currentRoleOf u) (\<lambda>role. succeed (OutcomeOk (sessionSeenByConsumer u s role))))"

definition listCurrentCompanyMembersProgram :: "'x better_auth \<Rightarrow> string \<Rightarrow> (listMembersOk outcome, 'x) eff" where
  "listCurrentCompanyMembersProgram A sessionToken =
     andThen (verifySessionUser A sessionToken ''listCurrentCompanyMembers'') (\<lambda>check.
       case check of
         Rejected reason \<Rightarrow> succeed (OutcomeError reason)
       | Verified u s \<Rightarrow> andThen (currentCompanyMembersOf u) (\<lambda>current.
           succeed (OutcomeOk (case current of
             None \<Rightarrow> \<lparr>lm_companyId = None, lm_members = []\<rparr>
           | Some c \<Rightarrow> \<lparr>lm_companyId = Some (cm_companyId c),
                         lm_members = map toProtoCompanyMember (cm_members c)\<rparr>))))"

definition getSessionProgram :: "'x better_auth \<Rightarrow> string \<Rightarrow> (getSessionOk outcome, 'x) eff" where
  "getSessionProgram A sessionToken =
     andThen (verifySessionUser A sessionToken ''getSession'') (\<lambda>check.
       case check of
         Rejected reason \<Rightarrow> succeed (OutcomeError reason)
       | Verified u s \<Rightarrow> andThen (currentCompanyMembersOf u) (\<lambda>current.
           succeed (OutcomeOk (verifySessionOk.extend
             (sessionSeenByConsumer u s (map_option cm_callerRole current))
             \<lparr>gs_members = (case current of None \<Rightarrow> [] | Some c \<Rightarrow> map toProtoCompanyMember (cm_members c))\<rparr>))))"

section \<open>Companies and users\<close>

definition boundedId :: "string \<Rightarrow> bool" where
  "boundedId s = isBetweenLength 1 64 s"

definition checkMembershipsRequest :: "id \<Rightarrow> id list \<Rightarrow> bool" where
  "checkMembershipsRequest companyId uids \<longleftrightarrow> boundedId companyId \<and> list_all boundedId uids \<and> length uids \<le> 1000"

record checkMembershipsResponse =
  cm_companyActive :: bool
  cm_companyActivationStatus :: proto_company_status
  cm_memberUserIds :: "id list"

definition checkMembershipsProgram :: "id \<Rightarrow> id list \<Rightarrow> (checkMembershipsResponse, 'x) eff" where
  "checkMembershipsProgram companyId uids =
     (if \<not> checkMembershipsRequest companyId uids then failWith InvalidArgument
      else andThen (findCompanyById companyId) (\<lambda>company.
        let status = (case company of None \<Rightarrow> STATUS_NOT_FOUND
                      | Some c \<Rightarrow> toProtoCompanyActivationStatus (co_activationStatus c));
            companyActive = (status = STATUS_ACTIVE)
        in andThen (if companyActive then findMemberUserIds companyId uids else succeed []) (\<lambda>memberUserIds.
             succeed \<lparr>cm_companyActive = companyActive, cm_companyActivationStatus = status,
                      cm_memberUserIds = memberUserIds\<rparr>)))"

definition findUserByEmailProgram :: "string \<Rightarrow> (protoUser option, 'x) eff" where
  "findUserByEmailProgram email = mapEff (map_option toProtoUser) (findUserByEmail email)"

section \<open>What they answer\<close>

lemma verifySessionUser_Verified:
  assumes "verifySessionUser A t handler w = (Inr (Verified u s), w')"
  shows "\<exists>a. checkSession A (sessionTokenHeaders t) w = (Inr (Active a u), w') \<and> as_session a = Some s \<and>
    (\<forall>r. su_revision (the (as_user a)) = Some r \<longrightarrow> us_revision u = r)"
proof -
  from assms obtain status w1 where c: "checkSession A (sessionTokenHeaders t) w = (Inr status, w1)"
    unfolding verifySessionUser_def Let_def andThen_runs by blast
  from assms c obtain a v where st: "status = Active a v"
    by (cases status) (auto simp: verifySessionUser_def Let_def andThen_runs succeed_runs)
  have "as_session a \<noteq> None" using checkSession_Active c st by blast
  with assms c st show ?thesis
    by (auto simp: verifySessionUser_def Let_def andThen_runs succeed_runs split: option.splits if_splits)
qed

lemma verifySessionUser_Rejected:
  assumes "verifySessionUser A t handler w = (Inr (Rejected r), w')"
  shows "(\<exists>w1. checkSession A (sessionTokenHeaders t) w = (Inr NoSession, w1) \<and> r = RESULT_SESSION_NOT_FOUND) \<or>
    (\<exists>w1. checkSession A (sessionTokenHeaders t) w = (Inr UserDeleted, w1) \<and> r = RESULT_USER_DELETED) \<or>
    (\<exists>a u w1 v. checkSession A (sessionTokenHeaders t) w = (Inr (Active a u), w1) \<and>
       su_revision (the (as_user a)) = Some v \<and> us_revision u \<noteq> v \<and> r = RESULT_REVISION_OUTDATED)"
proof -
  from assms obtain status w1 where c: "checkSession A (sessionTokenHeaders t) w = (Inr status, w1)"
    unfolding verifySessionUser_def Let_def andThen_runs by blast
  with assms show ?thesis
    by (cases status) (auto simp: verifySessionUser_def Let_def andThen_runs succeed_runs split: option.splits if_splits)
qed

lemma toProtoRole_inj: "toProtoRole a = toProtoRole b \<longleftrightarrow> a = b"
  by (cases a; cases b) auto

lemma toProtoRole_specified: "toProtoRole r \<noteq> ROLE_UNSPECIFIED"
  by (cases r) auto

lemma checkMemberships_runs:
  assumes "checkMembershipsProgram c us w = (Inr r, w')"
  shows "checkMembershipsRequest c us \<and> w_db w' = w_db w \<and>
    set (cm_memberUserIds r) \<subseteq> set us \<and>
    (\<forall>u\<in>set (cm_memberUserIds r). \<exists>m\<in>set (d_membership (w_db w)). mb_userId m = u \<and> mb_companyId m = c) \<and>
    (\<forall>u\<in>set us. cm_companyActive r \<longrightarrow>
       (\<exists>m\<in>set (d_membership (w_db w)). mb_userId m = u \<and> mb_companyId m = c) \<longrightarrow> u \<in> set (cm_memberUserIds r)) \<and>
    (\<not> cm_companyActive r \<longrightarrow> cm_memberUserIds r = []) \<and>
    (cm_companyActive r \<longleftrightarrow> cm_companyActivationStatus r = STATUS_ACTIVE)"
  using assms
  by (auto simp: checkMembershipsProgram_def run_simps findMemberUserIds_def Let_def split: if_splits)

end
