(* ===== verification/AuthGuard.thy ===== *)
theory AuthGuard
  imports Rpc
begin

text \<open>
  \<open>packages/auth-client/src/guard.ts\<close> and \<open>types.ts\<close>: the library consumers use. It asks the auth host for session and
  members in one call, and falls back to two calls on hosts that do not have it yet. The client's calls are functions
  on a state of their own; \<open>cache\<close> is the identity, its default.
\<close>

section \<open>What consumers see\<close>

record guardUser =
  gu_id :: id
  gu_name :: string
  gu_email :: string
  gu_emailVerified :: bool
  gu_image :: "string option"
  gu_createdAt :: string
  gu_updatedAt :: string

record guardSession =
  gx_id :: id
  gx_expiresAt :: string
  gx_kind :: string

record sessionData =
  sd_user :: guardUser
  sd_session :: guardSession
  sd_companyId :: "id option"
  sd_role :: "role option"

record guardMember =
  gm_userId :: id
  gm_name :: string
  gm_email :: string
  gm_role :: "role option"

record membersData =
  ml_companyId :: "id option"
  ml_members :: "guardMember list"

datatype 'a guardResult = GuardOk 'a | GuardFailed proto_result

type_synonym sessionAndMembers = "sessionData guardResult \<times> membersData guardResult"

section \<open>Reading answers\<close>

fun roleByProto :: "proto_role \<Rightarrow> role option" where
  "roleByProto ROLE_OWNER = Some OWNER"
| "roleByProto ROLE_ADMIN = Some ADMIN"
| "roleByProto ROLE_MEMBER = Some MEMBER"
| "roleByProto ROLE_UNSPECIFIED = None"

definition toSessionResult ::
    "protoUser option \<Rightarrow> protoSession option \<Rightarrow> proto_role option \<Rightarrow> sessionData guardResult" where
  "toSessionResult user session currentRole =
     (case (user, session) of
        (Some u, Some s) \<Rightarrow> GuardOk
          \<lparr>sd_user = \<lparr>gu_id = pu_id u, gu_name = pu_name u, gu_email = pu_email u, gu_emailVerified = pu_emailVerified u,
                      gu_image = pu_image u, gu_createdAt = pu_createdAt u, gu_updatedAt = pu_updatedAt u\<rparr>,
           sd_session = \<lparr>gx_id = ps_id s, gx_expiresAt = ps_expiresAt s, gx_kind = ''user''\<rparr>,
           sd_companyId = (case ps_companyId s of Some c \<Rightarrow> Some c | None \<Rightarrow> pu_defaultCompanyId u),
           sd_role = (case currentRole of None \<Rightarrow> None | Some r \<Rightarrow> roleByProto r)\<rparr>
      | _ \<Rightarrow> GuardFailed RESULT_UNSPECIFIED)"

definition toMembers :: "protoCompanyMember list \<Rightarrow> guardMember list" where
  "toMembers = map (\<lambda>m. \<lparr>gm_userId = pm_userId m, gm_name = pm_name m, gm_email = pm_email m,
                         gm_role = roleByProto (pm_role m)\<rparr>)"

fun toVerifyResult :: "verifySessionOk outcome \<Rightarrow> sessionData guardResult" where
  "toVerifyResult (OutcomeError reason) = GuardFailed reason"
| "toVerifyResult (OutcomeOk v) = toSessionResult (vs_user v) (vs_session v) (vs_currentRole v)"
| "toVerifyResult OutcomeUnset = GuardFailed RESULT_UNSPECIFIED"

fun toListMembersResult :: "listMembersOk outcome \<Rightarrow> membersData guardResult" where
  "toListMembersResult (OutcomeError reason) = GuardFailed reason"
| "toListMembersResult (OutcomeOk v) =
    GuardOk \<lparr>ml_companyId = lm_companyId v, ml_members = toMembers (lm_members v)\<rparr>"
| "toListMembersResult OutcomeUnset = GuardFailed RESULT_UNSPECIFIED"

definition failedSessionAndMembers :: "proto_result \<Rightarrow> sessionAndMembers" where
  "failedSessionAndMembers reason = (GuardFailed reason, GuardFailed reason)"

fun fromGetSession :: "getSessionOk outcome \<Rightarrow> sessionAndMembers" where
  "fromGetSession (OutcomeError reason) = failedSessionAndMembers reason"
| "fromGetSession (OutcomeOk v) =
    (case toSessionResult (vs_user v) (vs_session v) (vs_currentRole v) of
       GuardFailed reason \<Rightarrow> failedSessionAndMembers reason
     | GuardOk session \<Rightarrow>
         (GuardOk session,
          GuardOk \<lparr>ml_companyId = (if vs_currentRole v = None then None else sd_companyId session),
                   ml_members = toMembers (gs_members v)\<rparr>))"
| "fromGetSession OutcomeUnset = failedSessionAndMembers RESULT_UNSPECIFIED"

section \<open>Asking\<close>

text \<open>A rejected call: the host does not have the method, or anything else.\<close>

datatype rpcFailure = Unimplemented | OtherRpcFailure

record 's authClient =
  cl_verifySession :: "string \<Rightarrow> 's \<Rightarrow> (rpcFailure + verifySessionOk outcome) \<times> 's"
  cl_listCurrentCompanyMembers :: "string \<Rightarrow> 's \<Rightarrow> (rpcFailure + listMembersOk outcome) \<times> 's"
  cl_getSession :: "string \<Rightarrow> 's \<Rightarrow> (rpcFailure + getSessionOk outcome) \<times> 's"

definition fromVerifyThenList :: "'s authClient \<Rightarrow> string \<Rightarrow> 's \<Rightarrow> sessionAndMembers \<times> 's" where
  "fromVerifyThenList client token s =
     (let (verified, s1) = cl_verifySession client token s;
          session = (case verified of Inl _ \<Rightarrow> GuardFailed RESULT_UNSPECIFIED | Inr r \<Rightarrow> toVerifyResult r)
      in case session of
           GuardFailed reason \<Rightarrow> (failedSessionAndMembers reason, s1)
         | GuardOk data \<Rightarrow>
             (let (listed, s2) = cl_listCurrentCompanyMembers client token s1;
                  members = (case listed of Inl _ \<Rightarrow> GuardFailed RESULT_UNSPECIFIED | Inr r \<Rightarrow> toListMembersResult r)
              in ((session, case members of
                     GuardOk m \<Rightarrow> (if ml_companyId m \<noteq> sd_companyId data then GuardFailed RESULT_UNSPECIFIED else members)
                   | GuardFailed _ \<Rightarrow> members), s2)))"

definition loadSession :: "'s authClient \<Rightarrow> string option \<Rightarrow> 's \<Rightarrow> sessionAndMembers \<times> 's" where
  "loadSession client raw s =
     (case nonEmpty raw of
        None \<Rightarrow> (failedSessionAndMembers RESULT_SESSION_NOT_FOUND, s)
      | Some token \<Rightarrow>
          (case cl_getSession client token s of
             (Inr r, s1) \<Rightarrow> (fromGetSession r, s1)
           | (Inl Unimplemented, s1) \<Rightarrow> fromVerifyThenList client token s1
           | (Inl OtherRpcFailure, s1) \<Rightarrow> (failedSessionAndMembers RESULT_UNSPECIFIED, s1)))"

definition getSessionOf :: "'s authClient \<Rightarrow> string option \<Rightarrow> 's \<Rightarrow> sessionData guardResult \<times> 's" where
  "getSessionOf client raw s = (case loadSession client raw s of (r, s1) \<Rightarrow> (fst r, s1))"

definition listMembersOf :: "'s authClient \<Rightarrow> string option \<Rightarrow> 's \<Rightarrow> membersData guardResult \<times> 's" where
  "listMembersOf client raw s = (case loadSession client raw s of (r, s1) \<Rightarrow> (snd r, s1))"

section \<open>Members without a session\<close>

text \<open>Whatever the host answers, members are shown only together with a session.\<close>

lemma members_need_session:
  assumes "loadSession client raw s = ((session, GuardOk members), s')"
  shows "\<exists>data. session = GuardOk data"
  using assms
  by (auto simp: loadSession_def fromVerifyThenList_def failedSessionAndMembers_def Let_def
      split: option.splits sum.splits rpcFailure.splits guardResult.splits prod.splits if_splits
      elim!: fromGetSession.elims) (metis)

lemma roleByProto_toProtoRole [simp]: "roleByProto (toProtoRole r) = Some r"
  by (cases r) simp_all

end
