(* ===== verification/Links.thy ===== *)
theory Links
  imports Invitation
begin

text \<open>
  \<open>packages/auth-client/src/url-builder.ts\<close> and \<open>auth-host.ts\<close>: the addresses of the auth host that consumers and
  the service itself build. \<open>new URL\<close> is the parameter \<open>parseUrl\<close>; setting a search parameter and writing the URL
  are the platform's, written out for addresses without credentials.
\<close>

section \<open>Search parameters\<close>

text \<open>\<open>URLSearchParams.set\<close>: the first pair of the name is changed and the others are dropped, or a pair is added.\<close>

definition setParam :: "string \<Rightarrow> string \<Rightarrow> (string \<times> string) list \<Rightarrow> (string \<times> string) list" where
  "setParam k v ps =
     (case dropWhile (\<lambda>p. fst p \<noteq> k) ps of
        [] \<Rightarrow> ps @ [(k, v)]
      | _ # rest \<Rightarrow> takeWhile (\<lambda>p. fst p \<noteq> k) ps @ (k, v) # filter (\<lambda>p. fst p \<noteq> k) rest)"

definition searchParamsSet :: "string \<Rightarrow> string \<Rightarrow> url \<Rightarrow> url" where
  "searchParamsSet k v u =
     (let ps = setParam k v (ur_searchParams u)
      in u\<lparr>ur_searchParams := ps, ur_search := CHR ''?'' # formEncode ps\<rparr>)"

definition hrefOf :: "url \<Rightarrow> string" where
  "hrefOf u = ur_origin u @ ur_pathname u @ ur_search u @ ur_hash u"

section \<open>Addresses of the auth host\<close>

record returnToService =
  rs_authBaseUrl :: string
  rs_service :: string
  rs_returnTo :: string

definition authHostUrl :: "url_parser \<Rightarrow> string \<Rightarrow> string \<Rightarrow> url option" where
  "authHostUrl parseUrl authBaseUrl path =
     parseUrl ((if authBaseUrl \<noteq> [] \<and> last authBaseUrl = CHR ''/'' then butlast authBaseUrl else authBaseUrl) @ path)"

definition authHostUrlReturningToService :: "url_parser \<Rightarrow> returnToService \<Rightarrow> string \<Rightarrow> url option" where
  "authHostUrlReturningToService parseUrl opts path =
     map_option (\<lambda>u. searchParamsSet ''redirect_url'' (rs_returnTo opts)
                      (searchParamsSet ''service_name'' (rs_service opts) u))
       (authHostUrl parseUrl (rs_authBaseUrl opts) path)"

text \<open>\<open>url.hash = h\<close> is the parameter \<open>setHash\<close>: the encoded fragment with its sign.\<close>

definition buildAuthLoginUrl ::
    "url_parser \<Rightarrow> (string \<Rightarrow> string) \<Rightarrow> returnToService \<Rightarrow> string option \<Rightarrow> string option \<Rightarrow> string option" where
  "buildAuthLoginUrl parseUrl setHash opts signUpUrl hash =
     map_option (\<lambda>u.
        let u1 = (case signUpUrl of None \<Rightarrow> u | Some s \<Rightarrow> searchParamsSet ''sign_up_url'' s u)
        in hrefOf (case hash of None \<Rightarrow> u1 | Some h \<Rightarrow> u1\<lparr>ur_hash := setHash h\<rparr>))
       (authHostUrlReturningToService parseUrl opts ''/auth/'')"

datatype auth_error_reason = Signin_failed | Signup_already_completed

fun reasonString :: "auth_error_reason \<Rightarrow> string" where
  "reasonString Signin_failed = ''signin_failed''"
| "reasonString Signup_already_completed = ''signup_already_completed''"

definition buildAuthErrorUrl :: "url_parser \<Rightarrow> string \<Rightarrow> auth_error_reason \<Rightarrow> string option" where
  "buildAuthErrorUrl parseUrl authBaseUrl reason =
     map_option (\<lambda>u. hrefOf (searchParamsSet ''reason'' (reasonString reason) u))
       (authHostUrl parseUrl authBaseUrl ''/auth/error'')"

definition buildCompanySignupUrl :: "url_parser \<Rightarrow> returnToService \<Rightarrow> string option" where
  "buildCompanySignupUrl parseUrl opts =
     map_option hrefOf (authHostUrlReturningToService parseUrl opts ''/auth/signup/company'')"

definition buildMembersUrl :: "url_parser \<Rightarrow> returnToService \<Rightarrow> string option" where
  "buildMembersUrl parseUrl opts =
     map_option hrefOf (authHostUrlReturningToService parseUrl opts ''/account/members'')"

definition buildAccountUrl :: "url_parser \<Rightarrow> string \<Rightarrow> string option" where
  "buildAccountUrl parseUrl authBaseUrl = map_option hrefOf (authHostUrl parseUrl authBaseUrl ''/account'')"

section \<open>The auth host\<close>

definition AUTH_RPC_PATH :: string where
  "AUTH_RPC_PATH = ''/rpc''"

definition MAGIC_LINK_EXPIRES_IN_SECONDS :: int where
  "MAGIC_LINK_EXPIRES_IN_SECONDS = 300"

text \<open>\<open>COMPANY_ID_PATTERN\<close>.\<close>

definition isCompanyId :: "string \<Rightarrow> bool" where
  "isCompanyId s \<longleftrightarrow> startsWith s ''cmp_'' \<and> length s = 28 \<and>
     list_all (\<lambda>c. isAlnum c \<or> c = CHR ''_'' \<or> c = CHR ''-'') (drop 4 s)"

text \<open>\<open>createdAt\<close> is what \<open>Date.parse\<close> makes of the text, \<open>None\<close> for NaN.\<close>

definition isJustSignedUp :: "millis option \<Rightarrow> millis \<Rightarrow> bool" where
  "isJustSignedUp createdAt now =
     (case createdAt of None \<Rightarrow> False | Some t \<Rightarrow> now - t < MAGIC_LINK_EXPIRES_IN_SECONDS * 1000)"

section \<open>Reading the parameters back\<close>

text \<open>\<open>application/x-www-form-urlencoded\<close>, read.\<close>

fun formDecodeString :: "string \<Rightarrow> string" where
  "formDecodeString [] = []"
| "formDecodeString (c # s) =
    (if c = CHR ''+'' then CHR '' '' # formDecodeString s
     else if c = CHR 0x25 then
       (case s of
          a # b # rest \<Rightarrow> (case (hexValue a, hexValue b) of
             (Some x, Some y) \<Rightarrow> chr (16 * x + y) # formDecodeString rest
           | _ \<Rightarrow> c # formDecodeString s)
        | _ \<Rightarrow> c # formDecodeString s)
     else c # formDecodeString s)"

definition formDecodePair :: "string \<Rightarrow> string \<times> string" where
  "formDecodePair s = (formDecodeString (takeWhile (\<lambda>c. c \<noteq> CHR ''='') s),
     formDecodeString (drop 1 (dropWhile (\<lambda>c. c \<noteq> CHR ''='') s)))"

definition formDecode :: "string \<Rightarrow> (string \<times> string) list" where
  "formDecode s = map formDecodePair (filter (\<lambda>p. p \<noteq> []) (splitOn (CHR ''&'') s))"

lemma hexValue_hexUpper: "n < 16 \<Longrightarrow> hexValue (hexUpper n) = Some n"
  by (auto simp: hexValue_def hexUpper_def Let_def)

lemma ord_less_256: "ord c < 256"
  by simp

lemma ord_split: "ord c div 16 < 16" "ord c mod 16 < 16" "16 * (ord c div 16) + ord c mod 16 = ord c"
  using ord_less_256[of c] by (auto intro: less_mult_imp_div_less)

lemma isAlnum_plain: "isAlnum c \<or> c \<in> {CHR ''*'', CHR ''-'', CHR ''.'', CHR ''_''} \<Longrightarrow>
    c \<noteq> CHR ''+'' \<and> c \<noteq> CHR 0x25 \<and> c \<noteq> CHR ''='' \<and> c \<noteq> CHR ''&''"
  by (auto simp: isAlnum_def)

lemma formDecode_char: "formDecodeString (formEncodeChar c @ s) = c # formDecodeString s"
  using isAlnum_plain[of c] ord_split[of c]
  by (auto simp: formEncodeChar_def hexValue_hexUpper)

lemma formDecode_encode: "formDecodeString (concat (map formEncodeChar s)) = s"
  by (induction s) (simp_all add: formDecode_char)

lemma hexUpper_plain: "n < 16 \<Longrightarrow> CHR ''='' \<noteq> hexUpper n \<and> CHR ''&'' \<noteq> hexUpper n"
proof -
  have "hexValue (CHR ''='') = None" "hexValue (CHR ''&'') = None" by (simp_all add: hexValue_def ord_def)
  then show "n < 16 \<Longrightarrow> CHR ''='' \<noteq> hexUpper n \<and> CHR ''&'' \<noteq> hexUpper n"
    using hexValue_hexUpper[of n] by force
qed

lemma formEncode_plain:
  "CHR ''='' \<notin> set (concat (map formEncodeChar s))" "CHR ''&'' \<notin> set (concat (map formEncodeChar s))"
proof -
  have "CHR ''='' \<notin> set (formEncodeChar c) \<and> CHR ''&'' \<notin> set (formEncodeChar c)" for c
    using isAlnum_plain[of c] ord_split[of c] hexUpper_plain
    by (auto simp: formEncodeChar_def)
  then show "CHR ''='' \<notin> set (concat (map formEncodeChar s))" "CHR ''&'' \<notin> set (concat (map formEncodeChar s))"
    by auto
qed

definition encodePair :: "string \<times> string \<Rightarrow> string" where
  "encodePair p = concat (map formEncodeChar (fst p)) @ ''='' @ concat (map formEncodeChar (snd p))"

lemma formDecodePair_encodePair: "formDecodePair (encodePair p) = p"
proof -
  let ?k = "concat (map formEncodeChar (fst p))" and ?v = "concat (map formEncodeChar (snd p))"
  have "\<forall>x\<in>set ?k. x \<noteq> CHR ''=''" using formEncode_plain(1) by metis
  then have "takeWhile (\<lambda>c. c \<noteq> CHR ''='') (?k @ CHR ''='' # ?v) = ?k"
    "dropWhile (\<lambda>c. c \<noteq> CHR ''='') (?k @ CHR ''='' # ?v) = CHR ''='' # ?v"
    by (simp_all add: takeWhile_append2 dropWhile_append2 del: map_concat set_concat)
  then show ?thesis
    by (simp add: formDecodePair_def encodePair_def formDecode_encode del: map_concat)
qed

lemma formEncode_splits: "splitOn (CHR ''&'') (formEncode (p # ps)) = map encodePair (p # ps)"
proof -
  have free: "CHR ''&'' \<notin> set (encodePair q)" for q
    using formEncode_plain(2)[of "fst q"] formEncode_plain(2)[of "snd q"] by (simp add: encodePair_def)
  have enc: "formEncode (p # ps) = encodePair p @ concat (map (\<lambda>q. CHR ''&'' # encodePair q) ps)" for p ps
    by (simp add: formEncode_def encodePair_def case_prod_unfold comp_def)
  show ?thesis
    unfolding enc
  proof (induction ps arbitrary: p)
    case Nil with free show ?case by (simp add: splitOn_no_sep)
  next
    case (Cons q qs)
    have "encodePair p @ concat (map (\<lambda>q. CHR ''&'' # encodePair q) (q # qs)) =
        encodePair p @ CHR ''&'' # (encodePair q @ concat (map (\<lambda>q. CHR ''&'' # encodePair q) qs))" by simp
    with Cons free[of p] show ?case by (simp only: splitOn_append) (simp add: splitOn_no_sep)
  qed
qed

lemma formDecode_formEncode: "formDecode (formEncode ps) = ps"
proof (cases ps)
  case Nil then show ?thesis by (simp add: formEncode_def formDecode_def)
next
  case (Cons p qs)
  have "encodePair q \<noteq> []" for q by (simp add: encodePair_def)
  then show ?thesis
    by (simp add: Cons formDecode_def formEncode_splits formDecodePair_encodePair map_idI del: list.simps(9) list.map(2))
qed

lemma setParam_lookup: "map_of (setParam k v ps) j = (if j = k then Some v else map_of ps j)"
proof (cases "dropWhile (\<lambda>p. fst p \<noteq> k) ps")
  case Nil
  then have "setParam k v ps = ps @ [(k, v)]" by (simp only: setParam_def list.case)
  moreover have "\<forall>p\<in>set ps. fst p \<noteq> k" using Nil by simp
  then have "map_of ps k = None" by (auto simp: map_of_eq_None_iff)
  ultimately show ?thesis by (simp add: map_add_def split: option.splits)
next
  case (Cons p rest)
  then have p: "fst p = k" using hd_dropWhile[of "\<lambda>p. fst p \<noteq> k" ps] by simp
  obtain before where before: "before = takeWhile (\<lambda>p. fst p \<noteq> k) ps" by blast
  then have ps: "ps = before @ p # rest" using Cons by (metis takeWhile_dropWhile_id)
  have set: "setParam k v ps = before @ (k, v) # filter (\<lambda>p. fst p \<noteq> k) rest"
    by (simp only: setParam_def Cons list.case before)
  have nk: "map_of before k = None" by (auto simp: before map_of_eq_None_iff dest: set_takeWhileD)
  have "map_of (filter (\<lambda>p. fst p \<noteq> k) rest) j = (if j = k then None else map_of rest j)" for j
    by (induction rest) auto
  with nk p show ?thesis
    unfolding set unfolding ps by (cases p) (auto simp: map_add_def split: option.splits)
qed

end
