(* ===== verification/Entry.thy ===== *)
theory Entry
  imports Links Cookies RouteErrors
begin

text \<open>
  The routes outside the two APIs: \<open>src/handlers/login-shortcut.ts\<close>, \<open>auth-entry-redirect.ts\<close>,
  \<open>canary-token.ts\<close>, \<open>health.ts\<close> with \<open>src/health/probe.ts\<close>, \<open>attempt-budget-hono.ts\<close>, \<open>rpc/fetch-handler.ts\<close>, and
  the gates \<open>src/app.ts\<close> puts in front of the RPC routes, the canary and the magic link. The router itself is
  Hono's: a route is a function from the request's parts to the answer.
\<close>

section \<open>Helpers\<close>

definition redirectTo :: "string \<Rightarrow> response" where
  "redirectTo location = \<lparr>rs_status = 302, rs_headers = [(''location'', location)], rs_body = []\<rparr>"

text \<open>\<open>new URL\<close> throws.\<close>

definition orThrow :: "'a option \<Rightarrow> ('a, 'x) eff" where
  "orThrow v = (case v of None \<Rightarrow> dieWith (ThrownError ''Invalid URL'') | Some a \<Rightarrow> succeed a)"

fun isActive :: "session_status \<Rightarrow> bool" where
  "isActive (Active s u) = True"
| "isActive _ = False"

section \<open>The login shortcut\<close>

definition PASSTHROUGH_QUERY_KEYS :: "string list" where
  "PASSTHROUGH_QUERY_KEYS = [''error'']"

definition passThrough :: "url \<Rightarrow> string list \<Rightarrow> url \<Rightarrow> url" where
  "passThrough source keys target = foldl (\<lambda>t k. case map_of (ur_searchParams source) k of
     None \<Rightarrow> t | Some v \<Rightarrow> searchParamsSet k v t) target keys"

definition buildLoginRedirect :: "url_parser \<Rightarrow> (string \<Rightarrow> string) \<Rightarrow> url \<Rightarrow> (url, 'x) eff" where
  "buildLoginRedirect parseUrl setHash u =
     andThen (orThrow (buildAccountUrl parseUrl (ur_origin u))) (\<lambda>account.
     andThen (orThrow (buildAuthLoginUrl parseUrl setHash
        \<lparr>rs_authBaseUrl = ur_origin u, rs_service = ''accounts'', rs_returnTo = account\<rparr> None None)) (\<lambda>login.
     andThen (orThrow (parseUrl login)) (\<lambda>target.
       succeed (passThrough u PASSTHROUGH_QUERY_KEYS target))))"

definition loginShortcutAuthenticated :: "'x better_auth \<Rightarrow> headers \<Rightarrow> (bool, 'x) eff" where
  "loginShortcutAuthenticated A h =
     (if sessionCookieOf h = None then succeed False
      else catchIf (\<lambda>e. e = AuthApiError \<or> e = DbError) (\<lambda>_. captureCauseAs False ''loginShortcut'')
             (mapEff isActive (checkSession A h)))"

definition loginShortcutProgram ::
    "'x better_auth \<Rightarrow> url_parser \<Rightarrow> (string \<Rightarrow> string) \<Rightarrow> string \<Rightarrow> headers \<Rightarrow> (response, 'x) eff" where
  "loginShortcutProgram A parseUrl setHash requestUrl h =
     andThen (loginShortcutAuthenticated A h) (\<lambda>authenticated.
     andThen (orThrow (parseUrl requestUrl)) (\<lambda>u.
     andThen (if authenticated then orThrow (buildAccountUrl parseUrl (ur_origin u))
              else mapEff hrefOf (buildLoginRedirect parseUrl setHash u)) (\<lambda>location.
       succeed \<lparr>rs_status = 302,
         rs_headers = [(''Cache-Control'', ''private, no-store''), (''Vary'', ''Cookie''), (''location'', location)],
         rs_body = []\<rparr>)))"

section \<open>The entry of the sign-in pages\<close>

definition AUTH_ENTRY_PATHS :: "string list" where
  "AUTH_ENTRY_PATHS = [''/auth/'', ''/auth/signup'']"

definition authEntryRedirectProgram ::
    "'x better_auth \<Rightarrow> url_parser \<Rightarrow> string \<Rightarrow> headers \<Rightarrow> (middlewareDecision, 'x) eff" where
  "authEntryRedirectProgram A parseUrl requestUrl h =
     catchIf (\<lambda>e. e = AuthApiError \<or> e = DbError) (\<lambda>_. captureCauseAs Continue ''authEntryRedirect'')
       (andThen (orThrow (parseUrl requestUrl)) (\<lambda>u.
          case parseSignInParams parseUrl (map_of (rev (ur_searchParams u))) of
            None \<Rightarrow> succeed Continue
          | Some params \<Rightarrow>
              andThen (checkSession A h) (\<lambda>status.
                case status of
                  Active s user \<Rightarrow>
                    (case sp_invitation_token params of
                       Some token \<Rightarrow> succeed (Respond (redirectTo (acceptInvitationPath token None)))
                     | None \<Rightarrow>
                         andThen (countActiveMembershipsByUserId (us_id user)) (\<lambda>n.
                           if n = 0
                           then andThen (orThrow (case buildCompanySignupUrl parseUrl
                                    \<lparr>rs_authBaseUrl = ur_origin u, rs_service = sp_service_name params,
                                     rs_returnTo = sp_redirect_url params\<rparr> of
                                    None \<Rightarrow> None | Some s \<Rightarrow> parseUrl s)) (\<lambda>signup.
                                  succeed (Respond (redirectTo (ur_pathname signup @ ur_search signup))))
                           else succeed (Respond (redirectTo (sp_redirect_url params)))))
                | _ \<Rightarrow> succeed Continue)))"

definition authEntryRedirect ::
    "'x better_auth \<Rightarrow> url_parser \<Rightarrow> ('x world \<Rightarrow> response \<times> 'x world) \<Rightarrow> string \<Rightarrow> string \<Rightarrow> headers \<Rightarrow>
      'x world \<Rightarrow> response \<times> 'x world" where
  "authEntryRedirect A parseUrl continue path requestUrl h =
     (if path \<notin> set AUTH_ENTRY_PATHS \<or> sessionCookieOf h = None then continue
      else runMiddleware continue (authEntryRedirectProgram A parseUrl requestUrl h))"

section \<open>Canary tokens\<close>

definition FAVICON_EMBED_SUFFIX :: string where
  "FAVICON_EMBED_SUFFIX = ''.ico''"

text \<open>The token and the way it was embedded, as they are reported.\<close>

definition canaryReport :: "string \<Rightarrow> string \<times> string" where
  "canaryReport tokenParam =
     (if endsWith tokenParam FAVICON_EMBED_SUFFIX
      then (take (length tokenParam - length FAVICON_EMBED_SUFFIX) tokenParam, ''favicon'')
      else (tokenParam, ''link-or-form''))"

definition canaryToken :: "string \<Rightarrow> (response, 'x) eff" where
  "canaryToken tokenParam =
     andDo (captureMessage (''Canary token triggered: token_id='' @ fst (canaryReport tokenParam) @
        '', embed_type='' @ snd (canaryReport tokenParam)))
       (succeed \<lparr>rs_status = 204, rs_headers = [], rs_body = []\<rparr>)"

section \<open>Health\<close>

datatype checkResult = CheckOk | CheckError

definition settleCheck :: "(unit, 'x) eff \<Rightarrow> (checkResult, 'x) eff" where
  "settleCheck probe = catchIf (\<lambda>_. True) (\<lambda>_. captureCauseAs CheckError ''health'') (mapEff (\<lambda>_. CheckOk) probe)"

definition pingDatabase :: "(unit, 'x) eff" where
  "pingDatabase = tryDb (select (\<lambda>_. ()))"

definition checkString :: "checkResult \<Rightarrow> string" where
  "checkString c = (case c of CheckOk \<Rightarrow> ''ok'' | CheckError \<Rightarrow> ''error'')"

record healthReport =
  hr_healthy :: bool
  hr_db :: checkResult
  hr_ttlStore :: checkResult

definition probeHealth :: "(healthReport, 'x) eff" where
  "probeHealth = andThen (settleCheck pingDatabase) (\<lambda>db. andThen (settleCheck ttlPing) (\<lambda>ttlStore.
     succeed \<lparr>hr_healthy = (db = CheckOk \<and> ttlStore = CheckOk), hr_db = db, hr_ttlStore = ttlStore\<rparr>))"

definition healthProgram :: "string option \<Rightarrow> (response, 'x) eff" where
  "healthProgram version = andThen probeHealth (\<lambda>r.
     succeed \<lparr>rs_status = (if hr_healthy r then 200 else 503), rs_headers = JSON_HEADERS,
       rs_body = stringify (JObj
         [(''status'', JStr (if hr_healthy r then ''ok'' else ''degraded'')),
          (''checks'', JObj [(''db'', JStr (checkString (hr_db r))), (''ttlStore'', JStr (checkString (hr_ttlStore r)))]),
          (''version'', case version of None \<Rightarrow> JNull | Some v \<Rightarrow> JStr v)])\<rparr>)"

section \<open>The gates of the application\<close>

definition attemptBudgetProgram :: "attemptBudget \<Rightarrow> string \<Rightarrow> (middlewareDecision, 'x) eff" where
  "attemptBudgetProgram budget subject = mapEff (\<lambda>_. Continue) (spendAttemptBudgetOrRateLimited budget subject)"

definition attemptBudgetMiddleware ::
    "attemptBudget \<Rightarrow> string \<Rightarrow> ('x world \<Rightarrow> response \<times> 'x world) \<Rightarrow> 'x world \<Rightarrow> response \<times> 'x world" where
  "attemptBudgetMiddleware budget subject continue = runMiddleware continue (attemptBudgetProgram budget subject)"

definition clientIpOf :: "headers \<Rightarrow> string" where
  "clientIpOf h = cc_ip (getClientContext (Some h))"

text \<open>\<open>None\<close> is a body that is not JSON.\<close>

definition readEmail :: "json option \<Rightarrow> string" where
  "readEmail body = (case body of
     Some (JObj fs) \<Rightarrow> (case map_of (rev fs) ''email'' of Some (JStr s) \<Rightarrow> s | _ \<Rightarrow> ''unknown'')
   | _ \<Rightarrow> ''unknown'')"

definition magicLinkRoute ::
    "headers \<Rightarrow> json option \<Rightarrow> ('x world \<Rightarrow> response \<times> 'x world) \<Rightarrow> 'x world \<Rightarrow> response \<times> 'x world" where
  "magicLinkRoute h body continue =
     attemptBudgetMiddleware magicLinkPerIp (clientIpOf h)
       (attemptBudgetMiddleware magicLinkPerEmail (readEmail body) continue)"

definition canaryRoute :: "headers \<Rightarrow> string \<Rightarrow> 'x world \<Rightarrow> response \<times> 'x world" where
  "canaryRoute h tokenParam =
     attemptBudgetMiddleware canaryTokenPerIp (clientIpOf h) (runRoute (canaryToken tokenParam))"

text \<open>better-auth's own handler, whose promise may be rejected.\<close>

definition betterAuthRoute :: "('x world \<Rightarrow> response option \<times> 'x world) \<Rightarrow> 'x world \<Rightarrow> response \<times> 'x world" where
  "betterAuthRoute handler w = (case handler w of
     (Some r, w') \<Rightarrow> (r, w')
   | (None, w') \<Rightarrow> (internalErrorResponse, w'\<lparr>w_sentry := w_sentry w' @ [''better-auth'']\<rparr>))"

section \<open>Dispatching RPC\<close>

text \<open>The path below \<open>/rpc\<close>, and the handler registered under it.\<close>

definition connectPath :: "string \<Rightarrow> string option" where
  "connectPath pathname =
     (if startsWith pathname (AUTH_RPC_PATH @ ''/'') then Some (drop (length AUTH_RPC_PATH) pathname) else None)"

definition handleRpc ::
    "(string \<times> ('x world \<Rightarrow> response \<times> 'x world)) list \<Rightarrow> string \<Rightarrow> ('x world \<Rightarrow> response \<times> 'x world) option" where
  "handleRpc handlers pathname = (case connectPath pathname of None \<Rightarrow> None | Some p \<Rightarrow> map_of handlers p)"

definition rpcRoute ::
    "(string \<Rightarrow> nat list) \<Rightarrow> string option \<Rightarrow> string option \<Rightarrow> (string \<times> ('x world \<Rightarrow> response \<times> 'x world)) list \<Rightarrow>
      headers \<Rightarrow> string \<Rightarrow> 'x world \<Rightarrow> response \<times> 'x world" where
  "rpcRoute sha256 active previous handlers h pathname =
     runMiddleware
       (case handleRpc handlers pathname of None \<Rightarrow> runRoute (failWith NotFound) | Some handler \<Rightarrow> handler)
       (mapEff (\<lambda>_. Continue) (verifyServiceKey sha256 active previous (headersGet h ''X-Service-Key'')))"

section \<open>What they guarantee\<close>

lemma orThrow_runs [run_simps]:
  "orThrow v w = (Inr a, w') \<longleftrightarrow> v = Some a \<and> w' = w"
  "orThrow v w = (Inl r, w') \<longleftrightarrow> v = None \<and> r = Die (ThrownError ''Invalid URL'') \<and> w' = w"
  by (auto simp: orThrow_def succeed_def dieWith_def split: option.splits)

lemma parseSignInParams_valid:
  "parseSignInParams P get = Some params \<Longrightarrow>
    sp_service_name params \<in> set SERVICE_NAMES \<and> validateRedirectUrl P (sp_redirect_url params) (sp_service_name params)"
  by (auto simp: parseSignInParams_def split: option.splits if_splits)

lemma authEntry_response:
  assumes "authEntryRedirectProgram A P requestUrl h w = (Inr (Respond r), w')"
  shows "\<exists>u params s user w1. P requestUrl = Some u \<and>
    parseSignInParams P (map_of (rev (ur_searchParams u))) = Some params \<and>
    checkSession A h w = (Inr (Active s user), w1) \<and>
    ((\<exists>t. sp_invitation_token params = Some t \<and> r = redirectTo (acceptInvitationPath t None)) \<or>
     (\<exists>link v. buildCompanySignupUrl P \<lparr>rs_authBaseUrl = ur_origin u, rs_service = sp_service_name params,
        rs_returnTo = sp_redirect_url params\<rparr> = Some link \<and> P link = Some v \<and>
        r = redirectTo (ur_pathname v @ ur_search v)) \<or>
     r = redirectTo (sp_redirect_url params))"
proof -
  from assms obtain u where u: "P requestUrl = Some u"
    and rest: "(case parseSignInParams P (map_of (rev (ur_searchParams u))) of
      None \<Rightarrow> succeed Continue | Some params \<Rightarrow> andThen (checkSession A h) (\<lambda>status. case status of
        Active s user \<Rightarrow> (case sp_invitation_token params of
            Some token \<Rightarrow> succeed (Respond (redirectTo (acceptInvitationPath token None)))
          | None \<Rightarrow> andThen (countActiveMembershipsByUserId (us_id user)) (\<lambda>n. if n = 0
              then andThen (orThrow (case buildCompanySignupUrl P \<lparr>rs_authBaseUrl = ur_origin u,
                  rs_service = sp_service_name params, rs_returnTo = sp_redirect_url params\<rparr> of
                  None \<Rightarrow> None | Some s \<Rightarrow> P s)) (\<lambda>signup.
                succeed (Respond (redirectTo (ur_pathname signup @ ur_search signup))))
              else succeed (Respond (redirectTo (sp_redirect_url params)))))
        | _ \<Rightarrow> succeed Continue)) w = (Inr (Respond r), w')"
    unfolding authEntryRedirectProgram_def by (auto simp: catchIf_runs andThen_runs orThrow_runs captureCauseAs_runs)
  from rest obtain params where p: "parseSignInParams P (map_of (rev (ur_searchParams u))) = Some params"
    by (cases "parseSignInParams P (map_of (rev (ur_searchParams u)))") (auto simp: succeed_runs)
  from rest obtain status w1 where c: "checkSession A h w = (Inr status, w1)"
    unfolding p by (auto simp: andThen_runs)
  from rest c obtain s user where "status = Active s user"
    unfolding p by (cases status) (auto simp: andThen_runs succeed_runs)
  with u p c rest show ?thesis
    by (cases "sp_invitation_token params")
      (auto simp: andThen_runs succeed_runs orThrow_runs split: if_splits option.splits)
qed

lemma rpcRoute_refused:
  assumes "\<And>w'. verifyServiceKey sha active previous (headersGet h ''X-Service-Key'') w \<noteq> (Inr (), w')"
  shows "\<exists>s\<in>{401, 503}. rs_status (fst (rpcRoute sha active previous handlers h path w)) = s \<and>
    snd (rpcRoute sha active previous handlers h path w) = w"
proof -
  obtain r w' where run: "verifyServiceKey sha active previous (headersGet h ''X-Service-Key'') w = (r, w')" by fastforce
  with assms obtain e where e: "r = Inl e" by (cases r) auto
  from run[unfolded e verifyServiceKey_runs(2)]
  have "w' = w" "e = Fail ServiceKeyMisconfigured \<or> e = Fail ServiceKeyRejected" by (auto split: if_splits)
  with run e show ?thesis
    by (auto simp: rpcRoute_def runMiddleware_def mapEff_def andThen_def causeToResponse_def settleCause_single
        parseClientFacingError_def clientFacingErrorResponse_def sendReports_def)
qed

lemma settleCheck_total: "throws {DbError, TtlStoreError} m \<Longrightarrow> \<exists>c w'. settleCheck m w = (Inr c, w')"
proof -
  assume "throws {DbError, TtlStoreError} m"
  then have "throws {} (settleCheck m)"
    unfolding settleCheck_def by (intro throws_catchIf[OF throws_mapEff]) (auto intro: throws_intros)
  then show ?thesis by (cases "fst (settleCheck m w)"; cases "settleCheck m w") (auto simp: throws_def)
qed

end
