(* ===== verification/RpcProperties.thy ===== *)
theory RpcProperties
  imports AuthGuard Entry Demo
begin

text \<open>
  The auth host and the library of its consumers together: who may call, what a session answer says, and that the
  two ways the library has of asking agree.
\<close>

section \<open>Answers that do not depend on the call\<close>

text \<open>
  \<open>answers d m a\<close>: against the database \<open>d\<close>, while no call is lost, \<open>m\<close> answers \<open>a\<close> and leaves the
  database, whatever else the world holds.
\<close>

definition quiet :: "database \<Rightarrow> 'x world \<Rightarrow> bool" where
  "quiet d w \<longleftrightarrow> w_db w = d \<and> (\<forall>n. w_dbFaults w n = NoFault)"

definition answers :: "database \<Rightarrow> ('a, 'x) eff \<Rightarrow> 'a \<Rightarrow> bool" where
  "answers d m a \<longleftrightarrow> (\<forall>w. quiet d w \<longrightarrow> (\<exists>w'. m w = (Inr a, w') \<and> quiet d w'))"

lemma answersD: "answers d m a \<Longrightarrow> quiet d w \<Longrightarrow> \<exists>w'. m w = (Inr a, w') \<and> quiet d w'"
  by (simp add: answers_def)

lemma answers_succeed: "answers d (succeed a) a"
  by (simp add: answers_def succeed_def)

lemma answers_andThen: "answers d m a \<Longrightarrow> answers d (f a) b \<Longrightarrow> answers d (andThen m f) b"
  unfolding answers_def andThen_def by fastforce

lemma answers_mapEff: "answers d m a \<Longrightarrow> answers d (mapEff f m) (f a)"
  unfolding mapEff_def by (rule answers_andThen[of d m a]) (auto intro: answers_succeed)

lemma answers_select: "answers d (tryDb (select q)) (q d)"
  by (simp add: answers_def quiet_def tryDb_def select_def Let_def)

text \<open>What is relied on of better-auth: asked twice for the same session, it says the same; signing out ends in some way.\<close>

definition steadySession :: "'x better_auth \<Rightarrow> headers \<Rightarrow> database \<Rightarrow> bool" where
  "steadySession A h d \<longleftrightarrow> (\<exists>s. answers d (getSession A h) s) \<and> (\<forall>w. quiet d w \<longrightarrow> quiet d (snd (ba_signOut A h w)))"

lemma checkSession_answers:
  assumes "steadySession A h d" shows "\<exists>status. answers d (checkSession A h) status \<and>
    (\<forall>s u. status = Active s u \<longrightarrow> u \<in> set (d_user d))"
proof -
  from assms obtain s where s: "answers d (getSession A h) s" by (auto simp: steadySession_def)
  have find: "answers d (findUserById i) (at0 (filter (\<lambda>u. us_id u = i) (d_user d)))" for i
    unfolding findUserById_def by (rule answers_select)
  show ?thesis
  proof (cases s)
    case None
    with s have "answers d (checkSession A h) NoSession"
      unfolding checkSession_def by (intro answers_andThen[OF s]) (simp add: answers_succeed)
    then show ?thesis by blast
  next
    case (Some a)
    show ?thesis
    proof (cases "\<exists>sr u. as_session a = Some sr \<and> as_user a = Some u \<and> su_id u \<noteq> []")
      case True
      then obtain sr u where a: "as_session a = Some sr" "as_user a = Some u" "su_id u \<noteq> []" by blast
      let ?found = "at0 (filter (\<lambda>v. us_id v = su_id u) (d_user d))"
      have "answers d (checkSession A h) (case ?found of Some row \<Rightarrow> Active a row | None \<Rightarrow> UserDeleted)"
        unfolding checkSession_def
        by (rule answers_andThen[OF s]) (simp add: Some a, rule answers_andThen[OF find], rule answers_succeed)
      then show ?thesis by (auto split: option.splits dest: at0_filter_SomeD intro!: exI)
    next
      case False
      then have "answers d (checkSession A h) NoSession"
        unfolding checkSession_def
        by (intro answers_andThen[OF s])
          (auto simp: Some answers_succeed split: option.splits)
      then show ?thesis by blast
    qed
  qed
qed

lemma verifySessionUser_answers:
  fixes A :: "'x better_auth"
  assumes "steadySession A (sessionTokenHeaders t) d"
  shows "\<exists>c. (\<forall>handler. answers d (verifySessionUser A t handler) c) \<and> (\<forall>u s. c = Verified u s \<longrightarrow> u \<in> set (d_user d))"
proof -
  let ?h = "sessionTokenHeaders t"
  from checkSession_answers[OF assms] obtain status where st: "answers d (checkSession A ?h) status"
    "\<forall>s u. status = Active s u \<longrightarrow> u \<in> set (d_user d)" by blast
  have out: "answers d (catchIf (\<lambda>_. True) (\<lambda>_. captureCause handler) (mapEff (\<lambda>_. ()) (signOut A ?h))) ()" for handler
    unfolding answers_def
  proof (intro allI impI)
    fix w :: "'x world" assume "quiet d w"
    with assms have q: "quiet d (snd (ba_signOut A ?h w))" by (simp add: steadySession_def)
    obtain r w1 where "ba_signOut A ?h w = (r, w1)" by fastforce
    with q show "\<exists>w'. catchIf (\<lambda>_. True) (\<lambda>_. captureCause handler) (mapEff (\<lambda>_. ()) (signOut A ?h)) w = (Inr (), w') \<and> quiet d w'"
      by (cases r) (auto simp: catchIf_def mapEff_def andThen_def signOut_def tryAuthApi_def succeed_def
          captureCause_def quiet_def)
  qed
  let ?c = "(case status of NoSession \<Rightarrow> Rejected RESULT_SESSION_NOT_FOUND
    | UserDeleted \<Rightarrow> Rejected RESULT_USER_DELETED
    | Active s u \<Rightarrow> (if su_revision (the (as_user s)) = None \<or> su_revision (the (as_user s)) = Some (us_revision u)
        then Verified u (the (as_session s)) else Rejected RESULT_REVISION_OUTDATED))"
  have "answers d (verifySessionUser A t handler) ?c" for handler
    unfolding verifySessionUser_def Let_def
    by (rule answers_andThen[OF st(1)])
      (auto simp: answers_succeed split: session_status.splits option.splits
        intro!: answers_andThen[OF out] answers_succeed)
  with st(2) show ?thesis by (auto split: session_status.splits if_splits intro!: exI[of _ ?c])
qed

section \<open>Members of the current company\<close>

definition membersOf :: "database \<Rightarrow> id \<Rightarrow> memberRow list" where
  "membersOf d c = concat (map
     (\<lambda>m. map (\<lambda>u. \<lparr>mr_membershipId = mb_id m, mr_userId = mb_userId m, mr_userName = us_name u,
                   mr_userEmail = us_email u, mr_role = mb_role m, mr_joinedAt = mb_joinedAt m\<rparr>)
        (filter (\<lambda>u. us_id u = mb_userId m) (d_user d)))
     (sort_key oldestJoinedFirst (filter (\<lambda>m. mb_companyId m = c) (d_membership d))))"

lemma in_membersOf: "r \<in> set (membersOf d c) \<longleftrightarrow> (\<exists>m\<in>set (d_membership d). \<exists>u\<in>set (d_user d).
    mb_companyId m = c \<and> us_id u = mb_userId m \<and>
    r = \<lparr>mr_membershipId = mb_id m, mr_userId = mb_userId m, mr_userName = us_name u,
         mr_userEmail = us_email u, mr_role = mb_role m, mr_joinedAt = mb_joinedAt m\<rparr>)"
  by (auto simp: membersOf_def)

lemma caller_among_members:
  assumes inv: "companyInv d" and u: "u \<in> set (d_user d)" "us_lastUsedCompanyId u = Some c"
  shows "\<exists>m row. membershipOf d (us_id u) c = Some m \<and>
    find (\<lambda>r. mr_userId r = us_id u) (membersOf d c) = Some row \<and> mr_role row = mb_role m"
proof -
  from inv u obtain m where m: "m \<in> set (d_membership d)" "mb_userId m = us_id u" "mb_companyId m = c"
    by (auto simp: companyInv_def currentValid_def isMember_iff)
  then have "filter (\<lambda>x. mb_userId x = us_id u \<and> mb_companyId x = c) (d_membership d) \<noteq> []"
    by (auto simp: filter_empty_conv)
  then obtain m' where m': "membershipOf d (us_id u) c = Some m'"
    by (cases "membershipOf d (us_id u) c") (auto simp: membershipOf_def)
  from inv have wf: "wf_db d" by (simp add: companyInv_def)
  note m'' = membershipOf_Some[OF m']
  let ?row = "\<lparr>mr_membershipId = mb_id m, mr_userId = mb_userId m, mr_userName = us_name u,
      mr_userEmail = us_email u, mr_role = mb_role m, mr_joinedAt = mb_joinedAt m\<rparr>"
  have "?row \<in> set (membersOf d c)" unfolding in_membersOf
    by (rule bexI[OF _ m(1)], rule bexI[OF _ u(1)]) (simp add: m(2,3))
  then have "find (\<lambda>r. mr_userId r = us_id u) (membersOf d c) \<noteq> None"
    using m(2) by (auto simp: find_None_iff)
  then obtain row where row: "find (\<lambda>r. mr_userId r = us_id u) (membersOf d c) = Some row" by blast
  then have "row \<in> set (membersOf d c)" "mr_userId row = us_id u" by (auto simp: find_Some_iff)
  then obtain x where x: "x \<in> set (d_membership d)" "mb_companyId x = c" "mb_userId x = us_id u" "mr_role row = mb_role x"
    by (auto simp: in_membersOf)
  have "x = m'" using m'' x by (intro wf_db_membership_unique[OF wf]) simp_all
  with m' row x(4) show ?thesis by auto
qed

lemma current_answers:
  "answers d (currentRoleOf u) (case us_lastUsedCompanyId u of None \<Rightarrow> None
     | Some c \<Rightarrow> map_option mb_role (membershipOf d (us_id u) c))"
  "answers d (currentCompanyMembersOf u) (case us_lastUsedCompanyId u of None \<Rightarrow> None
     | Some c \<Rightarrow> map_option (\<lambda>caller. \<lparr>cm_companyId = c, cm_callerRole = mr_role caller, cm_members = membersOf d c\<rparr>)
         (find (\<lambda>r. mr_userId r = us_id u) (membersOf d c)))"
proof -
  have members: "answers d (findMembersByCompanyId c) (membersOf d c)" for c
    unfolding findMembersByCompanyId_def membersOf_def by (rule answers_select)
  show "answers d (currentRoleOf u) (case us_lastUsedCompanyId u of None \<Rightarrow> None
     | Some c \<Rightarrow> map_option mb_role (membershipOf d (us_id u) c))"
    unfolding currentRoleOf_def findMembership_def
    by (cases "us_lastUsedCompanyId u") (auto intro: answers_succeed answers_mapEff answers_select)
  show "answers d (currentCompanyMembersOf u) (case us_lastUsedCompanyId u of None \<Rightarrow> None
     | Some c \<Rightarrow> map_option (\<lambda>caller. \<lparr>cm_companyId = c, cm_callerRole = mr_role caller, cm_members = membersOf d c\<rparr>)
         (find (\<lambda>r. mr_userId r = us_id u) (membersOf d c)))"
    unfolding currentCompanyMembersOf_def
    by (cases "us_lastUsedCompanyId u") (auto intro: answers_succeed answers_andThen[OF members])
qed

section \<open>The library against the host\<close>

text \<open>What the host says of a confirmed user: the role in the current company, and its members.\<close>

definition roleAt :: "database \<Rightarrow> user \<Rightarrow> role option" where
  "roleAt d u = (case us_lastUsedCompanyId u of None \<Rightarrow> None | Some c \<Rightarrow> map_option mb_role (membershipOf d (us_id u) c))"

definition membersAt :: "database \<Rightarrow> user \<Rightarrow> protoCompanyMember list" where
  "membersAt d u = (case us_lastUsedCompanyId u of None \<Rightarrow> [] | Some c \<Rightarrow> map toProtoCompanyMember (membersOf d c))"

lemma roleAt_None_iff: "companyInv d \<Longrightarrow> u \<in> set (d_user d) \<Longrightarrow> roleAt d u = None \<longleftrightarrow> us_lastUsedCompanyId u = None"
  using caller_among_members[of d u] by (auto simp: roleAt_def split: option.splits)

lemma host_verifySession_answers:
  assumes "answers d (verifySessionUser A t ''verifySession'') (Verified u s)"
  shows "answers d (verifySessionProgram A t) (OutcomeOk (sessionSeenByConsumer u s (roleAt d u)))"
  unfolding verifySessionProgram_def roleAt_def
  by (rule answers_andThen[OF assms], simp, rule answers_andThen[OF current_answers(1)], rule answers_succeed)

lemma host_members_answer:
  assumes inv: "companyInv d" and u: "u \<in> set (d_user d)"
    and v: "\<And>handler. answers d (verifySessionUser A t handler) (Verified u s)"
  shows "answers d (getSessionProgram A t) (OutcomeOk (verifySessionOk.extend (sessionSeenByConsumer u s (roleAt d u))
      \<lparr>gs_members = membersAt d u\<rparr>))" (is ?get)
    and "answers d (listCurrentCompanyMembersProgram A t)
      (OutcomeOk \<lparr>lm_companyId = us_lastUsedCompanyId u, lm_members = membersAt d u\<rparr>)" (is ?list)
proof -
  have current: "answers d (currentCompanyMembersOf u) (case us_lastUsedCompanyId u of None \<Rightarrow> None
      | Some c \<Rightarrow> Some \<lparr>cm_companyId = c, cm_callerRole = the (roleAt d u), cm_members = membersOf d c\<rparr>)"
    using current_answers(2)[of d u] caller_among_members[OF inv u] by (auto simp: roleAt_def split: option.splits)
  show ?get
    unfolding getSessionProgram_def
    by (rule answers_andThen[OF v], simp, rule answers_andThen[OF current])
      (use roleAt_None_iff[OF inv u] in \<open>auto simp: answers_succeed membersAt_def split: option.splits\<close>)
  show ?list
    unfolding listCurrentCompanyMembersProgram_def
    by (rule answers_andThen[OF v], simp, rule answers_andThen[OF current])
      (auto simp: answers_succeed membersAt_def split: option.splits)
qed

text \<open>A consumer that talks to this auth host; \<open>hasGetSession\<close> tells whether the host is new enough.\<close>

definition asFailure :: "(connectError + 'a) \<times> 'x world \<Rightarrow> (rpcFailure + 'a) \<times> 'x world" where
  "asFailure r = (case r of (Inl e, w) \<Rightarrow> (Inl OtherRpcFailure, w) | (Inr a, w) \<Rightarrow> (Inr a, w))"

definition hostClient :: "'x better_auth \<Rightarrow> bool \<Rightarrow> 'x world authClient" where
  "hostClient A hasGetSession =
     \<lparr>cl_verifySession = (\<lambda>t w. asFailure (runRpc (verifySessionProgram A t) w)),
      cl_listCurrentCompanyMembers = (\<lambda>t w. asFailure (runRpc (listCurrentCompanyMembersProgram A t) w)),
      cl_getSession = (\<lambda>t w. if hasGetSession then asFailure (runRpc (getSessionProgram A t) w)
                             else (Inl Unimplemented, w))\<rparr>"

lemma asFailure_answers: "answers d m a \<Longrightarrow> quiet d w \<Longrightarrow> \<exists>w'. asFailure (runRpc m w) = (Inr a, w') \<and> quiet d w'"
  using answersD by (fastforce simp: runRpc_def asFailure_def)

lemma rejected_agrees:
  assumes v: "\<And>handler. answers d (verifySessionUser A t handler) (Rejected r)" and q: "quiet d w" and t: "t \<noteq> []"
  shows "fst (loadSession (hostClient A hasGetSession) (Some t) w) = failedSessionAndMembers r"
proof -
  have "answers d (verifySessionProgram A t) (OutcomeError r)" "answers d (getSessionProgram A t) (OutcomeError r)"
    unfolding verifySessionProgram_def getSessionProgram_def
    by (rule answers_andThen[OF v], simp add: answers_succeed)+
  from this[THEN asFailure_answers, OF q] show ?thesis
    using t by (auto simp: loadSession_def hostClient_def fromVerifyThenList_def)
qed

lemma verified_agrees:
  assumes inv: "companyInv d" and u: "u \<in> set (d_user d)" and q: "quiet d w" and t: "t \<noteq> []"
    and v: "\<And>handler. answers d (verifySessionUser A t handler) (Verified u s)"
  shows "fst (loadSession (hostClient A True) (Some t) w) = fst (loadSession (hostClient A False) (Some t) w)"
proof -
  obtain w1 w2 w3 where
    "asFailure (runRpc (getSessionProgram A t) w) = (Inr (OutcomeOk (verifySessionOk.extend
      (sessionSeenByConsumer u s (roleAt d u)) \<lparr>gs_members = membersAt d u\<rparr>)), w1)"
    "asFailure (runRpc (verifySessionProgram A t) w) = (Inr (OutcomeOk (sessionSeenByConsumer u s (roleAt d u))), w2)"
    "asFailure (runRpc (listCurrentCompanyMembersProgram A t) w2) =
      (Inr (OutcomeOk \<lparr>lm_companyId = us_lastUsedCompanyId u, lm_members = membersAt d u\<rparr>), w3)"
    using host_members_answer[OF inv u v] host_verifySession_answers[OF v] asFailure_answers q by metis
  with roleAt_None_iff[OF inv u] t show ?thesis
    by (auto simp: loadSession_def hostClient_def fromVerifyThenList_def sessionSeenByConsumer_def toSessionResult_def
        toProtoUser_def toProtoSession_def verifySessionOk.defs Let_def split: option.splits)
qed

text \<open>
  C14: The library shows a consumer the same session, company, role and members whether the host answers in one
  call or, being older, in two: for every reachable database, as long as nothing changes between the calls and
  none of them fails.
\<close>

theorem guard_fallback_agrees:
  assumes "reachable K w" "service_frame K" "\<forall>n. w_dbFaults w n = NoFault"
    and "steadySession A (sessionTokenHeaders token) (w_db w)"
  shows "fst (loadSession (hostClient A True) (Some token) w) = fst (loadSession (hostClient A False) (Some token) w)"
proof (cases "token = []")
  case False
  have q: "quiet (w_db w) w" using assms(3) by (simp add: quiet_def)
  have inv: "companyInv (w_db w)" using assms(1,2) by (rule ownership.always)
  from verifySessionUser_answers[OF assms(4)] obtain c where
    c: "\<And>handler. answers (w_db w) (verifySessionUser A token handler) c"
      "\<And>u s. c = Verified u s \<Longrightarrow> u \<in> set (d_user (w_db w))" by blast
  show ?thesis
  proof (cases c)
    case (Rejected r)
    with c(1) rejected_agrees[OF _ q False] show ?thesis by metis
  next
    case (Verified u s)
    with verified_agrees[OF inv c(2) q False] c(1) show ?thesis by metis
  qed
qed (simp add: loadSession_def)

text \<open>A better-auth that reads the session from its cookie.\<close>

definition cookieAuth :: "unit better_auth" where
  "cookieAuth = demoAuth\<lparr>ba_getSession := (\<lambda>h w. (Inr (map_option demoSession (sessionCookieOf h)), w))\<rparr>"

lemma steadySession_cookieAuth: "steadySession cookieAuth h d"
  by (auto simp: steadySession_def answers_def getSession_def tryAuthApi_def cookieAuth_def demoAuth_def)

theorem guard_fallback_agrees_witness:
  "fst (loadSession (hostClient cookieAuth True) (Some ''ann'') laterWorld) =
   fst (loadSession (hostClient cookieAuth False) (Some ''ann'') laterWorld)"
  by (rule guard_fallback_agrees[OF reachable_laterWorld demoService_frame _ steadySession_cookieAuth])
    (simp add: laterWorld_def worldOf_def)

section \<open>Service keys\<close>

text \<open>The request presents one of the configured keys: one that is not empty and has the same digest.\<close>

definition presentsKey :: "(string \<Rightarrow> nat list) \<Rightarrow> string option list \<Rightarrow> headers \<Rightarrow> bool" where
  "presentsKey sha256 configured h \<longleftrightarrow> (\<exists>p key. headersGet h ''X-Service-Key'' = Some p \<and> p \<noteq> [] \<and> key \<noteq> [] \<and>
     Some key \<in> set configured \<and> sha256 key = sha256 p)"

text \<open>
  C15: A handler of the RPC API runs exactly for the requests that present one of the configured service keys. Every
  other one is answered, whatever its path, with 503 when no key is configured and with 401 otherwise, and the world
  is as it was: nothing is read, written or reported.
\<close>

theorem rpc_requires_service_key:
  "(if presentsKey sha256 [active, previous] h
    then rpcRoute sha256 active previous handlers h path w =
      (case handleRpc handlers path of Some handler \<Rightarrow> handler w | None \<Rightarrow> runRoute (failWith NotFound) w)
    else \<exists>answer. rpcRoute sha256 active previous handlers h path w = (answer, w) \<and>
      rs_status answer = (if set [active, previous] \<subseteq> {None, Some []} then 503 else 401))"
proof (cases "presentsKey sha256 [active, previous] h")
  case True
  then have "verifyServiceKey sha256 active previous (headersGet h ''X-Service-Key'') w = (Inr (), w)"
    unfolding verifyServiceKey_runs(1) presentsKey_def by auto
  with True show ?thesis
    by (auto simp: rpcRoute_def runMiddleware_def mapEff_def andThen_def succeed_def split: option.splits)
next
  case False
  obtain r w' where run: "verifyServiceKey sha256 active previous (headersGet h ''X-Service-Key'') w = (r, w')" by fastforce
  have "r \<noteq> Inr ()"
  proof
    assume "r = Inr ()"
    with run[unfolded this verifyServiceKey_runs(1)] False show False by (auto simp: presentsKey_def)
  qed
  then obtain e where e: "r = Inl e" by (cases r) auto
  with run[unfolded e verifyServiceKey_runs(2)]
  have "w' = w \<and> e = Fail (if set [active, previous] \<subseteq> {None, Some []} then ServiceKeyMisconfigured else ServiceKeyRejected)"
    by (cases active; cases previous; auto simp: nonEmpty_def split: if_splits)
  with run e False show ?thesis
    by (auto simp: rpcRoute_def runMiddleware_def mapEff_def andThen_def causeToResponse_def settleCause_single
        parseClientFacingError_def clientFacingErrorResponse_def sendReports_def)
qed

section \<open>What a verified session says\<close>

text \<open>
  C21: When the host confirms a session, better-auth vouches for it, its user has a row, the revision the session was
  made with is the one of that row, and the company and the role it reports are those of the row and of the user's
  membership; nothing is written.
\<close>

theorem verified_session_is_current:
  assumes "auth_frame A" "verifySessionProgram A token w = (Inr (OutcomeOk ok), w')"
  shows "\<exists>a u s w1. checkSession A (sessionTokenHeaders token) w = (Inr (Active a u), w1) \<and>
    u \<in> set (d_user (w_db w)) \<and> as_session a = Some s \<and>
    su_revision (the (as_user a)) \<in> {None, Some (us_revision u)} \<and>
    vs_user ok = Some (toProtoUser u) \<and> vs_session ok = Some (toProtoSession s) \<and>
    vs_currentRole ok = (case us_lastUsedCompanyId u of None \<Rightarrow> None
      | Some c \<Rightarrow> map_option (toProtoRole \<circ> mb_role) (membershipOf (w_db w) (us_id u) c)) \<and>
    w_db w' = w_db w"
proof -
  from assms(2) obtain c w1 where v: "verifySessionUser A token ''verifySession'' w = (Inr c, w1)"
    unfolding verifySessionProgram_def andThen_runs by blast
  from assms(2) v obtain u s where c: "c = Verified u s"
    by (cases c) (auto simp: verifySessionProgram_def andThen_runs succeed_runs)
  from verifySessionUser_Verified[OF v[unfolded c]] obtain a where
    a: "checkSession A (sessionTokenHeaders token) w = (Inr (Active a u), w1)" "as_session a = Some s"
      "\<forall>r. su_revision (the (as_user a)) = Some r \<longrightarrow> us_revision u = r" by blast
  have db: "w_db w1 = w_db w" using keepsD[OF keeps_checkSession[OF assms(1)] a(1)] .
  have "u \<in> set (d_user (w_db w))" using checkSession_Active[OF a(1)] assms(1) db by auto
  moreover have "su_revision (the (as_user a)) \<in> {None, Some (us_revision u)}" using a(3)
    by (cases "su_revision (the (as_user a))") auto
  moreover have "vs_user ok = Some (toProtoUser u) \<and> vs_session ok = Some (toProtoSession s) \<and>
    vs_currentRole ok = (case us_lastUsedCompanyId u of None \<Rightarrow> None
      | Some c \<Rightarrow> map_option (toProtoRole \<circ> mb_role) (membershipOf (w_db w) (us_id u) c)) \<and> w_db w' = w_db w"
    using assms(2) v c db
    by (auto simp: verifySessionProgram_def sessionSeenByConsumer_def currentRoleOf_def findMembership_def run_simps
        option.map_comp split: option.splits)
  ultimately show ?thesis using a by blast
qed

theorem verified_session_is_current_witness:
  "\<exists>ok a u s w1. fst (verifySessionProgram cookieAuth ''bob'' demoWorld) = Inr (OutcomeOk ok) \<and>
     checkSession cookieAuth (sessionTokenHeaders ''bob'') demoWorld = (Inr (Active a u), w1) \<and>
     u \<in> set (d_user demoDb) \<and> as_session a = Some s \<and> vs_user ok = Some (toProtoUser u)"
proof -
  have run: "case fst (verifySessionProgram cookieAuth ''bob'' demoWorld) of Inr (OutcomeOk ok) \<Rightarrow> True | _ \<Rightarrow> False"
    by code_simp
  obtain r w' where r: "verifySessionProgram cookieAuth ''bob'' demoWorld = (r, w')" by fastforce
  with run obtain ok where ok: "r = Inr (OutcomeOk ok)" by (auto split: sum.splits outcome.splits)
  have frame: "auth_frame cookieAuth" using demoAuth_frame by (simp add: auth_frame_def cookieAuth_def keeps_def demoAuth_def)
  from verified_session_is_current[OF frame r[unfolded ok]] show ?thesis by (auto simp: r ok)
qed

text \<open>
  Asked which of up to a thousand users belong to a company, the host names exactly those that are members of it,
  and none when the company is deleted or does not exist; the database is as it was.
\<close>

theorem checkMemberships_correct:
  assumes "reachable K w" "service_frame K" "checkMembershipsProgram c ids w = (Inr r, w')"
  shows "length ids \<le> 1000 \<and> w_db w' = w_db w \<and>
    set (cm_memberUserIds r) = {u \<in> set ids. isActiveCompany (w_db w) c \<and> isMember (w_db w) u c} \<and>
    cm_companyActive r = isActiveCompany (w_db w) c"
proof -
  have wf: "wf_db (w_db w)" using assms(1,2) by (rule schema.always)
  let ?found = "at0 (filter (\<lambda>x. co_id x = c) (d_company (w_db w)))"
  have active: "cm_companyActive r \<longleftrightarrow> isActiveCompany (w_db w) c"
  proof (cases ?found)
    case None
    then have "\<not> isActiveCompany (w_db w) c"
      by (auto simp: isActiveCompany_def at0_None_iff filter_empty_conv)
    with None assms(3) show ?thesis
      by (auto simp: checkMembershipsProgram_def run_simps Let_def split: if_splits)
  next
    case (Some row)
    then have "isActiveCompany (w_db w) c \<longleftrightarrow> co_activationStatus row = ACTIVE"
      by (rule findCompanyById_active[OF wf])
    with Some assms(3) show ?thesis
      by (cases "co_activationStatus row") (auto simp: checkMembershipsProgram_def run_simps Let_def split: if_splits)
  qed
  with checkMemberships_runs[OF assms(3)] show ?thesis
    by (auto simp: isMember_iff checkMembershipsRequest_def)
qed

theorem checkMemberships_correct_witness:
  "let r = fst (checkMembershipsProgram ''n1'' [''ann'', ''eve''] laterWorld) in
     (case r of Inr a \<Rightarrow> set (cm_memberUserIds a) \<subseteq> {''ann'', ''eve''} | _ \<Rightarrow> False)"
proof -
  have run: "case fst (checkMembershipsProgram ''n1'' [''ann'', ''eve''] laterWorld) of Inr a \<Rightarrow> True | _ \<Rightarrow> False"
    by code_simp
  obtain r w' where r: "checkMembershipsProgram ''n1'' [''ann'', ''eve''] laterWorld = (r, w')" by fastforce
  with run obtain a where a: "r = Inr a" by (auto split: sum.splits)
  from checkMemberships_correct[OF reachable_laterWorld demoService_frame r[unfolded a]] show ?thesis
    by (auto simp: r a)
qed

end
