(* ===== verification/RouteProperties.thy ===== *)
theory RouteProperties
  imports Entry SpaContract Demo
begin

text \<open>
  What the entry routes, the links, the cookies and the decoders guarantee: where a browser is sent, what a failure
  shows and what it reports, and that what is written is read back.
\<close>

text \<open>A URL parser for the witnesses: https, a host, a path and a query whose parameters are form-encoded.\<close>

definition queryUrl :: url_parser where
  "queryUrl s = (if startsWith s ''https://''
     then (let rest = drop 8 s; host = takeWhile (\<lambda>c. c \<noteq> CHR ''/'') rest; tail = dropWhile (\<lambda>c. c \<noteq> CHR ''/'') rest;
               search = dropWhile (\<lambda>c. c \<noteq> CHR ''?'') tail
           in Some \<lparr>ur_protocol = ''https:'', ur_username = [], ur_password = [], ur_hostname = host,
                ur_origin = ''https://'' @ host, ur_pathname = takeWhile (\<lambda>c. c \<noteq> CHR ''?'') tail,
                ur_search = search, ur_hash = [], ur_searchParams = formDecode (drop 1 search)\<rparr>)
     else None)"

lemma pred_option_code [code]: "pred_option Q None = True" "pred_option Q (Some x) = Q x"
  by simp_all

section \<open>Redirects\<close>

text \<open>
  C27: The entry of the sign-in pages sends a browser away only when the request carries a live session, and then to
  the acceptance of the invitation that was named, to the sign-up of a company on the same host, or to an address
  whose host is on the allow list of the service that was named, over https and without credentials.
\<close>

theorem entry_redirects_safely:
  assumes "authEntryRedirectProgram A P requestUrl h w = (Inr (Respond answer), w')"
  shows "\<exists>s user w1 location. checkSession A h w = (Inr (Active s user), w1) \<and> answer = redirectTo location \<and>
    ((\<exists>token. location = acceptInvitationPath token None) \<or>
     (\<exists>u opts link v. P requestUrl = Some u \<and> buildCompanySignupUrl P opts = Some link \<and> rs_authBaseUrl opts = ur_origin u \<and>
        P link = Some v \<and> location = ur_pathname v @ ur_search v) \<or>
     (\<exists>service u. P location = Some u \<and> ur_protocol u = ''https:'' \<and> ur_username u = [] \<and> ur_password u = [] \<and>
        allowedHost service (withoutTrailingDot (ur_hostname u))))"
proof -
  from authEntry_response[OF assms] obtain u params s user w1 where
    u: "P requestUrl = Some u" "parseSignInParams P (map_of (rev (ur_searchParams u))) = Some params"
      "checkSession A h w = (Inr (Active s user), w1)"
    and to: "(\<exists>t. sp_invitation_token params = Some t \<and> answer = redirectTo (acceptInvitationPath t None)) \<or>
     (\<exists>link v. buildCompanySignupUrl P \<lparr>rs_authBaseUrl = ur_origin u, rs_service = sp_service_name params,
        rs_returnTo = sp_redirect_url params\<rparr> = Some link \<and> P link = Some v \<and>
        answer = redirectTo (ur_pathname v @ ur_search v)) \<or>
     answer = redirectTo (sp_redirect_url params)" by blast
  have valid: "validateRedirectUrl P (sp_redirect_url params) (sp_service_name params)"
    using parseSignInParams_valid[OF u(2)] by simp
  from to show ?thesis
  proof (elim disjE exE conjE)
    fix t assume "answer = redirectTo (acceptInvitationPath t None)"
    with u(3) show ?thesis by blast
  next
    fix link v
    assume "buildCompanySignupUrl P \<lparr>rs_authBaseUrl = ur_origin u, rs_service = sp_service_name params,
        rs_returnTo = sp_redirect_url params\<rparr> = Some link" "P link = Some v"
      "answer = redirectTo (ur_pathname v @ ur_search v)"
    with u(1,3) show ?thesis by force
  next
    assume "answer = redirectTo (sp_redirect_url params)"
    with u(3) valid[unfolded validateRedirectUrl_iff] show ?thesis by blast
  qed
qed

theorem entry_redirects_safely_witness:
  "\<exists>s user w1. checkSession demoAuth [(''user'', ''ann'')] demoWorld = (Inr (Active s user), w1)"
proof -
  let ?run = "authEntryRedirectProgram demoAuth queryUrl
    ''https://auth.taimei-code.com/auth/?service_name=taimei&redirect_url=https%3A%2F%2Fapp.taimei-code.com%2F''
    [(''user'', ''ann'')] demoWorld"
  have "fst ?run = Inr (Respond (redirectTo ''https://app.taimei-code.com/''))" by code_simp
  then obtain w' where run: "?run = (Inr (Respond (redirectTo ''https://app.taimei-code.com/'')), w')" by (cases ?run) auto
  from entry_redirects_safely[OF run] show ?thesis by blast
qed

section \<open>Failures\<close>

lemma map_filter_Nil_iff: "List.map_filter f xs = [] \<longleftrightarrow> (\<forall>x\<in>set xs. f x = None)"
  by (induction xs) (auto simp: map_filter_simps split: option.splits)

lemma map_filter_append: "List.map_filter f (xs @ ys) = List.map_filter f xs @ List.map_filter f ys"
  by (simp add: map_filter_def)

lemma at0_map_filter_Some:
  assumes "at0 (List.map_filter f xs) = Some c"
  shows "\<exists>before x after. xs = before @ x # after \<and> f x = Some c \<and> (\<forall>y\<in>set before. f y = None)"
proof -
  from assms have "\<not> (\<forall>x\<in>set xs. f x = None)" unfolding map_filter_Nil_iff[symmetric] by auto
  then obtain before x after where x: "xs = before @ x # after" "f x \<noteq> None" "\<forall>y\<in>set before. f y = None"
    using split_list_first_prop[of xs "\<lambda>x. f x \<noteq> None"] by auto
  then have "List.map_filter f xs = the (f x) # List.map_filter f after"
    using map_filter_Nil_iff[of f before] by (auto simp: map_filter_append map_filter_simps)
  with assms x show ?thesis by auto
qed

text \<open>
  C29: A program that ends badly is answered with the status and the tag of its first failure that the contract shows,
  or, when there is none, with the answer for internal errors, and then something was reported. A failure of the
  database, of better-auth or of the store is never shown.
\<close>

theorem failures_are_shown_or_reported:
  assumes "causeToResponse rs adapter w = (answer, w')"
  shows "(\<exists>e s before after. rs = before @ Fail e # after \<and> \<not> isBoundaryError e \<and> httpApiStatus e = Some s \<and>
      (\<forall>f. Fail f \<in> set before \<longrightarrow> httpApiStatus f = None) \<and>
      answer = \<lparr>rs_status = s, rs_headers = JSON_HEADERS, rs_body = stringify (JObj [(''_tag'', JStr (failureTag e))])\<rparr>) \<or>
    (answer = internalErrorResponse \<and> (\<forall>f. Fail f \<in> set rs \<longrightarrow> httpApiStatus f = None) \<and>
     (\<exists>reports. reports \<noteq> [] \<and> w_sentry w' = w_sentry w @ reports))"
proof -
  let ?shown = "fst (settleCause parseClientFacingError rs)"
  have none: "showable parseClientFacingError r = None \<longleftrightarrow> (\<forall>f. r = Fail f \<longrightarrow> httpApiStatus f = None)" for r
    by (cases r) (auto simp: parseClientFacingError_None_iff boundary_not_client_facing)
  have w': "w' = sendReports adapter (snd (settleCause parseClientFacingError rs)) w"
    and answer: "answer = (case ?shown of None \<Rightarrow> internalErrorResponse | Some e \<Rightarrow> clientFacingErrorResponse e)"
    using assms by (auto simp: causeToResponse_def split: prod.splits)
  show ?thesis
  proof (cases ?shown)
    case None
    then have "List.map_filter (showable parseClientFacingError) rs = []" by (simp add: settleCause_spec)
    then have "\<forall>r\<in>set rs. showable parseClientFacingError r = None" by (simp add: map_filter_Nil_iff)
    with None answer none settleCause_reports[OF None] w' show ?thesis by (force simp: sendReports_def)
  next
    case (Some c)
    then have "at0 (List.map_filter (showable parseClientFacingError) rs) = Some c" by (simp add: settleCause_spec)
    then obtain before r after where r: "rs = before @ r # after" "showable parseClientFacingError r = Some c"
        "\<forall>x\<in>set before. showable parseClientFacingError x = None" using at0_map_filter_Some by metis
    from r(2) obtain e where "r = Fail e" "\<not> isBoundaryError e" "parseClientFacingError e = Some c"
      by (cases r) (auto split: if_splits)
    with Some answer r none show ?thesis
      by (fastforce simp: parseClientFacingError_def clientFacingErrorResponse_def)
  qed
qed

theorem failures_are_shown_or_reported_witness:
  "rs_body (fst (causeToResponse [Fail DbError, Fail LastOwner] ''runRoute'' demoWorld)) = stringify (JObj [(''_tag'', JStr ''LastOwner'')])"
proof -
  obtain answer w' where run: "causeToResponse [Fail DbError, Fail LastOwner] ''runRoute'' demoWorld = (answer, w')" by fastforce
  from failures_are_shown_or_reported[OF run] show ?thesis
    by (auto simp: run Cons_eq_append_conv)
qed

section \<open>What is written is read back\<close>

text \<open>
  The session token a consumer puts into a cookie header is the one the host reads from it, also between other
  cookies, for every token that is not empty and holds neither a semicolon nor outer spaces.
\<close>

theorem session_cookie_roundtrip:
  assumes "t \<noteq> []" "CHR '';'' \<notin> set t" "trimmed t"
    and "\<forall>p\<in>set (splitOn (CHR '';'') before). trim (takeWhile (\<lambda>c. c \<noteq> CHR ''='') p) \<noteq> SESSION_COOKIE_NAME"
  shows "extractSessionTokenFromCookieHeader (buildSessionCookieHeader t) = Some t \<and>
    extractSessionTokenFromCookieHeader (before @ ''; '' @ buildSessionCookieHeader t @ CHR '';'' # after) = Some t"
  using extract_build[OF assms(1-3)] extract_among_others[OF assms(4,2,1,3)] by blast

theorem session_cookie_roundtrip_witness:
  "extractSessionTokenFromCookieHeader (''theme=dark'' @ ''; '' @ buildSessionCookieHeader ''a=b'' @ CHR '';'' # '' x=1'') = Some ''a=b''"
  using session_cookie_roundtrip[of "''a=b''" "''theme=dark''" "'' x=1''"]
  by (simp add: trimmed_def trim_def isSpace_def splitOn_no_sep SESSION_COOKIE_NAME_def)



section \<open>Health\<close>

text \<open>
  The health check always comes to an answer, whatever fails: 200 exactly when the database and the store both
  answered, 503 otherwise, with the outcome of each in its body.
\<close>

lemma health_always_answers:
  "\<exists>db store w1 w'. settleCheck pingDatabase w = (Inr db, w1) \<and> settleCheck ttlPing w1 = (Inr store, w') \<and>
    healthProgram version w = (Inr \<lparr>rs_status = (if db = CheckOk \<and> store = CheckOk then 200 else 503),
      rs_headers = JSON_HEADERS,
      rs_body = stringify (JObj [(''status'', JStr (if db = CheckOk \<and> store = CheckOk then ''ok'' else ''degraded'')),
        (''checks'', JObj [(''db'', JStr (checkString db)), (''ttlStore'', JStr (checkString store))]),
        (''version'', case version of None \<Rightarrow> JNull | Some v \<Rightarrow> JStr v)])\<rparr>, w')"
proof -
  have "throws {DbError, TtlStoreError} pingDatabase" "throws {DbError, TtlStoreError} ttlPing"
    unfolding pingDatabase_def by (intro throws_intros; simp)+
  then obtain db w1 store w' where "settleCheck pingDatabase w = (Inr db, w1)" "settleCheck ttlPing w1 = (Inr store, w')"
    using settleCheck_total by meson
  then show ?thesis by (simp add: healthProgram_def probeHealth_def andThen_def succeed_def)
qed

section \<open>Requests\<close>

text \<open>
  A request that the decoders of the contract let through is the one its endpoint stands for, and within its
  bounds: ids and codes of 1 to 64 characters, a company name of 1 to 100 without outer spaces, an e-mail address of
  at most 320 in lower case, a return address on the allow list.
\<close>

lemma decoded_calls_are_bounded:
  assumes "decodeCall emailPattern parseUrl e param payload = Some call"
  shows "endpointOf call = e \<and> wellFormedCall parseUrl call"
  by (rule decodeCall_Some[OF assms])

end
