(* ===== verification/WebFlows.thy ===== *)
theory WebFlows
  imports SpaContract
begin

text \<open>
  The decisions of the web application. The login challenge: \<open>web/src/mfa/mfa-challenge-flow.ts\<close> (the state machine
  of the page), \<open>one-at-a-time.ts\<close>, the logic of \<open>use-mfa-challenge-flow.ts\<close> and \<open>mfa-atom.ts\<close>. How failures of the
  API are told: \<open>shared/failure-message.ts\<close>, \<open>company/leave-company-outcome.ts\<close>. Where a visitor goes next:
  \<open>invitation/accept-invitation.ts\<close>, \<open>redirect-target.ts\<close>, \<open>company/company-signup-entry.ts\<close>. The texts shown are
  named constants.
\<close>

section \<open>Failures\<close>

text \<open>\<open>Cause.findErrorOption\<close>: the first failure of the cause.\<close>

fun findError :: "reason list \<Rightarrow> failure option" where
  "findError [] = None"
| "findError (Fail e # rs) = Some e"
| "findError (r # rs) = findError rs"

definition failureOutcome :: "reason list \<Rightarrow> (failure \<times> 'v) list \<Rightarrow> 'v \<Rightarrow> 'v" where
  "failureOutcome cause byTag fallback = (case findError cause of
     None \<Rightarrow> fallback
   | Some e \<Rightarrow> (case map_of byTag e of Some v \<Rightarrow> v | None \<Rightarrow> fallback))"

datatype message =
    MsgGeneric | MsgInvalidCode | MsgChallengeExpired | MsgLocked | MsgRateLimited | MsgAlreadyEnabled
  | MsgEnrollmentChanged | MsgNotEnabled
  | MsgLeaveFailed
  | MsgEmailMismatch | MsgExpiredOrUsed | MsgInvitationNotFound | MsgAcceptFailed | MsgTokenMissing

definition failureMessage :: "reason list \<Rightarrow> (failure \<times> message) list \<Rightarrow> message \<Rightarrow> message" where
  "failureMessage cause byTag fallback = failureOutcome cause byTag fallback"

definition MFA_FAILURE_MESSAGES :: "(failure \<times> message) list" where
  "MFA_FAILURE_MESSAGES =
     [(InvalidCode, MsgInvalidCode), (ChallengeExpired, MsgChallengeExpired), (Locked, MsgLocked),
      (RateLimited, MsgRateLimited), (AlreadyEnabled, MsgAlreadyEnabled), (EnrollmentChanged, MsgEnrollmentChanged),
      (NotEnabled, MsgNotEnabled), (MfaNotFound, MsgGeneric)]"

definition mfaFailureMessage :: "reason list \<Rightarrow> message" where
  "mfaFailureMessage cause = failureMessage cause MFA_FAILURE_MESSAGES MsgGeneric"

datatype leaveCompanyOutcome = SoleOwner | LeaveFailed message

definition leaveCompanyTable :: "(failure \<times> leaveCompanyOutcome) list" where
  "leaveCompanyTable = [(LastOwner, SoleOwner), (Forbidden, LeaveFailed MsgLeaveFailed), (NotFound, LeaveFailed MsgLeaveFailed)]"

definition leaveCompanyOutcomeOf :: "reason list \<Rightarrow> leaveCompanyOutcome" where
  "leaveCompanyOutcomeOf cause = failureOutcome cause leaveCompanyTable (LeaveFailed MsgLeaveFailed)"

section \<open>The login challenge\<close>

datatype challengeObservation = ChallengePresent | ChallengeAbsent | ChallengeUnavailable

definition mfaChallengeObservationOf :: "reason list + bool \<Rightarrow> challengeObservation" where
  "mfaChallengeObservationOf state = (case state of
     Inr pending \<Rightarrow> if pending then ChallengePresent else ChallengeAbsent
   | Inl cause \<Rightarrow> ChallengeUnavailable)"

datatype flowState = Ready "message option" | Verifying | Expired | Redirecting string

datatype verification = Passed string | VerificationExpired | VerificationRejected message

datatype flowEvent = Verification_started | Verification_resolved verification | Error_cleared

definition mfaChallengeFlowStateOf :: "challengeObservation \<Rightarrow> flowState" where
  "mfaChallengeFlowStateOf observation = (if observation = ChallengeAbsent then Expired else Ready None)"

fun reduceMfaChallengeFlow :: "flowState \<Rightarrow> flowEvent \<Rightarrow> flowState" where
  "reduceMfaChallengeFlow (Ready m) Verification_started = Verifying"
| "reduceMfaChallengeFlow (Ready m) Error_cleared = Ready None"
| "reduceMfaChallengeFlow Verifying (Verification_resolved v) = (case v of
     Passed url \<Rightarrow> Redirecting url
   | VerificationExpired \<Rightarrow> Expired
   | VerificationRejected m \<Rightarrow> Ready (Some m))"
| "reduceMfaChallengeFlow state event = state"

definition verificationTable :: "verification \<Rightarrow> (failure \<times> verification) list" where
  "verificationTable rejected =
     [(ChallengeExpired, VerificationExpired), (InvalidCode, rejected), (Locked, rejected), (RateLimited, rejected)]"

definition verificationOf :: "reason list + string \<Rightarrow> verification" where
  "verificationOf result = (case result of
     Inr redirect_url \<Rightarrow> Passed redirect_url
   | Inl cause \<Rightarrow>
       (let rejected = VerificationRejected (mfaFailureMessage cause)
        in failureOutcome cause (verificationTable rejected) rejected))"

datatype challengeView = ViewRedirecting | ViewExpired | ViewEntry

fun viewOf :: "flowState \<Rightarrow> challengeView" where
  "viewOf (Ready m) = ViewEntry"
| "viewOf Verifying = ViewEntry"
| "viewOf Expired = ViewExpired"
| "viewOf (Redirecting url) = ViewRedirecting"

section \<open>One at a time\<close>

text \<open>
  \<open>oneAtATime\<close>: \<open>running\<close> is the variable of the closure. A call while one is running does nothing and answers
  False. The variable is reset when the promise settles, or at once when starting throws.
\<close>

definition startOne :: "('s \<Rightarrow> (string + unit) \<times> 's) \<Rightarrow> bool \<times> 's \<Rightarrow> (string + bool) \<times> bool \<times> 's" where
  "startOne run = (\<lambda>(running, s).
     if running then (Inr False, True, s)
     else case run s of
            (Inr started, s') \<Rightarrow> (Inr True, True, s')
          | (Inl thrown, s') \<Rightarrow> (Inl thrown, False, s'))"

section \<open>The page\<close>

text \<open>
  The page: the state of the reducer, the state that was rendered last (which may be behind it), the variable of
  \<open>oneAtATime\<close>, and the requests that were sent and not yet answered.
\<close>

record page =
  pg_state :: flowState
  pg_rendered :: flowState
  pg_running :: bool
  pg_inFlight :: nat

definition openPage :: "challengeObservation \<Rightarrow> page" where
  "openPage observation = \<lparr>pg_state = mfaChallengeFlowStateOf observation,
     pg_rendered = mfaChallengeFlowStateOf observation, pg_running = False, pg_inFlight = 0\<rparr>"

text \<open>\<open>submitVerification\<close>: the event, then the request; its answer dispatches, and then the promise settles.\<close>

definition submitVerification :: "page \<Rightarrow> (string + unit) \<times> page" where
  "submitVerification p = (Inr (),
     p\<lparr>pg_state := reduceMfaChallengeFlow (pg_state p) Verification_started, pg_inFlight := Suc (pg_inFlight p)\<rparr>)"

definition submit :: "page \<Rightarrow> page" where
  "submit p = (case pg_rendered p of
     Ready m \<Rightarrow> (case startOne submitVerification (pg_running p, p) of (_, running, q) \<Rightarrow> q\<lparr>pg_running := running\<rparr>)
   | _ \<Rightarrow> p)"

definition resolveVerification :: "verification \<Rightarrow> page \<Rightarrow> page" where
  "resolveVerification v p =
     p\<lparr>pg_state := reduceMfaChallengeFlow (pg_state p) (Verification_resolved v), pg_inFlight := pg_inFlight p - 1\<rparr>"

inductive page_step :: "page \<Rightarrow> page \<Rightarrow> bool" where
  submits: "page_step p (submit p)"
| answers: "0 < pg_inFlight p \<Longrightarrow> page_step p (resolveVerification v p)"
| settles: "pg_running p \<Longrightarrow> pg_inFlight p = 0 \<Longrightarrow> page_step p (p\<lparr>pg_running := False\<rparr>)"
| changes_kind: "page_step p (p\<lparr>pg_state := reduceMfaChallengeFlow (pg_state p) Error_cleared\<rparr>)"
| renders: "page_step p (p\<lparr>pg_rendered := pg_state p\<rparr>)"

inductive page_reachable :: "page \<Rightarrow> bool" where
  opened: "page_reachable (openPage observation)"
| stepped: "page_reachable p \<Longrightarrow> page_step p q \<Longrightarrow> page_reachable q"

section \<open>Where a visitor goes next\<close>

datatype routeEntry = GoSignIn | GoToRedirectUrl string | GoCompanySignup | ShowPage | AcceptFailedWith message

definition redirectUrlAfterAccept :: "url_parser \<Rightarrow> string option \<Rightarrow> string option \<Rightarrow> string" where
  "redirectUrlAfterAccept parseUrl service_name redirect_url =
     (case (service_name, redirect_url) of
        (Some s, Some r) \<Rightarrow> (case parseRedirectTarget parseUrl s r of None \<Rightarrow> ''/account'' | Some t \<Rightarrow> rt_redirect_url t)
      | _ \<Rightarrow> ''/account'')"

definition acceptTable :: "(failure \<times> message) list" where
  "acceptTable = [(EmailMismatch, MsgEmailMismatch), (ExpiredOrUsed, MsgExpiredOrUsed), (NotFound, MsgInvitationNotFound)]"

definition outcomeOfAccepted :: "string \<Rightarrow> reason list + unit \<Rightarrow> routeEntry" where
  "outcomeOfAccepted redirectUrl exit = (case exit of
     Inr _ \<Rightarrow> GoToRedirectUrl redirectUrl
   | Inl cause \<Rightarrow> AcceptFailedWith (failureMessage cause acceptTable MsgAcceptFailed))"

text \<open>\<open>hasSession\<close> and \<open>accept\<close> are promises: \<open>None\<close> is a rejection. The second runs only when there is a session.\<close>

definition acceptInvitationOutcome ::
    "string option \<Rightarrow> string \<Rightarrow> bool option \<Rightarrow> (string \<Rightarrow> (reason list + unit) option) \<Rightarrow> routeEntry" where
  "acceptInvitationOutcome invitationToken redirectUrl hasSession accept =
     (case nonEmpty invitationToken of
        None \<Rightarrow> AcceptFailedWith MsgTokenMissing
      | Some token \<Rightarrow>
          (case hasSession of
             None \<Rightarrow> AcceptFailedWith MsgAcceptFailed
           | Some present \<Rightarrow>
               (if \<not> present then GoSignIn
                else case accept token of
                       None \<Rightarrow> AcceptFailedWith MsgAcceptFailed
                     | Some exit \<Rightarrow> outcomeOfAccepted redirectUrl exit)))"

text \<open>The input: \<open>None\<close> without a session, else how reading the companies ended (their number) and the target.\<close>

definition companySignupEntryOf :: "((reason list + nat) \<times> string) option \<Rightarrow> routeEntry" where
  "companySignupEntryOf input = (case input of
     None \<Rightarrow> GoSignIn
   | Some (companyState, redirectUrl) \<Rightarrow>
       (case companyState of
          Inr memberships \<Rightarrow> if memberships > 0 then GoToRedirectUrl redirectUrl else ShowPage
        | Inl _ \<Rightarrow> ShowPage))"

definition readCompanySignupEntry :: "bool option \<Rightarrow> (reason list + nat) \<Rightarrow> string \<Rightarrow> routeEntry" where
  "readCompanySignupEntry readSession companyState redirectUrl = (case readSession of
     None \<Rightarrow> ShowPage
   | Some False \<Rightarrow> companySignupEntryOf None
   | Some True \<Rightarrow> companySignupEntryOf (Some (companyState, redirectUrl)))"

section \<open>What the page guarantees\<close>

lemma reduce_final [simp]:
  "reduceMfaChallengeFlow Expired e = Expired" "reduceMfaChallengeFlow (Redirecting u) e = Redirecting u"
  by (cases e; simp)+

text \<open>At most one request is out, and a page that shows that it verifies is waiting for one.\<close>

definition pageInv :: "page \<Rightarrow> bool" where
  "pageInv p \<longleftrightarrow> pg_inFlight p \<le> 1 \<and> (pg_inFlight p = 1 \<longrightarrow> pg_running p) \<and>
     (pg_state p = Verifying \<longrightarrow> pg_inFlight p = 1) \<and> (\<forall>m. pg_state p = Ready m \<longrightarrow> pg_inFlight p = 0)"

lemma reduce_Ready: "reduceMfaChallengeFlow s e = Ready m \<longleftrightarrow>
    (s = Ready m \<and> e \<noteq> Verification_started \<and> e \<noteq> Error_cleared) \<or> (m = None \<and> (\<exists>n. s = Ready n) \<and> e = Error_cleared) \<or>
    (\<exists>x. s = Verifying \<and> e = Verification_resolved (VerificationRejected x) \<and> m = Some x)"
  by (cases s; cases e) (auto split: verification.splits)

lemma reduce_Verifying: "reduceMfaChallengeFlow s e = Verifying \<longleftrightarrow>
    (\<exists>m. s = Ready m \<and> e = Verification_started) \<or> (s = Verifying \<and> (\<forall>v. e \<noteq> Verification_resolved v))"
  by (cases s; cases e) (auto split: verification.splits)

lemma submit_cases:
  "submit p = p \<or> (\<not> pg_running p \<and> submit p = p\<lparr>pg_state := reduceMfaChallengeFlow (pg_state p) Verification_started,
     pg_inFlight := Suc (pg_inFlight p), pg_running := True\<rparr>)"
proof -
  have "p\<lparr>pg_running := True\<rparr> = p" if "pg_running p" using that by (cases p) simp
  then show ?thesis
    by (cases "pg_running p"; cases "pg_rendered p") (simp_all add: submit_def startOne_def submitVerification_def)
qed

lemma page_step_inv: "page_step p q \<Longrightarrow> pageInv p \<Longrightarrow> pageInv q"
proof (induction rule: page_step.induct)
  case (submits p)
  then show ?case using submit_cases[of p] by (cases "pg_state p") (auto simp: pageInv_def)
next
  case (answers p v)
  then show ?case by (auto simp: pageInv_def resolveVerification_def reduce_Verifying reduce_Ready)
qed (auto simp: pageInv_def reduce_Verifying reduce_Ready)

lemma page_invariant: "page_reachable p \<Longrightarrow> pageInv p"
proof (induction rule: page_reachable.induct)
  case (opened observation)
  then show ?case by (simp add: pageInv_def openPage_def mfaChallengeFlowStateOf_def)
next
  case (stepped p q) with page_step_inv show ?case by blast
qed

lemma page_redirect_final: "page_step p q \<Longrightarrow> pg_state p = Redirecting u \<Longrightarrow> pg_state q = Redirecting u"
proof (induction rule: page_step.induct)
  case (submits p)
  then show ?case using submit_cases[of p] by auto
qed (auto simp: resolveVerification_def)

end
