(* ===== verification/WebProperties.thy ===== *)
theory WebProperties
  imports WebFlows Demo
begin

text \<open>
  What the pages of the web application guarantee: the page of the login challenge sends one request at a time and
  never gets stuck, every failure the API declares is told, and a visitor who accepts an invitation goes to an
  allowed address.
\<close>

section \<open>The login challenge\<close>

lemma submit_ready:
  "pg_rendered p = Ready m \<Longrightarrow> \<not> pg_running p \<Longrightarrow> pg_state p = Ready n \<Longrightarrow>
    pg_state (submit p) = Verifying \<and> pg_inFlight (submit p) = Suc (pg_inFlight p)"
  by (simp add: submit_def startOne_def submitVerification_def)

text \<open>
  The page of the login challenge has at most one request out, whatever the visitor clicks and however far the
  rendering is behind; while it shows that it verifies there is exactly one, and while it takes a code there is none.
\<close>

theorem challenge_page_one_request:
  assumes "page_reachable p"
  shows "pg_inFlight p \<le> 1 \<and> (pg_state p = Verifying \<longrightarrow> pg_inFlight p = 1) \<and>
    ((\<exists>m. pg_state p = Ready m) \<longrightarrow> pg_inFlight p = 0)"
  using page_invariant[OF assms] by (auto simp: pageInv_def)

theorem challenge_page_one_request_witness:
  "pg_inFlight (submit (submit (openPage ChallengePresent))) \<le> 1 \<and> pg_state (submit (submit (openPage ChallengePresent))) = Verifying"
proof -
  have "page_reachable (submit (submit (openPage ChallengePresent)))"
    by (rule page_reachable.stepped[OF page_reachable.stepped[OF page_reachable.opened]]) (rule page_step.submits)+
  moreover have "pg_state (submit (submit (openPage ChallengePresent))) = Verifying"
    by (simp add: submit_def startOne_def submitVerification_def openPage_def mfaChallengeFlowStateOf_def)
  ultimately show ?thesis using challenge_page_one_request by blast
qed



section \<open>Failures are told\<close>

text \<open>
  The tables of messages are exactly as long as the contract: each has one entry for every failure the API
  declares for its endpoints, apart from the missing session that is handled for all pages, and no other.
\<close>

lemma failure_tables_match_contract:
  "set (map fst (verificationTable v)) = spaErrors MfaChallenge_verify - {Unauthorized} \<and>
   set (map fst leaveCompanyTable) = spaErrors Membership_remove - {Unauthorized} \<and>
   set (map fst acceptTable) = spaErrors Invitation_accept - {Unauthorized} \<and>
   set (map fst MFA_FAILURE_MESSAGES) =
     \<Union> (spaErrors ` {Mfa_enroll, Mfa_activate, Mfa_disable, MfaChallenge_verify}) - {Unauthorized} \<and>
   distinct (map fst (verificationTable v)) \<and> distinct (map fst leaveCompanyTable) \<and>
   distinct (map fst acceptTable) \<and> distinct (map fst MFA_FAILURE_MESSAGES)"
  by (auto simp: verificationTable_def leaveCompanyTable_def acceptTable_def MFA_FAILURE_MESSAGES_def spaErrors_def)

section \<open>Where a visitor goes\<close>

text \<open>
  Accepting an invitation sends the visitor on only after the invitation was accepted within a session, and then
  to an address of the allow list of the service that was named, or to the account page.
\<close>

theorem accept_redirects_safely:
  assumes "acceptInvitationOutcome invitationToken (redirectUrlAfterAccept parseUrl service_name redirect_url)
      hasSession accept = GoToRedirectUrl u"
  shows "hasSession = Some True \<and> (\<exists>token. invitationToken = Some token \<and> accept token = Some (Inr ())) \<and>
    (u = ''/account'' \<or> (\<exists>s r. service_name = Some s \<and> redirect_url = Some r \<and> u = r \<and> validateRedirectUrl parseUrl r s))"
proof -
  let ?u = "redirectUrlAfterAccept parseUrl service_name redirect_url"
  from assms have "hasSession = Some True \<and> (\<exists>token. invitationToken = Some token \<and> accept token = Some (Inr ())) \<and> u = ?u"
    by (auto simp: acceptInvitationOutcome_def outcomeOfAccepted_def nonEmpty_def
        split: option.splits if_splits sum.splits)
  moreover have "?u = ''/account'' \<or>
      (\<exists>s r. service_name = Some s \<and> redirect_url = Some r \<and> ?u = r \<and> validateRedirectUrl parseUrl r s)"
    by (auto simp: redirectUrlAfterAccept_def parseRedirectTarget_def split: option.splits if_splits)
  ultimately show ?thesis by blast
qed

theorem accept_redirects_safely_witness:
  "validateRedirectUrl demoUrl ''https://auth.taimei-code.com/x'' ''accounts''"
proof -
  have "acceptInvitationOutcome (Some ''t'') (redirectUrlAfterAccept demoUrl (Some ''accounts'')
      (Some ''https://auth.taimei-code.com/x'')) (Some True) (\<lambda>_. Some (Inr ())) = GoToRedirectUrl ''https://auth.taimei-code.com/x''"
    by code_simp
  from accept_redirects_safely[OF this] show ?thesis by auto
qed

end
