(* ===== verification/WebShared.thy ===== *)
theory WebShared
  imports WebFlows Links
begin

text \<open>
  What the pages of the web application share: \<open>web/src/shared/atom-runtime.ts\<close> and \<open>AsyncSection.tsx\<close> (what is shown
  of data that is being read), \<open>leave-spa.ts\<close> and \<open>spa-api-client.ts\<close> (leaving the document), \<open>notify.tsx\<close>,
  \<open>ConfirmDestructiveDialog.tsx\<close>, \<open>auth/sign-out.ts\<close>, and how a page with a busy flag behaves. A component is a record
  of its state; a handler is a function from the state to the state and the promise chain it starts, if any. React
  renders between two events of the user, so a handler sees the state as it is.
\<close>

section \<open>Data that is being read\<close>

text \<open>The library's \<open>AsyncResult\<close>: not read yet, read, or failed, perhaps after it had been read before.\<close>

datatype 'a asyncResult = AsyncInitial | AsyncSuccess 'a | AsyncFailure "reason list" "'a option"

fun asyncValue :: "'a asyncResult \<Rightarrow> 'a option" where
  "asyncValue AsyncInitial = None"
| "asyncValue (AsyncSuccess a) = Some a"
| "asyncValue (AsyncFailure cause previous) = previous"

definition asyncGetOrElse :: "'a \<Rightarrow> 'a asyncResult \<Rightarrow> 'a" where
  "asyncGetOrElse fallback r = (case asyncValue r of Some a \<Rightarrow> a | None \<Rightarrow> fallback)"

fun failedBeforeAnyValue :: "'a asyncResult \<Rightarrow> bool" where
  "failedBeforeAnyValue (AsyncFailure cause None) = True"
| "failedBeforeAnyValue r = False"

datatype 'a sectionView = SectionFailed | SectionLoading | SectionEmpty | SectionShows 'a

definition AsyncSection :: "('a \<Rightarrow> bool) option \<Rightarrow> 'a asyncResult \<Rightarrow> 'a sectionView" where
  "AsyncSection emptyWhen result =
     (if failedBeforeAnyValue result then SectionFailed
      else case asyncValue result of
             None \<Rightarrow> SectionLoading
           | Some value \<Rightarrow>
               (case emptyWhen of
                  None \<Rightarrow> SectionShows value
                | Some isEmpty \<Rightarrow> if isEmpty value then SectionEmpty else SectionShows value))"

section \<open>Notifications\<close>

text \<open>\<open>ToastStale\<close> is the error that the operation was done and the display could not be refreshed.\<close>

datatype 'm toast = ToastSuccess 'm | ToastError 'm | ToastStale 'm

definition notifyAfterRefresh :: "bool \<Rightarrow> 'm option \<Rightarrow> 'm \<Rightarrow> 'm toast list" where
  "notifyAfterRefresh refreshed done staleShort =
     (if refreshed then (case done of None \<Rightarrow> [] | Some t \<Rightarrow> [ToastSuccess t]) else [ToastStale staleShort])"

section \<open>Leaving the document\<close>

text \<open>The document: its origin, the address it shows (path, query, fragment), and where it is being left to.\<close>

record webDocument =
  dc_origin :: string
  dc_href :: string
  dc_leftTo :: "string option"

definition leaveSpaTo :: "string \<Rightarrow> webDocument \<Rightarrow> webDocument" where
  "leaveSpaTo url doc = (case dc_leftTo doc of Some _ \<Rightarrow> doc | None \<Rightarrow> doc\<lparr>dc_leftTo := Some url\<rparr>)"

definition searchReturningTo :: "string \<Rightarrow> string \<Rightarrow> (string \<times> string) list" where
  "searchReturningTo origin href = [(''service_name'', ''accounts''), (''redirect_url'', origin @ href)]"

definition signInLandingSearch :: "string \<Rightarrow> (string \<times> string) list" where
  "signInLandingSearch origin = searchReturningTo origin ''/account''"

text \<open>\<open>encodeURIComponent\<close>, on the bytes of the text.\<close>

definition encodeURIComponentChar :: "char \<Rightarrow> string" where
  "encodeURIComponentChar c =
    (if isAlnum c \<or> c \<in> {CHR ''-'', CHR ''_'', CHR ''.'', CHR ''!'', CHR ''~'', CHR ''*'', CHR 0x27, CHR ''('', CHR '')''}
     then [c] else CHR 0x25 # [hexUpper (ord c div 16), hexUpper (ord c mod 16)])"

definition encodeURIComponent :: "string \<Rightarrow> string" where
  "encodeURIComponent s = concat (map encodeURIComponentChar s)"

definition signInUrl :: "string \<Rightarrow> string \<Rightarrow> string \<Rightarrow> string" where
  "signInUrl origin path returnToHref =
     path @ ''?service_name='' @ ''accounts'' @ ''&redirect_url='' @ encodeURIComponent (origin @ returnToHref)"

definition signInUrlAfterSignOut :: "webDocument \<Rightarrow> string" where
  "signInUrlAfterSignOut doc = signInUrl (dc_origin doc) ''/auth'' ''/account''"

definition leaveSpaAfterAccountDeleted :: "webDocument \<Rightarrow> webDocument" where
  "leaveSpaAfterAccountDeleted doc = leaveSpaTo (signInUrlAfterSignOut doc) doc"

definition leaveSpaToSignIn :: "webDocument \<Rightarrow> webDocument" where
  "leaveSpaToSignIn doc = leaveSpaTo (signInUrl (dc_origin doc) ''/auth/'' (dc_href doc)) doc"

text \<open>Every answer of the API passes here; the answer itself is left as it is.\<close>

definition leaveForSignInOnUnauthorized :: "reason list + 'a \<Rightarrow> webDocument \<Rightarrow> (reason list + 'a) \<times> webDocument" where
  "leaveForSignInOnUnauthorized response doc =
     (response, case response of
        Inl cause \<Rightarrow> if findError cause = Some Unauthorized then leaveSpaToSignIn doc else doc
      | Inr _ \<Rightarrow> doc)"

section \<open>Signing out\<close>

datatype signOutResult = SignedOut | SignOutFailed

text \<open>What the request of the library ends in: it rejects, or answers with or without an error.\<close>

datatype 'e authAnswer = AuthRejects | AuthAnswers "'e option"

definition signOut_web :: "'e authAnswer \<Rightarrow> signOutResult" where
  "signOut_web request = (case request of AuthAnswers None \<Rightarrow> SignedOut | _ \<Rightarrow> SignOutFailed)"

section \<open>A page with a busy flag\<close>

text \<open>
  A page and the promise chains that are running. The user raises the events the page offers; a chain goes on, or ends,
  as its promises settle.
\<close>

definition listOf :: "'a option \<Rightarrow> 'a list" where
  "listOf v = (case v of None \<Rightarrow> [] | Some a \<Rightarrow> [a])"

inductive ui_reachable ::
    "('c \<Rightarrow> 's \<Rightarrow> 's \<times> 'p option) \<Rightarrow> ('p \<Rightarrow> 'e \<Rightarrow> 's \<Rightarrow> 's \<times> 'p option) \<Rightarrow> ('s \<Rightarrow> bool) \<Rightarrow> ('c \<Rightarrow> bool) \<Rightarrow>
      's \<times> 'p list \<Rightarrow> bool" for event advance opened offered where
  opens: "opened s \<Longrightarrow> ui_reachable event advance opened offered (s, [])"
| raised: "ui_reachable event advance opened offered (s, ps) \<Longrightarrow> offered c \<Longrightarrow> event c s = (s', p) \<Longrightarrow>
    ui_reachable event advance opened offered (s', ps @ listOf p)"
| settled: "ui_reachable event advance opened offered (s, before @ p # after) \<Longrightarrow> advance p e s = (s', q) \<Longrightarrow>
    ui_reachable event advance opened offered (s', before @ listOf q @ after)"

text \<open>At most one chain runs; without one the page takes the next event, unless the document is being left.\<close>

definition oneAtATimePage ::
    "('c \<Rightarrow> 's \<Rightarrow> 's \<times> 'p option) \<Rightarrow> ('p \<Rightarrow> 'e \<Rightarrow> 's \<Rightarrow> 's \<times> 'p option) \<Rightarrow> ('s \<Rightarrow> bool) \<Rightarrow> ('c \<Rightarrow> bool) \<Rightarrow>
      ('s \<Rightarrow> bool) \<Rightarrow> ('s \<Rightarrow> bool) \<Rightarrow> bool" where
  "oneAtATimePage event advance opened offered idle left \<longleftrightarrow>
     (\<forall>s ps. ui_reachable event advance opened offered (s, ps) \<longrightarrow> length ps \<le> 1 \<and> (ps = [] \<longrightarrow> idle s \<or> left s))"

text \<open>
  The contract of a page that does one thing at a time. \<open>waits p s\<close> says that the page waits for the chain \<open>p\<close>, \<open>idle\<close>
  that it waits for none, and \<open>left\<close> that it is given up, since the document is being left.
\<close>

locale busy_page =
  fixes event :: "'c \<Rightarrow> 's \<Rightarrow> 's \<times> 'p option" and advance :: "'p \<Rightarrow> 'e \<Rightarrow> 's \<Rightarrow> 's \<times> 'p option"
    and opened :: "'s \<Rightarrow> bool" and offered :: "'c \<Rightarrow> bool"
    and waits :: "'p \<Rightarrow> 's \<Rightarrow> bool" and idle :: "'s \<Rightarrow> bool" and left :: "'s \<Rightarrow> bool"
  assumes opens_idle: "opened s \<Longrightarrow> idle s"
    and idle_starts: "offered c \<Longrightarrow> idle s \<Longrightarrow> event c s = (s', Some q) \<Longrightarrow> waits q s'"
    and idle_stays: "offered c \<Longrightarrow> idle s \<Longrightarrow> event c s = (s', None) \<Longrightarrow> idle s'"
    and waiting_refuses: "offered c \<Longrightarrow> waits q s \<Longrightarrow> event c s = (s', r) \<Longrightarrow> r = None \<and> waits q s'"
    and left_refuses: "offered c \<Longrightarrow> left s \<Longrightarrow> event c s = (s', r) \<Longrightarrow> r = None \<and> left s'"
    and goes_on: "waits p s \<Longrightarrow> advance p e s = (s', Some q) \<Longrightarrow> waits q s'"
    and ends: "waits p s \<Longrightarrow> advance p e s = (s', None) \<Longrightarrow> idle s' \<or> left s'"
begin

text \<open>At most one chain runs, and it is the one the page waits for; without one the page is idle or given up.\<close>

lemma one_at_a_time:
  "ui_reachable event advance opened offered (s, ps) \<Longrightarrow>
    (\<exists>p. ps = [p] \<and> waits p s) \<or> (ps = [] \<and> (idle s \<or> left s))"
proof (induction "(s, ps)" arbitrary: s ps rule: ui_reachable.induct)
  case (opens s)
  then show ?case using opens_idle by simp
next
  case (raised s ps c s' r)
  then show ?case
    using idle_starts[of c s s'] idle_stays[of c s s'] waiting_refuses[of c _ s s' r] left_refuses[of c s s' r]
    by (cases r) (auto simp: listOf_def)
next
  case (settled s before p after e s' r)
  then have "before = []" "after = []" "waits p s" by (auto simp: append_eq_Cons_conv Cons_eq_append_conv)
  then show ?case
    using settled.hyps goes_on[of p s e s'] ends[of p s e s'] by (cases r) (auto simp: listOf_def)
qed

lemma one_at_a_time_page: "oneAtATimePage event advance opened offered idle left"
  unfolding oneAtATimePage_def using one_at_a_time by fastforce

lemma at_most_one: "ui_reachable event advance opened offered (s, ps) \<Longrightarrow> length ps \<le> 1"
  using one_at_a_time by fastforce

lemma waits_for: "ui_reachable event advance opened offered (s, before @ p # after) \<Longrightarrow> waits p s"
  using one_at_a_time by (fastforce simp: append_eq_Cons_conv Cons_eq_append_conv)

lemma idle_again: "ui_reachable event advance opened offered (s, []) \<Longrightarrow> \<not> left s \<Longrightarrow> idle s"
  using one_at_a_time by blast

end

section \<open>The current company\<close>

text \<open>\<open>account/current-company.tsx\<close>: the answer of \<open>/api/account/memberships\<close>, and what the pages see of it.\<close>

record companyState =
  cs_currentCompanyId :: "id option"
  cs_memberships :: "membershipWithCompany list"

definition EMPTY_COMPANY_STATE :: companyState where
  "EMPTY_COMPANY_STATE = \<lparr>cs_currentCompanyId = None, cs_memberships = []\<rparr>"

record companyStateView =
  cv_loading :: bool
  cv_memberships :: "membershipWithCompany list"
  cv_currentCompanyId :: "id option"
  cv_currentMembership :: "membershipWithCompany option"

definition toCompanyStateView :: "companyState asyncResult \<Rightarrow> companyStateView" where
  "toCompanyStateView result =
     (let state = asyncGetOrElse EMPTY_COMPANY_STATE result
      in \<lparr>cv_loading = (result = AsyncInitial), cv_memberships = cs_memberships state,
          cv_currentCompanyId = cs_currentCompanyId state,
          cv_currentMembership =
            find (\<lambda>m. Some (mb_companyId m) = cs_currentCompanyId state) (cs_memberships state)\<rparr>)"

text \<open>What a promise chain waits for: the exit of a request, or that the data was read again.\<close>

datatype 'a settlement = Exited "reason list + 'a" | Refreshed bool

section \<open>The confirmation of destructive operations\<close>

record confirmDialog =
  cd_open :: bool
  cd_busy :: bool

datatype confirmEvent = ConfirmOpenChange bool | ConfirmClick

definition closedConfirmDialog :: confirmDialog where
  "closedConfirmDialog = \<lparr>cd_open = False, cd_busy = False\<rparr>"

definition confirmOpenChange :: "bool \<Rightarrow> confirmDialog \<Rightarrow> confirmDialog" where
  "confirmOpenChange next d = (if cd_busy d then d else d\<lparr>cd_open := next\<rparr>)"

text \<open>The button is disabled while the dialog is busy, and there is none in a closed dialog.\<close>

definition confirmEvent :: "confirmEvent \<Rightarrow> confirmDialog \<Rightarrow> confirmDialog \<times> unit option" where
  "confirmEvent e d = (case e of
     ConfirmOpenChange next \<Rightarrow> (confirmOpenChange next d, None)
   | ConfirmClick \<Rightarrow> if cd_open d \<and> \<not> cd_busy d then (d\<lparr>cd_busy := True\<rparr>, Some ()) else (d, None))"

text \<open>Whether the promise of \<open>onConfirm\<close> resolves or rejects, the dialog closes.\<close>

definition confirmSettled :: "unit \<Rightarrow> bool \<Rightarrow> confirmDialog \<Rightarrow> confirmDialog \<times> unit option" where
  "confirmSettled _ resolved d = (d\<lparr>cd_busy := False, cd_open := False\<rparr>, None)"

interpretation confirm: busy_page confirmEvent confirmSettled "\<lambda>d. d = closedConfirmDialog" "\<lambda>_. True"
  "\<lambda>_. cd_busy" "\<lambda>d. \<not> cd_busy d" "\<lambda>_. False"
  by unfold_locales (auto simp: closedConfirmDialog_def confirmEvent_def confirmOpenChange_def confirmSettled_def
      split: confirmEvent.splits if_splits)

section \<open>The addresses are read back\<close>

lemma percent_decodes: "formDecodeString (encodeURIComponentChar c @ s) = c # formDecodeString s"
  using ord_split[of c]
  by (auto simp: encodeURIComponentChar_def hexValue_hexUpper isAlnum_def)

lemma encodeURIComponent_decodes: "formDecodeString (encodeURIComponent s) = s"
  by (induction s) (simp_all add: encodeURIComponent_def percent_decodes)

lemma encodeURIComponent_plain: "CHR ''='' \<notin> set (encodeURIComponent s)" "CHR ''&'' \<notin> set (encodeURIComponent s)"
proof -
  have "CHR ''='' \<notin> set (encodeURIComponentChar c) \<and> CHR ''&'' \<notin> set (encodeURIComponentChar c)" for c
    using isAlnum_plain[of c] ord_split[of c] hexUpper_plain
    by (auto simp: encodeURIComponentChar_def isAlnum_def)
  then show "CHR ''='' \<notin> set (encodeURIComponent s)" "CHR ''&'' \<notin> set (encodeURIComponent s)"
    by (auto simp: encodeURIComponent_def)
qed

lemma signInUrl_reads:
  "\<exists>query. signInUrl origin path href = path @ ''?'' @ query \<and> formDecode query = searchReturningTo origin href"
proof (intro exI conjI)
  let ?enc = "encodeURIComponent (origin @ href)"
  let ?first = "''service_name=accounts''" and ?second = "''redirect_url='' @ ?enc"
  show "signInUrl origin path href = path @ ''?'' @ (?first @ CHR ''&'' # ?second)"
    by (simp add: signInUrl_def)
  have "CHR ''&'' \<notin> set ?second" using encodeURIComponent_plain(2)[of "origin @ href"] by simp
  then have "splitOn (CHR ''&'') (?first @ CHR ''&'' # ?second) = [?first, ?second]"
    by (subst splitOn_append) (simp_all add: splitOn_no_sep)
  moreover have "formDecodePair ?second = (''redirect_url'', origin @ href)"
    using encodeURIComponent_decodes[of "origin @ href"] by (simp add: formDecodePair_def)
  moreover have "formDecodePair ?first = (''service_name'', ''accounts'')" by (simp add: formDecodePair_def)
  ultimately show "formDecode (?first @ CHR ''&'' # ?second) = searchReturningTo origin href"
    by (simp add: formDecode_def searchReturningTo_def)
qed

end
