(* ===== verification/WebMembers.thy ===== *)
theory WebMembers
  imports WebShared
begin

text \<open>
  The page of the members: \<open>web/src/membership/pages/Members.tsx\<close>, \<open>MemberList.tsx\<close>, \<open>TransferOwnershipModal.tsx\<close>,
  \<open>member-label.ts\<close>, \<open>membership-atom.ts\<close>, \<open>web/src/invitation/InviteMemberForm.tsx\<close>, \<open>PendingInvitations.tsx\<close> and
  \<open>invitation-atom.ts\<close>. A request is the \<open>spa_call\<close> it is decoded as; a text that is shown is a constructor.
\<close>

section \<open>The page\<close>

definition memberLabel :: "memberRow \<Rightarrow> string" where
  "memberLabel member = (if mr_userName member = [] then mr_userEmail member else mr_userName member)"

definition ROLES_IN_SELECT_ORDER :: "role list" where
  "ROLES_IN_SELECT_ORDER = [MEMBER, ADMIN, OWNER]"

record membersPage =
  mp_companyId :: id
  mp_canManage :: bool
  mp_assignableRoles :: "role list"

datatype membersView = MembersLoading | MembersNoCompany | MembersShown membersPage

text \<open>The form and the list of the invitations are part of the page when \<open>mp_canManage\<close> holds.\<close>

definition Members :: "companyStateView \<Rightarrow> membersView" where
  "Members view =
     (if cv_loading view then MembersLoading
      else case cv_currentMembership view of
             None \<Rightarrow> MembersNoCompany
           | Some current \<Rightarrow> MembersShown
               \<lparr>mp_companyId = mb_companyId current, mp_canManage = isAtLeast (mb_role current) ADMIN,
                mp_assignableRoles = filter (canInviteRole (mb_role current)) ROLES_IN_SELECT_ORDER\<rparr>)"

text \<open>The option of a select that was chosen.\<close>

definition chosenRole :: "role list \<Rightarrow> string \<Rightarrow> role option" where
  "chosenRole assignableRoles selected = find (\<lambda>role. roleString role = selected) assignableRoles"

section \<open>The list of the members\<close>

datatype memberNote =
    RoleChanged string role | RoleChangedShort | MemberRemoved bool | MemberRemovedShort bool
  | CannotDemoteLastOwner | MayNotChangeRole | RoleChangeFailed | CannotRemoveLastOwner | RemovalFailed

record memberList =
  ml_busyUserId :: "id option"
  ml_toasts :: "memberNote toast list"

definition openMemberList :: memberList where
  "openMemberList = \<lparr>ml_busyUserId = None, ml_toasts = []\<rparr>"

datatype memberListView = MemberListLoading | MemberListShown bool "memberRow list"

text \<open>The flag says that the list could not be read.\<close>

definition memberListView :: "memberRow list asyncResult \<Rightarrow> memberListView" where
  "memberListView result =
     (if result = AsyncInitial then MemberListLoading
      else MemberListShown (failedBeforeAnyValue result) (asyncGetOrElse [] result))"

datatype memberControl = MemberOperations bool | MemberRoleLabel role

definition memberControl :: "bool \<Rightarrow> role list \<Rightarrow> id option \<Rightarrow> memberList \<Rightarrow> memberRow \<Rightarrow> memberControl" where
  "memberControl canManage assignableRoles selfUserId s member =
     (if canManage \<and> Some (mr_userId member) \<noteq> selfUserId \<and> mr_role member \<in> set assignableRoles
      then MemberOperations (ml_busyUserId s = None)
      else MemberRoleLabel (mr_role member))"

definition roleChangeTable :: "(failure \<times> memberNote) list" where
  "roleChangeTable = [(LastOwner, CannotDemoteLastOwner), (Forbidden, MayNotChangeRole), (NotFound, RoleChangeFailed)]"

definition removalTable :: "(failure \<times> memberNote) list" where
  "removalTable = [(LastOwner, CannotRemoveLastOwner), (Forbidden, RemovalFailed), (NotFound, RemovalFailed)]"

datatype memberChain = ChangingRole memberRow role | RefreshingRole memberRow role | Removing memberRow | RefreshingRemoval bool

definition handleRoleChange :: "memberRow \<Rightarrow> role \<Rightarrow> memberList \<Rightarrow> memberList \<times> memberChain option" where
  "handleRoleChange target role s =
     (if nonEmpty (ml_busyUserId s) \<noteq> None then (s, None)
      else (s\<lparr>ml_busyUserId := Some (mr_userId target)\<rparr>, Some (ChangingRole target role)))"

definition handleRemove :: "memberRow \<Rightarrow> memberList \<Rightarrow> memberList \<times> memberChain option" where
  "handleRemove target s =
     (if nonEmpty (ml_busyUserId s) \<noteq> None then (s, None)
      else (s\<lparr>ml_busyUserId := Some (mr_userId target)\<rparr>, Some (Removing target)))"

text \<open>The request of a chain: \<open>useChangeRole\<close> and \<open>useRemoveMember\<close>.\<close>

fun memberRequest :: "id \<Rightarrow> memberChain \<Rightarrow> spa_call option" where
  "memberRequest companyId (ChangingRole target role) = Some (SetRole companyId (mr_userId target) role)"
| "memberRequest companyId (Removing target) = Some (Remove companyId (mr_userId target))"
| "memberRequest companyId _ = None"

datatype memberEvent = ChangeRoleTo memberRow role | RemoveRow memberRow

fun raiseMember :: "memberEvent \<Rightarrow> memberList \<Rightarrow> memberList \<times> memberChain option" where
  "raiseMember (ChangeRoleTo target role) s = handleRoleChange target role s"
| "raiseMember (RemoveRow target) s = handleRemove target s"

fun memberOf :: "memberEvent \<Rightarrow> memberRow" where
  "memberOf (ChangeRoleTo target role) = target"
| "memberOf (RemoveRow target) = target"

definition memberListEnds :: "memberNote toast list \<Rightarrow> memberList \<Rightarrow> memberList \<times> memberChain option" where
  "memberListEnds toasts s = (s\<lparr>ml_busyUserId := None, ml_toasts := ml_toasts s @ toasts\<rparr>, None)"

text \<open>A removal answers whether the account was deleted with the membership.\<close>

fun memberSettles :: "memberChain \<Rightarrow> bool settlement \<Rightarrow> memberList \<Rightarrow> memberList \<times> memberChain option" where
  "memberSettles (ChangingRole target role) (Exited (Inr _)) s = (s, Some (RefreshingRole target role))"
| "memberSettles (ChangingRole target role) (Exited (Inl cause)) s =
    memberListEnds [ToastError (failureOutcome cause roleChangeTable RoleChangeFailed)] s"
| "memberSettles (RefreshingRole target role) (Refreshed ok) s =
    memberListEnds (notifyAfterRefresh ok (Some (RoleChanged (memberLabel target) role)) RoleChangedShort) s"
| "memberSettles (Removing target) (Exited (Inr account_deleted)) s = (s, Some (RefreshingRemoval account_deleted))"
| "memberSettles (Removing target) (Exited (Inl cause)) s =
    memberListEnds [ToastError (failureOutcome cause removalTable RemovalFailed)] s"
| "memberSettles (RefreshingRemoval account_deleted) (Refreshed ok) s =
    memberListEnds (notifyAfterRefresh ok (Some (MemberRemoved account_deleted)) (MemberRemovedShort account_deleted)) s"
| "memberSettles chain settlement s = (s, Some chain)"

text \<open>The id of a user is never empty, so that \<open>busyUserId\<close> counts as set.\<close>

interpretation memberList: busy_page raiseMember memberSettles "\<lambda>s. s = openMemberList" "\<lambda>e. mr_userId (memberOf e) \<noteq> []"
  "\<lambda>_ s. nonEmpty (ml_busyUserId s) \<noteq> None" "\<lambda>s. nonEmpty (ml_busyUserId s) = None" "\<lambda>_. False"
proof (unfold_locales, goal_cases)
  case (2 c s s' q) then show ?case by (cases c) (auto simp: handleRoleChange_def handleRemove_def nonEmpty_def split: if_splits)
next
  case (3 c s s') then show ?case by (cases c) (auto simp: handleRoleChange_def handleRemove_def split: if_splits)
next
  case (4 c q s s' r) then show ?case by (cases c) (auto simp: handleRoleChange_def handleRemove_def)
next
  case (6 p s e s' q) then show ?case
    by (cases "(p, e, s)" rule: memberSettles.cases) (auto simp: memberListEnds_def)
next
  case (7 p s e s') then show ?case
    by (cases "(p, e, s)" rule: memberSettles.cases) (auto simp: memberListEnds_def nonEmpty_def)
qed (simp_all add: openMemberList_def nonEmpty_def)

section \<open>Transferring the ownership\<close>

datatype candidatesView = CandidatesLoading | CandidatesFailed | CandidatesShown "memberRow list"

definition TransferCandidates :: "id option \<Rightarrow> memberRow list asyncResult \<Rightarrow> candidatesView" where
  "TransferCandidates selfUserId result =
     (if result = AsyncInitial \<or> selfUserId = None then CandidatesLoading
      else if failedBeforeAnyValue result then CandidatesFailed
      else CandidatesShown (filter (\<lambda>member. Some (mr_userId member) \<noteq> selfUserId) (asyncGetOrElse [] result)))"

datatype transferNote = TransferFailed | Transferred string | TransferredShort

definition transferTable :: "(failure \<times> transferNote) list" where
  "transferTable = map (\<lambda>e. (e, TransferFailed)) [Forbidden, NotFound, InvalidArgument, AlreadyOwner, LastOwner]"

text \<open>The picker, and the modal it is in: a transfer that succeeds closes it and tells the page (\<open>tp_told\<close>).\<close>

record transferPicker =
  tp_busyUserId :: "id option"
  tp_transferError :: "transferNote option"
  tp_open :: bool
  tp_told :: bool
  tp_toasts :: "transferNote toast list"

definition openTransferPicker :: transferPicker where
  "openTransferPicker = \<lparr>tp_busyUserId = None, tp_transferError = None, tp_open = True, tp_told = False, tp_toasts = []\<rparr>"

datatype transferChain = Transferring memberRow | RefreshingTransfer memberRow

definition handleTransfer :: "memberRow \<Rightarrow> transferPicker \<Rightarrow> transferPicker \<times> transferChain option" where
  "handleTransfer to s =
     (if nonEmpty (tp_busyUserId s) \<noteq> None then (s, None)
      else (s\<lparr>tp_busyUserId := Some (mr_userId to), tp_transferError := None\<rparr>, Some (Transferring to)))"

fun transferSettles :: "transferChain \<Rightarrow> unit settlement \<Rightarrow> transferPicker \<Rightarrow> transferPicker \<times> transferChain option" where
  "transferSettles (Transferring to) (Exited (Inr _)) s =
    (s\<lparr>tp_open := False, tp_told := True\<rparr>, Some (RefreshingTransfer to))"
| "transferSettles (Transferring to) (Exited (Inl cause)) s =
    (s\<lparr>tp_transferError := Some (failureOutcome cause transferTable TransferFailed), tp_busyUserId := None\<rparr>, None)"
| "transferSettles (RefreshingTransfer to) (Refreshed ok) s =
    (s\<lparr>tp_toasts := tp_toasts s @ notifyAfterRefresh ok (Some (Transferred (memberLabel to))) TransferredShort,
       tp_busyUserId := None\<rparr>, None)"
| "transferSettles chain settlement s = (s, Some chain)"

fun transferRequest :: "id \<Rightarrow> transferChain \<Rightarrow> spa_call option" where
  "transferRequest companyId (Transferring to) = Some (Transfer companyId (mr_userId to))"
| "transferRequest companyId (RefreshingTransfer to) = None"

interpretation transferPicker: busy_page handleTransfer transferSettles "\<lambda>s. s = openTransferPicker"
  "\<lambda>to. mr_userId to \<noteq> []" "\<lambda>_ s. nonEmpty (tp_busyUserId s) \<noteq> None" "\<lambda>s. nonEmpty (tp_busyUserId s) = None" "\<lambda>_. False"
proof (unfold_locales, goal_cases)
  case (6 p s e s' q) then show ?case by (cases "(p, e, s)" rule: transferSettles.cases) auto
next
  case (7 p s e s') then show ?case by (cases "(p, e, s)" rule: transferSettles.cases) (auto simp: nonEmpty_def)
qed (auto simp: openTransferPicker_def handleTransfer_def nonEmpty_def split: if_splits)

section \<open>Inviting\<close>

datatype inviteNote = InviteSent bool | InviteSentShort bool | InviteLimit | MayNotInvite | InviteFailed

definition inviteTable :: "(failure \<times> inviteNote) list" where
  "inviteTable = [(RateLimited, InviteLimit), (Forbidden, MayNotInvite)]"

record inviteForm =
  if_email :: string
  if_role :: role
  if_submitting :: bool
  if_toasts :: "inviteNote toast list"

definition openInviteForm :: inviteForm where
  "openInviteForm = \<lparr>if_email = [], if_role = MEMBER, if_submitting = False, if_toasts = []\<rparr>"

definition effectiveInviteRole :: "role list \<Rightarrow> inviteForm \<Rightarrow> role" where
  "effectiveInviteRole assignableRoles s = (if if_role s \<in> set assignableRoles then if_role s else MEMBER)"

datatype inviteEvent = TypeEmail string | SelectRole string | SubmitInvite
datatype inviteChain = SendingInvite inviteRequest | RefreshingInvite bool

text \<open>
  The inputs are disabled while the form is submitting, and so is its button, which is disabled for a blank address too.
  The payload of a submission is the request.
\<close>

fun raiseInvite :: "url_parser \<Rightarrow> role list \<Rightarrow> string option \<times> string option \<Rightarrow> inviteEvent \<Rightarrow> inviteForm \<Rightarrow>
    inviteForm \<times> inviteChain option" where
  "raiseInvite parseUrl assignableRoles search (TypeEmail v) s = (if if_submitting s then (s, None) else (s\<lparr>if_email := v\<rparr>, None))"
| "raiseInvite parseUrl assignableRoles search (SelectRole v) s =
    (case (if_submitting s, chosenRole assignableRoles v) of
       (False, Some next) \<Rightarrow> (s\<lparr>if_role := next\<rparr>, None)
     | _ \<Rightarrow> (s, None))"
| "raiseInvite parseUrl assignableRoles search SubmitInvite s =
    (if if_submitting s \<or> trim (if_email s) = [] then (s, None)
     else (s\<lparr>if_submitting := True\<rparr>, Some (SendingInvite
       \<lparr>iq_email = trim (if_email s), iq_role = effectiveInviteRole assignableRoles s,
        iq_redirect_target = (case search of (Some service, Some url) \<Rightarrow> parseRedirectTarget parseUrl service url | _ \<Rightarrow> None)\<rparr>)))"

fun inviteRequestOf :: "id \<Rightarrow> inviteChain \<Rightarrow> spa_call option" where
  "inviteRequestOf companyId (SendingInvite r) = Some (Invite companyId r)"
| "inviteRequestOf companyId (RefreshingInvite reused) = None"

text \<open>An invitation answers whether it was one that had been sent before.\<close>

fun inviteSettles :: "inviteChain \<Rightarrow> bool settlement \<Rightarrow> inviteForm \<Rightarrow> inviteForm \<times> inviteChain option" where
  "inviteSettles (SendingInvite r) (Exited (Inr reused)) s = (s\<lparr>if_email := []\<rparr>, Some (RefreshingInvite reused))"
| "inviteSettles (SendingInvite r) (Exited (Inl cause)) s =
    (s\<lparr>if_toasts := if_toasts s @ [ToastError (failureOutcome cause inviteTable InviteFailed)], if_submitting := False\<rparr>, None)"
| "inviteSettles (RefreshingInvite reused) (Refreshed ok) s =
    (s\<lparr>if_toasts := if_toasts s @ notifyAfterRefresh ok (Some (InviteSent reused)) (InviteSentShort reused),
       if_submitting := False\<rparr>, None)"
| "inviteSettles chain settlement s = (s, Some chain)"

interpretation inviteForm: busy_page "raiseInvite parseUrl roles search" inviteSettles "\<lambda>s. s = openInviteForm"
  "\<lambda>_. True" "\<lambda>_. if_submitting" "\<lambda>s. \<not> if_submitting s" "\<lambda>_. False" for parseUrl roles search
proof (unfold_locales, goal_cases)
  case (2 c s s' q) then show ?case by (cases c) (auto split: option.splits if_splits bool.splits)
next
  case (3 c s s') then show ?case by (cases c) (auto split: option.splits if_splits bool.splits)
next
  case (4 c q s s' r) then show ?case by (cases c) (auto split: option.splits)
next
  case (6 p s e s' q) then show ?case by (cases "(p, e, s)" rule: inviteSettles.cases) auto
next
  case (7 p s e s') then show ?case by (cases "(p, e, s)" rule: inviteSettles.cases) auto
qed (simp_all add: openInviteForm_def)

section \<open>Invitations that wait\<close>

datatype revokeNote = Revoked | RevokedShort | MayNotRevoke | RevokeFailed

definition revokeTable :: "(failure \<times> revokeNote) list" where
  "revokeTable = [(Forbidden, MayNotRevoke), (NotFoundOrNotPending, RevokeFailed)]"

datatype pendingView = PendingFailed | PendingHidden | PendingShown "invitation list"

definition PendingInvitations :: "invitation list asyncResult \<Rightarrow> pendingView" where
  "PendingInvitations result =
     (if failedBeforeAnyValue result then PendingFailed
      else case asyncGetOrElse [] result of [] \<Rightarrow> PendingHidden | i # is \<Rightarrow> PendingShown (i # is))"

record pendingList =
  pl_busyInvitationId :: "id option"
  pl_toasts :: "revokeNote toast list"

definition openPendingList :: pendingList where
  "openPendingList = \<lparr>pl_busyInvitationId = None, pl_toasts = []\<rparr>"

datatype revokeChain = Revoking id | RefreshingRevoke

definition handleRevoke :: "id \<Rightarrow> pendingList \<Rightarrow> pendingList \<times> revokeChain option" where
  "handleRevoke invitationId s =
     (if nonEmpty (pl_busyInvitationId s) \<noteq> None then (s, None)
      else (s\<lparr>pl_busyInvitationId := Some invitationId\<rparr>, Some (Revoking invitationId)))"

fun revokeSettles :: "revokeChain \<Rightarrow> unit settlement \<Rightarrow> pendingList \<Rightarrow> pendingList \<times> revokeChain option" where
  "revokeSettles (Revoking i) (Exited (Inr _)) s = (s, Some RefreshingRevoke)"
| "revokeSettles (Revoking i) (Exited (Inl cause)) s =
    (s\<lparr>pl_toasts := pl_toasts s @ [ToastError (failureOutcome cause revokeTable RevokeFailed)], pl_busyInvitationId := None\<rparr>, None)"
| "revokeSettles RefreshingRevoke (Refreshed ok) s =
    (s\<lparr>pl_toasts := pl_toasts s @ notifyAfterRefresh ok (Some Revoked) RevokedShort, pl_busyInvitationId := None\<rparr>, None)"
| "revokeSettles chain settlement s = (s, Some chain)"

fun revokeRequest :: "id \<Rightarrow> revokeChain \<Rightarrow> spa_call option" where
  "revokeRequest companyId (Revoking i) = Some (RevokeInvite companyId i)"
| "revokeRequest companyId RefreshingRevoke = None"

interpretation pendingList: busy_page handleRevoke revokeSettles "\<lambda>s. s = openPendingList" "\<lambda>i. i \<noteq> []"
  "\<lambda>_ s. nonEmpty (pl_busyInvitationId s) \<noteq> None" "\<lambda>s. nonEmpty (pl_busyInvitationId s) = None" "\<lambda>_. False"
proof (unfold_locales, goal_cases)
  case (6 p s e s' q) then show ?case by (cases "(p, e, s)" rule: revokeSettles.cases) auto
next
  case (7 p s e s') then show ?case by (cases "(p, e, s)" rule: revokeSettles.cases) (auto simp: nonEmpty_def)
qed (auto simp: openPendingList_def handleRevoke_def nonEmpty_def split: if_splits)

end
