(* ===== verification/WebCompany.thy ===== *)
theory WebCompany
  imports WebMembers
begin

text \<open>
  The pages about companies and the account: \<open>web/src/account/current-company.tsx\<close> (switching), \<open>company/CompanySwitcher.tsx\<close>,
  \<open>company/pages/Companies.tsx\<close>, \<open>CompanySettings.tsx\<close>, \<open>CompanySettingsForm.tsx\<close>, \<open>AddCompanyDialog.tsx\<close>,
  \<open>company/pages/SignUpCompany.tsx\<close>, \<open>company-atom.ts\<close>, \<open>account/DangerZone.tsx\<close>, \<open>ProfileForm.tsx\<close>,
  \<open>AvatarUploader.tsx\<close>, \<open>account-atom.ts\<close> and \<open>auth/SignOutButton.tsx\<close>.
\<close>

section \<open>Switching and leaving\<close>

datatype companyNote =
    SwitchedShort | SwitchFailed | LeftCompany string | LeftCompanyShort | LeaveNote message
  | CompanyAdded string | CompanyAddedShort | AddCompanyFailed
  | CompanyUpdated | MayNotUpdate | UpdateFailed
  | CompanyDeleted string | CompanyDeletedShort | MayNotDelete | DeleteFailed
  | SignupFailed

definition switchTable :: "(failure \<times> companyNote) list" where
  "switchTable = [(Forbidden, SwitchFailed)]"

datatype switchChain = SwitchRequested id | RefreshingSwitch | SwitchSkipped

text \<open>\<open>switchCompany\<close> of \<open>useSwitchCompany\<close>; \<open>pending\<close> is the rendered state of the mutation.\<close>

definition switchCompany :: "bool \<Rightarrow> id \<Rightarrow> switchChain" where
  "switchCompany pending companyId = (if pending then SwitchSkipped else SwitchRequested companyId)"

fun switchSettles :: "switchChain \<Rightarrow> unit settlement \<Rightarrow> companyNote toast list \<times> switchChain option" where
  "switchSettles (SwitchRequested c) (Exited (Inr _)) = ([], Some RefreshingSwitch)"
| "switchSettles (SwitchRequested c) (Exited (Inl cause)) = ([ToastError (failureOutcome cause switchTable SwitchFailed)], None)"
| "switchSettles RefreshingSwitch (Refreshed ok) = (notifyAfterRefresh ok None SwitchedShort, None)"
| "switchSettles SwitchSkipped settlement = ([], None)"
| "switchSettles chain settlement = ([], Some chain)"

text \<open>The switcher of the side bar: hidden, the one company, or a select; what choosing an entry does.\<close>

datatype switcherView = SwitcherHidden | SwitcherLabel string | SwitcherSelect bool id "id list"

definition CompanySwitcher :: "companyStateView \<Rightarrow> bool \<Rightarrow> switcherView" where
  "CompanySwitcher view switchPending = (case cv_currentMembership view of
     None \<Rightarrow> SwitcherHidden
   | Some current \<Rightarrow>
       (if length (cv_memberships view) > 1
        then SwitcherSelect (\<not> switchPending) (mb_companyId current) (map mb_companyId (cv_memberships view))
        else SwitcherLabel (mb_companyName current)))"

definition chooseCompany :: "membershipWithCompany \<Rightarrow> bool \<Rightarrow> id \<Rightarrow> switchChain option" where
  "chooseCompany current switchPending next =
     (if next = mb_companyId current then None else Some (switchCompany switchPending next))"

record companiesPage =
  cy_busyCompanyId :: "id option"
  cy_soleOwnerCompanyId :: "id option"
  cy_document :: webDocument
  cy_toasts :: "companyNote toast list"

definition openCompanies :: "webDocument \<Rightarrow> companiesPage" where
  "openCompanies doc = \<lparr>cy_busyCompanyId = None, cy_soleOwnerCompanyId = None, cy_document = doc, cy_toasts = []\<rparr>"

datatype companyEvent = SwitchRow bool id | LeaveRow membershipWithCompany | OwnershipTransferred

datatype companyChain = Switching switchChain | Leaving membershipWithCompany | RefreshingLeave membershipWithCompany

definition handleSwitch :: "bool \<Rightarrow> id \<Rightarrow> companiesPage \<Rightarrow> companiesPage \<times> companyChain option" where
  "handleSwitch pending companyId s =
     (if nonEmpty (cy_busyCompanyId s) \<noteq> None then (s, None)
      else (s\<lparr>cy_busyCompanyId := Some companyId\<rparr>, Some (Switching (switchCompany pending companyId))))"

definition handleLeave :: "id option \<Rightarrow> membershipWithCompany \<Rightarrow> companiesPage \<Rightarrow> companiesPage \<times> companyChain option" where
  "handleLeave selfUserId m s =
     (if nonEmpty selfUserId = None \<or> nonEmpty (cy_busyCompanyId s) \<noteq> None then (s, None)
      else (s\<lparr>cy_busyCompanyId := Some (mb_companyId m), cy_soleOwnerCompanyId := None\<rparr>, Some (Leaving m)))"

fun raiseCompany :: "id option \<Rightarrow> companyEvent \<Rightarrow> companiesPage \<Rightarrow> companiesPage \<times> companyChain option" where
  "raiseCompany selfUserId (SwitchRow pending c) s = handleSwitch pending c s"
| "raiseCompany selfUserId (LeaveRow m) s = handleLeave selfUserId m s"
| "raiseCompany selfUserId OwnershipTransferred s = (s\<lparr>cy_soleOwnerCompanyId := None\<rparr>, None)"

fun companyOf :: "companyEvent \<Rightarrow> id option" where
  "companyOf (SwitchRow pending c) = Some c"
| "companyOf (LeaveRow m) = Some (mb_companyId m)"
| "companyOf OwnershipTransferred = None"

text \<open>The request of a chain; one leaves a company by removing oneself.\<close>

fun companyRequest :: "id \<Rightarrow> companyChain \<Rightarrow> spa_call option" where
  "companyRequest selfUserId (Switching (SwitchRequested c)) = Some (SwitchCompany c)"
| "companyRequest selfUserId (Leaving m) = Some (Remove (mb_companyId m) selfUserId)"
| "companyRequest selfUserId _ = None"

definition leaveEnds :: "companyNote toast list \<Rightarrow> companiesPage \<Rightarrow> companiesPage \<times> companyChain option" where
  "leaveEnds toasts s = (s\<lparr>cy_busyCompanyId := None, cy_toasts := cy_toasts s @ toasts\<rparr>, None)"

fun companySettles :: "companyChain \<Rightarrow> unit settlement + bool settlement \<Rightarrow> companiesPage \<Rightarrow> companiesPage \<times> companyChain option" where
  "companySettles (Switching chain) (Inl settlement) s = (case switchSettles chain settlement of
     (toasts, Some chain') \<Rightarrow> (s\<lparr>cy_toasts := cy_toasts s @ toasts\<rparr>, Some (Switching chain'))
   | (toasts, None) \<Rightarrow> leaveEnds toasts s)"
| "companySettles (Leaving m) (Inr (Exited (Inr account_deleted))) s =
    (if account_deleted then (s\<lparr>cy_document := leaveSpaAfterAccountDeleted (cy_document s)\<rparr>, None)
     else (s, Some (RefreshingLeave m)))"
| "companySettles (Leaving m) (Inr (Exited (Inl cause))) s = (case leaveCompanyOutcomeOf cause of
     SoleOwner \<Rightarrow> leaveEnds [] (s\<lparr>cy_soleOwnerCompanyId := Some (mb_companyId m)\<rparr>)
   | LeaveFailed text \<Rightarrow> leaveEnds [ToastError (LeaveNote text)] s)"
| "companySettles (RefreshingLeave m) (Inr (Refreshed ok)) s =
    leaveEnds (notifyAfterRefresh ok (Some (LeftCompany (mb_companyName m))) LeftCompanyShort) s"
| "companySettles chain settlement s = (s, Some chain)"

text \<open>What a row offers: switching to it, and leaving it or handing it over.\<close>

datatype companyControl = SwitchButton bool | LeaveButton bool | HandOver

definition companyRowControls :: "id option \<Rightarrow> bool \<Rightarrow> id option \<Rightarrow> companiesPage \<Rightarrow> membershipWithCompany \<Rightarrow> companyControl list" where
  "companyRowControls selfUserId switchPending currentCompanyId s m =
     (if Some (mb_companyId m) \<noteq> currentCompanyId
      then [SwitchButton (cy_busyCompanyId s = None \<and> \<not> switchPending)] else []) @
     (if cy_soleOwnerCompanyId s = Some (mb_companyId m) then [HandOver]
      else [LeaveButton (cy_busyCompanyId s = None \<and> selfUserId \<noteq> None)])"

lemma leftTo_leaveSpaTo [simp]: "dc_leftTo (leaveSpaTo url doc) \<noteq> None"
  by (simp add: leaveSpaTo_def split: option.splits)

lemma leftTo_accountDeleted [simp]: "dc_leftTo (leaveSpaAfterAccountDeleted doc) \<noteq> None"
  by (simp add: leaveSpaAfterAccountDeleted_def)

interpretation companies: busy_page "raiseCompany selfUserId" companySettles "\<lambda>s. \<exists>doc. s = openCompanies doc"
  "\<lambda>e. companyOf e \<noteq> Some []" "\<lambda>_ s. nonEmpty (cy_busyCompanyId s) \<noteq> None" "\<lambda>s. nonEmpty (cy_busyCompanyId s) = None"
  "\<lambda>s. nonEmpty (cy_busyCompanyId s) \<noteq> None \<and> dc_leftTo (cy_document s) \<noteq> None" for selfUserId
proof (unfold_locales, goal_cases)
  case (2 c s s' q) then show ?case by (cases c) (auto simp: handleSwitch_def handleLeave_def nonEmpty_def split: if_splits)
next
  case (3 c s s') then show ?case by (cases c) (auto simp: handleSwitch_def handleLeave_def split: if_splits)
next
  case (4 c q s s' r) then show ?case by (cases c) (auto simp: handleSwitch_def handleLeave_def)
next
  case (5 c s s' r) then show ?case by (cases c) (auto simp: handleSwitch_def handleLeave_def)
next
  case (6 p s e s' q) then show ?case
    by (cases "(p, e, s)" rule: companySettles.cases)
      (auto simp: leaveEnds_def split: prod.splits option.splits leaveCompanyOutcome.splits if_splits)
next
  case (7 p s e s') then show ?case
    by (cases "(p, e, s)" rule: companySettles.cases)
      (auto simp: leaveEnds_def nonEmpty_def split: prod.splits option.splits leaveCompanyOutcome.splits if_splits
        intro: leftTo_accountDeleted[unfolded not_None_eq])
qed (auto simp: openCompanies_def nonEmpty_def)

section \<open>Adding a company\<close>

record addCompanyDialog =
  ad_open :: bool
  ad_name :: string
  ad_orgCode :: org_code
  ad_submitting :: bool
  ad_error :: "companyNote option"
  ad_toasts :: "companyNote toast list"

definition closedAddCompany :: addCompanyDialog where
  "closedAddCompany = \<lparr>ad_open = False, ad_name = [], ad_orgCode = CORPORATE, ad_submitting = False, ad_error = None, ad_toasts = []\<rparr>"

definition resetAddCompany :: "addCompanyDialog \<Rightarrow> addCompanyDialog" where
  "resetAddCompany d = d\<lparr>ad_name := [], ad_orgCode := CORPORATE, ad_error := None\<rparr>"

datatype formEvent = OpenChange bool | TypeName string | PickOrgCode org_code | SubmitForm

datatype formChain = SendingForm string org_code | RefreshingForm string

text \<open>The inputs and the button are disabled while the dialog is submitting, and the button for a blank name.\<close>

fun raiseAddCompany :: "formEvent \<Rightarrow> addCompanyDialog \<Rightarrow> addCompanyDialog \<times> formChain option" where
  "raiseAddCompany (OpenChange next) d =
    (if ad_submitting d then (d, None) else ((if next then d else resetAddCompany d)\<lparr>ad_open := next\<rparr>, None))"
| "raiseAddCompany (TypeName v) d = (if ad_submitting d then (d, None) else (d\<lparr>ad_name := v\<rparr>, None))"
| "raiseAddCompany (PickOrgCode c) d = (if ad_submitting d then (d, None) else (d\<lparr>ad_orgCode := c\<rparr>, None))"
| "raiseAddCompany SubmitForm d =
    (if ad_submitting d \<or> trim (ad_name d) = [] then (d, None)
     else (d\<lparr>ad_submitting := True, ad_error := None\<rparr>, Some (SendingForm (trim (ad_name d)) (ad_orgCode d))))"

fun addCompanySettles :: "formChain \<Rightarrow> unit settlement \<Rightarrow> addCompanyDialog \<Rightarrow> addCompanyDialog \<times> formChain option" where
  "addCompanySettles (SendingForm n c) (Exited (Inr _)) d = ((resetAddCompany d)\<lparr>ad_open := False\<rparr>, Some (RefreshingForm n))"
| "addCompanySettles (SendingForm n c) (Exited (Inl cause)) d =
    (d\<lparr>ad_error := Some (failureOutcome cause [] AddCompanyFailed), ad_submitting := False\<rparr>, None)"
| "addCompanySettles (RefreshingForm n) (Refreshed ok) d =
    (d\<lparr>ad_toasts := ad_toasts d @ notifyAfterRefresh ok (Some (CompanyAdded n)) CompanyAddedShort, ad_submitting := False\<rparr>, None)"
| "addCompanySettles chain settlement d = (d, Some chain)"

fun addCompanyRequest :: "formChain \<Rightarrow> spa_call option" where
  "addCompanyRequest (SendingForm n c) = Some (AddAnotherCompany n c)"
| "addCompanyRequest (RefreshingForm n) = None"

interpretation addCompany: busy_page raiseAddCompany addCompanySettles "\<lambda>d. d = closedAddCompany" "\<lambda>_. True"
  "\<lambda>_. ad_submitting" "\<lambda>d. \<not> ad_submitting d" "\<lambda>_. False"
proof (unfold_locales, goal_cases)
  case (2 c s s' q) then show ?case by (cases c) (auto split: if_splits)
next
  case (3 c s s') then show ?case by (cases c) (auto simp: resetAddCompany_def split: if_splits)
next
  case (4 c q s s' r) then show ?case by (cases c) auto
next
  case (6 p s e s' q) then show ?case by (cases "(p, e, s)" rule: addCompanySettles.cases) (auto simp: resetAddCompany_def)
next
  case (7 p s e s') then show ?case by (cases "(p, e, s)" rule: addCompanySettles.cases) auto
qed (simp_all add: closedAddCompany_def)

section \<open>The settings of a company\<close>

datatype settingsView = SettingsLoading | SettingsOwnersOnly | SettingsForm membershipWithCompany bool

text \<open>The flag says that it is the last company of the user.\<close>

definition CompanySettings :: "companyStateView \<Rightarrow> settingsView" where
  "CompanySettings view =
     (if cv_loading view then SettingsLoading
      else case cv_currentMembership view of
             None \<Rightarrow> SettingsOwnersOnly
           | Some current \<Rightarrow>
               (if mb_role current \<noteq> OWNER then SettingsOwnersOnly
                else SettingsForm current (length (cv_memberships view) \<le> 1)))"

record settingsForm =
  sf_name :: string
  sf_orgCode :: org_code
  sf_submitting :: bool
  sf_toasts :: "companyNote toast list"

definition openSettingsForm :: "membershipWithCompany \<Rightarrow> settingsForm" where
  "openSettingsForm m = \<lparr>sf_name = mb_companyName m, sf_orgCode = mb_companyOrgCode m, sf_submitting = False, sf_toasts = []\<rparr>"

definition updateTable :: "(failure \<times> companyNote) list" where
  "updateTable = [(Forbidden, MayNotUpdate), (NotFound, UpdateFailed)]"

fun raiseSettings :: "formEvent \<Rightarrow> settingsForm \<Rightarrow> settingsForm \<times> formChain option" where
  "raiseSettings (OpenChange next) f = (f, None)"
| "raiseSettings (TypeName v) f = (if sf_submitting f then (f, None) else (f\<lparr>sf_name := v\<rparr>, None))"
| "raiseSettings (PickOrgCode c) f = (if sf_submitting f then (f, None) else (f\<lparr>sf_orgCode := c\<rparr>, None))"
| "raiseSettings SubmitForm f =
    (if sf_submitting f \<or> trim (sf_name f) = [] then (f, None)
     else (f\<lparr>sf_submitting := True\<rparr>, Some (SendingForm (trim (sf_name f)) (sf_orgCode f))))"

fun settingsSettles :: "formChain \<Rightarrow> unit settlement \<Rightarrow> settingsForm \<Rightarrow> settingsForm \<times> formChain option" where
  "settingsSettles (SendingForm n c) (Exited (Inr _)) f = (f, Some (RefreshingForm n))"
| "settingsSettles (SendingForm n c) (Exited (Inl cause)) f =
    (f\<lparr>sf_toasts := sf_toasts f @ [ToastError (failureOutcome cause updateTable UpdateFailed)], sf_submitting := False\<rparr>, None)"
| "settingsSettles (RefreshingForm n) (Refreshed ok) f =
    (f\<lparr>sf_toasts := sf_toasts f @ notifyAfterRefresh ok (Some CompanyUpdated) CompanyUpdated, sf_submitting := False\<rparr>, None)"
| "settingsSettles chain settlement f = (f, Some chain)"

fun settingsRequest :: "id \<Rightarrow> formChain \<Rightarrow> spa_call option" where
  "settingsRequest companyId (SendingForm n c) = Some (UpdateCompany companyId n c)"
| "settingsRequest companyId (RefreshingForm n) = None"

interpretation settings: busy_page raiseSettings settingsSettles "\<lambda>f. \<exists>m. f = openSettingsForm m" "\<lambda>_. True"
  "\<lambda>_. sf_submitting" "\<lambda>f. \<not> sf_submitting f" "\<lambda>_. False"
proof (unfold_locales, goal_cases)
  case (2 c s s' q) then show ?case by (cases c) (auto split: if_splits)
next
  case (3 c s s') then show ?case by (cases c) (auto split: if_splits)
next
  case (4 c q s s' r) then show ?case by (cases c) auto
next
  case (6 p s e s' q) then show ?case by (cases "(p, e, s)" rule: settingsSettles.cases) auto
next
  case (7 p s e s') then show ?case by (cases "(p, e, s)" rule: settingsSettles.cases) auto
qed (auto simp: openSettingsForm_def)

text \<open>Deleting it, behind the confirmation, whose button waits for the chain of \<open>handleDelete\<close>.\<close>

definition deleteTable :: "(failure \<times> companyNote) list" where
  "deleteTable = [(Forbidden, MayNotDelete), (LastOwner, DeleteFailed)]"

record deleteSection =
  ds_confirm :: confirmDialog
  ds_document :: webDocument
  ds_navigatedTo :: "string option"
  ds_toasts :: "companyNote toast list"

definition openDeleteSection :: "webDocument \<Rightarrow> deleteSection" where
  "openDeleteSection doc = \<lparr>ds_confirm = closedConfirmDialog, ds_document = doc, ds_navigatedTo = None, ds_toasts = []\<rparr>"

datatype deleteChain = DeletingCompany id string | RefreshingDelete string

definition raiseDelete :: "id \<Rightarrow> string \<Rightarrow> confirmEvent \<Rightarrow> deleteSection \<Rightarrow> deleteSection \<times> deleteChain option" where
  "raiseDelete companyId companyName e s = (case confirmEvent e (ds_confirm s) of
     (d, None) \<Rightarrow> (s\<lparr>ds_confirm := d\<rparr>, None)
   | (d, Some _) \<Rightarrow> (s\<lparr>ds_confirm := d\<rparr>, Some (DeletingCompany companyId companyName)))"

definition deleteEnds :: "deleteSection \<Rightarrow> deleteSection \<times> deleteChain option" where
  "deleteEnds s = (s\<lparr>ds_confirm := fst (confirmSettled () True (ds_confirm s))\<rparr>, None)"

fun deleteSettles :: "deleteChain \<Rightarrow> bool settlement \<Rightarrow> deleteSection \<Rightarrow> deleteSection \<times> deleteChain option" where
  "deleteSettles (DeletingCompany c n) (Exited (Inr account_deleted)) s =
    (if account_deleted then deleteEnds (s\<lparr>ds_document := leaveSpaAfterAccountDeleted (ds_document s)\<rparr>)
     else (s\<lparr>ds_navigatedTo := Some ''/account/companies''\<rparr>, Some (RefreshingDelete n)))"
| "deleteSettles (DeletingCompany c n) (Exited (Inl cause)) s =
    deleteEnds (s\<lparr>ds_toasts := ds_toasts s @ [ToastError (failureOutcome cause deleteTable DeleteFailed)]\<rparr>)"
| "deleteSettles (RefreshingDelete n) (Refreshed ok) s =
    deleteEnds (s\<lparr>ds_toasts := ds_toasts s @ notifyAfterRefresh ok (Some (CompanyDeleted n)) CompanyDeletedShort\<rparr>)"
| "deleteSettles chain settlement s = (s, Some chain)"

fun deleteRequest :: "deleteChain \<Rightarrow> spa_call option" where
  "deleteRequest (DeletingCompany c n) = Some (RemoveCompany c)"
| "deleteRequest (RefreshingDelete n) = None"

lemmas confirm_defs = confirmEvent_def confirmOpenChange_def confirmSettled_def closedConfirmDialog_def

interpretation deleteSection: busy_page "raiseDelete c n" deleteSettles "\<lambda>s. \<exists>doc. s = openDeleteSection doc" "\<lambda>_. True"
  "\<lambda>_ s. cd_busy (ds_confirm s)" "\<lambda>s. \<not> cd_busy (ds_confirm s)" "\<lambda>_. False" for c n
proof (unfold_locales, goal_cases)
  case (6 p s e s' q) then show ?case
    by (cases "(p, e, s)" rule: deleteSettles.cases) (auto simp: deleteEnds_def split: if_splits)
next
  case (7 p s e s') then show ?case
    by (cases "(p, e, s)" rule: deleteSettles.cases) (auto simp: deleteEnds_def confirmSettled_def split: if_splits)
qed (auto simp: openDeleteSection_def raiseDelete_def confirm_defs split: confirmEvent.splits if_splits)

section \<open>The first company\<close>

record signUpCompany =
  sc_name :: string
  sc_orgCode :: org_code
  sc_submitting :: bool
  sc_error :: "companyNote option"
  sc_document :: webDocument

definition openSignUpCompany :: "webDocument \<Rightarrow> signUpCompany" where
  "openSignUpCompany doc = \<lparr>sc_name = [], sc_orgCode = PERSONAL, sc_submitting = False, sc_error = None, sc_document = doc\<rparr>"

definition createdInAnotherTabTable :: "(failure \<times> bool) list" where
  "createdInAnotherTabTable = [(AlreadyExists, True)]"

fun raiseSignUpCompany :: "formEvent \<Rightarrow> signUpCompany \<Rightarrow> signUpCompany \<times> (string \<times> org_code) option" where
  "raiseSignUpCompany (OpenChange next) f = (f, None)"
| "raiseSignUpCompany (TypeName v) f = (if sc_submitting f then (f, None) else (f\<lparr>sc_name := v\<rparr>, None))"
| "raiseSignUpCompany (PickOrgCode c) f = (if sc_submitting f then (f, None) else (f\<lparr>sc_orgCode := c\<rparr>, None))"
| "raiseSignUpCompany SubmitForm f =
    (if sc_submitting f \<or> trim (sc_name f) = [] then (f, None)
     else (f\<lparr>sc_submitting := True, sc_error := None\<rparr>, Some (trim (sc_name f), sc_orgCode f)))"

definition signUpCompanySettles ::
    "string \<Rightarrow> string \<times> org_code \<Rightarrow> reason list + unit \<Rightarrow> signUpCompany \<Rightarrow> signUpCompany \<times> (string \<times> org_code) option" where
  "signUpCompanySettles redirectUrl chain exit f = (case exit of
     Inr _ \<Rightarrow> (f\<lparr>sc_document := leaveSpaTo redirectUrl (sc_document f)\<rparr>, None)
   | Inl cause \<Rightarrow>
       (if failureOutcome cause createdInAnotherTabTable False
        then (f\<lparr>sc_document := leaveSpaTo redirectUrl (sc_document f)\<rparr>, None)
        else (f\<lparr>sc_error := Some SignupFailed, sc_submitting := False\<rparr>, None)))"

definition signUpCompanyRequest :: "string \<times> org_code \<Rightarrow> spa_call" where
  "signUpCompanyRequest chain = CreateCompany (fst chain) (snd chain)"

interpretation signUpCompany: busy_page raiseSignUpCompany "signUpCompanySettles redirectUrl"
  "\<lambda>f. \<exists>doc. f = openSignUpCompany doc" "\<lambda>_. True" "\<lambda>_. sc_submitting" "\<lambda>f. \<not> sc_submitting f"
  "\<lambda>f. sc_submitting f \<and> dc_leftTo (sc_document f) \<noteq> None" for redirectUrl
proof (unfold_locales, goal_cases)
  case (2 c s s' q) then show ?case by (cases c) (auto split: if_splits)
next
  case (3 c s s') then show ?case by (cases c) (auto split: if_splits)
next
  case (4 c q s s' r) then show ?case by (cases c) auto
next
  case (5 c s s' r) then show ?case by (cases c) auto
next
  case (7 p s e s') then show ?case
    by (auto simp: signUpCompanySettles_def split: sum.splits if_splits intro: leftTo_leaveSpaTo[unfolded not_None_eq])
qed (auto simp: openSignUpCompany_def signUpCompanySettles_def split: sum.splits if_splits)

section \<open>The account\<close>

datatype accountNote = OwnsCompanies | AccountDeletionFailed

definition deleteAccountTable :: "(failure \<times> accountNote) list" where
  "deleteAccountTable = [(LastOwner, OwnsCompanies), (NotFound, AccountDeletionFailed)]"

record dangerZone =
  dz_confirm :: confirmDialog
  dz_error :: "accountNote option"
  dz_document :: webDocument

definition openDangerZone :: "webDocument \<Rightarrow> dangerZone" where
  "openDangerZone doc = \<lparr>dz_confirm = closedConfirmDialog, dz_error = None, dz_document = doc\<rparr>"

datatype dangerChain = DeletingAccount | SigningOutAfterDeletion

definition raiseDanger :: "confirmEvent \<Rightarrow> dangerZone \<Rightarrow> dangerZone \<times> dangerChain option" where
  "raiseDanger e s = (case confirmEvent e (dz_confirm s) of
     (d, None) \<Rightarrow> (s\<lparr>dz_confirm := d\<rparr>, None)
   | (d, Some _) \<Rightarrow> (s\<lparr>dz_confirm := d, dz_error := None\<rparr>, Some DeletingAccount))"

text \<open>How signing out ends is not looked at.\<close>

fun dangerSettles :: "dangerChain \<Rightarrow> (reason list + unit) + signOutResult \<Rightarrow> dangerZone \<Rightarrow> dangerZone \<times> dangerChain option" where
  "dangerSettles DeletingAccount (Inl (Inr _)) s = (s, Some SigningOutAfterDeletion)"
| "dangerSettles DeletingAccount (Inl (Inl cause)) s =
    (s\<lparr>dz_error := Some (failureOutcome cause deleteAccountTable AccountDeletionFailed),
       dz_confirm := fst (confirmSettled () True (dz_confirm s))\<rparr>, None)"
| "dangerSettles SigningOutAfterDeletion (Inr result) s =
    (s\<lparr>dz_document := leaveSpaAfterAccountDeleted (dz_document s), dz_confirm := fst (confirmSettled () True (dz_confirm s))\<rparr>, None)"
| "dangerSettles chain settlement s = (s, Some chain)"

interpretation dangerZone: busy_page raiseDanger dangerSettles "\<lambda>s. \<exists>doc. s = openDangerZone doc" "\<lambda>_. True"
  "\<lambda>_ s. cd_busy (dz_confirm s)" "\<lambda>s. \<not> cd_busy (dz_confirm s)" "\<lambda>_. False"
proof (unfold_locales, goal_cases)
  case (6 p s e s' q) then show ?case by (cases "(p, e, s)" rule: dangerSettles.cases) auto
next
  case (7 p s e s') then show ?case by (cases "(p, e, s)" rule: dangerSettles.cases) (auto simp: confirmSettled_def)
qed (auto simp: openDangerZone_def raiseDanger_def confirm_defs split: confirmEvent.splits if_splits)

text \<open>\<open>SignOutButton\<close>: the state, and whether the failure was told.\<close>

record signOutButton =
  so_signingOut :: bool
  so_told :: nat
  so_document :: webDocument

definition signOutAndRedirect :: "unit \<Rightarrow> signOutButton \<Rightarrow> signOutButton \<times> unit option" where
  "signOutAndRedirect _ s = (if so_signingOut s then (s, None) else (s\<lparr>so_signingOut := True\<rparr>, Some ()))"

definition signOutSettles :: "unit \<Rightarrow> signOutResult \<Rightarrow> signOutButton \<Rightarrow> signOutButton \<times> unit option" where
  "signOutSettles _ result s = (case result of
     SignOutFailed \<Rightarrow> (s\<lparr>so_signingOut := False, so_told := Suc (so_told s)\<rparr>, None)
   | SignedOut \<Rightarrow> (s\<lparr>so_document := leaveSpaTo ''/'' (so_document s)\<rparr>, None))"

interpretation signOutButton: busy_page signOutAndRedirect signOutSettles "\<lambda>s. \<not> so_signingOut s" "\<lambda>_. True"
  "\<lambda>_. so_signingOut" "\<lambda>s. \<not> so_signingOut s" "\<lambda>s. so_signingOut s \<and> dc_leftTo (so_document s) \<noteq> None"
  by unfold_locales (auto simp: signOutAndRedirect_def signOutSettles_def split: signOutResult.splits if_splits
      intro: leftTo_leaveSpaTo[unfolded not_None_eq])

text \<open>The profile: the answer of the library, with the message of its error; \<open>None\<close> is a rejection.\<close>

datatype profileNote = ProfileSaved | ProfileRefused string | ProfileFailed

record profileForm =
  pf_name :: string
  pf_submitting :: bool
  pf_toasts :: "profileNote toast list"

definition saveProfile :: "unit \<Rightarrow> profileForm \<Rightarrow> profileForm \<times> string option" where
  "saveProfile _ f = (if pf_submitting f then (f, None) else (f\<lparr>pf_submitting := True\<rparr>, Some (pf_name f)))"

definition profileSettles :: "string \<Rightarrow> string option authAnswer \<Rightarrow> profileForm \<Rightarrow> profileForm \<times> string option" where
  "profileSettles _ answer f = (f\<lparr>pf_submitting := False, pf_toasts := pf_toasts f @ [case answer of
     AuthRejects \<Rightarrow> ToastError ProfileFailed
   | AuthAnswers None \<Rightarrow> ToastSuccess ProfileSaved
   | AuthAnswers (Some error) \<Rightarrow> ToastError (case error of None \<Rightarrow> ProfileFailed | Some m \<Rightarrow> ProfileRefused m)]\<rparr>, None)"

interpretation profile: busy_page saveProfile profileSettles "\<lambda>f. \<not> pf_submitting f" "\<lambda>_. True"
  "\<lambda>_. pf_submitting" "\<lambda>f. \<not> pf_submitting f" "\<lambda>_. False"
  by unfold_locales (auto simp: saveProfile_def profileSettles_def split: if_splits)

text \<open>The avatar: the file goes to the blob store, and its address to better-auth.\<close>

datatype avatarNote = AvatarRefused string | AvatarNotSaved | AvatarUploadFailed

record avatarUploader =
  au_imageUrl :: string
  au_uploading :: bool
  au_error :: "avatarNote option"

datatype avatarChain = UploadingFile string | SavingImage string

text \<open>An exception carries a message if it is an \<open>Error\<close>; the answer of better-auth an error or none, with a message or without.\<close>

datatype avatarSettlement = BlobStored string | AvatarThrows "string option" | ImageAnswered "string option option"

text \<open>The name of the chosen file, if one was chosen; the input is disabled while uploading.\<close>

definition uploadAvatar :: "string option \<Rightarrow> avatarUploader \<Rightarrow> avatarUploader \<times> avatarChain option" where
  "uploadAvatar file s = (case file of
     None \<Rightarrow> (s, None)
   | Some name \<Rightarrow>
       if au_uploading s then (s, None) else (s\<lparr>au_uploading := True, au_error := None\<rparr>, Some (UploadingFile name)))"

fun avatarSettles :: "avatarChain \<Rightarrow> avatarSettlement \<Rightarrow> avatarUploader \<Rightarrow> avatarUploader \<times> avatarChain option" where
  "avatarSettles (UploadingFile n) (BlobStored url) s = (s\<lparr>au_imageUrl := url\<rparr>, Some (SavingImage url))"
| "avatarSettles (SavingImage url) (ImageAnswered error) s = (s\<lparr>au_uploading := False, au_error := (case error of
     None \<Rightarrow> au_error s
   | Some text \<Rightarrow> Some (case text of None \<Rightarrow> AvatarNotSaved | Some m \<Rightarrow> AvatarRefused m))\<rparr>, None)"
| "avatarSettles chain (AvatarThrows thrown) s =
    (s\<lparr>au_error := Some (case thrown of Some m \<Rightarrow> AvatarRefused m | None \<Rightarrow> AvatarUploadFailed), au_uploading := False\<rparr>, None)"
| "avatarSettles chain settlement s = (s, Some chain)"

interpretation avatar: busy_page uploadAvatar avatarSettles "\<lambda>s. \<not> au_uploading s" "\<lambda>_. True"
  "\<lambda>_. au_uploading" "\<lambda>s. \<not> au_uploading s" "\<lambda>_. False"
proof (unfold_locales, goal_cases)
  case (6 p s e s' q) then show ?case by (cases "(p, e, s)" rule: avatarSettles.cases) auto
next
  case (7 p s e s') then show ?case by (cases "(p, e, s)" rule: avatarSettles.cases) auto
qed (auto simp: uploadAvatar_def split: option.splits if_splits)

end
