(* ===== verification/WebMembersProperties.thy ===== *)
theory WebMembersProperties
  imports WebCompany Demo
begin

text \<open>
  The pages and the guards of the service: a page offers an operation exactly if the guard of its handler grants it, on
  the data the page was given and an unchanged database.
\<close>

section \<open>The guard of a request\<close>

text \<open>What the handlers of \<open>src/handlers/*-http-api.ts\<close> ask before they call an operation.\<close>

fun guardOf :: "actor \<Rightarrow> spa_call \<Rightarrow> (unit, 'x) eff" where
  "guardOf actor (ListMembers c) = mapEff (\<lambda>_. ()) (requireMembershipOf actor c MEMBER)"
| "guardOf actor (SetRole c u r) = mapEff (\<lambda>_. ()) (requireRoleChange actor c u r)"
| "guardOf actor (Remove c u) = mapEff (\<lambda>_. ()) (requireRemoval actor c u)"
| "guardOf actor (Transfer c u) = mapEff (\<lambda>_. ()) (requireTransferOwnership actor c u)"
| "guardOf actor (UpdateCompany c n oc) = mapEff (\<lambda>_. ()) (requireMembershipOf actor c OWNER)"
| "guardOf actor (RemoveCompany c) = mapEff (\<lambda>_. ()) (requireMembershipOf actor c OWNER)"
| "guardOf actor (ListPending c) = mapEff (\<lambda>_. ()) (requireMembershipOf actor c ADMIN)"
| "guardOf actor (Invite c q) = mapEff (\<lambda>_. ()) (requireInvite actor c (iq_email q) (iq_role q) (iq_redirect_target q))"
| "guardOf actor (RevokeInvite c i) = mapEff (\<lambda>_. ()) (requireMembershipOf actor c ADMIN)"
| "guardOf actor _ = succeed ()"

text \<open>
  A program decides as \<open>granted\<close> says: if so, nothing but a lost call of the database can make it fail; if not, it never
  succeeds.
\<close>

definition decides :: "bool \<Rightarrow> 'a exit \<Rightarrow> bool" where
  "decides granted r \<longleftrightarrow> (granted \<longrightarrow> (\<exists>a. r = Inr a) \<or> r = Inl (Fail DbError)) \<and> (\<not> granted \<longrightarrow> (\<forall>a. r \<noteq> Inr a))"

lemma select_reads: "\<exists>w'. w_db w' = w_db w \<and>
    (tryDb (select q) w = (Inr (q (w_db w)), w') \<or> tryDb (select q) w = (Inl (Fail DbError), w'))"
  by (cases "w_dbFaults w (w_dbCalls w)") (auto simp: tryDb_def select_def Let_def)

lemma membership_reads: "\<exists>w'. w_db w' = w_db w \<and>
    (findMembership u c w = (Inr (membershipOf (w_db w) u c), w') \<or> findMembership u c w = (Inl (Fail DbError), w'))"
  unfolding findMembership_def by (rule select_reads)

lemma requireMembershipOf_reads:
  assumes "membershipOf (w_db w) (ac_id actor) c = Some m"
  shows "\<exists>w'. w_db w' = w_db w \<and> (requireMembershipOf actor c r w = (Inl (Fail DbError), w') \<or>
    requireMembershipOf actor c r w =
      (if isAtLeast (mb_role m) r then Inr \<lparr>vm_actor = actor, vm_companyId = c, vm_role = mb_role m\<rparr> else Inl (Fail Forbidden), w'))"
  using membership_reads[of w "ac_id actor" c] assms
  by (auto simp: requireMembershipOf_def andThen_def succeed_def failWith_def)

lemma requireTargetMembership_reads:
  assumes "membershipOf (w_db w) u c = Some m"
  shows "\<exists>w'. w_db w' = w_db w \<and>
    (requireTargetMembership u c w = (Inl (Fail DbError), w') \<or> requireTargetMembership u c w = (Inr m, w'))"
  using membership_reads[of w u c] assms
  by (auto simp: requireTargetMembership_def andThen_def succeed_def)

lemma decides_mapEff [simp]: "decides g (fst (mapEff f m w)) = decides g (fst (m w))"
  by (cases "m w"; cases "fst (m w)") (auto simp: mapEff_def andThen_def succeed_def decides_def)

section \<open>What the guards decide\<close>

lemma membership_decides:
  "membershipOf (w_db w) (ac_id actor) c = Some m \<Longrightarrow> decides (isAtLeast (mb_role m) r) (fst (requireMembershipOf actor c r w))"
  using requireMembershipOf_reads[of w actor c m r] by (auto simp: decides_def)

lemma invite_decides:
  assumes me: "membershipOf (w_db w) (ac_id actor) c = Some m"
  shows "decides (mb_role m \<noteq> MEMBER \<and> canInviteRole (mb_role m) r) (fst (requireInvite actor c e r t w))"
  using requireMembershipOf_reads[OF me, of ADMIN]
  by (cases "mb_role m") (auto simp: requireInvite_def andThen_def succeed_def failWith_def decides_def)

lemma roleChange_decides:
  assumes me: "membershipOf (w_db w) (ac_id actor) c = Some m"
    and "membershipOf (w_db w) u c = Some target"
  shows "decides (mb_role m \<noteq> MEMBER \<and> canChangeRole (mb_role m) (mb_role target) r) (fst (requireRoleChange actor c u r w))"
proof -
  from requireMembershipOf_reads[OF me, of ADMIN] obtain w1 where w1: "w_db w1 = w_db w"
    "requireMembershipOf actor c ADMIN w = (Inl (Fail DbError), w1) \<or> requireMembershipOf actor c ADMIN w =
      (if isAtLeast (mb_role m) ADMIN then Inr \<lparr>vm_actor = actor, vm_companyId = c, vm_role = mb_role m\<rparr> else Inl (Fail Forbidden), w1)"
    by blast
  from assms(2) w1(1) have "membershipOf (w_db w1) u c = Some target" by simp
  from requireTargetMembership_reads[OF this] w1(2) show ?thesis
    by (cases "mb_role m") (auto simp: requireRoleChange_def andThen_def succeed_def failWith_def decides_def)
qed

lemma removal_decides:
  assumes me: "membershipOf (w_db w) (ac_id actor) c = Some m"
    and "membershipOf (w_db w) u c = Some target" "u \<noteq> ac_id actor"
  shows "decides (mb_role m \<noteq> MEMBER \<and> canRemoveTarget (mb_role m) False (mb_role target)) (fst (requireRemoval actor c u w))"
proof -
  from requireMembershipOf_reads[OF me, of MEMBER] obtain w1 where w1: "w_db w1 = w_db w"
    "requireMembershipOf actor c MEMBER w = (Inl (Fail DbError), w1) \<or>
     requireMembershipOf actor c MEMBER w = (Inr \<lparr>vm_actor = actor, vm_companyId = c, vm_role = mb_role m\<rparr>, w1)"
    by auto
  from assms(2) w1(1) have "membershipOf (w_db w1) u c = Some target" by simp
  from requireTargetMembership_reads[OF this] w1(2) assms(3) show ?thesis
    by (cases "mb_role m") (auto simp: requireRemoval_def Let_def andThen_def succeed_def failWith_def decides_def canAttemptRemoval_def)
qed

lemma transfer_decides:
  assumes me: "membershipOf (w_db w) (ac_id actor) c = Some m"
    and "membershipOf (w_db w) u c = Some target" "u \<noteq> ac_id actor"
  shows "decides (mb_role m = OWNER \<and> mb_role target \<noteq> OWNER) (fst (requireTransferOwnership actor c u w))"
proof -
  from requireMembershipOf_reads[OF me, of OWNER] obtain w1 where w1: "w_db w1 = w_db w"
    "requireMembershipOf actor c OWNER w = (Inl (Fail DbError), w1) \<or> requireMembershipOf actor c OWNER w =
      (if mb_role m = OWNER then Inr \<lparr>vm_actor = actor, vm_companyId = c, vm_role = mb_role m\<rparr> else Inl (Fail Forbidden), w1)"
    by auto
  from assms(2) w1(1) have "membershipOf (w_db w1) u c = Some target" by simp
  from requireTargetMembership_reads[OF this] w1(2) assms(3) show ?thesis
    by (cases "mb_role m") (auto simp: requireTransferOwnership_def andThen_def succeed_def failWith_def decides_def)
qed

section \<open>What the pages offer\<close>

text \<open>A row of the list whose operations are enabled, for a member other than oneself.\<close>

definition offersOperations :: "membersPage \<Rightarrow> id option \<Rightarrow> memberRow \<Rightarrow> bool" where
  "offersOperations p selfUserId row \<longleftrightarrow>
     memberControl (mp_canManage p) (mp_assignableRoles p) selfUserId openMemberList row = MemberOperations True"

lemma rows_are_memberships:
  assumes "wf_db d" "findMembersByCompanyId c w = (Inr rows, w')" "w_db w = d" "row \<in> set rows"
  shows "\<exists>target. membershipOf d (mr_userId row) c = Some target \<and> mb_role target = mr_role row"
proof -
  from assms(2-) obtain t where "t \<in> set (d_membership d)" "mb_companyId t = c" "mb_userId t = mr_userId row"
      "mb_role t = mr_role row"
    by (auto simp: findMembersByCompanyId_def tryDb_runs select_def)
  with membershipOf_eq_SomeI[OF assms(1), of t] show ?thesis by auto
qed

text \<open>
  C36: The pages offer what the guards of the service grant, and nothing else: on the data of an unchanged database,
  the operations on another member, the roles an invitation may have, the list of invitations and the form of the company
  are offered exactly if the guard of the request grants it; a refusal is left to a lost call or a change in between.
\<close>

theorem pages_offer_what_guards_grant:
  assumes "wf_db (w_db w)" "membershipOf (w_db w) (ac_id actor) c = Some m"
    and "\<not> cv_loading view" "cv_currentMembership view = Some current" "mb_companyId current = c" "mb_role current = mb_role m"
    and "findMembersByCompanyId c v = (Inr rows, v')" "w_db v = w_db w"
  shows "\<exists>p. Members view = MembersShown p \<and> mp_companyId p = c \<and>
    (\<forall>row\<in>set rows. mr_userId row \<noteq> ac_id actor \<longrightarrow>
       decides (offersOperations p (Some (ac_id actor)) row) (fst (guardOf actor (Remove c (mr_userId row)) w)) \<and>
       (\<forall>r. decides (offersOperations p (Some (ac_id actor)) row \<and> r \<in> set (mp_assignableRoles p))
         (fst (guardOf actor (SetRole c (mr_userId row) r) w)))) \<and>
    (\<forall>q. decides (mp_canManage p \<and> iq_role q \<in> set (mp_assignableRoles p)) (fst (guardOf actor (Invite c q) w))) \<and>
    decides (mp_canManage p) (fst (guardOf actor (ListPending c) w)) \<and>
    (\<forall>i. decides (mp_canManage p) (fst (guardOf actor (RevokeInvite c i) w))) \<and>
    (\<forall>n oc. decides (\<exists>last. CompanySettings view = SettingsForm current last) (fst (guardOf actor (UpdateCompany c n oc) w))) \<and>
    decides (\<exists>last. CompanySettings view = SettingsForm current last) (fst (guardOf actor (RemoveCompany c) w))"
proof -
  note me = assms(2)
  define p where "p = \<lparr>mp_companyId = c, mp_canManage = isAtLeast (mb_role m) ADMIN,
    mp_assignableRoles = filter (canInviteRole (mb_role m)) ROLES_IN_SELECT_ORDER\<rparr>"
  have view: "Members view = MembersShown p"
    using assms(3-6) by (simp add: Members_def p_def)
  have roles: "r \<in> set (mp_assignableRoles p) \<longleftrightarrow> canInviteRole (mb_role m) r" for r
    by (cases r) (auto simp: p_def ROLES_IN_SELECT_ORDER_def)
  have manage: "mp_canManage p \<longleftrightarrow> mb_role m \<noteq> MEMBER" by (simp add: p_def)
  have settings: "(\<exists>last. CompanySettings view = SettingsForm current last) \<longleftrightarrow> mb_role m = OWNER"
    using assms(3-6) by (simp add: CompanySettings_def)
  have rows: "decides (offersOperations p (Some (ac_id actor)) row) (fst (guardOf actor (Remove c (mr_userId row)) w)) \<and>
      (\<forall>r. decides (offersOperations p (Some (ac_id actor)) row \<and> r \<in> set (mp_assignableRoles p))
        (fst (guardOf actor (SetRole c (mr_userId row) r) w)))"
    if "row \<in> set rows" "mr_userId row \<noteq> ac_id actor" for row
  proof -
    from rows_are_memberships[OF assms(1) assms(7) assms(8) that(1)] obtain target
      where target: "membershipOf (w_db w) (mr_userId row) c = Some target" "mb_role target = mr_role row" by blast
    have "offersOperations p (Some (ac_id actor)) row \<longleftrightarrow> mb_role m \<noteq> MEMBER \<and> canRemoveTarget (mb_role m) False (mb_role target)"
      using that(2) by (auto simp: offersOperations_def memberControl_def openMemberList_def roles manage target(2)
          canInviteRole_def canRemoveTarget_def)
    moreover have "offersOperations p (Some (ac_id actor)) row \<and> r \<in> set (mp_assignableRoles p) \<longleftrightarrow>
        mb_role m \<noteq> MEMBER \<and> canChangeRole (mb_role m) (mb_role target) r" for r
      using that(2) by (auto simp: offersOperations_def memberControl_def openMemberList_def roles manage target(2)
          canInviteRole_def canChangeRole_def Let_def)
    ultimately show ?thesis
      using removal_decides[OF me target(1) that(2)] roleChange_decides[OF me target(1)] by simp
  qed
  show ?thesis
  proof (intro exI[of _ p] conjI ballI allI impI)
    show "mp_companyId p = c" by (simp add: p_def)
  qed (use view rows roles manage settings membership_decides[OF me, of ADMIN] membership_decides[OF me, of OWNER]
      invite_decides[OF me] in simp_all)
qed

definition bobsView :: companyStateView where
  "bobsView = toCompanyStateView (AsyncSuccess \<lparr>cs_currentCompanyId = Some ''c1'',
     cs_memberships = [membership.extend (demoMember ''m2'' ''bob'' ''c1'' ADMIN 1) \<lparr>mb_companyName = ''Acme'', mb_companyOrgCode = CORPORATE\<rparr>]\<rparr>)"

theorem pages_offer_what_guards_grant_witness:
  "decides False (fst (guardOf (demoActor ''bob'' ''bob@x.jp'') (Remove ''c1'' ''ann'') demoWorld)) \<and>
   decides True (fst (guardOf (demoActor ''bob'' ''bob@x.jp'') (Remove ''c1'' ''cid'') demoWorld))"
proof -
  let ?bob = "demoActor ''bob'' ''bob@x.jp''"
  let ?run = "findMembersByCompanyId ''c1'' demoWorld"
  let ?row = "\<lambda>m u r t. \<lparr>mr_membershipId = m, mr_userId = u, mr_userName = u, mr_userEmail = u @ ''@x.jp'', mr_role = r, mr_joinedAt = t\<rparr>"
  have rows: "fst ?run = Inr [?row ''m1'' ''ann'' OWNER 0, ?row ''m2'' ''bob'' ADMIN 1, ?row ''m3'' ''cid'' MEMBER 2]"
    by code_simp
  have "membershipOf (w_db demoWorld) (ac_id ?bob) ''c1'' = Some (demoMember ''m2'' ''bob'' ''c1'' ADMIN 1)"
    by code_simp
  from pages_offer_what_guards_grant[OF _ this, of bobsView "membership.extend (demoMember ''m2'' ''bob'' ''c1'' ADMIN 1)
      \<lparr>mb_companyName = ''Acme'', mb_companyOrgCode = CORPORATE\<rparr>", OF _ _ _ _ _ runs_to[OF rows]]
  obtain p where p: "Members bobsView = MembersShown p"
    "decides (offersOperations p (Some (ac_id ?bob)) (?row ''m1'' ''ann'' OWNER 0)) (fst (guardOf ?bob (Remove ''c1'' ''ann'') demoWorld))"
    "decides (offersOperations p (Some (ac_id ?bob)) (?row ''m3'' ''cid'' MEMBER 2)) (fst (guardOf ?bob (Remove ''c1'' ''cid'') demoWorld))"
    by (auto simp: bobsView_def toCompanyStateView_def asyncGetOrElse_def membership.defs demoMember_def demoActor_def)
  have "p = \<lparr>mp_companyId = ''c1'', mp_canManage = True, mp_assignableRoles = [MEMBER, ADMIN]\<rparr>"
    using p(1) by (auto simp: Members_def bobsView_def toCompanyStateView_def asyncGetOrElse_def membership.defs demoMember_def
        ROLES_IN_SELECT_ORDER_def canInviteRole_def)
  with p(2,3) show ?thesis
    by (simp add: offersOperations_def memberControl_def openMemberList_def demoActor_def)
qed

end
