(* ===== verification/WebRoutes.thy ===== *)
theory WebRoutes
  imports WebShared
begin

text \<open>
  The routes of the web application: \<open>web/src/app/router.tsx\<close>, \<open>route-redirect.ts\<close>, \<open>search-params.ts\<close>,
  \<open>runtime-for-path.ts\<close>, \<open>app/auth/main.ts\<close> and \<open>route.ts\<close>, \<open>shared/route-entry.ts\<close>, \<open>account/account-entry.ts\<close>,
  \<open>auth/use-sign-page.ts\<close>, \<open>sign-params.ts\<close> and \<open>auth-error-reason.ts\<close>. Which route a path belongs to is decided by the
  router of the library; what a route then reads, shows, or where it sends the browser is the program's.
\<close>

section \<open>Search parameters\<close>

type_synonym search = "string \<Rightarrow> string option"

text \<open>\<open>Object.fromEntries(new URLSearchParams(\<dots>))\<close>: a leading question mark is skipped, the last pair of a name counts.\<close>

definition parseSearch :: "string \<Rightarrow> search" where
  "parseSearch searchStr = map_of (rev (formDecode
     (case searchStr of [] \<Rightarrow> [] | c # rest \<Rightarrow> if c = CHR ''?'' then rest else searchStr)))"

definition stringifySearch :: "(string \<times> string option) list \<Rightarrow> string" where
  "stringifySearch search =
     (let searchStr = formEncode (concat (map (\<lambda>(key, value). case value of None \<Rightarrow> [] | Some v \<Rightarrow> [(key, v)]) search))
      in if searchStr = [] then [] else CHR ''?'' # searchStr)"

lemma search_roundtrip:
  "parseSearch (stringifySearch search) =
    map_of (rev (concat (map (\<lambda>(key, value). case value of None \<Rightarrow> [] | Some v \<Rightarrow> [(key, v)]) search)))"
  using formDecode_formEncode[of "concat (map (\<lambda>(key, value). case value of None \<Rightarrow> [] | Some v \<Rightarrow> [(key, v)]) search)"]
  by (auto simp: parseSearch_def stringifySearch_def Let_def)

section \<open>Where an entry leads\<close>

text \<open>Every redirect loads a new document and replaces the entry of the history.\<close>

datatype routeRedirect = RedirectTo string "(string \<times> string) list" | RedirectHref string

definition redirectFor :: "string \<Rightarrow> routeEntry \<Rightarrow> string \<Rightarrow> routeRedirect option" where
  "redirectFor origin entry href = (case entry of
     GoSignIn \<Rightarrow> Some (RedirectTo ''/auth/'' (searchReturningTo origin href))
   | GoToRedirectUrl url \<Rightarrow> Some (RedirectHref url)
   | GoCompanySignup \<Rightarrow> Some (RedirectTo ''/auth/signup/company'' (searchReturningTo origin href))
   | _ \<Rightarrow> None)"

definition accountEntryOf :: "reason list + companyState \<Rightarrow> routeEntry" where
  "accountEntryOf state = (case state of
     Inr s \<Rightarrow> if cs_memberships s = [] then GoCompanySignup else ShowPage
   | Inl _ \<Rightarrow> ShowPage)"

section \<open>The routes\<close>

datatype webRoute =
    RouteSignIn | RouteSignUp | RouteCompanySignup | RouteAcceptInvitation | RouteMfaChallenge
  | RouteProfile | RouteCompanies | RouteCompanySettings | RouteMembers | RouteSecurity | RouteSessions | RouteConnections

definition ACCEPT_INVITATION_ROUTE :: string where
  "ACCEPT_INVITATION_ROUTE = ''/signup/accept-invitation''"

fun routePath :: "webRoute \<Rightarrow> string" where
  "routePath RouteSignIn = ''/auth/''"
| "routePath RouteSignUp = ''/auth/signup''"
| "routePath RouteCompanySignup = ''/auth/signup/company''"
| "routePath RouteAcceptInvitation = ''/auth'' @ ACCEPT_INVITATION_ROUTE"
| "routePath RouteMfaChallenge = ''/auth/mfa''"
| "routePath RouteProfile = ''/account/''"
| "routePath RouteCompanies = ''/account/companies''"
| "routePath RouteCompanySettings = ''/account/company-settings''"
| "routePath RouteMembers = ''/account/members''"
| "routePath RouteSecurity = ''/account/security''"
| "routePath RouteSessions = ''/account/sessions''"
| "routePath RouteConnections = ''/account/connections''"

datatype webPage =
    SignInPage signInParams | SignUpPage signInParams | SignUpCompanyPage string | AcceptFailedPage message
  | MfaChallengePage challengeObservation | AccountPage webRoute

datatype routeOutcome = Shown webPage | Redirected routeRedirect

text \<open>
  What a route may read: whether there is a session (\<open>None\<close> if asking failed), the companies, the state of the
  challenge, and accepting an invitation.
\<close>

record routeReads =
  rr_session :: "bool option"
  rr_companyState :: "reason list + companyState"
  rr_challenge :: "reason list + bool"
  rr_accept :: "string \<Rightarrow> (reason list + unit) option"

definition INVALID_REDIRECT_URL_PAGE :: string where
  "INVALID_REDIRECT_URL_PAGE = ''/auth/error?reason=invalid_redirect_url''"

definition toInvalidRedirectError :: routeOutcome where
  "toInvalidRedirectError = Redirected (RedirectHref INVALID_REDIRECT_URL_PAGE)"

definition enterOr :: "string \<Rightarrow> routeEntry \<Rightarrow> string \<Rightarrow> webPage \<Rightarrow> routeOutcome" where
  "enterOr origin entry href shown = (case redirectFor origin entry href of
     Some r \<Rightarrow> Redirected r
   | None \<Rightarrow> (case entry of AcceptFailedWith m \<Rightarrow> Shown (AcceptFailedPage m) | _ \<Rightarrow> Shown shown))"

definition companySignupRedirectUrl :: "url_parser \<Rightarrow> search \<Rightarrow> string" where
  "companySignupRedirectUrl parseUrl s = (case parseSignInParams parseUrl s of
     Some params \<Rightarrow> sp_redirect_url params | None \<Rightarrow> ''/account'')"

fun loadRoute :: "url_parser \<Rightarrow> string \<Rightarrow> routeReads \<Rightarrow> string \<Rightarrow> webRoute \<Rightarrow> search \<Rightarrow> routeOutcome" where
  "loadRoute parseUrl origin reads href RouteSignIn s = (case parseSignInParams parseUrl s of
     None \<Rightarrow> toInvalidRedirectError | Some params \<Rightarrow> Shown (SignInPage params))"
| "loadRoute parseUrl origin reads href RouteSignUp s = (case parseSignInParams parseUrl s of
     None \<Rightarrow> toInvalidRedirectError | Some params \<Rightarrow> Shown (SignUpPage params))"
| "loadRoute parseUrl origin reads href RouteCompanySignup s =
    (let redirectUrl = companySignupRedirectUrl parseUrl s
     in enterOr origin (readCompanySignupEntry (rr_session reads)
          (map_sum id (length \<circ> cs_memberships) (rr_companyState reads)) redirectUrl) href (SignUpCompanyPage redirectUrl))"
| "loadRoute parseUrl origin reads href RouteAcceptInvitation s =
    enterOr origin (acceptInvitationOutcome (s ''invitation_token'')
       (redirectUrlAfterAccept parseUrl (s ''service_name'') (s ''redirect_url'')) (rr_session reads) (rr_accept reads)) href
      (AcceptFailedPage MsgAcceptFailed)"
| "loadRoute parseUrl origin reads href RouteMfaChallenge s =
    Shown (MfaChallengePage (mfaChallengeObservationOf (rr_challenge reads)))"
| "loadRoute parseUrl origin reads href route s =
    enterOr origin (accountEntryOf (rr_companyState reads)) href (AccountPage route)"

section \<open>The sign-in and sign-up pages\<close>

definition invitationAcceptCallbackUrl :: "string \<Rightarrow> string \<Rightarrow> string" where
  "invitationAcceptCallbackUrl origin invitationToken = origin @ acceptInvitationPath invitationToken None"

definition signCallbackUrl :: "string \<Rightarrow> bool \<Rightarrow> signInParams \<Rightarrow> string" where
  "signCallbackUrl origin preferSignUpUrl params = (case sp_invitation_token params of
     Some token \<Rightarrow> invitationAcceptCallbackUrl origin token
   | None \<Rightarrow>
       (if preferSignUpUrl
        then (case sp_sign_up_url params of Some u \<Rightarrow> u | None \<Rightarrow> sp_redirect_url params)
        else sp_redirect_url params))"

datatype signSubmitting = SubmittingMagicLink | SubmittingGitHub

datatype signNote = SignRefused string | MagicLinkFailed | GitHubFailed

record signPage =
  sg_name :: string
  sg_email :: string
  sg_magicLinkSent :: bool
  sg_submitting :: "signSubmitting option"
  sg_error :: "signNote option"

definition openSignPage :: signPage where
  "openSignPage = \<lparr>sg_name = [], sg_email = [], sg_magicLinkSent = False, sg_submitting = None, sg_error = None\<rparr>"

datatype signEvent = TypeSignName string | TypeSignEmail string | SubmitMagicLink | ClickGitHub

datatype signChain = SendingMagicLink string "string option" string | EnteringGitHub string

text \<open>
  The form is there until the link was sent; its inputs and buttons are disabled while one of the two is submitting. The
  page to sign up (\<open>preferSignUpUrl\<close>) asks for a name too. Who comes with an invitation gets no GitHub button.
\<close>

fun raiseSign :: "string \<Rightarrow> bool \<Rightarrow> signInParams \<Rightarrow> signEvent \<Rightarrow> signPage \<Rightarrow> signPage \<times> signChain option" where
  "raiseSign origin signUp params (TypeSignName v) s =
    (if sg_submitting s \<noteq> None \<or> sg_magicLinkSent s then (s, None) else (s\<lparr>sg_name := v\<rparr>, None))"
| "raiseSign origin signUp params (TypeSignEmail v) s =
    (if sg_submitting s \<noteq> None \<or> sg_magicLinkSent s then (s, None) else (s\<lparr>sg_email := v\<rparr>, None))"
| "raiseSign origin signUp params SubmitMagicLink s =
    (if sg_submitting s \<noteq> None \<or> sg_magicLinkSent s \<or> sg_email s = [] \<or> (signUp \<and> sg_name s = []) then (s, None)
     else (s\<lparr>sg_submitting := Some SubmittingMagicLink, sg_error := None\<rparr>,
           Some (SendingMagicLink (sg_email s) (if signUp then Some (sg_name s) else None) (signCallbackUrl origin signUp params))))"
| "raiseSign origin signUp params ClickGitHub s =
    (if sg_submitting s \<noteq> None \<or> sg_magicLinkSent s \<or> sp_invitation_token params \<noteq> None then (s, None)
     else (s\<lparr>sg_submitting := Some SubmittingGitHub, sg_error := None\<rparr>, Some (EnteringGitHub (signCallbackUrl origin signUp params))))"

text \<open>The library answers with an error, which may have a message, or without. A GitHub login then leaves the page.\<close>

fun signSettles :: "signChain \<Rightarrow> string option option \<Rightarrow> signPage \<Rightarrow> signPage \<times> signChain option" where
  "signSettles (SendingMagicLink e n c) None s = (s\<lparr>sg_submitting := None, sg_magicLinkSent := True\<rparr>, None)"
| "signSettles (SendingMagicLink e n c) (Some error) s = (s\<lparr>sg_submitting := None,
     sg_error := Some (case error of Some m \<Rightarrow> SignRefused m | None \<Rightarrow> MagicLinkFailed)\<rparr>, None)"
| "signSettles (EnteringGitHub c) None s = (s, None)"
| "signSettles (EnteringGitHub c) (Some error) s = (s\<lparr>sg_submitting := None,
     sg_error := Some (case error of Some m \<Rightarrow> SignRefused m | None \<Rightarrow> GitHubFailed)\<rparr>, None)"

fun signWaits :: "signChain \<Rightarrow> signPage \<Rightarrow> bool" where
  "signWaits (SendingMagicLink e n c) s \<longleftrightarrow> sg_submitting s = Some SubmittingMagicLink"
| "signWaits (EnteringGitHub c) s \<longleftrightarrow> sg_submitting s = Some SubmittingGitHub"

interpretation signPage: busy_page "raiseSign origin signUp params" signSettles "\<lambda>s. s = openSignPage" "\<lambda>_. True"
  signWaits "\<lambda>s. sg_submitting s = None" "\<lambda>s. sg_submitting s = Some SubmittingGitHub" for origin signUp params
proof (unfold_locales, goal_cases)
  case (2 c s s' q) then show ?case by (cases c) (auto split: if_splits)
next
  case (3 c s s') then show ?case by (cases c) (auto split: if_splits)
next
  case (4 c q s s' r) then show ?case by (cases c; cases q) auto
next
  case (5 c s s' r) then show ?case by (cases c) auto
next
  case (6 p s e s' q) then show ?case by (cases "(p, e, s)" rule: signSettles.cases) auto
next
  case (7 p s e s') then show ?case by (cases "(p, e, s)" rule: signSettles.cases) auto
qed (simp_all add: openSignPage_def)

section \<open>The error page\<close>

datatype errorPageReason = AuthErrorReason auth_error_reason | InvalidRedirectUrl

definition ERROR_PAGE_REASONS :: "(string \<times> errorPageReason) list" where
  "ERROR_PAGE_REASONS = [(''signin_failed'', AuthErrorReason Signin_failed),
     (''signup_already_completed'', AuthErrorReason Signup_already_completed), (''invalid_redirect_url'', InvalidRedirectUrl)]"

datatype errorPageText = TextInvalidRedirect | TextSignupAlreadyCompleted | TextSigninFailed | TextDefault

fun errorPageMessage :: "errorPageReason option \<Rightarrow> errorPageText" where
  "errorPageMessage None = TextDefault"
| "errorPageMessage (Some InvalidRedirectUrl) = TextInvalidRedirect"
| "errorPageMessage (Some (AuthErrorReason Signup_already_completed)) = TextSignupAlreadyCompleted"
| "errorPageMessage (Some (AuthErrorReason Signin_failed)) = TextSigninFailed"

datatype authRoute = AuthErrorRoute "errorPageReason option" | AuthNotFound string

text \<open>
  \<open>urlToAuthRoute\<close>. Whether a path is \<open>/auth/error\<close> is decided by the router of the library, \<open>isErrorPath\<close>. A reason that
  is missing or unknown is none.
\<close>

definition urlToAuthRoute :: "(string \<Rightarrow> bool) \<Rightarrow> url \<Rightarrow> authRoute" where
  "urlToAuthRoute isErrorPath u =
     (if isErrorPath (ur_pathname u)
      then AuthErrorRoute (case map_of (rev (ur_searchParams u)) ''reason'' of
             None \<Rightarrow> None | Some reason \<Rightarrow> map_of ERROR_PAGE_REASONS reason)
      else AuthNotFound (ur_pathname u))"

datatype urlRequest = InternalUrl url | ExternalHref string

datatype authMessage = ClickedLink urlRequest | ChangedUrl url | CompletedLoadDocument | CompletedPushUrl

datatype authCommand = LoadDocument string | PushUrl string

definition commandForInternalUrl :: "(string \<Rightarrow> bool) \<Rightarrow> url \<Rightarrow> authCommand" where
  "commandForInternalUrl isErrorPath u = (case urlToAuthRoute isErrorPath u of
     AuthErrorRoute _ \<Rightarrow> PushUrl (hrefOf u)
   | AuthNotFound _ \<Rightarrow> LoadDocument (hrefOf u))"

definition initAuthPage :: "(string \<Rightarrow> bool) \<Rightarrow> url \<Rightarrow> authRoute" where
  "initAuthPage isErrorPath u = urlToAuthRoute isErrorPath u"

fun updateAuthPage :: "(string \<Rightarrow> bool) \<Rightarrow> authRoute \<Rightarrow> authMessage \<Rightarrow> authRoute \<times> authCommand list" where
  "updateAuthPage isErrorPath model (ClickedLink (InternalUrl u)) = (model, [commandForInternalUrl isErrorPath u])"
| "updateAuthPage isErrorPath model (ClickedLink (ExternalHref href)) = (model, [LoadDocument href])"
| "updateAuthPage isErrorPath model (ChangedUrl u) = (urlToAuthRoute isErrorPath u, [])"
| "updateAuthPage isErrorPath model CompletedLoadDocument = (model, [])"
| "updateAuthPage isErrorPath model CompletedPushUrl = (model, [])"

fun authPageText :: "authRoute \<Rightarrow> errorPageText" where
  "authPageText (AuthErrorRoute reason) = errorPageMessage reason"
| "authPageText (AuthNotFound path) = errorPageMessage None"

section \<open>Which runtime a document starts\<close>

datatype runtimeForPath = FoldkitAuth | ReactRuntime

definition FOLDKIT_AUTH_PATHS :: "string list" where
  "FOLDKIT_AUTH_PATHS = [''/auth/error'']"

definition withoutTrailingSlashes :: "string \<Rightarrow> string" where
  "withoutTrailingSlashes pathname = rev (dropWhile (\<lambda>c. c = CHR ''/'') (rev pathname))"

definition runtimeForPath :: "string \<Rightarrow> runtimeForPath" where
  "runtimeForPath pathname =
     (if withoutTrailingSlashes pathname \<in> set FOLDKIT_AUTH_PATHS then FoldkitAuth else ReactRuntime)"

end
