(* ===== verification/WebMfa.thy ===== *)
theory WebMfa
  imports WebShared
begin

text \<open>
  The second factor in the web application: \<open>web/src/mfa/use-mfa-code-entry.ts\<close>, \<open>MfaEnrollDialog.tsx\<close>,
  \<open>MfaDisableDialog.tsx\<close> and \<open>MfaSettingsItem.tsx\<close>. What a person types is a list of code points; the Unicode
  normalization NFKC of the platform is the parameter \<open>nfkc\<close>. A text that is shown is a constructor.
\<close>

section \<open>Typing a code\<close>

type_synonym typed = "nat list"

definition isWhitespace :: "nat \<Rightarrow> bool" where
  "isWhitespace c \<longleftrightarrow> (0x09 \<le> c \<and> c \<le> 0x0D) \<or> (0x2000 \<le> c \<and> c \<le> 0x200A) \<or>
     c \<in> {0x20, 0xA0, 0x1680, 0x2028, 0x2029, 0x202F, 0x205F, 0x3000, 0xFEFF}"

definition PASTE_TOLERANT_MAX_LENGTH :: nat where
  "PASTE_TOLERANT_MAX_LENGTH = 32"

definition isHyphenLike :: "nat \<Rightarrow> bool" where
  "isHyphenLike c \<longleftrightarrow> c = 0x2D \<or> (0x2010 \<le> c \<and> c \<le> 0x2015) \<or> c = 0x2212 \<or> c = 0x30FC"

definition normalizeMfaCode :: "(typed \<Rightarrow> typed) \<Rightarrow> typed \<Rightarrow> mfa_code_kind \<Rightarrow> typed" where
  "normalizeMfaCode nfkc raw kind =
     (let halfWidth = filter (\<lambda>c. \<not> isWhitespace c) (nfkc raw)
      in case kind of
           KindTotp \<Rightarrow> filter (\<lambda>c. \<not> isHyphenLike c) halfWidth
         | KindRecoveryCode \<Rightarrow> map (\<lambda>c. if isHyphenLike c then 0x2D else c) halfWidth)"

record mfaCodeInput =
  mc_kind :: mfa_code_kind
  mc_code :: typed

definition resetInput :: mfaCodeInput where
  "resetInput = \<lparr>mc_kind = KindTotp, mc_code = []\<rparr>"

definition toggleKind :: "mfaCodeInput \<Rightarrow> mfaCodeInput" where
  "toggleKind i = \<lparr>mc_kind = (if mc_kind i = KindTotp then KindRecoveryCode else KindTotp), mc_code = []\<rparr>"

definition canSubmit :: "(typed \<Rightarrow> typed) \<Rightarrow> bool \<Rightarrow> mfaCodeInput \<Rightarrow> bool" where
  "canSubmit nfkc submitting i \<longleftrightarrow> \<not> submitting \<and> normalizeMfaCode nfkc (mc_code i) (mc_kind i) \<noteq> []"

definition handleSubmit :: "(typed \<Rightarrow> typed) \<Rightarrow> bool \<Rightarrow> mfaCodeInput \<Rightarrow> (typed \<times> mfa_code_kind) option" where
  "handleSubmit nfkc submitting i =
     (let code = normalizeMfaCode nfkc (mc_code i) (mc_kind i)
      in if submitting \<or> code = [] then None else Some (code, mc_kind i))"

text \<open>The attributes of the input and the texts beside it.\<close>

datatype entryText =
    UseRecoveryCode | UseAuthenticator | ConfirmationCode | RecoveryCodeLabel | HintTotp | HintRecoveryCode

record codeInputProps =
  cp_value :: typed
  cp_disabled :: bool
  cp_maxLength :: nat
  cp_inputMode :: string
  cp_placeholder :: string
  cp_invalid :: bool
  cp_describedBy :: "string list"
  cp_toggleLabel :: entryText
  cp_labelText :: entryText
  cp_hint :: entryText

definition codeInputProps :: "string \<Rightarrow> bool \<Rightarrow> bool \<Rightarrow> mfaCodeInput \<Rightarrow> codeInputProps" where
  "codeInputProps inputId submitting hasError i =
     (let isTotp = (mc_kind i = KindTotp)
      in \<lparr>cp_value = mc_code i, cp_disabled = submitting, cp_maxLength = PASTE_TOLERANT_MAX_LENGTH,
          cp_inputMode = (if isTotp then ''numeric'' else ''text''),
          cp_placeholder = (if isTotp then ''123456'' else ''xxxxx-xxxxx''), cp_invalid = hasError,
          cp_describedBy = (inputId @ ''-hint'') # (if hasError then [inputId @ ''-error''] else []),
          cp_toggleLabel = (if isTotp then UseRecoveryCode else UseAuthenticator),
          cp_labelText = (if isTotp then ConfirmationCode else RecoveryCodeLabel),
          cp_hint = (if isTotp then HintTotp else HintRecoveryCode)\<rparr>)"

section \<open>Submitting it\<close>

text \<open>\<open>useMfaCodeEntry\<close>: \<open>ce_running\<close> is the variable of \<open>oneAtATime\<close>.\<close>

record codeEntry =
  ce_input :: mfaCodeInput
  ce_submitting :: bool
  ce_error :: "message option"
  ce_running :: bool

definition freshEntry :: codeEntry where
  "freshEntry = \<lparr>ce_input = resetInput, ce_submitting = False, ce_error = None, ce_running = False\<rparr>"

definition resetEntry :: "codeEntry \<Rightarrow> codeEntry" where
  "resetEntry e = e\<lparr>ce_input := resetInput, ce_error := None, ce_submitting := False\<rparr>"

definition typeCode :: "typed \<Rightarrow> codeEntry \<Rightarrow> codeEntry" where
  "typeCode v e = (if ce_submitting e then e else e\<lparr>ce_input := (ce_input e)\<lparr>mc_code := v\<rparr>\<rparr>)"

definition toggleEntryKind :: "codeEntry \<Rightarrow> codeEntry" where
  "toggleEntryKind e = (if ce_submitting e then e else e\<lparr>ce_input := toggleKind (ce_input e), ce_error := None\<rparr>)"

text \<open>A submission: what is handed to \<open>options.submit\<close>, unless one is running.\<close>

definition submitEntry :: "(typed \<Rightarrow> typed) \<Rightarrow> codeEntry \<Rightarrow> codeEntry \<times> (typed \<times> mfa_code_kind) option" where
  "submitEntry nfkc e = (case handleSubmit nfkc (ce_submitting e) (ce_input e) of
     None \<Rightarrow> (e, None)
   | Some input \<Rightarrow>
       (case startOne (\<lambda>e. (Inr (), e\<lparr>ce_submitting := True, ce_error := None\<rparr>)) (ce_running e, e) of
          (Inr True, running, e') \<Rightarrow> (e'\<lparr>ce_running := running\<rparr>, Some input)
        | (_, _, e') \<Rightarrow> (e', None)))"

text \<open>The promise of \<open>options.submit\<close> resolves to a message or to nothing, and the promise of \<open>oneAtATime\<close> settles.\<close>

definition entrySettled :: "message option \<Rightarrow> codeEntry \<Rightarrow> codeEntry" where
  "entrySettled outcome e = e\<lparr>ce_error := outcome, ce_submitting := False, ce_running := False\<rparr>"

lemma submitEntry_cases:
  "submitEntry nfkc e = (e, None) \<or>
   (\<exists>input. \<not> ce_submitting e \<and> \<not> ce_running e \<and> handleSubmit nfkc False (ce_input e) = Some input \<and>
     submitEntry nfkc e = (e\<lparr>ce_submitting := True, ce_error := None, ce_running := True\<rparr>, Some input))"
  by (cases "ce_submitting e"; cases "ce_running e"; cases "handleSubmit nfkc False (ce_input e)")
    (auto simp: submitEntry_def startOne_def handleSubmit_def Let_def)

section \<open>Disabling\<close>

datatype mfaNote = MfaWasEnabled | MfaWasDisabled

record disableDialog =
  dd_open :: bool
  dd_entry :: codeEntry
  dd_toasts :: "mfaNote toast list"

definition closedDisableDialog :: disableDialog where
  "closedDisableDialog = \<lparr>dd_open = False, dd_entry = freshEntry, dd_toasts = []\<rparr>"

datatype disableEvent = DisableOpenChange bool | DisableType typed | DisableToggle | DisableSubmit

datatype disableChain = DisablingMfa typed mfa_code_kind | RefreshingDisabled

definition disableOpenChange :: "bool \<Rightarrow> disableDialog \<Rightarrow> disableDialog" where
  "disableOpenChange next d =
     (if ce_submitting (dd_entry d) then d
      else d\<lparr>dd_entry := (if next then dd_entry d else resetEntry (dd_entry d)), dd_open := next\<rparr>)"

text \<open>The form is there while the dialog is open.\<close>

fun raiseDisable :: "(typed \<Rightarrow> typed) \<Rightarrow> disableEvent \<Rightarrow> disableDialog \<Rightarrow> disableDialog \<times> disableChain option" where
  "raiseDisable nfkc (DisableOpenChange next) d = (disableOpenChange next d, None)"
| "raiseDisable nfkc (DisableType v) d = (if dd_open d then d\<lparr>dd_entry := typeCode v (dd_entry d)\<rparr> else d, None)"
| "raiseDisable nfkc DisableToggle d = (if dd_open d then d\<lparr>dd_entry := toggleEntryKind (dd_entry d)\<rparr> else d, None)"
| "raiseDisable nfkc DisableSubmit d =
    (if dd_open d
     then (case submitEntry nfkc (dd_entry d) of
             (e, input) \<Rightarrow> (d\<lparr>dd_entry := e\<rparr>, map_option (\<lambda>(code, kind). DisablingMfa code kind) input))
     else (d, None))"

fun disableSettles :: "disableChain \<Rightarrow> unit settlement \<Rightarrow> disableDialog \<Rightarrow> disableDialog \<times> disableChain option" where
  "disableSettles (DisablingMfa code kind) (Exited (Inr _)) d = (d\<lparr>dd_open := False\<rparr>, Some RefreshingDisabled)"
| "disableSettles (DisablingMfa code kind) (Exited (Inl cause)) d =
    (d\<lparr>dd_entry := entrySettled (Some (mfaFailureMessage cause)) (dd_entry d)\<rparr>, None)"
| "disableSettles RefreshingDisabled (Refreshed ok) d =
    (d\<lparr>dd_toasts := dd_toasts d @ notifyAfterRefresh ok (Some MfaWasDisabled) MfaWasDisabled,
       dd_entry := entrySettled None (dd_entry d)\<rparr>, None)"
| "disableSettles chain settlement d = (d, Some chain)"

lemma entry_running [simp]:
  "ce_running (resetEntry e) = ce_running e" "ce_running (typeCode v e) = ce_running e"
  "ce_running (toggleEntryKind e) = ce_running e" "ce_running (entrySettled m e) = False"
  "ce_submitting (typeCode v e) = ce_submitting e" "ce_submitting (toggleEntryKind e) = ce_submitting e"
  by (simp_all add: resetEntry_def typeCode_def toggleEntryKind_def entrySettled_def)

lemma submitEntry_running:
  assumes "submitEntry nfkc e = (e', input)"
  shows "ce_running e \<Longrightarrow> input = None \<and> ce_running e'" "input = Some i \<Longrightarrow> ce_running e' \<and> ce_submitting e'"
    "input = None \<Longrightarrow> e' = e"
  using submitEntry_cases[of nfkc e] assms by auto

interpretation disableDialog: busy_page "raiseDisable nfkc" disableSettles "\<lambda>d. d = closedDisableDialog"
  "\<lambda>_. True" "\<lambda>_ d. ce_running (dd_entry d)" "\<lambda>d. \<not> ce_running (dd_entry d)" "\<lambda>_. False" for nfkc
proof (unfold_locales, goal_cases)
  case (2 c d d' q) then show ?case
    by (cases c) (auto split: prod.splits if_splits dest: submitEntry_running)
next
  case (3 c d d') then show ?case
    by (cases c) (auto simp: disableOpenChange_def split: prod.splits if_splits dest: submitEntry_running)
next
  case (4 c q d d' r) then show ?case
    by (cases c) (auto simp: disableOpenChange_def split: prod.splits if_splits dest: submitEntry_running)
next
  case (6 p d e d' q) then show ?case by (cases "(p, e, d)" rule: disableSettles.cases) auto
next
  case (7 p d e d') then show ?case by (cases "(p, e, d)" rule: disableSettles.cases) auto
qed (simp_all add: closedDisableDialog_def freshEntry_def)

section \<open>Enrolling\<close>

text \<open>\<open>MfaEnrollment\<close> of the contract.\<close>

record webEnrollment =
  we_enrollmentId :: string
  we_totpUri :: string
  we_recoveryCodes :: "string list"

datatype enrollState =
    StepStarting | StepScan webEnrollment | StepVerify webEnrollment | StepRecoveryCodes "string list" | StepFailed message

definition readTotpSecret :: "url_parser \<Rightarrow> string \<Rightarrow> string option" where
  "readTotpSecret parseUrl totpUri = (case parseUrl totpUri of None \<Rightarrow> None | Some u \<Rightarrow> map_of (ur_searchParams u) ''secret'')"

definition failedStep :: "reason list \<Rightarrow> enrollState" where
  "failedStep cause = StepFailed (mfaFailureMessage cause)"

text \<open>\<open>ed_refreshing\<close>: the reads of the status that closing the dialog started.\<close>

record enrollDialog =
  ed_open :: bool
  ed_state :: enrollState
  ed_resumable :: "webEnrollment option"
  ed_entry :: codeEntry
  ed_refreshing :: nat
  ed_toasts :: "mfaNote toast list"

definition closedEnrollDialog :: enrollDialog where
  "closedEnrollDialog = \<lparr>ed_open = False, ed_state = StepStarting, ed_resumable = None, ed_entry = freshEntry,
     ed_refreshing = 0, ed_toasts = []\<rparr>"

datatype enrollEvent =
    EnrollOpenChange bool | GoToVerify | BackToScan | EnrollType typed | EnrollSubmit | StatusRead bool

datatype enrollChain = RequestingEnrollment | ActivatingMfa typed webEnrollment

definition waitingForEnrollResponse :: "enrollDialog \<Rightarrow> bool" where
  "waitingForEnrollResponse d \<longleftrightarrow> ed_state d = StepStarting \<and> ed_open d"

definition enrollOpenChange :: "bool \<Rightarrow> enrollDialog \<Rightarrow> enrollDialog \<times> enrollChain option" where
  "enrollOpenChange next d =
     (if waitingForEnrollResponse d \<or> ce_submitting (ed_entry d) then (d, None)
      else if next
      then (let d1 = d\<lparr>ed_entry := resetEntry (ed_entry d), ed_open := True\<rparr>
            in case ed_resumable d of
                 Some enrollment \<Rightarrow> (d1\<lparr>ed_state := StepScan enrollment\<rparr>, None)
               | None \<Rightarrow> (d1\<lparr>ed_state := StepStarting\<rparr>, Some RequestingEnrollment))
      else (d\<lparr>ed_open := False,
              ed_refreshing := (case ed_state d of StepRecoveryCodes cs \<Rightarrow> Suc (ed_refreshing d) | _ \<Rightarrow> ed_refreshing d)\<rparr>, None))"

text \<open>The steps are shown in the open dialog; the form is the one of the step \<open>verify\<close>.\<close>

definition raiseEnroll :: "(typed \<Rightarrow> typed) \<Rightarrow> enrollEvent \<Rightarrow> enrollDialog \<Rightarrow> enrollDialog \<times> enrollChain option" where
  "raiseEnroll nfkc event d = (case event of
     EnrollOpenChange next \<Rightarrow> enrollOpenChange next d
   | GoToVerify \<Rightarrow> (case (ed_open d, ed_state d) of
        (True, StepScan enrollment) \<Rightarrow> (d\<lparr>ed_state := StepVerify enrollment\<rparr>, None) | _ \<Rightarrow> (d, None))
   | BackToScan \<Rightarrow> (case (ed_open d, ed_state d) of
        (True, StepVerify enrollment) \<Rightarrow>
          (if ce_submitting (ed_entry d) then (d, None) else (d\<lparr>ed_state := StepScan enrollment\<rparr>, None))
      | _ \<Rightarrow> (d, None))
   | EnrollType v \<Rightarrow> (case (ed_open d, ed_state d) of
        (True, StepVerify enrollment) \<Rightarrow> (d\<lparr>ed_entry := typeCode v (ed_entry d)\<rparr>, None) | _ \<Rightarrow> (d, None))
   | EnrollSubmit \<Rightarrow> (case (ed_open d, ed_state d) of
        (True, StepVerify enrollment) \<Rightarrow>
          (case submitEntry nfkc (ed_entry d) of
             (e, input) \<Rightarrow> (d\<lparr>ed_entry := e\<rparr>, map_option (\<lambda>(code, kind). ActivatingMfa code enrollment) input))
      | _ \<Rightarrow> (d, None))
   | StatusRead ok \<Rightarrow>
       (if ed_refreshing d = 0 then (d, None)
        else (d\<lparr>ed_refreshing := ed_refreshing d - 1,
                ed_toasts := ed_toasts d @ notifyAfterRefresh ok (Some MfaWasEnabled) MfaWasEnabled\<rparr>, None)))"

definition enrollmentChangedTable :: "(failure \<times> bool) list" where
  "enrollmentChangedTable = [(EnrollmentChanged, True), (InvalidCode, False), (Locked, False), (RateLimited, False),
     (AlreadyEnabled, False), (MfaNotFound, False)]"

fun enrollSettles ::
    "enrollChain \<Rightarrow> (reason list + webEnrollment) + (reason list + unit) \<Rightarrow> enrollDialog \<Rightarrow> enrollDialog \<times> enrollChain option" where
  "enrollSettles RequestingEnrollment (Inl (Inr enrollment)) d =
    (d\<lparr>ed_resumable := Some enrollment, ed_state := StepScan enrollment\<rparr>, None)"
| "enrollSettles RequestingEnrollment (Inl (Inl cause)) d = (d\<lparr>ed_state := failedStep cause\<rparr>, None)"
| "enrollSettles (ActivatingMfa code enrollment) (Inr (Inr _)) d =
    (d\<lparr>ed_resumable := None, ed_state := StepRecoveryCodes (we_recoveryCodes enrollment),
       ed_entry := entrySettled None (ed_entry d)\<rparr>, None)"
| "enrollSettles (ActivatingMfa code enrollment) (Inr (Inl cause)) d =
    (d\<lparr>ed_resumable := (if failureOutcome cause enrollmentChangedTable False then None else ed_resumable d),
       ed_entry := entrySettled (Some (mfaFailureMessage cause)) (ed_entry d)\<rparr>, None)"
| "enrollSettles chain answer d = (d, Some chain)"

text \<open>What the dialog waits for: while an activation is out, it is open at the step of that enrollment.\<close>

fun enrollWaits :: "enrollChain \<Rightarrow> enrollDialog \<Rightarrow> bool" where
  "enrollWaits RequestingEnrollment d \<longleftrightarrow>
    waitingForEnrollResponse d \<and> \<not> ce_submitting (ed_entry d) \<and> \<not> ce_running (ed_entry d)"
| "enrollWaits (ActivatingMfa code enrollment) d \<longleftrightarrow>
    ed_open d \<and> ed_state d = StepVerify enrollment \<and> ce_submitting (ed_entry d) \<and> ce_running (ed_entry d)"

definition enrollIdle :: "enrollDialog \<Rightarrow> bool" where
  "enrollIdle d \<longleftrightarrow> \<not> waitingForEnrollResponse d \<and> \<not> ce_submitting (ed_entry d) \<and> \<not> ce_running (ed_entry d)"

lemma entry_submitting [simp]: "\<not> ce_submitting (resetEntry e)" "\<not> ce_submitting (entrySettled m e)"
  by (simp_all add: resetEntry_def entrySettled_def)

lemma submitEntry_idle: "submitEntry nfkc e = (e', input) \<Longrightarrow> ce_submitting e \<Longrightarrow> input = None \<and> e' = e"
  using submitEntry_cases[of nfkc e] by auto

interpretation enrollDialog: busy_page "raiseEnroll nfkc" enrollSettles "\<lambda>d. d = closedEnrollDialog" "\<lambda>_. True"
  enrollWaits enrollIdle "\<lambda>_. False" for nfkc
proof (unfold_locales, goal_cases)
  case (2 c d d' q) then show ?case
    by (cases c) (auto simp: raiseEnroll_def enrollOpenChange_def enrollIdle_def waitingForEnrollResponse_def Let_def
        split: prod.splits if_splits option.splits enrollState.splits bool.splits dest: submitEntry_running)
next
  case (3 c d d') then show ?case
    by (cases c) (auto simp: raiseEnroll_def enrollOpenChange_def enrollIdle_def waitingForEnrollResponse_def Let_def
        split: prod.splits if_splits option.splits enrollState.splits bool.splits dest: submitEntry_running)
next
  case (4 c q d d' r) then show ?case
    by (cases c; cases q) (auto simp: raiseEnroll_def enrollOpenChange_def waitingForEnrollResponse_def Let_def
        split: prod.splits if_splits option.splits enrollState.splits bool.splits dest: submitEntry_running submitEntry_idle)
next
  case (6 p d e d' q) then show ?case by (cases "(p, e, d)" rule: enrollSettles.cases) auto
next
  case (7 p d e d') then show ?case
    by (cases "(p, e, d)" rule: enrollSettles.cases) (auto simp: enrollIdle_def waitingForEnrollResponse_def failedStep_def)
qed (simp_all add: closedEnrollDialog_def freshEntry_def enrollIdle_def waitingForEnrollResponse_def)

section \<open>The settings\<close>

definition LOW_RECOVERY_CODE_THRESHOLD :: nat where
  "LOW_RECOVERY_CODE_THRESHOLD = 3"

datatype codeShortage = RecoveryCodesUsedUp | RecoveryCodesLow

definition describeRecoveryCodeShortage :: "nat \<Rightarrow> codeShortage" where
  "describeRecoveryCodeShortage remaining = (if remaining = 0 then RecoveryCodesUsedUp else RecoveryCodesLow)"

datatype mfaControl = ControlDisable | ControlEnroll

record mfaSettingsItem =
  mi_remaining :: "nat option"
  mi_shortage :: "codeShortage option"
  mi_badgeEnabled :: bool
  mi_control :: mfaControl

definition MfaSettingsItem :: "mfaStatus \<Rightarrow> mfaSettingsItem" where
  "MfaSettingsItem status =
     \<lparr>mi_remaining = (if ms_enabled status then Some (ms_recoveryCodesRemaining status) else None),
      mi_shortage = (if ms_enabled status \<and> ms_recoveryCodesRemaining status \<le> LOW_RECOVERY_CODE_THRESHOLD
        then Some (describeRecoveryCodeShortage (ms_recoveryCodesRemaining status)) else None),
      mi_badgeEnabled = ms_enabled status,
      mi_control = (if ms_enabled status then ControlDisable else ControlEnroll)\<rparr>"

end
