(* ===== verification/WebPagesProperties.thy ===== *)
theory WebPagesProperties
  imports WebCompany WebRoutes WebMfa Demo
begin

text \<open>
  What the pages of the web application guarantee: one request at a time, a text for every failure the API declares, no
  recovery code that is lost, redirects only to allowed addresses, and the way back after signing in again.
\<close>

section \<open>One thing at a time\<close>


section \<open>Recovery codes\<close>

text \<open>
  C38: While an activation is on its way the dialog cannot be closed, and if it succeeds the open dialog shows the recovery
  codes of the enrollment that was activated, which is not taken up again. Nothing else ever shows recovery codes.
\<close>

theorem recovery_codes_are_shown:
  assumes "ui_reachable (raiseEnroll nfkc) enrollSettles (\<lambda>d. d = closedEnrollDialog) (\<lambda>_. True) (d, ps)"
  shows "(\<forall>code e. ActivatingMfa code e \<in> set ps \<longrightarrow>
      ps = [ActivatingMfa code e] \<and> (\<forall>next. raiseEnroll nfkc (EnrollOpenChange next) d = (d, None)) \<and>
      (\<exists>d'. enrollSettles (ActivatingMfa code e) (Inr (Inr ())) d = (d', None) \<and> ed_open d' \<and>
        ed_state d' = StepRecoveryCodes (we_recoveryCodes e) \<and> ed_resumable d' = None)) \<and>
    (\<forall>event d' r codes. raiseEnroll nfkc event d = (d', r) \<and> ed_state d' = StepRecoveryCodes codes \<longrightarrow>
      ed_state d = StepRecoveryCodes codes) \<and>
    (\<forall>p answer d' r codes. p \<in> set ps \<and> enrollSettles p answer d = (d', r) \<and> ed_state d' = StepRecoveryCodes codes \<longrightarrow>
      (\<exists>code e. p = ActivatingMfa code e \<and> answer = Inr (Inr ()) \<and> codes = we_recoveryCodes e))"
proof (intro conjI allI impI, goal_cases)
  case (1 code e)
  with enrollDialog.at_most_one[OF assms] show ?case by (cases ps) auto
next
  case (2 code e b)
  then obtain before after where "ps = before @ ActivatingMfa code e # after" by (meson split_list)
  with enrollDialog.waits_for assms have "enrollWaits (ActivatingMfa code e) d" by blast
  then show ?case by (simp add: raiseEnroll_def enrollOpenChange_def)
next
  case (3 code e)
  then obtain before after where "ps = before @ ActivatingMfa code e # after" by (meson split_list)
  with enrollDialog.waits_for assms have "enrollWaits (ActivatingMfa code e) d" by blast
  then show ?case by simp
next
  case (4 event d' r codes)
  then show ?case
    by (cases event) (auto simp: raiseEnroll_def enrollOpenChange_def Let_def
        split: if_splits option.splits prod.splits bool.splits enrollState.splits)
next
  case (5 p answer d' r codes)
  then obtain before after where "ps = before @ p # after" by (meson split_list)
  with enrollDialog.waits_for assms have "enrollWaits p d" by blast
  with 5 show ?case
    by (cases "(p, answer, d)" rule: enrollSettles.cases) (auto simp: failedStep_def waitingForEnrollResponse_def)
qed

definition demoEnrollment :: webEnrollment where
  "demoEnrollment = \<lparr>we_enrollmentId = ''e1'', we_totpUri = ''otpauth://totp/ann'', we_recoveryCodes = [''aaaaa-bbbbb'']\<rparr>"

text \<open>The dialog is opened, the enrollment comes, the code is typed and sent.\<close>

definition enrollRun :: "enrollDialog \<times> enrollChain option" where
  "enrollRun =
     (let d1 = fst (raiseEnroll (\<lambda>v. v) (EnrollOpenChange True) closedEnrollDialog);
          d2 = fst (enrollSettles RequestingEnrollment (Inl (Inr demoEnrollment)) d1);
          d3 = fst (raiseEnroll (\<lambda>v. v) GoToVerify d2);
          d4 = fst (raiseEnroll (\<lambda>v. v) (EnrollType [49, 50, 51, 52, 53, 54]) d3)
      in raiseEnroll (\<lambda>v. v) EnrollSubmit d4)"

theorem recovery_codes_are_shown_witness:
  "\<exists>d' code. snd enrollRun = Some (ActivatingMfa code demoEnrollment) \<and>
    enrollSettles (ActivatingMfa code demoEnrollment) (Inr (Inr ())) (fst enrollRun) = (d', None) \<and>
    ed_open d' \<and> ed_state d' = StepRecoveryCodes [''aaaaa-bbbbb'']"
proof -
  let ?reach = "ui_reachable (raiseEnroll (\<lambda>v. v)) enrollSettles (\<lambda>d. d = closedEnrollDialog) (\<lambda>_. True)"
  define d1 where "d1 = fst (raiseEnroll (\<lambda>v. v) (EnrollOpenChange True) closedEnrollDialog)"
  define d2 where "d2 = fst (enrollSettles RequestingEnrollment (Inl (Inr demoEnrollment)) d1)"
  define d3 where "d3 = fst (raiseEnroll (\<lambda>v. v) GoToVerify d2)"
  define d4 where "d4 = fst (raiseEnroll (\<lambda>v. v) (EnrollType [49, 50, 51, 52, 53, 54]) d3)"
  note defs = d1_def d2_def d3_def d4_def raiseEnroll_def enrollOpenChange_def closedEnrollDialog_def freshEntry_def
    resetEntry_def resetInput_def waitingForEnrollResponse_def typeCode_def
  have steps: "raiseEnroll (\<lambda>v. v) (EnrollOpenChange True) closedEnrollDialog = (d1, Some RequestingEnrollment)"
    "enrollSettles RequestingEnrollment (Inl (Inr demoEnrollment)) d1 = (d2, None)"
    "raiseEnroll (\<lambda>v. v) GoToVerify d2 = (d3, None)" "raiseEnroll (\<lambda>v. v) (EnrollType [49, 50, 51, 52, 53, 54]) d3 = (d4, None)"
    by (simp_all add: defs)
  have "?reach (closedEnrollDialog, [])" by (rule ui_reachable.opens) simp
  from ui_reachable.raised[OF this TrueI steps(1)] have "?reach (d1, [RequestingEnrollment])" by (simp add: listOf_def)
  from ui_reachable.settled[where before = "[]" and after = "[]", simplified, OF this steps(2)]
  have "?reach (d2, [])" by (simp add: listOf_def)
  from ui_reachable.raised[OF this TrueI steps(3)] have "?reach (d3, [])" by (simp add: listOf_def)
  from ui_reachable.raised[OF this TrueI steps(4)] have r4: "?reach (d4, [])" by (simp add: listOf_def)
  obtain d5 code where d5: "raiseEnroll (\<lambda>v. v) EnrollSubmit d4 = (d5, Some (ActivatingMfa code demoEnrollment))"
    by (simp add: defs submitEntry_def handleSubmit_def normalizeMfaCode_def isWhitespace_def isHyphenLike_def startOne_def Let_def)
  from ui_reachable.raised[OF r4 TrueI d5] have "?reach (d5, [ActivatingMfa code demoEnrollment])" by (simp add: listOf_def)
  from recovery_codes_are_shown[OF this] obtain d' where d': "enrollSettles (ActivatingMfa code demoEnrollment) (Inr (Inr ())) d5 = (d', None)"
    "ed_open d'" "ed_state d' = StepRecoveryCodes (we_recoveryCodes demoEnrollment)" by fastforce
  have run: "enrollRun = (d5, Some (ActivatingMfa code demoEnrollment))"
    using d5 by (simp only: enrollRun_def Let_def d1_def d2_def d3_def d4_def)
  have codes: "we_recoveryCodes demoEnrollment = [''aaaaa-bbbbb'']" by (simp add: demoEnrollment_def)
  show ?thesis unfolding run fst_conv snd_conv using d' unfolding codes by blast
qed

section \<open>Failures\<close>

definition tellsFailures :: "(failure \<times> 'v) list \<Rightarrow> spa_call option \<Rightarrow> bool" where
  "tellsFailures table call \<longleftrightarrow> (case call of
     None \<Rightarrow> False
   | Some q \<Rightarrow> set (map fst table) = spaErrors (endpointOf q) - {Unauthorized} \<and> distinct (map fst table))"

lemmas web_tables = roleChangeTable_def removalTable_def transferTable_def inviteTable_def revokeTable_def switchTable_def
  leaveCompanyTable_def updateTable_def deleteTable_def createdInAnotherTabTable_def deleteAccountTable_def
  enrollmentChangedTable_def verificationTable_def acceptTable_def

text \<open>
  Every page has a text for exactly the failures the API declares for the request it sends, apart from the missing
  session, which all pages answer by leading to the sign-in page.
\<close>

theorem pages_tell_declared_failures:
  "tellsFailures roleChangeTable (memberRequest c (ChangingRole t r)) \<and>
   tellsFailures removalTable (memberRequest c (Removing t)) \<and>
   tellsFailures transferTable (transferRequest c (Transferring t)) \<and>
   tellsFailures inviteTable (inviteRequestOf c (SendingInvite q)) \<and>
   tellsFailures revokeTable (revokeRequest c (Revoking i)) \<and>
   tellsFailures switchTable (companyRequest u (Switching (switchCompany False c))) \<and>
   tellsFailures leaveCompanyTable (companyRequest u (Leaving m)) \<and>
   tellsFailures ([] :: (failure \<times> companyNote) list) (addCompanyRequest (SendingForm n oc)) \<and>
   tellsFailures updateTable (settingsRequest c (SendingForm n oc)) \<and>
   tellsFailures deleteTable (deleteRequest (DeletingCompany c n)) \<and>
   tellsFailures createdInAnotherTabTable (Some (signUpCompanyRequest (n, oc))) \<and>
   tellsFailures deleteAccountTable (Some DeleteOwnAccount) \<and>
   tellsFailures enrollmentChangedTable (Some (ActivateTotp code i)) \<and>
   tellsFailures (verificationTable v) (Some (VerifyChallenge code kind)) \<and>
   tellsFailures acceptTable (Some (AcceptInvite token)) \<and>
   set (map fst MFA_FAILURE_MESSAGES) =
     \<Union> ((spaErrors \<circ> endpointOf) ` {EnrollTotp, ActivateTotp code i, DisableTotp code kind, VerifyChallenge code kind}) - {Unauthorized}"
  by (intro conjI; auto simp: tellsFailures_def web_tables spaErrors_def switchCompany_def signUpCompanyRequest_def MFA_FAILURE_MESSAGES_def)

section \<open>Where the browser goes\<close>

definition allowedAddress :: "url_parser \<Rightarrow> string \<Rightarrow> bool" where
  "allowedAddress parseUrl url \<longleftrightarrow> (\<exists>service\<in>set SERVICE_NAMES. validateRedirectUrl parseUrl url service)"

lemma parseSignInParams_allowed:
  assumes "parseSignInParams parseUrl s = Some params"
  shows "allowedAddress parseUrl (sp_redirect_url params)"
    "sp_sign_up_url params = Some u \<Longrightarrow> allowedAddress parseUrl u"
  using assms by (auto simp: parseSignInParams_def allowedAddress_def split: option.splits if_splits)

lemma acceptInvitation_leads:
  assumes "acceptInvitationOutcome token (redirectUrlAfterAccept parseUrl service url) hasSession accept = GoToRedirectUrl u"
  shows "u = ''/account'' \<or> allowedAddress parseUrl u"
proof -
  from assms have "u = redirectUrlAfterAccept parseUrl service url"
    by (auto simp: acceptInvitationOutcome_def outcomeOfAccepted_def split: option.splits sum.splits if_splits)
  then show ?thesis
    by (auto simp: redirectUrlAfterAccept_def parseRedirectTarget_def allowedAddress_def split: option.splits if_splits)
qed

lemma companySignup_leads:
  "readCompanySignupEntry session state (companySignupRedirectUrl parseUrl s) = GoToRedirectUrl u \<Longrightarrow>
    u = ''/account'' \<or> allowedAddress parseUrl u"
  using parseSignInParams_allowed(1)[of parseUrl s]
  by (auto simp: readCompanySignupEntry_def companySignupEntryOf_def companySignupRedirectUrl_def
      split: option.splits bool.splits sum.splits if_splits)

definition ownRedirects :: "string \<Rightarrow> string \<Rightarrow> routeRedirect set" where
  "ownRedirects origin href = {RedirectHref INVALID_REDIRECT_URL_PAGE, RedirectHref ''/account'',
     RedirectTo ''/auth/'' (searchReturningTo origin href), RedirectTo ''/auth/signup/company'' (searchReturningTo origin href)}"

lemma enterOr_redirects:
  assumes "enterOr origin entry href shown = Redirected r"
  shows "r \<in> ownRedirects origin href \<or> (\<exists>u. entry = GoToRedirectUrl u \<and> r = RedirectHref u)"
  using assms by (cases entry) (auto simp: enterOr_def redirectFor_def ownRedirects_def)

text \<open>
  C40: A route sends the browser only to the page of a wrong link, the account, the sign-in or the sign-up of a company
  with the way back to the page itself, or to an address on the allow list of a service. A link in a mail and a login with GitHub lead
  back only to the acceptance of the invitation on this host or to an allowed address.
\<close>

theorem routes_redirect_safely:
  "(loadRoute parseUrl origin reads href route s = Redirected r \<longrightarrow>
     r \<in> ownRedirects origin href \<or> (\<exists>url. r = RedirectHref url \<and> allowedAddress parseUrl url)) \<and>
   (loadRoute parseUrl origin reads href route s \<in> {Shown (SignInPage params), Shown (SignUpPage params)} \<longrightarrow>
     (\<exists>token. signCallbackUrl origin asSignUp params = origin @ acceptInvitationPath token None) \<or>
     allowedAddress parseUrl (signCallbackUrl origin asSignUp params))"
proof (intro conjI impI)
  assume run: "loadRoute parseUrl origin reads href route s = Redirected r"
  have own: "accountEntryOf state \<noteq> GoToRedirectUrl u" for state u
    by (auto simp: accountEntryOf_def split: sum.splits)
  show "r \<in> ownRedirects origin href \<or> (\<exists>url. r = RedirectHref url \<and> allowedAddress parseUrl url)"
  proof (cases route)
    case RouteCompanySignup
    with run enterOr_redirects[of origin _ href _ r] companySignup_leads[of _ _ parseUrl s] show ?thesis
      by (fastforce simp: ownRedirects_def Let_def)
  next
    case RouteAcceptInvitation
    with run enterOr_redirects[of origin _ href _ r] acceptInvitation_leads[of _ parseUrl] show ?thesis
      by (fastforce simp: ownRedirects_def)
  qed (use run own enterOr_redirects[of origin _ href _ r] in
      \<open>fastforce simp: ownRedirects_def toInvalidRedirectError_def split: option.splits\<close>)+
next
  assume "loadRoute parseUrl origin reads href route s \<in> {Shown (SignInPage params), Shown (SignUpPage params)}"
  then have "parseSignInParams parseUrl s = Some params"
    by (cases route) (auto simp: enterOr_def toInvalidRedirectError_def Let_def split: option.splits routeEntry.splits)
  from parseSignInParams_allowed[OF this] show "(\<exists>token. signCallbackUrl origin asSignUp params = origin @ acceptInvitationPath token None) \<or>
      allowedAddress parseUrl (signCallbackUrl origin asSignUp params)"
    by (auto simp: signCallbackUrl_def invitationAcceptCallbackUrl_def split: option.splits)
qed

definition demoReads :: routeReads where
  "demoReads = \<lparr>rr_session = Some True, rr_companyState = Inr EMPTY_COMPANY_STATE, rr_challenge = Inr False, rr_accept = (\<lambda>_. Some (Inr ()))\<rparr>"

definition demoAcceptSearch :: search where
  "demoAcceptSearch = map_of [(''service_name'', ''taimei''), (''redirect_url'', ''https://app.taimei-code.com/x''), (''invitation_token'', ''t'')]"

theorem routes_redirect_safely_witness:
  "loadRoute demoUrl ''https://auth.taimei-code.com'' demoReads ''/x'' RouteAcceptInvitation demoAcceptSearch =
     Redirected (RedirectHref ''https://app.taimei-code.com/x'') \<and> allowedAddress demoUrl ''https://app.taimei-code.com/x''"
proof -
  have "loadRoute demoUrl ''https://auth.taimei-code.com'' demoReads ''/x'' RouteAcceptInvitation demoAcceptSearch =
      Redirected (RedirectHref ''https://app.taimei-code.com/x'')"
    by code_simp
  with routes_redirect_safely[of demoUrl "''https://auth.taimei-code.com''" demoReads "''/x''" RouteAcceptInvitation demoAcceptSearch]
  show ?thesis by (auto simp: ownRedirects_def INVALID_REDIRECT_URL_PAGE_def)
qed

section \<open>Signing in again\<close>

text \<open>
  When a request is answered that the session is missing, the document is left - once - for the sign-in page with
  parameters that page accepts, and whoever signs in there comes back to the page that was left.
\<close>

theorem unauthorized_returns_to_page:
  assumes "findError cause = Some Unauthorized" "dc_leftTo doc = None"
    and "leaveForSignInOnUnauthorized (Inl cause) doc = (answer, doc')"
    and "parseUrl (dc_origin doc @ dc_href doc) = Some u" "ur_protocol u = ''https:''" "ur_username u = []" "ur_password u = []"
    and "ur_hostname u = ''auth.taimei-code.com''" "isBetweenLength 1 2048 (dc_origin doc @ dc_href doc)"
  shows "answer = Inl cause \<and> (\<forall>url. leaveSpaTo url doc' = doc') \<and>
    (\<exists>query params. dc_leftTo doc' = Some (routePath RouteSignIn @ ''?'' @ query) \<and>
      loadRoute parseUrl origin reads href RouteSignIn (parseSearch query) = Shown (SignInPage params) \<and>
      signCallbackUrl origin False params = dc_origin doc @ dc_href doc)"
proof -
  let ?page = "dc_origin doc @ dc_href doc"
  from assms(1-3) have doc': "answer = Inl cause" "doc' = doc\<lparr>dc_leftTo := Some (signInUrl (dc_origin doc) ''/auth/'' (dc_href doc))\<rparr>"
    by (auto simp: leaveForSignInOnUnauthorized_def leaveSpaToSignIn_def leaveSpaTo_def)
  from signInUrl_reads[of "dc_origin doc" "''/auth/''" "dc_href doc"] obtain query where
    query: "signInUrl (dc_origin doc) ''/auth/'' (dc_href doc) = ''/auth/'' @ ''?'' @ query"
      "formDecode query = searchReturningTo (dc_origin doc) (dc_href doc)" by blast
  have enc: "query = ''service_name=accounts&redirect_url='' @ encodeURIComponent ?page"
    using query(1) by (simp add: signInUrl_def)
  have search: "parseSearch query = map_of [(''redirect_url'', ?page), (''service_name'', ''accounts'')]"
    using query(2) by (simp add: parseSearch_def enc searchReturningTo_def)
  have "withoutTrailingDot ''auth.taimei-code.com'' = ''auth.taimei-code.com''" by code_simp
  with assms(4-8) have "validateRedirectUrl parseUrl ?page ''accounts''"
    by (simp add: validateRedirectUrl_def ALLOWED_REDIRECT_PROTOCOLS_def)
  with assms(9) have "parseSignInParams parseUrl (parseSearch query) =
      Some \<lparr>sp_service_name = ''accounts'', sp_redirect_url = ?page, sp_sign_up_url = None, sp_invitation_token = None\<rparr>"
    by (simp add: parseSignInParams_def search SERVICE_NAMES_def)
  with doc' query(1) show ?thesis
    by (intro conjI exI[of _ query] exI[of _ "\<lparr>sp_service_name = ''accounts'', sp_redirect_url = ?page, sp_sign_up_url = None, sp_invitation_token = None\<rparr>"])
      (simp_all add: leaveSpaTo_def signCallbackUrl_def)
qed

theorem unauthorized_returns_to_page_witness:
  "\<exists>query params. dc_leftTo (snd (leaveForSignInOnUnauthorized (Inl [Fail Unauthorized] :: reason list + unit)
      \<lparr>dc_origin = ''https://auth.taimei-code.com'', dc_href = ''/account/members'', dc_leftTo = None\<rparr>)) = Some (''/auth/?'' @ query) \<and>
    loadRoute demoUrl [] \<lparr>rr_session = None, rr_companyState = Inl [], rr_challenge = Inl [], rr_accept = (\<lambda>_. None)\<rparr> []
      RouteSignIn (parseSearch query) = Shown (SignInPage params) \<and>
    signCallbackUrl [] False params = ''https://auth.taimei-code.com/account/members''"
proof -
  let ?doc = "\<lparr>dc_origin = ''https://auth.taimei-code.com'', dc_href = ''/account/members'', dc_leftTo = None\<rparr>"
  let ?reads = "\<lparr>rr_session = None, rr_companyState = Inl [], rr_challenge = Inl [], rr_accept = (\<lambda>_. None)\<rparr>"
  have parsed: "demoUrl (dc_origin ?doc @ dc_href ?doc) = Some \<lparr>ur_protocol = ''https:'', ur_username = [],
      ur_password = [], ur_hostname = ''auth.taimei-code.com'', ur_origin = ''https://auth.taimei-code.com'',
      ur_pathname = ''/account/members'', ur_search = [], ur_hash = [], ur_searchParams = []\<rparr>"
    by code_simp
  obtain answer doc' where run: "leaveForSignInOnUnauthorized (Inl [Fail Unauthorized] :: reason list + unit) ?doc = (answer, doc')"
    by fastforce
  have "answer = Inl [Fail Unauthorized] \<and> (\<forall>url. leaveSpaTo url doc' = doc') \<and>
    (\<exists>query params. dc_leftTo doc' = Some (routePath RouteSignIn @ ''?'' @ query) \<and>
      loadRoute demoUrl [] ?reads [] RouteSignIn (parseSearch query) = Shown (SignInPage params) \<and>
      signCallbackUrl [] False params = dc_origin ?doc @ dc_href ?doc)"
    by (rule unauthorized_returns_to_page[where doc = ?doc and parseUrl = demoUrl, OF _ _ run parsed]) (simp_all add: isBetweenLength_def)
  with run show ?thesis by simp
qed

end
