(* ===== verification/Emails.thy ===== *)
theory Emails
  imports Invitation EmailText
begin

text \<open>
  \<open>src/email\<close>: the e-mails the service writes - \<open>invitation.tsx\<close>, \<open>magic-link.tsx\<close>, \<open>mfa-enabled.tsx\<close>,
  \<open>mfa-disabled.tsx\<close>, \<open>welcome.tsx\<close> - and how they are sent: \<open>client.ts\<close>, \<open>send-*.ts\<close>, \<open>wiring.ts\<close>,
  \<open>dispatch-magic-link.ts\<close>, and \<open>src/membership/role-label.ts\<close>. A template is the tree of elements it builds; its
  texts are lists of code points, as in \<open>EmailText\<close>, and an attribute \<open>style\<close> is the name of the style it refers to.
  Turning a tree into HTML and plain text is the library's, and so is the Resend client: they are calls that can
  throw, refuse, or be answered too late.
\<close>

type_synonym codePoints = "nat list"

definition cps :: "string \<Rightarrow> codePoints" where
  "cps s = map of_char s"

datatype node = Txt codePoints | El string "(string \<times> codePoints) list" "node list"

text \<open>The addresses a reader of the e-mail can be sent to, or that are loaded when it is shown.\<close>

fun attributesOf :: "string \<Rightarrow> node \<Rightarrow> codePoints list" where
  "attributesOf k (Txt t) = []"
| "attributesOf k (El tag as ns) = map snd (filter (\<lambda>a. fst a = k) as) @ concat (map (attributesOf k) ns)"

section \<open>Templates\<close>

definition EXPIRES_IN_MINUTES :: nat where
  "EXPIRES_IN_MINUTES = 300 div 60"

definition fontStyle :: codePoints where
  "fontStyle = [10, 32, 32, 32, 32, 32, 32, 32, 32, 32, 32, 32, 32, 64, 105, 109, 112, 111, 114, 116, 32, 117, 114,
    108, 40, 39, 104, 116, 116, 112, 115, 58, 47, 47, 102, 111, 110, 116, 115, 46, 103, 111, 111, 103, 108, 101,
    97, 112, 105, 115, 46, 99, 111, 109, 47, 99, 115, 115, 50, 63, 102, 97, 109, 105, 108, 121, 61, 78, 111, 116,
    111, 43, 83, 97, 110, 115, 43, 74, 80, 58, 119, 103, 104, 116, 64, 52, 48, 48, 59, 53, 48, 48, 59, 55, 48, 48,
    38, 100, 105, 115, 112, 108, 97, 121, 61, 115, 119, 97, 112, 39, 41, 59, 10, 32, 32, 32, 32, 32, 32, 32, 32,
    32, 32]"

definition InvitationEmail :: "nat \<Rightarrow> codePoints \<Rightarrow> codePoints \<Rightarrow> codePoints \<Rightarrow> codePoints \<Rightarrow> codePoints \<Rightarrow> codePoints \<Rightarrow> codePoints \<Rightarrow> codePoints \<Rightarrow> codePoints \<Rightarrow> node" where
  "InvitationEmail year url appName companyName inviterName inviterEmail inviteeEmail roleLabel supportEmail abuseUrl =
     El ''Html'' [(''lang'', cps ''ja'')] [
       El ''Head'' [] [
         El ''style'' [] [
           Txt fontStyle]],
       El ''Preview'' [] [
         Txt inviterName,
         Txt [32, 12373, 12435, 12363, 12425, 12300],
         Txt companyName,
         Txt [12301, 12408, 12398, 25307, 24453]],
       El ''Body'' [(''style'', cps ''styles.body'')] [
         El ''Container'' [(''style'', cps ''styles.container'')] [
           El ''Section'' [(''style'', cps ''styles.headerSection'')] [
             El ''Heading'' [(''style'', cps ''styles.heading'')] [
               Txt [20107, 26989, 25152, 12408, 12398, 25307, 24453]],
             El ''Text'' [(''style'', cps ''styles.introText'')] [
               Txt inviterName,
               Txt [32, 12373, 12435, 32, 40],
               Txt inviterEmail,
               Txt [41, 32, 12363, 12425],
               El ''br'' [] [],
               Txt [12300],
               Txt companyName,
               Txt [12301, 12408, 12398, 21442, 21152, 32, 40],
               Txt roleLabel,
               Txt [41, 32, 12395, 25307, 24453, 12373, 12428, 12390, 12356, 12414, 12377, 12290]]],
           El ''Section'' [(''style'', cps ''styles.buttonSection'')] [
             El ''Button'' [(''href'', url), (''style'', cps ''styles.button'')] [
               Txt [25307, 24453, 12434, 21463, 35582, 12377, 12427]]],
           El ''Text'' [(''style'', cps ''styles.expiryNotice'')] [
             Txt [12371, 12398, 25307, 24453, 12522, 12531, 12463, 12399, 50, 52, 26178, 38291, 26377, 21177,
               12391, 12377]],
           El ''Section'' [(''style'', cps ''styles.detailSection'')] [
             El ''Text'' [(''style'', cps ''styles.secondaryText'')] [
               Txt [12371, 12398, 25307, 24453, 12399, 32],
               El ''strong'' [] [
                 Txt inviteeEmail],
               Txt [32, 23451, 12391, 12377, 12290],
               El ''br'' [] [],
               Txt [21463, 35582, 12395, 12399, 21516, 12376, 12513, 12540, 12523, 12450, 12489, 12524, 12473,
                 12391, 12398, 12525, 12464, 12452, 12531, 12364, 24517, 35201, 12391, 12377, 12290]]],
           El ''Hr'' [(''style'', cps ''styles.divider'')] [],
           El ''Section'' [] [
             El ''Text'' [(''style'', cps ''styles.smallSecondaryText'')] [
               Txt [12508, 12479, 12531, 12364, 27231, 33021, 12375, 12394, 12356, 22580, 21512, 12399, 12289,
                 20197, 19979, 12398, 32, 85, 82, 76, 32, 12434, 12502, 12521, 12454, 12470, 12395, 36028, 12426,
                 20184, 12369, 12390, 12367, 12384, 12373, 12356, 12290, 32, 85, 82, 76, 32, 12364, 32, 97, 117,
                 116, 104, 46, 116, 97, 105, 109, 101, 105, 45, 99, 111, 100, 101, 46, 99, 111, 109, 32, 12391,
                 22987, 12414, 12427, 12371, 12392, 12434, 30906, 35469, 12375, 12390, 12367, 12384, 12373, 12356,
                 12290]],
             El ''Text'' [(''style'', cps ''styles.fallbackUrlParagraph'')] [
               El ''Link'' [(''href'', url), (''style'', cps ''styles.fallbackUrlLink'')] [
                 Txt url]]],
           El ''Section'' [(''style'', cps ''styles.closingNoteSection'')] [
             El ''Text'' [(''style'', cps ''styles.smallSecondaryText'')] [
               Txt [25307, 24453, 12395, 24515, 24403, 12383, 12426, 12364, 12394, 12356, 22580, 21512, 12399,
                 12289, 12371, 12398, 12513, 12540, 12523, 12434, 28961, 35222, 12375, 12390, 12367, 12384, 12373,
                 12356, 12290],
               El ''br'' [] [],
               Txt [19981, 23529, 12394, 12513, 12540, 12523, 12399, 32],
               El ''Link'' [(''href'', (cps ''mailto:'' @ supportEmail))] [
                 Txt supportEmail],
               Txt (cps '' ''),
               Txt [12414, 12391, 12372, 36899, 32097, 12367, 12384, 12373, 12356, 12290],
               El ''br'' [] [],
               Txt [73, 84, 32, 31649, 29702, 32773, 21521, 12369, 32, 83, 80, 70, 47, 68, 75, 73, 77, 32, 24773,
                 22577, 58, 32],
               El ''Link'' [(''href'', abuseUrl)] [
                 Txt abuseUrl]]],
           El ''Hr'' [(''style'', cps ''styles.divider'')] [],
           El ''Text'' [(''style'', cps ''styles.copyrightText'')] [
             Txt [169, 32],
             Txt ((cps (showNat year))),
             Txt (cps '' ''),
             Txt appName]]]]"

definition MagicLinkEmail :: "nat \<Rightarrow> codePoints \<Rightarrow> codePoints \<Rightarrow> node" where
  "MagicLinkEmail year url appName =
     El ''Html'' [(''lang'', cps ''ja'')] [
       El ''Head'' [] [
         El ''style'' [] [
           Txt fontStyle]],
       El ''Preview'' [] [
         Txt ((appName @ [32, 12408, 12398, 12525, 12464, 12452, 12531, 12522, 12531, 12463, 32, 45,
           32] @ (cps (showNat EXPIRES_IN_MINUTES)) @ [20998, 38291, 26377, 21177]))],
       El ''Body'' [(''style'', cps ''styles.body'')] [
         El ''Container'' [(''style'', cps ''styles.container'')] [
           El ''Section'' [(''style'', cps ''styles.logoSection'')] [
             El ''Img'' [(''src'',
               cps ''https://7iv4djergayei7gf.public.blob.vercel-storage.com/taimei/public/my-service-logo.png''),
               (''width'', cps ''80''), (''height'', cps ''80''), (''alt'', appName), (''style'',
               cps ''styles.logo'')] []],
           El ''Section'' [(''style'', cps ''styles.headerSectionBelowLogo'')] [
             El ''Heading'' [(''style'', cps ''styles.heading'')] [
               Txt [12525, 12464, 12452, 12531, 12522, 12463, 12456, 12473, 12488]],
             El ''Text'' [(''style'', cps ''styles.introText'')] [
               Txt appName,
               Txt [32, 12408, 12398, 12525, 12464, 12452, 12531, 12522, 12531, 12463, 12434, 12362, 36865, 12426,
                 12375, 12414, 12377, 12290],
               El ''br'' [] [],
               Txt [19979, 12398, 12508, 12479, 12531, 12434, 12463, 12522, 12483, 12463, 12375, 12390, 12525,
                 12464, 12452, 12531, 12375, 12390, 12367, 12384, 12373, 12356, 12290]]],
           El ''Section'' [(''style'', cps ''styles.buttonSection'')] [
             El ''Button'' [(''href'', url), (''style'', cps ''styles.button'')] [
               Txt [12525, 12464, 12452, 12531, 12377, 12427]]],
           El ''Text'' [(''style'', cps ''styles.expiryNotice'')] [
             Txt (([12371, 12398, 12522, 12531, 12463, 12399] @ (cps (showNat EXPIRES_IN_MINUTES)) @ [20998, 38291,
               26377, 21177, 12391, 12377]))],
           El ''Hr'' [(''style'', cps ''styles.divider'')] [],
           El ''Section'' [] [
             El ''Text'' [(''style'', cps ''styles.smallSecondaryText'')] [
               Txt [12508, 12479, 12531, 12364, 27231, 33021, 12375, 12394, 12356, 22580, 21512, 12399, 12289,
                 20197, 19979, 12398, 85, 82, 76, 12434, 12467, 12500, 12540, 12375, 12390, 12502, 12521, 12454,
                 12470, 12395, 36028, 12426, 20184, 12369, 12390, 12367, 12384, 12373, 12356]],
             El ''Text'' [(''style'', cps ''styles.fallbackUrlParagraph'')] [
               El ''Link'' [(''href'', url), (''style'', cps ''styles.fallbackUrlLink'')] [
                 Txt url]]],
           El ''Section'' [(''style'', cps ''styles.closingNoteSection'')] [
             El ''Text'' [(''style'', cps ''styles.smallSecondaryText'')] [
               Txt [12371, 12398, 12522, 12531, 12463, 12399, 49, 22238, 12398, 12415, 20351, 29992, 21487, 33021,
                 12391, 12377, 12290],
               El ''br'' [] [],
               Txt [24515, 24403, 12383, 12426, 12398, 12394, 12356, 22580, 21512, 12399, 12289, 12371, 12398,
                 12513, 12540, 12523, 12434, 28961, 35222, 12375, 12390, 12367, 12384, 12373, 12356, 12290]]],
           El ''Hr'' [(''style'', cps ''styles.divider'')] [],
           El ''Text'' [(''style'', cps ''styles.copyrightText'')] [
             Txt [169, 32],
             Txt ((cps (showNat year))),
             Txt (cps '' ''),
             Txt appName]]]]"

definition MfaDisabledEmail :: "nat \<Rightarrow> codePoints \<Rightarrow> codePoints \<Rightarrow> codePoints \<Rightarrow> node" where
  "MfaDisabledEmail year appName securityUrl supportEmail =
     El ''Html'' [(''lang'', cps ''ja'')] [
       El ''Head'' [] [
         El ''style'' [] [
           Txt fontStyle]],
       El ''Preview'' [] [
         Txt [22810, 35201, 32032, 35469, 35388, 32, 40, 77, 70, 65, 41, 32, 12434, 28961, 21177, 12395, 12375,
           12414, 12375, 12383]],
       El ''Body'' [(''style'', cps ''styles.body'')] [
         El ''Container'' [(''style'', cps ''styles.container'')] [
           El ''Section'' [(''style'', cps ''styles.headerSection'')] [
             El ''Heading'' [(''style'', cps ''styles.heading'')] [
               Txt [22810, 35201, 32032, 35469, 35388, 32, 40, 77, 70, 65, 41, 32, 12434, 28961, 21177, 12395,
                 12375, 12414, 12375, 12383]],
             El ''Text'' [(''style'', cps ''styles.introText'')] [
               Txt appName,
               Txt [32, 12398, 12450, 12459, 12454, 12531, 12488, 12391, 22810, 35201, 32032, 35469, 35388, 32, 40,
                 77, 70, 65, 41, 32, 12364, 28961, 21177, 12395, 12394, 12426, 12414, 12375, 12383, 12290],
               El ''br'' [] [],
               Txt [20197, 24460, 12398, 12525, 12464, 12452, 12531, 12391, 12399, 12289, 35469, 35388, 12450,
                 12503, 12522, 12398, 12467, 12540, 12489, 12399, 27714, 12417, 12425, 12428, 12414, 12379, 12435,
                 12290]]],
           El ''Section'' [(''style'', cps ''styles.detailSection'')] [
             El ''Text'' [(''style'', cps ''styles.warningText'')] [
               Txt [12371, 12398, 25805, 20316, 12395, 24515, 24403, 12383, 12426, 12364, 12394, 12356, 22580,
                 21512, 12289, 31532, 19977, 32773, 12364, 12354, 12394, 12383, 12398, 12450, 12459, 12454, 12531,
                 12488, 12392, 31532, 20108, 35201, 32032, 12398, 20001, 26041, 12434, 32, 25163, 12395, 20837,
                 12428, 12390, 12356, 12427, 21487, 33021, 24615, 12364, 12354, 12426, 12414, 12377, 12290],
               El ''br'' [] [],
               Txt [12383, 12384, 12385, 12395, 22810, 35201, 32032, 35469, 35388, 32, 40, 77, 70, 65, 41, 32,
                 12434, 20877, 24230, 26377, 21177, 12395, 12375, 12289],
               El ''Link'' [(''href'', (cps ''mailto:'' @ supportEmail))] [
                 Txt supportEmail],
               Txt [32, 12414, 12391, 12372, 36899, 32097, 12367, 12384, 12373, 12356, 12290]]],
           El ''Section'' [(''style'', cps ''styles.buttonSection'')] [
             El ''Button'' [(''href'', securityUrl), (''style'', cps ''styles.button'')] [
               Txt [12475, 12461, 12517, 12522, 12486, 12451, 35373, 23450, 12434, 38283, 12367]]],
           El ''Hr'' [(''style'', cps ''styles.divider'')] [],
           El ''Section'' [] [
             El ''Text'' [(''style'', cps ''styles.secondaryText'')] [
               Txt [12371, 12428, 12414, 12391, 12395, 30330, 34892, 12375, 12383, 12522, 12459, 12496, 12522,
                 12540, 12467, 12540, 12489, 12399, 28961, 21177, 12395, 12394, 12426, 12414, 12375, 12383, 12290],
               El ''br'' [] [],
               Txt [20877, 24230, 26377, 21177, 12395, 12377, 12427, 12392, 12289, 26032, 12375, 12356, 35469,
                 35388, 12450, 12503, 12522, 12398, 30331, 37682, 12392, 12522, 12459, 12496, 12522, 12540, 12467,
                 12540, 12489, 12398, 30330, 34892, 12434, 12420, 12426, 30452, 12375, 12414, 12377, 12290]]],
           El ''Hr'' [(''style'', cps ''styles.divider'')] [],
           El ''Text'' [(''style'', cps ''styles.copyrightText'')] [
             Txt [169, 32],
             Txt ((cps (showNat year))),
             Txt (cps '' ''),
             Txt appName]]]]"

definition MfaEnabledEmail :: "nat \<Rightarrow> codePoints \<Rightarrow> codePoints \<Rightarrow> codePoints \<Rightarrow> node" where
  "MfaEnabledEmail year appName securityUrl supportEmail =
     El ''Html'' [(''lang'', cps ''ja'')] [
       El ''Head'' [] [
         El ''style'' [] [
           Txt fontStyle]],
       El ''Preview'' [] [
         Txt [22810, 35201, 32032, 35469, 35388, 32, 40, 77, 70, 65, 41, 32, 12434, 26377, 21177, 12395, 12375,
           12414, 12375, 12383]],
       El ''Body'' [(''style'', cps ''styles.body'')] [
         El ''Container'' [(''style'', cps ''styles.container'')] [
           El ''Section'' [(''style'', cps ''styles.headerSection'')] [
             El ''Heading'' [(''style'', cps ''styles.heading'')] [
               Txt [22810, 35201, 32032, 35469, 35388, 32, 40, 77, 70, 65, 41, 32, 12434, 26377, 21177, 12395,
                 12375, 12414, 12375, 12383]],
             El ''Text'' [(''style'', cps ''styles.introText'')] [
               Txt appName,
               Txt [32, 12398, 12450, 12459, 12454, 12531, 12488, 12391, 22810, 35201, 32032, 35469, 35388, 32, 40,
                 77, 70, 65, 41, 32, 12364, 26377, 21177, 12395, 12394, 12426, 12414, 12375, 12383, 12290],
               El ''br'' [] [],
               Txt [20197, 24460, 12398, 12525, 12464, 12452, 12531, 12391, 12399, 12289, 35469, 35388, 12450,
                 12503, 12522, 12364, 34920, 31034, 12377, 12427, 32, 54, 32, 26689, 12398, 12467, 12540, 12489,
                 12398, 20837, 21147, 12364, 24517, 35201, 12395, 12394, 12426, 12414, 12377, 12290]]],
           El ''Section'' [(''style'', cps ''styles.detailSection'')] [
             El ''Text'' [(''style'', cps ''styles.secondaryText'')] [
               Txt [35469, 35388, 12450, 12503, 12522, 12434, 20351, 12360, 12394, 12367, 12394, 12387, 12383,
                 22580, 21512, 12399, 12289, 26377, 21177, 21270, 26178, 12395, 34920, 31034, 12375, 12383, 12522,
                 12459, 12496, 12522, 12540, 12467, 12540, 12489, 12391, 12525, 12464, 12452, 12531, 12391, 12365,
                 12414, 12377, 12290]]],
           El ''Section'' [(''style'', cps ''styles.buttonSection'')] [
             El ''Button'' [(''href'', securityUrl), (''style'', cps ''styles.button'')] [
               Txt [12475, 12461, 12517, 12522, 12486, 12451, 35373, 23450, 12434, 30906, 35469, 12377, 12427]]],
           El ''Hr'' [(''style'', cps ''styles.divider'')] [],
           El ''Section'' [] [
             El ''Text'' [(''style'', cps ''styles.warningText'')] [
               Txt [12371, 12398, 25805, 20316, 12395, 24515, 24403, 12383, 12426, 12364, 12394, 12356, 22580,
                 21512, 12399, 12289, 31532, 19977, 32773, 12364, 12450, 12459, 12454, 12531, 12488, 12434, 25805,
                 20316, 12375, 12390, 12356, 12427, 21487, 33021, 24615, 12364, 12354, 12426, 12414, 12377, 12290],
               El ''br'' [] [],
               El ''Link'' [(''href'', (cps ''mailto:'' @ supportEmail))] [
                 Txt supportEmail],
               Txt [32, 12414, 12391, 12372, 36899, 32097, 12367, 12384, 12373, 12356, 12290]]],
           El ''Hr'' [(''style'', cps ''styles.divider'')] [],
           El ''Text'' [(''style'', cps ''styles.copyrightText'')] [
             Txt [169, 32],
             Txt ((cps (showNat year))),
             Txt (cps '' ''),
             Txt appName]]]]"

definition WelcomeEmail :: "nat \<Rightarrow> codePoints \<Rightarrow> codePoints \<Rightarrow> codePoints \<Rightarrow> node" where
  "WelcomeEmail year appName userName dashboardUrl =
    (let greeting = (if userName \<noteq> [] then userName @ [32, 12373, 12435] else []) in
     El ''Html'' [(''lang'', cps ''ja'')] [
       El ''Head'' [] [
         El ''style'' [] [
           Txt fontStyle]],
       El ''Preview'' [] [
         Txt appName,
         Txt [32, 12408, 12424, 12358, 12371, 12381, 65281, 12450, 12459, 12454, 12531, 12488, 20316, 25104, 12364,
           23436, 20102, 12375, 12414, 12375, 12383]],
       El ''Body'' [(''style'', cps ''styles.body'')] [
         El ''Container'' [(''style'', cps ''styles.container'')] [
           El ''Section'' [(''style'', cps ''styles.logoSection'')] [
             El ''Img'' [(''src'',
               cps ''https://7iv4djergayei7gf.public.blob.vercel-storage.com/taimei/public/my-service-logo.png''),
               (''width'', cps ''80''), (''height'', cps ''80''), (''alt'', appName), (''style'',
               cps ''styles.logo'')] []],
           El ''Section'' [(''style'', cps ''styles.headerSectionBelowLogo'')] [
             El ''Heading'' [(''style'', cps ''styles.heading'')] [
               Txt [12424, 12358, 12371, 12381, 12289],
               Txt greeting],
             El ''Text'' [(''style'', cps ''styles.introText'')] [
               Txt appName,
               Txt [32, 12408, 12398, 12372, 30331, 37682, 12354, 12426, 12364, 12392, 12358, 12372, 12374, 12356,
                 12414, 12377, 12290],
               El ''br'' [] [],
               Txt [12450, 12459, 12454, 12531, 12488, 12398, 20316, 25104, 12364, 23436, 20102, 12375, 12414,
                 12375, 12383, 12290]]],
           El ''Section'' [(''style'', cps ''styles.buttonSection'')] [
             El ''Button'' [(''href'', dashboardUrl), (''style'', cps ''styles.button'')] [
               Txt [12480, 12483, 12471, 12517, 12508, 12540, 12489, 12408]]],
           El ''Hr'' [(''style'', cps ''styles.divider'')] [],
           El ''Section'' [] [
             El ''Text'' [(''style'', cps ''styles.secondaryText'')] [
               Txt [12372, 19981, 26126, 12394, 28857, 12364, 12372, 12374, 12356, 12414, 12375, 12383, 12425,
                 12289],
               El ''br'' [] [],
               Txt [12362, 27671, 36605, 12395, 12362, 21839, 12356, 21512, 12431, 12379, 12367, 12384, 12373,
                 12356, 12290]]],
           El ''Hr'' [(''style'', cps ''styles.divider'')] [],
           El ''Text'' [(''style'', cps ''styles.copyrightText'')] [
             Txt [169, 32],
             Txt ((cps (showNat year))),
             Txt (cps '' ''),
             Txt appName]]]])"

section \<open>The environment\<close>

type_synonym process_env = "string \<Rightarrow> string option"

text \<open>\<open>process.env[key] || fallback\<close>: an empty value counts as none.\<close>

definition envOr :: "process_env \<Rightarrow> string \<Rightarrow> string \<Rightarrow> string" where
  "envOr env key fallback = (case env key of None \<Rightarrow> fallback | Some v \<Rightarrow> if v = [] then fallback else v)"

definition getWelcomeFromEmail :: "process_env \<Rightarrow> string" where
  "getWelcomeFromEmail env = envOr env ''AUTH_FROM_EMAIL_WELCOME'' ''onboarding@resend.dev''"

definition getMagicLinkFromEmail :: "process_env \<Rightarrow> string" where
  "getMagicLinkFromEmail env = envOr env ''AUTH_FROM_EMAIL_MAGIC_LINK'' ''onboarding@resend.dev''"

definition getInvitationFromEmail :: "process_env \<Rightarrow> string" where
  "getInvitationFromEmail env = envOr env ''AUTH_FROM_EMAIL_INVITATION'' ''onboarding@resend.dev''"

definition getSecurityFromEmail :: "process_env \<Rightarrow> string" where
  "getSecurityFromEmail env = envOr env ''AUTH_FROM_EMAIL_SECURITY'' ''onboarding@resend.dev''"

definition getSupportEmail :: "process_env \<Rightarrow> string" where
  "getSupportEmail env = envOr env ''AUTH_SUPPORT_EMAIL'' ''support@taimei-code.com''"

definition getAbuseInfoUrl :: "process_env \<Rightarrow> string" where
  "getAbuseInfoUrl env = envOr env ''AUTH_ABUSE_INFO_URL'' ''https://taimei-code.com/security''"

definition getAppName :: "process_env \<Rightarrow> string" where
  "getAppName env = envOr env ''APP_NAME'' ''taimei''"

definition getAppUrl :: "process_env \<Rightarrow> string" where
  "getAppUrl env = envOr env ''AUTH_SERVICE_URL'' ''http://localhost:3100''"

section \<open>Sending\<close>

datatype email_kind = KindMagicLink | KindWelcome | KindInvitation | KindMfaEnabled | KindMfaDisabled

record email =
  em_from :: string
  em_to :: string
  em_subject :: codePoints
  em_component :: node
  em_kind :: email_kind

text \<open>
  What one call of \<open>renderAndSendEmail\<close> meets: everything works; the rendering library cannot be loaded or throws;
  Resend throws; it refuses the e-mail; it accepts, but the answer comes after the ten seconds of \<open>withEmailTimeout\<close>.
  The library keeps its client: \<open>resendInstance\<close> is the key of the first call that had one.
\<close>

datatype mail_fault = MailWorks | RenderThrows | ResendThrows | ResendRefuses | ResendLate

record mailbox =
  mx_env :: process_env
  mx_year :: nat
  mx_resendInstance :: "string option"
  mx_outbox :: "(string \<times> email) list"
  mx_calls :: nat
  mx_faults :: "nat \<Rightarrow> mail_fault"

type_synonym ('a, 'y) mail = "('a, mailbox \<times> 'y) eff"

definition mailboxOf :: "(mailbox \<times> 'y) world \<Rightarrow> mailbox" where
  "mailboxOf w = fst (w_auth w)"

definition withMailbox :: "(mailbox \<Rightarrow> 'a exit \<times> mailbox) \<Rightarrow> ('a, 'y) mail" where
  "withMailbox f = (\<lambda>w. case f (mailboxOf w) of (r, m) \<Rightarrow> (r, w\<lparr>w_auth := (m, snd (w_auth w))\<rparr>))"

definition getResendClient :: "mailbox \<Rightarrow> string option \<times> mailbox" where
  "getResendClient m = (case mx_resendInstance m of
     Some k \<Rightarrow> (Some k, m)
   | None \<Rightarrow>
       (case mx_env m ''AUTH_RESEND_KEY'' of
          None \<Rightarrow> (None, m)
        | Some apiKey \<Rightarrow> if apiKey = [] then (None, m) else (Some apiKey, m\<lparr>mx_resendInstance := Some apiKey\<rparr>)))"

definition sendOnce :: "email \<Rightarrow> mailbox \<Rightarrow> unit exit \<times> mailbox" where
  "sendOnce e m0 =
     (let m = m0\<lparr>mx_calls := Suc (mx_calls m0)\<rparr>; fault = mx_faults m0 (mx_calls m0)
      in if fault = RenderThrows then (Inl (Fail EmailError), m)
         else case getResendClient m of
                (None, m1) \<Rightarrow> (Inl (Fail EmailError), m1)
              | (Some apiKey, m1) \<Rightarrow>
                  (case fault of
                     ResendThrows \<Rightarrow> (Inl (Fail EmailError), m1)
                   | ResendRefuses \<Rightarrow> (Inl (Fail EmailError), m1)
                   | ResendLate \<Rightarrow> (Inl (Fail EmailError), m1\<lparr>mx_outbox := mx_outbox m1 @ [(apiKey, e)]\<rparr>)
                   | _ \<Rightarrow> (Inr (), m1\<lparr>mx_outbox := mx_outbox m1 @ [(apiKey, e)]\<rparr>)))"

definition renderAndSendEmail :: "(mailbox \<Rightarrow> email) \<Rightarrow> (unit, 'y) mail" where
  "renderAndSendEmail compose = withMailbox (\<lambda>m. sendOnce (compose m) m)"

definition ROLE_LABELS_JA :: "role \<Rightarrow> codePoints" where
  "ROLE_LABELS_JA r = (case r of
     OWNER \<Rightarrow> [12458, 12540, 12490, 12540]
   | ADMIN \<Rightarrow> [31649, 29702, 32773]
   | MEMBER \<Rightarrow> [12513, 12531, 12496, 12540])"

record invitationEmailParams =
  ip_inviteeEmail :: string
  ip_url :: string
  ip_context :: invitationEmailContext

definition composeInvitation :: "invitationEmailParams \<Rightarrow> mailbox \<Rightarrow> email" where
  "composeInvitation params m =
     (let env = mx_env m; appName = getAppName env; context = ip_context params;
          companyName = cps (ie_companyName context); inviterName = cps (ie_inviterName context)
      in \<lparr>em_from = getInvitationFromEmail env, em_to = ip_inviteeEmail params,
          em_subject = cps ''['' @ cps appName @ cps ''] '' @ inviterName @ [32, 12373, 12435, 12363, 12425, 12300] @
            companyName @ [12301, 12408, 12398, 25307, 24453],
          em_component = InvitationEmail (mx_year m) (cps (ip_url params)) (cps appName) companyName inviterName
            (cps (ie_inviterEmail context)) (cps (ip_inviteeEmail params)) (ROLE_LABELS_JA (ie_roleLabel context))
            (cps (getSupportEmail env)) (cps (getAbuseInfoUrl env)),
          em_kind = KindInvitation\<rparr>)"

definition sendInvitationEmail :: "invitationEmailParams \<Rightarrow> (unit, 'y) mail" where
  "sendInvitationEmail params = renderAndSendEmail (composeInvitation params)"

definition composeMagicLink :: "string \<Rightarrow> string \<Rightarrow> mailbox \<Rightarrow> email" where
  "composeMagicLink email url m =
     (let appName = getAppName (mx_env m)
      in \<lparr>em_from = getMagicLinkFromEmail (mx_env m), em_to = email,
          em_subject = cps appName @ [32, 12408, 12398, 12525, 12464, 12452, 12531, 12522, 12531, 12463],
          em_component = MagicLinkEmail (mx_year m) (cps url) (cps appName), em_kind = KindMagicLink\<rparr>)"

definition sendMagicLinkEmail :: "string \<Rightarrow> string \<Rightarrow> (unit, 'y) mail" where
  "sendMagicLinkEmail email url = renderAndSendEmail (composeMagicLink email url)"

definition composeWelcome :: "string \<Rightarrow> string \<Rightarrow> mailbox \<Rightarrow> email" where
  "composeWelcome email userName m =
     (let appName = getAppName (mx_env m)
      in \<lparr>em_from = getWelcomeFromEmail (mx_env m), em_to = email,
          em_subject = cps appName @ [32, 12408, 12424, 12358, 12371, 12381, 65281],
          em_component = WelcomeEmail (mx_year m) (cps appName) (cps userName) (cps (getAppUrl (mx_env m) @ ''/dashboard'')),
          em_kind = KindWelcome\<rparr>)"

definition sendWelcomeEmail :: "string \<Rightarrow> string \<Rightarrow> (unit, 'y) mail" where
  "sendWelcomeEmail email userName = renderAndSendEmail (composeWelcome email userName)"

definition SECURITY_PAGE_PATH :: string where
  "SECURITY_PAGE_PATH = ''/account/security''"

definition composeMfaNotification ::
    "string \<Rightarrow> codePoints \<Rightarrow> (nat \<Rightarrow> codePoints \<Rightarrow> codePoints \<Rightarrow> codePoints \<Rightarrow> node) \<Rightarrow> email_kind \<Rightarrow> mailbox \<Rightarrow> email" where
  "composeMfaNotification email subject render kind m =
     (let appName = getAppName (mx_env m)
      in \<lparr>em_from = getSecurityFromEmail (mx_env m), em_to = email,
          em_subject = cps ''['' @ cps appName @ cps ''] '' @ subject,
          em_component = render (mx_year m) (cps appName) (cps (getAppUrl (mx_env m) @ SECURITY_PAGE_PATH))
            (cps (getSupportEmail (mx_env m))),
          em_kind = kind\<rparr>)"

definition sendMfaNotification ::
    "string \<Rightarrow> codePoints \<Rightarrow> (nat \<Rightarrow> codePoints \<Rightarrow> codePoints \<Rightarrow> codePoints \<Rightarrow> node) \<Rightarrow> email_kind \<Rightarrow> (unit, 'y) mail" where
  "sendMfaNotification email subject render kind = renderAndSendEmail (composeMfaNotification email subject render kind)"

definition mfaEnabledSubject :: codePoints where
  "mfaEnabledSubject = [22810, 35201, 32032, 35469, 35388, 32, 40, 77, 70, 65, 41, 32, 12434, 26377, 21177, 12395,
     12375, 12414, 12375, 12383]"

definition mfaDisabledSubject :: codePoints where
  "mfaDisabledSubject = [22810, 35201, 32032, 35469, 35388, 32, 40, 77, 70, 65, 41, 32, 12434, 28961, 21177, 12395,
     12375, 12414, 12375, 12383]"

definition sendMfaEnabledEmail :: "string \<Rightarrow> (unit, 'y) mail" where
  "sendMfaEnabledEmail email = sendMfaNotification email mfaEnabledSubject MfaEnabledEmail KindMfaEnabled"

definition sendMfaDisabledEmail :: "string \<Rightarrow> (unit, 'y) mail" where
  "sendMfaDisabledEmail email = sendMfaNotification email mfaDisabledSubject MfaDisabledEmail KindMfaDisabled"

section \<open>The sender\<close>

record 'x emailSender =
  es_sendWelcome :: "string \<Rightarrow> string \<Rightarrow> (unit, 'x) eff"
  es_sendMagicLink :: "string \<Rightarrow> string \<Rightarrow> (unit, 'x) eff"
  es_sendInvitation :: "invitationEmailParams \<Rightarrow> (unit, 'x) eff"
  es_sendMfaEnabled :: "string \<Rightarrow> (unit, 'x) eff"
  es_sendMfaDisabled :: "string \<Rightarrow> (unit, 'x) eff"

definition emailSenderLive :: "(mailbox \<times> 'y) emailSender" where
  "emailSenderLive = \<lparr>es_sendWelcome = sendWelcomeEmail, es_sendMagicLink = sendMagicLinkEmail,
     es_sendInvitation = sendInvitationEmail, es_sendMfaEnabled = sendMfaEnabledEmail,
     es_sendMfaDisabled = sendMfaDisabledEmail\<rparr>"

definition dispatchMagicLink :: "'x emailSender \<Rightarrow> url_parser \<Rightarrow> string \<Rightarrow> string \<Rightarrow> (unit, 'x) eff" where
  "dispatchMagicLink sender parseUrl email url =
     andThen (resolveInvitationEmailContext parseUrl url) (\<lambda>invitationContext.
       case invitationContext of
         Some context \<Rightarrow>
           es_sendInvitation sender \<lparr>ip_inviteeEmail = email, ip_url = url, ip_context = context\<rparr>
       | None \<Rightarrow> es_sendMagicLink sender email url)"

end
