(* ===== verification/EmailProperties.thy ===== *)
theory EmailProperties
  imports Emails Demo
begin

text \<open>
  What the e-mails of a sign-in guarantee: one e-mail at most goes out, to the address that was asked for; its subject
  is a single line without invisible characters whatever names companies and users have; and it links to the sign-in
  address, the support mailbox and the page about abuse only.
\<close>

section \<open>What a subject holds and where a link leads\<close>

definition plainLine :: "codePoints \<Rightarrow> bool" where
  "plainLine t \<longleftrightarrow> list_all (\<lambda>cp. \<not> isInvisibleOrDirectional cp) t"

lemma plainLine_append [simp]: "plainLine (s @ t) \<longleftrightarrow> plainLine s \<and> plainLine t"
  by (simp add: plainLine_def)

lemma plainLine_display: "plainLine (cps (toDisplayText s))"
proof -
  have below: "\<forall>cp \<in> set (toDisplayCodePoints (map of_char s)). cp < (256 :: nat)"
    using set_trimCodePoints unfolding toDisplayCodePoints_def by fastforce
  have "cps (toDisplayText s) = toDisplayCodePoints (map of_char s)"
    unfolding cps_def toDisplayText_def using below by (simp add: map_idI)
  then show ?thesis using toDisplayCodePoints_safe by (simp add: plainLine_def list_all_iff)
qed

lemma plainLine_simps [simp]: "plainLine []" "plainLine (cp # t) \<longleftrightarrow> \<not> isInvisibleOrDirectional cp \<and> plainLine t"
  by (simp_all add: plainLine_def)

lemma invisible_iff: "isInvisibleOrDirectional cp \<longleftrightarrow> cp \<le> 31 \<or> (127 \<le> cp \<and> cp \<le> 159) \<or> (8203 \<le> cp \<and> cp \<le> 8205) \<or>
    cp = 65279 \<or> (8234 \<le> cp \<and> cp \<le> 8238) \<or> (8294 \<le> cp \<and> cp \<le> 8297)"
  unfolding isInvisibleOrDirectional_def SPOOFING_OR_HEADER_INJECTION_CODE_POINTS_def by auto

lemma plainLine_constants [simp]:
  "plainLine (cps ''['')" "plainLine (cps ''] '')"
  "plainLine [32, 12373, 12435, 12363, 12425, 12300]"
  "plainLine [12301, 12408, 12398, 25307, 24453]"
  "plainLine [32, 12408, 12398, 12525, 12464, 12452, 12531, 12522, 12531, 12463]"
  by (simp add: cps_def invisible_iff)+

lemma links_of_invitation:
  "set (attributesOf ''href'' (InvitationEmail y u a c n i v r s b)) = {u, cps ''mailto:'' @ s, b}"
  by (auto simp: InvitationEmail_def)

lemma links_of_magicLink: "set (attributesOf ''href'' (MagicLinkEmail y u a)) = {u}"
  by (auto simp: MagicLinkEmail_def)
lemma links_of_mfa:
  "set (attributesOf ''href'' (MfaEnabledEmail y a u s)) = {u, cps ''mailto:'' @ s}"
  "set (attributesOf ''href'' (MfaDisabledEmail y a u s)) = {u, cps ''mailto:'' @ s}"
  "set (attributesOf ''href'' (WelcomeEmail y a n d)) = {d}"
  by (auto simp: MfaEnabledEmail_def MfaDisabledEmail_def WelcomeEmail_def Let_def)

lemma resolve_context_plain:
  "resolveInvitationEmailContext parseUrl url w = (Inr (Some c), w') \<Longrightarrow>
    plainLine (cps (ie_companyName c)) \<and> plainLine (cps (ie_inviterName c)) \<and> plainLine (cps (ie_inviterEmail c))"
  by (auto simp: resolveInvitationEmailContext_def andThen_runs succeed_runs plainLine_display split: option.splits if_splits)


lemma resolve_keeps:
  "keeps w_db (resolveInvitationEmailContext parseUrl url)" "keeps w_auth (resolveInvitationEmailContext parseUrl url)"
proof -
  have auth: "keeps w_auth (tryDb (select q))" for q :: "database \<Rightarrow> 'q"
    by (auto simp: keeps_def tryDb_def select_def Let_def split: fault.splits)
  show "keeps w_db (resolveInvitationEmailContext parseUrl url)"
    unfolding resolveInvitationEmailContext_def by (intro keeps_intros)
  show "keeps w_auth (resolveInvitationEmailContext parseUrl url)"
    unfolding resolveInvitationEmailContext_def findInvitationByToken_def findCompanyById_def findUserById_def
    by (intro keeps_intros auth)
qed

definition outboxGrows :: "(email \<Rightarrow> bool) \<Rightarrow> unit exit \<Rightarrow> mailbox \<Rightarrow> mailbox \<Rightarrow> bool" where
  "outboxGrows P r m m' \<longleftrightarrow> mx_env m' = mx_env m \<and>
     ((mx_outbox m' = mx_outbox m \<and> r \<noteq> Inr ()) \<or> (\<exists>k e. mx_outbox m' = mx_outbox m @ [(k, e)] \<and> P e))"

lemma getResendClient_keeps:
  "getResendClient m = (k, m') \<Longrightarrow> mx_env m' = mx_env m \<and> mx_outbox m' = mx_outbox m \<and> mx_year m' = mx_year m"
  by (auto simp: getResendClient_def split: option.splits if_splits)

lemma sendOnce_outbox: "sendOnce e m = (r, m') \<Longrightarrow> P e \<Longrightarrow> outboxGrows P r m m'"
  by (auto simp: sendOnce_def outboxGrows_def Let_def split: prod.splits option.splits mail_fault.splits if_splits
      dest!: getResendClient_keeps)

lemma renderAndSend_outbox:
  assumes "renderAndSendEmail compose w = (r, w')" "P (compose (mailboxOf w))"
  shows "w_db w' = w_db w \<and> outboxGrows P r (mailboxOf w) (mailboxOf w')"
  using assms sendOnce_outbox[of "compose (mailboxOf w)" "mailboxOf w"]
  by (auto simp: renderAndSendEmail_def withMailbox_def mailboxOf_def split: prod.splits)

definition safeSignInMail :: "process_env \<Rightarrow> string \<Rightarrow> string \<Rightarrow> email \<Rightarrow> bool" where
  "safeSignInMail env email url e \<longleftrightarrow> em_to e = email \<and> plainLine (em_subject e) \<and>
     set (attributesOf ''href'' (em_component e)) \<subseteq>
       {cps url, cps ''mailto:'' @ cps (getSupportEmail env), cps (getAbuseInfoUrl env)}"

lemma composed_safe:
  assumes "plainLine (cps (getAppName (mx_env m)))"
  shows "safeSignInMail (mx_env m) email url (composeMagicLink email url m)"
    "plainLine (cps (ie_companyName c)) \<Longrightarrow> plainLine (cps (ie_inviterName c)) \<Longrightarrow> 
     safeSignInMail (mx_env m) email url (composeInvitation \<lparr>ip_inviteeEmail = email, ip_url = url, ip_context = c\<rparr> m)"
  using assms by (auto simp: safeSignInMail_def composeMagicLink_def composeInvitation_def Let_def links_of_magicLink links_of_invitation
      invisible_iff)

section \<open>The sign-in e-mail\<close>

text \<open>
  C32: Dispatching a sign-in link sends at most one e-mail, and exactly one when it succeeds, to the address given and
  without touching the database. Its subject has no control, zero-width or direction characters, whatever the invited
  company and the inviter are called, and every link in it is the sign-in link, the support address or the abuse page.
\<close>

theorem sign_in_mail_is_safe:
  assumes "dispatchMagicLink emailSenderLive parseUrl email url (w :: (mailbox \<times> 'y) world) = (r, w')"
    and "plainLine (cps (getAppName (mx_env (mailboxOf w))))"
  shows "w_db w' = w_db w \<and> outboxGrows (safeSignInMail (mx_env (mailboxOf w)) email url) r (mailboxOf w) (mailboxOf w')"
proof -
  obtain q w1 where q: "resolveInvitationEmailContext parseUrl url w = (q, w1)" by fastforce
  then have same: "w_db w1 = w_db w" "mailboxOf w1 = mailboxOf w"
    using resolve_keeps[THEN keepsD, OF q] by (auto simp: mailboxOf_def)
  show ?thesis
  proof (cases q)
    case (Inl x)
    with assms(1) q same show ?thesis by (auto simp: dispatchMagicLink_def andThen_def outboxGrows_def)
  next
    case (Inr ctx)
    with assms(1) q have run: "(case ctx of Some c \<Rightarrow>
        sendInvitationEmail \<lparr>ip_inviteeEmail = email, ip_url = url, ip_context = c\<rparr>
      | None \<Rightarrow> sendMagicLinkEmail email url) w1 = (r, w')"
      by (auto simp: dispatchMagicLink_def andThen_def emailSenderLive_def split: option.splits)
    show ?thesis
    proof (cases ctx)
      case None
      with run have "renderAndSendEmail (composeMagicLink email url) w1 = (r, w')" by (simp add: sendMagicLinkEmail_def)
      from renderAndSend_outbox[OF this] composed_safe(1)[OF assms(2)] same show ?thesis by simp
    next
      case (Some c)
      with q Inr have "plainLine (cps (ie_companyName c))" "plainLine (cps (ie_inviterName c))"
        using resolve_context_plain by blast+
      note safe = composed_safe(2)[OF assms(2) this]
      from Some run have "renderAndSendEmail
          (composeInvitation \<lparr>ip_inviteeEmail = email, ip_url = url, ip_context = c\<rparr>) w1 = (r, w')"
        by (simp add: sendInvitationEmail_def)
      from renderAndSend_outbox[OF this] safe same show ?thesis by simp
    qed
  qed
qed

definition mailEnv :: process_env where
  "mailEnv = map_of [(''AUTH_RESEND_KEY'', ''key''), (''APP_NAME'', ''taimei'')]"

definition mailWorld :: "(mailbox \<times> unit) world" where
  "mailWorld = \<lparr>w_db = demoDb, w_kv = [],
     w_auth = (\<lparr>mx_env = mailEnv, mx_year = 2026, mx_resendInstance = None, mx_outbox = [], mx_calls = 0,
       mx_faults = (\<lambda>_. MailWorks)\<rparr>, ()),
     w_clock = 1000, w_drawn = 0, w_uuid = showNat, w_nanoid = (\<lambda>n k. showNat n), w_bytes = (\<lambda>n k. []),
     w_dbCalls = 0, w_dbFaults = (\<lambda>_. NoFault), w_kvCalls = 0, w_kvFaults = (\<lambda>_. NoFault),
     w_hooks = [], w_locks = [], w_background = [], w_sentry = []\<rparr>"

definition invitationUrl :: url_parser where
  "invitationUrl s = Some \<lparr>ur_protocol = ''https:'', ur_username = [], ur_password = [], ur_hostname = ''a.jp'',
     ur_origin = ''https://a.jp'', ur_pathname = ''/'', ur_search = [], ur_hash = [],
     ur_searchParams = [(''callbackURL'', ''/accept''), (''invitation_token'', ''i1-token'')]\<rparr>"

definition mailedWorld :: "(mailbox \<times> unit) world" where
  "mailedWorld = snd (dispatchMagicLink emailSenderLive invitationUrl ''dan@x.jp'' ''https://a.jp/v'' mailWorld)"

definition dansInvitation :: invitationEmailParams where
  "dansInvitation = \<lparr>ip_inviteeEmail = ''dan@x.jp'', ip_url = ''https://a.jp/v'', ip_context = \<lparr>ie_companyName = ''Acme'',
     ie_inviterName = ''ann'', ie_inviterEmail = ''ann@x.jp'', ie_roleLabel = MEMBER\<rparr>\<rparr>"

lemma toDisplayText_plain: "toDisplayCodePoints (map of_char s) = map of_char s \<Longrightarrow> toDisplayText s = s"
  by (simp add: toDisplayText_def map_idI)

lemma demoNames: "toDisplayText ''Acme'' = ''Acme''" "toDisplayText ''ann'' = ''ann''" "toDisplayText ''ann@x.jp'' = ''ann@x.jp''"
  by (rule toDisplayText_plain, simp add: toDisplayCodePoints_def trimCodePoints_def isTrimmed_def invisible_iff)+

lemma resolvesToInvitation:
  "fst (resolveInvitationEmailContext invitationUrl ''https://a.jp/v'' mailWorld) = Inr (Some (ip_context dansInvitation))"
  by (simp add: resolveInvitationEmailContext_def extractInvitationToken_def invitationUrl_def mailWorld_def andThen_def
      findInvitationByToken_def findCompanyById_def findUserById_def tryDb_def select_def demoDb_def demoInvitation_def
      demoCompany_def newCompany_def demoUser_def succeed_def demoNames dansInvitation_def Let_def)

lemma dispatched:
  "dispatchMagicLink emailSenderLive invitationUrl ''dan@x.jp'' ''https://a.jp/v'' mailWorld = (Inr (), mailedWorld)"
  "mx_outbox (mailboxOf mailedWorld) = [(''key'', composeInvitation dansInvitation (fst (w_auth mailWorld)))]"
proof -
  obtain w1 where r: "resolveInvitationEmailContext invitationUrl ''https://a.jp/v'' mailWorld =
      (Inr (Some (ip_context dansInvitation)), w1)"
    using runs_to[OF resolvesToInvitation] by blast
  then have same: "w_auth w1 = w_auth mailWorld" using resolve_keeps(2)[THEN keepsD] by blast
  have send: "sendOnce e (fst (w_auth mailWorld)) = (Inr (), (fst (w_auth mailWorld))\<lparr>mx_calls := 1,
      mx_resendInstance := Some ''key'', mx_outbox := [(''key'', e)]\<rparr>)" for e
    by (simp add: sendOnce_def getResendClient_def mailWorld_def mailEnv_def)
  have run: "dispatchMagicLink emailSenderLive invitationUrl ''dan@x.jp'' ''https://a.jp/v'' mailWorld =
      sendInvitationEmail dansInvitation w1"
    using r by (simp add: dispatchMagicLink_def andThen_def emailSenderLive_def dansInvitation_def)
  show "dispatchMagicLink emailSenderLive invitationUrl ''dan@x.jp'' ''https://a.jp/v'' mailWorld = (Inr (), mailedWorld)"
    "mx_outbox (mailboxOf mailedWorld) = [(''key'', composeInvitation dansInvitation (fst (w_auth mailWorld)))]"
    unfolding mailedWorld_def run
    by (simp_all add: sendInvitationEmail_def renderAndSendEmail_def withMailbox_def mailboxOf_def same send)
qed

theorem sign_in_mail_is_safe_witness:
  "outboxGrows (safeSignInMail mailEnv ''dan@x.jp'' ''https://a.jp/v'') (Inr ()) (mailboxOf mailWorld) (mailboxOf mailedWorld) \<and>
   map (\<lambda>(k, e). em_kind e) (mx_outbox (mailboxOf mailedWorld)) = [KindInvitation]"
proof
  have "mx_env (mailboxOf mailWorld) = mailEnv" by (simp add: mailWorld_def mailboxOf_def)
  moreover have "plainLine (cps (getAppName mailEnv))"
    by (simp add: getAppName_def envOr_def mailEnv_def cps_def invisible_iff)
  ultimately show "outboxGrows (safeSignInMail mailEnv ''dan@x.jp'' ''https://a.jp/v'') (Inr ()) (mailboxOf mailWorld) (mailboxOf mailedWorld)"
    using sign_in_mail_is_safe[OF dispatched(1)] by metis
  show "map (\<lambda>(k, e). em_kind e) (mx_outbox (mailboxOf mailedWorld)) = [KindInvitation]"
    by (simp add: dispatched composeInvitation_def Let_def)
qed

end
