(* ===== verification/Reports.thy ===== *)
theory Reports
  imports Emails RequestContext
begin

text \<open>
  \<open>src/sentry.ts\<close>, \<open>sentry-options.ts\<close> and \<open>sentry-cloudflare.ts\<close>: what is reported, and what a report about a request
  keeps of the request. Sentry calls \<open>beforeSend\<close> on every event it sends. Parsing a URL and writing it are the
  platform's: the parameters \<open>parseUrl\<close> and \<open>toHref\<close>.
\<close>

section \<open>Events\<close>

record sentryEventRequest =
  se_method :: "string option"
  se_url :: "string option"
  se_headers :: "(string \<times> string) list option"
  se_data :: "string option"
  se_cookies :: "string option"
  se_queryString :: "string option"

record sentryEvent =
  sv_message :: "string option"
  sv_request :: "sentryEventRequest option"

definition FORWARDED_REQUEST_HEADERS :: "string list" where
  "FORWARDED_REQUEST_HEADERS = [''accept'', ''content-length'', ''content-type'', ''user-agent'']"

definition urlWithoutQuery :: "url_parser \<Rightarrow> (url \<Rightarrow> string) \<Rightarrow> string \<Rightarrow> string" where
  "urlWithoutQuery parseUrl toHref url = (case parseUrl url of
     None \<Rightarrow> ''[unparsable url]''
   | Some parsed \<Rightarrow> toHref (parsed\<lparr>ur_search := [], ur_searchParams := [], ur_hash := []\<rparr>))"

definition withoutRequestSecrets :: "url_parser \<Rightarrow> (url \<Rightarrow> string) \<Rightarrow> sentryEvent \<Rightarrow> sentryEvent" where
  "withoutRequestSecrets parseUrl toHref event = (case sv_request event of
     None \<Rightarrow> event
   | Some request \<Rightarrow> event\<lparr>sv_request := Some
       \<lparr>se_method = se_method request,
        se_url = map_option (urlWithoutQuery parseUrl toHref) (se_url request),
        se_headers = Some (filter (\<lambda>(name, _). toLowerCase name \<in> set FORWARDED_REQUEST_HEADERS)
          (case se_headers request of None \<Rightarrow> [] | Some h \<Rightarrow> h)),
        se_data = None, se_cookies = None, se_queryString = None\<rparr>\<rparr>)"

section \<open>Options\<close>

record sentryOptionsRecord =
  so_sendDefaultPii :: bool
  so_beforeSend :: "sentryEvent \<Rightarrow> sentryEvent"
  so_beforeSendTransaction :: "sentryEvent \<Rightarrow> sentryEvent"
  so_dsn :: "string option"
  so_environment :: string
  so_tracesSamplePercent :: nat

text \<open>\<open>env\<close> is the environment of the worker, with the values that are strings; \<open>processEnv\<close> is \<open>process.env\<close>.\<close>

definition sentryOptions ::
    "url_parser \<Rightarrow> (url \<Rightarrow> string) \<Rightarrow> process_env \<Rightarrow> process_env \<Rightarrow> sentryOptionsRecord" where
  "sentryOptions parseUrl toHref processEnv env =
     \<lparr>so_sendDefaultPii = False,
      so_beforeSend = withoutRequestSecrets parseUrl toHref,
      so_beforeSendTransaction = withoutRequestSecrets parseUrl toHref,
      so_dsn = (case env ''SENTRY_DSN'' of Some dsn \<Rightarrow> Some dsn | None \<Rightarrow> processEnv ''SENTRY_DSN''),
      so_environment = (case env ''APP_ENV'' of Some e \<Rightarrow> e | None \<Rightarrow> ''production''),
      so_tracesSamplePercent = 10\<rparr>"

section \<open>The backend\<close>

datatype sentryBackend = ConsoleSentryBackend | CloudflareSentryBackend

definition initCloudflareSentry :: "string option \<Rightarrow> sentryBackend \<Rightarrow> sentryBackend" where
  "initCloudflareSentry dsn backend = (case dsn of
     None \<Rightarrow> backend
   | Some d \<Rightarrow> if d = [] then backend else CloudflareSentryBackend)"

text \<open>
  \<open>bestEffort\<close>: a backend that throws does not disturb the program. \<open>send\<close> answers \<open>False\<close> when it throws; what was
  thrown goes to the console.
\<close>

definition bestEffort :: "('s \<Rightarrow> bool \<times> 's) \<Rightarrow> ('s \<Rightarrow> 's) \<Rightarrow> 's \<Rightarrow> unit exit \<times> 's" where
  "bestEffort send logToConsole s = (case send s of
     (True, s') \<Rightarrow> (Inr (), s')
   | (False, s') \<Rightarrow> (Inr (), logToConsole s'))"

end
