(* ===== verification/Boot.thy ===== *)
theory Boot
  imports Reports Cookies Links
begin

text \<open>
  How the service starts in a Cloudflare worker: \<open>src/worker.ts\<close>, \<open>secret-bindings.ts\<close>, \<open>once-until-succeeded.ts\<close>,
  \<open>boot.ts\<close>, \<open>runtime.ts\<close>, \<open>auth.ts\<close>, and \<open>withWaitUntil\<close> of \<open>background.ts\<close>. The objects the platform makes (the
  namespace of Durable Objects, the pool, the Hono app) are names; what better-auth is configured with is a record.
\<close>

section \<open>Once until it succeeded\<close>

text \<open>
  \<open>onceUntilSucceeded\<close>: callers share the attempt that is running; an attempt that fails is forgotten, one that
  succeeds is kept for ever. \<open>run\<close> is what an attempt does to the state it shares with the rest of the worker, and
  whether it succeeded. A caller waits for the attempt it was given.
\<close>

datatype attempt = NoAttempt | Running | Succeeded

record 's once =
  on_attempt :: attempt
  on_shared :: 's
  on_waiting :: nat
  on_passed :: nat
  on_rejected :: nat
  on_started :: nat

definition onceCall :: "'s once \<Rightarrow> 's once" where
  "onceCall o' = (case on_attempt o' of
     NoAttempt \<Rightarrow> o'\<lparr>on_attempt := Running, on_waiting := Suc (on_waiting o'), on_started := Suc (on_started o')\<rparr>
   | Running \<Rightarrow> o'\<lparr>on_waiting := Suc (on_waiting o')\<rparr>
   | Succeeded \<Rightarrow> o'\<lparr>on_passed := Suc (on_passed o')\<rparr>)"

definition onceSettle :: "('s \<Rightarrow> bool \<times> 's) \<Rightarrow> 's once \<Rightarrow> 's once" where
  "onceSettle run o' = (case run (on_shared o') of
     (True, s) \<Rightarrow> o'\<lparr>on_attempt := Succeeded, on_shared := s, on_passed := on_passed o' + on_waiting o', on_waiting := 0\<rparr>
   | (False, s) \<Rightarrow> o'\<lparr>on_attempt := NoAttempt, on_shared := s, on_rejected := on_rejected o' + on_waiting o', on_waiting := 0\<rparr>)"

inductive once_step :: "('s \<Rightarrow> bool \<times> 's) \<Rightarrow> ('s \<Rightarrow> 's \<Rightarrow> bool) \<Rightarrow> 's once \<Rightarrow> 's once \<Rightarrow> bool" for run rely where
  calls: "once_step run rely o' (onceCall o')"
| settles: "on_attempt o' = Running \<Longrightarrow> once_step run rely o' (onceSettle run o')"
| elsewhere: "rely (on_shared o') s \<Longrightarrow> once_step run rely o' (o'\<lparr>on_shared := s\<rparr>)"

definition onceUntilSucceeded :: "'s \<Rightarrow> 's once" where
  "onceUntilSucceeded s = \<lparr>on_attempt = NoAttempt, on_shared = s, on_waiting = 0, on_passed = 0, on_rejected = 0,
     on_started = 0\<rparr>"

inductive once_reachable :: "('s \<Rightarrow> bool \<times> 's) \<Rightarrow> ('s \<Rightarrow> 's \<Rightarrow> bool) \<Rightarrow> 's once \<Rightarrow> bool" for run rely where
  opened: "once_reachable run rely (onceUntilSucceeded s)"
| stepped: "once_reachable run rely o' \<Longrightarrow> once_step run rely o' q \<Longrightarrow> once_reachable run rely q"

text \<open>
  What callers rely on: once a caller has passed, \<open>run\<close> has established \<open>good\<close> and nothing else undoes it. While an
  attempt is running every caller waits for it, and without one nobody waits.
\<close>

locale once_guard =
  fixes run :: "'s \<Rightarrow> bool \<times> 's" and rely :: "'s \<Rightarrow> 's \<Rightarrow> bool" and good :: "'s \<Rightarrow> bool"
  assumes establishes: "run s = (True, s') \<Longrightarrow> good s'"
    and undisturbed: "rely s s' \<Longrightarrow> good s \<Longrightarrow> good s'"
begin

definition guarded :: "'s once \<Rightarrow> bool" where
  "guarded o' \<longleftrightarrow> (on_attempt o' = Succeeded \<longrightarrow> good (on_shared o')) \<and> (0 < on_passed o' \<longrightarrow> on_attempt o' = Succeeded) \<and>
     (0 < on_waiting o' \<longleftrightarrow> on_attempt o' = Running)"

lemma guarded_step: "once_step run rely o' q \<Longrightarrow> guarded o' \<Longrightarrow> guarded q"
proof (induction rule: once_step.induct)
  case (calls o')
  then show ?case by (auto simp: guarded_def onceCall_def split: attempt.splits)
next
  case (settles o')
  then show ?case by (auto simp: guarded_def onceSettle_def establishes split: prod.splits bool.splits)
next
  case (elsewhere o' s)
  then show ?case using undisturbed by (auto simp: guarded_def)
qed

lemma always_guarded: "once_reachable run rely o' \<Longrightarrow> guarded o'"
proof (induction rule: once_reachable.induct)
  case (opened s)
  then show ?case by (simp add: guarded_def onceUntilSucceeded_def)
next
  case (stepped o' q)
  then show ?case using guarded_step by blast
qed

lemma passes_only_when_good: "once_reachable run rely o' \<Longrightarrow> 0 < on_passed o' \<Longrightarrow> good (on_shared o')"
  using always_guarded unfolding guarded_def by blast

lemma runs_again_after_failure:
  "once_reachable run rely o' \<Longrightarrow> on_attempt o' = NoAttempt \<Longrightarrow>
    on_waiting o' = 0 \<and> on_started (onceCall o') = Suc (on_started o')"
  using always_guarded[of o'] by (auto simp: guarded_def onceCall_def)

end

section \<open>Secrets\<close>

definition SECRET_BINDING_NAMES :: "string list" where
  "SECRET_BINDING_NAMES = [''AUTH_SECRET'', ''AUTH_SERVICE_KEY'', ''AUTH_RESEND_KEY'', ''MFA_TOTP_ENCRYPTION_KEYS'',
     ''AUTH_GITHUB_ID'', ''AUTH_GITHUB_SECRET'', ''BLOB_READ_WRITE_TOKEN'', ''SENTRY_DSN'']"

text \<open>A binding of the worker: a text, a secret of the Secrets Store (whose \<open>get\<close> may reject), or anything else.\<close>

datatype binding = TextBinding string | SecretsStoreSecret "string option" | OtherBinding

type_synonym worker_env = "string \<Rightarrow> binding"

fun resolveSecretBindingsFrom :: "string list \<Rightarrow> worker_env \<Rightarrow> process_env \<Rightarrow> bool \<times> process_env" where
  "resolveSecretBindingsFrom [] env p = (True, p)"
| "resolveSecretBindingsFrom (name # names) env p = (case env name of
     TextBinding v \<Rightarrow> resolveSecretBindingsFrom names env (p(name := Some v))
   | SecretsStoreSecret (Some v) \<Rightarrow> resolveSecretBindingsFrom names env (p(name := Some v))
   | SecretsStoreSecret None \<Rightarrow> (False, p)
   | OtherBinding \<Rightarrow> resolveSecretBindingsFrom names env p)"

definition resolveSecretBindings :: "worker_env \<Rightarrow> process_env \<Rightarrow> bool \<times> process_env" where
  "resolveSecretBindings env p = resolveSecretBindingsFrom SECRET_BINDING_NAMES env p"

definition copyEnvToProcess :: "worker_env \<Rightarrow> string \<Rightarrow> process_env \<Rightarrow> process_env" where
  "copyEnvToProcess env versionId p =
     (\<lambda>k. case env k of TextBinding v \<Rightarrow> Some v | _ \<Rightarrow> p k)(''CF_VERSION_ID'' := Some versionId)"

text \<open>The value a bound secret has.\<close>

definition boundSecret :: "worker_env \<Rightarrow> string \<Rightarrow> string option" where
  "boundSecret env name = (case env name of
     TextBinding v \<Rightarrow> Some v | SecretsStoreSecret v \<Rightarrow> v | OtherBinding \<Rightarrow> None)"

definition secretsResolved :: "worker_env \<Rightarrow> process_env \<Rightarrow> bool" where
  "secretsResolved env p \<longleftrightarrow> (\<forall>name \<in> set SECRET_BINDING_NAMES. env name \<noteq> OtherBinding \<longrightarrow>
     boundSecret env name \<noteq> None \<and> p name = boundSecret env name)"

lemma resolveSecretBindingsFrom_other:
  "resolveSecretBindingsFrom names env p = (True, p') \<Longrightarrow> n \<notin> set names \<Longrightarrow> p' n = p n"
  by (induction names env p rule: resolveSecretBindingsFrom.induct) (auto split: binding.splits option.splits)

lemma resolveSecretBindingsFrom_resolves:
  "resolveSecretBindingsFrom names env p = (True, p') \<Longrightarrow> distinct names \<Longrightarrow> n \<in> set names \<Longrightarrow> env n \<noteq> OtherBinding \<Longrightarrow>
    boundSecret env n \<noteq> None \<and> p' n = boundSecret env n"
proof (induction names arbitrary: p)
  case (Cons m names)
  then obtain q where q: "resolveSecretBindingsFrom names env q = (True, p')"
    and m: "env m \<noteq> OtherBinding \<Longrightarrow> boundSecret env m \<noteq> None \<and> q m = boundSecret env m"
    by (auto simp: boundSecret_def split: binding.splits option.splits)
  show ?case
  proof (cases "n = m")
    case True
    with Cons.prems m resolveSecretBindingsFrom_other[OF q] show ?thesis by simp
  next
    case False
    with Cons.prems Cons.IH[OF q] show ?thesis by simp
  qed
qed simp

text \<open>After the secrets were resolved only the texts of the environment are copied to \<open>process.env\<close>.\<close>

definition copiesEnv :: "worker_env \<Rightarrow> process_env \<Rightarrow> process_env \<Rightarrow> bool" where
  "copiesEnv env p p' \<longleftrightarrow> (\<exists>versionId. p' = copyEnvToProcess env versionId p)"

interpretation secrets: once_guard "resolveSecretBindings env" "copiesEnv env" "secretsResolved env" for env
proof
  fix p p' assume "resolveSecretBindings env p = (True, p')"
  moreover have "distinct SECRET_BINDING_NAMES" by (simp add: SECRET_BINDING_NAMES_def)
  ultimately show "secretsResolved env p'"
    using resolveSecretBindingsFrom_resolves[of SECRET_BINDING_NAMES env p p']
    unfolding resolveSecretBindings_def secretsResolved_def by blast
next
  fix p p' assume "copiesEnv env p p'" "secretsResolved env p"
  moreover have "''CF_VERSION_ID'' \<notin> set SECRET_BINDING_NAMES" by (simp add: SECRET_BINDING_NAMES_def)
  ultimately show "secretsResolved env p'"
    by (auto simp: copiesEnv_def copyEnvToProcess_def secretsResolved_def boundSecret_def split: binding.splits)
qed

section \<open>The configuration of better-auth\<close>

record additionalField =
  af_name :: string
  af_type :: string
  af_required :: bool
  af_defaultValue :: "int option"
  af_input :: bool

record betterAuthConfig =
  bc_baseURL :: "string option"
  bc_secret :: string
  bc_appName :: string
  bc_useSecureCookies :: bool
  bc_crossSubDomainCookies :: crossSubDomainCookies
  bc_ipAddressHeaders :: "string list"
  bc_rateLimitEnabled :: bool
  bc_trustedOrigins :: "string list"
  bc_userFields :: "additionalField list"
  bc_emailAndPassword :: bool
  bc_github :: "(string \<times> string) option"
  bc_magicLinkExpiresIn :: int
  bc_magicLinkStoreToken :: string
  bc_plugins :: "string list"
  bc_cookieCache :: bool
  bc_freshAge :: int
  bc_accountLinking :: bool
  bc_trustedProviders :: "string list"

text \<open>The texts of \<open>process.env\<close> that count as set.\<close>

definition githubProvider :: "process_env \<Rightarrow> (string \<times> string) option" where
  "githubProvider p = (case (nonEmpty (p ''AUTH_GITHUB_ID''), nonEmpty (p ''AUTH_GITHUB_SECRET'')) of
     (Some i, Some s) \<Rightarrow> Some (i, s)
   | _ \<Rightarrow> None)"

definition buildAuth :: "process_env \<Rightarrow> secret_error + betterAuthConfig" where
  "buildAuth p = (case requireAuthSecret (p ''AUTH_SECRET'') of
     Inl e \<Rightarrow> Inl e
   | Inr secret \<Rightarrow> Inr
       \<lparr>bc_baseURL = p ''AUTH_SERVICE_URL'', bc_secret = secret, bc_appName = getAppName p,
        bc_useSecureCookies = True,
        bc_crossSubDomainCookies = resolveCrossSubDomainCookies (p ''AUTH_COOKIE_DOMAIN''),
        bc_ipAddressHeaders = [CLIENT_IP_HEADER], bc_rateLimitEnabled = False,
        bc_trustedOrigins = getTrustedOrigins (p ''AUTH_TRUSTED_ORIGINS''),
        bc_userFields =
          [\<lparr>af_name = ''revision'', af_type = ''number'', af_required = True, af_defaultValue = Some 0, af_input = False\<rparr>,
           \<lparr>af_name = ''lastUsedCompanyId'', af_type = ''string'', af_required = False, af_defaultValue = None, af_input = False\<rparr>],
        bc_emailAndPassword = False, bc_github = githubProvider p,
        bc_magicLinkExpiresIn = MAGIC_LINK_EXPIRES_IN_SECONDS, bc_magicLinkStoreToken = ''hashed'',
        bc_plugins = [''magicLink'', ''primaryAuth'', ''revokeOnlySessionTokens''],
        bc_cookieCache = False, bc_freshAge = 0, bc_accountLinking = True, bc_trustedProviders = []\<rparr>)"

text \<open>\<open>onAPIError\<close>: the status of an \<open>APIError\<close>, \<open>None\<close> for any other error. The answer is whether it is reported.\<close>

definition reportsApiError :: "nat option \<Rightarrow> bool" where
  "reportsApiError status \<longleftrightarrow> \<not> (\<exists>s. status = Some s \<and> s < 500)"

section \<open>Starting\<close>

text \<open>
  The module variables: \<open>process.env\<close>, the backend of Sentry, \<open>runtimeTtlStore\<close> and \<open>runtime\<close>, \<open>auth\<close>, and those of the
  closure of \<open>bootstrapOnce\<close>. A TTL store is the number it was made under; \<open>wk_made\<close> counts them.
\<close>

record worker =
  wk_env :: process_env
  wk_sentry :: sentryBackend
  wk_runtimeTtlStore :: "nat option"
  wk_runtime :: "nat option"
  wk_auth :: "betterAuthConfig option"
  wk_ttlStore :: "nat option"
  wk_bootstrapped :: bool
  wk_made :: nat

datatype boot_error = OtherTtlStore | AuthSecretRejected secret_error

definition initRuntime :: "nat \<Rightarrow> worker \<Rightarrow> (boot_error + nat) \<times> worker" where
  "initRuntime ttlStore k =
     (if wk_runtimeTtlStore k \<noteq> None \<and> wk_runtimeTtlStore k \<noteq> Some ttlStore then (Inl OtherTtlStore, k)
      else let runtime = (case wk_runtime k of Some r \<Rightarrow> r | None \<Rightarrow> ttlStore)
           in (Inr runtime, k\<lparr>wk_runtimeTtlStore := Some ttlStore, wk_runtime := Some runtime\<rparr>))"

definition initAuth :: "worker \<Rightarrow> (boot_error + unit) \<times> worker" where
  "initAuth k = (case wk_auth k of
     Some c \<Rightarrow> (Inr (), k)
   | None \<Rightarrow>
       (case buildAuth (wk_env k) of
          Inl e \<Rightarrow> (Inl (AuthSecretRejected e), k)
        | Inr c \<Rightarrow> (Inr (), k\<lparr>wk_auth := Some c\<rparr>)))"

definition boot :: "nat \<Rightarrow> worker \<Rightarrow> (boot_error + nat) \<times> worker" where
  "boot ttlStore k = (case initRuntime ttlStore k of
     (Inl e, k1) \<Rightarrow> (Inl e, k1)
   | (Inr runtime, k1) \<Rightarrow>
       (case initAuth k1 of
          (Inl e, k2) \<Rightarrow> (Inl e, k2)
        | (Inr _, k2) \<Rightarrow> (Inr runtime, k2)))"

definition bootInMemory :: "worker \<Rightarrow> (boot_error + nat) \<times> worker" where
  "bootInMemory k = boot (wk_made k) (k\<lparr>wk_made := Suc (wk_made k)\<rparr>)"

definition prepareBoot :: "worker_env \<Rightarrow> string \<Rightarrow> worker \<Rightarrow> worker" where
  "prepareBoot env versionId k =
     (let p = copyEnvToProcess env versionId (wk_env k);
          k1 = k\<lparr>wk_env := p, wk_sentry := initCloudflareSentry (p ''SENTRY_DSN'') (wk_sentry k)\<rparr>
      in case wk_ttlStore k of
           Some s \<Rightarrow> k1
         | None \<Rightarrow> k1\<lparr>wk_ttlStore := Some (wk_made k), wk_made := Suc (wk_made k)\<rparr>)"

definition bootstrap :: "worker_env \<Rightarrow> string \<Rightarrow> worker \<Rightarrow> (boot_error + unit) \<times> worker" where
  "bootstrap env versionId k =
     (if wk_bootstrapped k then (Inr (), k)
      else let k1 = prepareBoot env versionId k
           in case boot (the (wk_ttlStore k1)) k1 of
                (Inl e, k2) \<Rightarrow> (Inl e, k2)
              | (Inr _, k2) \<Rightarrow> (Inr (), k2\<lparr>wk_bootstrapped := True\<rparr>))"

section \<open>A request\<close>

definition VITE_BASE :: string where
  "VITE_BASE = ''/auth''"

text \<open>The path of the asset a request that no route takes is answered with.\<close>

definition assetPath :: "string \<Rightarrow> string" where
  "assetPath pathname =
     (if startsWith pathname (VITE_BASE @ ''/'')
      then (let rest = drop (length VITE_BASE) pathname in if rest = [] then ''/'' else rest)
      else pathname)"

text \<open>
  What a request does with the platform, in order: it opens a pool, asks the app with the header of the client's
  address, and has the pool closed once the promises it left in the background have settled.
\<close>

datatype worker_event = PoolOpened | AppAsked headers | PoolClosesAfter "string list"

datatype worker_answer = Answered string | Threw string

text \<open>
  \<open>beforeFirst\<close> is how \<open>beforeFirstRequest\<close> settles, \<open>app\<close> what the app answers to the headers, with the promises that
  \<open>runBackground\<close> was given while it did; \<open>withWaitUntil\<close> collects them.
\<close>

definition workerFetch ::
    "worker_env \<Rightarrow> string \<Rightarrow> headers \<Rightarrow> bool \<Rightarrow> (headers \<Rightarrow> worker_answer \<times> string list) \<Rightarrow> worker \<Rightarrow>
      worker_answer \<times> worker_event list \<times> worker" where
  "workerFetch env versionId h beforeFirst app k = (case bootstrap env versionId k of
     (Inl e, k1) \<Rightarrow> (Threw ''bootstrap'', [], k1)
   | (Inr _, k1) \<Rightarrow>
       (if \<not> beforeFirst then (Threw ''beforeFirstRequest'', [PoolOpened, PoolClosesAfter []], k1)
        else let asked = withClientIp h (resolveCloudflareClientIp h)
             in case app asked of
                  (answer, backgroundPromises) \<Rightarrow>
                    (answer, [PoolOpened, AppAsked asked, PoolClosesAfter backgroundPromises], k1)))"

text \<open>\<open>runBackground\<close>: outside of a request there is nobody to wait for the promise.\<close>

definition runBackgroundPromise :: "string \<Rightarrow> string list option \<Rightarrow> string list option" where
  "runBackgroundPromise promise waitUntil = map_option (\<lambda>ps. ps @ [promise]) waitUntil"

section \<open>Starting again and again\<close>

text \<open>Requests come with the same bindings; other requests may have changed \<open>process.env\<close> in between.\<close>

inductive booted :: "worker_env \<Rightarrow> worker \<Rightarrow> bool" for env where
  fresh: "wk_runtimeTtlStore k = None \<Longrightarrow> wk_runtime k = None \<Longrightarrow> wk_auth k = None \<Longrightarrow> wk_ttlStore k = None \<Longrightarrow>
    \<not> wk_bootstrapped k \<Longrightarrow> booted env k"
| request: "booted env k \<Longrightarrow> booted env (snd (bootstrap env versionId k))"
| environment: "booted env k \<Longrightarrow> booted env (k\<lparr>wk_env := p\<rparr>)"

text \<open>One store for ever, the one the runtime was made with, and an app only on a configured better-auth.\<close>

definition bootInv :: "worker \<Rightarrow> bool" where
  "bootInv k \<longleftrightarrow>
     (wk_runtimeTtlStore k \<noteq> None \<longrightarrow> wk_runtimeTtlStore k = wk_ttlStore k \<and> wk_runtime k = wk_ttlStore k) \<and>
     (wk_runtimeTtlStore k = None \<longrightarrow> wk_runtime k = None) \<and>
     (wk_bootstrapped k \<longrightarrow> wk_auth k \<noteq> None \<and> wk_runtime k \<noteq> None) \<and>
     (\<forall>c. wk_auth k = Some c \<longrightarrow> (\<exists>p. buildAuth p = Inr c))"

lemma initRuntime_inv:
  assumes "bootInv k" "wk_ttlStore k = Some s"
  shows "initRuntime s k = (Inr s, k\<lparr>wk_runtimeTtlStore := Some s, wk_runtime := Some s\<rparr>)"
    "bootInv (k\<lparr>wk_runtimeTtlStore := Some s, wk_runtime := Some s\<rparr>)"
  using assms by (cases "wk_runtimeTtlStore k"; simp add: initRuntime_def bootInv_def)+

lemma initAuth_cases:
  "initAuth k = (Inr (), k) \<and> wk_auth k \<noteq> None \<or>
   (\<exists>e. initAuth k = (Inl (AuthSecretRejected e), k)) \<or>
   (\<exists>c. buildAuth (wk_env k) = Inr c \<and> initAuth k = (Inr (), k\<lparr>wk_auth := Some c\<rparr>))"
  by (auto simp: initAuth_def split: option.splits sum.splits)

lemma boot_inv:
  assumes "bootInv k" "wk_ttlStore k = Some s"
  shows "bootInv (snd (boot s k)) \<and> fst (boot s k) \<noteq> Inl OtherTtlStore \<and> wk_ttlStore (snd (boot s k)) = Some s \<and>
    wk_bootstrapped (snd (boot s k)) = wk_bootstrapped k \<and>
    (\<forall>r. fst (boot s k) = Inr r \<longrightarrow> wk_auth (snd (boot s k)) \<noteq> None \<and> wk_runtime (snd (boot s k)) \<noteq> None)"
proof -
  let ?k = "k\<lparr>wk_runtimeTtlStore := Some s, wk_runtime := Some s\<rparr>"
  from initAuth_cases[of ?k] show ?thesis
    using initRuntime_inv[OF assms] assms by (auto simp: boot_def bootInv_def)
qed

lemma prepareBoot_inv:
  assumes "bootInv k" "\<not> wk_bootstrapped k"
  shows "bootInv (prepareBoot env v k)" "wk_ttlStore (prepareBoot env v k) \<noteq> None"
  using assms by (cases "wk_ttlStore k"; auto simp: bootInv_def prepareBoot_def Let_def)+

lemma bootstrap_inv:
  assumes "bootInv k"
  shows "bootInv (snd (bootstrap env v k)) \<and> fst (bootstrap env v k) \<noteq> Inl OtherTtlStore"
proof (cases "wk_bootstrapped k")
  case False
  let ?k = "prepareBoot env v k"
  from prepareBoot_inv[OF assms False] obtain s where s: "wk_ttlStore ?k = Some s" by blast
  note b = boot_inv[OF prepareBoot_inv(1)[OF assms False] s]
  obtain r k2 where run: "boot s ?k = (r, k2)" by fastforce
  with b False s show ?thesis
    by (cases r) (auto simp: bootstrap_def Let_def bootInv_def)
qed (use assms in \<open>simp add: bootstrap_def\<close>)

lemma booted_inv: "booted env k \<Longrightarrow> bootInv k"
proof (induction rule: booted.induct)
  case (request k v)
  then show ?case using bootstrap_inv by blast
qed (auto simp: bootInv_def)

end
