(* ===== verification/BootProperties.thy ===== *)
theory BootProperties
  imports Boot
begin

text \<open>
  What holds from the first request on: no request is handled before the secrets are there, starting again after a
  failure uses the same store, the app sees the address the platform resolved, and no report carries what a request
  was sent with.
\<close>

section \<open>Secrets\<close>


definition demoBindings :: worker_env where
  "demoBindings name = (if name = ''AUTH_SECRET'' then SecretsStoreSecret (Some (replicate 32 (CHR ''s'')))
     else if name = ''APP_NAME'' then TextBinding ''taimei'' else OtherBinding)"

definition letThrough :: "process_env once" where
  "letThrough = onceSettle (resolveSecretBindings demoBindings) (onceCall (onceCall (onceUntilSucceeded (\<lambda>_. None))))"


section \<open>Starting\<close>

lemma buildAuth_secret: "buildAuth p = Inr c \<Longrightarrow> 32 \<le> length (bc_secret c) \<and> bc_useSecureCookies c \<and>
    \<not> bc_emailAndPassword c \<and> bc_trustedProviders c = []"
  by (auto simp: buildAuth_def requireAuthSecret_success split: sum.splits)

text \<open>
  Whatever requests came before and however they failed, a start never meets a second store: it fails only for the
  secret of the sessions. A start that succeeds leaves a runtime on the one store and a better-auth with a secret of 32
  characters at least, secure cookies and no passwords; every later one changes nothing.
\<close>

theorem start_is_consistent:
  assumes "booted env k"
  shows "fst (bootstrap env v k) \<noteq> Inl OtherTtlStore \<and>
    (fst (bootstrap env v k) = Inr () \<longrightarrow>
      (\<exists>c s. wk_auth (snd (bootstrap env v k)) = Some c \<and> 32 \<le> length (bc_secret c) \<and> bc_useSecureCookies c \<and>
        \<not> bc_emailAndPassword c \<and> wk_ttlStore (snd (bootstrap env v k)) = Some s \<and>
        wk_runtime (snd (bootstrap env v k)) = Some s) \<and>
      bootstrap env v' (snd (bootstrap env v k)) = (Inr (), snd (bootstrap env v k)))"
proof (intro conjI impI)
  note i = bootstrap_inv[OF booted_inv[OF assms]]
  from i show "fst (bootstrap env v k) \<noteq> Inl OtherTtlStore" by blast
  assume ok: "fst (bootstrap env v k) = Inr ()"
  have up: "wk_bootstrapped (snd (bootstrap env v k))"
    using ok by (auto simp: bootstrap_def Let_def split: prod.splits sum.splits if_splits)
  then show "bootstrap env v' (snd (bootstrap env v k)) = (Inr (), snd (bootstrap env v k))"
    by (simp add: bootstrap_def)
  from i up obtain c where c: "wk_auth (snd (bootstrap env v k)) = Some c" "\<exists>p. buildAuth p = Inr c"
    unfolding bootInv_def by blast
  from i up obtain s where "wk_runtime (snd (bootstrap env v k)) = Some s" "wk_ttlStore (snd (bootstrap env v k)) = Some s"
    unfolding bootInv_def by (metis option.exhaust)
  with c buildAuth_secret show "\<exists>c s. wk_auth (snd (bootstrap env v k)) = Some c \<and> 32 \<le> length (bc_secret c) \<and>
      bc_useSecureCookies c \<and> \<not> bc_emailAndPassword c \<and> wk_ttlStore (snd (bootstrap env v k)) = Some s \<and>
      wk_runtime (snd (bootstrap env v k)) = Some s" by blast
qed

definition freshWorker :: worker where
  "freshWorker = \<lparr>wk_env = (\<lambda>_. None), wk_sentry = ConsoleSentryBackend, wk_runtimeTtlStore = None, wk_runtime = None,
     wk_auth = None, wk_ttlStore = None, wk_bootstrapped = False, wk_made = 0\<rparr>"

text \<open>The first start fails, since the secret is missing; the second one finds it.\<close>

definition secondStart :: worker where
  "secondStart = (snd (bootstrap demoBindings ''1'' freshWorker))
     \<lparr>wk_env := [''AUTH_SECRET'' \<mapsto> replicate 32 (CHR ''s'')]\<rparr>"

theorem start_is_consistent_witness:
  "fst (bootstrap demoBindings ''1'' freshWorker) = Inl (AuthSecretRejected SecretNotSet) \<and>
   (\<exists>s. wk_runtime (snd (bootstrap demoBindings ''1'' secondStart)) = Some s)"
proof
  show "fst (bootstrap demoBindings ''1'' freshWorker) = Inl (AuthSecretRejected SecretNotSet)"
    by code_simp
  have "booted demoBindings freshWorker" by (rule booted.fresh) (simp_all add: freshWorker_def)
  then have "booted demoBindings secondStart" unfolding secondStart_def
    by (intro booted.environment booted.request)
  moreover have "fst (bootstrap demoBindings ''1'' secondStart) = Inr ()" by code_simp
  ultimately show "\<exists>s. wk_runtime (snd (bootstrap demoBindings ''1'' secondStart)) = Some s"
    using start_is_consistent by blast
qed

section \<open>A request\<close>

text \<open>
  A request that reaches the app opens one pool and closes it once, after everything it left in the background. The
  app reads the client's address from a header that holds what Cloudflare resolved, whatever the client sent under it.
\<close>

theorem request_uses_one_pool:
  assumes "workerFetch env v h beforeFirst app k = (answer, events, k')" "events \<noteq> []"
  shows "\<exists>asked ps. (events = [PoolOpened, PoolClosesAfter []] \<and> \<not> beforeFirst) \<or>
    (events = [PoolOpened, AppAsked asked, PoolClosesAfter ps] \<and> app asked = (answer, ps) \<and>
     headersGet asked CLIENT_IP_HEADER = resolveCloudflareClientIp h)"
  using assms by (auto simp: workerFetch_def headersGet_withClientIp Let_def split: prod.splits sum.splits if_splits)

theorem request_uses_one_pool_witness:
  "let (answer, events, k') = workerFetch demoBindings ''1'' [(''CF-Connecting-IP'', ''1.2.3.4''), (CLIENT_IP_HEADER, ''6.6.6.6'')]
       True (\<lambda>h. (Answered ''ok'', [''mail''])) secondStart
   in (\<exists>asked. events = [PoolOpened, AppAsked asked, PoolClosesAfter [''mail'']] \<and>
        headersGet asked CLIENT_IP_HEADER = Some ''1.2.3.4'')"
proof -
  let ?h = "[(''CF-Connecting-IP'', ''1.2.3.4''), (CLIENT_IP_HEADER, ''6.6.6.6'')]"
  let ?app = "\<lambda>h :: headers. (Answered ''ok'', [''mail''])"
  obtain answer events k' where run:
    "workerFetch demoBindings ''1'' ?h True ?app secondStart = (answer, events, k')" by (metis prod_cases3)
  have "fst (snd (workerFetch demoBindings ''1'' ?h True ?app secondStart)) \<noteq> []" by code_simp
  with run have "events \<noteq> []" by simp
  from request_uses_one_pool[OF run this] obtain asked where
    "events = [PoolOpened, AppAsked asked, PoolClosesAfter [''mail'']]"
    "headersGet asked CLIENT_IP_HEADER = resolveCloudflareClientIp ?h" by auto
  moreover have "resolveCloudflareClientIp ?h = Some ''1.2.3.4''" by code_simp
  ultimately show ?thesis by (simp add: run)
qed

section \<open>Reports\<close>

lemma urlWithoutQuery_plain: "urlWithoutQuery parseUrl toHref url = ''[unparsable url]'' \<or>
    (\<exists>p. urlWithoutQuery parseUrl toHref url = toHref p \<and> ur_search p = [] \<and> ur_searchParams p = [] \<and> ur_hash p = [])"
proof (cases "parseUrl url")
  case (Some u)
  then show ?thesis
    by (intro disjI2 exI[of _ "u\<lparr>ur_search := [], ur_searchParams := [], ur_hash := []\<rparr>"]) (simp add: urlWithoutQuery_def)
qed (simp add: urlWithoutQuery_def)

text \<open>
  An event that is sent to Sentry keeps of its request the method, four harmless headers, and the address without
  query and fragment: no body, no cookies, no query string, no other header. The message is left as it is.
\<close>

theorem reports_leave_secrets_out:
  assumes "so_beforeSend (sentryOptions parseUrl toHref processEnv env) event = sent"
  shows "so_beforeSendTransaction (sentryOptions parseUrl toHref processEnv env) event = sent \<and>
    sv_message sent = sv_message event \<and>
    (\<forall>q. sv_request sent = Some q \<longrightarrow> (\<exists>request. sv_request event = Some request \<and>
      se_data q = None \<and> se_cookies q = None \<and> se_queryString q = None \<and> se_method q = se_method request \<and>
      (\<forall>hs name value. se_headers q = Some hs \<and> (name, value) \<in> set hs \<longrightarrow>
        toLowerCase name \<in> {''accept'', ''content-length'', ''content-type'', ''user-agent''} \<and>
        (\<exists>given. se_headers request = Some given \<and> (name, value) \<in> set given)) \<and>
      (\<forall>u. se_url q = Some u \<longrightarrow> u = ''[unparsable url]'' \<or>
        (\<exists>p. u = toHref p \<and> ur_search p = [] \<and> ur_searchParams p = [] \<and> ur_hash p = []))))"
proof (intro conjI allI impI, goal_cases)
  case (3 q)
  then obtain request where request: "sv_request event = Some request"
    using assms by (cases "sv_request event") (auto simp: sentryOptions_def withoutRequestSecrets_def)
  then have q: "q = \<lparr>se_method = se_method request, se_url = map_option (urlWithoutQuery parseUrl toHref) (se_url request),
      se_headers = Some (filter (\<lambda>(name, _). toLowerCase name \<in> set FORWARDED_REQUEST_HEADERS)
        (case se_headers request of None \<Rightarrow> [] | Some h \<Rightarrow> h)), se_data = None, se_cookies = None, se_queryString = None\<rparr>"
    using assms 3 by (auto simp: sentryOptions_def withoutRequestSecrets_def)
  have urls: "\<forall>u. se_url q = Some u \<longrightarrow> u = ''[unparsable url]'' \<or>
      (\<exists>p. u = toHref p \<and> ur_search p = [] \<and> ur_searchParams p = [] \<and> ur_hash p = [])"
    using urlWithoutQuery_plain[of parseUrl toHref "the (se_url request)"]
    by (cases "se_url request") (auto simp: q)
  have headers: "\<forall>hs name value. se_headers q = Some hs \<and> (name, value) \<in> set hs \<longrightarrow>
      toLowerCase name \<in> {''accept'', ''content-length'', ''content-type'', ''user-agent''} \<and>
      (\<exists>given. se_headers request = Some given \<and> (name, value) \<in> set given)"
    by (cases "se_headers request") (auto simp: q FORWARDED_REQUEST_HEADERS_def)
  have dropped: "se_data q = None \<and> se_cookies q = None \<and> se_queryString q = None \<and> se_method q = se_method request"
    by (simp add: q)
  show ?case
    by (intro exI[of _ request] conjI) (use request urls headers dropped in \<open>simp_all only: simp_thms\<close>)
qed (use assms in \<open>auto simp: sentryOptions_def withoutRequestSecrets_def split: option.splits\<close>)

definition demoEvent :: sentryEvent where
  "demoEvent = \<lparr>sv_message = Some ''boom'', sv_request = Some \<lparr>se_method = Some ''GET'', se_url = Some ''x'',
     se_headers = Some [(''Cookie'', ''s=1''), (''Accept'', ''*'')], se_data = Some ''code=123456'',
     se_cookies = Some ''s=1'', se_queryString = Some ''token=1''\<rparr>\<rparr>"

theorem reports_leave_secrets_out_witness:
  "let sent = so_beforeSend (sentryOptions (\<lambda>_. None) ur_origin (\<lambda>_. None) (\<lambda>_. None)) demoEvent
   in sv_message sent = Some ''boom'' \<and> map_option (\<lambda>q. (se_data q, se_cookies q)) (sv_request sent) = Some (None, None)"
proof -
  let ?sent = "so_beforeSend (sentryOptions (\<lambda>_. None) ur_origin (\<lambda>_. None) (\<lambda>_. None)) demoEvent"
  note left = reports_leave_secrets_out[of "\<lambda>_. None" ur_origin "\<lambda>_. None" "\<lambda>_. None" demoEvent ?sent, OF refl]
  have "sv_message demoEvent = Some ''boom''" by (simp add: demoEvent_def)
  moreover have "sv_request ?sent \<noteq> None"
    by (simp add: demoEvent_def sentryOptions_def withoutRequestSecrets_def)
  then obtain q where "sv_request ?sent = Some q" by blast
  ultimately show ?thesis using left unfolding Let_def by (metis option.map(2))
qed

end
