(* ===== verification/Infra.thy ===== *)
theory Infra
  imports Boot
begin

text \<open>
  The table of the deployed workers and what is made of it: \<open>infra/stages.ts\<close>, \<open>infra/alchemy.run.ts\<close> (the worker a
  deployment describes), \<open>infra/check-worker.ts\<close> (a comparison of a live worker with the table) and
  \<open>infra/check-drift.ts\<close> (what a plan of the deployment tool says). Cloudflare's API and the tool are parameters.
\<close>

section \<open>The table of the stages\<close>

datatype servedAt = CustomDomain string | WorkersDevBehindAccess

record stageConfig =
  sc_workerName :: string
  sc_hyperdriveName :: string
  sc_entry :: string
  sc_servedAt :: servedAt
  sc_secrets :: "string list"
  sc_vars :: "(string \<times> string) list"

definition TRANSACTIONAL_SENDER :: string where
  "TRANSACTIONAL_SENDER = ''noreply@transactional.taimei-code.com''"

datatype stageName = Staging | Production

text \<open>The names of the stages, as the keys of the table.\<close>

fun stageKey :: "stageName \<Rightarrow> string" where
  "stageKey Staging = ''staging''"
| "stageKey Production = ''production''"

fun STAGES :: "stageName \<Rightarrow> stageConfig" where
  "STAGES Staging =
     \<lparr>sc_workerName = ''taimei-auth-staging'', sc_hyperdriveName = ''taimei-auth-staging'',
      sc_entry = ''./staging-bundle/staging-worker.js'', sc_servedAt = WorkersDevBehindAccess,
      sc_secrets = [''AUTH_SECRET'', ''AUTH_SERVICE_KEY'', ''AUTH_RESEND_KEY'', ''MFA_TOTP_ENCRYPTION_KEYS''],
      sc_vars =
        [(''APP_ENV'', ''staging''), (''APP_NAME'', ''taimei''),
         (''AUTH_SERVICE_URL'', ''https://taimei-auth-staging.taimei-staging.workers.dev''),
         (''AUTH_COOKIE_DOMAIN'', ''taimei-staging.workers.dev''),
         (''AUTH_TRUSTED_ORIGINS'', ''https://taimei-staging.taimei-staging.workers.dev,'' @
           ''https://taimei-auth-staging.taimei-staging.workers.dev''),
         (''AUTH_FROM_EMAIL_MAGIC_LINK'', TRANSACTIONAL_SENDER), (''AUTH_FROM_EMAIL_WELCOME'', TRANSACTIONAL_SENDER),
         (''AUTH_FROM_EMAIL_INVITATION'', TRANSACTIONAL_SENDER), (''AUTH_FROM_EMAIL_SECURITY'', TRANSACTIONAL_SENDER)]\<rparr>"
| "STAGES Production =
     \<lparr>sc_workerName = ''taimei-auth'', sc_hyperdriveName = ''taimei-auth-prod'',
      sc_entry = ''./production-bundle/worker.js'', sc_servedAt = CustomDomain ''auth.taimei-code.com'',
      sc_secrets = SECRET_BINDING_NAMES,
      sc_vars =
        [(''APP_ENV'', ''production''), (''APP_NAME'', ''taimei''),
         (''AUTH_SERVICE_URL'', ''https://auth.taimei-code.com''),
         (''AUTH_COOKIE_DOMAIN'', ''taimei-code.com''),
         (''AUTH_TRUSTED_ORIGINS'', ''https://app.taimei-code.com,https://auth.taimei-code.com''),
         (''AUTH_FROM_EMAIL_MAGIC_LINK'', TRANSACTIONAL_SENDER), (''AUTH_FROM_EMAIL_WELCOME'', TRANSACTIONAL_SENDER),
         (''AUTH_FROM_EMAIL_INVITATION'', TRANSACTIONAL_SENDER), (''AUTH_FROM_EMAIL_SECURITY'', TRANSACTIONAL_SENDER)]\<rparr>"

definition STATE_STORE_WORKER_NAME :: string where
  "STATE_STORE_WORKER_NAME = ''alchemy-state-store-taimei-auth''"

definition DURABLE_OBJECT_BINDINGS :: "(string \<times> string) list" where
  "DURABLE_OBJECT_BINDINGS = [(''KV_STORE'', ''KvStore'')]"

record workerRuntime =
  wr_compatibilityDate :: string
  wr_compatibilityFlags :: "string list"
  wr_runWorkerFirst :: bool
  wr_notFoundHandling :: string
  wr_observability :: bool

definition WORKER_RUNTIME :: workerRuntime where
  "WORKER_RUNTIME = \<lparr>wr_compatibilityDate = ''2025-04-01'',
     wr_compatibilityFlags = [''nodejs_compat'', ''delete_all_deletes_alarm''],
     wr_runWorkerFirst = True, wr_notFoundHandling = ''single-page-application'', wr_observability = False\<rparr>"

datatype infra_error = UnknownStage string | UnknownDeployMode string | NoAccountId | NoApiToken | NoDeployment
  | RequestFailed string | OutputNotUnderstood | CommandFailed string

definition parseStage :: "string \<Rightarrow> infra_error + stageName" where
  "parseStage name = (if name = stageKey Staging then Inr Staging
     else if name = stageKey Production then Inr Production else Inl (UnknownStage name))"

datatype deployMode = GateMode | FullMode

definition parseDeployMode :: "string option \<Rightarrow> infra_error + deployMode" where
  "parseDeployMode value = (if value = Some ''gate'' then Inr GateMode
     else if value = Some ''full'' then Inr FullMode
     else Inl (UnknownDeployMode (case value of None \<Rightarrow> [] | Some v \<Rightarrow> v)))"

definition parseAccountId :: "string option \<Rightarrow> infra_error + string" where
  "parseAccountId value = (case nonEmpty value of None \<Rightarrow> Inl NoAccountId | Some v \<Rightarrow> Inr v)"

record workerBinding =
  wb_name :: string
  wb_type :: string

definition expectedBindings :: "stageName \<Rightarrow> workerBinding list" where
  "expectedBindings stageName' = (let stage = STAGES stageName' in
     [\<lparr>wb_name = ''ASSETS'', wb_type = ''assets''\<rparr>,
      \<lparr>wb_name = ''CF_VERSION_METADATA'', wb_type = ''version_metadata''\<rparr>,
      \<lparr>wb_name = ''HYPERDRIVE'', wb_type = ''hyperdrive''\<rparr>]
     @ map (\<lambda>(name, _). \<lparr>wb_name = name, wb_type = ''durable_object_namespace''\<rparr>) DURABLE_OBJECT_BINDINGS
     @ map (\<lambda>(name, _). \<lparr>wb_name = name, wb_type = ''plain_text''\<rparr>) (sc_vars stage)
     @ map (\<lambda>name. \<lparr>wb_name = name, wb_type = ''secrets_store_secret''\<rparr>) (sc_secrets stage))"

section \<open>The worker a deployment describes\<close>

datatype accessRule = AccountMember string | AnyValidServiceToken

record accessPolicy =
  ap_decision :: string
  ap_include :: "accessRule list"

record accessApplication =
  aa_name :: string
  aa_previews :: bool
  aa_policies :: "accessPolicy list"

record servedAtProperties =
  sp_domain :: "string option"
  sp_workersDev :: bool
  sp_previewsEnabled :: bool
  sp_access :: "accessApplication option"

definition servedAtProps :: "string option \<Rightarrow> stageConfig \<Rightarrow> infra_error + servedAtProperties" where
  "servedAtProps accountId stage = (case sc_servedAt stage of
     CustomDomain domain \<Rightarrow> Inr \<lparr>sp_domain = Some domain, sp_workersDev = False, sp_previewsEnabled = False, sp_access = None\<rparr>
   | WorkersDevBehindAccess \<Rightarrow>
       (case parseAccountId accountId of
          Inl e \<Rightarrow> Inl e
        | Inr account \<Rightarrow> Inr \<lparr>sp_domain = None, sp_workersDev = True, sp_previewsEnabled = False,
            sp_access = Some \<lparr>aa_name = sc_workerName stage, aa_previews = False,
              aa_policies = [\<lparr>ap_decision = ''allow'', ap_include = [AccountMember account]\<rparr>,
                \<lparr>ap_decision = ''non_identity'', ap_include = [AnyValidServiceToken]\<rparr>]\<rparr>\<rparr>))"

text \<open>What a name of the environment of the worker is bound to.\<close>

datatype envBinding = DurableObjectClass string | VersionMetadata | HyperdriveLookup string | PlainText string
  | StoreSecret string

record deployedWorker =
  dw_name :: string
  dw_main :: string
  dw_assetsDirectory :: string
  dw_runtime :: workerRuntime
  dw_served :: servedAtProperties
  dw_traffic :: "nat option"
  dw_env :: "(string \<times> envBinding) list"

definition authWorker :: "string option \<Rightarrow> string option \<Rightarrow> string \<Rightarrow> infra_error + deployedWorker" where
  "authWorker accountId deployMode name = (case parseStage name of
     Inl e \<Rightarrow> Inl e
   | Inr stageName' \<Rightarrow>
       (let stage = STAGES stageName' in
        case parseDeployMode deployMode of
          Inl e \<Rightarrow> Inl e
        | Inr mode \<Rightarrow>
            (case servedAtProps accountId stage of
               Inl e \<Rightarrow> Inl e
             | Inr served \<Rightarrow> Inr
                 \<lparr>dw_name = sc_workerName stage, dw_main = sc_entry stage, dw_assetsDirectory = ''./web/dist'',
                  dw_runtime = WORKER_RUNTIME, dw_served = served,
                  dw_traffic = (if mode = GateMode then Some 0 else None),
                  dw_env = map (\<lambda>(binding, className). (binding, DurableObjectClass className)) DURABLE_OBJECT_BINDINGS
                    @ [(''CF_VERSION_METADATA'', VersionMetadata),
                       (''HYPERDRIVE'', HyperdriveLookup (sc_hyperdriveName stage))]
                    @ map (\<lambda>(k, v). (k, PlainText v)) (sc_vars stage)\<rparr>)))"

text \<open>The stack binds the secrets of the stage on top, one after the other.\<close>

definition bindSecret :: "deployedWorker \<Rightarrow> string \<Rightarrow> deployedWorker" where
  "bindSecret worker' name = worker'\<lparr>dw_env := dw_env worker' @ [(name, StoreSecret name)]\<rparr>"

definition taimeiAuthStack :: "string option \<Rightarrow> string option \<Rightarrow> string \<Rightarrow> infra_error + deployedWorker" where
  "taimeiAuthStack accountId deployMode name = (case parseStage name of
     Inl e \<Rightarrow> Inl e
   | Inr stageName' \<Rightarrow>
       (case authWorker accountId deployMode name of
          Inl e \<Rightarrow> Inl e
        | Inr worker' \<Rightarrow> Inr (foldl bindSecret worker' (sc_secrets (STAGES stageName')))))"

section \<open>Comparing a live worker with the table\<close>

record workerSettings =
  ws_bindings :: "workerBinding list"
  ws_workersDev :: bool
  ws_observability :: bool

definition ADDED_BY_ALCHEMY :: string where
  "ADDED_BY_ALCHEMY = ''ALCHEMY_''"

definition keyOf :: "workerBinding \<Rightarrow> string" where
  "keyOf b = wb_name b @ '' ('' @ wb_type b @ '')''"

definition comparedKeys :: "workerBinding list \<Rightarrow> string list" where
  "comparedKeys bindings = dedupe (map keyOf (filter (\<lambda>b. \<not> startsWith (wb_name b) ADDED_BY_ALCHEMY) bindings))"

definition keysOnlyIn :: "string list \<Rightarrow> string list \<Rightarrow> string list" where
  "keysOnlyIn keys other = filter (\<lambda>key. key \<notin> set other) keys"

definition showBool :: "bool \<Rightarrow> string" where
  "showBool b = (if b then ''true'' else ''false'')"

definition settingMismatch :: "string \<Rightarrow> bool \<Rightarrow> bool \<Rightarrow> string list" where
  "settingMismatch label live expected =
     (if live = expected then [] else [label @ '' is '' @ showBool live @ '' but declared '' @ showBool expected])"

definition workerMismatches :: "workerSettings \<Rightarrow> workerSettings \<Rightarrow> string list" where
  "workerMismatches live expected =
     (let liveKeys = comparedKeys (ws_bindings live);
          expectedKeys = comparedKeys (ws_bindings expected)
      in map (\<lambda>key. key @ '' is live but not declared'') (keysOnlyIn liveKeys expectedKeys)
         @ map (\<lambda>key. key @ '' is declared but not live'') (keysOnlyIn expectedKeys liveKeys)
         @ settingMismatch ''workers.dev'' (ws_workersDev live) (ws_workersDev expected)
         @ settingMismatch ''observability'' (ws_observability live) (ws_observability expected))"

definition expectedSettings :: "stageName \<Rightarrow> workerSettings" where
  "expectedSettings stage = \<lparr>ws_bindings = expectedBindings stage,
     ws_workersDev = (sc_servedAt (STAGES stage) = WorkersDevBehindAccess),
     ws_observability = wr_observability WORKER_RUNTIME\<rparr>"

text \<open>A deployment lists the versions it serves.\<close>

definition servingVersionIds :: "string list list \<Rightarrow> infra_error + string list" where
  "servingVersionIds deploymentsNewestFirst = (case deploymentsNewestFirst of
     [] \<Rightarrow> Inl NoDeployment
   | latest # _ \<Rightarrow> Inr latest)"

text \<open>
  Cloudflare's API on the scripts of the account: what a worker is set to, whether it is on \<open>workers.dev\<close>, its deployments
  and the bindings of a version. \<open>Inl\<close> is a request that was not answered with success. A setting that is absent or
  null is \<open>None\<close>.
\<close>

record cloudflareApi =
  cf_settings :: "string \<Rightarrow> infra_error + bool option"
  cf_subdomain :: "string \<Rightarrow> infra_error + bool"
  cf_deployments :: "string \<Rightarrow> infra_error + string list list"
  cf_version :: "string \<Rightarrow> string \<Rightarrow> infra_error + workerBinding list"

fun readVersions ::
    "cloudflareApi \<Rightarrow> string \<Rightarrow> bool \<Rightarrow> bool \<Rightarrow> string list \<Rightarrow> (string \<times> workerSettings) list \<Rightarrow>
      infra_error + (string \<times> workerSettings) list" where
  "readVersions api workerName workersDev observability [] live = Inr live"
| "readVersions api workerName workersDev observability (versionId # rest) live =
     (case cf_version api workerName versionId of
        Inl e \<Rightarrow> Inl e
      | Inr bindings \<Rightarrow> readVersions api workerName workersDev observability rest
          (AList.update versionId
            \<lparr>ws_bindings = bindings, ws_workersDev = workersDev, ws_observability = observability\<rparr> live))"

definition readLiveSettings :: "cloudflareApi \<Rightarrow> string \<Rightarrow> infra_error + (string \<times> workerSettings) list" where
  "readLiveSettings api workerName =
     (case cf_settings api workerName of Inl e \<Rightarrow> Inl e
      | Inr observability \<Rightarrow>
     (case cf_subdomain api workerName of Inl e \<Rightarrow> Inl e
      | Inr enabled \<Rightarrow>
     (case cf_deployments api workerName of Inl e \<Rightarrow> Inl e
      | Inr deployments \<Rightarrow>
     (case servingVersionIds deployments of Inl e \<Rightarrow> Inl e
      | Inr versionIds \<Rightarrow>
          readVersions api workerName enabled (case observability of None \<Rightarrow> False | Some b \<Rightarrow> b) versionIds []))))"

text \<open>The script: the lines on the standard error and the exit code, or what it threw.\<close>

definition checkWorker :: "cloudflareApi \<Rightarrow> string \<Rightarrow> infra_error + string list \<times> nat" where
  "checkWorker api argument = (case parseStage argument of
     Inl e \<Rightarrow> Inl e
   | Inr stage \<Rightarrow>
       (case readLiveSettings api (sc_workerName (STAGES stage)) of
          Inl e \<Rightarrow> Inl e
        | Inr live \<Rightarrow>
            (let mismatches = concat (map (\<lambda>(versionId, settings).
                   map (\<lambda>mismatch. versionId @ '': '' @ mismatch) (workerMismatches settings (expectedSettings stage))) live)
             in Inr (mismatches, if mismatches = [] then 0 else 1))))"

section \<open>What a plan says\<close>

text \<open>
  The regular expressions of \<open>check-drift.ts\<close>. None of them needs to look back: after \<open>(#12)\<close> the optional name is there
  exactly when a space is, and ends at the first colon.
\<close>

definition isUpper :: "char \<Rightarrow> bool" where
  "isUpper c \<longleftrightarrow> 65 \<le> (of_char c :: nat) \<and> (of_char c :: nat) \<le> 90"

fun matchPattern :: "(char \<Rightarrow> bool) list \<Rightarrow> string \<Rightarrow> string option" where
  "matchPattern [] s = Some s"
| "matchPattern (p # ps) (c # s) = (if p c then matchPattern ps s else None)"
| "matchPattern (p # ps) [] = None"

text \<open>One or more characters of a class, as many as there are.\<close>

definition matchMany :: "(char \<Rightarrow> bool) \<Rightarrow> string \<Rightarrow> string option" where
  "matchMany p s = (if s \<noteq> [] \<and> p (hd s) then Some (dropWhile p s) else None)"

definition EFFECT_LOG_TIME :: "(char \<Rightarrow> bool) list" where
  "EFFECT_LOG_TIME = [(=) (CHR ''[''), isDigit, isDigit, (=) (CHR '':''), isDigit, isDigit, (=) (CHR '':''), isDigit, isDigit,
     (=) (CHR ''.''), isDigit, isDigit, isDigit, (=) (CHR '']''), (=) (CHR '' '')]"

definition matchName :: "string \<Rightarrow> string option" where
  "matchName s = (case s of
     [] \<Rightarrow> None
   | c # rest \<Rightarrow> (if c \<noteq> CHR '' '' then Some s else matchMany (\<lambda>c. c \<noteq> CHR '':'') rest))"

definition matchEffectLogPrefix :: "string \<Rightarrow> string option" where
  "matchEffectLogPrefix line =
     Option.bind (matchPattern EFFECT_LOG_TIME line) (\<lambda>s.
     Option.bind (matchMany isUpper s) (\<lambda>s.
     Option.bind (matchPattern (map (=) '' (#'') s) (\<lambda>s.
     Option.bind (matchMany isDigit s) (\<lambda>s.
     Option.bind (matchPattern (map (=) '')'') s) (\<lambda>s.
     Option.bind (matchName s) (matchPattern (map (=) '': '')))))))"

definition withoutEffectLogPrefix :: "string \<Rightarrow> string" where
  "withoutEffectLogPrefix line = (case matchEffectLogPrefix line of None \<Rightarrow> line | Some rest \<Rightarrow> rest)"

text \<open>
  \<open>OPERATION_LINE\<close>: a part in brackets, blanks and a word; then the end, or a blank and the rest of the line (where \<open>.\<close> is
  any character but a line break). The answer is what the two groups caught.
\<close>

definition isLineBreak :: "char \<Rightarrow> bool" where
  "isLineBreak c \<longleftrightarrow> (of_char c :: nat) \<in> {10, 13}"

definition operationOf :: "string \<Rightarrow> (string \<times> string) option" where
  "operationOf line = (case dropWhile isSpace line of
     [] \<Rightarrow> None
   | c # s \<Rightarrow>
       (let name = takeWhile (\<lambda>c. c \<noteq> CHR '']'') s; afterName = drop (length name) s;
            blanks = takeWhile isSpace (drop 1 afterName); word = dropWhile isSpace (drop 1 afterName);
            operation = takeWhile (\<lambda>c. \<not> isSpace c) word; rest = dropWhile (\<lambda>c. \<not> isSpace c) word
        in if c = CHR ''['' \<and> name \<noteq> [] \<and> afterName \<noteq> [] \<and> blanks \<noteq> [] \<and> operation \<noteq> [] \<and>
              (rest = [] \<or> \<not> list_ex isLineBreak (drop 1 rest))
           then Some (''['' @ name @ '']'' @ blanks @ operation, operation)
           else None))"

definition isWordCharacter :: "char \<Rightarrow> bool" where
  "isWordCharacter c \<longleftrightarrow> isDigit c \<or> isUpper c \<or> (97 \<le> (of_char c :: nat) \<and> (of_char c :: nat) \<le> 122) \<or> c = CHR ''_''"

text \<open>\<open>NO_CHANGES\<close>: \<open>no changes\<close> somewhere, in any case, with no word character before or after.\<close>

fun saysNoChangesAfter :: "bool \<Rightarrow> string \<Rightarrow> bool" where
  "saysNoChangesAfter afterWord [] = False"
| "saysNoChangesAfter afterWord (c # s) =
     ((\<not> afterWord \<and> startsWith (toLowerCase (c # s)) ''no changes'' \<and>
        (case drop 10 (c # s) of [] \<Rightarrow> True | d # _ \<Rightarrow> \<not> isWordCharacter d)) \<or>
      saysNoChangesAfter (isWordCharacter c) s)"

definition IN_SYNC_OPERATIONS :: "string list" where
  "IN_SYNC_OPERATIONS = [''noop'', ''unchanged'']"

definition differingOperationLines :: "string \<Rightarrow> infra_error + string list" where
  "differingOperationLines output =
     (let operations = List.map_filter (\<lambda>line. operationOf (withoutEffectLogPrefix line)) (splitOn (char_of (10 :: nat)) output)
      in if operations = [] \<and> \<not> saysNoChangesAfter False output then Inl OutputNotUnderstood
         else Inr (map fst (filter (\<lambda>(_, operation). operation \<notin> set IN_SYNC_OPERATIONS) operations)))"

text \<open>
  The script runs the tool twice; a run that exits with another code than 0 throws. The answer is the lines on the
  standard error and the exit code.
\<close>

datatype alchemyCommand = PlanCommand | DriftCommand

definition runAlchemy :: "(alchemyCommand \<Rightarrow> stageName \<Rightarrow> nat \<times> string) \<Rightarrow> alchemyCommand \<Rightarrow> stageName \<Rightarrow>
    infra_error + string" where
  "runAlchemy tool command stage = (case tool command stage of
     (exitCode, output) \<Rightarrow> if exitCode \<noteq> 0 then Inl (CommandFailed output) else Inr output)"

definition checkDrift :: "(alchemyCommand \<Rightarrow> stageName \<Rightarrow> nat \<times> string) \<Rightarrow> string \<Rightarrow> infra_error + string list \<times> nat" where
  "checkDrift tool argument =
     (let differing = (\<lambda>command stage. case runAlchemy tool command stage of
        Inl e \<Rightarrow> Inl e | Inr output \<Rightarrow> differingOperationLines output)
      in case parseStage argument of Inl e \<Rightarrow> Inl e
       | Inr stage \<Rightarrow> (case differing PlanCommand stage of Inl e \<Rightarrow> Inl e
         | Inr plan \<Rightarrow> (case differing DriftCommand stage of Inl e \<Rightarrow> Inl e
           | Inr drift \<Rightarrow> Inr (map (\<lambda>line. ''DRIFT: '' @ line) (plan @ drift),
               if plan @ drift = [] then 0 else 1))))"

end
