(* ===== verification/InfraProperties.thy ===== *)
theory InfraProperties
  imports Infra BootProperties
begin

text \<open>
  What the table of the stages promises: a worker deployed from it starts with the configuration of its stage, and the
  comparison with a live worker reports every difference and nothing else.
\<close>

section \<open>The comparison\<close>

text \<open>Names and types of bindings as Cloudflare has them: no blank.\<close>

definition plainBinding :: "workerBinding \<Rightarrow> bool" where
  "plainBinding b \<longleftrightarrow> CHR '' '' \<notin> set (wb_name b) \<and> CHR '' '' \<notin> set (wb_type b)"

lemma keyOf_inject:
  assumes "keyOf b = keyOf c" "plainBinding b" "plainBinding c"
  shows "b = c"
proof -
  have name: "takeWhile (\<lambda>x. x \<noteq> CHR '' '') (keyOf d) = wb_name d" if "plainBinding d" for d
  proof -
    from that have "\<And>x. x \<in> set (wb_name d) \<Longrightarrow> x \<noteq> CHR '' ''" by (auto simp: plainBinding_def)
    then show ?thesis by (simp add: keyOf_def takeWhile_append2)
  qed
  with assms have n: "wb_name b = wb_name c" by metis
  with assms(1) have "wb_type b = wb_type c" by (simp add: keyOf_def)
  with n show ?thesis by simp
qed

text \<open>The bindings that are compared: those the deployment tool added itself are left out.\<close>

definition comparedBindings :: "workerSettings \<Rightarrow> workerBinding set" where
  "comparedBindings s = {b \<in> set (ws_bindings s). \<not> startsWith (wb_name b) ADDED_BY_ALCHEMY}"

lemma set_comparedKeys: "set (comparedKeys (ws_bindings s)) = keyOf ` comparedBindings s"
  by (auto simp: comparedKeys_def comparedBindings_def)

lemma keysOnlyIn_empty: "keysOnlyIn keys other = [] \<longleftrightarrow> set keys \<subseteq> set other"
  by (auto simp: keysOnlyIn_def filter_empty_conv)

lemma keyOf_image_subset:
  assumes "Ball A plainBinding" "Ball B plainBinding"
  shows "keyOf ` A \<subseteq> keyOf ` B \<longleftrightarrow> A \<subseteq> B"
  using assms keyOf_inject by (auto simp: image_subset_iff) (metis imageE)

lemma compared_plain:
  assumes "\<forall>b\<in>set (ws_bindings live) \<union> set (ws_bindings expected). plainBinding b"
  shows "Ball (comparedBindings live) plainBinding" "Ball (comparedBindings expected) plainBinding"
  using assms by (auto simp: comparedBindings_def)

lemma workerMismatches_empty:
  assumes "\<forall>b\<in>set (ws_bindings live) \<union> set (ws_bindings expected). plainBinding b"
  shows "workerMismatches live expected = [] \<longleftrightarrow>
      comparedBindings live = comparedBindings expected \<and> ws_workersDev live = ws_workersDev expected \<and>
      ws_observability live = ws_observability expected"
  using compared_plain[OF assms]
  by (auto simp: workerMismatches_def Let_def keysOnlyIn_empty settingMismatch_def set_comparedKeys keyOf_image_subset)

lemma keysOnlyIn_compared:
  assumes "b \<in> comparedBindings s - comparedBindings t" "Ball (comparedBindings s) plainBinding" "Ball (comparedBindings t) plainBinding"
  shows "keyOf b \<in> set (keysOnlyIn (comparedKeys (ws_bindings s)) (comparedKeys (ws_bindings t)))"
  using assms keyOf_inject[of b] by (auto simp: keysOnlyIn_def set_comparedKeys)

text \<open>
  The comparison of a live worker with the table is exact: it says nothing exactly when both have the same bindings,
  by name and type, apart from those the tool added, and the same two settings; and a binding that only one of them has
  is named with the side that has it.
\<close>

theorem worker_check_is_exact:
  assumes "\<forall>b\<in>set (ws_bindings live) \<union> set (ws_bindings expected). plainBinding b"
  shows "(workerMismatches live expected = [] \<longleftrightarrow>
      comparedBindings live = comparedBindings expected \<and> ws_workersDev live = ws_workersDev expected \<and>
      ws_observability live = ws_observability expected) \<and>
    (\<forall>b\<in>comparedBindings live - comparedBindings expected.
      keyOf b @ '' is live but not declared'' \<in> set (workerMismatches live expected)) \<and>
    (\<forall>b\<in>comparedBindings expected - comparedBindings live.
      keyOf b @ '' is declared but not live'' \<in> set (workerMismatches live expected))"
  using workerMismatches_empty[OF assms] keysOnlyIn_compared[OF _ compared_plain[OF assms]]
    keysOnlyIn_compared[OF _ compared_plain(2,1)[OF assms]]
  by (simp add: workerMismatches_def Let_def)

text \<open>A live worker of the production stage that lost a secret and was given a variable by hand.\<close>

definition driftedSettings :: workerSettings where
  "driftedSettings = \<lparr>ws_bindings = \<lparr>wb_name = ''ALCHEMY_PHASE'', wb_type = ''plain_text''\<rparr>
       # \<lparr>wb_name = ''DEBUG'', wb_type = ''plain_text''\<rparr> # butlast (expectedBindings Production),
     ws_workersDev = False, ws_observability = False\<rparr>"

theorem worker_check_is_exact_witness:
  "keyOf \<lparr>wb_name = ''DEBUG'', wb_type = ''plain_text''\<rparr> @ '' is live but not declared''
     \<in> set (workerMismatches driftedSettings (expectedSettings Production)) \<and>
   workerMismatches driftedSettings (expectedSettings Production) \<noteq> []"
proof -
  have plain: "\<forall>b\<in>set (ws_bindings driftedSettings) \<union> set (ws_bindings (expectedSettings Production)). plainBinding b"
    by code_simp
  have "\<lparr>wb_name = ''DEBUG'', wb_type = ''plain_text''\<rparr> \<in> comparedBindings driftedSettings - comparedBindings (expectedSettings Production)"
    unfolding comparedBindings_def by code_simp
  with worker_check_is_exact[OF plain] show ?thesis by fastforce
qed

section \<open>A deployment\<close>

text \<open>What Cloudflare reports of a deployed worker: the assets, and the type of each binding.\<close>

fun bindingType :: "envBinding \<Rightarrow> string" where
  "bindingType (DurableObjectClass c) = ''durable_object_namespace''"
| "bindingType VersionMetadata = ''version_metadata''"
| "bindingType (HyperdriveLookup n) = ''hyperdrive''"
| "bindingType (PlainText v) = ''plain_text''"
| "bindingType (StoreSecret n) = ''secrets_store_secret''"

definition reportedSettings :: "deployedWorker \<Rightarrow> workerSettings" where
  "reportedSettings d = \<lparr>ws_bindings = \<lparr>wb_name = ''ASSETS'', wb_type = ''assets''\<rparr> #
       map (\<lambda>(name, b). \<lparr>wb_name = name, wb_type = bindingType b\<rparr>) (dw_env d),
     ws_workersDev = sp_workersDev (dw_served d), ws_observability = wr_observability (dw_runtime d)\<rparr>"

text \<open>The environment the worker runs with, when the Secrets Store holds \<open>secret\<close>.\<close>

definition environmentOf :: "(string \<Rightarrow> string option) \<Rightarrow> deployedWorker \<Rightarrow> worker_env" where
  "environmentOf secret d name = (case map_of (dw_env d) name of
     Some (PlainText v) \<Rightarrow> TextBinding v
   | Some (StoreSecret n) \<Rightarrow> SecretsStoreSecret (secret n)
   | _ \<Rightarrow> OtherBinding)"

definition stageVar :: "stageName \<Rightarrow> string \<Rightarrow> string" where
  "stageVar stage name = the (map_of (sc_vars (STAGES stage)) name)"

lemma resolveSecretBindingsFrom_True:
  "(\<forall>n\<in>set names. env n \<noteq> SecretsStoreSecret None) \<Longrightarrow> fst (resolveSecretBindingsFrom names env p)"
  by (induction names env p rule: resolveSecretBindingsFrom.induct) (auto split: binding.splits option.splits)

lemma stack_env:
  assumes "taimeiAuthStack account mode (stageKey stage) = Inr d"
  shows "dw_env d = map (\<lambda>(binding, className). (binding, DurableObjectClass className)) DURABLE_OBJECT_BINDINGS
      @ [(''CF_VERSION_METADATA'', VersionMetadata), (''HYPERDRIVE'', HyperdriveLookup (sc_hyperdriveName (STAGES stage)))]
      @ map (\<lambda>(k, v). (k, PlainText v)) (sc_vars (STAGES stage)) @ map (\<lambda>n. (n, StoreSecret n)) (sc_secrets (STAGES stage))"
    "dw_runtime d = WORKER_RUNTIME" "sp_workersDev (dw_served d) = (sc_servedAt (STAGES stage) = WorkersDevBehindAccess)"
    "dw_traffic d = (if mode = Some ''gate'' then Some 0 else None)"
    "sp_workersDev (dw_served d) \<longrightarrow> sp_access (dw_served d) \<noteq> None"
proof -
  have parse: "parseStage (stageKey stage) = Inr stage" by (cases stage) (simp_all add: parseStage_def)
  have bind: "foldl bindSecret d0 ns = d0\<lparr>dw_env := dw_env d0 @ map (\<lambda>n. (n, StoreSecret n)) ns\<rparr>" for d0 ns
    by (induction ns arbitrary: d0) (simp_all add: bindSecret_def)
  from assms have "dw_env d = map (\<lambda>(binding, className). (binding, DurableObjectClass className)) DURABLE_OBJECT_BINDINGS
      @ [(''CF_VERSION_METADATA'', VersionMetadata), (''HYPERDRIVE'', HyperdriveLookup (sc_hyperdriveName (STAGES stage)))]
      @ map (\<lambda>(k, v). (k, PlainText v)) (sc_vars (STAGES stage)) @ map (\<lambda>n. (n, StoreSecret n)) (sc_secrets (STAGES stage)) \<and>
      dw_runtime d = WORKER_RUNTIME \<and> sp_workersDev (dw_served d) = (sc_servedAt (STAGES stage) = WorkersDevBehindAccess) \<and>
      dw_traffic d = (if mode = Some ''gate'' then Some 0 else None) \<and> (sp_workersDev (dw_served d) \<longrightarrow> sp_access (dw_served d) \<noteq> None)"
    by (auto simp: taimeiAuthStack_def authWorker_def parse bind servedAtProps_def parseDeployMode_def Let_def
        split: sum.splits servedAt.splits if_splits)
  then show "dw_env d = map (\<lambda>(binding, className). (binding, DurableObjectClass className)) DURABLE_OBJECT_BINDINGS
      @ [(''CF_VERSION_METADATA'', VersionMetadata), (''HYPERDRIVE'', HyperdriveLookup (sc_hyperdriveName (STAGES stage)))]
      @ map (\<lambda>(k, v). (k, PlainText v)) (sc_vars (STAGES stage)) @ map (\<lambda>n. (n, StoreSecret n)) (sc_secrets (STAGES stage))"
    "dw_runtime d = WORKER_RUNTIME" "sp_workersDev (dw_served d) = (sc_servedAt (STAGES stage) = WorkersDevBehindAccess)"
    "dw_traffic d = (if mode = Some ''gate'' then Some 0 else None)"
    "sp_workersDev (dw_served d) \<longrightarrow> sp_access (dw_served d) \<noteq> None" by simp_all
qed

lemma deployment_passes_check:
  assumes "taimeiAuthStack account mode (stageKey stage) = Inr d"
  shows "workerMismatches (reportedSettings d) (expectedSettings stage) = []"
proof -
  have plain: "\<forall>b\<in>set (ws_bindings (reportedSettings d)) \<union> set (ws_bindings (expectedSettings stage)). plainBinding b"
    by (cases stage) (simp_all add: reportedSettings_def expectedSettings_def expectedBindings_def stack_env[OF assms] plainBinding_def
        DURABLE_OBJECT_BINDINGS_def SECRET_BINDING_NAMES_def)
  have "set (ws_bindings (reportedSettings d)) = set (ws_bindings (expectedSettings stage))"
    by (cases stage) (auto simp: reportedSettings_def expectedSettings_def expectedBindings_def stack_env[OF assms]
        DURABLE_OBJECT_BINDINGS_def SECRET_BINDING_NAMES_def)
  then have "comparedBindings (reportedSettings d) = comparedBindings (expectedSettings stage)"
    by (simp add: comparedBindings_def)
  moreover have "ws_workersDev (reportedSettings d) = ws_workersDev (expectedSettings stage)"
    "ws_observability (reportedSettings d) = ws_observability (expectedSettings stage)"
    by (simp_all add: reportedSettings_def expectedSettings_def stack_env[OF assms])
  ultimately show ?thesis using workerMismatches_empty[OF plain] by simp
qed

lemma secrets_resolve:
  assumes "taimeiAuthStack account mode (stageKey stage) = Inr d"
    and "\<forall>n\<in>set (sc_secrets (STAGES stage)). secret n \<noteq> None"
  shows "fst (resolveSecretBindings (environmentOf secret d) p)"
  unfolding resolveSecretBindings_def
  by (rule resolveSecretBindingsFrom_True, cases stage)
    (use assms(2) in \<open>simp_all add: environmentOf_def stack_env[OF assms(1)] SECRET_BINDING_NAMES_def DURABLE_OBJECT_BINDINGS_def\<close>)

lemma stage_environment:
  assumes "taimeiAuthStack account mode (stageKey stage) = Inr d"
  shows "(k, v) \<in> set (sc_vars (STAGES stage)) \<Longrightarrow> environmentOf secret d k = TextBinding v"
    "environmentOf secret d ''AUTH_SECRET'' = SecretsStoreSecret (secret ''AUTH_SECRET'')"
proof -
  have keys: "distinct (map fst (dw_env d))" unfolding stack_env(1)[OF assms] by (cases stage; simp only:; code_simp)
  have "(k, PlainText v) \<in> set (dw_env d)" if "(k, v) \<in> set (sc_vars (STAGES stage))"
    using that by (force simp: stack_env(1)[OF assms])
  then show "(k, v) \<in> set (sc_vars (STAGES stage)) \<Longrightarrow> environmentOf secret d k = TextBinding v"
    using map_of_is_SomeI[OF keys] by (simp add: environmentOf_def)
  have "(''AUTH_SECRET'', StoreSecret ''AUTH_SECRET'') \<in> set (dw_env d)"
    by (cases stage) (simp_all add: stack_env(1)[OF assms] SECRET_BINDING_NAMES_def)
  then show "environmentOf secret d ''AUTH_SECRET'' = SecretsStoreSecret (secret ''AUTH_SECRET'')"
    using map_of_is_SomeI[OF keys] by (simp add: environmentOf_def)
qed

lemma stage_addresses:
  "stageVar stage ''AUTH_SERVICE_URL'' \<in> set (getTrustedOrigins (Some (stageVar stage ''AUTH_TRUSTED_ORIGINS'')))"
  "resolveCrossSubDomainCookies (Some (stageVar stage ''AUTH_COOKIE_DOMAIN'')) =
    \<lparr>cd_enabled = True, cd_domain = stageVar stage ''AUTH_COOKIE_DOMAIN''\<rparr>"
  by (cases stage; simp only:; code_simp)+


text \<open>The gate of the staging environment, whose Secrets Store answers every name with the same 32 characters.\<close>

definition demoSecrets :: "string \<Rightarrow> string option" where
  "demoSecrets name = Some (replicate 32 (CHR ''s''))"

definition stagedWorker :: "deployedWorker \<Rightarrow> worker" where
  "stagedWorker d = freshWorker\<lparr>wk_env := snd (resolveSecretBindings (environmentOf demoSecrets d) Map.empty)\<rparr>"


end
