(* ===== verification/NonProduction.thy ===== *)
theory NonProduction
  imports SpaContract RouteErrors
begin

text \<open>
  The developer home, served outside of production only: \<open>testing/serve-only-outside-production.ts\<close>,
  \<open>non-production-redirect-hosts-check.ts\<close>, \<open>non-production-worker.ts\<close>, \<open>redirect-hosts.ts\<close>, \<open>auth-host-origin.ts\<close>,
  \<open>browser-key.ts\<close>, \<open>chosen-account.ts\<close>, \<open>sent-links.ts\<close>, \<open>dev-home.ts\<close> and \<open>non-production-shell.ts\<close>, the queries of
  \<open>db/testing/dev-accounts.ts\<close>, and the page of \<open>web/non-production\<close>. It signs a developer in as another user; what keeps
  it harmless is who it offers, whose form it takes, and where it is served. Texts in Japanese are constructors.
\<close>

section \<open>Served outside of production only\<close>

definition APP_ENVS_OUTSIDE_PRODUCTION :: "string list" where
  "APP_ENVS_OUTSIDE_PRODUCTION = [''development'', ''test'', ''staging'']"

definition isOutsideProduction :: "string option \<Rightarrow> bool" where
  "isOutsideProduction appEnv \<longleftrightarrow> appEnv \<in> Some ` set APP_ENVS_OUTSIDE_PRODUCTION"

text \<open>A worker: what it answers to a request in an environment, and what it did to the rest of the world.\<close>

type_synonym ('q, 's) fetchHandler = "(string \<Rightarrow> string option) \<Rightarrow> 'q \<Rightarrow> 's \<Rightarrow> response \<times> 's"

definition fatalResponse :: "string \<Rightarrow> response" where
  "fatalResponse message = \<lparr>rs_status = 500, rs_headers = TEXT_HEADERS, rs_body = message\<rparr>"

definition OUTSIDE_PRODUCTION_ONLY_MESSAGE :: string where
  "OUTSIDE_PRODUCTION_ONLY_MESSAGE = ''FATAL: the non-production entries serve requests only with '' @
     ''APP_ENV=development, APP_ENV=test, or APP_ENV=staging.''"

definition serveOnlyOutsideProduction :: "('q, 's) fetchHandler \<Rightarrow> ('q, 's) fetchHandler" where
  "serveOnlyOutsideProduction handler = (\<lambda>env req s.
     if isOutsideProduction (env ''APP_ENV'') then handler env req s
     else (fatalResponse OUTSIDE_PRODUCTION_ONLY_MESSAGE, s))"

definition usesNonProductionRedirectHosts :: "string list \<Rightarrow> bool" where
  "usesNonProductionRedirectHosts allowedProtocols \<longleftrightarrow> ''http:'' \<in> set allowedProtocols"

definition REDIRECT_HOSTS_NOT_SWAPPED_IN_WORKER :: string where
  "REDIRECT_HOSTS_NOT_SWAPPED_IN_WORKER = ''FATAL: the non-production worker entries (testing/worker.ts, '' @
     ''testing/staging-worker.ts) must be built with --config testing/wrangler.jsonc '' @
     ''(its alias swaps the redirect allowlist).''"

definition serveOnlyWithNonProductionRedirectHosts :: "bool \<Rightarrow> ('q, 's) fetchHandler \<Rightarrow> ('q, 's) fetchHandler" where
  "serveOnlyWithNonProductionRedirectHosts inEffect handler = (\<lambda>env req s.
     if inEffect then handler env req s else (fatalResponse REDIRECT_HOSTS_NOT_SWAPPED_IN_WORKER, s))"

text \<open>\<open>allowedProtocols\<close> is what the module \<open>redirect-hosts\<close> of the bundle says; \<open>createdWorker\<close> what \<open>createWorker\<close> made.\<close>

definition nonProductionWorker :: "string list \<Rightarrow> ('q, 's) fetchHandler \<Rightarrow> ('q, 's) fetchHandler" where
  "nonProductionWorker allowedProtocols createdWorker =
     serveOnlyOutsideProduction
       (serveOnlyWithNonProductionRedirectHosts (usesNonProductionRedirectHosts allowedProtocols) createdWorker)"

section \<open>Where the developer home sends back to\<close>

definition ALLOWED_PROTOCOLS_OUTSIDE_PRODUCTION :: "string list" where
  "ALLOWED_PROTOCOLS_OUTSIDE_PRODUCTION = [''http:'', ''https:'']"

definition allowedHostOutsideProduction :: "string \<Rightarrow> string \<Rightarrow> bool" where
  "allowedHostOutsideProduction service host \<longleftrightarrow>
     (service = ''taimei'' \<and> host \<in> {''app.taimei-code.com'', ''app.taimei-code.localhost'', ''localhost'',
        ''taimei-staging.taimei-staging.workers.dev''}) \<or>
     (service = ''accounts'' \<and> host \<in> {''auth.taimei-code.com'', ''auth.taimei-code.localhost'', ''localhost'',
        ''taimei-auth-staging.taimei-staging.workers.dev''})"

text \<open>\<open>validateRedirectUrl\<close> of \<open>src/url-allowlist.ts\<close> with the module of \<open>testing/redirect-hosts.ts\<close> in place.\<close>

definition redirectAllowedOutsideProduction :: "url_parser \<Rightarrow> string \<Rightarrow> string \<Rightarrow> bool" where
  "redirectAllowedOutsideProduction parseUrl redirectUrl service =
     (case parseUrl redirectUrl of
        None \<Rightarrow> False
      | Some u \<Rightarrow>
          (if ur_protocol u \<notin> set ALLOWED_PROTOCOLS_OUTSIDE_PRODUCTION then False
           else if ur_username u \<noteq> [] \<or> ur_password u \<noteq> [] then False
           else allowedHostOutsideProduction service (withoutTrailingDot (ur_hostname u))))"

text \<open>\<open>Object.fromEntries(url.searchParams)\<close>: the last entry of a name counts.\<close>

definition redirectTargetOf :: "url_parser \<Rightarrow> url \<Rightarrow> (redirectTarget option, 'x) eff" where
  "redirectTargetOf parseUrl u = (let query = map_of (rev (ur_searchParams u)) in
     case (query ''service_name'', query ''redirect_url'') of
       (None, None) \<Rightarrow> succeed None
     | (Some service, Some redirect) \<Rightarrow>
         (if service \<in> set SERVICE_NAMES \<and> isBetweenLength 1 2048 redirect \<and>
             redirectAllowedOutsideProduction parseUrl redirect service
          then succeed (Some \<lparr>rt_service_name = service, rt_redirect_url = redirect\<rparr>)
          else failWith InvalidArgument)
     | _ \<Rightarrow> failWith InvalidArgument)"

section \<open>The state of the entry\<close>

datatype cookieChange = SetCookie string string | DeleteCookie string

text \<open>
  The state beside that of the service: the links of the mails that were recorded instead of sent (by address and
  callback), the table \<open>testing_browser_account\<close>, the cookies the answer to the current request is to set, and
  better-auth's own. better-auth calls back into the recording sender, so its calls may change all of it.
\<close>

record 'y nonProduction =
  np_sentLinks :: "((string \<times> string option) \<times> string list) list"
  np_browserAccounts :: "(string \<times> id) list"
  np_setCookies :: "cookieChange list"
  np_auth :: 'y

type_synonym ('a, 'y) np_eff = "('a, 'y nonProduction) eff"

definition updateState :: "('y nonProduction \<Rightarrow> 'y nonProduction) \<Rightarrow> (unit, 'y) np_eff" where
  "updateState f = (\<lambda>w. (Inr (), w\<lparr>w_auth := f (w_auth w)\<rparr>))"

definition setCookie :: "cookieChange \<Rightarrow> (unit, 'y) np_eff" where
  "setCookie c = updateState (\<lambda>s. s\<lparr>np_setCookies := np_setCookies s @ [c]\<rparr>)"

text \<open>A statement in \<open>Effect.promise\<close>: when the call is lost, it is a defect.\<close>

definition testingDb ::
    "(database \<Rightarrow> (string \<times> id) list \<Rightarrow> 'a \<times> (string \<times> id) list) \<Rightarrow> ('a, 'y) np_eff" where
  "testingDb stmt = (\<lambda>w.
     let w' = w\<lparr>w_dbCalls := Suc (w_dbCalls w)\<rparr>;
         (a, accounts) = stmt (w_db w) (np_browserAccounts (w_auth w));
         applied = w'\<lparr>w_auth := (w_auth w)\<lparr>np_browserAccounts := accounts\<rparr>\<rparr>
     in case w_dbFaults w (w_dbCalls w) of
          Lost \<Rightarrow> (Inl (Die (ThrownError ''database'')), w')
        | AppliedButLost \<Rightarrow> (Inl (Die (ThrownError ''database'')), applied)
        | NoFault \<Rightarrow> (Inr a, applied))"

section \<open>Recorded links\<close>

definition recordLink :: "string \<Rightarrow> string option \<Rightarrow> string \<Rightarrow> 'y nonProduction \<Rightarrow> 'y nonProduction" where
  "recordLink email callbackURL link s =
     (let key = (email, callbackURL);
          links = (case map_of (np_sentLinks s) key of None \<Rightarrow> [link] | Some ls \<Rightarrow> ls @ [link])
      in s\<lparr>np_sentLinks := AList.update key links (np_sentLinks s)\<rparr>)"

definition takeSentLink :: "string \<Rightarrow> string \<Rightarrow> (string option, 'y) np_eff" where
  "takeSentLink email callbackURL = (\<lambda>w.
     let s = w_auth w; key = (email, Some callbackURL)
     in case map_of (np_sentLinks s) key of
          None \<Rightarrow> (Inr None, w)
        | Some links \<Rightarrow>
            (if length links \<le> 1
             then (Inr (if links = [] then None else Some (last links)),
                   w\<lparr>w_auth := s\<lparr>np_sentLinks := AList.delete key (np_sentLinks s)\<rparr>\<rparr>)
             else (Inr (Some (last links)),
                   w\<lparr>w_auth := s\<lparr>np_sentLinks := AList.update key (butlast links) (np_sentLinks s)\<rparr>\<rparr>)))"

definition magicLinkUrlFor :: "'y nonProduction better_auth \<Rightarrow> string \<Rightarrow> string \<Rightarrow> (string, 'y) np_eff" where
  "magicLinkUrlFor A email callbackURL =
     andDo (signInMagicLink A email callbackURL)
       (andThen (takeSentLink email callbackURL) (\<lambda>link.
          case link of
            None \<Rightarrow> dieWith (ThrownError ''no email to the user was recorded with the callbackURL of the Magic Link'')
          | Some l \<Rightarrow> succeed l))"

section \<open>Who can be chosen\<close>

definition DEV_ACCOUNT_IDS :: "string list" where
  "DEV_ACCOUNT_IDS = [''dev-account-owner'', ''dev-account-admin'', ''dev-account-member'']"

text \<open>\<open>INSERT \<dots> SELECT id FROM "user" WHERE id = \<dots> ON CONFLICT DO NOTHING\<close>\<close>

definition addBrowserAccount :: "string \<Rightarrow> id \<Rightarrow> (unit, 'y) np_eff" where
  "addBrowserAccount browserKey userId = testingDb (\<lambda>d accounts. ((),
     if userId \<in> userIds d \<and> (browserKey, userId) \<notin> set accounts then accounts @ [(browserKey, userId)] else accounts))"

definition choosableBy :: "string option \<Rightarrow> (string \<times> id) list \<Rightarrow> user \<Rightarrow> bool" where
  "choosableBy browserKey accounts u \<longleftrightarrow> us_id u \<in> set DEV_ACCOUNT_IDS \<or>
     (case browserKey of None \<Rightarrow> False | Some key \<Rightarrow> (key, us_id u) \<in> set accounts)"

record pageCompany =
  pc_id :: id
  pc_name :: string
  pc_role :: role
  pc_isCurrent :: bool

record pageAccount =
  pa_id :: id
  pa_name :: string
  pa_email :: string
  pa_companies :: "pageCompany list"

definition companyRow :: "database \<Rightarrow> id \<Rightarrow> company option" where
  "companyRow d i = at0 (filter (\<lambda>c. co_id c = i) (d_company d))"

text \<open>\<open>pageAccountOf\<close> on a row of \<open>listChoosableAccounts\<close>: the user with its memberships of active companies.\<close>

definition pageAccountOf :: "database \<Rightarrow> user \<Rightarrow> pageAccount" where
  "pageAccountOf d u =
     \<lparr>pa_id = us_id u, pa_name = us_name u, pa_email = us_email u,
      pa_companies = List.map_filter (\<lambda>m. case companyRow d (mb_companyId m) of
          None \<Rightarrow> None
        | Some c \<Rightarrow> (if co_activationStatus c = ACTIVE
            then Some \<lparr>pc_id = co_id c, pc_name = co_name c, pc_role = mb_role m,
                   pc_isCurrent = (us_lastUsedCompanyId u = Some (co_id c))\<rparr>
            else None))
        (filter (\<lambda>m. mb_userId m = us_id u) (d_membership d))\<rparr>"

definition listChoosableAccounts :: "string option \<Rightarrow> (pageAccount list, 'y) np_eff" where
  "listChoosableAccounts browserKey = testingDb (\<lambda>d accounts.
     (map (pageAccountOf d) (sort_key (\<lambda>u. (us_createdAt u, us_id u)) (filter (choosableBy browserKey accounts) (d_user d))),
      accounts))"

definition findChoosableAccount :: "string option \<Rightarrow> id \<Rightarrow> ((id \<times> string) option, 'y) np_eff" where
  "findChoosableAccount browserKey userId = testingDb (\<lambda>d accounts.
     (map_option (\<lambda>u. (us_id u, us_email u))
        (at0 (filter (\<lambda>u. us_id u = userId \<and> choosableBy browserKey accounts u) (d_user d))), accounts))"

section \<open>The request\<close>

text \<open>
  What a handler reads: the address, the headers, the cookies as Hono's \<open>getCookie\<close> answers them, and \<open>userId\<close> of the
  form (\<open>None\<close> when the body is not a form with that text). The environment: better-auth, the sender's
  \<open>recordsEmailTo\<close>, the address in a session of better-auth, zod's test for a UUID, the URL parser, and the configured
  address of the host.
\<close>

record devHomeRequest =
  dq_url :: string
  dq_headers :: headers
  dq_cookies :: "string \<Rightarrow> string option"
  dq_userId :: "string option"

record 'y testingEnv =
  te_auth :: "'y nonProduction better_auth"
  te_recordsEmailTo :: "string \<Rightarrow> bool"
  te_sessionEmail :: "id \<Rightarrow> string"
  te_isUuid :: "string \<Rightarrow> bool"
  te_parseUrl :: url_parser
  te_appUrl :: string

definition OPAQUE_ORIGIN :: string where
  "OPAQUE_ORIGIN = ''null''"

definition authHostOrigin :: "'y testingEnv \<Rightarrow> (string, 'y) np_eff" where
  "authHostOrigin T = (case te_parseUrl T (te_appUrl T) of
     None \<Rightarrow> dieWith (ThrownError ''Invalid URL'')
   | Some u \<Rightarrow> succeed (ur_origin u))"

definition authHostOriginCheck :: "'y testingEnv \<Rightarrow> devHomeRequest \<Rightarrow> (middlewareDecision, 'y) np_eff" where
  "authHostOriginCheck T q = andThen (authHostOrigin T) (\<lambda>expected.
     if expected \<noteq> OPAQUE_ORIGIN \<and> headersGet (dq_headers q) ''origin'' = Some expected then succeed Continue
     else failWith Forbidden)"

definition requireAuthHostOrigin ::
    "'y testingEnv \<Rightarrow> devHomeRequest \<Rightarrow> ('y nonProduction world \<Rightarrow> response \<times> 'y nonProduction world) \<Rightarrow>
      'y nonProduction world \<Rightarrow> response \<times> 'y nonProduction world" where
  "requireAuthHostOrigin T q continue = runMiddleware continue (authHostOriginCheck T q)"

definition BROWSER_KEY_COOKIE :: string where
  "BROWSER_KEY_COOKIE = ''testing_browser_key''"

definition browserKeyOf :: "'y testingEnv \<Rightarrow> devHomeRequest \<Rightarrow> string option" where
  "browserKeyOf T q = (case dq_cookies q BROWSER_KEY_COOKIE of
     None \<Rightarrow> None
   | Some k \<Rightarrow> if te_isUuid T k then Some k else None)"

definition browserKeyIssuedIfMissing :: "'y testingEnv \<Rightarrow> devHomeRequest \<Rightarrow> (string, 'y) np_eff" where
  "browserKeyIssuedIfMissing T q = (case browserKeyOf T q of
     Some existing \<Rightarrow> succeed existing
   | None \<Rightarrow> andThen randomUUID (\<lambda>issued. andDo (setCookie (SetCookie BROWSER_KEY_COOKIE issued)) (succeed issued)))"

definition chosenAccountOf :: "'y testingEnv \<Rightarrow> devHomeRequest \<Rightarrow> (id \<times> string, 'y) np_eff" where
  "chosenAccountOf T q = (case dq_userId q of
     None \<Rightarrow> failWith InvalidArgument
   | Some userId \<Rightarrow> andThen (findChoosableAccount (browserKeyOf T q) userId) (\<lambda>account.
       case account of None \<Rightarrow> failWith NotFound | Some a \<Rightarrow> succeed a))"

section \<open>The developer home\<close>

definition DEV_HOME_PATH :: string where
  "DEV_HOME_PATH = ''/dev-home''"

definition DEV_HOME_SIGN_IN_PATH :: string where
  "DEV_HOME_SIGN_IN_PATH = DEV_HOME_PATH @ ''/sign-in''"

definition DEV_HOME_SIGN_OUT_PATH :: string where
  "DEV_HOME_SIGN_OUT_PATH = DEV_HOME_PATH @ ''/sign-out''"

definition CHOSEN_USER_COOKIE :: string where
  "CHOSEN_USER_COOKIE = ''dev_home_chosen_user''"

definition SIGNED_OUT_COOKIE :: string where
  "SIGNED_OUT_COOKIE = ''dev_home_signed_out''"

text \<open>The query as \<open>URLSearchParams\<close> prints it is a parameter of the platform.\<close>

definition devHomeCallbackURLOf :: "((string \<times> string) list \<Rightarrow> string) \<Rightarrow> url \<Rightarrow> string" where
  "devHomeCallbackURLOf printQuery u = (let query = printQuery (ur_searchParams u)
     in if query = [] then DEV_HOME_PATH else DEV_HOME_PATH @ ''?'' @ query)"

datatype destination = AccountPage | Application string

definition destinationOf :: "redirectTarget option \<Rightarrow> destination" where
  "destinationOf target = (case target of None \<Rightarrow> AccountPage | Some t \<Rightarrow> Application (rt_redirect_url t))"

text \<open>The flag is the notice: just signed in, just signed out.\<close>

datatype viewer = SignedInAs pageAccount bool | SignedOut bool

definition viewerOf :: "devHomeRequest \<Rightarrow> pageAccount option \<Rightarrow> viewer" where
  "viewerOf q signedIn = (case signedIn of
     Some a \<Rightarrow> SignedInAs a (dq_cookies q CHOSEN_USER_COOKIE = Some (pa_id a))
   | None \<Rightarrow> SignedOut (dq_cookies q SIGNED_OUT_COOKIE \<noteq> None))"

record devHomeProps =
  dp_devAccounts :: "pageAccount list"
  dp_browserAccounts :: "pageAccount list"
  dp_viewer :: viewer
  dp_destination :: destination
  dp_signInAction :: string
  dp_signOutAction :: string

text \<open>\<open>new URL(c.req.url)\<close>; the user of the session, if there is one.\<close>

definition requestUrl :: "'y testingEnv \<Rightarrow> devHomeRequest \<Rightarrow> (url, 'y) np_eff" where
  "requestUrl T q = (case te_parseUrl T (dq_url q) of None \<Rightarrow> dieWith (ThrownError ''Invalid URL'') | Some u \<Rightarrow> succeed u)"

definition sessionUserId :: "auth_session option \<Rightarrow> id option" where
  "sessionUserId s = Option.bind s (\<lambda>s. map_option su_id (as_user s))"

datatype devHomeAnswer = ShowDevHome devHomeProps | InvalidRedirectPage

definition rememberSignedIn :: "'y testingEnv \<Rightarrow> string \<Rightarrow> id option \<Rightarrow> (unit, 'y) np_eff" where
  "rememberSignedIn T browserKey sessionUser = (case sessionUser of
     None \<Rightarrow> succeed ()
   | Some u \<Rightarrow> if te_recordsEmailTo T (te_sessionEmail T u) then addBrowserAccount browserKey u else succeed ())"

definition devHomeProgram :: "'y testingEnv \<Rightarrow> devHomeRequest \<Rightarrow> (devHomeAnswer, 'y) np_eff" where
  "devHomeProgram T q = catchIf (\<lambda>e. e = InvalidArgument) (\<lambda>_. succeed InvalidRedirectPage)
     (andThen (requestUrl T q) (\<lambda>u.
      andThen (redirectTargetOf (te_parseUrl T) u) (\<lambda>redirectTarget.
      andThen (browserKeyIssuedIfMissing T q) (\<lambda>browserKey.
      andThen (getSession (te_auth T) (dq_headers q)) (\<lambda>session.
      andDo (rememberSignedIn T browserKey (sessionUserId session))
      (andThen (listChoosableAccounts (Some browserKey)) (\<lambda>accounts.
        let signedIn = find (\<lambda>a. Some (pa_id a) = sessionUserId session) accounts
        in andDo (setCookie (DeleteCookie CHOSEN_USER_COOKIE))
          (andDo (setCookie (DeleteCookie SIGNED_OUT_COOKIE))
          (succeed (ShowDevHome
            \<lparr>dp_devAccounts = filter (\<lambda>a. pa_id a \<in> set DEV_ACCOUNT_IDS) accounts,
             dp_browserAccounts = filter (\<lambda>a. pa_id a \<notin> set DEV_ACCOUNT_IDS) accounts,
             dp_viewer = viewerOf q signedIn, dp_destination = destinationOf redirectTarget,
             dp_signInAction = DEV_HOME_SIGN_IN_PATH @ ur_search u,
             dp_signOutAction = DEV_HOME_SIGN_OUT_PATH @ ur_search u\<rparr>))))))))))"

definition seeOther :: "string \<Rightarrow> response" where
  "seeOther location = \<lparr>rs_status = 303, rs_headers = [(''location'', location)], rs_body = []\<rparr>"

definition signInProgram ::
    "'y testingEnv \<Rightarrow> ((string \<times> string) list \<Rightarrow> string) \<Rightarrow> devHomeRequest \<Rightarrow> (response, 'y) np_eff" where
  "signInProgram T printQuery q =
     andThen (requestUrl T q) (\<lambda>u.
     andThen (redirectTargetOf (te_parseUrl T) u) (\<lambda>_.
     andThen (chosenAccountOf T q) (\<lambda>(userId, email).
     andThen (magicLinkUrlFor (te_auth T) email (devHomeCallbackURLOf printQuery u)) (\<lambda>magicLinkUrl.
     andDo (setCookie (SetCookie CHOSEN_USER_COOKIE userId)) (succeed (seeOther magicLinkUrl))))))"

definition signOutProgram :: "'y testingEnv \<Rightarrow> devHomeRequest \<Rightarrow> (response, 'y) np_eff" where
  "signOutProgram T q =
     andThen (requestUrl T q) (\<lambda>u.
     andThen (redirectTargetOf (te_parseUrl T) u) (\<lambda>_.
     andThen (signOut (te_auth T) (dq_headers q)) (\<lambda>clearCookieHeaders.
     andDo (setCookie (SetCookie SIGNED_OUT_COOKIE ''1''))
       (succeed \<lparr>rs_status = 303, rs_headers = (''location'', DEV_HOME_PATH @ ur_search u) #
          filter (\<lambda>(name, _). toLowerCase name = ''set-cookie'') clearCookieHeaders, rs_body = []\<rparr>))))"

text \<open>The two forms are behind the check of the origin.\<close>

definition postSignIn ::
    "'y testingEnv \<Rightarrow> ((string \<times> string) list \<Rightarrow> string) \<Rightarrow> devHomeRequest \<Rightarrow> 'y nonProduction world \<Rightarrow>
      response \<times> 'y nonProduction world" where
  "postSignIn T printQuery q = requireAuthHostOrigin T q (runRoute (signInProgram T printQuery q))"

definition postSignOut ::
    "'y testingEnv \<Rightarrow> devHomeRequest \<Rightarrow> 'y nonProduction world \<Rightarrow> response \<times> 'y nonProduction world" where
  "postSignOut T q = requireAuthHostOrigin T q (runRoute (signOutProgram T q))"

section \<open>The data of the page\<close>

definition companyJson :: "pageCompany \<Rightarrow> json" where
  "companyJson c = JObj [(''id'', JStr (pc_id c)), (''name'', JStr (pc_name c)), (''role'', JStr (roleString (pc_role c))),
     (''isCurrent'', JBool (pc_isCurrent c))]"

definition accountJson :: "pageAccount \<Rightarrow> json" where
  "accountJson a = JObj [(''id'', JStr (pa_id a)), (''name'', JStr (pa_name a)), (''email'', JStr (pa_email a)),
     (''companies'', JArr (map companyJson (pa_companies a)))]"

fun viewerJson :: "viewer \<Rightarrow> json" where
  "viewerJson (SignedOut notice) = JObj [(''_tag'', JStr ''SignedOut''),
     (''notice'', JStr (if notice then ''JustSignedOut'' else ''None''))]"
| "viewerJson (SignedInAs a notice) = JObj [(''_tag'', JStr ''SignedIn''), (''account'', accountJson a),
     (''notice'', JStr (if notice then ''JustSignedIn'' else ''None''))]"

fun destinationJson :: "destination \<Rightarrow> json" where
  "destinationJson AccountPage = JObj [(''_tag'', JStr ''AccountPage'')]"
| "destinationJson (Application redirectUrl) = JObj [(''_tag'', JStr ''Application''), (''redirectUrl'', JStr redirectUrl)]"

definition encodePageProps :: "devHomeProps \<Rightarrow> json" where
  "encodePageProps p = JObj [(''_tag'', JStr ''DevHome''), (''devAccounts'', JArr (map accountJson (dp_devAccounts p))),
     (''browserAccounts'', JArr (map accountJson (dp_browserAccounts p))), (''viewer'', viewerJson (dp_viewer p)),
     (''destination'', destinationJson (dp_destination p)), (''signInAction'', JStr (dp_signInAction p)),
     (''signOutAction'', JStr (dp_signOutAction p))]"

text \<open>\<open>replaceAll("<", "\u003c")\<close>\<close>

definition escapeLess :: "string \<Rightarrow> string" where
  "escapeLess s = concat (map (\<lambda>c. if c = CHR ''<'' then backslash # ''u003c'' else [c]) s)"

definition jsonInsideScriptElement :: "devHomeProps \<Rightarrow> string" where
  "jsonInsideScriptElement p = escapeLess (stringify (encodePageProps p))"

fun decodeAll :: "('a \<Rightarrow> 'b option) \<Rightarrow> 'a list \<Rightarrow> 'b list option" where
  "decodeAll f [] = Some []"
| "decodeAll f (x # xs) = (case (f x, decodeAll f xs) of (Some y, Some ys) \<Rightarrow> Some (y # ys) | _ \<Rightarrow> None)"

definition decodeArray :: "(json \<Rightarrow> 'b option) \<Rightarrow> json option \<Rightarrow> 'b list option" where
  "decodeArray f v = (case v of Some (JArr xs) \<Rightarrow> decodeAll f xs | _ \<Rightarrow> None)"

fun asBool :: "json option \<Rightarrow> bool option" where
  "asBool (Some (JBool b)) = Some b"
| "asBool _ = None"

definition decodePageCompany :: "json \<Rightarrow> pageCompany option" where
  "decodePageCompany j = (case (asString (jsonField j ''id''), asString (jsonField j ''name''), decodeRole (jsonField j ''role''),
       asBool (jsonField j ''isCurrent'')) of
     (Some i, Some n, Some r, Some b) \<Rightarrow> Some \<lparr>pc_id = i, pc_name = n, pc_role = r, pc_isCurrent = b\<rparr>
   | _ \<Rightarrow> None)"

definition decodePageAccount :: "json \<Rightarrow> pageAccount option" where
  "decodePageAccount j = (case (asString (jsonField j ''id''), asString (jsonField j ''name''), asString (jsonField j ''email''),
       decodeArray decodePageCompany (jsonField j ''companies'')) of
     (Some i, Some n, Some e, Some cs) \<Rightarrow> Some \<lparr>pa_id = i, pa_name = n, pa_email = e, pa_companies = cs\<rparr>
   | _ \<Rightarrow> None)"

definition decodeNotice :: "string \<Rightarrow> json \<Rightarrow> bool option" where
  "decodeNotice notice j = (case asString (jsonField j ''notice'') of
     None \<Rightarrow> None
   | Some n \<Rightarrow> if n = notice then Some True else if n = ''None'' then Some False else None)"

definition decodeViewer :: "json option \<Rightarrow> viewer option" where
  "decodeViewer v = Option.bind v (\<lambda>j. case asString (jsonField j ''_tag'') of
     None \<Rightarrow> None
   | Some t \<Rightarrow>
       (if t = ''SignedOut'' then map_option SignedOut (decodeNotice ''JustSignedOut'' j)
        else if t = ''SignedIn'' then
          (case (Option.bind (jsonField j ''account'') decodePageAccount, decodeNotice ''JustSignedIn'' j) of
             (Some a, Some n) \<Rightarrow> Some (SignedInAs a n)
           | _ \<Rightarrow> None)
        else None))"

definition decodeDestination :: "json option \<Rightarrow> destination option" where
  "decodeDestination v = Option.bind v (\<lambda>j. case asString (jsonField j ''_tag'') of
     None \<Rightarrow> None
   | Some t \<Rightarrow>
       (if t = ''AccountPage'' then Some AccountPage
        else if t = ''Application'' then map_option Application (asString (jsonField j ''redirectUrl''))
        else None))"

definition decodePageProps :: "string \<Rightarrow> devHomeProps option" where
  "decodePageProps content = Option.bind (jsonParse content) (\<lambda>j.
     if asString (jsonField j ''_tag'') \<noteq> Some ''DevHome'' then None
     else case (decodeArray decodePageAccount (jsonField j ''devAccounts''),
         decodeArray decodePageAccount (jsonField j ''browserAccounts''), decodeViewer (jsonField j ''viewer''),
         decodeDestination (jsonField j ''destination''), asString (jsonField j ''signInAction''),
         asString (jsonField j ''signOutAction'')) of
       (Some ds, Some bs, Some v, Some d, Some i, Some o') \<Rightarrow>
         Some \<lparr>dp_devAccounts = ds, dp_browserAccounts = bs, dp_viewer = v, dp_destination = d, dp_signInAction = i,
           dp_signOutAction = o'\<rparr>
     | _ \<Rightarrow> None)"

section \<open>The page\<close>

definition FILTER_SHOWN_ABOVE_ACCOUNT_COUNT :: nat where
  "FILTER_SHOWN_ABOVE_ACCOUNT_COUNT = 8"

fun includesText :: "string \<Rightarrow> string \<Rightarrow> bool" where
  "includesText [] part \<longleftrightarrow> part = []"
| "includesText (c # s) part \<longleftrightarrow> startsWith (c # s) part \<or> includesText s part"

definition accountsMatching :: "pageAccount list \<Rightarrow> string \<Rightarrow> pageAccount list" where
  "accountsMatching accounts query = (let normalizedQuery = toLowerCase (trim query) in
     filter (\<lambda>a. includesText (toLowerCase (pa_name a @ '' '' @ pa_email a)) normalizedQuery) accounts)"

datatype devHomeNotice = JustSignedInAs string | JustSignedOut

definition noticeTextOf :: "viewer \<Rightarrow> devHomeNotice option" where
  "noticeTextOf v = (case v of
     SignedInAs a notice \<Rightarrow> (if notice then Some (JustSignedInAs (pa_name a)) else None)
   | SignedOut notice \<Rightarrow> (if notice then Some JustSignedOut else None))"

text \<open>The part on the current user: the name, the address, the companies, and the form that signs out.\<close>

record signedInUserView =
  sv_name :: string
  sv_email :: string
  sv_signOutAction :: string
  sv_companies :: "(string \<times> bool \<times> role) list"

definition SignedInUser :: "pageAccount \<Rightarrow> string \<Rightarrow> signedInUserView" where
  "SignedInUser account signOutAction = \<lparr>sv_name = pa_name account, sv_email = pa_email account,
     sv_signOutAction = signOutAction,
     sv_companies = map (\<lambda>c. (pc_name c, pc_isCurrent c, pc_role c)) (pa_companies account)\<rparr>"

text \<open>A link: the address it shows and the one it leads to.\<close>

record destinationView =
  dl_shown :: "string option"
  dl_href :: string

definition ACCOUNT_PAGE_HREF :: string where
  "ACCOUNT_PAGE_HREF = ''/account''"

fun DestinationLink :: "destination \<Rightarrow> destinationView" where
  "DestinationLink (Application redirectUrl) = \<lparr>dl_shown = Some redirectUrl, dl_href = redirectUrl\<rparr>"
| "DestinationLink AccountPage = \<lparr>dl_shown = None, dl_href = ACCOUNT_PAGE_HREF\<rparr>"

text \<open>A button of the form that signs in: its value, its text, and whether it is the current user's (then it is disabled).\<close>

record accountButton =
  bt_userId :: id
  bt_email :: string
  bt_disabled :: bool

definition AccountRows :: "pageAccount list \<Rightarrow> id option \<Rightarrow> accountButton list" where
  "AccountRows accounts signedInId =
     map (\<lambda>a. \<lparr>bt_userId = pa_id a, bt_email = pa_email a, bt_disabled = (Some (pa_id a) = signedInId)\<rparr>) accounts"

datatype groupLabel = DevAccountsLabel | BrowserAccountsLabel

datatype shownGroup = AccountGroup groupLabel "accountButton list" | HowToFillGroup groupLabel

definition MatchingAccountGroup :: "groupLabel \<Rightarrow> pageAccount list \<Rightarrow> id option \<Rightarrow> shownGroup list" where
  "MatchingAccountGroup label accounts signedInId =
     (if accounts \<noteq> [] then [AccountGroup label (AccountRows accounts signedInId)] else [])"

definition BrowserAccountGroup :: "pageAccount list \<Rightarrow> pageAccount list \<Rightarrow> id option \<Rightarrow> shownGroup list" where
  "BrowserAccountGroup accounts shownAccounts signedInId =
     (if accounts \<noteq> [] then MatchingAccountGroup BrowserAccountsLabel shownAccounts signedInId
      else [HowToFillGroup BrowserAccountsLabel])"

record accountListView =
  lv_filter :: "string option"
  lv_action :: string
  lv_groups :: "shownGroup list"
  lv_noMatchFor :: "string option"

text \<open>The list holds the text of the filter as its state.\<close>

definition AccountList ::
    "pageAccount list \<Rightarrow> pageAccount list \<Rightarrow> id option \<Rightarrow> string \<Rightarrow> string \<Rightarrow> accountListView" where
  "AccountList devAccounts browserAccounts signedInId signInAction query =
     (let shownDevAccounts = accountsMatching devAccounts query;
          shownBrowserAccounts = accountsMatching browserAccounts query
      in \<lparr>lv_filter = (if length devAccounts + length browserAccounts > FILTER_SHOWN_ABOVE_ACCOUNT_COUNT
            then Some query else None),
          lv_action = signInAction,
          lv_groups = MatchingAccountGroup DevAccountsLabel shownDevAccounts signedInId
            @ BrowserAccountGroup browserAccounts shownBrowserAccounts signedInId,
          lv_noMatchFor = (if length shownDevAccounts + length shownBrowserAccounts = 0 then Some query else None)\<rparr>)"

record devHomeView =
  dv_signedIn :: "signedInUserView option"
  dv_notice :: "devHomeNotice option"
  dv_destination :: destinationView
  dv_accounts :: accountListView

definition DevHomePage :: "devHomeProps \<Rightarrow> string \<Rightarrow> devHomeView" where
  "DevHomePage p query =
     \<lparr>dv_signedIn = (case dp_viewer p of
          SignedInAs a _ \<Rightarrow> Some (SignedInUser a (dp_signOutAction p)) | SignedOut _ \<Rightarrow> None),
      dv_notice = noticeTextOf (dp_viewer p),
      dv_destination = DestinationLink (dp_destination p),
      dv_accounts = AccountList (dp_devAccounts p) (dp_browserAccounts p)
        (case dp_viewer p of SignedInAs a _ \<Rightarrow> Some (pa_id a) | SignedOut _ \<Rightarrow> None) (dp_signInAction p) query\<rparr>"

text \<open>\<open>main.tsx\<close>: what is shown when the page is loaded, or nothing when the props cannot be read.\<close>

definition loadDevHome :: "string \<Rightarrow> devHomeView option" where
  "loadDevHome scriptContent = map_option (\<lambda>p. DevHomePage p []) (decodePageProps scriptContent)"

fun groupButtons :: "shownGroup \<Rightarrow> accountButton list" where
  "groupButtons (AccountGroup label bs) = bs"
| "groupButtons (HowToFillGroup label) = []"

definition accountButtons :: "devHomeView \<Rightarrow> accountButton list" where
  "accountButtons v = concat (map groupButtons (lv_groups (dv_accounts v)))"

end
