(* ===== verification/NonProductionProperties.thy ===== *)
theory NonProductionProperties
  imports NonProduction InfraProperties Demo
begin

text \<open>
  What keeps the developer home harmless: it is closed in production, its forms answer to its own pages only, a browser
  is offered - and may sign in as - the development accounts and those it was signed in as before, and what it shows
  of them cannot leave the element it is written into.
\<close>

section \<open>The data of the page\<close>

lemma escapeLess_simps [simp]:
  "escapeLess [] = []"
  "escapeLess (c # s) = (if c = CHR ''<'' then backslash # CHR ''u'' # CHR ''0'' # CHR ''0'' # CHR ''3'' # CHR ''c'' # escapeLess s
    else c # escapeLess s)"
  by (simp_all add: escapeLess_def)

lemma escapeLess_append [simp]: "escapeLess (s @ t) = escapeLess s @ escapeLess t"
  by (simp add: escapeLess_def)

lemma escapeLess_free: "CHR ''<'' \<notin> set (escapeLess s)"
  by (induction s) (auto simp: backslash_def)

lemma escapeLess_skipWs: "skipWs (escapeLess s) = escapeLess (skipWs s)"
  by (induction s) (auto simp: skipWs_def isJsonSpace_def ord_def backslash_def)

lemma escapeLess_Nil: "escapeLess s = [] \<longleftrightarrow> s = []"
  by (cases s) auto

lemma escapeLess_noop: "CHR ''<'' \<notin> set s \<Longrightarrow> escapeLess s = s"
  by (induction s) auto

lemma unhex4_less: "unhex4 (CHR ''0'') (CHR ''0'') (CHR ''3'') (CHR ''c'') = Some 60"
  by code_simp

lemma hexValue_less: "hexValue (CHR ''<'') = None"
  by code_simp

lemma chr_60: "chr 60 = CHR ''<''"
  by code_simp

lemma unhex4_hex:
  assumes "unhex4 a b c d = Some n" shows "CHR ''<'' \<notin> {a, b, c, d}"
proof
  have "hexValue (CHR ''<'') = None" by code_simp
  moreover assume "CHR ''<'' \<in> {a, b, c, d}"
  ultimately show False using assms by (auto simp: unhex4_def split: option.splits)
qed

lemma unescape_not_less: "unescape (CHR ''<'') = None"
  by code_simp

lemma plain_less: "CHR ''<'' \<noteq> quoteChar" "CHR ''<'' \<noteq> backslash" "quoteChar \<noteq> backslash" "CHR ''u'' \<noteq> backslash"
  by (simp_all add: quoteChar_def backslash_def)

lemma parseChars_escapeLess: "parseChars s = Some (x, r) \<Longrightarrow> parseChars (escapeLess s) = Some (x, escapeLess r)"
proof (induction "length s" arbitrary: s x rule: less_induct)
  case less
  from less.prems obtain c t where s: "s = c # t" by (cases s) auto
  consider "c = quoteChar" | "c = backslash" | "c \<noteq> quoteChar" "c \<noteq> backslash" by blast
  then show ?case
  proof cases
    case 1
    with less.prems s show ?thesis using plain_less by auto
  next
    case 2
    with less.prems s plain_less obtain e t' where t: "t = e # t'" by (cases t) auto
    show ?thesis
    proof (cases "e = CHR ''u''")
      case True
      with less.prems s t 2 plain_less obtain a b c' d r' n where hex: "t' = a # b # c' # d # r'" "unhex4 a b c' d = Some n" "n < 256"
        and rest: "consTo (chr n) (parseChars r') = Some (x, r)"
        by (auto split: list.splits option.splits if_splits)
      from rest obtain y where y: "parseChars r' = Some (y, r)" "x = chr n # y" by (auto simp: consTo_def)
      have "length r' < length s" using s t hex(1) by simp
      from less.hyps[OF this y(1)] show ?thesis
        using s t 2 True hex unhex4_hex[OF hex(2)] y(2) plain_less by (auto simp: consTo_def)
    next
      case False
      with less.prems s t 2 plain_less obtain z where z: "unescape e = Some z" "consTo z (parseChars t') = Some (x, r)"
        by (auto split: option.splits)
      then obtain y where y: "parseChars t' = Some (y, r)" "x = z # y" by (auto simp: consTo_def)
      have "e \<noteq> CHR ''<''" using z(1) unescape_not_less by auto
      moreover have "length t' < length s" using s t by simp
      note less.hyps[OF this y(1)]
      ultimately show ?thesis using s t 2 False z(1) y(2) plain_less by (auto simp: consTo_def)
    qed
  next
    case 3
    with less.prems s have "\<not> ord c < 32" "consTo c (parseChars t) = Some (x, r)" by (auto split: if_splits)
    then obtain y where y: "parseChars t = Some (y, r)" "x = c # y" by (auto simp: consTo_def)
    have "length t < length s" using s by simp
    from less.hyps[OF this y(1)] show ?thesis
      using s 3 y(2) \<open>\<not> ord c < 32\<close> unhex4_less chr_60 plain_less by (auto simp: consTo_def)
  qed
qed

lemma digit_not_less: "isDigit (CHR ''<'') = False" "isDigit backslash = False"
  by (simp_all add: isDigit_def backslash_def)

lemma escapeLess_digits:
  "takeWhile isDigit (escapeLess s) = takeWhile isDigit s \<and> dropWhile isDigit (escapeLess s) = escapeLess (dropWhile isDigit s)"
  by (induction s) (auto simp: digit_not_less)

lemma escapeLess_head: "s \<noteq> [] \<Longrightarrow> hd s \<noteq> CHR ''<'' \<Longrightarrow> hd (escapeLess s) = hd s"
  by (cases s) auto

lemma parseNumber_escapeLess: "parseNumber s = Some (j, r) \<Longrightarrow> parseNumber (escapeLess s) = Some (j, escapeLess r)"
proof -
  assume p: "parseNumber s = Some (j, r)"
  let ?split = "\<lambda>s. case s of c # r \<Rightarrow> if c = CHR ''-'' then (True, r) else (False, s) | [] \<Rightarrow> (False, s)"
  obtain neg t where t: "?split s = (neg, t)" by fastforce
  have t': "?split (escapeLess s) = (neg, escapeLess t)" using t by (cases s) (auto simp: backslash_def)
  obtain ds rest where cut: "takeWhile isDigit t = ds" "dropWhile isDigit t = rest" by blast
  have cut': "takeWhile isDigit (escapeLess t) = ds" "dropWhile isDigit (escapeLess t) = escapeLess rest"
    using escapeLess_digits[of t] cut by simp_all
  have stop: "(escapeLess rest \<noteq> [] \<and> hd (escapeLess rest) \<in> {CHR ''.'', CHR ''e'', CHR ''E''}) \<longleftrightarrow>
      (rest \<noteq> [] \<and> hd rest \<in> {CHR ''.'', CHR ''e'', CHR ''E''})"
    by (cases rest) (auto simp: backslash_def)
  show ?thesis
    using p unfolding parseNumber_def t t' Let_def prod.case cut cut' stop by (simp split: if_splits)
qed

lemma startsWith_escapeLess:
  "CHR ''<'' \<notin> set p \<Longrightarrow> startsWith s p \<Longrightarrow> startsWith (escapeLess s) p \<and> drop (length p) (escapeLess s) = escapeLess (drop (length p) s)"
  by (auto simp: startsWith_iff escapeLess_noop)

lemma escapeLess_skipped: "skipWs s = c # t \<Longrightarrow> c \<noteq> CHR ''<'' \<Longrightarrow> skipWs (escapeLess s) = c # escapeLess t"
  by (simp add: escapeLess_skipWs)

lemma startsWith_escapeLess_conv: "backslash \<notin> set p \<Longrightarrow> startsWith (escapeLess s) p \<Longrightarrow> startsWith s p"
proof (induction p arbitrary: s)
  case (Cons a p)
  then obtain c t where s: "s = c # t" by (cases s) (auto simp: startsWith_def)
  with Cons show ?case by (cases "c = CHR ''<''") (auto simp: startsWith_def)
qed (simp add: startsWith_def)

definition reads :: "(string \<Rightarrow> ('a \<times> string) option) \<Rightarrow> bool" where
  "reads p \<longleftrightarrow> (\<forall>s a r. p s = Some (a, r) \<longrightarrow> p (escapeLess s) = Some (a, escapeLess r))"

lemma parseValue_step:
  assumes "reads (parseElements n)" "reads (parseMembers n)" shows "reads (parseValue (Suc n))"
  unfolding reads_def
proof (intro allI impI)
  fix s j r assume run: "parseValue (Suc n) s = Some (j, r)"
  then obtain c t where ct: "skipWs s = c # t" by (cases "skipWs s") auto
  have c: "c \<noteq> CHR ''<''"
  proof
    assume "c = CHR ''<''"
    with run ct show False by (simp add: startsWith_def parseNumber_def isDigit_def plain_less)
  qed
  note e = escapeLess_skipped[OF ct c]
  have le: "startsWith (c # escapeLess t) p" "drop (length p) (c # escapeLess t) = escapeLess (drop (length p) (c # t))"
    if "startsWith (c # t) p" "CHR ''<'' \<notin> set p" for p
    using startsWith_escapeLess[OF that(2,1)] c by simp_all
  have not_le: "\<not> startsWith (c # escapeLess t) p" if "\<not> startsWith (c # t) p" "backslash \<notin> set p" for p
    using startsWith_escapeLess_conv[OF that(2), of "c # t"] that(1) c by auto
  consider "c = CHR ''[''" | "c = CHR ''{''" | "c = quoteChar" | "c \<notin> {CHR ''['', CHR ''{'', quoteChar}" by blast
  then show "parseValue (Suc n) (escapeLess s) = Some (j, escapeLess r)"
  proof cases
    case 1
    with run ct obtain c' t' where t: "skipWs t = c' # t'" by (cases "skipWs t") auto
    show ?thesis
    proof (cases "c' = CHR '']''")
      case True
      with run ct 1 t e escapeLess_skipped[OF t] show ?thesis by simp
    next
      case False
      with run ct 1 t obtain js where js: "parseElements n t = Some (js, r)" "j = JArr js" by auto
      have "\<exists>c t. skipWs (escapeLess u) = c # t \<and> c \<noteq> CHR '']''" if "skipWs u = c' # t'" for u
        using that False by (auto simp: escapeLess_skipWs backslash_def)
      with t js e 1 assms(1) show ?thesis by (fastforce simp: reads_def)
    qed
  next
    case 2
    with run ct obtain c' t' where t: "skipWs t = c' # t'" by (cases "skipWs t") auto
    show ?thesis
    proof (cases "c' = CHR ''}''")
      case True
      with run ct 2 t e escapeLess_skipped[OF t] show ?thesis by simp
    next
      case False
      with run ct 2 t obtain fs where fs: "parseMembers n t = Some (fs, r)" "j = JObj fs" by auto
      have "\<exists>c t. skipWs (escapeLess u) = c # t \<and> c \<noteq> CHR ''}''" if "skipWs u = c' # t'" for u
        using that False by (auto simp: escapeLess_skipWs backslash_def)
      with t fs e 2 assms(2) show ?thesis by (fastforce simp: reads_def)
    qed
  next
    case 3
    then show ?thesis using run ct e parseChars_escapeLess[of t] by (auto simp: quoteChar_def)
  next
    case 4
    then show ?thesis
      using run ct e c le[of "''null''"] le[of "''true''"] le[of "''false''"] parseNumber_escapeLess[of "c # t"]
        not_le[of "''null''"] not_le[of "''true''"] not_le[of "''false''"]
      by (auto simp: backslash_def eval_nat_numeral split: if_splits)
  qed
qed

lemma parseElements_step:
  assumes "reads (parseValue n)" "reads (parseElements n)" shows "reads (parseElements (Suc n))"
  unfolding reads_def
proof (intro allI impI)
  fix s js r assume run: "parseElements (Suc n) s = Some (js, r)"
  then obtain x q c t where x: "parseValue n s = Some (x, q)" and ct: "skipWs q = c # t"
    by (auto split: option.splits list.splits)
  with run have "c \<noteq> CHR ''<''" by (auto split: if_splits)
  from escapeLess_skipped[OF ct this] x run ct assms show "parseElements (Suc n) (escapeLess s) = Some (js, escapeLess r)"
    by (fastforce simp: reads_def split: if_splits)
qed

lemma parseMembers_step:
  assumes "reads (parseValue n)" "reads (parseMembers n)" shows "reads (parseMembers (Suc n))"
  unfolding reads_def
proof (intro allI impI)
  fix s fs r assume run: "parseMembers (Suc n) s = Some (fs, r)"
  then obtain t where t: "skipWs s = quoteChar # t" by (auto split: list.splits if_splits)
  with run obtain k q where k: "parseChars t = Some (k, q)" by (auto split: option.splits)
  with run t obtain t1 where t1: "skipWs q = CHR '':'' # t1" by (auto split: list.splits if_splits)
  with run t k obtain v q2 where v: "parseValue n t1 = Some (v, q2)" by (auto split: option.splits)
  with run t k t1 obtain c t2 where ct: "skipWs q2 = c # t2" by (auto split: list.splits)
  with run t k t1 v have "c \<noteq> CHR ''<''" by (auto split: if_splits)
  note es = escapeLess_skipped[OF ct this] escapeLess_skipped[OF t1] escapeLess_skipped[OF t] parseChars_escapeLess[OF k]
  have "parseValue n (escapeLess t1) = Some (v, escapeLess q2)" using assms(1) v by (simp add: reads_def)
  then show "parseMembers (Suc n) (escapeLess s) = Some (fs, escapeLess r)"
    using run t k t1 v ct es assms(2) plain_less by (fastforce simp: reads_def split: if_splits)
qed

lemma parse_escapeLess: "reads (parseValue n) \<and> reads (parseElements n) \<and> reads (parseMembers n)"
proof (induction n)
  case 0
  show ?case by (simp add: reads_def)
next
  case (Suc n)
  then show ?case using parseValue_step parseElements_step parseMembers_step by blast
qed

lemma jsonParse_escapeLess: "jsonParse (escapeLess (stringify j)) = Some j"
proof -
  let ?s = "stringify j"
  have "length u \<le> length (escapeLess u)" for u by (induction u) auto
  then have "jsonFuel j \<le> Suc (length (escapeLess ?s))" using jsonFuel_le_length[of j] by (meson le_SucI le_trans)
  from parseValue_stringify[OF this, of "[]"] have "parseValue (Suc (length (escapeLess ?s))) ?s = Some (j, [])" by simp
  with parse_escapeLess have "parseValue (Suc (length (escapeLess ?s))) (escapeLess ?s) = Some (j, [])"
    unfolding reads_def by fastforce
  then show ?thesis by (simp add: jsonParse_def del: parseValue.simps)
qed

lemma decodeAll_map: "(\<And>x. x \<in> set xs \<Longrightarrow> f (g x) = Some x) \<Longrightarrow> decodeAll f (map g xs) = Some xs"
  by (induction xs) auto

lemma decode_companies: "decodePageCompany (companyJson c) = Some c"
  by (cases "pc_role c") (simp_all add: decodePageCompany_def companyJson_def decodeRole_def literal_def ROLES_def roleString_def)

lemma decode_accounts: "decodePageAccount (accountJson a) = Some a"
  by (simp add: decodePageAccount_def accountJson_def decodeArray_def decodeAll_map decode_companies)

lemma decode_viewer: "decodeViewer (Some (viewerJson v)) = Some v"
  by (cases v) (auto simp: decodeViewer_def decodeNotice_def decode_accounts)

lemma decode_destination: "decodeDestination (Some (destinationJson d)) = Some d"
  by (cases d) (auto simp: decodeDestination_def)

text \<open>
  C35: What the developer home writes into the element of its page stays in it - it has no \<open><\<close>, so it cannot end the
  element, whatever names users and companies have - and the page reads exactly what was written.
\<close>

theorem page_props_roundtrip:
  "CHR ''<'' \<notin> set (jsonInsideScriptElement p) \<and> decodePageProps (jsonInsideScriptElement p) = Some p"
proof
  show "CHR ''<'' \<notin> set (jsonInsideScriptElement p)" by (simp add: jsonInsideScriptElement_def escapeLess_free)
  show "decodePageProps (jsonInsideScriptElement p) = Some p"
    unfolding jsonInsideScriptElement_def decodePageProps_def jsonParse_escapeLess
    by (simp add: encodePageProps_def decodeArray_def decodeAll_map decode_accounts decode_viewer decode_destination)
qed

section \<open>Where it is served\<close>

text \<open>The texts of the environment of a deployed worker, as its \<open>fetch\<close> sees them.\<close>

definition textsOf :: "deployedWorker \<Rightarrow> string \<Rightarrow> string option" where
  "textsOf d name = (case map_of (dw_env d) name of Some (PlainText v) \<Rightarrow> Some v | _ \<Rightarrow> None)"

lemma textsOf_APP_ENV:
  "taimeiAuthStack account mode (stageKey stage) = Inr d \<Longrightarrow> textsOf d ''APP_ENV'' = Some (stageKey stage)"
  using stage_environment(1)[of account mode stage d "''APP_ENV''" "stageKey stage" "\<lambda>_. None"]
  by (cases stage) (auto simp: textsOf_def environmentOf_def split: option.splits envBinding.splits)

text \<open>
  In the production stage of the table the worker with the developer home and the test routes answers every request with
  an error and does nothing else, whatever it was built from; built with the production allow list, it does so in every
  environment.
\<close>

lemma closed_in_production:
  assumes "taimeiAuthStack account mode (stageKey stage) = Inr d"
  shows "stage = Production \<Longrightarrow>
      nonProductionWorker allowed handler (textsOf d) req s = (fatalResponse OUTSIDE_PRODUCTION_ONLY_MESSAGE, s)"
    "stage = Staging \<Longrightarrow>
      nonProductionWorker ALLOWED_PROTOCOLS_OUTSIDE_PRODUCTION handler (textsOf d) req s = handler (textsOf d) req s"
    "snd (nonProductionWorker ALLOWED_REDIRECT_PROTOCOLS handler env req s) = s"
    "rs_status (fst (nonProductionWorker ALLOWED_REDIRECT_PROTOCOLS handler env req s)) = 500"
  using textsOf_APP_ENV[OF assms]
  by (auto simp: nonProductionWorker_def serveOnlyOutsideProduction_def serveOnlyWithNonProductionRedirectHosts_def
      isOutsideProduction_def APP_ENVS_OUTSIDE_PRODUCTION_def usesNonProductionRedirectHosts_def fatalResponse_def
      ALLOWED_PROTOCOLS_OUTSIDE_PRODUCTION_def ALLOWED_REDIRECT_PROTOCOLS_def)

section \<open>Who can sign in as whom\<close>

text \<open>better-auth does not write the table of the accounts of a browser.\<close>

definition testing_frame :: "'y testingEnv \<Rightarrow> bool" where
  "testing_frame T \<longleftrightarrow>
     (\<forall>h w. np_browserAccounts (w_auth (snd (ba_getSession (te_auth T) h w))) = np_browserAccounts (w_auth w)) \<and>
     (\<forall>e c w. np_browserAccounts (w_auth (snd (ba_signInMagicLink (te_auth T) e c w))) = np_browserAccounts (w_auth w)) \<and>
     (\<forall>h w. np_browserAccounts (w_auth (snd (ba_signOut (te_auth T) h w))) = np_browserAccounts (w_auth w))"

text \<open>A request shows the session of a user under the key of its browser, or under the one it is given.\<close>

definition presents :: "'y testingEnv \<Rightarrow> devHomeRequest \<Rightarrow> 'y nonProduction world \<Rightarrow> (string \<times> id) set" where
  "presents T q w = {(k, u). \<exists>w1 session w2. browserKeyIssuedIfMissing T q w = (Inr k, w1) \<and>
     getSession (te_auth T) (dq_headers q) w1 = (Inr session, w2) \<and> sessionUserId session = Some u}"

text \<open>
  Requests to the developer home in any order, and anything else that leaves the table alone. The set has every session
  that was shown.
\<close>

inductive devHomeRun :: "'y testingEnv \<Rightarrow> 'y nonProduction world \<Rightarrow> (string \<times> id) set \<Rightarrow> bool" for T where
  opened: "np_browserAccounts (w_auth w) = [] \<Longrightarrow> devHomeRun T w {}"
| shown: "devHomeRun T w S \<Longrightarrow> devHomeRun T (snd (devHomeProgram T q w)) (S \<union> presents T q w)"
| signedIn: "devHomeRun T w S \<Longrightarrow> devHomeRun T (snd (postSignIn T printQuery q w)) S"
| signedOut: "devHomeRun T w S \<Longrightarrow> devHomeRun T (snd (postSignOut T q w)) S"
| elsewhere: "devHomeRun T w S \<Longrightarrow> np_browserAccounts (w_auth w') = np_browserAccounts (w_auth w) \<Longrightarrow> devHomeRun T w' S"

abbreviation accountsOf :: "'y nonProduction world \<Rightarrow> (string \<times> id) list" where
  "accountsOf w \<equiv> np_browserAccounts (w_auth w)"

lemma keeps_accounts:
  "keeps accountsOf (authHostOrigin T)" "keeps accountsOf (authHostOriginCheck T q)" "keeps accountsOf (requestUrl T q)"
  "keeps accountsOf (redirectTargetOf p u)" "keeps accountsOf (setCookie c)" "keeps accountsOf (takeSentLink e cb)"
  "keeps accountsOf (browserKeyIssuedIfMissing T q)" "keeps accountsOf (findChoosableAccount k i)"
  "keeps accountsOf (listChoosableAccounts k)" "keeps accountsOf (chosenAccountOf T q)"
proof -
  show find: "keeps accountsOf (findChoosableAccount k i)" for k i
    by (auto simp: keeps_def findChoosableAccount_def testingDb_def Let_def split: fault.splits)
  show "keeps accountsOf (listChoosableAccounts k)"
    by (auto simp: keeps_def listChoosableAccounts_def testingDb_def Let_def split: fault.splits)
  show cookie: "keeps accountsOf (setCookie c)" for c
    by (simp add: keeps_def setCookie_def updateState_def)
  show host: "keeps accountsOf (authHostOrigin T)" unfolding authHostOrigin_def by (intro keeps_intros)
  show "keeps accountsOf (authHostOriginCheck T q)" unfolding authHostOriginCheck_def by (intro keeps_intros host)
  show "keeps accountsOf (requestUrl T q)" unfolding requestUrl_def by (intro keeps_intros)
  show "keeps accountsOf (redirectTargetOf p u)" by (auto simp: keeps_def redirectTargetOf_def succeed_def failWith_def Let_def split: option.splits)
  show "keeps accountsOf (takeSentLink e cb)" by (auto simp: keeps_def takeSentLink_def Let_def split: option.splits)
  have "keeps accountsOf randomUUID" by (simp add: keeps_def randomUUID_def)
  then show "keeps accountsOf (browserKeyIssuedIfMissing T q)"
    unfolding browserKeyIssuedIfMissing_def by (intro keeps_intros cookie)
  show "keeps accountsOf (chosenAccountOf T q)"
    unfolding chosenAccountOf_def by (auto intro!: keeps_intros find split: option.splits)
qed

lemma keeps_authCalls:
  assumes "testing_frame T"
  shows "keeps accountsOf (getSession (te_auth T) h)" "keeps accountsOf (signInMagicLink (te_auth T) e c)"
    "keeps accountsOf (signOut (te_auth T) h)"
  using assms by (auto simp: keeps_def testing_frame_def getSession_def signInMagicLink_def signOut_def tryAuthApi_def split: prod.splits sum.splits; metis snd_conv)+

lemma keeps_programs:
  assumes "testing_frame T"
  shows "keeps accountsOf (signInProgram T printQuery q)" "keeps accountsOf (signOutProgram T q)"
proof -
  have link: "keeps accountsOf (magicLinkUrlFor (te_auth T) e c)" for e c
    unfolding magicLinkUrlFor_def by (auto intro!: keeps_intros keeps_accounts keeps_authCalls[OF assms] split: option.splits)
  show "keeps accountsOf (signInProgram T printQuery q)"
    unfolding signInProgram_def by (auto intro!: keeps_intros keeps_accounts link split: prod.splits)
  show "keeps accountsOf (signOutProgram T q)"
    unfolding signOutProgram_def by (auto intro!: keeps_intros keeps_accounts keeps_authCalls[OF assms])
qed

lemma runRoute_keeps: "keeps accountsOf p \<Longrightarrow> accountsOf (snd (runRoute p w)) = accountsOf w"
  by (auto simp: runRoute_def keeps_def causeToResponse_def sendReports_def Let_def split: prod.splits sum.splits; metis snd_conv)

lemma requireAuthHostOrigin_keeps:
  assumes "\<And>w. accountsOf (snd (continue w)) = accountsOf w"
  shows "accountsOf (snd (requireAuthHostOrigin T q continue w)) = accountsOf w"
  using keeps_accounts(2)[of T q] assms
  by (auto simp: requireAuthHostOrigin_def runMiddleware_def keeps_def causeToResponse_def sendReports_def Let_def
      split: prod.splits sum.splits middlewareDecision.splits; metis snd_conv)

lemma andThen_within:
  assumes "set (accountsOf (snd (m w))) \<subseteq> X" "\<And>a w1. m w = (Inr a, w1) \<Longrightarrow> set (accountsOf (snd (f a w1))) \<subseteq> X"
  shows "set (accountsOf (snd (andThen m f w))) \<subseteq> X"
  using assms by (auto simp: andThen_def split: prod.splits sum.splits)

lemma keeps_within: "keeps accountsOf m \<Longrightarrow> set (accountsOf w) \<subseteq> X \<Longrightarrow> set (accountsOf (snd (m w))) \<subseteq> X"
  by (simp add: keeps_def)

lemma asks_only:
  "requestUrl T q w = (r, w') \<Longrightarrow> w' = w" "redirectTargetOf p u w = (e, w') \<Longrightarrow> w' = w"
  by (auto simp: requestUrl_def redirectTargetOf_def succeed_def failWith_def dieWith_def Let_def split: option.splits if_splits)

lemma rememberSignedIn_within:
  "set (accountsOf (snd (rememberSignedIn T k sessionUser w))) \<subseteq> set (accountsOf w) \<union> {(k, u) | u. sessionUser = Some u}"
  by (auto simp: rememberSignedIn_def addBrowserAccount_def testingDb_def succeed_def Let_def split: option.splits if_splits fault.splits)

lemma devHomeProgram_accounts:
  assumes "testing_frame T"
  shows "set (accountsOf (snd (devHomeProgram T q w))) \<subseteq> set (accountsOf w) \<union> presents T q w"
proof -
  let ?X = "set (accountsOf w) \<union> presents T q w"
  have caught: "set (accountsOf (snd (catchIf P (\<lambda>_. succeed x) m w))) \<subseteq> ?X" if "set (accountsOf (snd (m w))) \<subseteq> ?X" for P m and x :: devHomeAnswer
    using that by (auto simp: catchIf_def succeed_def split: prod.splits sum.splits reason.splits)
  show ?thesis
    unfolding devHomeProgram_def
  proof (rule caught, rule andThen_within, goal_cases)
    case (2 u w0)
    then have w0: "w0 = w" by (rule asks_only)
    show ?case
    proof (rule andThen_within, goal_cases)
      case (2 rt w1)
      then have w1: "w1 = w" using asks_only(2) w0 by blast
      show ?case
      proof (rule andThen_within, goal_cases)
        case (2 k w2)
        note key = this[unfolded w1]
        have w2: "set (accountsOf w2) \<subseteq> ?X" using keepsD[OF keeps_accounts(7) key] by simp
        show ?case
        proof (rule andThen_within, goal_cases)
          case (2 session w3)
          note session = this
          have w3: "accountsOf w3 = accountsOf w" using keepsD[OF keeps_accounts(7) key] keepsD[OF keeps_authCalls(1)[OF assms] session] by simp
          have "(k, u) \<in> presents T q w" if "sessionUserId session = Some u" for u
            using key session that by (auto simp: presents_def)
          with w3 have new: "set (accountsOf w3) \<union> {(k, u) | u. sessionUserId session = Some u} \<subseteq> ?X" by auto
          show ?case
          proof (rule andThen_within, goal_cases)
            case 1
            from rememberSignedIn_within[of T k "sessionUserId session" w3] new show ?case by (rule subset_trans)
          next
            case (2 a w4)
            have w4: "set (accountsOf w4) \<subseteq> ?X" using rememberSignedIn_within[of T k "sessionUserId session" w3] new 2 by (simp add: subset_trans)
            show ?case
              unfolding Let_def
              by (rule keeps_within[OF _ w4]) (intro keeps_intros keeps_accounts)
          qed
        qed (use keeps_within[OF keeps_authCalls(1)[OF assms] w2] in simp)
      qed (use keeps_within[OF keeps_accounts(7), of w ?X] w1 in simp)
    qed (use keeps_within[OF keeps_accounts(4), of w ?X] w0 in simp)
  qed (use keeps_within[OF keeps_accounts(3), of w ?X] in simp)
qed

lemma devHomeRun_accounts: "devHomeRun T w S \<Longrightarrow> testing_frame T \<Longrightarrow> set (accountsOf w) \<subseteq> S"
proof (induction rule: devHomeRun.induct)
  case (shown w S q)
  then show ?case using devHomeProgram_accounts[of T q w] by blast
next
  case (signedIn w S printQuery q)
  have "accountsOf (snd (postSignIn T printQuery q w)) = accountsOf w"
    unfolding postSignIn_def by (intro requireAuthHostOrigin_keeps runRoute_keeps keeps_programs(1) signedIn.prems)
  with signedIn show ?case by simp
next
  case (signedOut w S q)
  have "accountsOf (snd (postSignOut T q w)) = accountsOf w"
    unfolding postSignOut_def by (intro requireAuthHostOrigin_keeps runRoute_keeps keeps_programs(2) signedOut.prems)
  with signedOut show ?case by simp
qed auto

lemma never_see_other: "causeToResponse [e] adapter w = (r, w') \<Longrightarrow> rs_status r \<noteq> 303"
proof -
  have status: "httpApiStatus e \<noteq> Some 303" for e by (cases e) simp_all
  assume "causeToResponse [e] adapter w = (r, w')"
  then show ?thesis
    using status
    by (cases e) (auto simp: causeToResponse_def internalErrorResponse_def clientFacingErrorResponse_def settleCause_def
        parseClientFacingError_def Let_def split: option.splits if_splits)
qed

lemma chosenAccount_runs:
  "chosenAccountOf T q w = (Inr (i, e), w') \<Longrightarrow> \<exists>u\<in>set (d_user (w_db w)). us_id u = i \<and> us_email u = e \<and>
    dq_userId q = Some i \<and> choosableBy (browserKeyOf T q) (accountsOf w) u"
  by (auto simp: chosenAccountOf_def andThen_runs succeed_runs failWith_runs findChoosableAccount_def testingDb_def Let_def
      split: option.splits fault.splits dest!: at0_filter_SomeD)

lemma takeSentLink_runs:
  "takeSentLink e cb w = (Inr (Some l), w') \<Longrightarrow>
    \<exists>ls. map_of (np_sentLinks (w_auth w)) (e, Some cb) = Some ls \<and> ls \<noteq> [] \<and> l = last ls"
  by (auto simp: takeSentLink_def Let_def split: option.splits if_splits)

text \<open>
  C34: The developer home signs a browser in only as an account that is a development account or one the same browser has
  shown a session of before, whatever requests came in which order: a form that is answered with a link came from a page
  of the host itself, names such a user, and the link is the one better-auth had mailed to that user's own address for
  the way back to the developer home.
\<close>

theorem dev_home_signs_in_known_accounts:
  assumes "testing_frame T" "devHomeRun T w S" "postSignIn T printQuery q w = (r, w')" "rs_status r = 303"
  shows "\<exists>a u ask. te_parseUrl T (te_appUrl T) = Some a \<and> ur_origin a \<noteq> OPAQUE_ORIGIN \<and>
      headersGet (dq_headers q) ''origin'' = Some (ur_origin a) \<and>
    u \<in> set (d_user (w_db w)) \<and> dq_userId q = Some (us_id u) \<and>
    (us_id u \<in> set DEV_ACCOUNT_IDS \<or> (\<exists>k. browserKeyOf T q = Some k \<and> (k, us_id u) \<in> S)) \<and>
    te_parseUrl T (dq_url q) = Some ask \<and>
    (\<exists>w1 w2 ls. let callback = devHomeCallbackURLOf printQuery ask in
      signInMagicLink (te_auth T) (us_email u) callback w1 = (Inr (), w2) \<and>
      map_of (np_sentLinks (w_auth w2)) (us_email u, Some callback) = Some ls \<and> ls \<noteq> [] \<and> r = seeOther (last ls))"
proof -
  obtain a where a: "te_parseUrl T (te_appUrl T) = Some a"
    using assms(3,4)
    by (cases "te_parseUrl T (te_appUrl T)") (auto simp: postSignIn_def requireAuthHostOrigin_def runMiddleware_def
        authHostOriginCheck_def authHostOrigin_def andThen_def dieWith_def dest: never_see_other)
  have origin: "ur_origin a \<noteq> OPAQUE_ORIGIN \<and> headersGet (dq_headers q) ''origin'' = Some (ur_origin a)"
    and run: "runRoute (signInProgram T printQuery q) w = (r, w')"
    using assms(3,4) a
    by (auto simp: postSignIn_def requireAuthHostOrigin_def runMiddleware_def authHostOriginCheck_def authHostOrigin_def andThen_def
        succeed_def failWith_def split: if_splits dest: never_see_other)
  from run assms(4) have "signInProgram T printQuery q w = (Inr r, w')"
    by (auto simp: runRoute_def split: prod.splits sum.splits dest: never_see_other)
  then obtain ask w0 rt w1 i e w2 l w3 where ask: "requestUrl T q w = (Inr ask, w0)" "redirectTargetOf (te_parseUrl T) ask w0 = (Inr rt, w1)"
    and chosen: "chosenAccountOf T q w1 = (Inr (i, e), w2)"
    and link: "magicLinkUrlFor (te_auth T) e (devHomeCallbackURLOf printQuery ask) w2 = (Inr l, w3)" and r: "r = seeOther l"
    by (auto simp: signInProgram_def andThen_runs succeed_runs split: prod.splits)
  have w1: "w1 = w" "te_parseUrl T (dq_url q) = Some ask" using ask asks_only
    by (auto simp: requestUrl_def succeed_def dieWith_def split: option.splits)
  from chosenAccount_runs[OF chosen] w1(1) obtain u where u: "u \<in> set (d_user (w_db w))" "us_id u = i" "us_email u = e"
    "dq_userId q = Some i" "choosableBy (browserKeyOf T q) (accountsOf w) u" by auto
  have known: "us_id u \<in> set DEV_ACCOUNT_IDS \<or> (\<exists>k. browserKeyOf T q = Some k \<and> (k, us_id u) \<in> S)"
    using u(5) devHomeRun_accounts[OF assms(2,1)] by (auto simp: choosableBy_def split: option.splits)
  from link obtain w4 w5 where mail: "signInMagicLink (te_auth T) e (devHomeCallbackURLOf printQuery ask) w2 = (Inr (), w4)"
    "takeSentLink e (devHomeCallbackURLOf printQuery ask) w4 = (Inr (Some l), w5)"
    by (auto simp: magicLinkUrlFor_def andThen_runs succeed_runs dieWith_runs split: option.splits)
  from takeSentLink_runs[OF mail(2)] a origin u known w1(2) mail(1) r show ?thesis unfolding Let_def by blast
qed

text \<open>Ann opens the developer home with her session, and comes back to it without one.\<close>

definition recordingAuth :: "unit nonProduction better_auth" where
  "recordingAuth = \<lparr>
     ba_getSession = (\<lambda>h w. (Inr (map_option demoSession (map_of h ''user'')), w)),
     ba_deleteUserSessions = (\<lambda>u w. (Inr (), w)), ba_deleteSession = (\<lambda>t w. (Inr (), w)),
     ba_revokeOtherSessions = (\<lambda>h w. (Inr None, w)), ba_createSession = (\<lambda>u w. (Inr (''token'', 90000), w)),
     ba_createUser = (\<lambda>e n w. (Inr (''new'', e), w)),
     ba_signInMagicLink = (\<lambda>e c w. (Inr (),
       w\<lparr>w_auth := recordLink e (Some c) (''https://auth.taimei-code.com/api/auth/magic-link/verify?callbackURL='' @ c) (w_auth w)\<rparr>)),
     ba_signOut = (\<lambda>h w. (Inr [], w)), ba_secret = ''secret'', ba_cookieName = ''session'',
     ba_makeSignature = (\<lambda>v s. ''sig''), ba_serializeSetCookie = (\<lambda>n v m. n @ ''='' @ v)\<rparr>"

definition recordingEnv :: "unit testingEnv" where
  "recordingEnv = \<lparr>te_auth = recordingAuth, te_recordsEmailTo = (\<lambda>_. True), te_sessionEmail = (\<lambda>i. i @ ''@x.jp''),
     te_isUuid = (\<lambda>_. True), te_parseUrl = demoUrl, te_appUrl = ''https://auth.taimei-code.com''\<rparr>"

definition emptyNonProduction :: "unit nonProduction" where
  "emptyNonProduction = \<lparr>np_sentLinks = [], np_browserAccounts = [], np_setCookies = [], np_auth = ()\<rparr>"

definition npWorld :: "unit nonProduction world" where
  "npWorld = \<lparr>w_db = emptyDb\<lparr>d_user := [demoUser ''ann'' ''ann@x.jp'' None]\<rparr>, w_kv = [], w_auth = emptyNonProduction,
     w_clock = 1000, w_drawn = 0, w_uuid = showNat, w_nanoid = (\<lambda>n k. showNat n), w_bytes = (\<lambda>n k. []), w_dbCalls = 0,
     w_dbFaults = (\<lambda>_. NoFault), w_kvCalls = 0, w_kvFaults = (\<lambda>_. NoFault), w_hooks = [], w_locks = [], w_background = [],
     w_sentry = []\<rparr>"

definition annOpens :: devHomeRequest where
  "annOpens = \<lparr>dq_url = ''https://auth.taimei-code.com/dev-home'', dq_headers = [(''user'', ''ann'')],
     dq_cookies = (\<lambda>_. None), dq_userId = None\<rparr>"

definition annReturns :: devHomeRequest where
  "annReturns = \<lparr>dq_url = ''https://auth.taimei-code.com/dev-home/sign-in'',
     dq_headers = [(''origin'', ''https://auth.taimei-code.com'')],
     dq_cookies = (\<lambda>name. if name = BROWSER_KEY_COOKIE then Some ''0'' else None), dq_userId = Some ''ann''\<rparr>"

definition shownWorld :: "unit nonProduction world" where
  "shownWorld = snd (devHomeProgram recordingEnv annOpens npWorld)"

theorem dev_home_signs_in_known_accounts_witness:
  "rs_status (fst (postSignIn recordingEnv (\<lambda>_. []) annReturns shownWorld)) = 303 \<and>
   (\<exists>u\<in>set (d_user (w_db shownWorld)). us_id u = ''ann'' \<and>
     (us_id u \<in> set DEV_ACCOUNT_IDS \<or> (''0'', us_id u) \<in> presents recordingEnv annOpens npWorld))"
proof
  have frame: "testing_frame recordingEnv"
    by (simp add: testing_frame_def recordingEnv_def recordingAuth_def recordLink_def Let_def)
  have "devHomeRun recordingEnv shownWorld ({} \<union> presents recordingEnv annOpens npWorld)"
    unfolding shownWorld_def by (rule devHomeRun.shown, rule devHomeRun.opened) (simp add: npWorld_def emptyNonProduction_def)
  then have run: "devHomeRun recordingEnv shownWorld (presents recordingEnv annOpens npWorld)" by simp
  show status: "rs_status (fst (postSignIn recordingEnv (\<lambda>_. []) annReturns shownWorld)) = 303"
    by code_simp
  have key: "browserKeyOf recordingEnv annReturns = Some ''0''" "dq_userId annReturns = Some ''ann''"
    by (simp_all add: browserKeyOf_def annReturns_def recordingEnv_def)
  from dev_home_signs_in_known_accounts[OF frame run prod.collapse[symmetric] status] key
  show "\<exists>u\<in>set (d_user (w_db shownWorld)). us_id u = ''ann'' \<and>
     (us_id u \<in> set DEV_ACCOUNT_IDS \<or> (''0'', us_id u) \<in> presents recordingEnv annOpens npWorld)"
    by (metis option.inject)
qed

section \<open>What the page offers\<close>

lemma accountsMatching_all: "accountsMatching accounts [] = accounts"
proof -
  have "includesText s []" for s by (cases s) (simp_all add: startsWith_def)
  then show ?thesis by (simp add: accountsMatching_def trim_def toLowerCase_def)
qed

lemma page_buttons: "set (map bt_userId (accountButtons (DevHomePage p []))) = pa_id ` (set (dp_devAccounts p) \<union> set (dp_browserAccounts p))"
  by (auto simp: accountButtons_def DevHomePage_def AccountList_def MatchingAccountGroup_def BrowserAccountGroup_def AccountRows_def
      accountsMatching_all Let_def image_image)

text \<open>The buttons of the page are those of the accounts its form takes from the same browser.\<close>

lemma page_offers_what_the_form_takes:
  assumes "devHomeProgram T q w = (Inr (ShowDevHome p), w1)" "browserKeyIssuedIfMissing T q w = (Inr k, w0)"
    and "w_db w2 = w_db w1" "accountsOf w2 = accountsOf w1" "w_dbFaults w2 (w_dbCalls w2) = NoFault"
  shows "i \<in> set (map bt_userId (accountButtons (DevHomePage p []))) \<longleftrightarrow>
    (\<exists>e w3. findChoosableAccount (Some k) i w2 = (Inr (Some (i, e)), w3))"
proof -
  from assms(1) obtain u wa rt wb k' w3 session w4 w5 accounts w6 where
    start: "requestUrl T q w = (Inr u, wa)" "redirectTargetOf (te_parseUrl T) u wa = (Inr rt, wb)"
    and key: "browserKeyIssuedIfMissing T q wb = (Inr k', w3)"
    and rows: "listChoosableAccounts (Some k') w5 = (Inr accounts, w6)"
    and cookies: "andDo (setCookie (DeleteCookie CHOSEN_USER_COOKIE)) (setCookie (DeleteCookie SIGNED_OUT_COOKIE)) w6 = (Inr (), w1)"
    and p: "dp_devAccounts p = filter (\<lambda>a. pa_id a \<in> set DEV_ACCOUNT_IDS) accounts"
      "dp_browserAccounts p = filter (\<lambda>a. pa_id a \<notin> set DEV_ACCOUNT_IDS) accounts"
    unfolding devHomeProgram_def Let_def
    by (auto simp: catchIf_runs andThen_runs succeed_runs)
  have "wb = w" using asks_only(1)[OF start(1)] asks_only(2)[OF start(2)] by simp
  then have "k' = k" using key assms(2) by simp
  note rows = rows[unfolded this]
  have last: "w_db w1 = w_db w6 \<and> accountsOf w1 = accountsOf w6" using cookies
    by (auto simp: andThen_runs setCookie_def updateState_def)
  from rows have ids: "pa_id ` set accounts = us_id ` {u \<in> set (d_user (w_db w6)). choosableBy (Some k) (accountsOf w6) u}"
    by (auto simp: listChoosableAccounts_def testingDb_def Let_def pageAccountOf_def image_image split: fault.splits)
  have "i \<in> set (map bt_userId (accountButtons (DevHomePage p []))) \<longleftrightarrow> i \<in> pa_id ` set accounts"
    unfolding page_buttons p by auto
  also have "\<dots> \<longleftrightarrow> (\<exists>u\<in>set (d_user (w_db w2)). us_id u = i \<and> choosableBy (Some k) (accountsOf w2) u)"
    using ids last assms(3,4) by auto
  also have "\<dots> \<longleftrightarrow> at0 (filter (\<lambda>u. us_id u = i \<and> choosableBy (Some k) (accountsOf w2) u) (d_user (w_db w2))) \<noteq> None"
    unfolding at0_filter_None_iff by auto
  also have "\<dots> \<longleftrightarrow> (\<exists>e w3. findChoosableAccount (Some k) i w2 = (Inr (Some (i, e)), w3))"
    using assms(5) at0_filter_SomeD[of "\<lambda>u. us_id u = i \<and> choosableBy (Some k) (accountsOf w2) u" "d_user (w_db w2)"]
    by (cases "at0 (filter (\<lambda>u. us_id u = i \<and> choosableBy (Some k) (accountsOf w2) u) (d_user (w_db w2)))")
      (simp_all add: findChoosableAccount_def testingDb_def Let_def del: at0_None_iff)
  finally show ?thesis .
qed

end
