(* ===== verification/TestApi.thy ===== *)
theory TestApi
  imports NonProduction Lifecycle Emails Links
begin

text \<open>
  What prepares users for tests, served beside the developer home: \<open>testing/testing-contract.ts\<close>, \<open>decode-body.ts\<close>,
  \<open>create-signed-in-user.ts\<close>, \<open>set-current-company.ts\<close>, \<open>routes.ts\<close>, \<open>e2e-login-links.ts\<close>, \<open>non-production-routes.ts\<close>,
  \<open>staging-email-sender.ts\<close>, \<open>local-delivery-log.ts\<close> and the recording sender of \<open>sent-links.ts\<close>; the choice of the database
  in \<open>db/testing/local-database.ts\<close>; the address of the developer home in \<open>packages/auth-client/src/testing.ts\<close>. It makes
  users with the operations of the service, not with statements of its own.
\<close>

section \<open>Requests\<close>

text \<open>The service with what the contract reads: the URL parser and \<open>AUTH_TRUSTED_ORIGINS\<close>.\<close>

record 'y testApi =
  ta_service :: "'y nonProduction service"
  ta_parseUrl :: url_parser
  ta_trustedOrigins :: "string option"

record signedInUserRequest =
  sq_name :: "string option"
  sq_companies :: "(string option \<times> role) list"
  sq_returnTo :: string

record loginLinkRequest =
  lq_email :: string
  lq_returnTo :: string

record setCurrentCompanyRequest =
  cq_userId :: id
  cq_companyId :: id

definition isTrustedReturnTo :: "'y testApi \<Rightarrow> string \<Rightarrow> bool" where
  "isTrustedReturnTo T returnTo = (case ta_parseUrl T returnTo of
     None \<Rightarrow> False
   | Some u \<Rightarrow> ur_origin u \<in> set (getTrustedOrigins (ta_trustedOrigins T)))"

definition decodeReturnTo :: "'y testApi \<Rightarrow> json option \<Rightarrow> string option" where
  "decodeReturnTo T v = checked (isTrustedReturnTo T) (asString v)"

text \<open>\<open>Schema.optional(CompanyNameSchema)\<close>\<close>

definition decodeOptionalName :: "json option \<Rightarrow> string option option" where
  "decodeOptionalName v = (case v of None \<Rightarrow> Some None | Some j \<Rightarrow> map_option Some (decodeCompanyName (Some j)))"

definition decodeTestCompany :: "json \<Rightarrow> (string option \<times> role) option" where
  "decodeTestCompany j = (case (decodeOptionalName (jsonField j ''name''), decodeRole (jsonField j ''role'')) of
     (Some n, Some r) \<Rightarrow> Some (n, r) | _ \<Rightarrow> None)"

definition decodeSignedInUserRequest :: "'y testApi \<Rightarrow> json \<Rightarrow> signedInUserRequest option" where
  "decodeSignedInUserRequest T j =
     (case (decodeOptionalName (jsonField j ''name''), decodeArray decodeTestCompany (jsonField j ''companies''),
            decodeReturnTo T (jsonField j ''returnTo'')) of
        (Some n, Some cs, Some r) \<Rightarrow> Some \<lparr>sq_name = n, sq_companies = cs, sq_returnTo = r\<rparr>
      | _ \<Rightarrow> None)"

definition decodeLoginLinkRequest :: "'y testApi \<Rightarrow> json \<Rightarrow> loginLinkRequest option" where
  "decodeLoginLinkRequest T j =
     (case (asString (jsonField j ''email''), decodeReturnTo T (jsonField j ''returnTo'')) of
        (Some e, Some r) \<Rightarrow> Some \<lparr>lq_email = e, lq_returnTo = r\<rparr> | _ \<Rightarrow> None)"

definition decodeSetCurrentCompanyRequest :: "json \<Rightarrow> setCurrentCompanyRequest option" where
  "decodeSetCurrentCompanyRequest j =
     (case (asString (jsonField j ''userId''), asString (jsonField j ''companyId'')) of
        (Some u, Some c) \<Rightarrow> Some \<lparr>cq_userId = u, cq_companyId = c\<rparr> | _ \<Rightarrow> None)"

text \<open>The headers of a request and the text of its body.\<close>

record testRequest =
  tr_headers :: headers
  tr_body :: string

definition mediaTypeOf :: "testRequest \<Rightarrow> string option" where
  "mediaTypeOf q = map_option (\<lambda>v. toLowerCase (trim (hd (splitOn (CHR '';'') v)))) (headersGet (tr_headers q) ''content-type'')"

definition decodeJsonBody :: "(json \<Rightarrow> 'a option) \<Rightarrow> testRequest \<Rightarrow> ('a, 'x) eff" where
  "decodeJsonBody decode q =
     (if mediaTypeOf q = Some ''application/json''
      then (case Option.bind (jsonParse (tr_body q)) decode of None \<Rightarrow> failWith InvalidArgument | Some a \<Rightarrow> succeed a)
      else failWith InvalidArgument)"

section \<open>Making a user\<close>

datatype testEmailPurpose = ForUser | ForOwner

fun purposeName :: "testEmailPurpose \<Rightarrow> string" where
  "purposeName ForUser = ''user''"
| "purposeName ForOwner = ''owner''"

definition testEmail :: "testEmailPurpose \<Rightarrow> (string, 'x) eff" where
  "testEmail purpose = mapEff (\<lambda>uuid. ''test-'' @ purposeName purpose @ ''-'' @ uuid @ ''@example.com'') randomUUID"

text \<open>A user as \<open>createUser\<close> of better-auth answers it: the id and the address.\<close>

definition actorOf :: "id \<times> string \<Rightarrow> actor" where
  "actorOf user = \<lparr>ac_id = fst user, ac_email = snd user, ac_lastUsedCompanyId = None\<rparr>"

text \<open>\<open>Effect.catchTag(tags, (failure) => Effect.die(failure))\<close>: the defect is the failure itself.\<close>

definition dieOnFailures :: "failure list \<Rightarrow> ('a, 'x) eff \<Rightarrow> ('a, 'x) eff" where
  "dieOnFailures tags m = catchIf (\<lambda>e. e \<in> set tags) (\<lambda>e. dieWith (BoundaryDefect e)) m"

definition joinByInvitation :: "'x service \<Rightarrow> id \<times> string \<Rightarrow> id \<times> string \<Rightarrow> id \<Rightarrow> role \<Rightarrow> (unit, 'x) eff" where
  "joinByInvitation K invitee owner companyId role =
     dieOnFailures [Forbidden, RateLimited, NotFound, EmailMismatch, ExpiredOrUsed]
       (andThen (requireInvite (actorOf owner) companyId (snd invitee) role None) (\<lambda>invite.
        andThen (createInvitation (sv_auth K) (sv_invitationsEnv K) (sv_appUrl K) invite) (\<lambda>created.
        andThen (requireInvitationAccept (actorOf invitee) (iv_token (ci_invitation created))) (\<lambda>grant.
          case grant of
            Reused _ \<Rightarrow> succeed ()
          | Proceed g \<Rightarrow> andDo (acceptInvitation (sv_auth K) g) (succeed ())))))"

definition TEST_COMPANY_ORG_CODE :: org_code where
  "TEST_COMPANY_ORG_CODE = CORPORATE"

definition companyWithRole :: "'x service \<Rightarrow> id \<times> string \<Rightarrow> string option \<times> role \<Rightarrow> (id, 'x) eff" where
  "companyWithRole K user company =
     (let name = (case fst company of None \<Rightarrow> ''Test Company'' | Some n \<Rightarrow> n)
      in if snd company = OWNER
         then andThen (addCompany (sv_auth K) (fst user) name TEST_COMPANY_ORG_CODE) (\<lambda>created.
           succeed (co_id (cr_company created)))
         else andThen (testEmail ForOwner) (\<lambda>email.
           andThen (createUser (sv_auth K) email ''Test Owner'') (\<lambda>owner.
           andThen (addCompany (sv_auth K) (fst owner) name TEST_COMPANY_ORG_CODE) (\<lambda>created.
           andDo (joinByInvitation K user owner (co_id (cr_company created)) (snd company))
             (succeed (co_id (cr_company created)))))))"

record preparedUser =
  si_userId :: id
  si_email :: string
  si_companyIds :: "id list"
  si_loginUrl :: string

definition createSignedInUser :: "'y nonProduction service \<Rightarrow> signedInUserRequest \<Rightarrow> (preparedUser, 'y) np_eff" where
  "createSignedInUser K input =
     andThen (testEmail ForUser) (\<lambda>email.
     andThen (createUser (sv_auth K) email (case sq_name input of None \<Rightarrow> ''Test User'' | Some n \<Rightarrow> n)) (\<lambda>user.
     andThen (collectEff (companyWithRole K user) (sq_companies input)) (\<lambda>companyIds.
     andDo (case companyIds of
              [] \<Rightarrow> succeed ()
            | current # _ \<Rightarrow> andDo (dieOnFailures [Forbidden] (switchCurrentCompany (sv_auth K) (fst user) current)) (succeed ()))
     (andThen (magicLinkUrlFor (sv_auth K) email (sq_returnTo input)) (\<lambda>loginUrl.
       succeed \<lparr>si_userId = fst user, si_email = email, si_companyIds = companyIds, si_loginUrl = loginUrl\<rparr>)))))"

definition setCurrentCompany :: "'x service \<Rightarrow> setCurrentCompanyRequest \<Rightarrow> (unit, 'x) eff" where
  "setCurrentCompany K input =
     andThen (findUserById (cq_userId input)) (\<lambda>user.
       case user of
         None \<Rightarrow> failWith NotFound
       | Some u \<Rightarrow> andDo (catchIf (\<lambda>e. e = Forbidden) (\<lambda>_. failWith InvalidArgument)
           (switchCurrentCompany (sv_auth K) (us_id u) (cq_companyId input))) (succeed ()))"

section \<open>Routes\<close>

definition TESTING_PATH :: string where
  "TESTING_PATH = ''/testing/v1''"

text \<open>\<open>c.json\<close>\<close>

definition jsonAnswer :: "json \<Rightarrow> response" where
  "jsonAnswer j = \<lparr>rs_status = 200, rs_headers = JSON_HEADERS, rs_body = stringify j\<rparr>"

definition preparedUserJson :: "preparedUser \<Rightarrow> json" where
  "preparedUserJson u = JObj [(''userId'', JStr (si_userId u)), (''email'', JStr (si_email u)),
     (''companyIds'', JArr (map JStr (si_companyIds u))), (''loginUrl'', JStr (si_loginUrl u))]"

type_synonym 'y testRoute = "testRequest \<Rightarrow> 'y nonProduction world \<Rightarrow> response \<times> 'y nonProduction world"

definition postSignedInUsers :: "'y testApi \<Rightarrow> 'y testRoute" where
  "postSignedInUsers T q = runRoute
     (andThen (decodeJsonBody (decodeSignedInUserRequest T) q) (\<lambda>body.
      mapEff (\<lambda>u. jsonAnswer (preparedUserJson u)) (createSignedInUser (ta_service T) body)))"

definition postCurrentCompany :: "'y testApi \<Rightarrow> 'y testRoute" where
  "postCurrentCompany T q = runRoute
     (andThen (decodeJsonBody decodeSetCurrentCompanyRequest q) (\<lambda>body.
      mapEff (\<lambda>_. jsonAnswer (JObj [(''ok'', JBool True)])) (setCurrentCompany (ta_service T) body)))"

definition postLoginLinks :: "'y testApi \<Rightarrow> 'y testRoute" where
  "postLoginLinks T q = runRoute
     (andThen (decodeJsonBody (decodeLoginLinkRequest T) q) (\<lambda>body.
      mapEff (\<lambda>link. jsonAnswer (JObj [(''loginUrl'', JStr link)]))
        (magicLinkUrlFor (sv_auth (ta_service T)) (lq_email body) (lq_returnTo body))))"

definition testingApiRoutes :: "'y testApi \<Rightarrow> (string \<times> 'y testRoute) list" where
  "testingApiRoutes T = [(TESTING_PATH @ ''/signed-in-users'', postSignedInUsers T),
     (TESTING_PATH @ ''/current-company'', postCurrentCompany T)]"

definition e2eLoginLinkRoutes :: "'y testApi \<Rightarrow> (string \<times> 'y testRoute) list" where
  "e2eLoginLinkRoutes T = [(TESTING_PATH @ ''/login-links'', postLoginLinks T)]"

text \<open>The routes of the test API; those of the developer home stand between them.\<close>

definition nonProductionRoutes :: "bool \<Rightarrow> 'y testApi \<Rightarrow> (string \<times> 'y testRoute) list" where
  "nonProductionRoutes e2eLoginLinks T = testingApiRoutes T @ (if e2eLoginLinks then e2eLoginLinkRoutes T else [])"

definition buildDevHomeUrl :: "url_parser \<Rightarrow> returnToService \<Rightarrow> string option" where
  "buildDevHomeUrl parseUrl opts = map_option hrefOf (authHostUrlReturningToService parseUrl opts DEV_HOME_PATH)"

section \<open>Mails outside of production\<close>

definition magicLinkLogPrefix :: "string \<Rightarrow> string" where
  "magicLinkLogPrefix email = ''[TEST] Magic Link for '' @ email @ '': ''"

definition invitationLogPrefix :: "string \<Rightarrow> string" where
  "invitationLogPrefix email = ''[TEST] Invitation email for '' @ email @ '': ''"

definition magicLinkLogLine :: "string \<Rightarrow> string \<Rightarrow> string" where
  "magicLinkLogLine email link = magicLinkLogPrefix email @ link"

definition invitationLogLine :: "string \<Rightarrow> string \<Rightarrow> string" where
  "invitationLogLine email link = invitationLogPrefix email @ link"

text \<open>What follows the first occurrence of a text.\<close>

fun afterFirst :: "string \<Rightarrow> string \<Rightarrow> string option" where
  "afterFirst [] part = (if part = [] then Some [] else None)"
| "afterFirst (c # s) part = (if startsWith (c # s) part then Some (drop (length part) (c # s)) else afterFirst s part)"

text \<open>The last line with one of the two prefixes, and in it the first of the two that occurs.\<close>

definition sentLinkIn :: "string list \<Rightarrow> string \<Rightarrow> string option" where
  "sentLinkIn lines email =
     (let prefixes = [magicLinkLogPrefix email, invitationLogPrefix email]
      in map_option trim (at0 (List.map_filter (\<lambda>line. at0 (List.map_filter (afterFirst line) prefixes)) (rev lines))))"

text \<open>The sender that records links; the lines it logs are not part of the state. \<open>new URL\<close> throws on a text that is no URL.\<close>

definition recordSent :: "url_parser \<Rightarrow> string \<Rightarrow> string \<Rightarrow> (unit, 'y) np_eff" where
  "recordSent parseUrl email link = (case parseUrl link of
     None \<Rightarrow> dieWith (ThrownError ''Invalid URL'')
   | Some u \<Rightarrow> updateState (recordLink email (map_of (ur_searchParams u) ''callbackURL'') link))"

definition recordingEmailSenderService :: "url_parser \<Rightarrow> 'y nonProduction emailSender" where
  "recordingEmailSenderService parseUrl =
     \<lparr>es_sendWelcome = (\<lambda>email name. succeed ()), es_sendMagicLink = recordSent parseUrl,
      es_sendInvitation = (\<lambda>params. recordSent parseUrl (ip_inviteeEmail params) (ip_url params)),
      es_sendMfaEnabled = (\<lambda>email. succeed ()), es_sendMfaDisabled = (\<lambda>email. succeed ())\<rparr>"

definition UNDELIVERABLE_EMAIL_DOMAIN :: string where
  "UNDELIVERABLE_EMAIL_DOMAIN = ''@example.com''"

definition isUndeliverableAddress :: "string \<Rightarrow> bool" where
  "isUndeliverableAddress email \<longleftrightarrow> endsWith (toLowerCase email) UNDELIVERABLE_EMAIL_DOMAIN"

definition emailSenderByRecipient :: "'x emailSender \<Rightarrow> 'x emailSender \<Rightarrow> 'x emailSender" where
  "emailSenderByRecipient recordingSender deliveringSender =
     (let senderFor = (\<lambda>email. if isUndeliverableAddress email then recordingSender else deliveringSender)
      in \<lparr>es_sendWelcome = (\<lambda>email. es_sendWelcome (senderFor email) email),
          es_sendMagicLink = (\<lambda>email. es_sendMagicLink (senderFor email) email),
          es_sendInvitation = (\<lambda>params. es_sendInvitation (senderFor (ip_inviteeEmail params)) params),
          es_sendMfaEnabled = (\<lambda>email. es_sendMfaEnabled (senderFor email) email),
          es_sendMfaDisabled = (\<lambda>email. es_sendMfaDisabled (senderFor email) email)\<rparr>)"

section \<open>Which database\<close>

definition LOCAL_DATABASE_HOSTNAMES :: "string list" where
  "LOCAL_DATABASE_HOSTNAMES = [''localhost'', ''127.0.0.1'', ''[::1]'', ''auth-postgres'', ''taimei-auth-postgres'']"

datatype databaseTarget = UnsetDatabase | LocalDatabase string | RemoteDatabase "string option"

definition hostPgConnectsTo :: "url \<Rightarrow> string" where
  "hostPgConnectsTo u = toLowerCase (case map_of (ur_searchParams u) ''host'' of
     None \<Rightarrow> ur_hostname u | Some h \<Rightarrow> if h = [] then ur_hostname u else h)"

definition databaseTargetOf :: "url_parser \<Rightarrow> string option \<Rightarrow> databaseTarget" where
  "databaseTargetOf parseUrl url =
     (if url = None \<or> url = Some [] then UnsetDatabase
      else let hostname = map_option hostPgConnectsTo (Option.bind url parseUrl)
        in case hostname of
          None \<Rightarrow> RemoteDatabase None
        | Some h \<Rightarrow> if h \<in> set LOCAL_DATABASE_HOSTNAMES then LocalDatabase h else RemoteDatabase (Some h))"

text \<open>\<open>None\<close> is the error it throws.\<close>

definition requireLocalDatabase :: "url_parser \<Rightarrow> string option \<Rightarrow> string option" where
  "requireLocalDatabase parseUrl url =
     (case databaseTargetOf parseUrl url of LocalDatabase h \<Rightarrow> Some h | _ \<Rightarrow> None)"

end
