(* ===== verification/TestApiProperties.thy ===== *)
theory TestApiProperties
  imports TestApi NonProductionProperties SpaProperties
begin

text \<open>
  What the entry outside of production does to the service behind it: it moves the database only as the operations of
  the service do, and a user it prepares for a test is what was asked for.
\<close>

section \<open>What is relied on\<close>

text \<open>
  better-auth signs a user up when it answers one, and may have done so when it does not answer; mailing a link does not
  write the tables of the service.
\<close>

definition test_frame :: "'y nonProduction service \<Rightarrow> bool" where
  "test_frame K \<longleftrightarrow> service_frame K \<and>
     (\<forall>e c w. w_db (snd (ba_signInMagicLink (sv_auth K) e c w)) = w_db w) \<and>
     (\<forall>e n w r w'. ba_createUser (sv_auth K) e n w = (r, w') \<longrightarrow>
       (w_db w' = w_db w \<and> (\<exists>c. r = Inl c)) \<or>
       (\<exists>u. signUpAllowed u (w_db w) \<and> w_db w' = signUp u (w_db w) \<and> ((\<exists>c. r = Inl c) \<or> r = Inr (us_id u, us_email u))))"

lemma createUser_success:
  assumes "test_frame K" "createUser (sv_auth K) e n w = (Inr user, w')"
  shows "\<exists>u. signUpAllowed u (w_db w) \<and> w_db w' = signUp u (w_db w) \<and> user = (us_id u, us_email u)"
proof -
  from assms(2) have "ba_createUser (sv_auth K) e n w = (Inr user, w')"
    by (simp add: createUser_def tryAuthApi_runs)
  with assms(1) show ?thesis unfolding test_frame_def by blast
qed

lemma keeps_calls:
  assumes "test_frame K"
  shows "keeps w_db (signInMagicLink (sv_auth K) e c)" "keeps w_db (getSession (sv_auth K) h)" "keeps w_db (signOut (sv_auth K) h)"
proof -
  have A: "auth_frame (sv_auth K)" using assms by (simp add: test_frame_def service_frame_def)
  show "keeps w_db (signInMagicLink (sv_auth K) e c)"
    unfolding signInMagicLink_def using assms by (intro keeps_tryAuthApi) (simp add: test_frame_def)
  show "keeps w_db (getSession (sv_auth K) h)" "keeps w_db (signOut (sv_auth K) h)"
    unfolding getSession_def signOut_def using A by (intro keeps_tryAuthApi, simp add: auth_frame_def)+
qed

section \<open>Staying reachable\<close>

lemma keeps_db_nonProduction:
  "keeps w_db (authHostOrigin T)" "keeps w_db (authHostOriginCheck T q)" "keeps w_db (requestUrl T q)"
  "keeps w_db (redirectTargetOf p u)" "keeps w_db (setCookie c)" "keeps w_db (takeSentLink e cb)"
  "keeps w_db (browserKeyIssuedIfMissing T q)" "keeps w_db (chosenAccountOf T q)" "keeps w_db (listChoosableAccounts k)"
  "keeps w_db (rememberSignedIn T key su)" "keeps w_db (testEmail purpose)" "keeps w_db (decodeJsonBody d b)"
proof -
  have db: "keeps w_db (testingDb stmt)" for stmt
    by (auto simp: keeps_def testingDb_def Let_def split: fault.splits prod.splits)
  have uuid: "keeps w_db randomUUID" by (simp add: keeps_def randomUUID_def)
  show cookie: "keeps w_db (setCookie c)" for c by (simp add: keeps_def setCookie_def updateState_def)
  show host: "keeps w_db (authHostOrigin T)" unfolding authHostOrigin_def by (intro keeps_intros)
  show "keeps w_db (authHostOriginCheck T q)" unfolding authHostOriginCheck_def by (intro keeps_intros host)
  show "keeps w_db (requestUrl T q)" unfolding requestUrl_def by (intro keeps_intros)
  show "keeps w_db (redirectTargetOf p u)"
    by (auto simp: keeps_def redirectTargetOf_def succeed_def failWith_def Let_def split: option.splits)
  show "keeps w_db (takeSentLink e cb)" by (auto simp: keeps_def takeSentLink_def Let_def split: option.splits)
  show "keeps w_db (browserKeyIssuedIfMissing T q)"
    unfolding browserKeyIssuedIfMissing_def by (intro keeps_intros cookie uuid)
  show "keeps w_db (chosenAccountOf T q)"
    unfolding chosenAccountOf_def findChoosableAccount_def by (auto intro!: keeps_intros db split: option.splits)
  show "keeps w_db (listChoosableAccounts k)" unfolding listChoosableAccounts_def by (rule db)
  show "keeps w_db (rememberSignedIn T key su)"
    unfolding rememberSignedIn_def addBrowserAccount_def by (intro keeps_intros db)
  show "keeps w_db (testEmail purpose)" unfolding testEmail_def by (intro keeps_intros uuid)
  show "keeps w_db (decodeJsonBody d b)" unfolding decodeJsonBody_def by (intro keeps_intros)
qed

lemma keeps_magicLinkUrlFor: "test_frame K \<Longrightarrow> keeps w_db (magicLinkUrlFor (sv_auth K) e c)"
  unfolding magicLinkUrlFor_def by (auto intro!: keeps_intros keeps_db_nonProduction keeps_calls split: option.splits)

lemma serves_createUser:
  assumes "test_frame K" shows "serves K (createUser (sv_auth K) e n)"
  unfolding serves_def
proof (intro allI impI)
  fix w assume w: "reachable K w"
  obtain r w' where run: "ba_createUser (sv_auth K) e n w = (r, w')" by fastforce
  have "reachable K w'" if "w_db w' = w_db w \<or> (\<exists>u. signUpAllowed u (w_db w) \<and> w_db w' = signUp u (w_db w))"
    using that
  proof
    assume "w_db w' = w_db w"
    with w show ?thesis by (blast intro: reachable.step service_step.elsewhere)
  next
    assume "\<exists>u. signUpAllowed u (w_db w) \<and> w_db w' = signUp u (w_db w)"
    then obtain u where "signUpAllowed u (w_db w)" "w_db w' = w_db (w\<lparr>w_db := signUp u (w_db w)\<rparr>)" by auto
    with w show ?thesis by (blast intro: reachable.step service_step.sign_up service_step.elsewhere)
  qed
  moreover have "w_db w' = w_db w \<or> (\<exists>u. signUpAllowed u (w_db w) \<and> w_db w' = signUp u (w_db w))"
    using assms run unfolding test_frame_def by blast
  ultimately show "reachable K (snd (createUser (sv_auth K) e n w))"
    by (simp add: createUser_def tryAuthApi_def run split: sum.splits)
qed

lemma serves_dieOnFailures: "serves K m \<Longrightarrow> serves K (dieOnFailures tags m)"
  unfolding dieOnFailures_def by (intro serves_intros)

lemma serves_collectEff: "(\<And>x. serves K (f x)) \<Longrightarrow> serves K (collectEff f xs)"
  by (induction xs) (auto simp: mapEff_def intro!: serves_intros)

lemma serves_programs:
  fixes K :: "'y nonProduction service"
  assumes "test_frame K"
  shows "serves K (companyWithRole K user company)" "serves K (createSignedInUser K input)" "serves K (setCurrentCompany K current)"
proof -
  have join: "serves K (joinByInvitation K i o' c r)" for i o' c r
    unfolding joinByInvitation_def
    by (auto intro!: serves_intros serves_dieOnFailures serves_keeps[OF keeps_guards(6)] serves_keeps[OF keeps_guards(7)]
        split: invitationAcceptGrant.splits)
  show company: "serves K (companyWithRole K user company)" for user company
    unfolding companyWithRole_def Let_def
    by (auto intro!: serves_intros join serves_createUser[OF assms] serves_keeps[OF keeps_db_nonProduction(11)])
  show "serves K (createSignedInUser K input)"
    unfolding createSignedInUser_def
    by (auto intro!: serves_intros company serves_collectEff serves_dieOnFailures serves_createUser[OF assms]
        serves_keeps[OF keeps_db_nonProduction(11)] serves_keeps[OF keeps_magicLinkUrlFor[OF assms]] split: list.splits)
  have find: "keeps w_db (findUserById u :: (user option, 'y nonProduction) eff)" for u by (intro keeps_intros)
  show "serves K (setCurrentCompany K current)"
    unfolding setCurrentCompany_def
    by (auto intro!: serves_intros serves_keeps[OF find] serves_keeps[OF keeps_failWith] split: option.splits)
qed

lemma runRoute_serves: "serves K p \<Longrightarrow> reachable K w \<Longrightarrow> reachable K (snd (runRoute p w))"
  by (auto simp: runRoute_def causeToResponse_def sendReports_def Let_def split: prod.splits sum.splits
      intro: reachable.step[OF _ service_step.elsewhere] dest: servesD)

lemma serves_devHome:
  assumes "test_frame K" "te_auth E = sv_auth K"
  shows "serves K (devHomeProgram E q)" "serves K (signInProgram E printQuery q)" "serves K (signOutProgram E q)"
proof -
  note calls = keeps_calls[OF assms(1), folded assms(2)] keeps_magicLinkUrlFor[OF assms(1), folded assms(2)]
  show "serves K (devHomeProgram E q)"
    unfolding devHomeProgram_def Let_def by (intro serves_keeps keeps_intros keeps_db_nonProduction calls)
  show "serves K (signInProgram E printQuery q)"
    unfolding signInProgram_def by (rule serves_keeps) (auto intro!: keeps_intros keeps_db_nonProduction calls split: prod.splits)
  show "serves K (signOutProgram E q)"
    unfolding signOutProgram_def by (intro serves_keeps keeps_intros keeps_db_nonProduction calls)
qed

lemma requireAuthHostOrigin_serves:
  assumes "\<And>w. reachable K w \<Longrightarrow> reachable K (snd (continue w))" "reachable K w"
  shows "reachable K (snd (requireAuthHostOrigin E q continue w))"
proof -
  obtain r w1 where run: "authHostOriginCheck E q w = (r, w1)" by fastforce
  have "reachable K w1" using serves_keeps[OF keeps_db_nonProduction(2)] run assms(2) by (rule servesD)
  with assms(1) show ?thesis
    by (auto simp: requireAuthHostOrigin_def runMiddleware_def run causeToResponse_def sendReports_def Let_def
        split: sum.splits middlewareDecision.splits prod.splits intro: reachable.step[OF _ service_step.elsewhere])
qed

lemma serves_routes:
  assumes "test_frame (ta_service T)" "(path, route) \<in> set (nonProductionRoutes flag T)" "reachable (ta_service T) w"
  shows "reachable (ta_service T) (snd (route q w))"
proof -
  note programs = serves_programs(2,3)[OF assms(1)] serves_keeps[OF keeps_magicLinkUrlFor[OF assms(1)]]
    serves_keeps[OF keeps_db_nonProduction(12)]
  from assms(2) consider "route = postSignedInUsers T" | "route = postCurrentCompany T" | "route = postLoginLinks T"
    by (auto simp: nonProductionRoutes_def testingApiRoutes_def e2eLoginLinkRoutes_def split: if_splits)
  then show ?thesis
    by cases (simp_all add: postSignedInUsers_def postCurrentCompany_def postLoginLinks_def mapEff_def,
      (intro runRoute_serves assms(3) serves_intros programs)+)
qed

text \<open>
  Whatever is asked of the entry outside of production - the developer home and its two forms, the API that prepares
  users for tests, with or without the login links - and however it ends, the database moves only as the operations of
  the service move it; so every invariant of the service holds of databases on which tests are run, too.
\<close>

theorem non_production_stays_reachable:
  assumes "test_frame (ta_service T)" "te_auth E = sv_auth (ta_service T)" "reachable (ta_service T) w"
    and "w' \<in> {snd (devHomeProgram E h w), snd (postSignIn E printQuery h w), snd (postSignOut E h w)} \<union>
      (\<lambda>(path, route). snd (route q w)) ` set (nonProductionRoutes e2eLoginLinks T)"
  shows "reachable (ta_service T) w' \<and> companyInv (w_db w') \<and> wf_db (w_db w') \<and> invitationColumns (w_db w')"
proof -
  note home = serves_devHome[OF assms(1,2)]
  have "reachable (ta_service T) w'"
    using assms(3,4) serves_routes[OF assms(1)] home(1)
    by (auto simp: serves_def postSignIn_def postSignOut_def intro!: requireAuthHostOrigin_serves runRoute_serves home(2,3))
  moreover have "service_frame (ta_service T)" using assms(1) by (simp add: test_frame_def)
  ultimately show ?thesis using ownership.always schema.always invitations.always by blast
qed

end
