(* ===== verification/TestUsers.thy ===== *)
theory TestUsers
  imports TestApiProperties OwnerInvariant
begin

text \<open>
  A user prepared for a test is what the request asked for: what each operation on the way adds to the database, and their
  composition.
\<close>

section \<open>A user for a test\<close>

text \<open>The memberships of a user, as pairs of company and role in the order they were made.\<close>

definition rolesOf :: "database \<Rightarrow> id \<Rightarrow> (id \<times> role) list" where
  "rolesOf d u = map (\<lambda>m. (mb_companyId m, mb_role m)) (filter (\<lambda>m. mb_userId m = u) (d_membership d))"

text \<open>What making a company for a user leaves alone, and what it adds.\<close>

definition companyGained :: "id \<Rightarrow> id \<Rightarrow> role \<Rightarrow> database \<Rightarrow> database \<Rightarrow> bool" where
  "companyGained u c r d d' \<longleftrightarrow> c \<notin> companyIds d \<and> isActiveCompany d' c \<and> rolesOf d' u = rolesOf d u @ [(c, r)] \<and>
     (\<forall>x. isActiveCompany d x \<longrightarrow> isActiveCompany d' x) \<and> companyIds d \<subseteq> companyIds d' \<and> userIds d \<subseteq> userIds d'"

lemma userIds_setCurrent: "userIds (setCurrent u c t d) = userIds d"
proof -
  have "map us_id (d_user (setCurrent u c t d)) = map us_id (d_user d)"
    by (simp add: setCurrent_def map_key_updateWhere)
  then show ?thesis unfolding userIds_def by (metis list.set_map)
qed

lemma addCompany_success:
  assumes "addCompany A u name oc w = (Inr r, w')" "auth_frame A"
  shows "companyCreated u name oc (w_clock w) r (w_db w) (w_db w')"
  using transaction_success[OF assms(1)[unfolded addCompany_def] assms(2)] createCompanyWithOwner_success by fastforce

lemma companyCreated_gained:
  assumes "companyCreated u name oc t r d d'"
  shows "companyGained u (co_id (cr_company r)) OWNER d d'" "userIds d' = userIds d"
    "companyIds d' = insert (co_id (cr_company r)) (companyIds d)"
    "v \<noteq> u \<Longrightarrow> rolesOf d' v = rolesOf d v" "d_invitation d' = d_invitation d"
proof -
  from assms obtain c i where r: "r = \<lparr>cr_company = newCompany c name oc t, cr_membership = newOwner i u c t\<rparr>"
    and new: "c \<notin> companyIds d" "(u, c) \<notin> membershipKey ` set (d_membership d)"
    and a: "auditAppended [\<lparr>ae_userId = u, ae_event = Company_created c name oc u\<rparr>]
         (setCurrent u c t (d\<lparr>d_company := d_company d @ [newCompany c name oc t],
            d_membership := d_membership d @ [newOwner i u c t]\<rparr>)) d'"
    unfolding companyCreated_def by blast
  note tabs = auditAppended_tables[OF a]
  have id: "co_id (cr_company r) = c" by (simp add: r newCompany_def)
  have users: "userIds d' = userIds d" using userIds_setCurrent by (simp add: userIds_def tabs)
  have companies: "d_company d' = d_company d @ [newCompany c name oc t]" by (simp add: tabs)
  have members: "d_membership d' = d_membership d @ [newOwner i u c t]" by (simp add: tabs)
  show "companyGained u (co_id (cr_company r)) OWNER d d'" "userIds d' = userIds d"
    "companyIds d' = insert (co_id (cr_company r)) (companyIds d)"
    "v \<noteq> u \<Longrightarrow> rolesOf d' v = rolesOf d v" "d_invitation d' = d_invitation d"
    using new users companies members
    by (auto simp: id companyGained_def rolesOf_def companyIds_def isActiveCompany_def newCompany_def newOwner_def tabs)
qed

lemma companyGained_trans:
  assumes "rolesOf d1 u = rolesOf d u" "companyIds d \<subseteq> companyIds d1" "userIds d \<subseteq> userIds d1"
    and "\<forall>x. isActiveCompany d x \<longrightarrow> isActiveCompany d1 x" "companyGained u c r d1 d'"
  shows "companyGained u c r d d'"
  using assms unfolding companyGained_def by auto

lemma rolesOf_signUp: "rolesOf (signUp v d) u = rolesOf d u" "companyIds (signUp v d) = companyIds d"
    "userIds (signUp v d) = insert (us_id v) (userIds d)" "isActiveCompany (signUp v d) x \<longleftrightarrow> isActiveCompany d x"
    "d_invitation (signUp v d) = d_invitation d"
  by (auto simp: signUp_def rolesOf_def companyIds_def userIds_def isActiveCompany_def)

lemma spendInvitationAttempt_db: "spendInvitationAttempt env c w = (r, w') \<Longrightarrow> w_db w' = w_db w"
proof -
  have "keeps w_db (spendInvitationAttempt env c)"
    unfolding spendInvitationAttempt_def spendAttemptBudgetOrRateLimited_def spendAttemptBudgetFailOpen_def
    by (intro keeps_intros)
  then show "spendInvitationAttempt env c w = (r, w') \<Longrightarrow> w_db w' = w_db w" by (rule keepsD)
qed

text \<open>An invitation to a company that has none is a new row.\<close>

lemma createInvitation_fresh:
  assumes "createInvitation A env appUrl g w = (Inr res, w')" "auth_frame A"
    and "\<forall>i\<in>set (d_invitation (w_db w)). iv_companyId i \<noteq> ig_companyId g"
  shows "iv_companyId (ci_invitation res) = ig_companyId g" "iv_email (ci_invitation res) = ig_email g"
    "iv_role (ci_invitation res) = ig_role g"
    "iv_token (ci_invitation res) \<notin> iv_token ` set (d_invitation (w_db w))"
    "d_invitation (w_db w') = d_invitation (w_db w) @ [ci_invitation res]"
    "d_membership (w_db w') = d_membership (w_db w)" "d_company (w_db w') = d_company (w_db w)"
    "d_user (w_db w') = d_user (w_db w)"
proof -
  let ?insert = "\<lambda>now. andThen generateInvitationId (\<lambda>newId. andThen generateInvitationToken (\<lambda>token.
     andThen (insertInvitation \<lparr>ni_id = newId, ni_companyId = ig_companyId g, ni_email = ig_email g, ni_role = ig_role g,
       ni_token = token, ni_expiresAt = now + INVITE_TTL_MS, ni_invitedByUserId = ac_id (ig_actor g)\<rparr>) (\<lambda>row.
     andDo (appendAuditInTx [\<lparr>ae_userId = ac_id (ig_actor g), ae_event = Invitation_sent (iv_id row) (ig_companyId g)
       (ig_email g) (ig_role g) (ac_id (ig_actor g))\<rparr>]) (succeed row))))"
  from assms(1) obtain w1 where find: "findOrInsertInvitation A env g w = (Inr res, w1)" and w': "w_db w' = w_db w1"
    by (auto simp: createInvitation_def sendInvitationLink_def andThen_runs succeed_runs runBackground_def)
  have none: "filter (\<lambda>i. iv_companyId i = ig_companyId g \<and> toLowerCase (iv_email i) = toLowerCase (ig_email g) \<and> pendingAt now i)
      (d_invitation (w_db w)) = []" for now
    using assms(3) by (simp add: filter_empty_conv)
  from find obtain w2 w3 row where spend: "spendInvitationAttempt env (ig_companyId g) w2 = (Inr (), w3)" "w_db w2 = w_db w"
    and tx: "transaction A (?insert (w_clock w)) w3 = (Inr row, w1)" and res: "ci_invitation res = row"
    by (auto simp: findOrInsertInvitation_def Let_def run_simps none at0_def)
  from transaction_success[OF tx assms(2)] obtain w4 where body:
    "?insert (w_clock w) (w3\<lparr>w_dbCalls := Suc (w_dbCalls w3), w_hooks := [], w_locks := []\<rparr>) = (Inr row, w4)"
    and w1: "w_db w1 = w_db w4" by blast
  have db3: "w_db w3 = w_db w" using spendInvitationAttempt_db[OF spend(1)] spend(2) by simp
  from body obtain newId token es w5 w6 where row: "insertInvitation \<lparr>ni_id = newId, ni_companyId = ig_companyId g,
       ni_email = ig_email g, ni_role = ig_role g, ni_token = token, ni_expiresAt = w_clock w + INVITE_TTL_MS,
       ni_invitedByUserId = ac_id (ig_actor g)\<rparr> w5 = (Inr row, w6)"
    and db5: "w_db w5 = w_db w" and audit: "appendAuditInTx es w6 = (Inr (), w4)"
    unfolding andThen_runs succeed_runs generateInvitationId_def generateInvitationToken_def mapEff_runs random_runs
    by (auto simp: db3)
  have ins: "w_db w6 = (w_db w)\<lparr>d_invitation := d_invitation (w_db w) @ [row]\<rparr>"
      "iv_token row \<notin> iv_token ` set (d_invitation (w_db w))" "iv_companyId row = ig_companyId g" "iv_email row = ig_email g"
      "iv_role row = ig_role g"
    using row by (auto simp: insertInvitation_runs db5)
  note tabs = auditAppended_tables[OF appendAuditInTx_db[OF audit]]
  show "iv_companyId (ci_invitation res) = ig_companyId g" "iv_email (ci_invitation res) = ig_email g"
    "iv_role (ci_invitation res) = ig_role g"
    "iv_token (ci_invitation res) \<notin> iv_token ` set (d_invitation (w_db w))"
    "d_invitation (w_db w') = d_invitation (w_db w) @ [ci_invitation res]"
    "d_membership (w_db w') = d_membership (w_db w)" "d_company (w_db w') = d_company (w_db w)"
    "d_user (w_db w') = d_user (w_db w)"
    using ins by (simp_all add: w' w1 tabs res)
qed

lemma acceptInvitation_gained:
  assumes "requireInvitationAccept (actorOf user) token w = (Inr (Proceed g), w1)" "acceptInvitation A g w1 = (Inr c', w')"
    and "auth_frame A" "at0 (filter (\<lambda>i. iv_token i = token) (d_invitation (w_db w))) = Some row"
  shows "rolesOf (w_db w') (fst user) = rolesOf (w_db w) (fst user) @ [(iv_companyId row, iv_role row)]"
    "d_company (w_db w') = d_company (w_db w)" "userIds (w_db w') = userIds (w_db w)"
proof -
  have g: "ag_invitation g = row" "ag_actor g = actorOf user" "w_db w1 = w_db w"
    using assms(1,4) by (auto simp: requireInvitationAccept_def run_simps split: if_splits)
  from acceptInvitation_success[OF assms(2,3)] obtain w0 w2 :: "'a world" where
    body: "acceptBody (ag_actor g) (ag_invitation g) w0 = (Inr (), w2)" and db: "w_db w0 = w_db w1" "w_db w' = w_db w2" by blast
  from acceptBody_success[OF body] obtain es i where
    app: "auditAppended es (setCurrent (fst user) (iv_companyId row) (w_clock w0)
        ((settle (\<lambda>v. iv_id v = iv_id row) ACCEPTED (w_clock w0) (w_db w))\<lparr>d_membership := d_membership (w_db w) @
          [\<lparr>mb_id = i, mb_userId = fst user, mb_companyId = iv_companyId row, mb_role = iv_role row,
            mb_joinedAt = w_clock w0, mb_createdAt = w_clock w0, mb_updatedAt = w_clock w0\<rparr>]\<rparr>)) (w_db w2)"
    by (auto simp: g db actorOf_def)
  note tabs = auditAppended_tables[OF app]
  show "rolesOf (w_db w') (fst user) = rolesOf (w_db w) (fst user) @ [(iv_companyId row, iv_role row)]"
    "d_company (w_db w') = d_company (w_db w)" "userIds (w_db w') = userIds (w_db w)"
    using userIds_setCurrent[of "fst user" "iv_companyId row" "w_clock w0" "w_db w"]
    by (simp_all add: db tabs rolesOf_def userIds_def setCurrent_def settle_def)
qed

section \<open>A company for the user\<close>

lemma membershipOf_None_rolesOf: "membershipOf d u c = None \<longleftrightarrow> c \<notin> fst ` set (rolesOf d u)"
  by (auto simp: membershipOf_None_iff rolesOf_def isMembershipOf_def image_iff)

lemma rolesOf_companies: "wf_db d \<Longrightarrow> fst ` set (rolesOf d u) \<subseteq> companyIds d"
  by (auto simp: rolesOf_def wf_db_def wf_refs_def)

lemma joinByInvitation_gained:
  fixes K :: "'y nonProduction service"
  assumes "joinByInvitation K user owner c r w = (Inr x, w')" "auth_frame (sv_auth K)"
    and "\<forall>i\<in>set (d_invitation (w_db w)). iv_companyId i \<noteq> c" "membershipOf (w_db w) (fst user) c = None"
  shows "rolesOf (w_db w') (fst user) = rolesOf (w_db w) (fst user) @ [(c, r)]" "d_company (w_db w') = d_company (w_db w)"
    "userIds (w_db w') = userIds (w_db w)"
proof -
  from assms(1) obtain invite w1 created w2 grant w3 where
    inv: "requireInvite (actorOf owner) c (snd user) r None w = (Inr invite, w1)"
    and create: "createInvitation (sv_auth K) (sv_invitationsEnv K) (sv_appUrl K) invite w1 = (Inr created, w2)"
    and grant: "requireInvitationAccept (actorOf user) (iv_token (ci_invitation created)) w2 = (Inr grant, w3)"
    and rest: "(case grant of Reused _ \<Rightarrow> succeed () | Proceed g \<Rightarrow> andDo (acceptInvitation (sv_auth K) g) (succeed ())) w3 = (Inr x, w')"
    by (auto simp: joinByInvitation_def dieOnFailures_def catchIf_runs andThen_runs dieWith_def)
  have i: "ig_companyId invite = c" "ig_role invite = r" "w_db w1 = w_db w"
    using inv by (auto simp: requireInvite_def andThen_runs failWith_runs succeed_runs split: if_splits dest!: requireMembershipOf_success)
  let ?row = "ci_invitation created"
  have none: "\<forall>i\<in>set (d_invitation (w_db w1)). iv_companyId i \<noteq> ig_companyId invite" using assms(3) i by simp
  note made = createInvitation_fresh[OF create assms(2) none]
  have first: "at0 (filter (\<lambda>i. iv_token i = iv_token ?row) (d_invitation (w_db w2))) = Some ?row"
  proof -
    have "filter (\<lambda>i. iv_token i = iv_token ?row) (d_invitation (w_db w1)) = []"
      using made(4) unfolding filter_empty_conv by (metis image_eqI)
    then show ?thesis by (simp add: made(5) at0_def)
  qed
  have "membershipOf (w_db w2) (fst user) (iv_companyId ?row) = None"
    using assms(4) made(1,6) i by (simp add: membershipOf_def)
  with grant first obtain g where g: "grant = Proceed g"
    by (auto simp: requireInvitationAccept_def run_simps actorOf_def split: if_splits)
  with rest obtain y where accept: "acceptInvitation (sv_auth K) g w3 = (Inr y, w')" by (auto simp: andThen_runs succeed_runs)
  note gained = acceptInvitation_gained[OF grant[unfolded g] accept assms(2) first]
  have same: "rolesOf (w_db w2) (fst user) = rolesOf (w_db w) (fst user)" "userIds (w_db w2) = userIds (w_db w)"
    using made(6,8) i by (simp_all add: rolesOf_def userIds_def)
  show "rolesOf (w_db w') (fst user) = rolesOf (w_db w) (fst user) @ [(c, r)]" "d_company (w_db w') = d_company (w_db w)"
    "userIds (w_db w') = userIds (w_db w)"
    using gained same made(1,3,7) i by simp_all
qed

lemma companyWithRole_gained:
  fixes K :: "'y nonProduction service"
  assumes "companyWithRole K user company w = (Inr c, w')" "test_frame K" "wf_db (w_db w)" "fst user \<in> userIds (w_db w)"
  shows "companyGained (fst user) c (snd company) (w_db w) (w_db w')"
proof -
  have A: "auth_frame (sv_auth K)" using assms(2) by (simp add: test_frame_def service_frame_def)
  show ?thesis
  proof (cases "snd company = OWNER")
    case True
    with assms(1) obtain name created where "addCompany (sv_auth K) (fst user) name TEST_COMPANY_ORG_CODE w = (Inr created, w')"
      and "c = co_id (cr_company created)" by (auto simp: companyWithRole_def Let_def andThen_runs succeed_runs)
    with companyCreated_gained(1)[OF addCompany_success[OF this(1) A]] True show ?thesis by simp
  next
    case False
    with assms(1) obtain name email w1 owner w2 created w3 where
      mail: "testEmail ForOwner w = (Inr email, w1)"
      and create: "createUser (sv_auth K) email ''Test Owner'' w1 = (Inr owner, w2)"
      and add: "addCompany (sv_auth K) (fst owner) name TEST_COMPANY_ORG_CODE w2 = (Inr created, w3)"
      and join: "joinByInvitation K user owner (co_id (cr_company created)) (snd company) w3 = (Inr (), w')"
      and c: "c = co_id (cr_company created)"
      by (auto simp: companyWithRole_def Let_def andThen_runs succeed_runs)
    have w1: "w_db w1 = w_db w" using keeps_db_nonProduction(11) mail by (rule keepsD)
    from createUser_success[OF assms(2) create] obtain v where v: "us_id v \<notin> userIds (w_db w)" "w_db w2 = signUp v (w_db w)"
      "fst owner = us_id v" by (auto simp: w1 signUpAllowed_def)
    with assms(4) have other: "fst user \<noteq> fst owner" by auto
    note made = companyCreated_gained[OF addCompany_success[OF add A], folded c]
    have new: "c \<notin> companyIds (w_db w)" using made(1) by (simp add: companyGained_def v(2) rolesOf_signUp)
    have roles: "rolesOf (w_db w3) (fst user) = rolesOf (w_db w) (fst user)" using made(4)[OF other] by (simp add: v(2) rolesOf_signUp)
    have alone: "membershipOf (w_db w3) (fst user) c = None"
      unfolding membershipOf_None_rolesOf roles using rolesOf_companies[OF assms(3)] new by blast
    have uninvited: "\<forall>i\<in>set (d_invitation (w_db w3)). iv_companyId i \<noteq> c"
      using assms(3) new by (auto simp: made(5) v(2) rolesOf_signUp wf_db_def wf_refs_def)
    note joined = joinByInvitation_gained[OF join[folded c] A uninvited alone]
    have "isActiveCompany (w_db w') y \<longleftrightarrow> isActiveCompany (w_db w3) y" "companyIds (w_db w') = companyIds (w_db w3)" for y
      by (simp_all add: isActiveCompany_def companyIds_def joined(2))
    with joined made new roles show ?thesis
      by (auto simp: companyGained_def v(2) rolesOf_signUp)
  qed
qed

lemma companies_gained:
  fixes K :: "'y nonProduction service"
  assumes "collectEff (companyWithRole K user) companies w = (Inr cs, w')" "test_frame K" "reachable K w"
    and "fst user \<in> userIds (w_db w)"
  shows "reachable K w' \<and> fst user \<in> userIds (w_db w') \<and> distinct cs \<and> set cs \<inter> companyIds (w_db w) = {} \<and>
    companyIds (w_db w) \<subseteq> companyIds (w_db w') \<and> length cs = length companies \<and>
    rolesOf (w_db w') (fst user) = rolesOf (w_db w) (fst user) @ zip cs (map snd companies) \<and>
    (\<forall>c. c \<in> set cs \<or> isActiveCompany (w_db w) c \<longrightarrow> isActiveCompany (w_db w') c)"
  using assms(1,3,4)
proof (induction companies arbitrary: w cs)
  case Nil
  then show ?case by (simp add: succeed_runs)
next
  case (Cons company rest)
  from Cons.prems(1) obtain c w1 cs' where run: "companyWithRole K user company w = (Inr c, w1)"
    and more: "collectEff (companyWithRole K user) rest w1 = (Inr cs', w')" and cs: "cs = c # cs'"
    by (auto simp: andThen_runs mapEff_runs)
  have "service_frame K" using assms(2) by (simp add: test_frame_def)
  then have "wf_db (w_db w)" by (rule schema.always[OF Cons.prems(2)])
  note gained = companyWithRole_gained[OF run assms(2) this Cons.prems(3), unfolded companyGained_def]
  have reached: "reachable K w1" using serves_programs(1)[OF assms(2)] run Cons.prems(2) by (rule servesD)
  have user: "fst user \<in> userIds (w_db w1)" using gained Cons.prems(3) by blast
  note ih = Cons.IH[OF more reached user]
  have "c \<in> companyIds (w_db w1)" using gained by (auto simp: isActiveCompany_def companyIds_def)
  with ih have "c \<notin> set cs'" by blast
  with ih gained show ?case unfolding cs by auto
qed

lemma switchCurrentCompany_success:
  assumes "switchCurrentCompany A u c w = (Inr x, w')" "auth_frame A"
  shows "(\<exists>row\<in>set (d_user (w_db w)). us_id row = u \<and> us_lastUsedCompanyId row = Some c) \<and> w_db w' = w_db w \<or>
    (\<exists>es t. auditAppended es (setCurrent u c t (w_db w)) (w_db w'))"
proof -
  let ?switch = "\<lambda>current. let fromCompanyId = (case current of None \<Rightarrow> None | Some lastUsed \<Rightarrow> lastUsed)
            in if fromCompanyId = Some c then succeed ()
               else andDo (updateUserLastUsedCompany u c)
                 (appendAuditInTx [\<lparr>ae_userId = u, ae_event = Company_switched fromCompanyId c\<rparr>])"
  let ?locked = "\<lambda>t. if t = None then failWith Forbidden else andThen (lockCurrentCompanyOf u) ?switch"
  let ?begun = "w\<lparr>w_dbCalls := Suc (w_dbCalls w), w_hooks := [], w_locks := []\<rparr>"
  from assms(1) have "transaction A (andThen (lockMembershipForShare u c) ?locked) w = (Inr (), w')"
    by (auto simp: switchCurrentCompany_def andThen_runs succeed_runs)
  from transaction_success[OF this assms(2)] obtain t w0 w1 where w': "w_db w' = w_db w1"
    and lock: "lockMembershipForShare u c ?begun = (Inr t, w0)" and checked: "?locked t w0 = (Inr (), w1)"
    unfolding andThen_runs by blast
  have t: "t \<noteq> None" using checked by (cases "t = None") (auto simp: failWith_runs)
  have w0: "w_db w0 = w_db w" using lock by (simp add: lockMembershipForShare_def selectFor_runs)
  from checked t obtain current w2 where lock2: "lockCurrentCompanyOf u w0 = (Inr current, w2)"
    and rest: "?switch current w2 = (Inr (), w1)" unfolding andThen_runs by (auto simp: andThen_runs)
  have cur: "current = map_option us_lastUsedCompanyId (at0 (filter (\<lambda>r. us_id r = u) (d_user (w_db w))))" and w2: "w_db w2 = w_db w"
    using lock2 by (auto simp: lockCurrentCompanyOf_def selectFor_runs w0)
  show ?thesis
  proof (cases "(case current of None \<Rightarrow> None | Some lastUsed \<Rightarrow> lastUsed) = Some c")
    case True
    with rest cur w2 w' show ?thesis by (auto simp: succeed_runs split: option.splits dest!: at0_filter_SomeD)
  next
    case False
    with rest obtain w3 es where upd: "updateUserLastUsedCompany u c w2 = (Inr (), w3)" and audit: "appendAuditInTx es w3 = (Inr (), w1)"
      by (auto simp: Let_def andThen_runs)
    from upd have "w_db w3 = setCurrent u c (w_clock w2) (w_db w)" by (auto simp: updateUserLastUsedCompany_runs setCurrent_def w2)
    with appendAuditInTx_db[OF audit] w' show ?thesis by auto
  qed
qed

lemma switched_current:
  assumes "switchCurrentCompany A u c w = (Inr x, w')" "auth_frame A" "u \<in> userIds (w_db w)"
  shows "rolesOf (w_db w') v = rolesOf (w_db w) v \<and> d_company (w_db w') = d_company (w_db w) \<and>
    (\<exists>row\<in>set (d_user (w_db w')). us_id row = u \<and> us_lastUsedCompanyId row = Some c)"
  using switchCurrentCompany_success[OF assms(1,2)]
proof (elim disjE conjE exE)
  fix es t assume "auditAppended es (setCurrent u c t (w_db w)) (w_db w')"
  note tabs = auditAppended_tables[OF this]
  from assms(3) obtain row where "row \<in> set (d_user (w_db w))" "us_id row = u" by (auto simp: userIds_def)
  then have "\<exists>row\<in>set (d_user (w_db w')). us_id row = u \<and> us_lastUsedCompanyId row = Some c"
    unfolding tabs(2)
    by (intro bexI[of _ "row\<lparr>us_lastUsedCompanyId := Some c, us_updatedAt := t\<rparr>"])
      (auto simp: setCurrent_def in_updateWhere intro!: bexI[of _ row])
  then show ?thesis by (simp add: tabs rolesOf_def)
qed auto

lemma magicLinkUrlFor_runs:
  assumes "magicLinkUrlFor A email cb w = (Inr link, w')"
  shows "\<exists>w1 w2 ls. signInMagicLink A email cb w1 = (Inr (), w2) \<and> map_of (np_sentLinks (w_auth w2)) (email, Some cb) = Some ls \<and>
    ls \<noteq> [] \<and> link = last ls"
proof -
  from assms obtain w5 w6 where "signInMagicLink A email cb w = (Inr (), w5)" "takeSentLink email cb w5 = (Inr (Some link), w6)"
    by (auto simp: magicLinkUrlFor_def andThen_runs succeed_runs dieWith_def split: option.splits)
  with takeSentLink_runs show ?thesis by blast
qed

text \<open>
  C39: A user prepared for a test is what was asked for: it is a new user, a member of one new active company per entry of
  the request, in that order and with the role of the entry - a company it is not to own gets an owner of its own, who
  invites it - its current company is the first of them, and the link is the one better-auth mailed for the way back.
\<close>

theorem test_user_as_requested:
  fixes K :: "'y nonProduction service"
  assumes "test_frame K" "reachable K w" "createSignedInUser K input w = (Inr user, w')"
  shows "si_userId user \<notin> userIds (w_db w) \<and>
    rolesOf (w_db w') (si_userId user) = zip (si_companyIds user) (map snd (sq_companies input)) \<and>
    length (si_companyIds user) = length (sq_companies input) \<and> distinct (si_companyIds user) \<and>
    (\<forall>c\<in>set (si_companyIds user). c \<notin> companyIds (w_db w) \<and> isActiveCompany (w_db w') c) \<and>
    (\<exists>row\<in>set (d_user (w_db w')). us_id row = si_userId user \<and>
      (si_companyIds user \<noteq> [] \<longrightarrow> us_lastUsedCompanyId row = Some (hd (si_companyIds user)))) \<and>
    (\<exists>w1 w2 ls. signInMagicLink (sv_auth K) (si_email user) (sq_returnTo input) w1 = (Inr (), w2) \<and>
      map_of (np_sentLinks (w_auth w2)) (si_email user, Some (sq_returnTo input)) = Some ls \<and> ls \<noteq> [] \<and>
      si_loginUrl user = last ls)"
proof -
  have A: "auth_frame (sv_auth K)" and K: "service_frame K" using assms(1) by (simp_all add: test_frame_def service_frame_def)
  from assms(3) obtain email w1 u w2 cs w3 w4 link where
    mail: "testEmail ForUser w = (Inr email, w1)"
    and create: "createUser (sv_auth K) email (case sq_name input of None \<Rightarrow> ''Test User'' | Some n \<Rightarrow> n) w1 = (Inr u, w2)"
    and companies: "collectEff (companyWithRole K u) (sq_companies input) w2 = (Inr cs, w3)"
    and switch: "(case cs of [] \<Rightarrow> succeed ()
            | current # _ \<Rightarrow> andDo (dieOnFailures [Forbidden] (switchCurrentCompany (sv_auth K) (fst u) current)) (succeed ())) w3 = (Inr (), w4)"
    and link: "magicLinkUrlFor (sv_auth K) email (sq_returnTo input) w4 = (Inr link, w')"
    and user: "user = \<lparr>si_userId = fst u, si_email = email, si_companyIds = cs, si_loginUrl = link\<rparr>"
    unfolding createSignedInUser_def andThen_runs succeed_runs by auto
  have w1: "w_db w1 = w_db w" using keeps_db_nonProduction(11) mail by (rule keepsD)
  have w': "w_db w' = w_db w4" using keeps_magicLinkUrlFor[OF assms(1)] link by (rule keepsD)
  from createUser_success[OF assms(1) create] obtain v where v: "us_id v \<notin> userIds (w_db w)" "w_db w2 = signUp v (w_db w)"
    "fst u = us_id v" by (auto simp: w1 signUpAllowed_def)
  have "reachable K w1" using serves_keeps[OF keeps_db_nonProduction(11)] mail assms(2) by (rule servesD)
  with serves_createUser[OF assms(1)] create have "reachable K w2" by (rule servesD)
  note gained = companies_gained[OF companies assms(1) this]
  have "fst u \<in> userIds (w_db w2)" by (simp add: v rolesOf_signUp)
  note gained = gained[OF this]
  have "rolesOf (w_db w) (us_id v) = []"
    using schema.always[OF assms(2) K] v(1) by (auto simp: rolesOf_def filter_empty_conv wf_db_def wf_refs_def)
  with gained have roles: "rolesOf (w_db w3) (fst u) = zip cs (map snd (sq_companies input))"
    by (simp add: v rolesOf_signUp)
  have after: "(rolesOf (w_db w4) (fst u) = rolesOf (w_db w3) (fst u) \<and> d_company (w_db w4) = d_company (w_db w3)) \<and>
      (\<exists>row\<in>set (d_user (w_db w4)). us_id row = fst u \<and> (cs \<noteq> [] \<longrightarrow> us_lastUsedCompanyId row = Some (hd cs)))"
  proof (cases cs)
    case Nil
    with switch gained show ?thesis by (auto simp: succeed_runs userIds_def)
  next
    case (Cons current more)
    with switch obtain y where "switchCurrentCompany (sv_auth K) (fst u) current w3 = (Inr y, w4)"
      by (auto simp: andThen_runs succeed_runs dieOnFailures_def catchIf_runs dieWith_def)
    from switched_current[OF this A] gained Cons show ?thesis by simp
  qed
  have "isActiveCompany (w_db w4) c \<longleftrightarrow> isActiveCompany (w_db w3) c" for c using after by (simp add: isActiveCompany_def)
  with gained roles after magicLinkUrlFor_runs[OF link] v show ?thesis by (auto simp: user w' rolesOf_signUp)
qed

text \<open>A better-auth that signs users up, and a service with it over the empty database.\<close>

definition signingUp :: "unit nonProduction better_auth" where
  "signingUp = recordingAuth\<lparr>ba_createUser := (\<lambda>e n w.
     let u = demoUser (''user-'' @ e) e None
     in if us_id u \<in> set (map us_id (d_user (w_db w))) \<or> us_email u \<in> set (map us_email (d_user (w_db w))) then (Inl CauseOther, w)
        else (Inr (us_id u, us_email u), w\<lparr>w_db := signUp u (w_db w)\<rparr>))\<rparr>"

definition testingService :: "unit nonProduction service" where
  "testingService = \<lparr>sv_auth = signingUp, sv_mfa = demoDeps, sv_appUrl = ''https://auth.taimei-code.com'',
     sv_invitationsEnv = None, sv_challengeEnv = None, sv_sendMfaDisabled = (\<lambda>e. succeed ())\<rparr>"

lemma testingService_frame: "test_frame testingService"
proof -
  have "auth_frame signingUp" by (simp add: auth_frame_def signingUp_def recordingAuth_def)
  moreover have "ba_createUser signingUp e n w = (r, w') \<Longrightarrow>
      (w_db w' = w_db w \<and> (\<exists>c. r = Inl c)) \<or>
       (\<exists>u. signUpAllowed u (w_db w) \<and> w_db w' = signUp u (w_db w) \<and> ((\<exists>c. r = Inl c) \<or> r = Inr (us_id u, us_email u)))" for e n w r w'
    by (auto simp: signingUp_def Let_def signUpAllowed_def userIds_def demoUser_def split: if_splits intro!: exI[of _ "demoUser (''user-'' @ e) e None"])
  ultimately show ?thesis
    by (simp add: test_frame_def service_frame_def testingService_def keeps_succeed)
      (simp add: signingUp_def recordingAuth_def)
qed

definition emptyWorld :: "unit nonProduction world" where
  "emptyWorld = npWorld\<lparr>w_db := emptyDb\<rparr>"

lemma reachable_emptyWorld: "reachable testingService emptyWorld"
  by (rule reachable.start) (simp add: emptyWorld_def)

definition ownerOfBeta :: signedInUserRequest where
  "ownerOfBeta = \<lparr>sq_name = None, sq_companies = [(Some ''Beta'', OWNER)],
     sq_returnTo = ''https://app.taimei-code.com''\<rparr>"

theorem test_user_as_requested_witness:
  "\<exists>user w'. createSignedInUser testingService ownerOfBeta emptyWorld = (Inr user, w') \<and>
     map snd (rolesOf (w_db w') (si_userId user)) = [OWNER]"
proof -
  let ?run = "createSignedInUser testingService ownerOfBeta emptyWorld"
  have "case fst ?run of Inl _ \<Rightarrow> False | Inr _ \<Rightarrow> True" by code_simp
  then obtain user where "fst ?run = Inr user" by (auto split: sum.splits)
  then have run: "?run = (Inr user, snd ?run)" by (rule runs_to)
  from test_user_as_requested[OF testingService_frame reachable_emptyWorld run]
  have "map snd (rolesOf (w_db (snd ?run)) (si_userId user)) = [OWNER]"
    by (auto simp: ownerOfBeta_def map_snd_zip)
  with run show ?thesis by (intro exI conjI)
qed

definition testingApi :: "unit testApi" where
  "testingApi = \<lparr>ta_service = testingService, ta_parseUrl = demoUrl, ta_trustedOrigins = Some ''https://app.taimei-code.com''\<rparr>"

definition userWithoutCompany :: testRequest where
  "userWithoutCompany = \<lparr>tr_headers = [(''content-type'', ''application/json'')],
     tr_body = stringify (JObj [(''companies'', JArr []), (''returnTo'', JStr ''https://app.taimei-code.com'')])\<rparr>"

theorem non_production_stays_reachable_witness:
  "companyInv (w_db (snd (postSignedInUsers testingApi userWithoutCompany emptyWorld)))"
proof -
  let ?E = "recordingEnv\<lparr>te_auth := signingUp\<rparr>"
  have "snd (postSignedInUsers testingApi userWithoutCompany emptyWorld) \<in>
      {snd (devHomeProgram ?E annOpens emptyWorld), snd (postSignIn ?E (\<lambda>_. []) annOpens emptyWorld),
       snd (postSignOut ?E annOpens emptyWorld)} \<union>
      (\<lambda>(path, route). snd (route userWithoutCompany emptyWorld)) ` set (nonProductionRoutes False testingApi)"
    by (simp add: nonProductionRoutes_def testingApiRoutes_def)
  from non_production_stays_reachable[OF _ _ _ this] show ?thesis
    by (simp add: testingApi_def testingService_frame reachable_emptyWorld) (simp add: testingService_def)
qed

end
