(* ===== verification/PostgresTtl.thy ===== *)
theory PostgresTtl
  imports KvStore
begin

text \<open>
  \<open>db/testing/ttl-store.ts\<close>: the store the test server keeps in Postgres, a third one behind the interface
  \<open>TtlStorage\<close>. The clock of the database is that of the process.
\<close>

section \<open>A TTL store in Postgres\<close>

text \<open>
  The table \<open>testing_ttl_store\<close>: the rows by their key. \<open>::bigint\<close> takes blanks around digits, refuses a text without
  digits, and has 63 bits; as in \<open>toNumber\<close> the notations for other numbers are not modelled.
\<close>

type_synonym pgTtl = "(string \<times> entry) list"

definition toBigint :: "string \<Rightarrow> nat option" where
  "toBigint s = (case parseNat (trim s) of None \<Rightarrow> None | Some n \<Rightarrow> if n < 2 ^ 63 then Some n else None)"

definition pgExpiresAtOrNever :: "millis \<Rightarrow> int option \<Rightarrow> millis option" where
  "pgExpiresAtOrNever now ttlSec = map_option (\<lambda>s. now + s * 1000) ttlSec"

definition pgOpen :: "millis \<Rightarrow> pgTtl \<Rightarrow> pgTtl" where
  "pgOpen now m = filter (\<lambda>(_, e). isLive now e) m"

definition pgLive :: "millis \<Rightarrow> string \<Rightarrow> pgTtl \<Rightarrow> string option" where
  "pgLive now key m = (case map_of m key of
     None \<Rightarrow> None | Some e \<Rightarrow> if isLive now e then Some (en_value e) else None)"

definition pgGet :: "string \<Rightarrow> (pgTtl, string option) kvop" where
  "pgGet key = (\<lambda>now m. Some (pgLive now key m, m))"

definition pgSet :: "string \<Rightarrow> string \<Rightarrow> int option \<Rightarrow> (pgTtl, unit) kvop" where
  "pgSet key value ttlSec = (\<lambda>now m.
     Some ((), AList.update key \<lparr>en_value = value, en_expiresAt = pgExpiresAtOrNever now ttlSec\<rparr> m))"

definition pgDelete :: "string \<Rightarrow> (pgTtl, unit) kvop" where
  "pgDelete key = (\<lambda>now m. Some ((), AList.delete key m))"

definition pgGetAndDelete :: "string \<Rightarrow> (pgTtl, string option) kvop" where
  "pgGetAndDelete key = (\<lambda>now m. Some (pgLive now key m, AList.delete key m))"

text \<open>One transaction: a row to lock, which is not live if it is new; what is stored; the merged index.\<close>

definition pgLockedRow :: "millis \<Rightarrow> string \<Rightarrow> pgTtl \<Rightarrow> pgTtl" where
  "pgLockedRow now key m = (case map_of m key of
     None \<Rightarrow> AList.update key \<lparr>en_value = ''[]'', en_expiresAt = Some now\<rparr> m | Some _ \<Rightarrow> m)"

definition pgMergeSessionIndex :: "string \<Rightarrow> string \<Rightarrow> (pgTtl, unit) kvop" where
  "pgMergeSessionIndex key value = (\<lambda>now m.
     let locked = pgLockedRow now key m;
         merged = mergeSessionIndex (pgLive now key locked) value now
     in Some ((), AList.update key \<lparr>en_value = ms_value merged,
          en_expiresAt = pgExpiresAtOrNever now (Some (ms_ttlSeconds merged))\<rparr> locked))"

definition pgNextCount :: "string option \<Rightarrow> string option" where
  "pgNextCount stored = (case stored of
     None \<Rightarrow> Some ''1''
   | Some v \<Rightarrow> (case toBigint v of
       None \<Rightarrow> None | Some n \<Rightarrow> if n + 1 < 2 ^ 63 then Some (showNat (n + 1)) else None))"

definition pgIncrementRateWindow :: "string \<Rightarrow> int \<Rightarrow> (pgTtl, nat) kvop" where
  "pgIncrementRateWindow key windowSec = (\<lambda>now m.
     case pgNextCount (pgLive now key m) of
       None \<Rightarrow> None
     | Some v \<Rightarrow> (case toNumber v of
         None \<Rightarrow> None
       | Some count \<Rightarrow> if count < 1 then None
           else Some (count, AList.update key
             \<lparr>en_value = v, en_expiresAt = pgExpiresAtOrNever now (Some windowSec)\<rparr> m)))"

definition pgPing :: "(pgTtl, unit) kvop" where
  "pgPing = (\<lambda>now m. Some ((), m))"

text \<open>It keeps the contract of the store in production, so what the clients rely on holds in tests as well.\<close>

lemma pgLive_entry: "pgLive now key m = map_option en_value (memEntry m key now)"
  by (auto simp: pgLive_def memEntry_def split: option.splits)

lemma written_update:
  "memEntry (AList.update k \<lparr>en_value = v, en_expiresAt = pgExpiresAtOrNever now ttl\<rparr> m) k' t =
    (if k' = k then written now v ttl t else memEntry m k' t)"
  by (simp add: memEntry_update written_def pgExpiresAtOrNever_def)

lemma pgLockedRow_live: "now \<le> t \<Longrightarrow> memEntry (pgLockedRow now key m) k t = memEntry m k t"
  by (auto simp: pgLockedRow_def memEntry_update isLive_def split: option.splits) (simp_all add: memEntry_def)

lemma toBigint_toNumber: "toBigint v = Some n \<Longrightarrow> toNumber v = Some n"
  by (auto simp: toBigint_def toNumber_def parseNat_def split: option.splits if_splits)

lemma pgNextCount_counts:
  assumes "pgNextCount stored = Some v"
  obtains n where "toNumber (case stored of None \<Rightarrow> ''0'' | Some s \<Rightarrow> s) = Some n" "v = showNat (Suc n)"
proof (cases stored)
  case None
  have "showNat (Suc 0) = ''1''" by code_simp
  with assms None have "v = showNat (Suc 0)" by (simp add: pgNextCount_def)
  with None that toNumber_zero show ?thesis by simp
next
  case (Some s)
  with assms that toBigint_toNumber show ?thesis by (auto simp: pgNextCount_def split: option.splits if_splits)
qed

interpretation postgres: ttl_storage memEntry pgGet pgSet pgDelete pgGetAndDelete pgIncrementRateWindow
  pgMergeSessionIndex
proof unfold_locales
  fix s s' :: pgTtl and k k' :: string and t t' now :: millis and e :: entry and v' :: "string option"
    and v :: string and ttl :: "int option" and u :: unit and w :: int and n :: nat
  show "memEntry s k t = Some e \<Longrightarrow> isLive t e" by (rule memory.live_entry)
  show "memEntry s k t' = Some e \<Longrightarrow> t \<le> t' \<Longrightarrow> memEntry s k t = Some e" by (rule memory.live_earlier)
  show "memEntry s k t = Some e \<Longrightarrow> isLive t' e \<Longrightarrow> memEntry s k t' = Some e" by (rule memory.live_later)
  show "pgGet k now s = Some (v', s') \<Longrightarrow>
      v' = map_option en_value (memEntry s k now) \<and> (\<forall>k' t. now \<le> t \<longrightarrow> memEntry s' k' t = memEntry s k' t)"
    by (auto simp: pgGet_def pgLive_entry)
  show "\<exists>r. pgGet k now s = Some r" by (simp add: pgGet_def)
  show "pgSet k v ttl now s = Some (u, s') \<Longrightarrow> now \<le> t \<Longrightarrow>
      memEntry s' k' t = (if k' = k then written now v ttl t else memEntry s k' t)"
    by (auto simp: pgSet_def written_update)
  show "pgDelete k now s = Some (u, s') \<Longrightarrow> now \<le> t \<Longrightarrow>
      memEntry s' k' t = (if k' = k then None else memEntry s k' t)"
    by (auto simp: pgDelete_def memEntry_delete)
  show "pgGetAndDelete k now s = Some (v', s') \<Longrightarrow> v' = map_option en_value (memEntry s k now) \<and>
      (\<forall>k' t. now \<le> t \<longrightarrow> memEntry s' k' t = (if k' = k then None else memEntry s k' t))"
    by (auto simp: pgGetAndDelete_def pgLive_entry memEntry_delete)
  show "\<exists>r. pgGetAndDelete k now s = Some r" by (simp add: pgGetAndDelete_def)
  show "pgIncrementRateWindow k w now s = Some (n, s') \<Longrightarrow>
      (\<exists>m. toNumber (case memEntry s k now of None \<Rightarrow> ''0'' | Some e \<Rightarrow> en_value e) = Some m \<and> n = Suc m) \<and>
      (\<forall>k' t. now \<le> t \<longrightarrow>
        memEntry s' k' t = (if k' = k then written now (showNat n) (Some w) t else memEntry s k' t))"
    by (auto simp: pgIncrementRateWindow_def pgLive_entry written_update elim!: pgNextCount_counts
        split: option.splits if_splits)
  show "pgMergeSessionIndex k v now s = Some (u, s') \<Longrightarrow> now \<le> t \<Longrightarrow>
      memEntry s' k' t =
        (if k' = k
         then (let m = mergeSessionIndex (map_option en_value (memEntry s k now)) v now
               in written now (ms_value m) (Some (ms_ttlSeconds m)) t)
         else memEntry s k' t)"
    by (auto simp: pgMergeSessionIndex_def Let_def pgLive_entry written_update pgLockedRow_live)
qed

text \<open>Opening it again loses nothing that is live.\<close>

lemma pgOpen_keeps:
  assumes "distinct (map fst m)" "now \<le> t" shows "memEntry (pgOpen now m) k t = memEntry m k t"
  using assms(1)
proof (induction m)
  case Nil then show ?case by (simp add: pgOpen_def)
next
  case (Cons r m)
  obtain k0 e where r: "r = (k0, e)" by (cases r)
  have "map_of m k0 = None" using Cons.prems by (simp add: r map_of_eq_None_iff)
  then have "memEntry m k0 t = None" by (simp add: memEntry_def)
  moreover have "\<not> isLive t e" if "\<not> isLive now e" using that isLive_earlier assms(2) by blast
  ultimately show ?case using Cons by (auto simp: r pgOpen_def memEntry_def)
qed

end
