(* ===== verification/TestDatabase.thy ===== *)
theory TestDatabase
  imports TestApi PostgresTtl OwnerInvariant
begin

text \<open>
  What the non-production entries prepare in the database: the development accounts of \<open>db/testing/dev-accounts.ts\<close>,
  \<open>db/testing/non-production-database.ts\<close> and \<open>non-production-tables.ts\<close>; and what must hold before \<open>testing/server.ts\<close>
  serves anything, with \<open>testing/spa-fallback.ts\<close>.
\<close>

section \<open>The development accounts\<close>

text \<open>\<open>s.padEnd(n, c)\<close>; the names are Japanese texts, which \<open>say\<close> spells out.\<close>

definition padEnd :: "nat \<Rightarrow> char \<Rightarrow> string \<Rightarrow> string" where
  "padEnd n c s = s @ replicate (n - length s) c"

datatype devText = DevCompanyName nat | DevUserName string

definition GENERATED_ID_BODY_LENGTH :: nat where
  "GENERATED_ID_BODY_LENGTH = 24"

definition fixedId :: "string \<Rightarrow> string \<Rightarrow> id" where
  "fixedId prefix name = prefix @ ''_'' @ padEnd GENERATED_ID_BODY_LENGTH (CHR ''0'') name"

record devCompany =
  dc_key :: string
  dc_id :: id
  dc_name :: devText

definition FIRST_COMPANY :: devCompany where
  "FIRST_COMPANY = \<lparr>dc_key = ''first'', dc_id = fixedId ''cmp'' ''dev_company_first'', dc_name = DevCompanyName 1\<rparr>"

definition SECOND_COMPANY :: devCompany where
  "SECOND_COMPANY = \<lparr>dc_key = ''second'', dc_id = fixedId ''cmp'' ''dev_company_second'', dc_name = DevCompanyName 2\<rparr>"

record devMembership =
  dm_id :: id
  dm_companyId :: id
  dm_role :: role

record devUser =
  du_id :: id
  du_name :: devText
  du_email :: string
  du_memberships :: "devMembership list"

definition devUserOf :: "string \<Rightarrow> (devCompany \<times> role) list \<Rightarrow> devUser" where
  "devUserOf key memberships =
     \<lparr>du_id = ''dev-account-'' @ key, du_name = DevUserName key, du_email = ''dev-'' @ key @ UNDELIVERABLE_EMAIL_DOMAIN,
      du_memberships = map (\<lambda>(company, role).
        \<lparr>dm_id = fixedId ''mbr'' (''dev_'' @ key @ ''_'' @ dc_key company), dm_companyId = dc_id company, dm_role = role\<rparr>)
        memberships\<rparr>"

text \<open>\<open>new Date("2026-01-01T00:00:00.000Z")\<close> in milliseconds.\<close>

definition DEV_CREATED_AT :: millis where
  "DEV_CREATED_AT = 1767225600000"

definition DEV_COMPANIES :: "devCompany list" where
  "DEV_COMPANIES = [FIRST_COMPANY, SECOND_COMPANY]"

definition DEV_USERS :: "devUser list" where
  "DEV_USERS = [devUserOf ''owner'' [(FIRST_COMPANY, OWNER), (SECOND_COMPANY, OWNER)],
     devUserOf ''admin'' [(FIRST_COMPANY, ADMIN), (SECOND_COMPANY, MEMBER)],
     devUserOf ''member'' [(FIRST_COMPANY, MEMBER)]]"

definition seedCompanies :: "(devText \<Rightarrow> string) \<Rightarrow> millis \<Rightarrow> company list" where
  "seedCompanies say now = map (\<lambda>c. \<lparr>co_id = dc_id c, co_name = say (dc_name c), co_orgCode = CORPORATE,
     co_activationStatus = ACTIVE, co_deletedAt = None, co_createdAt = DEV_CREATED_AT, co_updatedAt = now\<rparr>) DEV_COMPANIES"

definition seedUsers :: "(devText \<Rightarrow> string) \<Rightarrow> millis \<Rightarrow> user list" where
  "seedUsers say now = map (\<lambda>(u, listedOrder). \<lparr>us_id = du_id u, us_name = say (du_name u), us_email = du_email u,
     us_emailVerified = True, us_image = None, us_revision = 0,
     us_lastUsedCompanyId = map_option dm_companyId (at0 (du_memberships u)),
     us_createdAt = DEV_CREATED_AT + int listedOrder * 1000, us_updatedAt = now\<rparr>) (zip DEV_USERS [0..<length DEV_USERS])"

definition seedMemberships :: "millis \<Rightarrow> membership list" where
  "seedMemberships now = concat (map (\<lambda>u. map (\<lambda>m. \<lparr>mb_id = dm_id m, mb_userId = du_id u, mb_companyId = dm_companyId m,
     mb_role = dm_role m, mb_joinedAt = DEV_CREATED_AT, mb_createdAt = DEV_CREATED_AT, mb_updatedAt = now\<rparr>)
     (du_memberships u)) DEV_USERS)"

text \<open>
  \<open>INSERT ... ON CONFLICT DO NOTHING\<close>: a row that shares a unique key with one that is there is skipped; the foreign keys
  of the rows that were inserted are checked. \<open>None\<close> is the error, which rolls the transaction back.
\<close>

fun newRows :: "('r \<Rightarrow> 'r \<Rightarrow> bool) \<Rightarrow> 'r list \<Rightarrow> 'r list \<Rightarrow> 'r list" where
  "newRows conflict there [] = []"
| "newRows conflict there (x # xs) =
    (if \<exists>y\<in>set there. conflict x y then newRows conflict there xs else x # newRows conflict (there @ [x]) xs)"

definition insertDoNothing :: "('r \<Rightarrow> 'r \<Rightarrow> bool) \<Rightarrow> ('r \<Rightarrow> bool) \<Rightarrow> 'r list \<Rightarrow> 'r list \<Rightarrow> 'r list option" where
  "insertDoNothing conflict refs xs there =
     (let rows = newRows conflict there xs in if list_all refs rows then Some (there @ rows) else None)"

definition companyConflict :: "company \<Rightarrow> company \<Rightarrow> bool" where
  "companyConflict c c' \<longleftrightarrow> co_id c = co_id c'"

definition userConflict :: "user \<Rightarrow> user \<Rightarrow> bool" where
  "userConflict u u' \<longleftrightarrow> us_id u = us_id u' \<or> us_email u = us_email u'"

definition membershipConflict :: "membership \<Rightarrow> membership \<Rightarrow> bool" where
  "membershipConflict m m' \<longleftrightarrow> mb_id m = mb_id m' \<or> membershipKey m = membershipKey m'"

definition seedDevAccounts :: "(devText \<Rightarrow> string) \<Rightarrow> millis \<Rightarrow> database \<Rightarrow> database option" where
  "seedDevAccounts say now d = (
     case insertDoNothing companyConflict (\<lambda>_. True) (seedCompanies say now) (d_company d) of None \<Rightarrow> None | Some companies \<Rightarrow>
     case insertDoNothing userConflict
         (\<lambda>u. case us_lastUsedCompanyId u of None \<Rightarrow> True | Some c \<Rightarrow> c \<in> co_id ` set companies)
         (seedUsers say now) (d_user d) of None \<Rightarrow> None | Some users \<Rightarrow>
     case insertDoNothing membershipConflict
         (\<lambda>m. mb_userId m \<in> us_id ` set users \<and> mb_companyId m \<in> co_id ` set companies)
         (seedMemberships now) (d_membership d) of None \<Rightarrow> None | Some members \<Rightarrow>
     Some (d\<lparr>d_company := companies, d_user := users, d_membership := members\<rparr>))"

section \<open>The database outside of production\<close>

text \<open>
  The service's tables, and beside them: whether the mark of a database outside of production is there, and the two
  tables of its own, once they were created.
\<close>

record testDatabase =
  td_database :: database
  td_marked :: bool
  td_browserAccounts :: "(string \<times> id) list option"
  td_ttl :: "pgTtl option"

definition requireMarkedDatabase :: "testDatabase \<Rightarrow> unit option" where
  "requireMarkedDatabase s = (if td_marked s then Some () else None)"

definition createIfAbsent :: "'r list option \<Rightarrow> 'r list option" where
  "createIfAbsent table = (case table of None \<Rightarrow> Some [] | Some rows \<Rightarrow> Some rows)"

text \<open>The tables stay when the seeding fails.\<close>

definition prepareNonProductionTables :: "(devText \<Rightarrow> string) \<Rightarrow> millis \<Rightarrow> testDatabase \<Rightarrow> bool \<times> testDatabase" where
  "prepareNonProductionTables say now s =
     (let s' = s\<lparr>td_browserAccounts := createIfAbsent (td_browserAccounts s), td_ttl := createIfAbsent (td_ttl s)\<rparr>
      in case seedDevAccounts say now (td_database s) of
           None \<Rightarrow> (False, s')
         | Some d \<Rightarrow> (True, s'\<lparr>td_database := d\<rparr>))"

definition prepareMarkedNonProductionTables ::
    "(devText \<Rightarrow> string) \<Rightarrow> millis \<Rightarrow> testDatabase \<Rightarrow> bool \<times> testDatabase" where
  "prepareMarkedNonProductionTables say now s = (case requireMarkedDatabase s of
     None \<Rightarrow> (False, s) | Some _ \<Rightarrow> prepareNonProductionTables say now s)"

section \<open>The test server\<close>

datatype testServerStart =
    ExitsWith string
  | ServerThrows
  | ServesWith proxyTrust

definition testServer ::
    "url_parser \<Rightarrow> string list \<Rightarrow> string \<Rightarrow> (string \<Rightarrow> string option) \<Rightarrow> (devText \<Rightarrow> string) \<Rightarrow> millis \<Rightarrow> testDatabase \<Rightarrow>
       testServerStart \<times> testDatabase" where
  "testServer parseUrl allowedProtocols notSwapped env say now s =
     (if \<not> isOutsideProduction (env ''APP_ENV'') then (ExitsWith OUTSIDE_PRODUCTION_ONLY_MESSAGE, s)
      else if \<not> usesNonProductionRedirectHosts allowedProtocols then (ExitsWith notSwapped, s)
      else if env ''AUTH_SERVICE_KEY'' = None \<or> env ''AUTH_SERVICE_KEY'' = Some []
      then (ExitsWith ''FATAL: AUTH_SERVICE_KEY is required.'', s)
      else let proxyTrust = proxyTrustFromEnv (env ''AUTH_TRUSTED_PROXY_HOPS'')
      in if proxyTrust = Unconfigured
      then (ExitsWith ''FATAL: AUTH_TRUSTED_PROXY_HOPS (non-negative integer) is required.'', s)
      else case requireLocalDatabase parseUrl (env ''DATABASE_URL'') of
             None \<Rightarrow> (ServerThrows, s)
           | Some _ \<Rightarrow> (case prepareNonProductionTables say now s of
               (False, s') \<Rightarrow> (ServerThrows, s')
             | (True, s') \<Rightarrow> (ServesWith proxyTrust, s'\<lparr>td_ttl := map_option (pgOpen now) (td_ttl s')\<rparr>)))"

text \<open>\<open>ASSET_PATH_PATTERN\<close>: the path ends in a dot and letters or digits.\<close>

definition isAsciiAlnum :: "char \<Rightarrow> bool" where
  "isAsciiAlnum c \<longleftrightarrow> (let n = of_char c :: nat in (48 \<le> n \<and> n \<le> 57) \<or> (65 \<le> n \<and> n \<le> 90) \<or> (97 \<le> n \<and> n \<le> 122))"

definition isAssetPath :: "string \<Rightarrow> bool" where
  "isAssetPath path = (let suffix = takeWhile isAsciiAlnum (rev path); rest = drop (length suffix) (rev path)
     in suffix \<noteq> [] \<and> rest \<noteq> [] \<and> hd rest = CHR ''.'')"

datatype spaAnswer = AssetNotFound | IndexHtml

definition spaFallback :: "string \<Rightarrow> spaAnswer" where
  "spaFallback path = (if isAssetPath path then AssetNotFound else IndexHtml)"

section \<open>What seeding does\<close>

lemma newRows_nothing: "(\<And>x. x \<in> set xs \<Longrightarrow> \<exists>y\<in>set there. conflict x y) \<Longrightarrow> newRows conflict there xs = []"
  by (induction xs) auto

lemma newRows_settled:
  assumes "\<And>x. conflict x x" "x \<in> set xs"
  shows "\<exists>y\<in>set (there @ newRows conflict there xs). conflict x y"
  using assms(2)
proof (induction xs arbitrary: there)
  case (Cons z xs)
  show ?case
  proof (cases "x = z")
    case True
    then show ?thesis using assms(1)[of z] by auto
  next
    case False
    with Cons.prems have "x \<in> set xs" by simp
    from Cons.IH[OF this, of there] Cons.IH[OF this, of "there @ [z]"] show ?thesis by auto
  qed
qed simp

lemma newRows_subset: "set (newRows conflict there xs) \<subseteq> set xs"
  by (induction conflict there xs rule: newRows.induct) auto

lemma newRows_distinct:
  assumes "\<And>x y. k x = k y \<Longrightarrow> conflict x y" "distinct (map k there)"
  shows "distinct (map k (there @ newRows conflict there xs))"
  using assms(2)
proof (induction xs arbitrary: there)
  case (Cons x xs)
  show ?case
  proof (cases "\<exists>y\<in>set there. conflict x y")
    case True
    with Cons show ?thesis by simp
  next
    case False
    with assms(1) have "k x \<notin> k ` set there" by fastforce
    with Cons.prems have "distinct (map k (there @ [x]))" by simp
    from Cons.IH[OF this] False show ?thesis by simp
  qed
qed simp

text \<open>Seeding again changes nothing, at whatever time.\<close>

lemma insertDoNothing_again:
  assumes "insertDoNothing conflict refs xs there = Some rows" "\<And>x. conflict x x"
    and "\<And>x'. x' \<in> set xs' \<Longrightarrow> \<exists>x\<in>set xs. \<forall>y. conflict x' y = conflict x y"
  shows "insertDoNothing conflict refs' xs' rows = Some rows"
proof -
  have rows: "rows = there @ newRows conflict there xs"
    using assms(1) by (simp add: insertDoNothing_def Let_def split: if_splits)
  have "\<exists>y\<in>set rows. conflict x' y" if "x' \<in> set xs'" for x'
    using assms(3)[OF that] newRows_settled[where conflict = conflict, OF assms(2)] unfolding rows by blast
  then have "newRows conflict rows xs' = []" by (rule newRows_nothing)
  then show ?thesis by (simp add: insertDoNothing_def)
qed

lemma conflicts_refl [simp]: "companyConflict c c" "userConflict u u" "membershipConflict m m"
  by (simp_all add: companyConflict_def userConflict_def membershipConflict_def)

lemma seeds_agree:
  "c' \<in> set (seedCompanies say' now') \<Longrightarrow>
    \<exists>c\<in>set (seedCompanies say now). \<forall>y. companyConflict c' y = companyConflict c y"
  "u' \<in> set (seedUsers say' now') \<Longrightarrow> \<exists>u\<in>set (seedUsers say now). \<forall>y. userConflict u' y = userConflict u y"
  "m' \<in> set (seedMemberships now') \<Longrightarrow>
    \<exists>m\<in>set (seedMemberships now). \<forall>y. membershipConflict m' y = membershipConflict m y"
proof -
  show "c' \<in> set (seedCompanies say' now') \<Longrightarrow>
    \<exists>c\<in>set (seedCompanies say now). \<forall>y. companyConflict c' y = companyConflict c y"
    by (auto simp: seedCompanies_def companyConflict_def)
  show "u' \<in> set (seedUsers say' now') \<Longrightarrow> \<exists>u\<in>set (seedUsers say now). \<forall>y. userConflict u' y = userConflict u y"
    unfolding seedUsers_def set_map bex_simps by (force simp: userConflict_def simp del: set_zip)
  show "m' \<in> set (seedMemberships now') \<Longrightarrow>
    \<exists>m\<in>set (seedMemberships now). \<forall>y. membershipConflict m' y = membershipConflict m y"
    unfolding seedMemberships_def set_concat set_map by (fastforce simp: membershipConflict_def membershipKey_def)
qed

lemma seed_success:
  assumes "seedDevAccounts say now d = Some d'"
  obtains companies users members where
    "insertDoNothing companyConflict (\<lambda>_. True) (seedCompanies say now) (d_company d) = Some companies"
    "insertDoNothing userConflict (\<lambda>u. case us_lastUsedCompanyId u of None \<Rightarrow> True | Some c \<Rightarrow> c \<in> co_id ` set companies)
       (seedUsers say now) (d_user d) = Some users"
    "insertDoNothing membershipConflict (\<lambda>m. mb_userId m \<in> us_id ` set users \<and> mb_companyId m \<in> co_id ` set companies)
       (seedMemberships now) (d_membership d) = Some members"
    "d' = d\<lparr>d_company := companies, d_user := users, d_membership := members\<rparr>"
  using assms by (auto simp: seedDevAccounts_def split: option.splits)

lemma seeding_again:
  assumes "seedDevAccounts say now d = Some d'"
  shows "seedDevAccounts say' now' d' = Some d'"
  using assms
proof (rule seed_success, goal_cases)
  case (1 companies users members)
  show ?case
    by (simp add: seedDevAccounts_def 1(4) insertDoNothing_again[OF 1(1) conflicts_refl(1) seeds_agree(1)]
        insertDoNothing_again[OF 1(2) conflicts_refl(2) seeds_agree(2)]
        insertDoNothing_again[OF 1(3) conflicts_refl(3) seeds_agree(3)])
qed

text \<open>What the seeding inserts satisfies the constraints of the schema.\<close>

lemma insertDoNothing_rows:
  assumes "insertDoNothing conflict refs xs there = Some rows"
  shows "rows = there @ newRows conflict there xs" "list_all refs (newRows conflict there xs)"
  using assms by (auto simp: insertDoNothing_def Let_def split: if_splits)

lemma insertDoNothing_distinct:
  assumes "insertDoNothing conflict refs xs there = Some rows" "\<And>x y. k x = k y \<Longrightarrow> conflict x y" "distinct (map k there)"
  shows "distinct (map k rows)"
  using newRows_distinct[OF assms(2,3)] insertDoNothing_rows[OF assms(1)] by simp

lemma seeding_keeps_constraints:
  assumes "seedDevAccounts say now d = Some d'" "wf_db d" shows "wf_db d'"
  using assms(1)
proof (rule seed_success, goal_cases)
  case (1 companies users members)
  note d = wf_db_def wf_keys_def wf_refs_def
  have "wf_keys d'" using assms(2)
    insertDoNothing_distinct[OF 1(1), of co_id] insertDoNothing_distinct[OF 1(2), of us_id]
    insertDoNothing_distinct[OF 1(2), of us_email] insertDoNothing_distinct[OF 1(3), of mb_id]
    insertDoNothing_distinct[OF 1(3), of membershipKey]
    by (simp add: d 1(4) companyConflict_def userConflict_def membershipConflict_def)
  moreover have "wf_refs d'"
    using assms(2) insertDoNothing_rows[OF 1(1)] insertDoNothing_rows[OF 1(2)] insertDoNothing_rows[OF 1(3)]
    by (fastforce simp: d 1(4) companyIds_def userIds_def list_all_iff split: option.splits)
  ultimately show ?case by (simp add: wf_db_def)
qed

text \<open>The accounts the developer home offers are the seeded ones, and on an empty database they satisfy the invariant.\<close>

lemma seeded_accounts: "map us_id (seedUsers say now) = DEV_ACCOUNT_IDS"
  by (simp add: seedUsers_def DEV_USERS_def devUserOf_def DEV_ACCOUNT_IDS_def)

lemmas dev_ids = fixedId_def padEnd_def GENERATED_ID_BODY_LENGTH_def FIRST_COMPANY_def SECOND_COMPANY_def

definition seededDb :: "(devText \<Rightarrow> string) \<Rightarrow> millis \<Rightarrow> database" where
  "seededDb say now = emptyDb\<lparr>d_company := seedCompanies say now, d_user := seedUsers say now,
     d_membership := seedMemberships now\<rparr>"

lemma seeding_fresh: "seedDevAccounts say now emptyDb = Some (seededDb say now)"
  by (simp add: seedDevAccounts_def seededDb_def insertDoNothing_def emptyDb_def seedCompanies_def seedUsers_def
      seedMemberships_def DEV_COMPANIES_def DEV_USERS_def devUserOf_def companyConflict_def userConflict_def
      membershipConflict_def membershipKey_def at0_def dev_ids)

lemma seeded_inv: "companyInv (seededDb say now)"
proof -
  have "wf_db (seededDb say now)" using seeding_keeps_constraints[OF seeding_fresh] by simp
  then show ?thesis
    by (simp add: companyInv_def owned_def currentValid_def isActiveCompany_def ownersOf_def isMember_def membershipKey_def
        seededDb_def emptyDb_def seedCompanies_def seedUsers_def seedMemberships_def DEV_COMPANIES_def DEV_USERS_def
        devUserOf_def at0_def dev_ids)
qed

section \<open>Nothing is written into the wrong database\<close>

lemma prepare_marked:
  "\<not> td_marked s \<Longrightarrow> prepareMarkedNonProductionTables say now s = (False, s)"
  by (simp add: prepareMarkedNonProductionTables_def requireMarkedDatabase_def)

lemma prepare_keeps_constraints:
  "wf_db (td_database s) \<Longrightarrow> wf_db (td_database (snd (prepareNonProductionTables say now s)))"
  by (auto simp: prepareNonProductionTables_def Let_def intro: seeding_keeps_constraints split: option.splits)

text \<open>The test server touches no database unless it is outside of production and the database is local.\<close>

lemma testServer_writes:
  assumes "snd (testServer parseUrl protocols message env say now s) \<noteq> s"
  shows "isOutsideProduction (env ''APP_ENV'')" "usesNonProductionRedirectHosts protocols"
    "databaseTargetOf parseUrl (env ''DATABASE_URL'') \<in> LocalDatabase ` set LOCAL_DATABASE_HOSTNAMES"
  using assms
  by (auto simp: testServer_def Let_def requireLocalDatabase_def databaseTargetOf_def split: if_splits option.splits
      databaseTarget.splits)

lemma testServer_serves:
  assumes "testServer parseUrl protocols message env say now s = (ServesWith p, s')"
  shows "isOutsideProduction (env ''APP_ENV'')" "p \<noteq> Unconfigured"
    "seedDevAccounts say now (td_database s) = Some (td_database s')"
  using assms
  by (auto simp: testServer_def prepareNonProductionTables_def Let_def split: if_splits option.splits prod.splits bool.splits)

end
