(* ===== verification/WebViews.thy ===== *)
theory WebViews
  imports WebRoutes WebMfa
begin

text \<open>
  What the pages of \<open>web/src\<close> show of their state, and which of their controls are offered: \<open>auth/pages/SignIn.tsx\<close>,
  \<open>SignUp.tsx\<close>, \<open>Error.tsx\<close>, \<open>AuthError.ts\<close>, \<open>auth/SocialSignInSection.tsx\<close>, \<open>CanaryTokens.tsx\<close>,
  \<open>mfa/MfaChallengeView.tsx\<close>, \<open>account/pages\<close>, \<open>app/AccountLayout.tsx\<close>, \<open>company/OrgCodeField.tsx\<close> and
  \<open>invitation/pages/SignUpAcceptInvitation.tsx\<close>. A view is a record of the parts that depend on the state; fixed texts,
  icons and styles are left out. The state itself and its transitions are those of \<open>WebRoutes\<close>, \<open>WebFlows\<close> and \<open>WebMfa\<close>.
\<close>

section \<open>Signing in and up\<close>

text \<open>Who comes with an invitation is shown a hint instead of the button.\<close>

record gitHubButton =
  gb_disabled :: bool
  gb_spinning :: bool

definition SocialSignInSection :: "bool \<Rightarrow> bool \<Rightarrow> bool \<Rightarrow> gitHubButton option" where
  "SocialSignInSection isInvitation disabled submittingGitHub =
     (if isInvitation then None else Some \<lparr>gb_disabled = disabled, gb_spinning = submittingGitHub\<rparr>)"

text \<open>The names of the services, as people read them.\<close>

definition serviceDisplayName :: "string \<Rightarrow> string" where
  "serviceDisplayName service = (if service = ''taimei'' then ''taimei'' else ''taimei-auth'')"

text \<open>The inputs with their values, and the link to the other of the two pages with the parameters that were declared.\<close>

record signForm =
  sfm_name :: "string option"
  sfm_email :: string
  sfm_inputsDisabled :: bool
  sfm_submitDisabled :: bool
  sfm_submitSpinning :: bool
  sfm_social :: "gitHubButton option"
  sfm_otherPage :: string
  sfm_otherSearch :: signInParams

datatype signBody = LinkSentTo string | SignForm signForm

record signView =
  sgv_service :: string
  sgv_body :: signBody
  sgv_error :: "signNote option"

definition signFormView :: "bool \<Rightarrow> signInParams \<Rightarrow> signPage \<Rightarrow> signView" where
  "signFormView signUp params s =
     \<lparr>sgv_service = serviceDisplayName (sp_service_name params),
      sgv_body = (if sg_magicLinkSent s then LinkSentTo (sg_email s)
        else SignForm \<lparr>sfm_name = (if signUp then Some (sg_name s) else None), sfm_email = sg_email s,
          sfm_inputsDisabled = (sg_submitting s \<noteq> None),
          sfm_submitDisabled = (sg_submitting s \<noteq> None \<or> sg_email s = [] \<or> (signUp \<and> sg_name s = [])),
          sfm_submitSpinning = (sg_submitting s = Some SubmittingMagicLink),
          sfm_social = SocialSignInSection (sp_invitation_token params \<noteq> None) (sg_submitting s \<noteq> None)
            (sg_submitting s = Some SubmittingGitHub),
          sfm_otherPage = (if signUp then ''/auth'' else ''/auth/signup''), sfm_otherSearch = params\<rparr>),
      sgv_error = (if sg_error s = Some (SignRefused []) then None else sg_error s)\<rparr>"

definition SignIn :: "signInParams \<Rightarrow> signPage \<Rightarrow> signView" where
  "SignIn params s = signFormView False params s"

definition SignUp :: "signInParams \<Rightarrow> signPage \<Rightarrow> signView" where
  "SignUp params s = signFormView True params s"

text \<open>The traps of a canary token: an icon in the head, a link nobody sees, and a hidden input.\<close>

record canaryTokens =
  ct_icon :: string
  ct_link :: string
  ct_input :: string

definition CanaryTokens :: "string option \<Rightarrow> canaryTokens option" where
  "CanaryTokens tokenId = (case tokenId of
     None \<Rightarrow> None
   | Some t \<Rightarrow> (if t = [] then None
       else Some \<lparr>ct_icon = ''/auth/canary-token/'' @ t @ ''.ico'', ct_link = ''/auth/canary-token/'' @ t, ct_input = t\<rparr>))"

definition ErrorPage :: errorPageText where
  "ErrorPage = errorPageMessage None"

definition AuthErrorView :: "errorPageReason option \<Rightarrow> errorPageText" where
  "AuthErrorView reason = errorPageMessage reason"

text \<open>A control is offered exactly when using it starts something.\<close>

lemma sign_form_sends:
  "(\<exists>f. sgv_body (signFormView signUp params s) = SignForm f \<and> \<not> sfm_submitDisabled f) \<longleftrightarrow>
   snd (raiseSign origin signUp params SubmitMagicLink s) \<noteq> None"
  by (auto simp: signFormView_def)

lemma sign_form_enters_github:
  "(\<exists>f b. sgv_body (signFormView signUp params s) = SignForm f \<and> sfm_social f = Some b \<and> \<not> gb_disabled b) \<longleftrightarrow>
   snd (raiseSign origin signUp params ClickGitHub s) \<noteq> None"
  by (auto simp: signFormView_def SocialSignInSection_def)

section \<open>The login challenge\<close>

text \<open>The form with the attributes of its input, the switch to the other kind of code, and the message.\<close>

record challengeForm =
  chf_props :: codeInputProps
  chf_submitDisabled :: bool
  chf_spinning :: bool
  chf_toggleDisabled :: bool
  chf_error :: "message option"

text \<open>The link starts the login again; the page is behind the address \<open>origin\<close>.\<close>

datatype challengeBody =
    CompletingLogin
  | LoginAgain "(string \<times> string) list"
  | ChallengeForm challengeForm "(string \<times> string) list"

definition challengeFlowView :: "(typed \<Rightarrow> typed) \<Rightarrow> string \<Rightarrow> flowState \<Rightarrow> mfaCodeInput \<Rightarrow> challengeBody" where
  "challengeFlowView nfkc origin state input =
     (let submitting = (state = Verifying);
          errorMessage = (case state of Ready m \<Rightarrow> m | _ \<Rightarrow> None)
      in case viewOf state of
           ViewRedirecting \<Rightarrow> CompletingLogin
         | ViewExpired \<Rightarrow> LoginAgain (signInLandingSearch origin)
         | ViewEntry \<Rightarrow> ChallengeForm
             \<lparr>chf_props = codeInputProps ''mfa-challenge-code'' submitting (errorMessage \<noteq> None) input,
              chf_submitDisabled = (\<not> canSubmit nfkc submitting input), chf_spinning = submitting,
              chf_toggleDisabled = submitting, chf_error = errorMessage\<rparr>
             (signInLandingSearch origin))"

text \<open>The form submits exactly what \<open>handleSubmit\<close> accepts; only an expired challenge offers nothing but to start again.\<close>

lemma challenge_form_submits:
  "(\<exists>f l. challengeFlowView nfkc origin state input = ChallengeForm f l \<and> \<not> chf_submitDisabled f) \<longleftrightarrow>
   viewOf state = ViewEntry \<and> handleSubmit nfkc (state = Verifying) input \<noteq> None"
  by (auto simp: challengeFlowView_def canSubmit_def handleSubmit_def Let_def split: challengeView.splits)

section \<open>The pages of an account\<close>

text \<open>
  \<open>readAuthClient\<close>: an error the library reports is a failure; a read that rejects (\<open>None\<close>), or has neither data nor an
  error, is a defect.
\<close>

record 'a authClientResponse =
  ac_data :: "'a option"
  ac_error :: "nat option"

datatype authReadFailure = AuthClientReadFailed nat | AuthReadDied

definition readAuthClient :: "'a authClientResponse option \<Rightarrow> authReadFailure + 'a" where
  "readAuthClient response = (case response of
     None \<Rightarrow> Inl AuthReadDied
   | Some r \<Rightarrow> (case ac_error r of
         Some status \<Rightarrow> Inl (AuthClientReadFailed status)
       | None \<Rightarrow> (case ac_data r of None \<Rightarrow> Inl AuthReadDied | Some a \<Rightarrow> Inr a)))"

record listedSession =
  ls_userAgent :: "string option"
  ls_ipAddress :: "string option"
  ls_expiresAt :: millis

text \<open>\<open>value || fallback\<close> on a text that may be missing.\<close>

definition orElse :: "string option \<Rightarrow> string option" where
  "orElse v = (case v of None \<Rightarrow> None | Some s \<Rightarrow> if s = [] then None else Some s)"

record sessionRow =
  sro_device :: string
  sro_ip :: "string option"
  sro_expires :: string

definition sessionRowOf :: "(millis \<Rightarrow> string) \<Rightarrow> listedSession \<Rightarrow> sessionRow" where
  "sessionRowOf formatDate s =
     \<lparr>sro_device = (case orElse (ls_userAgent s) of None \<Rightarrow> ''Unknown device'' | Some d \<Rightarrow> d),
      sro_ip = orElse (ls_ipAddress s), sro_expires = formatDate (ls_expiresAt s)\<rparr>"

definition Sessions :: "(millis \<Rightarrow> string) \<Rightarrow> listedSession list asyncResult \<Rightarrow> sessionRow list sectionView" where
  "Sessions formatDate result = map_sectionView (map (sessionRowOf formatDate)) (AsyncSection (Some (\<lambda>xs. length xs = 0)) result)"

definition providerLabel :: "string \<Rightarrow> string" where
  "providerLabel providerId = (if providerId = ''github'' then ''GitHub'' else providerId)"

record linkedAccount =
  la_providerId :: string
  la_accountId :: string

datatype providerIcon = GitHubIcon | ProviderInitial string

record connectionRow =
  cn_icon :: providerIcon
  cn_label :: string
  cn_accountId :: string

definition connectionRowOf :: "linkedAccount \<Rightarrow> connectionRow" where
  "connectionRowOf a =
     \<lparr>cn_icon = (if la_providerId a = ''github'' then GitHubIcon else ProviderInitial (take 1 (la_providerId a))),
      cn_label = providerLabel (la_providerId a), cn_accountId = la_accountId a\<rparr>"

definition Connections :: "linkedAccount list asyncResult \<Rightarrow> connectionRow list sectionView" where
  "Connections result = map_sectionView (map connectionRowOf) (AsyncSection (Some (\<lambda>xs. length xs = 0)) result)"

definition Security :: "mfaStatus asyncResult \<Rightarrow> mfaSettingsItem sectionView" where
  "Security result = map_sectionView MfaSettingsItem (AsyncSection None result)"

record sessionProfile =
  spf_name :: string
  spf_email :: string
  spf_image :: "string option"

text \<open>The current company with the role and the kind of the company, and the initial values of the two forms.\<close>

record profileView =
  pfv_company :: "(string \<times> role \<times> org_code) option"
  pfv_name :: string
  pfv_email :: string
  pfv_avatar :: string
  pfv_fallbackName :: string

definition Profile :: "sessionProfile option \<Rightarrow> companyStateView \<Rightarrow> profileView option" where
  "Profile sessionUser state = map_option (\<lambda>u.
     \<lparr>pfv_company = map_option (\<lambda>m. (mb_companyName m, mb_role m, mb_companyOrgCode m))
        (cv_currentMembership state),
      pfv_name = spf_name u, pfv_email = spf_email u,
      pfv_avatar = (case spf_image u of None \<Rightarrow> [] | Some i \<Rightarrow> i), pfv_fallbackName = spf_name u\<rparr>) sessionUser"

text \<open>The navigation: where a link leads, and whether it is active only on exactly that path.\<close>

definition companyNav :: "string list" where
  "companyNav = [''/account/companies'', ''/account/members'', ''/account/company-settings'']"

definition accountNav :: "string list" where
  "accountNav = [''/account'', ''/account/security'', ''/account/sessions'', ''/account/connections'']"

definition NavLinks :: "string list \<Rightarrow> (string \<times> bool) list" where
  "NavLinks items = map (\<lambda>path. (path, path = ''/account'')) items"

definition AccountLayout :: "(string \<times> bool) list" where
  "AccountLayout = NavLinks companyNav @ NavLinks accountNav"

record orgCodeRadio =
  oc_value :: org_code
  oc_checked :: bool
  oc_disabled :: bool

definition OrgCodeField :: "org_code list option \<Rightarrow> bool option \<Rightarrow> org_code \<Rightarrow> orgCodeRadio list" where
  "OrgCodeField order disabled value =
     map (\<lambda>code. \<lparr>oc_value = code, oc_checked = (value = code), oc_disabled = (disabled = Some True)\<rparr>)
       (case order of None \<Rightarrow> [PERSONAL, CORPORATE] | Some codes \<Rightarrow> codes)"

definition SignUpAcceptInvitation :: "message \<Rightarrow> message \<times> string" where
  "SignUpAcceptInvitation message = (message, ''/account'')"

text \<open>Every link of the navigation is a page below \<open>/account\<close>, and the two lists reach all of those.\<close>

lemma navigation_reaches_account_pages:
  "map (\<lambda>path. if path = ''/account'' then ''/account/'' else path) (map fst AccountLayout) =
     map routePath [RouteCompanies, RouteMembers, RouteCompanySettings, RouteProfile, RouteSecurity, RouteSessions,
       RouteConnections]"
  by (simp add: AccountLayout_def NavLinks_def companyNav_def accountNav_def)

end
