(* ===== verification/Lint.thy ===== *)
theory Lint
  imports Prelude
begin

text \<open>
  The rules of \<open>lint/oxlint-plugin.mts\<close>, which keep effects out of the pure functions of a page. The linter visits the
  nodes of a file in order and gives each visitor a node with its parent, its ancestors and its scope; the visits are
  the parameter. A report is the node and the message, whose Japanese text is a constructor.
\<close>

section \<open>Nodes, scopes, visits\<close>

datatype astNode = AstNode
  (node_type: string)
  (node_name: "string option")
  (node_computed: "bool option")
  (node_object: "astNode option")
  (node_property: "astNode option")
  (node_key: "astNode option")
  (node_callee: "astNode option")
  (node_imported: "astNode option")
  (node_source: "string option")
  (node_specifiers: "astNode list")
  (node_body: "astNode list")

datatype scope = Scope "string list" "scope option"

text \<open>Which child of its parent a node is: the source compares references.\<close>

datatype childOf = AsProperty | AsKey | AsOther

record visit =
  vi_node :: astNode
  vi_parent :: "(astNode \<times> childOf) option"
  vi_ancestors :: "astNode list"
  vi_scope :: scope

datatype lintMessage = EffectRunInWeb | TouchesBrowserGlobal string | UsesTimer string | UsesClockOrRandom string
  | ImportsAtom | RawFormElement string | StartsApplication string

type_synonym lintReport = "astNode \<times> lintMessage"

section \<open>The names the rules look for\<close>

definition BROWSER_GLOBALS :: "string list" where
  "BROWSER_GLOBALS = [''window'', ''document'', ''navigator'', ''location'', ''history'', ''localStorage'', ''sessionStorage'',
     ''fetch'']"

definition TIMER_GLOBALS :: "string list" where
  "TIMER_GLOBALS = [''setTimeout'', ''setInterval'', ''requestAnimationFrame'']"

definition CLOCK_AND_RANDOM_CALLS :: "string list" where
  "CLOCK_AND_RANDOM_CALLS = [''Date.now'', ''Math.random'', ''crypto.randomUUID'']"

definition FORM_ELEMENTS :: "string list" where
  "FORM_ELEMENTS = [''button'', ''input'', ''textarea'', ''select'']"

definition APPLICATION_STARTS :: "string list" where
  "APPLICATION_STARTS = [''Runtime.makeApplication'', ''Runtime.run'']"

definition DEFERRED_EFFECT_CONSTRUCTORS :: "string list" where
  "DEFERRED_EFFECT_CONSTRUCTORS = map (\<lambda>name. ''Effect.'' @ name)
     [''sync'', ''try'', ''tryPromise'', ''promise'', ''suspend'', ''callback'']"

text \<open>\<open>`${node?.name}`\<close>: a name that is missing prints as \<open>undefined\<close>.\<close>

definition printedName :: "astNode option \<Rightarrow> string" where
  "printedName n = (case Option.bind n node_name of None \<Rightarrow> ''undefined'' | Some s \<Rightarrow> s)"

definition staticMemberPath :: "astNode option \<Rightarrow> string" where
  "staticMemberPath n = (case n of
     None \<Rightarrow> []
   | Some m \<Rightarrow> (if node_type m = ''MemberExpression'' \<and> node_computed m \<noteq> Some True
       then printedName (node_object m) @ ''.'' @ printedName (node_property m) else []))"

definition isExecuteProperty :: "astNode \<Rightarrow> bool" where
  "isExecuteProperty n \<longleftrightarrow> node_type n = ''Property'' \<and> Option.bind (node_key n) node_name = Some ''execute''"

definition isDeferredEffectCall :: "astNode \<Rightarrow> bool" where
  "isDeferredEffectCall n \<longleftrightarrow>
     node_type n = ''CallExpression'' \<and> staticMemberPath (node_callee n) \<in> set DEFERRED_EFFECT_CONSTRUCTORS"

definition isDeferredByRuntime :: "astNode \<Rightarrow> bool" where
  "isDeferredByRuntime n \<longleftrightarrow> isExecuteProperty n \<or> isDeferredEffectCall n"

fun isDeclaredIn :: "scope option \<Rightarrow> string \<Rightarrow> bool" where
  "isDeclaredIn None name = False"
| "isDeclaredIn (Some (Scope names upper)) name = (name \<in> set names \<or> isDeclaredIn upper name)"

definition isPropertyName :: "visit \<Rightarrow> bool" where
  "isPropertyName v = (case vi_parent v of
     None \<Rightarrow> False
   | Some (p, child) \<Rightarrow> node_computed p \<noteq> Some True \<and>
       child = (if node_type p = ''MemberExpression'' then AsProperty else AsKey))"

text \<open>\<open>String(node.source?.value)\<close>\<close>

definition importSource :: "astNode \<Rightarrow> string" where
  "importSource n = (case node_source n of None \<Rightarrow> ''undefined'' | Some s \<Rightarrow> s)"

definition isGlobalReference :: "visit \<Rightarrow> string \<Rightarrow> bool" where
  "isGlobalReference v name \<longleftrightarrow> \<not> isPropertyName v \<and> \<not> isDeclaredIn (Some (vi_scope v)) name"

section \<open>Rules\<close>

text \<open>A rule keeps one flag for the file it looks at; a visitor reads it, changes it and reports.\<close>

type_synonym visitor = "bool \<Rightarrow> visit \<Rightarrow> bool \<times> lintReport list"
type_synonym visitors = "(string \<times> visitor) list"

definition reporting :: "(visit \<Rightarrow> lintReport list) \<Rightarrow> visitor" where
  "reporting f = (\<lambda>flag v. (flag, f v))"

definition startsFoldkit :: "string \<Rightarrow> bool" where
  "startsFoldkit source \<longleftrightarrow> startsWith source ''foldkit'' \<or> startsWith source ''@foldkit/''"

definition isFoldkitProgram :: "astNode \<Rightarrow> bool" where
  "isFoldkitProgram n \<longleftrightarrow>
     list_ex (\<lambda>s. node_type s = ''ImportDeclaration'' \<and> startsFoldkit (importSource s)) (node_body n)"

definition inFoldkitFiles :: "visitors \<Rightarrow> visitors" where
  "inFoldkitFiles vs = (''Program'', \<lambda>flag v. (isFoldkitProgram (vi_node v), [])) #
     map (\<lambda>(selector, visitNode). (selector, \<lambda>flag v. if flag then visitNode flag v else (flag, []))) vs"

definition nodeName :: "astNode \<Rightarrow> string" where
  "nodeName n = (case node_name n of None \<Rightarrow> [] | Some s \<Rightarrow> s)"

definition noEffectRunInWeb :: visitors where
  "noEffectRunInWeb = [(''MemberExpression'', reporting (\<lambda>v.
     if startsWith (staticMemberPath (Some (vi_node v))) ''Effect.run'' then [(vi_node v, EffectRunInWeb)] else []))]"

definition browserGlobalVisitors :: visitors where
  "browserGlobalVisitors = [(''Identifier'', reporting (\<lambda>v. let name = nodeName (vi_node v) in
     if name \<notin> set BROWSER_GLOBALS \<or> \<not> isGlobalReference v name \<or> list_ex isDeferredByRuntime (vi_ancestors v)
     then [] else [(vi_node v, TouchesBrowserGlobal name)]))]"

definition noBrowserGlobalOutsideCommand :: visitors where
  "noBrowserGlobalOutsideCommand = inFoldkitFiles browserGlobalVisitors"

definition timerVisitors :: visitors where
  "timerVisitors =
     [(''Identifier'', reporting (\<lambda>v. let name = nodeName (vi_node v) in
        if name \<notin> set TIMER_GLOBALS \<or> \<not> isGlobalReference v name then [] else [(vi_node v, UsesTimer name)])),
      (''MemberExpression'', reporting (\<lambda>v. let path = staticMemberPath (Some (vi_node v)) in
        if path \<notin> set CLOCK_AND_RANDOM_CALLS then [] else [(vi_node v, UsesClockOrRandom path)]))]"

definition noTimerClockRandomInFoldkit :: visitors where
  "noTimerClockRandomInFoldkit = inFoldkitFiles timerVisitors"

definition endsAsAtom :: "string \<Rightarrow> bool" where
  "endsAsAtom source \<longleftrightarrow> endsWith source ''-atom'' \<or> endsWith source ''-atom.ts'' \<or> endsWith source ''-atom.tsx''"

definition noAtomImportInFoldkit :: visitors where
  "noAtomImportInFoldkit = inFoldkitFiles [(''ImportDeclaration'', reporting (\<lambda>v.
     if endsAsAtom (importSource (vi_node v)) then [(vi_node v, ImportsAtom)] else []))]"

definition noRawFormElement :: visitors where
  "noRawFormElement = [(''MemberExpression'', reporting (\<lambda>v. let n = vi_node v in
     if node_computed n = Some True \<or> Option.bind (node_object n) node_name \<noteq> Some ''h'' \<or>
        (case Option.bind (node_property n) node_name of None \<Rightarrow> [] | Some p \<Rightarrow> p) \<notin> set FORM_ELEMENTS
     then [] else [(n, RawFormElement (printedName (node_property n)))]))]"

definition noDirectApplicationStart :: visitors where
  "noDirectApplicationStart =
     [(''MemberExpression'', reporting (\<lambda>v. let path = staticMemberPath (Some (vi_node v)) in
        if path \<notin> set APPLICATION_STARTS then [] else [(vi_node v, StartsApplication path)])),
      (''ImportDeclaration'', reporting (\<lambda>v.
        if importSource (vi_node v) \<noteq> ''foldkit/runtime'' then []
        else case find (\<lambda>s. ''Runtime.'' @ printedName (node_imported s) \<in> set APPLICATION_STARTS) (node_specifiers (vi_node v)) of
          None \<Rightarrow> []
        | Some started \<Rightarrow> [(started, StartsApplication (printedName (node_imported started)))]))]"

definition lintRules :: "(string \<times> visitors) list" where
  "lintRules =
     [(''no-effect-run-in-web'', noEffectRunInWeb),
      (''no-browser-global-outside-command'', noBrowserGlobalOutsideCommand),
      (''no-timer-clock-random-in-foldkit'', noTimerClockRandomInFoldkit),
      (''no-atom-import-in-foldkit'', noAtomImportInFoldkit),
      (''no-raw-form-element'', noRawFormElement),
      (''no-direct-application-start'', noDirectApplicationStart)]"

text \<open>The linter gives every visit to the visitor of the node's type; a rule starts with its flag down.\<close>

fun lintFrom :: "visitors \<Rightarrow> bool \<Rightarrow> visit list \<Rightarrow> lintReport list" where
  "lintFrom vs flag [] = []"
| "lintFrom vs flag (v # rest) = (case map_of vs (node_type (vi_node v)) of
     None \<Rightarrow> lintFrom vs flag rest
   | Some visitNode \<Rightarrow> (case visitNode flag v of (flag', reports) \<Rightarrow> reports @ lintFrom vs flag' rest))"

definition lintFile :: "visitors \<Rightarrow> visit list \<Rightarrow> lintReport list" where
  "lintFile vs visits = lintFrom vs False visits"

section \<open>What a rule reports\<close>

text \<open>A rule without the flag reports on each visit by itself.\<close>

definition stateless :: "visitors \<Rightarrow> bool" where
  "stateless vs \<longleftrightarrow> (\<forall>(selector, f)\<in>set vs. selector \<noteq> ''Program'' \<and> (\<exists>g. f = reporting g))"

definition reportsOn :: "visitors \<Rightarrow> visit \<Rightarrow> lintReport list" where
  "reportsOn vs v = (case map_of vs (node_type (vi_node v)) of None \<Rightarrow> [] | Some f \<Rightarrow> snd (f True v))"

lemma stateless_reporting: "stateless vs \<Longrightarrow> map_of vs t = Some f \<Longrightarrow> \<exists>g. f = reporting g"
  by (auto simp: stateless_def dest!: map_of_SomeD)

lemma lintFrom_stateless: "stateless vs \<Longrightarrow> lintFrom vs flag visits = concat (map (reportsOn vs) visits)"
proof (induction visits arbitrary: flag)
  case (Cons v rest)
  then show ?case
    using stateless_reporting[of vs "node_type (vi_node v)"]
    by (auto simp: reportsOn_def[of vs v] reporting_def split: option.splits)
qed simp

lemma map_of_inFoldkitFiles:
  "t \<noteq> ''Program'' \<Longrightarrow> map_of (inFoldkitFiles vs) t =
    map_option (\<lambda>f flag v. if flag then f flag v else (flag, [])) (map_of vs t)"
  by (simp add: inFoldkitFiles_def map_of_map)

lemma lintFrom_inFoldkitFiles:
  assumes "stateless vs" "\<forall>v\<in>set visits. node_type (vi_node v) \<noteq> ''Program''"
  shows "lintFrom (inFoldkitFiles vs) flag visits = (if flag then concat (map (reportsOn vs) visits) else [])"
  using assms(2)
proof (induction visits)
  case (Cons v rest)
  then show ?case
    using stateless_reporting[OF assms(1), of "node_type (vi_node v)"]
    by (auto simp: map_of_inFoldkitFiles reportsOn_def[of vs v] reporting_def split: option.splits)
qed simp

lemma rules_stateless: "stateless browserGlobalVisitors" "stateless timerVisitors" "stateless noEffectRunInWeb"
    "stateless noRawFormElement" "stateless noDirectApplicationStart"
  by (auto simp: stateless_def browserGlobalVisitors_def timerVisitors_def noEffectRunInWeb_def noRawFormElement_def
      noDirectApplicationStart_def)

text \<open>
  A rule for Foldkit files says nothing on a file that does not import Foldkit, and on one that does exactly what it says
  visit by visit; so a global of the browser is reported exactly where a page could reach it without a command.
\<close>

lemma foldkit_rule_reports:
  assumes "stateless vs" "node_type (vi_node program) = ''Program''" "\<forall>v\<in>set visits. node_type (vi_node v) \<noteq> ''Program''"
  shows "lintFile (inFoldkitFiles vs) (program # visits) =
    (if isFoldkitProgram (vi_node program) then concat (map (reportsOn vs) visits) else [])"
  using lintFrom_inFoldkitFiles[OF assms(1,3)] assms(2) by (simp add: lintFile_def inFoldkitFiles_def)

theorem browser_globals_stay_in_commands:
  assumes "node_type (vi_node program) = ''Program''" "\<forall>v\<in>set visits. node_type (vi_node v) \<noteq> ''Program''"
  shows "lintFile noBrowserGlobalOutsideCommand (program # visits) = [] \<longleftrightarrow>
    \<not> isFoldkitProgram (vi_node program) \<or>
    (\<forall>v\<in>set visits. node_type (vi_node v) = ''Identifier'' \<and> nodeName (vi_node v) \<in> set BROWSER_GLOBALS \<longrightarrow>
      isPropertyName v \<or> isDeclaredIn (Some (vi_scope v)) (nodeName (vi_node v)) \<or>
      (\<exists>a\<in>set (vi_ancestors v). isDeferredByRuntime a))"
  unfolding noBrowserGlobalOutsideCommand_def foldkit_rule_reports[OF rules_stateless(1) assms]
  by (auto simp: reportsOn_def browserGlobalVisitors_def reporting_def isGlobalReference_def Let_def list_ex_iff
      split: if_splits)

text \<open>A page that sends the browser away: bare, as a property, and inside \<open>Effect.sync\<close>.\<close>

definition identNode :: "string \<Rightarrow> astNode" where
  "identNode name = AstNode ''Identifier'' (Some name) None None None None None None None [] []"

definition syncCall :: astNode where
  "syncCall = AstNode ''CallExpression'' None None None None None
     (Some (AstNode ''MemberExpression'' None (Some False) (Some (identNode ''Effect'')) (Some (identNode ''sync'')) None None None None [] []))
     None None [] []"

definition foldkitProgram :: astNode where
  "foldkitProgram = AstNode ''Program'' None None None None None None None None []
     [AstNode ''ImportDeclaration'' None None None None None None None (Some ''foldkit/html'') [] []]"

definition visitOf :: "astNode \<Rightarrow> astNode list \<Rightarrow> visit" where
  "visitOf n ancestors = \<lparr>vi_node = n, vi_parent = None, vi_ancestors = ancestors, vi_scope = Scope [] None\<rparr>"

theorem browser_globals_stay_in_commands_witness:
  "lintFile noBrowserGlobalOutsideCommand [visitOf foldkitProgram [], visitOf (identNode ''location'') [foldkitProgram, syncCall]] = [] \<and>
   lintFile noBrowserGlobalOutsideCommand [visitOf foldkitProgram [], visitOf (identNode ''location'') [foldkitProgram]] \<noteq> []"
proof -
  have program: "node_type (vi_node (visitOf foldkitProgram [])) = ''Program''" "isFoldkitProgram (vi_node (visitOf foldkitProgram []))"
    by code_simp+
  have plain: "\<forall>v\<in>set [visitOf (identNode ''location'') ancs]. node_type (vi_node v) \<noteq> ''Program''" for ancs
    by (simp add: visitOf_def identNode_def)
  have "isDeferredByRuntime syncCall" "\<not> isDeferredByRuntime foldkitProgram" by code_simp+
  then show ?thesis
    using browser_globals_stay_in_commands[OF program(1) plain, of "[foldkitProgram, syncCall]"]
      browser_globals_stay_in_commands[OF program(1) plain, of "[foldkitProgram]"] program(2)
    by (simp add: visitOf_def identNode_def nodeName_def BROWSER_GLOBALS_def isPropertyName_def)
qed

end
