(* ===== verification/Divergences.thy ===== *)
theory Divergences
  imports Demo
begin

text \<open>
  Runs in which the code parts from its documents. In each of them every request was admitted by its guard, on the
  database the guard saw, and another request was committed between the guard and the transaction.
\<close>

section \<open>An invitation sent while its company is deleted\<close>

text \<open>
  Ann owns two companies. Her request to invite Dan to \<open>cmp_n0\<close> passes its guard (\<open>invitingWorld\<close>); before the
  invitation is inserted she deletes that company (\<open>deletingWorld\<close>). The invitation goes out all the same
  (\<open>lateInviteWorld\<close>), since nothing looks at the company again, and Dan accepts it.
\<close>

definition invitingWorld :: "unit world" where
  "invitingWorld = (let w = snd (perform demoService (AddCompany ''ann'' ''Other'' CORPORATE) foundedWorld)
     in w\<lparr>w_db := signUp (demoUser ''dan'' ''dan@x.jp'' None) (w_db w)\<rparr>)"

definition deletingWorld :: "unit world" where
  "deletingWorld = (let w = snd (perform demoService (DeleteCompany \<lparr>vm_actor = demoActor ''ann'' ''ann@x.jp'',
       vm_companyId = ''cmp_n0'', vm_role = OWNER\<rparr>) invitingWorld)
     in (worldOf (w_db w))\<lparr>w_drawn := 10, w_kvFaults := (\<lambda>_. Lost)\<rparr>)"

definition lateInviteWorld :: "unit world" where
  "lateInviteWorld = snd (perform demoService (CreateInvitation inviteDan) deletingWorld)"

definition lateInvitation :: invitation where
  "lateInvitation = \<lparr>iv_id = ''inv_n10'', iv_companyId = ''cmp_n0'', iv_email = ''dan@x.jp'', iv_role = ADMIN,
     iv_token = ''n11'', iv_expiresAt = 86401000, iv_status = PENDING, iv_acceptedAt = None, iv_revokedAt = None,
     iv_usedAt = None, iv_invitedByUserId = ''ann'', iv_createdAt = 1000\<rparr>"

lemma deletingDb:
  "d_invitation (w_db deletingWorld) = []" "map co_id (d_company (w_db deletingWorld)) = [''cmp_n0'', ''cmp_n3'']"
  "map us_id (d_user (w_db deletingWorld)) = [''ann'', ''dan'']"
  "map al_id (d_auditLog (w_db deletingWorld)) = [''2'', ''5'', ''6'', ''7'']"
  by code_simp+

lemma deletingWorld_simps:
  "w_clock deletingWorld = 1000" "w_drawn deletingWorld = 10" "w_kvFaults deletingWorld k = Lost"
  "w_dbFaults deletingWorld k = NoFault" "w_nanoid deletingWorld n m = CHR ''n'' # showNat n"
  "w_uuid deletingWorld n = showNat n"
  by (simp_all add: deletingWorld_def worldOf_def Let_def)

definition lateInviteDb :: database where
  "lateInviteDb = (let d = w_db deletingWorld; e = \<lparr>ae_userId = ''ann'', ae_event =
       Invitation_sent ''inv_n10'' ''cmp_n0'' ''dan@x.jp'' ADMIN ''ann''\<rparr>
     in d\<lparr>d_invitation := [lateInvitation],
          d_auditLog := d_auditLog d @ [\<lparr>al_id = ''12'', al_entry = e, al_createdAt = 1000\<rparr>]\<rparr>)"

lemma lateInvite: "w_db lateInviteWorld = lateInviteDb"
proof -
  have f: "companyIds (w_db deletingWorld) = {''cmp_n0'', ''cmp_n3''}" "userIds (w_db deletingWorld) = {''ann'', ''dan''}"
    "al_id ` set (d_auditLog (w_db deletingWorld)) = {''2'', ''5'', ''6'', ''7''}"
    using deletingDb unfolding companyIds_def userIds_def by (metis list.set_map list.set(1) list.simps(15))+
  show ?thesis
    by (simp add: lateInviteWorld_def createInvitation_def findOrInsertInvitation_def Let_def andThen_def currentTimeMillis_def
      findActivePendingInvitation_def tryDb_def select_def deletingWorld_simps f deletingDb(1) spend_none transaction_def runTx_def
      generateInvitationId_def generateInvitationToken_def mapEff_def nanoid_def succeed_def insertInvitation_def insertInvitationSql_def
      appendAuditInTx_def appendAuditLogs_def randomUUID_def insertAuditLogsSql_def demoService_def inviteDan_def demoActor_def
      sendInvitationLink_def runBackground_def digits companyIds_def[symmetric] userIds_def[symmetric] forEachDiscard.simps
      lateInvitation_def lateInviteDb_def INVITE_TTL_MS_def)
qed

definition acceptingWorld :: "unit world" where
  "acceptingWorld = (worldOf lateInviteDb)\<lparr>w_drawn := 20\<rparr>"

definition acceptedWorld :: "unit world" where
  "acceptedWorld = snd (perform demoService (AcceptInvitation \<lparr>ag_actor = demoActor ''dan'' ''dan@x.jp'',
     ag_invitation = lateInvitation\<rparr>) acceptingWorld)"

lemma reachable_invitingWorld: "reachable demoService invitingWorld"
proof -
  let ?w = "snd (perform demoService (AddCompany ''ann'' ''Other'' CORPORATE) foundedWorld)"
  have "reachable demoService ?w" using reachable_foundedWorld by (rule reachable.step) (rule performs)
  moreover have "signUpAllowed (demoUser ''dan'' ''dan@x.jp'' None) (w_db ?w)"
    unfolding signUpAllowed_def userIds_def by code_simp
  ultimately show ?thesis
    unfolding invitingWorld_def Let_def by (blast intro: reachable.step service_step.sign_up)
qed

lemma reachable_acceptedWorld: "reachable demoService acceptedWorld"
proof -
  let ?w = "snd (perform demoService (DeleteCompany \<lparr>vm_actor = demoActor ''ann'' ''ann@x.jp'',
       vm_companyId = ''cmp_n0'', vm_role = OWNER\<rparr>) invitingWorld)"
  have "reachable demoService ?w" using reachable_invitingWorld by (rule reachable.step) (rule performs)
  then have "reachable demoService deletingWorld"
    by (rule reachable.step) (rule service_step.elsewhere, simp add: deletingWorld_def Let_def)
  then have "reachable demoService lateInviteWorld"
    unfolding lateInviteWorld_def by (rule reachable.step) (rule performs)
  then have "reachable demoService acceptingWorld"
    by (rule reachable.step) (rule service_step.elsewhere, simp add: acceptingWorld_def lateInvite)
  then show ?thesis
    unfolding acceptedWorld_def by (rule reachable.step) (rule performs)
qed

lemma late_invitation_was_admitted:
  "fst (requireInvite (demoActor ''ann'' ''ann@x.jp'') ''cmp_n0'' ''dan@x.jp'' ADMIN None invitingWorld) = Inr inviteDan"
  "fst (requireInvitationAccept (demoActor ''dan'' ''dan@x.jp'') ''n11'' acceptingWorld)
     = Inr (Proceed \<lparr>ag_actor = demoActor ''dan'' ''dan@x.jp'', ag_invitation = lateInvitation\<rparr>)"
  by code_simp+

text \<open>
  So a reachable database has a member of a deleted company, and the user's current company is that one: the tables
  do not keep the promise of \<open>proto/auth/v1/auth.proto\<close> that \<open>default_company_id\<close> names an active company, nor
  the one of \<open>docs/adr/0010\<close> that a membership row means an active company.
\<close>

theorem current_company_can_be_deleted:
  "\<exists>w :: unit world. reachable demoService w \<and>
     (\<exists>m \<in> set (d_membership (w_db w)). \<exists>u \<in> set (d_user (w_db w)). \<exists>c \<in> set (d_company (w_db w)).
        mb_userId m = us_id u \<and> mb_companyId m = co_id c \<and> us_lastUsedCompanyId u = Some (co_id c) \<and>
        co_activationStatus c = DELETED)"
proof (intro exI[of _ acceptedWorld] conjI reachable_acceptedWorld)
  show "\<exists>m \<in> set (d_membership (w_db acceptedWorld)). \<exists>u \<in> set (d_user (w_db acceptedWorld)).
      \<exists>c \<in> set (d_company (w_db acceptedWorld)). mb_userId m = us_id u \<and> mb_companyId m = co_id c \<and>
        us_lastUsedCompanyId u = Some (co_id c) \<and> co_activationStatus c = DELETED"
    by code_simp
qed

section \<open>A transfer by an owner who was demoted meanwhile\<close>

text \<open>
  Ann and Bob own \<open>c1\<close>. Ann's transfer to Cid passes its guard; before its transaction starts, Bob makes Ann a
  \<open>MEMBER\<close>. The transaction asks for Cid's membership and for Ann's, not for Ann's role: Cid becomes \<open>OWNER\<close>, and
  Ann, a \<open>MEMBER\<close>, becomes \<open>ADMIN\<close>.
\<close>

definition twoOwners :: "unit world" where
  "twoOwners = worldOf (demoDb\<lparr>d_membership := [demoMember ''m1'' ''ann'' ''c1'' OWNER 0,
     demoMember ''m2'' ''bob'' ''c1'' OWNER 1, demoMember ''m3'' ''cid'' ''c1'' MEMBER 2]\<rparr>)"

definition demoteAnn :: roleChangeGrant where
  "demoteAnn = \<lparr>rg_actor = demoActor ''bob'' ''bob@x.jp'', rg_companyId = ''c1'', rg_targetUserId = ''ann'',
     rg_targetRole = OWNER, rg_nextRole = MEMBER\<rparr>"

definition annToCid :: ownershipTransferGrant where
  "annToCid = \<lparr>og_actor = demoActor ''ann'' ''ann@x.jp'', og_companyId = ''c1'', og_toUserId = ''cid''\<rparr>"

definition annDemoted :: "unit world" where
  "annDemoted = snd (changeRole demoAuth demoteAnn twoOwners)"

theorem demoted_owner_still_transfers:
  "fst (requireTransferOwnership (demoActor ''ann'' ''ann@x.jp'') ''c1'' ''cid'' twoOwners) = Inr annToCid \<and>
   fst (requireRoleChange (demoActor ''bob'' ''bob@x.jp'') ''c1'' ''ann'' MEMBER twoOwners) = Inr demoteAnn \<and>
   map mb_role (d_membership (w_db annDemoted)) = [MEMBER, OWNER, MEMBER] \<and>
   fst (transferOwnership demoAuth annToCid annDemoted) = Inr () \<and>
   map mb_role (d_membership (w_db (snd (transferOwnership demoAuth annToCid annDemoted)))) = [ADMIN, OWNER, OWNER]"
  by code_simp

end
