(* ===== verification/Spec2Isabelle.thy ===== *)
theory Spec2Isabelle
  imports CompanyProperties ServiceProperties OperationProperties MfaProperties RecoveryCodes StorageProperties
    SpaProperties RpcProperties RouteProperties WebProperties WebMembersProperties WebPagesProperties
    EmailProperties BootProperties InfraProperties NonProductionProperties TestUsers TestDatabase WebViews Lint Divergences
begin

text \<open>
  Verification of taimei-auth, the authentication service the products of taimei share: sign-in by better-auth with a
  second factor of its own, companies with members in three roles, invitations, an HTTP API for its own web
  application, and an RPC API with a client library for the other services.

  \<^bold>\<open>The program and how its parts interact.\<close> A request enters through \<open>src/app.ts\<close> (gates, entry routes), the HTTP
  API (\<open>src/handlers\<close>, declared in \<open>src/spa-contract*.ts\<close>) or the RPC API (\<open>src/rpc\<close>). A handler asks a guard
  (\<open>src/membership/guard\<close>) for a grant and hands the grant to a use case (\<open>src/company\<close>, \<open>src/membership\<close>,
  \<open>src/invitation\<close>, \<open>src/account\<close>, \<open>src/mfa\<close>). A use case runs a transaction over the repositories
  (\<open>db/repositories\<close>), writes the audit log in it, and leaves to the time after the commit what must not be undone
  with it. Sessions are better-auth's; they, and the attempt budgets, live in a key-value store of Durable Objects
  (\<open>src/kv-store.do.ts\<close>). Other services ask over RPC with the library of \<open>packages/auth-client\<close>; the web application
  of \<open>web/src\<close> talks to the HTTP API.

  \<^bold>\<open>Foundations.\<close>
  \<^item> \<open>Prelude\<close>, \<open>Enums\<close>, \<open>Failures\<close>: the JavaScript idioms the sources use, the closed vocabularies with the order
    of the roles (an instance of \<open>linorder\<close>), and every failure as a constructor of one datatype.
  \<^item> \<open>Schema\<close>: a record per table of \<open>db/schema.ts\<close>, the \<open>database\<close>, and its constraints \<open>wf_db\<close>.
  \<^item> \<open>World\<close>: an effect is a function from a world to its exit (a value or a failure) and the world after. The world
    has the database, the key-value objects, the clock, the state of better-auth, streams of random values and of
    faults, the after-commit hooks and locks of the open transaction, the jobs handed to the background (recorded,
    not run) and what was reported. Every call of the database or the store consults the faults: it may be lost, or
    applied with its answer lost. \<open>runTx\<close> restores the database when its body fails. \<open>preserves\<close>, \<open>keeps\<close> and \<open>throws\<close>
    are the three judgements about effects; their rules are collected in \<open>preserves_intros\<close> and \<open>throws_intros\<close>, and
    the proofs about a program follow its text.
  \<^item> \<open>CompanyRepo\<close>, \<open>UserRepo\<close>, \<open>MembershipRepo\<close>, \<open>InvitationRepo\<close>, \<open>AuditLogRepo\<close>, \<open>MfaTotpRepo\<close>: one definition per
    statement; a constraint that rejects a statement is its \<open>None\<close>.

  \<^bold>\<open>Storage.\<close> \<open>Json\<close>, \<open>SessionIndex\<close>, \<open>TtlKey\<close>, \<open>KvStore\<close>, \<open>TtlStore\<close>, \<open>AttemptBudget\<close>: \<open>src/ttl-*.ts\<close>,
  \<open>src/kv-store.*.ts\<close>, \<open>src/session-index.ts\<close>, \<open>src/attempt-budget.ts\<close>. The interface \<open>TtlStorage\<close> is the locale
  \<open>ttl_storage\<close>, interpreted on the Durable Objects (\<open>durable\<close>), on the store in memory (\<open>memory\<close>) and on that of
  the test server in Postgres (\<open>postgres\<close>, in \<open>PostgresTtl\<close>).

  \<^bold>\<open>Companies, members, invitations.\<close> \<open>AuthApi\<close> (the wrapper of better-auth), \<open>Account\<close>, \<open>Guards\<close>, \<open>Membership\<close>,
  \<open>Company\<close>, \<open>Invitation\<close> model the directories of these names; \<open>EmailText\<close> and \<open>Urls\<close> what they say and link to.

  \<^bold>\<open>The second factor.\<close> \<open>MfaCrypto\<close>, \<open>MfaEnrollment\<close>, \<open>LoginChallenge\<close>, \<open>PrimaryAuth\<close>: \<open>src/mfa\<close> and
  \<open>src/auth-plugins\<close>. \<open>MfaStates\<close> is the abstract specification: absent, pending, enabled, as a step relation that
  every operation refines.

  \<^bold>\<open>The service as a transition system.\<close> \<open>OwnerInvariant\<close>, \<open>SingleUse\<close>, \<open>Lifecycle\<close>, \<open>Statements\<close>. A step of
  \<open>Lifecycle.service_step\<close> is any operation with any grant, ending in any way, a sign-up or a profile edit by
  better-auth, or the world moving on. The locale \<open>service_invariant\<close> is the interface of an invariant, interpreted
  as \<open>schema\<close> (\<open>wf_db\<close>), \<open>ownership\<close> (\<open>companyInv\<close>), \<open>invitations\<close> (\<open>invitationColumns\<close>) and
  \<open>enrolled\<close> (\<open>RecoveryCodes.codesEnrolled\<close>). The locale
  \<open>single_use\<close> is the contract of a credential that counts once; it is interpreted on recovery codes, TOTP time
  steps, invitations and login challenges, as statements and as whole operations.

  \<^bold>\<open>The edges.\<close> \<open>RequestContext\<close>, \<open>Cookies\<close>, \<open>RouteErrors\<close>, \<open>Links\<close>, \<open>Entry\<close>: who asks, cookies and service keys, how
  a failure is answered, the addresses built and read, the entry routes. \<open>SpaContract\<close> and \<open>SpaHandlers\<close>: the HTTP
  API, all its endpoints. \<open>Rpc\<close> and \<open>AuthGuard\<close>: the RPC handlers and the library of the consumers. \<open>Emails\<close>: the five mails
  as trees of elements and how they are dispatched. \<open>Boot\<close> and \<open>Reports\<close>: how a worker starts (the locale \<open>once_guard\<close>
  is the contract of \<open>onceUntilSucceeded\<close>, interpreted on the start and on the copying of the secrets), what better-auth
  is configured with, and what of a request is reported.

  \<^bold>\<open>Around the service.\<close> \<open>Infra\<close>: the table of the deployed stages (\<open>infra\<close>), the worker a deployment describes,
  and the checks of a live worker and of a plan against the table. \<open>NonProduction\<close>: the worker that is served outside of
  production only, with the developer home (\<open>testing\<close>, \<open>db/testing\<close>, \<open>web/non-production\<close>) that signs a developer in as
  one of a few accounts; its state is that of the service with the recorded links and the accounts a browser has shown.
  \<open>TestApi\<close>: the API that prepares users for tests with the operations of the service (\<open>TestApiProperties\<close>: what it and
  the developer home do to the database is a run of the transition system, so the invariants hold there too).
  \<open>TestDatabase\<close>: the seeding of the development accounts, which is idempotent and keeps the constraints, and the start
  of the test server, which writes into no database that is not local. \<open>Lint\<close>: the rules that keep effects out of the pages (\<open>lint\<close>).

  \<^bold>\<open>The web application.\<close> \<open>WebFlows\<close> (the page of the login challenge, texts for failures, accepting an invitation),
  \<open>WebShared\<close>, \<open>WebMembers\<close>, \<open>WebCompany\<close>, \<open>WebMfa\<close>, \<open>WebRoutes\<close>, and \<open>WebViews\<close> (what the pages show, and that a
  control is offered exactly when using it starts something). A page is a record of its React state, a function
  that takes an event to the state after and the chain of promises it starts, and a function that says what the end of a
  step of the chain does. The locale \<open>busy_page\<close> is the contract of a page with a busy flag; \<open>ui_reachable\<close> are the
  states any sequence of events and ends leads to. It is interpreted on every page and dialog of these theories.

  \<^bold>\<open>What is proved.\<close> Each property is one theorem, labelled with its number.
  \<^item> \<open>ServiceProperties\<close> (C1, C2, C22, C23): in every reachable database an active company has an
    owner, a current company is a membership and the schema's constraints hold; audit entries are for ever.
  \<^item> \<open>CompanyProperties\<close> (C7, C8, C9, C16, C17, C18): what a success of each operation on companies
    and members did, and nothing else; that a failure leaves the database alone.
  \<^item> \<open>OperationProperties\<close> (C10): accepting an invitation: what was needed and what was done.
  \<^item> \<open>MfaProperties\<close> (C3, C4, C11, C12, C25): the second factor cannot be bypassed, credentials
    count once, the operations refine the state machine, codes are generated and secrets read back.
  \<^item> \<open>RecoveryCodes\<close> (C13): the recovery codes an enrollment was answered with open the account.
  \<^item> \<open>StorageProperties\<close> (C19, C20, C26): budgets are kept, the two stores agree, no session is
    lost from the index.
  \<^item> \<open>SpaProperties\<close> (C5, C6, C24): the HTTP API fails closed, fails only as declared, and reaches
    only states of the transition system, so that the invariants hold behind it.
  \<^item> \<open>RpcProperties\<close> (C14, C15, C21): only holders of a service key are served; a confirmed session
    is current; the two protocols of the library agree.
  \<^item> \<open>RouteProperties\<close> (C27, C28, C29): redirects, round trips of links, answers to failures.
  \<^item> \<open>WebProperties\<close> (C30): the page of the login challenge sends one request at a time and is
    never stuck.
  \<^item> \<open>WebMembersProperties\<close> (C36): the pages offer what the guards of the service grant.
  \<^item> \<open>WebPagesProperties\<close> (C37, C38, C40): every page does one thing at a time, has a text for each
    declared failure, loses no recovery code and redirects safely.
  \<^item> \<open>EmailProperties\<close> (C32): a sign-in mail goes once, to its recipient, and links to nothing
    else.
  \<^item> \<open>BootProperties\<close> (C31): requests wait for the secrets; lemmas show that a start is consistent
    and reports leave secrets out.
  \<^item> \<open>InfraProperties\<close> (C33): a worker deployed from the table starts with what its stage says; the
    comparison of a live worker is exact.
  \<^item> \<open>NonProductionProperties\<close> (C34, C35): the developer home is closed in production and signs in
    only as known accounts; its page reads what was written for it.
  \<^item> \<open>TestUsers\<close> (C39): a user prepared for a test is what the request asked for.
  \<^item> \<open>Divergences\<close>: two runs in which the code parts from its documents, because a grant is not
    looked at again when its transaction starts.
  \<open>Demo\<close> has the database and the environment of the witnesses.

  \<^bold>\<open>What is relied on.\<close> Code outside the repository is a parameter: better-auth (\<open>better_auth\<close>), the URL parser
  (\<open>url_parser\<close>), AES-GCM, TOTP and cookie parsing (\<open>mfa_deps\<close>), SHA-256, the blob store. Hypotheses on them are named:
  \<open>auth_frame\<close> and \<open>service_frame\<close> (better-auth and the mailer do not write the program's tables), \<open>aes_inverts\<close>
  (decryption inverts encryption), \<open>fairBytes\<close> (random bytes come that a code can use), \<open>steadySession\<close> (better-auth
  answers the same on an unchanged session), \<open>testing_frame\<close> (better-auth does not write the accounts of a browser),
  \<open>test_frame\<close> (of better-auth's calls only the creation of a user writes the program's tables, and that is a sign-up).
  Each is met by the demonstration environment or by a witness.

  \<^bold>\<open>Bounds and fuel.\<close> Reads of the store are tried three times, as the source does. The JSON parser takes fuel, and
  \<open>jsonParse\<close> gives it more than the length of the text, which \<open>jsonParse_stringify\<close> shows is enough.
  \<open>randomCharsFrom\<close> draws until it has enough bytes and is a \<open>partial_function\<close>; that it ends is C25. Time is in
  milliseconds; times, revisions and counters are integers, which JavaScript's numbers are far below \<open>2 ^ 53\<close>.

  \<^bold>\<open>Not modelled.\<close> Code of others: better-auth, Drizzle and PostgreSQL beyond the constraints of the schema, Hono's and
  TanStack's routers, the reactive store of the pages, rendering React elements to HTML, the layers of the dependency
  container, Vercel Blob and Resend beyond the calls made to them. Code without logic of the service: markup and styles,
  the QR code and the clipboard, files generated from the protocol, shell scripts, the listener of the test server, and
  tests.
\<close>

end
